(* ===== verification/Prelude.thy ===== *)
theory Prelude
  imports "HOL-Library.Word"
begin

unbundle bit_operations_syntax

section \<open>Shared types, the result type of fallible C code and byte lemmas\<close>

text \<open>
  What every component uses: bytes, the error codes of \<^verbatim>\<open>CWErrorHandling.h\<close>, the result
  type of a C function that may succeed, raise one of these codes (and return
  \<^verbatim>\<open>CW_FALSE\<close>) or touch memory it must not touch, Ethernet addresses and the big-endian
  byte strings of the protocol.

  \<^item> \<open>Ret x\<close>: the function returns normally with \<open>x\<close>;
  \<^item> \<open>Raise e\<close>: it calls \<^verbatim>\<open>CWErrorRaise(e, ...)\<close> and returns \<^verbatim>\<open>CW_FALSE\<close>;
  \<^item> \<open>Fault\<close>: it reads or writes outside the allocated block, or follows a null pointer.
    The C code checks none of these, so a \<open>Fault\<close> is never handled by the code.
\<close>

named_theorems res_simps \<open>evaluation of results\<close>
named_theorems wire \<open>what an operation puts on the wire or takes from it\<close>

type_synonym byte = "8 word"

datatype CWErrorCode =
    CW_ERROR_SUCCESS | CW_ERROR_OUT_OF_MEMORY | CW_ERROR_WRONG_ARG | CW_ERROR_INTERRUPTED
  | CW_ERROR_NEED_RESOURCE | CW_ERROR_COMUNICATING | CW_ERROR_CREATING | CW_ERROR_GENERAL
  | CW_ERROR_OPERATION_ABORTED | CW_ERROR_SENDING | CW_ERROR_RECEIVING
  | CW_ERROR_INVALID_FORMAT | CW_ERROR_TIME_EXPIRED | CW_ERROR_NONE

datatype 'a res = Ret 'a | Raise CWErrorCode | Fault

fun res_bind :: "'a res \<Rightarrow> ('a \<Rightarrow> 'b res) \<Rightarrow> 'b res" where
  "res_bind (Ret x) f = f x"
| "res_bind (Raise e) f = Raise e"
| "res_bind Fault f = Fault"

lemma res_bind_cong [fundef_cong]:
  "r = s \<Longrightarrow> (\<And>x. s = Ret x \<Longrightarrow> f x = g x) \<Longrightarrow> res_bind r f = res_bind s g"
  by (cases s) auto

lemma res_bind_Ret_iff [res_simps]:
  "res_bind r f = Ret y \<longleftrightarrow> (\<exists>x. r = Ret x \<and> f x = Ret y)"
  by (cases r) auto

lemma res_bind_Raise_iff [res_simps]:
  "res_bind r f = Raise e \<longleftrightarrow> r = Raise e \<or> (\<exists>x. r = Ret x \<and> f x = Raise e)"
  by (cases r) auto

lemma res_bind_Fault_iff [res_simps]:
  "res_bind r f = Fault \<longleftrightarrow> r = Fault \<or> (\<exists>x. r = Ret x \<and> f x = Fault)"
  by (cases r) auto

lemma res_bind_assoc [res_simps]:
  "res_bind (res_bind r f) g = res_bind r (\<lambda>x. res_bind (f x) g)"
  by (cases r) auto

lemma res_bind_Ret_right [simp]: "res_bind r Ret = r"
  by (cases r) auto

text \<open>\<open>res_bind\<close> over the elements of a list, left to right: a C loop that stops at the
  first failing call.\<close>

fun res_map :: "('a \<Rightarrow> 'b res) \<Rightarrow> 'a list \<Rightarrow> 'b list res" where
  "res_map f [] = Ret []"
| "res_map f (x # xs) = res_bind (f x) (\<lambda>y. res_bind (res_map f xs) (\<lambda>ys. Ret (y # ys)))"

lemma res_map_Ret: "(\<And>x. x \<in> set xs \<Longrightarrow> f x = Ret (g x)) \<Longrightarrow> res_map f xs = Ret (map g xs)"
  by (induction xs) auto

lemma res_map_cong [fundef_cong]:
  "xs = ys \<Longrightarrow> (\<And>x. x \<in> set ys \<Longrightarrow> f x = g x) \<Longrightarrow> res_map f xs = res_map g ys"
  by (induction ys arbitrary: xs) auto

subsection \<open>Ethernet addresses\<close>

text \<open>\<^verbatim>\<open>unsigned char staAddr[ETH_ALEN]\<close>: six bytes, compared byte by byte.\<close>

datatype eth = Eth byte byte byte byte byte byte

abbreviation ETH_ALEN :: nat where "ETH_ALEN \<equiv> 6"

fun eth_bytes :: "eth \<Rightarrow> byte list" where
  "eth_bytes (Eth a b c d e f) = [a, b, c, d, e, f]"

fun eth_of_bytes :: "byte list \<Rightarrow> eth option" where
  "eth_of_bytes (a # b # c # d # e # f # _) = Some (Eth a b c d e f)"
| "eth_of_bytes _ = None"

lemma length_eth_bytes [simp]: "length (eth_bytes a) = 6"
  by (cases a) simp

lemma eth_bytes_inject [simp]: "eth_bytes a = eth_bytes b \<longleftrightarrow> a = b"
  by (cases a; cases b) auto

lemma eth_of_bytes_eth_bytes [simp]: "eth_of_bytes (eth_bytes a @ xs) = Some a"
  by (cases a) simp

lemma eth_of_bytes_eth_bytes0 [simp]: "eth_of_bytes (eth_bytes a) = Some a"
  using eth_of_bytes_eth_bytes [of a "[]"] by simp

subsection \<open>Big-endian byte strings\<close>

text \<open>
  \<open>htons\<close> and \<open>htonl\<close> followed by a copy of the bytes give network (big-endian) order on
  every host; \<open>be16\<close> and \<open>be32\<close> are these bytes, \<open>of_be16\<close> and \<open>of_be32\<close> the values
  that \<open>ntohs\<close> and \<open>ntohl\<close> give back.
\<close>

definition be16 :: "16 word \<Rightarrow> byte list" where
  "be16 v = [ucast (drop_bit 8 v), ucast v]"

definition be32 :: "32 word \<Rightarrow> byte list" where
  "be32 v = [ucast (drop_bit 24 v), ucast (drop_bit 16 v), ucast (drop_bit 8 v), ucast v]"

fun of_be16 :: "byte list \<Rightarrow> 16 word" where
  "of_be16 [a, b] = push_bit 8 (ucast a) OR ucast b"
| "of_be16 _ = 0"

fun of_be32 :: "byte list \<Rightarrow> 32 word" where
  "of_be32 [a, b, c, d] =
     push_bit 24 (ucast a) OR push_bit 16 (ucast b) OR push_bit 8 (ucast c) OR ucast d"
| "of_be32 _ = 0"

lemma length_be16 [simp]: "length (be16 v) = 2"
  by (simp add: be16_def)

lemma length_be32 [simp]: "length (be32 v) = 4"
  by (simp add: be32_def)

lemma of_be16_be16 [simp]: "of_be16 (be16 v) = v"
  unfolding be16_def of_be16.simps
  by (rule bit_word_eqI) (auto simp: bit_simps)

lemma of_be32_be32 [simp]: "of_be32 (be32 v) = v"
proof (rule bit_word_eqI)
  fix n assume "n < LENGTH(32)"
  then have n: "n < 32" by simp
  then consider "n < 8" | "8 \<le> n" "n < 16" | "16 \<le> n" "n < 24" | "24 \<le> n" by linarith
  then show "bit (of_be32 (be32 v)) n = bit v n"
    by cases (use n in \<open>auto simp: be32_def bit_simps\<close>)
qed

lemma byte_high: "8 \<le> n \<Longrightarrow> \<not> bit (x :: byte) n"
  using bit_imp_le_length [of x n] by auto

lemma be32_of_be32 [simp]: "length bs = 4 \<Longrightarrow> be32 (of_be32 bs) = bs"
proof -
  assume "length bs = 4"
  then obtain a b c d where "bs = [a, b, c, d]"
    by (auto simp: length_Suc_conv numeral_eq_Suc)
  then show ?thesis by (auto simp: be32_def bit_simps byte_high intro!: bit_word_eqI)
qed

end
