(* ===== verification/StationTree.thy ===== *)
theory StationTree
  imports Prelude
begin

section \<open>CWAVL.c: the AVL tree of associated stations\<close>

text \<open>
  The AC keeps one tree \<^verbatim>\<open>avlTree\<close> that maps the Ethernet address of an associated station to
  the index of its WTP; the WTP keeps the same tree with the index of the BSS. A C pointer to
  a node is a value of \<open>nodeAVL\<close>, \<open>NULL\<close> the null pointer; the functions return the root
  they return in C. A function that can follow a null pointer returns an \<open>option\<close>, with
  \<open>None\<close> for that crash. The log calls and \<^verbatim>\<open>free\<close> have no counterpart. \<^verbatim>\<open>BSSID\<close> is
  \<open>None\<close> while the field has not been written (\<^verbatim>\<open>AVLinsert\<close> leaves it uninitialised when
  its argument is null).
\<close>

subsection \<open>compareEthAddr and the order of the keys\<close>

fun compareEthAddr_loop :: "byte list \<Rightarrow> byte list \<Rightarrow> int" where
  "compareEthAddr_loop (x # xs) (y # ys) =
     (if uint x > uint y then 1 else if uint x < uint y then -1 else compareEthAddr_loop xs ys)"
| "compareEthAddr_loop _ _ = 0"

definition compareEthAddr :: "eth \<Rightarrow> eth \<Rightarrow> int" where
  "compareEthAddr staAddr AVLaddr = compareEthAddr_loop (eth_bytes staAddr) (eth_bytes AVLaddr)"

text \<open>
  The value of an address as a 48-bit number, most significant byte first: \<open>compareEthAddr\<close>
  is the sign of the difference.
\<close>

fun bytes_val :: "byte list \<Rightarrow> nat" where
  "bytes_val [] = 0"
| "bytes_val (x # xs) = unat x * 256 ^ length xs + bytes_val xs"

definition eth_val :: "eth \<Rightarrow> nat" where
  "eth_val a = bytes_val (eth_bytes a)"

lemma bytes_val_less: "bytes_val xs < 256 ^ length xs"
proof (induction xs)
  case (Cons x xs)
  have "unat x < 256" using unsigned_less [where 'a = nat and w = x] by simp
  then have "(unat x + 1) * 256 ^ length xs \<le> 256 * 256 ^ length xs"
    by (intro mult_le_mono1) simp
  with Cons.IH have "unat x * 256 ^ length xs + bytes_val xs < 256 * 256 ^ length xs"
    unfolding add_mult_distrib by linarith
  then show ?case by simp
qed simp

lemma bytes_val_less_msb:
  assumes "unat x < unat y" and "length xs = length ys"
  shows "bytes_val (x # xs) < bytes_val (y # ys)"
proof -
  have "(unat x + 1) * 256 ^ length ys \<le> unat y * 256 ^ length ys"
    using assms(1) by (intro mult_le_mono1) simp
  then show ?thesis using bytes_val_less [of xs] assms(2) by simp
qed

lemma compareEthAddr_loop_sgn:
  "length xs = length ys \<Longrightarrow>
   compareEthAddr_loop xs ys = sgn (int (bytes_val xs) - int (bytes_val ys))"
proof (induction xs ys rule: list_induct2)
  case (Cons x xs y ys)
  consider "x < y" | "y < x" | "x = y" by (rule linorder_cases)
  then show ?case
  proof cases
    case 1
    then have "bytes_val (x # xs) < bytes_val (y # ys)"
      by (intro bytes_val_less_msb Cons.hyps) (simp add: word_less_nat_alt)
    then have "sgn (int (bytes_val (x # xs)) - int (bytes_val (y # ys))) = -1"
      by (intro sgn_neg) (simp del: bytes_val.simps)
    with 1 show ?thesis by (simp add: word_less_alt [symmetric] del: bytes_val.simps)
  next
    case 2
    then have "bytes_val (y # ys) < bytes_val (x # xs)"
      by (intro bytes_val_less_msb Cons.hyps [symmetric]) (simp add: word_less_nat_alt)
    then have "sgn (int (bytes_val (x # xs)) - int (bytes_val (y # ys))) = 1"
      by (intro sgn_pos) (simp del: bytes_val.simps)
    with 2 show ?thesis by (simp add: word_less_alt [symmetric] del: bytes_val.simps)
  next
    case 3
    with Cons show ?thesis by simp
  qed
qed simp

lemma compareEthAddr_sgn: "compareEthAddr a b = sgn (int (eth_val a) - int (eth_val b))"
  by (simp add: compareEthAddr_def eth_val_def compareEthAddr_loop_sgn)

lemma bytes_val_inj: "length xs = length ys \<Longrightarrow> bytes_val xs = bytes_val ys \<Longrightarrow> xs = ys"
proof (induction xs ys rule: list_induct2)
  case (Cons x xs y ys)
  have "unat x = unat y"
    using bytes_val_less_msb [of x y xs ys] bytes_val_less_msb [of y x ys xs] Cons
    by (metis less_irrefl linorder_neqE_nat)
  with Cons show ?case by (simp add: word_unat_eq_iff)
qed simp

lemma eth_val_inject [simp]: "eth_val a = eth_val b \<longleftrightarrow> a = b"
  using bytes_val_inj [of "eth_bytes a" "eth_bytes b"] by (auto simp: eth_val_def)

lemma compareEthAddr_le: "compareEthAddr a b \<le> 0 \<longleftrightarrow> eth_val a \<le> eth_val b"
  and compareEthAddr_less: "compareEthAddr a b < 0 \<longleftrightarrow> eth_val a < eth_val b"
  and compareEthAddr_greater: "compareEthAddr a b > 0 \<longleftrightarrow> eth_val b < eth_val a"
  by (auto simp: compareEthAddr_sgn sgn_if eth_val_inject [symmetric] simp del: eth_val_inject)

text \<open>The order of the keys in the tree is the one \<open>compareEthAddr\<close> decides.\<close>

instantiation eth :: linorder
begin

definition less_eth :: "eth \<Rightarrow> eth \<Rightarrow> bool" where
  "less_eth a b \<longleftrightarrow> compareEthAddr a b < 0"

definition less_eq_eth :: "eth \<Rightarrow> eth \<Rightarrow> bool" where
  "less_eq_eth a b \<longleftrightarrow> compareEthAddr a b \<le> 0"

instance
  by standard (auto simp: less_eth_def less_eq_eth_def compareEthAddr_le compareEthAddr_less)

end

lemma compareEthAddr_neg [simp]: "compareEthAddr a b < 0 \<longleftrightarrow> a < b"
  by (rule less_eth_def [symmetric])

lemma compareEthAddr_pos [simp]: "compareEthAddr a b > 0 \<longleftrightarrow> b < a"
  unfolding less_eth_def compareEthAddr_greater compareEthAddr_less ..

lemma compareEthAddr_zero [simp]: "compareEthAddr a b = 0 \<longleftrightarrow> a = b"
  by (auto simp: compareEthAddr_sgn sgn_if)

subsection \<open>Nodes, heights and rotations\<close>

record nodeInfo =
  index :: int
  radioID :: int
  staAddr :: eth
  BSSID :: "eth option"

datatype nodeAVL = NULL | NODE (info: nodeInfo) (left: nodeAVL) (right: nodeAVL) (height: int)

fun AVLheight :: "nodeAVL \<Rightarrow> int" where
  "AVLheight NULL = -1"
| "AVLheight (NODE i l r h) = h"

definition AVLmax :: "int \<Rightarrow> int \<Rightarrow> int" where
  "AVLmax l r = (if l > r then l else r)"

lemma AVLmax_eq [simp]: "AVLmax l r = max l r"
  by (simp add: AVLmax_def max_def)

fun AVLgetBalance :: "nodeAVL \<Rightarrow> int" where
  "AVLgetBalance NULL = 0"
| "AVLgetBalance (NODE i l r h) = AVLheight l - AVLheight r"

fun AVLsingle_rotate_with_left :: "nodeAVL \<Rightarrow> nodeAVL option" where
  "AVLsingle_rotate_with_left (NODE i2 (NODE i1 a b h1) c h2) =
     (let h2' = AVLmax (AVLheight b) (AVLheight c) + 1
      in Some (NODE i1 a (NODE i2 b c h2') (AVLmax (AVLheight a) h2' + 1)))"
| "AVLsingle_rotate_with_left _ = None"

fun AVLsingle_rotate_with_right :: "nodeAVL \<Rightarrow> nodeAVL option" where
  "AVLsingle_rotate_with_right (NODE i1 a (NODE i2 b c h2) h1) =
     (let h1' = AVLmax (AVLheight a) (AVLheight b) + 1
      in Some (NODE i2 (NODE i1 a b h1') c (AVLmax (AVLheight c) h1' + 1)))"
| "AVLsingle_rotate_with_right _ = None"

fun AVLdouble_rotate_with_left :: "nodeAVL \<Rightarrow> nodeAVL option" where
  "AVLdouble_rotate_with_left (NODE i3 l r h) =
     (case AVLsingle_rotate_with_right l of
        None \<Rightarrow> None
      | Some l' \<Rightarrow> AVLsingle_rotate_with_left (NODE i3 l' r h))"
| "AVLdouble_rotate_with_left NULL = None"

fun AVLdouble_rotate_with_right :: "nodeAVL \<Rightarrow> nodeAVL option" where
  "AVLdouble_rotate_with_right (NODE i1 l r h) =
     (case AVLsingle_rotate_with_left r of
        None \<Rightarrow> None
      | Some r' \<Rightarrow> AVLsingle_rotate_with_right (NODE i1 l r' h))"
| "AVLdouble_rotate_with_right NULL = None"

subsection \<open>Searching\<close>

fun AVLfind :: "eth option \<Rightarrow> nodeAVL \<Rightarrow> nodeAVL" where
  "AVLfind None t = NULL"
| "AVLfind (Some a) NULL = NULL"
| "AVLfind (Some a) (NODE i l r h) =
     (if compareEthAddr a (staAddr i) < 0 then AVLfind (Some a) l
      else if compareEthAddr a (staAddr i) > 0 then AVLfind (Some a) r
      else NODE i l r h)"

text \<open>
  \<open>AVLfindWTPNode\<close> discards the results of its recursive calls and reaches its end without
  a return statement: unless the root is null or matches, the returned pointer is undefined,
  which is \<open>None\<close> here.
\<close>

fun AVLfindWTPNode :: "nodeAVL \<Rightarrow> int \<Rightarrow> nodeAVL option" where
  "AVLfindWTPNode NULL idx = Some NULL"
| "AVLfindWTPNode (NODE i l r h) idx = (if index i = idx then Some (NODE i l r h) else None)"

fun AVLfind_min :: "nodeAVL \<Rightarrow> nodeAVL" where
  "AVLfind_min NULL = NULL"
| "AVLfind_min (NODE i NULL r h) = NODE i NULL r h"
| "AVLfind_min (NODE i l r h) = AVLfind_min l"

fun AVLfind_max :: "nodeAVL \<Rightarrow> nodeAVL" where
  "AVLfind_max NULL = NULL"
| "AVLfind_max (NODE i l NULL h) = NODE i l NULL h"
| "AVLfind_max (NODE i l r h) = AVLfind_max r"

text \<open>\<open>AVLminValueNode\<close> reads \<^verbatim>\<open>current->left\<close> before any test: a null argument crashes.\<close>

fun AVLminValueNode :: "nodeAVL \<Rightarrow> nodeInfo option" where
  "AVLminValueNode NULL = None"
| "AVLminValueNode (NODE i NULL r h) = Some i"
| "AVLminValueNode (NODE i l r h) = AVLminValueNode l"

subsection \<open>Insertion\<close>

text \<open>
  \<open>mem\<close> says whether the one \<^verbatim>\<open>malloc\<close> of an insertion succeeds. A null station address
  makes the C function return a null pointer, whatever the tree was.
\<close>

text \<open>The last step of an insertion, \<^verbatim>\<open>t->height = ...\<close>, reads and writes through the root.\<close>

fun AVLset_height :: "nodeAVL \<Rightarrow> nodeAVL option" where
  "AVLset_height NULL = None"
| "AVLset_height (NODE i l r h) = Some (NODE i l r (AVLmax (AVLheight l) (AVLheight r) + 1))"

fun AVLinsert ::
  "bool \<Rightarrow> int \<Rightarrow> eth option \<Rightarrow> eth option \<Rightarrow> int \<Rightarrow> nodeAVL \<Rightarrow> nodeAVL option" where
  "AVLinsert mem idx None bssid rid t = Some NULL"
| "AVLinsert mem idx (Some a) bssid rid NULL =
     (if mem then
        Some (NODE \<lparr>index = idx, radioID = rid, staAddr = a, BSSID = bssid\<rparr> NULL NULL
             (AVLmax (-1) (-1) + 1))
      else Some NULL)"
| "AVLinsert mem idx (Some a) bssid rid (NODE i l r h) =
     (if compareEthAddr a (staAddr i) < 0 then
         (case AVLinsert mem idx (Some a) bssid rid l of
            None \<Rightarrow> None
          | Some l' \<Rightarrow>
              if AVLheight l' - AVLheight r = 2 then
                (case l' of
                   NULL \<Rightarrow> None
                 | NODE li _ _ _ \<Rightarrow>
                     Option.bind
                       (if compareEthAddr a (staAddr li) < 0
                        then AVLsingle_rotate_with_left (NODE i l' r h)
                        else AVLdouble_rotate_with_left (NODE i l' r h))
                       AVLset_height)
              else AVLset_height (NODE i l' r h))
       else if compareEthAddr a (staAddr i) > 0 then
         (case AVLinsert mem idx (Some a) bssid rid r of
            None \<Rightarrow> None
          | Some r' \<Rightarrow>
              if AVLheight r' - AVLheight l = 2 then
                (case r' of
                   NULL \<Rightarrow> None
                 | NODE ri _ _ _ \<Rightarrow>
                     Option.bind
                       (if compareEthAddr a (staAddr ri) > 0
                        then AVLsingle_rotate_with_right (NODE i l r' h)
                        else AVLdouble_rotate_with_right (NODE i l r' h))
                       AVLset_height)
              else AVLset_height (NODE i l r' h))
       else AVLset_height (NODE i l r h))"

subsection \<open>Deletion\<close>

text \<open>
  Steps 2 and 3 of both delete functions: the new height, then the four cases of an
  unbalanced node, with the rotations the code calls.
\<close>

fun AVLdelete_rebalance :: "nodeAVL \<Rightarrow> nodeAVL option" where
  "AVLdelete_rebalance NULL = Some NULL"
| "AVLdelete_rebalance (NODE i l r _) =
     (let h = AVLmax (AVLheight l) (AVLheight r) + 1;
          balance = AVLgetBalance (NODE i l r h)
      in if balance > 1 \<and> AVLgetBalance l \<ge> 0 then
           AVLsingle_rotate_with_right (NODE i l r h)
         else if balance > 1 \<and> AVLgetBalance l < 0 then
           (case AVLsingle_rotate_with_left l of
              None \<Rightarrow> None
            | Some l' \<Rightarrow> AVLsingle_rotate_with_right (NODE i l' r h))
         else if balance < -1 \<and> AVLgetBalance r \<le> 0 then
           AVLsingle_rotate_with_left (NODE i l r h)
         else if balance < -1 \<and> AVLgetBalance r > 0 then
           (case AVLsingle_rotate_with_right r of
              None \<Rightarrow> None
            | Some r' \<Rightarrow> AVLsingle_rotate_with_left (NODE i l r' h))
         else Some (NODE i l r h))"

fun AVLdeleteNode :: "nodeAVL \<Rightarrow> eth option \<Rightarrow> int \<Rightarrow> nodeAVL option" where
  "AVLdeleteNode t None rid = Some NULL"
| "AVLdeleteNode NULL (Some a) rid = Some NULL"
| "AVLdeleteNode (NODE i l r h) (Some a) rid =
     (if compareEthAddr a (staAddr i) < 0 then
        Option.bind (AVLdeleteNode l (Some a) rid) (\<lambda>l'. AVLdelete_rebalance (NODE i l' r h))
      else if compareEthAddr a (staAddr i) > 0 then
        Option.bind (AVLdeleteNode r (Some a) rid) (\<lambda>r'. AVLdelete_rebalance (NODE i l r' h))
      else if radioID i = rid then
        (if (l = NULL \<or> r = NULL) \<and> radioID i = rid then
           AVLdelete_rebalance (if l \<noteq> NULL then l else r)
         else
           (case AVLminValueNode r of
              None \<Rightarrow> None
            | Some temp \<Rightarrow>
                Option.bind (AVLdeleteNode r (Some (staAddr temp)) (radioID temp))
                  (\<lambda>r'. AVLdelete_rebalance (NODE temp l r' h))))
      else AVLdelete_rebalance (NODE i l r h))"

text \<open>The node to delete is passed by pointer; only its address is read.\<close>

fun AVLdeleteNodeWithoutRadioID :: "nodeAVL \<Rightarrow> nodeInfo \<Rightarrow> nodeAVL option" where
  "AVLdeleteNodeWithoutRadioID NULL nodeToDelete = Some NULL"
| "AVLdeleteNodeWithoutRadioID (NODE i l r h) nodeToDelete =
     (if compareEthAddr (staAddr nodeToDelete) (staAddr i) < 0 then
        Option.bind (AVLdeleteNodeWithoutRadioID l nodeToDelete)
          (\<lambda>l'. AVLdelete_rebalance (NODE i l' r h))
      else if compareEthAddr (staAddr nodeToDelete) (staAddr i) > 0 then
        Option.bind (AVLdeleteNodeWithoutRadioID r nodeToDelete)
          (\<lambda>r'. AVLdelete_rebalance (NODE i l r' h))
      else if l = NULL \<or> r = NULL then
        AVLdelete_rebalance (if l \<noteq> NULL then l else r)
      else
        (case AVLminValueNode r of
           None \<Rightarrow> None
         | Some temp \<Rightarrow>
             Option.bind (AVLdeleteNodeWithoutRadioID r temp)
               (\<lambda>r'. AVLdelete_rebalance (NODE temp l r' h))))"

subsection \<open>The entries in order, the search-tree and the balance invariant\<close>

fun inorder :: "nodeAVL \<Rightarrow> nodeInfo list" where
  "inorder NULL = []"
| "inorder (NODE i l r h) = inorder l @ i # inorder r"

definition bst :: "nodeAVL \<Rightarrow> bool" where
  "bst t \<longleftrightarrow> sorted_wrt (<) (map staAddr (inorder t))"

fun avl :: "nodeAVL \<Rightarrow> bool" where
  "avl NULL = True"
| "avl (NODE i l r h) =
     (avl l \<and> avl r \<and> h = max (AVLheight l) (AVLheight r) + 1 \<and>
      \<bar>AVLheight l - AVLheight r\<bar> \<le> 1)"

lemma bst_NULL [simp]: "bst NULL"
  by (simp add: bst_def)

lemma bst_NODE [simp]:
  "bst (NODE i l r h) \<longleftrightarrow>
     bst l \<and> bst r \<and> (\<forall>x \<in> set (inorder l). staAddr x < staAddr i) \<and>
     (\<forall>x \<in> set (inorder r). staAddr i < staAddr x)"
  by (auto simp: bst_def sorted_wrt_append dest: order.strict_trans)

lemma avl_height_ge: "avl t \<Longrightarrow> AVLheight t \<ge> -1"
  by (induction t) auto

lemma avl_height_NULL: "avl t \<Longrightarrow> AVLheight t = -1 \<longleftrightarrow> t = NULL"
  by (cases t) (auto dest: avl_height_ge)

subsubsection \<open>Rotations\<close>

lemma inorder_rotate_left: "AVLsingle_rotate_with_left t = Some t' \<Longrightarrow> inorder t' = inorder t"
  by (cases t rule: AVLsingle_rotate_with_left.cases) (auto simp: Let_def)

lemma inorder_rotate_right: "AVLsingle_rotate_with_right t = Some t' \<Longrightarrow> inorder t' = inorder t"
  by (cases t rule: AVLsingle_rotate_with_right.cases) (auto simp: Let_def)

lemma inorder_double_left: "AVLdouble_rotate_with_left t = Some t' \<Longrightarrow> inorder t' = inorder t"
  by (cases t) (auto split: option.splits dest!: inorder_rotate_left inorder_rotate_right)

lemma inorder_double_right: "AVLdouble_rotate_with_right t = Some t' \<Longrightarrow> inorder t' = inorder t"
  by (cases t) (auto split: option.splits dest!: inorder_rotate_left inorder_rotate_right)

lemmas inorder_rotations =
  inorder_rotate_left inorder_rotate_right inorder_double_left inorder_double_right

lemma inorder_set_height: "AVLset_height t = Some t' \<Longrightarrow> inorder t' = inorder t"
  by (cases t) auto

lemma avl_AVLset_height: "avl t \<Longrightarrow> t \<noteq> NULL \<Longrightarrow> AVLset_height t = Some t"
  by (cases t) auto

lemma inorder_rebalance: "AVLdelete_rebalance t = Some t' \<Longrightarrow> inorder t' = inorder t"
  by (cases t) (auto simp: Let_def split: if_splits option.splits dest!: inorder_rotations)

declare AVLdelete_rebalance.simps(2) [simp del]

subsection \<open>Insertion: the tree stays an AVL search tree\<close>

text \<open>
  What an insertion did to a subtree: it kept the height, or it grew by one and then the side
  of the root where the new key lies is the higher one. The second case is what justifies
  the choice between the single and the double rotation, which the code makes by comparing
  keys rather than heights.
\<close>

definition grown :: "eth \<Rightarrow> nodeAVL \<Rightarrow> nodeAVL \<Rightarrow> bool" where
  "grown a t t' \<longleftrightarrow> avl t' \<and>
     (AVLheight t' = AVLheight t \<or>
      (AVLheight t' = AVLheight t + 1 \<and>
       (case t' of NULL \<Rightarrow> False
        | NODE i l r _ \<Rightarrow> (t = NULL \<and> l = NULL \<and> r = NULL) \<or>
            (a < staAddr i \<and> AVLheight l = AVLheight r + 1) \<or>
            (staAddr i < a \<and> AVLheight r = AVLheight l + 1))))"

lemma avl_set_height:
  "\<lbrakk>avl l; avl r; \<bar>AVLheight l - AVLheight r\<bar> \<le> 1\<rbrakk> \<Longrightarrow>
   avl (NODE i l r (max (AVLheight l) (AVLheight r) + 1))"
  by simp

lemma insert_rebalance_left:
  assumes "grown a l l'" "avl r" "avl l" "\<bar>AVLheight l - AVLheight r\<bar> \<le> 1"
    and "a < staAddr i" "AVLheight l' - AVLheight r = 2" "l' = NODE li ll lr lh"
  shows "\<exists>t'. (if a < staAddr li
               then AVLsingle_rotate_with_left (NODE i l' r h)
               else AVLdouble_rotate_with_left (NODE i l' r h)) = Some t' \<and>
              avl t' \<and> AVLheight t' = AVLheight l + 1"
proof -
  have g: "AVLheight l' = AVLheight l + 1" "AVLheight l = AVLheight r + 1" "avl l'"
    using assms by (auto simp: grown_def)
  have "l \<noteq> NULL" using g avl_height_ge [OF assms(2)] by auto
  with assms(1,7) g consider
      "a < staAddr li" "AVLheight ll = AVLheight lr + 1"
    | "staAddr li < a" "AVLheight lr = AVLheight ll + 1"
    by (auto simp: grown_def)
  then show ?thesis
  proof cases
    case 1
    with g assms(2,7) show ?thesis by (auto simp: Let_def)
  next
    case 2
    with g assms(7) avl_height_ge [of ll] obtain mi ml mr mh where "lr = NODE mi ml mr mh"
      by (cases lr) auto
    with 2 g assms(2,7) show ?thesis by (auto simp: Let_def)
  qed
qed

lemma insert_rebalance_right:
  assumes "grown a r r'" "avl l" "avl r" "\<bar>AVLheight l - AVLheight r\<bar> \<le> 1"
    and "staAddr i < a" "AVLheight r' - AVLheight l = 2" "r' = NODE ri rl rr rh"
  shows "\<exists>t'. (if staAddr ri < a
               then AVLsingle_rotate_with_right (NODE i l r' h)
               else AVLdouble_rotate_with_right (NODE i l r' h)) = Some t' \<and>
              avl t' \<and> AVLheight t' = AVLheight r + 1"
proof -
  have g: "AVLheight r' = AVLheight r + 1" "AVLheight r = AVLheight l + 1" "avl r'"
    using assms by (auto simp: grown_def)
  have "r \<noteq> NULL" using g avl_height_ge [OF assms(2)] by auto
  with assms(1,7) g consider
      "staAddr ri < a" "AVLheight rr = AVLheight rl + 1"
    | "a < staAddr ri" "AVLheight rl = AVLheight rr + 1"
    by (auto simp: grown_def)
  then show ?thesis
  proof cases
    case 1
    with g assms(2,7) show ?thesis by (auto simp: Let_def)
  next
    case 2
    with g assms(7) avl_height_ge [of rr] obtain mi ml mr mh where "rl = NODE mi ml mr mh"
      by (cases rl) auto
    with 2 g assms(2,7) show ?thesis by (auto simp: Let_def)
  qed
qed

lemma AVLinsert_grown:
  "avl t \<Longrightarrow> \<exists>t'. AVLinsert mem idx (Some a) bssid rid t = Some t' \<and> grown a t t'"
proof (induction t)
  case NULL
  then show ?case by (simp add: grown_def)
next
  case (NODE i l r h)
  then have inv: "avl l" "avl r" "\<bar>AVLheight l - AVLheight r\<bar> \<le> 1"
    and h: "h = max (AVLheight l) (AVLheight r) + 1" by auto
  consider "a < staAddr i" | "staAddr i < a" | "a = staAddr i" by (rule linorder_cases)
  then show ?case
  proof cases
    case 1
    obtain l' where l': "AVLinsert mem idx (Some a) bssid rid l = Some l'" "grown a l l'"
      using NODE.IH(1) inv by blast
    show ?thesis
    proof (cases "AVLheight l' - AVLheight r = 2")
      case True
      then obtain li ll lr lh where n: "l' = NODE li ll lr lh"
        using avl_height_ge [OF inv(2)] by (cases l') auto
      obtain t' where t': "(if a < staAddr li
           then AVLsingle_rotate_with_left (NODE i l' r h)
           else AVLdouble_rotate_with_left (NODE i l' r h)) = Some t'"
         "avl t'" "AVLheight t' = AVLheight l + 1"
        using insert_rebalance_left [OF l'(2) inv(2,1,3) 1 True n] by blast
      have ht: "AVLheight t' = h" using t'(3) True l'(2) inv(3) h by (auto simp: grown_def)
      then have "t' \<noteq> NULL" using h avl_height_ge [OF inv(1)] by auto
      then have "AVLset_height t' = Some t'" by (rule avl_AVLset_height [OF t'(2)])
      then show ?thesis
        using ht l' True 1 t'(1,2) n by (auto simp: grown_def simp del: AVLsingle_rotate_with_left.simps
              AVLdouble_rotate_with_left.simps)
    next
      case False
      with l' 1 inv h show ?thesis by (auto simp: grown_def Let_def)
    qed
  next
    case 2
    obtain r' where r': "AVLinsert mem idx (Some a) bssid rid r = Some r'" "grown a r r'"
      using NODE.IH(2) inv by blast
    show ?thesis
    proof (cases "AVLheight r' - AVLheight l = 2")
      case True
      then obtain ri rl rr rh where n: "r' = NODE ri rl rr rh"
        using avl_height_ge [OF inv(1)] by (cases r') auto
      obtain t' where t': "(if staAddr ri < a
           then AVLsingle_rotate_with_right (NODE i l r' h)
           else AVLdouble_rotate_with_right (NODE i l r' h)) = Some t'"
         "avl t'" "AVLheight t' = AVLheight r + 1"
        using insert_rebalance_right [OF r'(2) inv(1,2,3) 2 True n] by blast
      have ht: "AVLheight t' = h" using t'(3) True r'(2) inv(3) h by (auto simp: grown_def)
      then have "t' \<noteq> NULL" using h avl_height_ge [OF inv(1)] by auto
      then have "AVLset_height t' = Some t'" by (rule avl_AVLset_height [OF t'(2)])
      then show ?thesis
        using ht r' True 2 t'(1,2) n by (auto simp: grown_def simp del: AVLsingle_rotate_with_right.simps
              AVLdouble_rotate_with_right.simps)
    next
      case False
      with r' 2 inv h show ?thesis by (auto simp: grown_def Let_def)
    qed
  next
    case 3
    with NODE.prems show ?thesis by (auto simp: grown_def)
  qed
qed

text \<open>The entries after an insertion: the new one at its place, unless its key is there.\<close>

fun ins_info :: "nodeInfo \<Rightarrow> nodeInfo list \<Rightarrow> nodeInfo list" where
  "ins_info n [] = [n]"
| "ins_info n (x # xs) =
     (if staAddr n < staAddr x then n # x # xs
      else if staAddr n = staAddr x then x # xs
      else x # ins_info n xs)"

lemma ins_info_less:
  "\<forall>x \<in> set ys. staAddr n < staAddr x \<Longrightarrow> ins_info n (xs @ ys) = ins_info n xs @ ys"
  by (induction xs) (auto, cases ys, auto)

lemma ins_info_greater:
  "\<forall>x \<in> set xs. staAddr x < staAddr n \<Longrightarrow> ins_info n (xs @ ys) = xs @ ins_info n ys"
  by (induction xs) auto

lemma inorder_AVLinsert:
  "\<lbrakk>bst t; AVLinsert mem idx (Some a) bssid rid t = Some t'\<rbrakk> \<Longrightarrow>
   inorder t' = (if mem then
       ins_info \<lparr>index = idx, radioID = rid, staAddr = a, BSSID = bssid\<rparr> (inorder t)
     else inorder t)"
proof (induction t arbitrary: t')
  case NULL
  then show ?case by (auto split: if_splits)
next
  case (NODE i l r h)
  let ?n = "\<lparr>index = idx, radioID = rid, staAddr = a, BSSID = bssid\<rparr>"
  consider "a < staAddr i" | "staAddr i < a" | "a = staAddr i" by (rule linorder_cases)
  then show ?case
  proof cases
    case 1
    with NODE.prems(1) have *: "\<forall>x \<in> set (i # inorder r). staAddr ?n < staAddr x"
      by (auto dest: order.strict_trans)
    from 1 NODE.prems obtain l' where l': "AVLinsert mem idx (Some a) bssid rid l = Some l'"
      and "inorder t' = inorder l' @ i # inorder r"
      by (auto simp: Let_def split: option.splits if_splits nodeAVL.splits bind_splits
          dest!: inorder_rotations inorder_set_height)
    with NODE.IH(1) [OF _ l'] NODE.prems(1) ins_info_less [OF *] show ?thesis by simp
  next
    case 2
    with NODE.prems(1) have *: "\<forall>x \<in> set (inorder l). staAddr x < staAddr ?n"
      by (auto dest: order.strict_trans)
    from 2 NODE.prems obtain r' where r': "AVLinsert mem idx (Some a) bssid rid r = Some r'"
      and "inorder t' = inorder l @ i # inorder r'"
      by (auto simp: Let_def split: option.splits if_splits nodeAVL.splits bind_splits
          dest!: inorder_rotations inorder_set_height)
    with NODE.IH(2) [OF _ r'] NODE.prems(1) ins_info_greater [OF *] 2 show ?thesis by auto
  next
    case 3
    with NODE.prems have "inorder t' = inorder l @ i # inorder r" by auto
    moreover have "\<forall>x \<in> set (inorder l). staAddr x < staAddr ?n" using 3 NODE.prems(1) by simp
    ultimately show ?thesis using 3 by (simp add: ins_info_greater)
  qed
qed

subsection \<open>Searching is map lookup\<close>

text \<open>The table a tree stands for: from the station address to the entry.\<close>

definition table :: "nodeAVL \<Rightarrow> eth \<Rightarrow> nodeInfo option" where
  "table t = map_of (map (\<lambda>i. (staAddr i, i)) (inorder t))"

fun entry :: "nodeAVL \<Rightarrow> nodeInfo option" where
  "entry NULL = None"
| "entry (NODE i l r h) = Some i"

lemma map_of_entries_None:
  "\<forall>x \<in> set xs. staAddr x \<noteq> a \<Longrightarrow> map_of (map (\<lambda>i. (staAddr i, i)) xs) a = None"
  by (induction xs) auto

lemma table_NULL [simp]: "table NULL = (\<lambda>_. None)"
  by (simp add: table_def fun_eq_iff)

lemma table_NODE:
  assumes "bst (NODE i l r h)"
  shows "table (NODE i l r h) a =
    (if a < staAddr i then table l a else if staAddr i < a then table r a else Some i)"
proof -
  have "a \<le> staAddr i \<Longrightarrow> map_of (map (\<lambda>i. (staAddr i, i)) (inorder r)) a = None"
    using assms by (intro map_of_entries_None) (auto dest: order.strict_trans1)
  moreover have "staAddr i \<le> a \<Longrightarrow> map_of (map (\<lambda>i. (staAddr i, i)) (inorder l)) a = None"
    using assms by (intro map_of_entries_None) (auto dest: order.strict_trans2)
  ultimately show ?thesis
    by (auto simp: table_def map_add_def split: option.split)
qed

lemma table_key: "table t a = Some i \<Longrightarrow> staAddr i = a"
  by (auto simp: table_def dest!: map_of_SomeD)

lemma AVLfind_entry: "bst t \<Longrightarrow> entry (AVLfind (Some a) t) = table t a"
  by (induction t) (auto simp: table_NODE simp del: bst_NODE, auto)

lemma map_of_ins_info:
  "sorted_wrt (<) (map staAddr xs) \<Longrightarrow>
   map_of (map (\<lambda>i. (staAddr i, i)) (ins_info n xs)) =
     (let m = map_of (map (\<lambda>i. (staAddr i, i)) xs)
      in if m (staAddr n) = None then m(staAddr n \<mapsto> n) else m)"
proof (induction xs)
  case (Cons x xs)
  show ?case
  proof (cases "staAddr n < staAddr x")
    case True
    with Cons.prems have "\<forall>y \<in> set (x # xs). staAddr y \<noteq> staAddr n"
      by (auto dest: order.strict_trans)
    then have "map_of (map (\<lambda>i. (staAddr i, i)) (x # xs)) (staAddr n) = None"
      by (rule map_of_entries_None)
    with True show ?thesis by (auto simp: fun_eq_iff)
  next
    case False
    with Cons show ?thesis by (auto simp: fun_eq_iff Let_def)
  qed
qed simp

lemma sorted_ins_info:
  "sorted_wrt (<) (map staAddr xs) \<Longrightarrow> sorted_wrt (<) (map staAddr (ins_info n xs))"
proof (induction xs)
  case (Cons x xs)
  have "set (ins_info n xs) \<subseteq> insert n (set xs)" by (induction xs) auto
  with Cons show ?case by (auto dest: order.strict_trans)
qed simp

lemma AVLinsert_table:
  assumes "bst t" and "AVLinsert True idx (Some a) bssid rid t = Some t'"
  shows "bst t'"
    and "table t' = (if table t a = None
       then (table t)(a \<mapsto> \<lparr>index = idx, radioID = rid, staAddr = a, BSSID = bssid\<rparr>)
       else table t)"
  using inorder_AVLinsert [OF assms] assms(1)
  by (simp_all add: table_def map_of_ins_info bst_def sorted_ins_info Let_def)

subsection \<open>Deletion: what is deleted, and what its rebalancing does\<close>

lemma AVLminValueNode_hd: "t \<noteq> NULL \<Longrightarrow> AVLminValueNode t = Some (hd (inorder t))"
  by (induction t rule: AVLminValueNode.induct) (auto simp: hd_append)

lemma AVLfind_min_hd:
  "entry (AVLfind_min t) = (if inorder t = [] then None else Some (hd (inorder t)))"
  by (induction t rule: AVLfind_min.induct) (auto simp: hd_append)

lemma AVLfind_max_last:
  "entry (AVLfind_max t) = (if inorder t = [] then None else Some (last (inorder t)))"
  by (induction t rule: AVLfind_max.induct) auto

lemma inorder_eq_Nil [simp]: "inorder t = [] \<longleftrightarrow> t = NULL"
  by (cases t) auto

definition del_info :: "eth \<Rightarrow> int \<Rightarrow> nodeInfo list \<Rightarrow> nodeInfo list" where
  "del_info a rid xs = filter (\<lambda>i. \<not> (staAddr i = a \<and> radioID i = rid)) xs"

lemma del_info_append [simp]: "del_info a rid (xs @ ys) = del_info a rid xs @ del_info a rid ys"
  by (simp add: del_info_def)

lemma del_info_Cons [simp]:
  "del_info a rid (x # xs) =
     (if staAddr x = a \<and> radioID x = rid then del_info a rid xs else x # del_info a rid xs)"
  by (simp add: del_info_def)

lemma del_info_Nil [simp]: "del_info a rid [] = []"
  by (simp add: del_info_def)

lemma del_info_other: "\<forall>x \<in> set xs. staAddr x \<noteq> a \<Longrightarrow> del_info a rid xs = xs"
  by (auto simp: del_info_def filter_id_conv)

lemma inorder_AVLdeleteNode:
  "\<lbrakk>bst t; AVLdeleteNode t (Some a) rid = Some t'\<rbrakk> \<Longrightarrow> inorder t' = del_info a rid (inorder t)"
proof (induction t arbitrary: t' a rid)
  case NULL
  then show ?case by simp
next
  case (NODE i l r h)
  note bst = NODE.prems(1)
  consider "a < staAddr i" | "staAddr i < a" | "a = staAddr i" by (rule linorder_cases)
  then show ?case
  proof cases
    case 1
    with bst have *: "\<forall>x \<in> set (inorder r). staAddr x \<noteq> a"
      by (auto dest: order.strict_trans)
    from 1 NODE.prems(2) obtain l' where "AVLdeleteNode l (Some a) rid = Some l'"
      "AVLdelete_rebalance (NODE i l' r h) = Some t'" by (auto simp: bind_eq_Some_conv)
    with NODE.IH(1) bst 1 show ?thesis
      by (auto simp: del_info_other [OF *] dest!: inorder_rebalance)
  next
    case 2
    with bst have *: "\<forall>x \<in> set (inorder l). staAddr x \<noteq> a"
      by (auto dest: order.strict_trans)
    from 2 NODE.prems(2) obtain r' where "AVLdeleteNode r (Some a) rid = Some r'"
      "AVLdelete_rebalance (NODE i l r' h) = Some t'" by (auto simp: bind_eq_Some_conv split: if_splits)
    with NODE.IH(2) bst 2 show ?thesis
      by (auto simp: del_info_other [OF *] dest!: inorder_rebalance)
  next
    case 3
    with bst have *: "\<forall>x \<in> set (inorder l). staAddr x \<noteq> a" "\<forall>x \<in> set (inorder r). staAddr x \<noteq> a"
      by auto
    show ?thesis
    proof (cases "radioID i = rid \<and> l \<noteq> NULL \<and> r \<noteq> NULL")
      case True
      then obtain temp xs where temp: "AVLminValueNode r = Some temp" "inorder r = temp # xs"
        using AVLminValueNode_hd [of r] by (metis inorder_eq_Nil list.collapse)
      with True 3 NODE.prems(2) obtain r' where
        r': "AVLdeleteNode r (Some (staAddr temp)) (radioID temp) = Some r'"
        "AVLdelete_rebalance (NODE temp l r' h) = Some t'" by (auto simp: bind_eq_Some_conv)
      have "bst r" using bst by simp
      then have "\<forall>x \<in> set xs. staAddr x \<noteq> staAddr temp" using temp(2) by (auto simp: bst_def)
      then have "inorder r' = xs"
        using NODE.IH(2) [OF \<open>bst r\<close> r'(1)] temp(2) by (simp add: del_info_other)
      with r'(2) True 3 * temp(2) show ?thesis
        by (auto simp: del_info_other dest!: inorder_rebalance)
    next
      case False
      with 3 NODE.prems(2) * show ?thesis
        by (auto simp: del_info_other split: if_splits dest!: inorder_rebalance)
    qed
  qed
qed

lemma AVLdeleteNode_table:
  assumes "bst t" and "AVLdeleteNode t (Some a) rid = Some t'"
  shows "bst t'"
    and "table t' = (case table t a of
        None \<Rightarrow> table t
      | Some i \<Rightarrow> if radioID i = rid then (table t)(a := None) else table t)"
proof -
  have io: "inorder t' = del_info a rid (inorder t)" by (rule inorder_AVLdeleteNode [OF assms])
  show "bst t'"
    using assms(1) by (simp add: bst_def io del_info_def sorted_wrt_map sorted_wrt_filter)
  have "sorted_wrt (<) (map staAddr xs) \<Longrightarrow>
    map_of (map (\<lambda>i. (staAddr i, i)) (del_info a rid xs)) =
      (case map_of (map (\<lambda>i. (staAddr i, i)) xs) a of
         None \<Rightarrow> map_of (map (\<lambda>i. (staAddr i, i)) xs)
       | Some i \<Rightarrow> if radioID i = rid then (map_of (map (\<lambda>i. (staAddr i, i)) xs))(a := None)
                   else map_of (map (\<lambda>i. (staAddr i, i)) xs))" for xs
  proof (induction xs)
    case (Cons x xs)
    show ?case
    proof (cases "staAddr x = a")
      case True
      with Cons.prems have "\<forall>y \<in> set xs. staAddr y \<noteq> a" by auto
      with True show ?thesis
        by (auto simp: del_info_other fun_eq_iff map_of_entries_None)
    next
      case False
      with Cons show ?thesis by (auto simp: fun_eq_iff split: option.splits)
    qed
  qed simp
  with assms(1) show "table t' = (case table t a of
        None \<Rightarrow> table t
      | Some i \<Rightarrow> if radioID i = rid then (table t)(a := None) else table t)"
    unfolding table_def io bst_def by blast
qed

end
