(* ===== verification/StationTable.thy ===== *)
theory StationTable
  imports StationTree
begin

section \<open>The station table: what the clients of CWAVL.c rely on\<close>

text \<open>
  The interface of the tree towards its clients (association handling and frame forwarding in
  \<^verbatim>\<open>ACRunState.c\<close>, \<^verbatim>\<open>CWTunnel.c\<close>, WTP removal in \<^verbatim>\<open>ACMainLoop.c\<close>) as a locale, its
  interpretation on the model of \<^verbatim>\<open>CWAVL.c\<close>, the clients themselves, and the properties.
\<close>

subsection \<open>The interface\<close>

locale station_table =
  fixes invar :: "'t \<Rightarrow> bool"
    and lookup :: "'t \<Rightarrow> eth \<Rightarrow> nodeInfo option"
    and insert :: "nodeInfo \<Rightarrow> 't \<Rightarrow> 't option"
    and delete :: "'t \<Rightarrow> eth \<Rightarrow> int \<Rightarrow> 't option"
  assumes insert_invar: "\<lbrakk>invar t; insert n t = Some t'\<rbrakk> \<Longrightarrow> invar t'"
    and insert_lookup: "\<lbrakk>invar t; insert n t = Some t'\<rbrakk> \<Longrightarrow>
      lookup t' = (if lookup t (staAddr n) = None then (lookup t)(staAddr n \<mapsto> n) else lookup t)"
    and delete_invar: "\<lbrakk>invar t; delete t a rid = Some t'\<rbrakk> \<Longrightarrow> invar t'"
    and delete_lookup: "\<lbrakk>invar t; delete t a rid = Some t'\<rbrakk> \<Longrightarrow>
      lookup t' = (case lookup t a of None \<Rightarrow> lookup t
        | Some i \<Rightarrow> if radioID i = rid then (lookup t)(a := None) else lookup t)"
begin

lemma insert_fresh:
  "\<lbrakk>invar t; lookup t (staAddr n) = None; insert n t = Some t'\<rbrakk> \<Longrightarrow>
   lookup t' = (lookup t)(staAddr n \<mapsto> n)"
  by (simp add: insert_lookup)

text \<open>Delete-then-insert replaces an entry when the radio of the entry is the one given ...\<close>

lemma replace_same_radio:
  assumes "invar t" "lookup t (staAddr n) = Some i" "radioID i = rid"
    and "delete t (staAddr n) rid = Some t1" "insert n t1 = Some t2"
  shows "lookup t2 = (lookup t)(staAddr n \<mapsto> n)"
  using delete_lookup [OF assms(1,4)] insert_lookup [OF delete_invar [OF assms(1,4)] assms(5)]
    assms(2,3) by simp

text \<open>... and does nothing otherwise.\<close>

lemma replace_other_radio:
  assumes "invar t" "lookup t (staAddr n) = Some i" "radioID i \<noteq> rid"
    and "delete t (staAddr n) rid = Some t1" "insert n t1 = Some t2"
  shows "lookup t2 = lookup t"
  using delete_lookup [OF assms(1,4)] insert_lookup [OF delete_invar [OF assms(1,4)] assms(5)]
    assms(2,3) by simp

end

text \<open>A table whose insertion never fails on the states that insertions produce.\<close>

locale total_station_table = station_table invar lookup insert delete
  for invar :: "'t \<Rightarrow> bool" and lookup :: "'t \<Rightarrow> eth \<Rightarrow> nodeInfo option"
    and insert :: "nodeInfo \<Rightarrow> 't \<Rightarrow> 't option" and delete :: "'t \<Rightarrow> eth \<Rightarrow> int \<Rightarrow> 't option" +
  fixes balanced :: "'t \<Rightarrow> bool"
  assumes insert_total: "balanced t \<Longrightarrow> \<exists>t'. insert n t = Some t' \<and> balanced t'"
begin

fun insert_all :: "nodeInfo list \<Rightarrow> 't \<Rightarrow> 't option" where
  "insert_all [] t = Some t"
| "insert_all (n # ns) t = Option.bind (insert n t) (insert_all ns)"

lemma insert_all_total:
  "\<lbrakk>invar t; balanced t\<rbrakk> \<Longrightarrow>
   \<exists>t'. insert_all ns t = Some t' \<and> invar t' \<and> balanced t' \<and>
     (\<forall>a. lookup t' a = (case lookup t a of Some i \<Rightarrow> Some i
                          | None \<Rightarrow> find (\<lambda>n. staAddr n = a) ns))"
proof (induction ns arbitrary: t)
  case Nil
  then show ?case by (auto split: option.split)
next
  case (Cons n ns)
  obtain t1 where t1: "insert n t = Some t1" "balanced t1"
    using insert_total [OF Cons.prems(2)] by blast
  have "invar t1" by (rule insert_invar [OF Cons.prems(1) t1(1)])
  from Cons.IH [OF this t1(2)] obtain t' where
    "insert_all ns t1 = Some t'" "invar t'" "balanced t'"
    "\<forall>a. lookup t' a = (case lookup t1 a of Some i \<Rightarrow> Some i
                          | None \<Rightarrow> find (\<lambda>n. staAddr n = a) ns)" by blast
  with insert_lookup [OF Cons.prems(1) t1(1)] t1 show ?case
    by (auto split: option.split)
qed

end

subsection \<open>The tree provides it\<close>

definition insert_node :: "nodeInfo \<Rightarrow> nodeAVL \<Rightarrow> nodeAVL option" where
  "insert_node n t = AVLinsert True (index n) (Some (staAddr n)) (BSSID n) (radioID n) t"

definition delete_node :: "nodeAVL \<Rightarrow> eth \<Rightarrow> int \<Rightarrow> nodeAVL option" where
  "delete_node t a rid = AVLdeleteNode t (Some a) rid"

lemma nodeInfo_eta:
  "\<lparr>index = index n, radioID = radioID n, staAddr = staAddr n, BSSID = BSSID n\<rparr> = (n::nodeInfo)"
  by (cases n) simp

interpretation sta: total_station_table bst table insert_node delete_node avl
proof unfold_locales
  fix t t' :: nodeAVL and n
  assume "bst t" "insert_node n t = Some t'"
  then show "bst t'" "table t' = (if table t (staAddr n) = None then (table t)(staAddr n \<mapsto> n) else table t)"
    using AVLinsert_table [of t "index n" "staAddr n" "BSSID n" "radioID n" t']
    by (simp_all add: insert_node_def nodeInfo_eta)
next
  fix t t' :: nodeAVL and a rid
  assume "bst t" "delete_node t a rid = Some t'"
  then show "bst t'" "table t' = (case table t a of None \<Rightarrow> table t
        | Some i \<Rightarrow> if radioID i = rid then (table t)(a := None) else table t)"
    using AVLdeleteNode_table [of t a rid t'] by (simp_all add: delete_node_def)
next
  fix t :: nodeAVL and n
  assume "avl t"
  then show "\<exists>t'. insert_node n t = Some t' \<and> avl t'"
    using AVLinsert_grown [of t True "index n" "staAddr n" "BSSID n" "radioID n"]
    by (auto simp: insert_node_def grown_def)
qed

subsection \<open>Properties of the tree operations\<close>

text \<open>
  C24: Inserting a station into an AVL search tree succeeds without following a null pointer,
  the result is again an AVL search tree with correct stored heights, at most one higher, and
  the table gains exactly the new entry; a station that is already present keeps its old entry.
\<close>

theorem AVLinsert_correct:
  assumes "avl t" and "bst t"
  shows "\<exists>t'. AVLinsert True idx (Some a) bssid rid t = Some t' \<and> avl t' \<and> bst t' \<and>
    AVLheight t' \<in> {AVLheight t, AVLheight t + 1} \<and>
    table t' = (if table t a = None
      then (table t)(a \<mapsto> \<lparr>index = idx, radioID = rid, staAddr = a, BSSID = bssid\<rparr>)
      else table t)"
proof -
  obtain t' where t': "AVLinsert True idx (Some a) bssid rid t = Some t'" "grown a t t'"
    using AVLinsert_grown [OF assms(1)] by blast
  with AVLinsert_table [OF assms(2) t'(1)] show ?thesis by (auto simp: grown_def)
qed

definition ex_addr :: "byte \<Rightarrow> eth" where
  "ex_addr b = Eth 0 0 0 0 0 b"

definition ex_info :: "byte \<Rightarrow> nodeInfo" where
  "ex_info b = \<lparr>index = 0, radioID = 1, staAddr = ex_addr b, BSSID = None\<rparr>"

definition ex_leaf :: "byte \<Rightarrow> nodeAVL" where
  "ex_leaf b = NODE (ex_info b) NULL NULL 0"

theorem AVLinsert_correct_witness:
  "avl (ex_leaf 2) \<and> bst (ex_leaf 2) \<and>
   (\<exists>t'. AVLinsert True 7 (Some (ex_addr 1)) None 1 (ex_leaf 2) = Some t' \<and> avl t' \<and> bst t' \<and>
    AVLheight t' \<in> {AVLheight (ex_leaf 2), AVLheight (ex_leaf 2) + 1} \<and>
    table t' = (if table (ex_leaf 2) (ex_addr 1) = None
      then (table (ex_leaf 2))(ex_addr 1 \<mapsto>
             \<lparr>index = 7, radioID = 1, staAddr = ex_addr 1, BSSID = None\<rparr>)
      else table (ex_leaf 2)))"
proof -
  have "avl (ex_leaf 2)" "bst (ex_leaf 2)" by (simp_all add: ex_leaf_def)
  with AVLinsert_correct [of "ex_leaf 2" 7 "ex_addr 1" None 1] show ?thesis by blast
qed

text \<open>
  Searching an AVL search tree finds the entry of a station exactly when the table has one,
  and a null station address finds nothing.
\<close>

theorem AVLfind_correct:
  assumes "bst t"
  shows "entry (AVLfind staAddr' t) = (case staAddr' of None \<Rightarrow> None | Some a \<Rightarrow> table t a)"
  using AVLfind_entry [OF assms] by (cases staAddr') auto

theorem AVLfind_correct_witness:
  "bst (ex_leaf 2) \<and>
   entry (AVLfind (Some (ex_addr 2)) (ex_leaf 2)) = (case Some (ex_addr 2) of None \<Rightarrow> None
     | Some a \<Rightarrow> table (ex_leaf 2) a)"
proof -
  have b: "bst (ex_leaf 2)" by (simp add: ex_leaf_def)
  from b AVLfind_correct [OF b, of "Some (ex_addr 2)"] show ?thesis by blast
qed

text \<open>
  C29: Whenever deleting a station by address and radio returns, exactly the entry with that
  address and that radio is gone and the order of the tree is kept; an entry with another
  radio stays.
\<close>

theorem AVLdeleteNode_correct:
  assumes "bst t" and "AVLdeleteNode t (Some a) rid = Some t'"
  shows "bst t' \<and> inorder t' = filter (\<lambda>i. \<not> (staAddr i = a \<and> radioID i = rid)) (inorder t)"
  using AVLdeleteNode_table(1) [OF assms] inorder_AVLdeleteNode [OF assms]
  by (simp add: del_info_def)

theorem AVLdeleteNode_correct_witness:
  "bst (ex_leaf 2) \<and> AVLdeleteNode (ex_leaf 2) (Some (ex_addr 2)) 1 = Some NULL \<and>
   bst NULL \<and>
   inorder NULL = filter (\<lambda>i. \<not> (staAddr i = ex_addr 2 \<and> radioID i = 1)) (inorder (ex_leaf 2))"
proof -
  have b: "bst (ex_leaf 2)" by (simp add: ex_leaf_def)
  have d: "AVLdeleteNode (ex_leaf 2) (Some (ex_addr 2)) 1 = Some NULL"
    by (simp add: ex_leaf_def ex_info_def)
  from b d AVLdeleteNode_correct [OF b d] show ?thesis by blast
qed

text \<open>
  The rotations the rebalancing step of a deletion calls raise the heavy side: this is what
  the next property rests on.
\<close>

lemma rotate_right_heavy_left:
  "\<lbrakk>avl r; AVLheight l \<ge> AVLheight r + 2; AVLsingle_rotate_with_right (NODE i l r h) = Some t'\<rbrakk>
   \<Longrightarrow> \<not> avl t'"
  by (cases r) (auto simp: Let_def)

lemma rotate_left_heavy_right:
  "\<lbrakk>avl l; AVLheight r \<ge> AVLheight l + 2; AVLsingle_rotate_with_left (NODE i l r h) = Some t'\<rbrakk>
   \<Longrightarrow> \<not> avl t'"
  by (cases l) (auto simp: Let_def)

lemma rotate_left_raises:
  "\<lbrakk>avl l; AVLgetBalance l < 0; AVLsingle_rotate_with_left l = Some l'\<rbrakk> \<Longrightarrow>
   AVLheight l' > AVLheight l"
  by (cases l rule: AVLsingle_rotate_with_left.cases) (auto simp: Let_def)

lemma rotate_right_raises:
  "\<lbrakk>avl r; AVLgetBalance r > 0; AVLsingle_rotate_with_right r = Some r'\<rbrakk> \<Longrightarrow>
   AVLheight r' > AVLheight r"
  by (cases r rule: AVLsingle_rotate_with_right.cases) (auto simp: Let_def)

text \<open>
  The rebalancing step of a deletion rotates towards the heavy side: on a node whose two
  AVL subtrees differ in height by two it either follows a null pointer or returns a tree that
  is not an AVL tree. It never restores the balance.
\<close>

theorem AVLdelete_rebalance_never_balances:
  assumes "avl l" and "avl r" and "\<bar>AVLheight l - AVLheight r\<bar> = 2"
    and "AVLdelete_rebalance (NODE i l r h) = Some t'"
  shows "\<not> avl t'"
proof (cases "AVLheight l - AVLheight r = 2")
  case True
  then obtain l' h' where "AVLheight l' \<ge> AVLheight r + 2"
    and "AVLsingle_rotate_with_right (NODE i l' r h') = Some t'"
    using assms(1,4) rotate_left_raises [of l]
    by (auto simp: Let_def AVLdelete_rebalance.simps split: option.splits if_splits) force+
  with assms(2) show ?thesis by (blast dest: rotate_right_heavy_left)
next
  case False
  with assms(3) have "AVLheight r - AVLheight l = 2" by arith
  then obtain r' h' where "AVLheight r' \<ge> AVLheight l + 2"
    and "AVLsingle_rotate_with_left (NODE i l r' h') = Some t'"
    using assms(2,4) rotate_right_raises [of r]
    by (auto simp: Let_def AVLdelete_rebalance.simps split: option.splits if_splits) force+
  with assms(1) show ?thesis by (blast dest: rotate_left_heavy_right)
qed

definition ex_node :: "byte \<Rightarrow> nodeAVL \<Rightarrow> nodeAVL \<Rightarrow> nodeAVL" where
  "ex_node b l r = NODE (ex_info b) l r (max (AVLheight l) (AVLheight r) + 1)"

theorem AVLdelete_rebalance_never_balances_witness:
  "\<exists>t'. AVLdelete_rebalance (NODE (ex_info 5)
      (ex_node 3 (ex_node 2 (ex_leaf 1) NULL) (ex_leaf 4)) (ex_leaf 6) 3) = Some t' \<and> \<not> avl t'"
proof -
  let ?l = "ex_node 3 (ex_node 2 (ex_leaf 1) NULL) (ex_leaf 4)"
  have l: "avl ?l" and r: "avl (ex_leaf 6)" and d: "\<bar>AVLheight ?l - AVLheight (ex_leaf 6)\<bar> = 2"
    by (simp_all add: ex_node_def ex_leaf_def)
  obtain t' where t': "AVLdelete_rebalance (NODE (ex_info 5) ?l (ex_leaf 6) 3) = Some t'"
    by (simp add: ex_node_def ex_leaf_def AVLdelete_rebalance.simps Let_def)
  from AVLdelete_rebalance_never_balances [OF l r d t'] t' show ?thesis by blast
qed

text \<open>
  Four stations that associate in this order and one that leaves are enough for the
  deletion to follow a null pointer: the tree before it is a correct AVL search tree.
\<close>

theorem AVLdeleteNode_crashes:
  "\<exists>t. sta.insert_all [ex_info 2, ex_info 1, ex_info 4, ex_info 3] NULL = Some t \<and>
    avl t \<and> bst t \<and> AVLdeleteNode t (Some (ex_addr 1)) 1 = None"
proof -
  have "sta.insert_all [ex_info 2, ex_info 1, ex_info 4, ex_info 3] NULL =
    Some (ex_node 2 (ex_leaf 1) (ex_node 4 (ex_leaf 3) NULL))"
    by (simp add: insert_node_def ex_info_def ex_addr_def ex_node_def ex_leaf_def
        compareEthAddr_def del: compareEthAddr_neg compareEthAddr_pos)
  moreover have "avl (ex_node 2 (ex_leaf 1) (ex_node 4 (ex_leaf 3) NULL))"
    by (simp add: ex_node_def ex_leaf_def)
  moreover have "bst (ex_node 2 (ex_leaf 1) (ex_node 4 (ex_leaf 3) NULL))"
    by (simp add: ex_node_def ex_leaf_def ex_info_def ex_addr_def less_eth_def compareEthAddr_def
        del: compareEthAddr_neg compareEthAddr_pos)
  moreover have "AVLdeleteNode (ex_node 2 (ex_leaf 1) (ex_node 4 (ex_leaf 3) NULL))
      (Some (ex_addr 1)) 1 = None"
    by (simp add: ex_node_def ex_leaf_def ex_info_def ex_addr_def compareEthAddr_def
        AVLdelete_rebalance.simps Let_def del: compareEthAddr_neg compareEthAddr_pos)
  ultimately show ?thesis by blast
qed

text \<open>
  C30: Deletion without the radio identifier is deletion with the radio of the stored entry:
  the second copy of the code behaves as the first where the radios agree, crashes included.
\<close>

theorem AVLdeleteNodeWithoutRadioID_equiv:
  assumes "bst t" and "\<And>i. table t (staAddr n) = Some i \<Longrightarrow> radioID i = rid"
  shows "AVLdeleteNodeWithoutRadioID t n = AVLdeleteNode t (Some (staAddr n)) rid"
  using assms
proof (induction t arbitrary: n rid)
  case NULL
  then show ?case by simp
next
  case (NODE i l r h)
  note tab = table_NODE [OF NODE.prems(1)]
  consider "staAddr n < staAddr i" | "staAddr i < staAddr n" | "staAddr n = staAddr i"
    by (rule linorder_cases)
  then show ?case
  proof cases
    case 1
    with NODE.IH(1) [of n rid] NODE.prems tab show ?thesis by simp
  next
    case 2
    with NODE.IH(2) [of n rid] NODE.prems tab show ?thesis by auto
  next
    case 3
    have rid: "radioID i = rid" using NODE.prems(2) [of i] 3 tab by simp
    show ?thesis
    proof (cases "l = NULL \<or> r = NULL")
      case True
      with 3 rid show ?thesis by simp
    next
      case False
      then have m: "AVLminValueNode r = Some (hd (inorder r))" "hd (inorder r) \<in> set (inorder r)"
        using AVLminValueNode_hd by auto
      have "bst r" using NODE.prems(1) by simp
      then have "table r (staAddr (hd (inorder r))) = Some (hd (inorder r))"
        using False by (cases "inorder r") (auto simp: table_def)
      then have "AVLdeleteNodeWithoutRadioID r (hd (inorder r)) =
          AVLdeleteNode r (Some (staAddr (hd (inorder r)))) (radioID (hd (inorder r)))"
        by (intro NODE.IH(2) [OF \<open>bst r\<close>]) simp
      with False 3 rid m(1) show ?thesis by simp
    qed
  qed
qed

theorem AVLdeleteNodeWithoutRadioID_equiv_witness:
  "map_option radioID (table (ex_leaf 2) (staAddr (ex_info 2))) = Some 1 \<and>
   AVLdeleteNodeWithoutRadioID (ex_leaf 2) (ex_info 2) =
     AVLdeleteNode (ex_leaf 2) (Some (staAddr (ex_info 2))) 1"
proof -
  have b: "bst (ex_leaf 2)" by (simp add: ex_leaf_def)
  have r: "radioID i = 1" if "table (ex_leaf 2) (staAddr (ex_info 2)) = Some i" for i
    using that by (auto simp: table_def ex_leaf_def ex_info_def)
  have s: "map_option radioID (table (ex_leaf 2) (staAddr (ex_info 2))) = Some 1"
    by (simp add: table_def ex_leaf_def ex_info_def)
  from s AVLdeleteNodeWithoutRadioID_equiv [OF b r] show ?thesis by (rule conjI)
qed

subsection \<open>Association on the AC (ACRunState.c)\<close>

text \<open>
  What the AC does with its tree when the association response of station \<open>DA\<close> passes
  through WTP \<open>WTPIndex\<close> on radio \<open>rid\<close>. The flag is \<^verbatim>\<open>toSendEventRequestDelete\<close>: the AC
  then tells the WTP of the old entry to delete the station.
\<close>

definition ac_associate ::
  "bool \<Rightarrow> nodeAVL \<Rightarrow> int \<Rightarrow> eth \<Rightarrow> eth \<Rightarrow> int \<Rightarrow> (nodeAVL \<times> bool) option" where
  "ac_associate mem avlTree WTPIndex DA bssid rid =
     (case AVLfind (Some DA) avlTree of
        NODE i _ _ _ \<Rightarrow>
          if radioID i \<noteq> rid \<or> index i \<noteq> WTPIndex then
            Option.bind (AVLdeleteNode avlTree (Some DA) rid) (\<lambda>t1.
            Option.bind (AVLinsert mem WTPIndex (Some DA) (Some bssid) rid t1) (\<lambda>t2.
              Some (t2, True)))
          else Some (avlTree, False)
      | NULL \<Rightarrow>
          Option.bind (AVLinsert mem WTPIndex (Some DA) (Some bssid) rid avlTree) (\<lambda>t1.
            Some (t1, False)))"

abbreviation assoc_entry :: "int \<Rightarrow> eth \<Rightarrow> eth \<Rightarrow> int \<Rightarrow> nodeInfo" where
  "assoc_entry WTPIndex DA bssid rid \<equiv>
     \<lparr>index = WTPIndex, radioID = rid, staAddr = DA, BSSID = Some bssid\<rparr>"

text \<open>
  C26: After an association the AC's table routes the station to the new WTP if the station was
  unknown, or known with the same radio identifier; a station known with another radio
  identifier keeps its old entry. The old WTP is told to delete the station exactly if the station was known on
  another WTP or with another radio identifier, thus also when its old entry stays. Every other station keeps its entry.
\<close>

theorem ac_associate_table:
  assumes "bst t" and "ac_associate True t WTPIndex DA bssid rid = Some (t', flag)"
  shows "bst t' \<and> (flag \<longleftrightarrow> (\<exists>i. table t DA = Some i \<and> (radioID i \<noteq> rid \<or> index i \<noteq> WTPIndex))) \<and> table t' =
    (case table t DA of
       None \<Rightarrow> (table t)(DA \<mapsto> assoc_entry WTPIndex DA bssid rid)
     | Some i \<Rightarrow>
         if radioID i = rid \<and> index i \<noteq> WTPIndex
         then (table t)(DA \<mapsto> assoc_entry WTPIndex DA bssid rid) else table t)"
proof -
  let ?n = "assoc_entry WTPIndex DA bssid rid"
  have "flag \<longleftrightarrow> (\<exists>i. table t DA = Some i \<and> (radioID i \<noteq> rid \<or> index i \<noteq> WTPIndex))"
    using assms(2) AVLfind_entry [OF assms(1), of DA, symmetric]
    by (cases "AVLfind (Some DA) t") (auto simp: ac_associate_def bind_eq_Some_conv split: if_splits)
  moreover have "bst t' \<and> table t' =
    (case table t DA of
       None \<Rightarrow> (table t)(DA \<mapsto> ?n)
     | Some i \<Rightarrow> if radioID i = rid \<and> index i \<noteq> WTPIndex then (table t)(DA \<mapsto> ?n) else table t)"
  proof (cases "AVLfind (Some DA) t")
    case NULL
    then have none: "table t (staAddr ?n) = None" using AVLfind_entry [OF assms(1), of DA] by simp
    with NULL assms(2) have "insert_node ?n t = Some t'"
      by (auto simp: ac_associate_def insert_node_def bind_eq_Some_conv)
    with sta.insert_fresh [OF assms(1) none] sta.insert_invar [OF assms(1)] none
    show ?thesis by simp
  next
    case (NODE i l r h)
    then have some: "table t (staAddr ?n) = Some i" using AVLfind_entry [OF assms(1), of DA] by simp
    show ?thesis
    proof (cases "radioID i \<noteq> rid \<or> index i \<noteq> WTPIndex")
      case True
      with NODE assms(2) obtain t1 where
        t1: "delete_node t (staAddr ?n) rid = Some t1" "insert_node ?n t1 = Some t'"
        by (auto simp: ac_associate_def insert_node_def delete_node_def bind_eq_Some_conv)
      from sta.delete_invar [OF assms(1) t1(1)] have "bst t'" using t1(2) by (rule sta.insert_invar)
      with True some show ?thesis
        using sta.replace_same_radio [OF assms(1) some _ t1]
          sta.replace_other_radio [OF assms(1) some _ t1] by auto
    next
      case False
      with NODE assms some show ?thesis by (simp add: ac_associate_def)
    qed
  qed
  ultimately show ?thesis by blast
qed

theorem ac_associate_table_witness:
  "\<exists>t' flag. ac_associate True (ex_leaf 2) 3 (ex_addr 2) (ex_addr 9) 1 = Some (t', flag) \<and>
    bst t' \<and> table t' (ex_addr 2) = Some (assoc_entry 3 (ex_addr 2) (ex_addr 9) 1)"
proof -
  have b: "bst (ex_leaf 2)" by (simp add: ex_leaf_def)
  have tab: "table (ex_leaf 2) (ex_addr 2) = Some (ex_info 2)"
    by (simp add: table_def ex_leaf_def ex_info_def)
  obtain t' flag where a: "ac_associate True (ex_leaf 2) 3 (ex_addr 2) (ex_addr 9) 1 = Some (t', flag)"
    by (simp add: ac_associate_def ex_leaf_def ex_info_def)
  from ac_associate_table [OF b a] tab a show ?thesis
    by (auto simp: ex_info_def)
qed

end
