(* ===== verification/CWLists.thy ===== *)
theory CWLists
  imports Prelude "HOL-Library.Multiset"
begin

section \<open>CWList.c: singly linked lists\<close>

text \<open>
  A \<^verbatim>\<open>CWList\<close> is the list of the \<^verbatim>\<open>data\<close> pointers of its elements, head first; \<open>[]\<close> is the
  null list. The list variable itself is passed by address in C and never null in the callers:
  the operations take the list and return the new one. A null \<^verbatim>\<open>element\<close> or \<^verbatim>\<open>baseElement\<close>
  is \<open>None\<close>; \<open>mem\<close> says whether the \<^verbatim>\<open>malloc\<close> of a list element succeeds.
\<close>

datatype CWListIterateMode = CW_LIST_ITERATE_RESET | CW_LIST_ITERATE

definition CWAddElementToList :: "bool \<Rightarrow> 'a list \<Rightarrow> 'a option \<Rightarrow> 'a list \<times> bool" where
  "CWAddElementToList mem list element =
     (case element of
        None \<Rightarrow> (list, False)
      | Some x \<Rightarrow> if mem then (x # list, True) else (list, False))"

fun CWAddElementToListTail :: "bool \<Rightarrow> 'a list \<Rightarrow> 'a option \<Rightarrow> 'a list \<times> bool" where
  "CWAddElementToListTail mem list None = (list, False)"
| "CWAddElementToListTail mem [] (Some x) = (if mem then ([x], True) else ([], False))"
| "CWAddElementToListTail mem (y # ys) (Some x) =
     (let (ys', ok) = CWAddElementToListTail mem ys (Some x) in (y # ys', ok))"

definition CWListGetFirstElem :: "'a list \<Rightarrow> 'a option \<times> 'a list" where
  "CWListGetFirstElem list = (case list of [] \<Rightarrow> (None, []) | x # xs \<Rightarrow> (Some x, xs))"

text \<open>\<open>l\<close> is the static iterator of \<^verbatim>\<open>CWListGetNext\<close>, what is left of the list it walks.\<close>

definition CWListGetNext ::
  "'a list \<Rightarrow> CWListIterateMode \<Rightarrow> 'a list \<Rightarrow> 'a option \<times> 'a list" where
  "CWListGetNext list mode l =
     (if list = [] then (None, l)
      else let l = (if mode = CW_LIST_ITERATE_RESET then list else l)
           in case l of [] \<Rightarrow> (None, l) | x # xs \<Rightarrow> (Some x, xs))"

fun CWSearchInList :: "'a list \<Rightarrow> 'a option \<Rightarrow> ('a \<Rightarrow> 'a \<Rightarrow> bool) \<Rightarrow> 'a option" where
  "CWSearchInList list None compareFunc = None"
| "CWSearchInList [] (Some b) compareFunc = None"
| "CWSearchInList (x # xs) (Some b) compareFunc =
     (if compareFunc b x then Some x else CWSearchInList xs (Some b) compareFunc)"

fun CWDeleteInList :: "'a list \<Rightarrow> 'a option \<Rightarrow> ('a \<Rightarrow> 'a \<Rightarrow> bool) \<Rightarrow> 'a option \<times> 'a list" where
  "CWDeleteInList list None compareFunc = (None, list)"
| "CWDeleteInList [] (Some b) compareFunc = (None, [])"
| "CWDeleteInList (x # xs) (Some b) compareFunc =
     (if compareFunc b x then (Some x, xs)
      else let (d, xs') = CWDeleteInList xs (Some b) compareFunc in (d, x # xs'))"

text \<open>\<open>CWDeleteList\<close> empties the list; the second component lists the calls of \<^verbatim>\<open>deleteFunc\<close>.\<close>

fun CWDeleteList :: "'a list \<Rightarrow> 'a list \<times> 'a list" where
  "CWDeleteList [] = ([], [])"
| "CWDeleteList (x # xs) = (let (l, deleted) = CWDeleteList xs in (l, x # deleted))"

fun CWCountElementInList :: "'a list \<Rightarrow> nat" where
  "CWCountElementInList [] = 0"
| "CWCountElementInList (x # xs) = Suc (CWCountElementInList xs)"

subsection \<open>What the operations do\<close>

lemma CWAddElementToList_Some [simp]: "CWAddElementToList True list (Some x) = (x # list, True)"
  by (simp add: CWAddElementToList_def)

lemma CWAddElementToListTail_eq [simp]:
  "CWAddElementToListTail mem list (Some x) = (if mem then (list @ [x], True) else (list, False))"
  by (induction list) auto

lemma CWDeleteList_eq [simp]: "CWDeleteList list = ([], list)"
  by (induction list) auto

lemma CWCountElementInList_eq [simp]: "CWCountElementInList list = length list"
  by (induction list) auto

lemma CWSearchInList_find: "CWSearchInList list (Some b) cmp = find (cmp b) list"
  by (induction list) auto

lemma CWSearchInList_None: "CWSearchInList list (Some b) cmp = None \<longleftrightarrow> (\<forall>x \<in> set list. \<not> cmp b x)"
  by (induction list) auto

lemma CWDeleteInList_fst: "fst (CWDeleteInList list b cmp) = CWSearchInList list b cmp"
  by (induction list b cmp rule: CWDeleteInList.induct) (auto split: prod.split)

lemma CWDeleteInList_mset:
  "CWDeleteInList list b cmp = (Some x, list') \<Longrightarrow> mset list = add_mset x (mset list')"
  by (induction list b cmp arbitrary: list' rule: CWDeleteInList.induct)
     (auto split: prod.splits if_splits)

lemma CWDeleteInList_None: "CWDeleteInList list b cmp = (None, list') \<Longrightarrow> list' = list"
  by (induction list b cmp arbitrary: list' rule: CWDeleteInList.induct)
     (auto split: prod.splits if_splits)

text \<open>
  Deleting from a list takes out exactly the element a search for the same base element
  finds, and only that one occurrence; when the search finds nothing the list is unchanged.
\<close>

theorem CWDeleteInList_correct:
  "case CWDeleteInList list b cmp of (d, list') \<Rightarrow>
     d = CWSearchInList list b cmp \<and>
     mset list = mset list' + (case d of None \<Rightarrow> {#} | Some x \<Rightarrow> {#x#}) \<and>
     (d = None \<longleftrightarrow> length list' = length list)"
proof -
  obtain d list' where e: "CWDeleteInList list b cmp = (d, list')" by force
  have d: "d = CWSearchInList list b cmp" using CWDeleteInList_fst [of list b cmp] e by simp
  show ?thesis
  proof (cases d)
    case None
    with e d CWDeleteInList_None show ?thesis by fastforce
  next
    case (Some x)
    with e have m: "mset list = add_mset x (mset list')" by (auto dest: CWDeleteInList_mset)
    then have "length list = Suc (length list')" by (metis size_add_mset size_mset)
    from d Some have "CWSearchInList list b cmp = Some x" by simp
    with e Some m show ?thesis by (simp add: \<open>length list = Suc (length list')\<close>)
  qed
qed

subsection \<open>A store of keyed items: add unless a search finds the key\<close>

text \<open>
  What the reassembly of fragments relies on: a bag with an \<open>add\<close> and a \<open>search\<close> by key.
  Adding only what a search does not find keeps the keys distinct, so a second copy of an
  item never enters.
\<close>

locale keyed_bag =
  fixes add :: "'s \<Rightarrow> 'a \<Rightarrow> 's"
    and search :: "'s \<Rightarrow> 'a \<Rightarrow> 'a option"
    and items :: "'s \<Rightarrow> 'a list"
    and key :: "'a \<Rightarrow> 'k"
  assumes items_add: "mset (items (add s x)) = add_mset x (mset (items s))"
    and search_None: "search s x = None \<longleftrightarrow> (\<forall>y \<in> set (items s). key y \<noteq> key x)"
begin

definition distinct_keys :: "'s \<Rightarrow> bool" where
  "distinct_keys s \<longleftrightarrow> distinct (map key (items s))"

definition add_new :: "'s \<Rightarrow> 'a \<Rightarrow> 's" where
  "add_new s x = (if search s x = None then add s x else s)"

lemma set_items_add: "set (items (add s x)) = insert x (set (items s))"
  using items_add [of s x] by (metis set_mset_add_mset_insert set_mset_mset)

lemma distinct_add:
  assumes "distinct_keys s" and "search s x = None"
  shows "distinct_keys (add s x)"
proof -
  have "mset (map key (items (add s x))) = mset (key x # map key (items s))"
    using items_add [of s x] by (metis mset.simps(2) mset_map image_mset_add_mset)
  then have "distinct (map key (items (add s x))) = distinct (key x # map key (items s))"
    by (metis mset_eq_imp_distinct_iff)
  with assms show ?thesis by (auto simp: distinct_keys_def search_None)
qed

lemma distinct_add_new: "distinct_keys s \<Longrightarrow> distinct_keys (add_new s x)"
  by (simp add: add_new_def distinct_add)

text \<open>Where the key determines the item, a bag with distinct keys holds each item once.\<close>

lemma items_add_new:
  assumes "\<And>y. y \<in> set (items s) \<Longrightarrow> key y = key x \<Longrightarrow> y = x"
  shows "set (items (add_new s x)) = insert x (set (items s))"
  using assms search_None [of s x] by (auto simp: add_new_def set_items_add)

end

text \<open>A \<open>CWList\<close> with a comparison function that compares keys is such a bag.\<close>

lemma keyed_bag_CWList:
  assumes "\<And>x y. cmp x y \<longleftrightarrow> key y = key x"
  shows "keyed_bag (\<lambda>l x. fst (CWAddElementToList True l (Some x)))
           (\<lambda>l x. CWSearchInList l (Some x) cmp) (\<lambda>l. l) key"
  by unfold_locales (auto simp: CWSearchInList_None assms)

end
