(* ===== verification/SafeList.thy ===== *)
theory SafeList
  imports Prelude
begin

section \<open>CWSafeList.c: doubly linked packet queues\<close>

text \<open>
  The packet queues between the receiver threads and the session threads. The model keeps the
  pointers of the code: a heap maps addresses to elements, the list holds the addresses of its
  first and last element. The contract is that of a double-ended queue of packets
  (\<open>sl_rep\<close>): every operation of the code refines the list operation, frees what it removes,
  and never follows a null or freed pointer.
\<close>

subsection \<open>State\<close>

text \<open>
  A list handle is \<open>None\<close> for the null pointer. \<open>dataFlag\<close> is \<open>None\<close> while the field
  is not initialised: the operations without \<^verbatim>\<open>DataFlag\<close> in their name leave the malloc'ed
  bytes as they are. \<open>nCount\<close> is an \<^verbatim>\<open>unsigned long\<close>. \<open>signals\<close> records the calls of
  \<^verbatim>\<open>CWSignalThreadCondition\<close>, oldest first.
\<close>

type_synonym addr = nat

record 'd CWPrivateSafeElement =
  pData :: 'd
  nSize :: int
  dataFlag :: "bool option"
  pPrev :: "addr option"
  pNext :: "addr option"

type_synonym 'd elems = "addr \<rightharpoonup> 'd CWPrivateSafeElement"

record 'd CWPrivateSafeList =
  pThreadMutex :: "addr option"
  pThreadCond :: "addr option"
  nCount :: "64 word"
  pFirstElement :: "addr option"
  pLastElement :: "addr option"
  heap :: "'d elems"
  signals :: "addr list"

type_synonym 'd CWSafeList = "'d CWPrivateSafeList option"

subsection \<open>Operations\<close>

text \<open>\<open>p->f = v\<close>: a fault when \<open>p\<close> is null or not allocated.\<close>

definition heap_upd ::
  "addr option \<Rightarrow> ('d CWPrivateSafeElement \<Rightarrow> 'd CWPrivateSafeElement) \<Rightarrow> 'd elems \<Rightarrow> 'd elems res"
where
  "heap_upd p f h =
     (case p of None \<Rightarrow> Fault
      | Some a \<Rightarrow> (case h a of None \<Rightarrow> Fault | Some e \<Rightarrow> Ret (h(a \<mapsto> f e))))"

definition heap_get :: "addr option \<Rightarrow> 'd elems \<Rightarrow> 'd CWPrivateSafeElement res" where
  "heap_get p h =
     (case p of None \<Rightarrow> Fault | Some a \<Rightarrow> (case h a of None \<Rightarrow> Fault | Some e \<Rightarrow> Ret e))"

definition CWCreateSafeList :: "bool \<Rightarrow> 'd CWSafeList" where
  "CWCreateSafeList mem =
     (if mem then Some \<lparr> pThreadMutex = None, pThreadCond = None, nCount = 0,
                         pFirstElement = None, pLastElement = None, heap = Map.empty,
                         signals = [] \<rparr>
      else None)"

definition CWDestroySafeList :: "'d CWSafeList \<Rightarrow> 'd CWSafeList" where
  "CWDestroySafeList safeList = None"

definition CWSetMutexSafeList :: "'d CWSafeList \<Rightarrow> addr option \<Rightarrow> 'd CWSafeList" where
  "CWSetMutexSafeList safeList m = map_option (\<lambda>l. l\<lparr>pThreadMutex := m\<rparr>) safeList"

definition CWSetConditionSafeList :: "'d CWSafeList \<Rightarrow> addr option \<Rightarrow> 'd CWSafeList" where
  "CWSetConditionSafeList safeList c = map_option (\<lambda>l. l\<lparr>pThreadCond := c\<rparr>) safeList"

text \<open>The thread library is a parameter: \<open>lock\<close>, \<open>wait\<close> answer for the mutex and condition.\<close>

definition CWLockSafeList :: "(addr \<Rightarrow> bool) \<Rightarrow> 'd CWSafeList \<Rightarrow> bool" where
  "CWLockSafeList lock safeList =
     (case safeList of None \<Rightarrow> False
      | Some l \<Rightarrow> (case pThreadMutex l of None \<Rightarrow> False | Some m \<Rightarrow> lock m))"

text \<open>The mutex that \<^verbatim>\<open>CWUnlockSafeList\<close> releases, if any.\<close>

definition CWUnlockSafeList :: "'d CWSafeList \<Rightarrow> addr option" where
  "CWUnlockSafeList safeList = (case safeList of None \<Rightarrow> None | Some l \<Rightarrow> pThreadMutex l)"

definition CWWaitElementFromSafeList :: "(addr \<Rightarrow> addr \<Rightarrow> bool) \<Rightarrow> 'd CWSafeList \<Rightarrow> bool" where
  "CWWaitElementFromSafeList wait safeList =
     (case safeList of None \<Rightarrow> False
      | Some l \<Rightarrow> (case (pThreadMutex l, pThreadCond l) of
                     (Some m, Some c) \<Rightarrow> wait c m
                   | _ \<Rightarrow> False))"

definition CWSignalElementSafeList :: "'d CWSafeList \<Rightarrow> bool \<times> 'd CWSafeList" where
  "CWSignalElementSafeList safeList =
     (case safeList of None \<Rightarrow> (False, None)
      | Some l \<Rightarrow> (case pThreadCond l of
                     None \<Rightarrow> (False, Some l)
                   | Some c \<Rightarrow> (True, Some (l\<lparr>signals := signals l @ [c]\<rparr>))))"

definition CWGetCountElementFromSafeList :: "'d CWSafeList \<Rightarrow> 64 word" where
  "CWGetCountElementFromSafeList safeList = (case safeList of None \<Rightarrow> 0 | Some l \<Rightarrow> nCount l)"

text \<open>\<open>new\<close> is the address \<^verbatim>\<open>malloc\<close> returns for the element, \<open>None\<close> when it fails.\<close>

definition CWAddElementToSafeListHead ::
  "addr option \<Rightarrow> 'd CWSafeList \<Rightarrow> 'd option \<Rightarrow> int \<Rightarrow> (bool \<times> 'd CWSafeList) res" where
  "CWAddElementToSafeListHead new safeList d n =
     (case (safeList, d) of
        (Some l, Some d) \<Rightarrow>
          (case new of None \<Rightarrow> Ret (False, Some l)
           | Some a \<Rightarrow>
             let h = (heap l)(a \<mapsto> \<lparr> pData = d, nSize = n, dataFlag = None,
                                      pPrev = None, pNext = pFirstElement l \<rparr>)
             in res_bind (if pFirstElement l \<noteq> None
                          then heap_upd (pFirstElement l) (\<lambda>e. e\<lparr>pPrev := Some a\<rparr>) h
                          else Ret h) (\<lambda>h.
                  Ret (True, snd (CWSignalElementSafeList (Some (l
                    \<lparr> heap := h, pFirstElement := Some a,
                      pLastElement := (if pLastElement l = None then Some a
                                       else pLastElement l),
                      nCount := nCount l + 1 \<rparr>))))))
      | _ \<Rightarrow> Ret (False, safeList))"

definition CWGetHeadElementFromSafeList :: "'d CWSafeList \<Rightarrow> ('d \<times> int) option res" where
  "CWGetHeadElementFromSafeList safeList =
     (case safeList of None \<Rightarrow> Ret None
      | Some l \<Rightarrow>
          if pFirstElement l = None then Ret None
          else res_bind (heap_get (pFirstElement l) (heap l))
                 (\<lambda>e. Ret (Some (pData e, nSize e))))"

text \<open>The element at the head with its data flag; freed. The two C functions differ in whether
  they give the flag to the caller.\<close>

definition CWRemoveHeadElementFromSafeListwithDataFlag ::
  "'d CWSafeList \<Rightarrow> (('d \<times> int \<times> bool option) option \<times> 'd CWSafeList) res" where
  "CWRemoveHeadElementFromSafeListwithDataFlag safeList =
     (case safeList of None \<Rightarrow> Ret (None, None)
      | Some l \<Rightarrow>
          (case pFirstElement l of None \<Rightarrow> Ret (None, Some l)
           | Some a \<Rightarrow>
               res_bind (heap_get (Some a) (heap l)) (\<lambda>e.
               let first = pNext e in
               res_bind (if first = None then Ret (heap l)
                         else heap_upd first (\<lambda>e. e\<lparr>pPrev := None\<rparr>) (heap l)) (\<lambda>h.
               Ret (Some (pData e, nSize e, dataFlag e),
                    Some (l\<lparr> pFirstElement := first,
                              pLastElement := (if first = None then None else pLastElement l),
                              heap := h(a := None), nCount := nCount l - 1 \<rparr>))))))"

definition CWRemoveHeadElementFromSafeList ::
  "'d CWSafeList \<Rightarrow> (('d \<times> int) option \<times> 'd CWSafeList) res" where
  "CWRemoveHeadElementFromSafeList safeList =
     (case safeList of None \<Rightarrow> Ret (None, None)
      | Some l \<Rightarrow>
          (case pFirstElement l of None \<Rightarrow> Ret (None, Some l)
           | Some a \<Rightarrow>
               res_bind (heap_get (Some a) (heap l)) (\<lambda>e.
               let first = pNext e in
               res_bind (if first = None then Ret (heap l)
                         else heap_upd first (\<lambda>e. e\<lparr>pPrev := None\<rparr>) (heap l)) (\<lambda>h.
               Ret (Some (pData e, nSize e),
                    Some (l\<lparr> pFirstElement := first,
                              pLastElement := (if first = None then None else pLastElement l),
                              heap := h(a := None), nCount := nCount l - 1 \<rparr>))))))"

text \<open>\<open>flag\<close> is \<open>Some b\<close> when the element's \<^verbatim>\<open>dataFlag\<close> is set to \<open>b\<close>.\<close>

definition add_tail ::
  "addr option \<Rightarrow> 'd CWSafeList \<Rightarrow> 'd option \<Rightarrow> int \<Rightarrow> bool option \<Rightarrow> (bool \<times> 'd CWSafeList) res"
where
  "add_tail new safeList d n flag =
     (case (safeList, d) of
        (Some l, Some d) \<Rightarrow>
          (case new of None \<Rightarrow> Ret (False, Some l)
           | Some a \<Rightarrow>
             let h = (heap l)(a \<mapsto> \<lparr> pData = d, nSize = n, dataFlag = flag,
                                      pPrev = pLastElement l, pNext = None \<rparr>)
             in res_bind (if pLastElement l \<noteq> None
                          then heap_upd (pLastElement l) (\<lambda>e. e\<lparr>pNext := Some a\<rparr>) h
                          else Ret h) (\<lambda>h.
                  Ret (True, snd (CWSignalElementSafeList (Some (l
                    \<lparr> heap := h, pLastElement := Some a,
                      pFirstElement := (if pFirstElement l = None then Some a
                                        else pFirstElement l),
                      nCount := nCount l + 1 \<rparr>))))))
      | _ \<Rightarrow> Ret (False, safeList))"

definition CWAddElementToSafeListTail ::
  "addr option \<Rightarrow> 'd CWSafeList \<Rightarrow> 'd option \<Rightarrow> int \<Rightarrow> (bool \<times> 'd CWSafeList) res" where
  "CWAddElementToSafeListTail new safeList d n = add_tail new safeList d n None"

definition CWAddElementToSafeListTailwitDataFlag ::
  "addr option \<Rightarrow> 'd CWSafeList \<Rightarrow> 'd option \<Rightarrow> int \<Rightarrow> bool \<Rightarrow> (bool \<times> 'd CWSafeList) res" where
  "CWAddElementToSafeListTailwitDataFlag new safeList d n flag =
     add_tail new safeList d n (Some flag)"

definition CWRemoveTailElementFromSafeList ::
  "'d CWSafeList \<Rightarrow> (('d \<times> int) option \<times> 'd CWSafeList) res" where
  "CWRemoveTailElementFromSafeList safeList =
     (case safeList of None \<Rightarrow> Ret (None, None)
      | Some l \<Rightarrow>
          (case pLastElement l of None \<Rightarrow> Ret (None, Some l)
           | Some a \<Rightarrow>
               res_bind (heap_get (Some a) (heap l)) (\<lambda>e.
               let lst = pPrev e in
               res_bind (if lst = None then Ret (heap l)
                         else heap_upd lst (\<lambda>e. e\<lparr>pNext := None\<rparr>) (heap l)) (\<lambda>h.
               Ret (Some (pData e, nSize e),
                    Some (l\<lparr> pLastElement := lst,
                              pFirstElement := (if lst = None then None else pFirstElement l),
                              heap := h(a := None), nCount := nCount l - 1 \<rparr>))))))"

text \<open>
  The loop of \<^verbatim>\<open>CWCleanSafeList\<close>; \<open>None\<close> when it never ends. The list of the result holds
  the calls of \<^verbatim>\<open>deleteFunc\<close>, in order.
\<close>

partial_function (option) CWCleanSafeList ::
  "'d CWSafeList \<Rightarrow> ('d list \<times> 'd CWSafeList) res option" where
  "CWCleanSafeList safeList =
     (case CWRemoveHeadElementFromSafeList safeList of
        Fault \<Rightarrow> Some Fault
      | Raise e \<Rightarrow> Some (Raise e)
      | Ret (None, l) \<Rightarrow> Some (Ret ([], l))
      | Ret (Some (d, n), l) \<Rightarrow>
          Option.bind (CWCleanSafeList l) (\<lambda>r.
            Some (res_bind r (\<lambda>(ds, l). Ret (d # ds, l)))))"

subsection \<open>What a list holds\<close>

type_synonym 'd item = "'d \<times> int \<times> bool option"

fun elem :: "'d item \<Rightarrow> addr option \<Rightarrow> addr option \<Rightarrow> 'd CWPrivateSafeElement" where
  "elem (d, n, f) p q = \<lparr> pData = d, nSize = n, dataFlag = f, pPrev = p, pNext = q \<rparr>"

fun first_or :: "addr list \<Rightarrow> addr option \<Rightarrow> addr option" where
  "first_or [] q = q"
| "first_or (a # as) q = Some a"

fun last_or :: "addr list \<Rightarrow> addr option \<Rightarrow> addr option" where
  "last_or [] p = p"
| "last_or (a # as) p = last_or as (Some a)"

text \<open>The elements at the addresses \<open>as\<close> hold \<open>xs\<close> and are linked both ways between \<open>p\<close> and
  \<open>q\<close>.\<close>

fun segment ::
  "'d elems \<Rightarrow> addr option \<Rightarrow> addr list \<Rightarrow> 'd item list \<Rightarrow> addr option \<Rightarrow> bool" where
  "segment h p [] [] q = True"
| "segment h p (a # as) (x # xs) q =
     (h a = Some (elem x p (first_or as q)) \<and> segment h (Some a) as xs q)"
| "segment h p _ _ q = False"

definition linked :: "'d CWPrivateSafeList \<Rightarrow> addr list \<Rightarrow> 'd item list \<Rightarrow> bool" where
  "linked l as xs \<longleftrightarrow>
     distinct as \<and> dom (heap l) = set as \<and> segment (heap l) None as xs None \<and>
     pFirstElement l = first_or as None \<and> pLastElement l = last_or as None \<and>
     nCount l = of_nat (length xs)"

definition sl_rep :: "'d CWSafeList \<Rightarrow> 'd item list \<Rightarrow> bool" where
  "sl_rep s xs = (case s of None \<Rightarrow> False | Some l \<Rightarrow> \<exists>as. linked l as xs)"

text \<open>The address \<^verbatim>\<open>malloc\<close> returns, when it returns one, is not in use.\<close>

definition fresh :: "'d CWSafeList \<Rightarrow> addr option \<Rightarrow> bool" where
  "fresh s new = (case (s, new) of (Some l, Some a) \<Rightarrow> heap l a = None | _ \<Rightarrow> True)"

subsection \<open>Segments\<close>

lemma first_or_append [simp]: "first_or (as @ bs) q = first_or as (first_or bs q)"
  by (cases as) auto

lemma last_or_append [simp]: "last_or (as @ bs) p = last_or bs (last_or as p)"
  by (induction as arbitrary: p) auto

lemma first_or_None: "first_or as None = None \<longleftrightarrow> as = []"
  by (cases as) auto

lemma last_or_Some [simp]: "last_or as (Some a) \<noteq> None"
  by (induction as arbitrary: a) auto

lemma last_or_None: "last_or as None = None \<longleftrightarrow> as = []"
  by (cases as) auto

lemma segment_length: "segment h p as xs q \<Longrightarrow> length xs = length as"
  by (induction h p as xs q rule: segment.induct) auto

lemma segment_append:
  "length as = length xs \<Longrightarrow>
   segment h p (as @ bs) (xs @ ys) q \<longleftrightarrow>
   segment h p as xs (first_or bs q) \<and> segment h (last_or as p) bs ys q"
  by (induction as xs arbitrary: p rule: list_induct2) auto

lemma segment_frame:
  "(\<And>a. a \<in> set as \<Longrightarrow> h' a = h a) \<Longrightarrow> segment h' p as xs q = segment h p as xs q"
  by (induction h p as xs q rule: segment.induct) auto

lemma segment_upd [simp]: "a \<notin> set as \<Longrightarrow> segment (h(a := v)) p as xs q = segment h p as xs q"
  by (rule segment_frame) auto

lemma segment_Nil_iff [simp]: "segment h p [] xs q \<longleftrightarrow> xs = []"
  by (cases xs) auto

lemma segment_Cons_iff:
  "segment h p (a # as) xs q \<longleftrightarrow>
   (\<exists>y ys. xs = y # ys \<and> h a = Some (elem y p (first_or as q)) \<and> segment h (Some a) as ys q)"
  by (cases xs) auto

lemma segment_snoc_iff:
  "segment h p (as @ [a]) xs q \<longleftrightarrow>
   (\<exists>y ys. xs = ys @ [y] \<and> segment h p as ys (Some a) \<and> h a = Some (elem y (last_or as p) q))"
proof (cases xs rule: rev_cases)
  case Nil
  then show ?thesis using segment_length [of h p "as @ [a]" xs q] by auto
next
  case (snoc ys y)
  then show ?thesis
    using segment_length [of h p "as @ [a]" xs q] segment_length [of h p as ys "Some a"]
      segment_append [of as ys h p "[a]" "[y]" q] by auto
qed

lemma elem_sel [simp]:
  "pData (elem x p q) = fst x" "nSize (elem x p q) = fst (snd x)"
  "dataFlag (elem x p q) = snd (snd x)" "pPrev (elem x p q) = p" "pNext (elem x p q) = q"
  by (cases x; simp)+

lemma elem_upd [simp]:
  "(elem x p q)\<lparr>pPrev := p'\<rparr> = elem x p' q" "(elem x p q)\<lparr>pNext := q'\<rparr> = elem x p q'"
  by (cases x; simp)+

lemmas queue_defs = linked_def heap_upd_def heap_get_def Let_def

subsection \<open>Each operation refines the list operation\<close>

lemma linked_Nil: "linked l as [] \<longleftrightarrow>
    as = [] \<and> heap l = Map.empty \<and> pFirstElement l = None \<and> pLastElement l = None \<and> nCount l = 0"
  by (cases as) (auto simp: linked_def)

lemma first_None: "linked l as xs \<Longrightarrow> pFirstElement l = None \<longleftrightarrow> xs = []"
  by (auto simp: linked_def first_or_None dest: segment_length)

lemma last_None: "linked l as xs \<Longrightarrow> pLastElement l = None \<longleftrightarrow> xs = []"
  by (auto simp: linked_def last_or_None dest: segment_length)

lemma sl_rep_None [simp]: "\<not> sl_rep None xs"
  by (simp add: sl_rep_def)

lemma sl_rep_Some [simp]: "sl_rep (Some l) xs \<longleftrightarrow> (\<exists>as. linked l as xs)"
  by (simp add: sl_rep_def)

lemma sl_rep_create: "sl_rep (CWCreateSafeList True) []"
  by (simp add: CWCreateSafeList_def linked_Nil)

lemma linked_signal [simp]: "linked (l\<lparr>signals := x\<rparr>) as xs = linked l as xs"
  by (simp add: linked_def)

lemma sl_rep_signal [simp]: "sl_rep (snd (CWSignalElementSafeList (Some l))) xs = sl_rep (Some l) xs"
  by (auto simp: CWSignalElementSafeList_def split: option.split)

lemma add_tail_linked:
  assumes l: "linked l as xs" and a: "heap l a = None"
  shows "\<exists>s'. add_tail (Some a) (Some l) (Some d) n f = Ret (True, s') \<and> sl_rep s' (xs @ [(d, n, f)])"
proof (cases as rule: rev_cases)
  case Nil
  with l have "xs = []" by (auto simp: linked_def)
  with l a Nil show ?thesis
    by (auto simp: add_tail_def queue_defs intro!: exI [of _ "[a]"])
next
  case (snoc bs b)
  with l obtain y ys where xs: "xs = ys @ [y]" and seg: "segment (heap l) None bs ys (Some b)"
    and b: "heap l b = Some (elem y (last_or bs None) None)"
    by (auto simp: linked_def segment_snoc_iff)
  from l a snoc have ab: "a \<noteq> b" "a \<notin> set bs" "b \<notin> set bs" by (auto simp: linked_def)
  from l snoc have f: "pFirstElement l \<noteq> None" by (cases bs) (auto simp: linked_def)
  have "segment ((heap l)(a \<mapsto> elem (d, n, f) (Some b) None, b \<mapsto> elem y (last_or bs None) (Some a)))
          None ((bs @ [b]) @ [a]) ((ys @ [y]) @ [(d, n, f)]) None"
    unfolding segment_snoc_iff using ab seg
    by (cases y) auto
  with l snoc xs b ab f show ?thesis
    by (auto simp: add_tail_def queue_defs intro!: exI [of _ "bs @ [b, a]"])
qed

lemma add_head_linked:
  assumes l: "linked l as xs" and a: "heap l a = None"
  shows "\<exists>s'. CWAddElementToSafeListHead (Some a) (Some l) (Some d) n = Ret (True, s') \<and>
              sl_rep s' ((d, n, None) # xs)"
proof (cases as)
  case Nil
  with l have "xs = []" by (auto simp: linked_def)
  with l a Nil show ?thesis
    by (auto simp: CWAddElementToSafeListHead_def queue_defs intro!: exI [of _ "[a]"])
next
  case (Cons b bs)
  with l obtain y ys where xs: "xs = y # ys" and seg: "segment (heap l) (Some b) bs ys None"
    and b: "heap l b = Some (elem y None (first_or bs None))"
    by (auto simp: linked_def segment_Cons_iff)
  from l a Cons have ab: "a \<noteq> b" "a \<notin> set bs" "b \<notin> set bs" by (auto simp: linked_def)
  from l Cons have f: "pLastElement l \<noteq> None" by (auto simp: linked_def)
  from l Cons xs b ab f seg show ?thesis
    by (auto simp: CWAddElementToSafeListHead_def queue_defs intro!: exI [of _ "a # b # bs"])
qed

lemma remove_head_linked:
  assumes l: "linked l as (x # xs)"
  shows "\<exists>s'. CWRemoveHeadElementFromSafeListwithDataFlag (Some l) = Ret (Some x, s') \<and> sl_rep s' xs"
proof -
  from l obtain a bs where as: "as = a # bs" by (cases as) (auto simp: linked_def)
  with l have h: "heap l a = Some (elem x None (first_or bs None))"
    "segment (heap l) (Some a) bs xs None" "a \<notin> set bs" by (auto simp: linked_def)
  show ?thesis
  proof (cases bs)
    case Nil
    with l h as show ?thesis
      by (auto simp: CWRemoveHeadElementFromSafeListwithDataFlag_def queue_defs
            prod_eq_iff intro!: exI [of _ bs])
  next
    case (Cons b cs)
    with h(2) obtain y ys where "xs = y # ys" "heap l b = Some (elem y (Some a) (first_or cs None))"
      "segment (heap l) (Some b) cs ys None" by (auto simp: segment_Cons_iff)
    with l h as Cons show ?thesis
      by (auto simp: CWRemoveHeadElementFromSafeListwithDataFlag_def queue_defs
            prod_eq_iff intro!: exI [of _ bs])
  qed
qed

lemma remove_tail_linked:
  assumes l: "linked l as (xs @ [x])"
  shows "\<exists>s'. CWRemoveTailElementFromSafeList (Some l) = Ret (Some (fst x, fst (snd x)), s') \<and>
              sl_rep s' xs"
proof -
  from l obtain a bs where as: "as = bs @ [a]" by (cases as rule: rev_cases) (auto simp: linked_def)
  with l have h: "heap l a = Some (elem x (last_or bs None) None)"
    "segment (heap l) None bs xs (Some a)" "a \<notin> set bs" by (auto simp: linked_def segment_snoc_iff)
  show ?thesis
  proof (cases bs rule: rev_cases)
    case Nil
    with l h as show ?thesis
      by (auto simp: CWRemoveTailElementFromSafeList_def queue_defs intro!: exI [of _ bs])
  next
    case (snoc cs b)
    with h(2) obtain y ys where y: "xs = ys @ [y]" "heap l b = Some (elem y (last_or cs None) (Some a))"
      "segment (heap l) None cs ys (Some b)" by (auto simp: segment_snoc_iff)
    with l h as snoc have "segment ((heap l)(b \<mapsto> elem y (last_or cs None) None, a := None))
        None (cs @ [b]) (ys @ [y]) None"
      unfolding segment_snoc_iff by (cases y) (auto simp: linked_def)
    with l h as snoc y show ?thesis
      by (auto simp: CWRemoveTailElementFromSafeList_def queue_defs intro!: exI [of _ bs])
  qed
qed

lemma remove_head_forget:
  "CWRemoveHeadElementFromSafeList s =
   res_bind (CWRemoveHeadElementFromSafeListwithDataFlag s)
     (\<lambda>(o1, s'). Ret (map_option (\<lambda>(d, n, f). (d, n)) o1, s'))"
  by (auto simp: CWRemoveHeadElementFromSafeList_def CWRemoveHeadElementFromSafeListwithDataFlag_def
        res_simps Let_def heap_get_def heap_upd_def split: option.splits)

subsection \<open>The interface of a packet queue\<close>

text \<open>
  What a receiver thread and a session thread rely on: \<open>enq\<close> with the host's answer \<open>m\<close> to
  the allocation (any answer that is \<open>ready\<close>) appends or leaves the queue alone, \<open>deq\<close>
  takes the first packet, and neither fails.
\<close>

locale packet_queue =
  fixes rep :: "'s \<Rightarrow> 'a list \<Rightarrow> bool"
    and ready :: "'s \<Rightarrow> 'h \<Rightarrow> bool"
    and enq :: "'h \<Rightarrow> 'a \<Rightarrow> 's \<Rightarrow> (bool \<times> 's) res"
    and deq :: "'s \<Rightarrow> ('a option \<times> 's) res"
  assumes enq_law: "\<lbrakk>rep s xs; ready s m\<rbrakk> \<Longrightarrow>
      \<exists>ok s'. enq m x s = Ret (ok, s') \<and> rep s' (if ok then xs @ [x] else xs)"
    and deq_law: "rep s xs \<Longrightarrow>
      \<exists>s'. deq s = Ret (case xs of [] \<Rightarrow> None | x # _ \<Rightarrow> Some x, s') \<and> rep s' (tl xs)"
begin

text \<open>A run: \<open>Some x\<close> offers a packet, \<open>None\<close> takes one; the packets accepted, the packets
  taken and the final state.\<close>

fun run :: "('s \<Rightarrow> 'h) \<Rightarrow> 'a option list \<Rightarrow> 's \<Rightarrow> ('a list \<times> 'a list \<times> 's) res" where
  "run host [] s = Ret ([], [], s)"
| "run host (Some x # es) s =
     res_bind (enq (host s) x s) (\<lambda>(ok, s').
     res_bind (run host es s') (\<lambda>(ins, outs, s'').
     Ret (if ok then x # ins else ins, outs, s'')))"
| "run host (None # es) s =
     res_bind (deq s) (\<lambda>(got, s').
     res_bind (run host es s') (\<lambda>(ins, outs, s'').
     Ret (ins, case got of None \<Rightarrow> outs | Some x \<Rightarrow> x # outs, s'')))"

lemma fifo:
  assumes "\<And>s. ready s (host s)" and "rep s xs"
  shows "\<exists>ins outs s' ys. run host es s = Ret (ins, outs, s') \<and> rep s' ys \<and> xs @ ins = outs @ ys"
  using assms(2)
proof (induction es arbitrary: s xs)
  case Nil
  then show ?case by auto
next
  case (Cons e es)
  show ?case
  proof (cases e)
    case (Some x)
    obtain ok s1 where 1: "enq (host s) x s = Ret (ok, s1)" "rep s1 (if ok then xs @ [x] else xs)"
      using enq_law [OF Cons.prems assms(1)] by blast
    from Cons.IH [OF 1(2)] 1(1) Some show ?thesis by (cases ok) auto
  next
    case None
    obtain s1 where 1: "deq s = Ret (case xs of [] \<Rightarrow> None | x # _ \<Rightarrow> Some x, s1)" "rep s1 (tl xs)"
      using deq_law [OF Cons.prems] by blast
    from Cons.IH [OF 1(2)] 1(1) None show ?thesis by (cases xs) auto
  qed
qed

end

lemma sl_enq:
  assumes "sl_rep s xs" "fresh s m"
  shows "\<exists>ok s'. add_tail m s (Some d) n f = Ret (ok, s') \<and>
           sl_rep s' (if ok then xs @ [(d, n, f)] else xs)"
proof -
  from assms(1) obtain l as where s: "s = Some l" and l: "linked l as xs"
    by (cases s) auto
  show ?thesis
  proof (cases m)
    case None
    with s l show ?thesis by (auto simp: add_tail_def)
  next
    case (Some a)
    with assms(2) s have "heap l a = None" by (simp add: fresh_def)
    from add_tail_linked [OF l this] Some s show ?thesis by fastforce
  qed
qed

lemma sl_deq:
  assumes "sl_rep s xs"
  shows "\<exists>s'. CWRemoveHeadElementFromSafeListwithDataFlag s =
            Ret (case xs of [] \<Rightarrow> None | x # _ \<Rightarrow> Some x, s') \<and> sl_rep s' (tl xs)"
proof -
  from assms obtain l as where s: "s = Some l" and l: "linked l as xs" by (cases s) auto
  show ?thesis
  proof (cases xs)
    case Nil
    with l s show ?thesis
      using first_None [OF l] by (auto simp: CWRemoveHeadElementFromSafeListwithDataFlag_def)
  next
    case (Cons x ys)
    with remove_head_linked [of l as x ys] l s show ?thesis by auto
  qed
qed

interpretation sl: packet_queue sl_rep fresh "\<lambda>m (d, n, f) s. add_tail m s (Some d) n f"
    CWRemoveHeadElementFromSafeListwithDataFlag
proof (unfold_locales, goal_cases)
  case (1 s xs m x)
  obtain d n f where "x = (d, n, f)" by (cases x)
  then show ?case using sl_enq [OF 1, of d n f] by (simp only: prod.case)
next
  case (2 s xs)
  then show ?case by (rule sl_deq)
qed

subsection \<open>Traffic on a queue\<close>

datatype 'd event = AddTail 'd int | AddTailFlag 'd int bool | RemoveHead

text \<open>
  A sequence of the calls that the receiver threads and the session thread make, under the
  mutex of the queue; \<open>malloc\<close> answers each allocation from the current heap.
\<close>

fun host :: "('d elems \<Rightarrow> addr option) \<Rightarrow> 'd CWSafeList \<Rightarrow> addr option" where
  "host malloc None = None"
| "host malloc (Some l) = malloc (heap l)"

fun sl_run :: "('d elems \<Rightarrow> addr option) \<Rightarrow> 'd event list \<Rightarrow> 'd CWSafeList \<Rightarrow>
    ('d item list \<times> 'd item list \<times> 'd CWSafeList) res" where
  "sl_run malloc [] s = Ret ([], [], s)"
| "sl_run malloc (AddTail d n # es) s =
     res_bind (CWAddElementToSafeListTail (host malloc s) s (Some d) n) (\<lambda>(ok, s').
     res_bind (sl_run malloc es s') (\<lambda>(ins, outs, s'').
     Ret (if ok then (d, n, None) # ins else ins, outs, s'')))"
| "sl_run malloc (AddTailFlag d n f # es) s =
     res_bind (CWAddElementToSafeListTailwitDataFlag (host malloc s) s (Some d) n f) (\<lambda>(ok, s').
     res_bind (sl_run malloc es s') (\<lambda>(ins, outs, s'').
     Ret (if ok then (d, n, Some f) # ins else ins, outs, s'')))"
| "sl_run malloc (RemoveHead # es) s =
     res_bind (CWRemoveHeadElementFromSafeListwithDataFlag s) (\<lambda>(got, s').
     res_bind (sl_run malloc es s') (\<lambda>(ins, outs, s'').
     Ret (ins, case got of None \<Rightarrow> outs | Some x \<Rightarrow> x # outs, s'')))"

fun offered :: "'d event \<Rightarrow> 'd item option" where
  "offered (AddTail d n) = Some (d, n, None)"
| "offered (AddTailFlag d n f) = Some (d, n, Some f)"
| "offered RemoveHead = None"

lemma sl_run_eq: "sl_run malloc es s = sl.run (host malloc) (map offered es) s"
proof (induction es arbitrary: s)
  case (Cons e es)
  then show ?case
    by (cases e) (auto simp: CWAddElementToSafeListTail_def CWAddElementToSafeListTailwitDataFlag_def)
qed simp

lemma fresh_host: "(\<And>h a. malloc h = Some a \<Longrightarrow> h a = None) \<Longrightarrow> fresh s (host malloc s)"
  by (auto simp: fresh_def split: option.splits)

text \<open>
  C23: A packet queue delivers what it accepted, in order and unchanged, and nothing else: after
  any sequence of calls the packets it held at first followed by the packets accepted are the
  packets delivered followed by the packets still in it. No call of the sequence follows a null
  or freed pointer, whatever allocations fail, and every element not in the queue is freed.
\<close>

theorem CWSafeList_fifo:
  assumes malloc_fresh: "\<forall>h a. malloc h = Some a \<longrightarrow> h a = None"
    and "sl_rep s xs"
  shows "\<exists>ins outs s' ys. sl_run malloc es s = Ret (ins, outs, s') \<and> sl_rep s' ys \<and>
           xs @ ins = outs @ ys"
  unfolding sl_run_eq using assms by (intro sl.fifo fresh_host) auto

text \<open>A small concrete allocator: two addresses.\<close>

definition first_free :: "'d elems \<Rightarrow> addr option" where
  "first_free h = (if h 0 = None then Some 0 else if h 1 = None then Some 1 else None)"

lemma first_free_fresh: "\<forall>h a. first_free h = Some a \<longrightarrow> h a = None"
  by (simp add: first_free_def)

theorem CWSafeList_fifo_witness:
  "\<exists>ins outs s' ys.
     sl_run first_free [AddTail 7 1, RemoveHead, AddTailFlag (8::int) 1 True] (CWCreateSafeList True)
       = Ret (ins, outs, s') \<and> sl_rep s' ys \<and> [] @ ins = outs @ ys"
  using CWSafeList_fifo [OF first_free_fresh sl_rep_create] by fast

lemma CWAddElementToSafeListHead_rep:
  assumes "sl_rep s xs" and "fresh s (Some a)"
  shows "\<exists>s'. CWAddElementToSafeListHead (Some a) s (Some d) n = Ret (True, s') \<and>
              sl_rep s' ((d, n, None) # xs)"
  using assms add_head_linked by (cases s) (auto simp: fresh_def)

lemma CWGetHeadElementFromSafeList_rep:
  assumes "sl_rep s xs"
  shows "CWGetHeadElementFromSafeList s =
         Ret (case xs of [] \<Rightarrow> None | (d, n, f) # _ \<Rightarrow> Some (d, n))"
proof -
  from assms obtain l as where s: "s = Some l" and l: "linked l as xs" by (cases s) auto
  show ?thesis
  proof (cases xs)
    case Nil
    then show ?thesis using first_None [OF l] s by (simp add: CWGetHeadElementFromSafeList_def)
  next
    case (Cons x ys)
    then show ?thesis using l s
      by (cases as; cases x) (auto simp: linked_def CWGetHeadElementFromSafeList_def heap_get_def)
  qed
qed

lemma CWRemoveHeadElementFromSafeList_rep:
  assumes "sl_rep s xs"
  shows "\<exists>s'. CWRemoveHeadElementFromSafeList s =
           Ret (case xs of [] \<Rightarrow> None | (d, n, f) # _ \<Rightarrow> Some (d, n), s') \<and> sl_rep s' (tl xs)"
  using sl_deq [OF assms] by (cases xs) (auto simp: remove_head_forget)

lemma CWRemoveTailElementFromSafeList_rep:
  assumes "sl_rep s xs"
  shows "\<exists>s'. CWRemoveTailElementFromSafeList s =
           Ret (if xs = [] then None else Some (fst (last xs), fst (snd (last xs))), s') \<and>
           sl_rep s' (butlast xs)"
proof -
  from assms obtain l as where s: "s = Some l" and l: "linked l as xs" by (cases s) auto
  show ?thesis
  proof (cases xs rule: rev_cases)
    case Nil
    then show ?thesis using last_None [OF l] l s
      by (auto simp: CWRemoveTailElementFromSafeList_def)
  next
    case (snoc ys y)
    then show ?thesis using remove_tail_linked [of l as ys y] l s by auto
  qed
qed

lemma CWGetCountElementFromSafeList_rep:
  "sl_rep s xs \<Longrightarrow> CWGetCountElementFromSafeList s = of_nat (length xs)"
  by (cases s) (auto simp: CWGetCountElementFromSafeList_def linked_def)

text \<open>
  The other operations are those of a double-ended queue: the head addition puts an element
  first (its data flag is left as it was in memory), the removals take the first or the last
  element and free it, the head access and the count change nothing, and nothing happens when the
  allocation fails or the data is null.
\<close>

theorem CWSafeList_deque:
  assumes "sl_rep s xs" and "fresh s (Some a)"
  shows "(\<exists>s'. CWAddElementToSafeListHead (Some a) s (Some d) n = Ret (True, s') \<and>
               sl_rep s' ((d, n, None) # xs)) \<and>
    CWAddElementToSafeListHead None s (Some d) n = Ret (False, s) \<and>
    CWAddElementToSafeListHead (Some a) s None n = Ret (False, s) \<and>
    CWGetHeadElementFromSafeList s =
      Ret (case xs of [] \<Rightarrow> None | (d, n, f) # _ \<Rightarrow> Some (d, n)) \<and>
    (\<exists>s'. CWRemoveHeadElementFromSafeList s =
       Ret (case xs of [] \<Rightarrow> None | (d, n, f) # _ \<Rightarrow> Some (d, n), s') \<and> sl_rep s' (tl xs)) \<and>
    (\<exists>s'. CWRemoveTailElementFromSafeList s =
       Ret (if xs = [] then None else Some (fst (last xs), fst (snd (last xs))), s') \<and>
       sl_rep s' (butlast xs)) \<and>
    CWGetCountElementFromSafeList s = of_nat (length xs)"
  using CWAddElementToSafeListHead_rep [OF assms] CWGetHeadElementFromSafeList_rep [OF assms(1)]
    CWRemoveHeadElementFromSafeList_rep [OF assms(1)]
    CWRemoveTailElementFromSafeList_rep [OF assms(1)]
    CWGetCountElementFromSafeList_rep [OF assms(1)]
  by (intro conjI) (auto simp: CWAddElementToSafeListHead_def split: option.split)

theorem CWSafeList_deque_witness:
  "CWGetCountElementFromSafeList (CWCreateSafeList True :: int CWSafeList) = 0 \<and>
   (\<exists>s'. CWAddElementToSafeListHead (Some 5) (CWCreateSafeList True) (Some (7::int)) 1 = Ret (True, s') \<and>
         sl_rep s' [(7, 1, None)])"
proof -
  have "fresh (CWCreateSafeList True :: int CWSafeList) (Some 5)"
    by (simp add: fresh_def CWCreateSafeList_def)
  from CWSafeList_deque [OF sl_rep_create this, of 7 1] show ?thesis by simp
qed

text \<open>
  Cleaning a list ends; it hands every element's data to the delete function, in order, and
  leaves the empty list.
\<close>

theorem CWCleanSafeList_correct:
  assumes "sl_rep s xs"
  shows "\<exists>s'. CWCleanSafeList s = Some (Ret (map fst xs, s')) \<and> sl_rep s' []"
  using assms
proof (induction xs arbitrary: s)
  case Nil
  from CWRemoveHeadElementFromSafeList_rep [OF this] show ?case
    by (subst CWCleanSafeList.simps) auto
next
  case (Cons x xs)
  from CWRemoveHeadElementFromSafeList_rep [OF Cons.prems] Cons.IH show ?case
    by (subst CWCleanSafeList.simps) (cases x; fastforce)
qed

theorem CWCleanSafeList_correct_witness:
  "\<exists>s'. CWCleanSafeList (CWCreateSafeList True :: int CWSafeList) = Some (Ret ([], s')) \<and> sl_rep s' []"
  using CWCleanSafeList_correct [OF sl_rep_create] by simp

end
