(* ===== verification/TimerLib.thy ===== *)
theory TimerLib
  imports Prelude "HOL-Library.Multiset"
begin

section \<open>timerlib.c: the timer queue and its ticker thread\<close>

text \<open>
  All timeouts of AC and WTP go through one queue of timers, ordered by absolute timeout, and a
  ticker thread that arms the process's interval timer for the first one, waits for
  \<^verbatim>\<open>SIGALRM\<close> and runs the handler. The state is the queue (the doubly linked list as a HOL
  list, first timer at the head), the phase of the ticker thread, and what the kernel keeps: the
  clock, the deadline of the interval timer and the pending signal. Each critical section of the
  code is one operation; threads interleave between them.

  \<^verbatim>\<open>tv_sec\<close> and \<^verbatim>\<open>tv_usec\<close> are \<^verbatim>\<open>long\<close>; they are taken as integers, the times of this
  century being far from the bounds of a 64-bit \<^verbatim>\<open>long\<close>. The id counter is an \<^verbatim>\<open>int\<close>: its
  overflow, undefined in C, is a \<open>Fault\<close>.
\<close>

subsection \<open>Times\<close>

record timeval =
  tv_sec :: int
  tv_usec :: int

abbreviation MICRO_PER_SEC :: int where "MICRO_PER_SEC \<equiv> 1000000"
abbreviation MAX_USEC :: int where "MAX_USEC \<equiv> 999999"
abbreviation ALMOST_NOW :: int where "ALMOST_NOW \<equiv> 1000"
abbreviation INT_MAX :: int where "INT_MAX \<equiv> 2147483647"

definition TV_LESS_THAN :: "timeval \<Rightarrow> timeval \<Rightarrow> bool" where
  "TV_LESS_THAN t1 t2 \<longleftrightarrow>
     tv_sec t1 < tv_sec t2 \<or> (tv_sec t1 = tv_sec t2 \<and> tv_usec t1 < tv_usec t2)"

definition TV_MINUS :: "timeval \<Rightarrow> timeval \<Rightarrow> timeval" where
  "TV_MINUS t1 t2 =
     (if tv_usec t1 \<ge> tv_usec t2
      then \<lparr> tv_sec = tv_sec t1 - tv_sec t2, tv_usec = tv_usec t1 - tv_usec t2 \<rparr>
      else \<lparr> tv_sec = tv_sec t1 - tv_sec t2 - 1,
             tv_usec = tv_usec t1 + (MAX_USEC - tv_usec t2) \<rparr>)"

text \<open>Microseconds since the epoch, and the range \<^verbatim>\<open>gettimeofday\<close> keeps.\<close>

definition tv_us :: "timeval \<Rightarrow> int" where
  "tv_us t = tv_sec t * MICRO_PER_SEC + tv_usec t"

definition tv_ok :: "timeval \<Rightarrow> bool" where
  "tv_ok t \<longleftrightarrow> 0 \<le> tv_usec t \<and> tv_usec t < MICRO_PER_SEC"

subsection \<open>State\<close>

record ('h, 'a) tl_timer_t =
  timeout :: timeval
  handler :: 'h
  handler_arg :: "'a option"
  tid :: int
  in_use :: bool
  cancelled :: bool

text \<open>
  The ticker: at the top of its loop (before the critical section that arms the timer), in
  \<^verbatim>\<open>sigwait\<close>, past \<^verbatim>\<open>sigwait\<close> and before the critical section that takes the first timer,
  or in a handler.
\<close>

datatype ('h, 'a) phase = Top | Sigwait | Woken | Handler 'h "'a option"

text \<open>
  \<open>alarm\<close> is the time in microseconds at which the kernel raises \<^verbatim>\<open>SIGALRM\<close> (\<open>None\<close>: the
  interval timer is disarmed), \<open>pending\<close> the pending signal. \<open>ran\<close> records which timers'
  handlers were called, with the timeout and the time of the call, oldest first.
\<close>

record ('h, 'a) timerq =
  queue :: "('h, 'a) tl_timer_t list"
  cur_id :: int
  ticker :: "('h, 'a) phase"
  now :: timeval
  alarm :: "int option"
  pending :: bool
  ran :: "(int \<times> timeval \<times> timeval) list"

subsection \<open>Operations\<close>

text \<open>A pointer to a timer of the queue is its position.\<close>

definition timer_dequeue :: "nat \<Rightarrow> ('h, 'a) timerq \<Rightarrow> ('h, 'a) timerq" where
  "timer_dequeue i q = q\<lparr>queue := take i (queue q) @ drop (Suc i) (queue q)\<rparr>"

text \<open>The value given to \<^verbatim>\<open>setitimer\<close>; a zero value disarms the timer.\<close>

definition timer_relative :: "timeval \<Rightarrow> timeval \<Rightarrow> timeval" where
  "timer_relative abs_now abs_to =
     (if TV_LESS_THAN abs_now abs_to then TV_MINUS abs_to abs_now
      else \<lparr> tv_sec = 0, tv_usec = ALMOST_NOW \<rparr>)"

definition setitimer :: "timeval \<Rightarrow> timeval \<Rightarrow> int option" where
  "setitimer abs_now v = (if tv_us v = 0 then None else Some (tv_us abs_now + tv_us v))"

definition timer_start :: "timeval \<Rightarrow> ('h, 'a) timerq \<Rightarrow> ('h, 'a) timerq" where
  "timer_start abs_to q = q\<lparr>alarm := setitimer (now q) (timer_relative (now q) abs_to)\<rparr>"

text \<open>The first critical section of the loop of \<^verbatim>\<open>cronometer\<close>: \<open>None\<close> while it waits on the
  condition variable for a timer.\<close>

definition cronometer_arm :: "('h, 'a) timerq \<Rightarrow> ('h, 'a) timerq option" where
  "cronometer_arm q =
     (case (ticker q, queue q) of
        (Top, t # ts) \<Rightarrow>
          Some ((timer_start (timeout t) q)\<lparr>queue := t\<lparr>in_use := True\<rparr> # ts, ticker := Sigwait\<rparr>)
      | _ \<Rightarrow> None)"

definition cronometer_sigwait :: "('h, 'a) timerq \<Rightarrow> ('h, 'a) timerq option" where
  "cronometer_sigwait q =
     (case ticker q of
        Sigwait \<Rightarrow> if pending q then Some (q\<lparr>pending := False, ticker := Woken\<rparr>) else None
      | _ \<Rightarrow> None)"

text \<open>The critical section after \<^verbatim>\<open>sigwait\<close>: it follows \<^verbatim>\<open>timerq.first\<close> without a check.\<close>

definition cronometer_expire :: "('h, 'a) timerq \<Rightarrow> ('h, 'a) timerq res option" where
  "cronometer_expire q =
     (case ticker q of
        Woken \<Rightarrow>
          (case queue q of
             [] \<Rightarrow> Some Fault
           | t # ts \<Rightarrow>
               if cancelled t then Some (Ret ((timer_dequeue 0 q)\<lparr>ticker := Top\<rparr>))
               else Some (Ret ((timer_dequeue 0 q)
                      \<lparr>ticker := Handler (handler t) (handler_arg t),
                       ran := ran q @ [(tid t, timeout t, now q)]\<rparr>)))
      | _ \<Rightarrow> None)"

definition cronometer_handler_done :: "('h, 'a) timerq \<Rightarrow> ('h, 'a) timerq option" where
  "cronometer_handler_done q =
     (case ticker q of Handler h a \<Rightarrow> Some (q\<lparr>ticker := Top\<rparr>) | _ \<Rightarrow> None)"

text \<open>\<open>timer_init\<close>: the answers of the thread library are the arguments.\<close>

definition timer_init ::
  "timeval \<Rightarrow> bool \<Rightarrow> bool \<Rightarrow> bool \<Rightarrow> bool \<Rightarrow> ('h, 'a) timerq option" where
  "timer_init t0 mutex_ok cond_ok create_ok started =
     (if mutex_ok \<and> cond_ok \<and> create_ok \<and> started
      then Some \<lparr> queue = [], cur_id = 0, ticker = Top, now = t0, alarm = None, pending = False,
                  ran = [] \<rparr>
      else None)"

text \<open>\<open>timer_destroy\<close> frees the timers from the last to the first: the list of the freed ids.\<close>

definition timer_destroy :: "('h, 'a) timerq \<Rightarrow> int list" where
  "timer_destroy q = rev (map tid (queue q))"

text \<open>The loop that looks for the first timer that expires after the new one.\<close>

fun timer_place :: "timeval \<Rightarrow> ('h, 'a) tl_timer_t list \<Rightarrow> nat" where
  "timer_place new [] = 0"
| "timer_place new (t # ts) = (if TV_LESS_THAN new (timeout t) then 0 else Suc (timer_place new ts))"

definition timer_abs :: "timeval \<Rightarrow> int \<Rightarrow> int \<Rightarrow> timeval" where
  "timer_abs abs_now sec usec =
     \<lparr> tv_sec = tv_sec abs_now + (sec + (tv_usec abs_now + usec) div MICRO_PER_SEC),
       tv_usec = (tv_usec abs_now + usec) mod MICRO_PER_SEC \<rparr>"

definition timer_add ::
  "bool \<Rightarrow> int \<Rightarrow> int \<Rightarrow> 'h option \<Rightarrow> 'a option \<Rightarrow> ('h, 'a) timerq \<Rightarrow>
   (int \<times> ('h, 'a) timerq) res" where
  "timer_add mem sec usec hndlr arg q =
     (case hndlr of None \<Rightarrow> Ret (-1, q)
      | Some h \<Rightarrow>
        if sec < 0 \<or> usec < 0 \<or> (sec = 0 \<and> usec = 0) then Ret (-1, q)
        else if \<not> mem then Ret (-1, q)
        else if cur_id q \<ge> INT_MAX then Fault
        else
          let app = \<lparr> timeout = timer_abs (now q) sec usec, handler = h, handler_arg = arg,
                      tid = cur_id q, in_use = False, cancelled = False \<rparr>;
              q' = q\<lparr>cur_id := cur_id q + 1\<rparr>
          in (case queue q of
               [] \<Rightarrow> Ret (tid app, q'\<lparr>queue := [app]\<rparr>)
             | t # ts \<Rightarrow>
                 (case timer_place (timeout app) (t # ts) of
                    0 \<Rightarrow> Ret (tid app, (timer_start (timeout app) q')
                           \<lparr>queue := (app\<lparr>in_use := True\<rparr>) # (t\<lparr>in_use := False\<rparr>) # ts\<rparr>)
                  | Suc n \<Rightarrow> Ret (tid app, q'
                           \<lparr>queue := take (Suc n) (t # ts) @ app # drop (Suc n) (t # ts)\<rparr>))))"

text \<open>The search loop of \<open>timer_rem\<close>: the first timer with the id.\<close>

fun timer_find :: "int \<Rightarrow> ('h, 'a) tl_timer_t list \<Rightarrow> nat option" where
  "timer_find n [] = None"
| "timer_find n (t # ts) = (if tid t = n then Some 0 else map_option Suc (timer_find n ts))"

text \<open>
  \<open>timer_rem\<close> with the arguments handed to \<^verbatim>\<open>free_arg\<close>; \<open>frees\<close> says whether that function
  is given.
\<close>

definition timer_rem ::
  "int \<Rightarrow> bool \<Rightarrow> ('h, 'a) timerq \<Rightarrow> 'a option list \<times> ('h, 'a) timerq" where
  "timer_rem n frees q =
     (case timer_find n (queue q) of
        None \<Rightarrow> ([], q)
      | Some i \<Rightarrow>
          let t = queue q ! i; freed = (if frees then [handler_arg t] else []) in
          if in_use t
          then (freed, q\<lparr>queue := (queue q)[i := t\<lparr>handler_arg := (if frees then None else handler_arg t),
                                                  cancelled := True\<rparr>]\<rparr>)
          else (freed, timer_dequeue i q))"

subsection \<open>The system: threads, ticker and clock\<close>

text \<open>
  One action: the clock advances (the kernel raises the signal when the interval timer is due),
  the ticker takes a step, or some thread, possibly inside a handler, adds or removes a timer.
\<close>

datatype ('h, 'a) action =
    Clock timeval
  | Arm | TakeSignal | Expire | HandlerDone
  | Add bool int int "'h option" "'a option"
  | Rem int bool

definition clock_advance :: "timeval \<Rightarrow> ('h, 'a) timerq \<Rightarrow> ('h, 'a) timerq option" where
  "clock_advance t q =
     (if tv_ok t \<and> \<not> TV_LESS_THAN t (now q)
      then Some (case alarm q of
             None \<Rightarrow> q\<lparr>now := t\<rparr>
           | Some d \<Rightarrow> if d \<le> tv_us t then q\<lparr>now := t, alarm := None, pending := True\<rparr>
                        else q\<lparr>now := t\<rparr>)
      else None)"

text \<open>\<open>None\<close> when the action is not possible in the state.\<close>

fun step :: "('h, 'a) action \<Rightarrow> ('h, 'a) timerq \<Rightarrow> ('h, 'a) timerq res option" where
  "step (Clock t) q = map_option Ret (clock_advance t q)"
| "step Arm q = map_option Ret (cronometer_arm q)"
| "step TakeSignal q = map_option Ret (cronometer_sigwait q)"
| "step Expire q = cronometer_expire q"
| "step HandlerDone q = map_option Ret (cronometer_handler_done q)"
| "step (Add mem sec usec h a) q =
     Some (res_bind (timer_add mem sec usec h a q) (\<lambda>(_, q'). Ret q'))"
| "step (Rem n frees) q = Some (Ret (snd (timer_rem n frees q)))"

text \<open>The states the library reaches from its initialisation.\<close>

inductive reachable :: "('h, 'a) timerq \<Rightarrow> bool" where
  init: "\<lbrakk>tv_ok t0; timer_init t0 True True True True = Some q\<rbrakk> \<Longrightarrow> reachable q"
| step: "\<lbrakk>reachable q; step a q = Some (Ret q')\<rbrakk> \<Longrightarrow> reachable q'"

text \<open>Runs of several actions.\<close>

inductive steps :: "('h, 'a) timerq \<Rightarrow> ('h, 'a) timerq \<Rightarrow> bool" where
  no_step: "steps q q"
| next_step: "\<lbrakk>steps q q'; step a q' = Some (Ret q'')\<rbrakk> \<Longrightarrow> steps q q''"

fun exec :: "('h, 'a) action list \<Rightarrow> ('h, 'a) timerq \<Rightarrow> ('h, 'a) timerq option" where
  "exec [] q = Some q"
| "exec (a # as) q = (case step a q of Some (Ret q') \<Rightarrow> exec as q' | _ \<Rightarrow> None)"

lemma exec_reachable: "\<lbrakk>exec as q = Some q'; reachable q\<rbrakk> \<Longrightarrow> reachable q'"
  by (induction as q rule: exec.induct) (auto split: option.splits res.splits intro: reachable.step)

subsection \<open>Arithmetic of times\<close>

abbreviation due :: "('h, 'a) tl_timer_t \<Rightarrow> int" where "due t \<equiv> tv_us (timeout t)"

lemma TV_LESS_THAN_us: "\<lbrakk>tv_ok a; tv_ok b\<rbrakk> \<Longrightarrow> TV_LESS_THAN a b \<longleftrightarrow> tv_us a < tv_us b"
  unfolding TV_LESS_THAN_def tv_us_def tv_ok_def by arith

lemma timer_abs_us: "tv_us (timer_abs n sec usec) = tv_us n + sec * MICRO_PER_SEC + usec"
  using div_mult_mod_eq [of "tv_usec n + usec" MICRO_PER_SEC]
  by (simp add: timer_abs_def tv_us_def algebra_simps)

lemma timer_abs_ok [simp]: "tv_ok (timer_abs n sec usec)"
  by (simp add: timer_abs_def tv_ok_def)

text \<open>\<open>TV_MINUS\<close> is one microsecond short when it borrows.\<close>

lemma TV_MINUS_us:
  "tv_us (TV_MINUS a b) = tv_us a - tv_us b - (if tv_usec a \<ge> tv_usec b then 0 else 1)"
  by (simp add: TV_MINUS_def tv_us_def algebra_simps)

text \<open>
  What the interval timer is armed for. A timeout that is over fires one millisecond from
  now. A timeout to come fires at the timeout or one microsecond before, the latter exactly when
  the subtraction of the microseconds borrows; when such a timeout is one microsecond away the
  value given to \<^verbatim>\<open>setitimer\<close> is zero and the interval timer is switched off instead.
\<close>

theorem timer_start_alarm:
  assumes "tv_ok (now q)" and "tv_ok abs_to"
  shows "alarm (timer_start abs_to q) =
    (if tv_us abs_to \<le> tv_us (now q) then Some (tv_us (now q) + 1000)
     else if tv_usec abs_to \<ge> tv_usec (now q) then Some (tv_us abs_to)
     else if tv_us abs_to = tv_us (now q) + 1 then None
     else Some (tv_us abs_to - 1))"
proof (cases "tv_us (now q) < tv_us abs_to")
  case True
  then show ?thesis using assms
    by (auto simp: timer_start_def timer_relative_def setitimer_def TV_LESS_THAN_us TV_MINUS_us)
next
  case False
  then have "timer_relative (now q) abs_to = \<lparr> tv_sec = 0, tv_usec = ALMOST_NOW \<rparr>"
    using assms by (simp add: timer_relative_def TV_LESS_THAN_us)
  with False show ?thesis by (simp add: timer_start_def setitimer_def tv_us_def)
qed

theorem timer_start_alarm_witness:
  "alarm (timer_start \<lparr>tv_sec = 101, tv_usec = 0\<rparr>
     \<lparr>queue = [] :: (int, int) tl_timer_t list, cur_id = 0, ticker = Top,
      now = \<lparr>tv_sec = 100, tv_usec = 999999\<rparr>, alarm = None, pending = False, ran = []\<rparr>) = None"
  by (subst timer_start_alarm) (simp_all add: tv_ok_def tv_us_def)

subsection \<open>Insertion\<close>

lemma timer_place_le: "timer_place new ts \<le> length ts"
  by (induction ts) auto

lemma timer_place_take:
  "t \<in> set (take (timer_place new ts) ts) \<Longrightarrow> \<not> TV_LESS_THAN new (timeout t)"
  by (induction ts) (auto split: if_splits)

lemma timer_place_drop:
  "drop (timer_place new ts) ts = x # xs \<Longrightarrow> TV_LESS_THAN new (timeout x)"
  by (induction ts) (auto split: if_splits)

lemma sorted_insert_place:
  assumes "sorted (map due ts)" "\<forall>t \<in> set ts. tv_ok (timeout t)" "tv_ok new"
  shows "sorted (take (timer_place new ts) (map due ts) @ tv_us new #
                 drop (timer_place new ts) (map due ts))"
  using assms
proof (induction ts)
  case (Cons t ts)
  have "take (timer_place new ts) (map due ts) @ drop (timer_place new ts) (map due ts) = map due ts"
    by simp
  then have "set (take (timer_place new ts) (map due ts)) \<union> set (drop (timer_place new ts) (map due ts))
      = set (map due ts)" by (metis set_append)
  then show ?case using Cons by (auto simp: TV_LESS_THAN_us)
qed simp

text \<open>What an addition does to the queue: the new timer goes in after those not later than it;
  only when it becomes the first do other fields change.\<close>

lemma timer_add_cases:
  assumes "timer_add mem sec usec h a q = Ret (i, q')"
  obtains (none) "i = -1" "q' = q"
  | (empty) hd app where "h = Some hd" "queue q = []" "0 \<le> sec" "0 \<le> usec" "\<not> (sec = 0 \<and> usec = 0)"
      "i = cur_id q"
      "app = \<lparr>timeout = timer_abs (now q) sec usec, handler = hd, handler_arg = a, tid = cur_id q,
              in_use = False, cancelled = False\<rparr>"
      "q' = q\<lparr>cur_id := cur_id q + 1, queue := [app]\<rparr>"
  | (first) hd app t ts where "h = Some hd" "queue q = t # ts" "0 \<le> sec" "0 \<le> usec"
      "\<not> (sec = 0 \<and> usec = 0)" "i = cur_id q"
      "app = \<lparr>timeout = timer_abs (now q) sec usec, handler = hd, handler_arg = a, tid = cur_id q,
              in_use = True, cancelled = False\<rparr>"
      "TV_LESS_THAN (timeout app) (timeout t)"
      "q' = (timer_start (timeout app) q)\<lparr>cur_id := cur_id q + 1,
               queue := app # t\<lparr>in_use := False\<rparr> # ts\<rparr>"
  | (later) hd app t ts n where "h = Some hd" "queue q = t # ts" "0 \<le> sec" "0 \<le> usec"
      "\<not> (sec = 0 \<and> usec = 0)" "i = cur_id q"
      "app = \<lparr>timeout = timer_abs (now q) sec usec, handler = hd, handler_arg = a, tid = cur_id q,
              in_use = False, cancelled = False\<rparr>"
      "timer_place (timeout app) ts = n" "\<not> TV_LESS_THAN (timeout app) (timeout t)"
      "q' = q\<lparr>cur_id := cur_id q + 1, queue := t # take n ts @ app # drop n ts\<rparr>"
proof -
  show ?thesis
  proof (cases "h = None \<or> i = -1 \<and> q' = q")
    case True
    then show ?thesis using assms by (intro none) (auto simp: timer_add_def)
  next
    case False
    then obtain hd where h: "h = Some hd" by auto
    with False assms have g: "0 \<le> sec" "0 \<le> usec" "\<not> (sec = 0 \<and> usec = 0)"
      by (auto simp: timer_add_def split: if_splits)
    show ?thesis
    proof (cases "queue q")
      case Nil
      show ?thesis using assms False h g Nil
        by (intro empty [OF h Nil g _ refl]) (auto simp: timer_add_def Let_def split: if_splits)
    next
      case (Cons t ts)
      show ?thesis
      proof (cases "TV_LESS_THAN (timer_abs (now q) sec usec) (timeout t)")
        case True
        show ?thesis using assms False h g Cons True
          by (intro first [OF h Cons g _ refl])
             (auto simp: timer_add_def Let_def timer_start_def split: if_splits)
      next
        case less: False
        show ?thesis using assms False h g Cons less
          by (intro later [OF h Cons g _ refl refl])
             (auto simp: timer_add_def Let_def split: if_splits)
      qed
    qed
  qed
qed

subsection \<open>The invariant\<close>

definition order_inv :: "('h, 'a) timerq \<Rightarrow> bool" where
  "order_inv q \<longleftrightarrow> tv_ok (now q) \<and> (\<forall>t \<in> set (queue q). tv_ok (timeout t)) \<and>
     sorted (map due (queue q))"

definition id_inv :: "('h, 'a) timerq \<Rightarrow> bool" where
  "id_inv q \<longleftrightarrow> 0 \<le> cur_id q \<and> distinct (map fst (ran q) @ map tid (queue q)) \<and>
     (\<forall>i \<in> set (map fst (ran q) @ map tid (queue q)). 0 \<le> i \<and> i < cur_id q)"

definition use_inv :: "('h, 'a) timerq \<Rightarrow> bool" where
  "use_inv q \<longleftrightarrow> (\<forall>t \<in> set (tl (queue q)). \<not> in_use t) \<and>
     (ticker q \<in> {Sigwait, Woken} \<longrightarrow> queue q \<noteq> [] \<and> in_use (hd (queue q)))"

lemma take_drop_set: "set (take n xs) \<union> set (drop n xs) = set xs"
  by (metis append_take_drop_id set_append)

lemma order_inv_add:
  assumes "timer_add mem sec usec h a q = Ret (i, q')" "order_inv q"
  shows "order_inv q'"
  using assms(1)
proof (cases rule: timer_add_cases)
  case (first hd app t ts)
  then show ?thesis using assms(2)
    by (auto simp: order_inv_def timer_start_def TV_LESS_THAN_us intro: order_trans less_imp_le)
next
  case (later hd app t ts n)
  have s: "sorted (map due (t # ts))" "\<forall>x \<in> set (t # ts). tv_ok (timeout x)" "tv_ok (timeout app)"
    using assms(2) later by (auto simp: order_inv_def)
  from sorted_insert_place [OF s] later
  have "sorted (map due (t # take n ts @ app # drop n ts))"
    by (auto simp: take_map drop_map)
  moreover have "\<forall>x \<in> set (t # take n ts @ app # drop n ts). tv_ok (timeout x)"
    using s take_drop_set [of n ts] by auto
  ultimately show ?thesis using assms(2) later by (simp add: order_inv_def)
qed (use assms(2) in \<open>auto simp: order_inv_def\<close>)

definition all_ids :: "('h, 'a) timerq \<Rightarrow> int list" where
  "all_ids q = map fst (ran q) @ map tid (queue q)"

lemma id_inv_mset: "id_inv q \<longleftrightarrow> 0 \<le> cur_id q \<and> distinct (all_ids q) \<and>
    (\<forall>i \<in> set (all_ids q). 0 \<le> i \<and> i < cur_id q)"
  by (simp add: id_inv_def all_ids_def)

text \<open>The invariant of the ids depends only on which ids there are.\<close>

lemma id_inv_perm:
  assumes "id_inv q" "mset (all_ids q') = mset (all_ids q)" "cur_id q' = cur_id q"
  shows "id_inv q'"
  using assms mset_eq_setD [OF assms(2)] mset_eq_imp_distinct_iff [OF assms(2)]
  by (simp add: id_inv_mset)

lemma id_inv_new:
  assumes "id_inv q" "mset (all_ids q') = mset (cur_id q # all_ids q)" "cur_id q' = cur_id q + 1"
  shows "id_inv q'"
  using assms mset_eq_setD [OF assms(2)] mset_eq_imp_distinct_iff [OF assms(2)]
  by (auto simp: id_inv_mset)

lemma id_inv_sub:
  assumes "id_inv q" "mset (all_ids q) = add_mset i (mset (all_ids q'))" "cur_id q' = cur_id q"
  shows "id_inv q'"
proof -
  have m: "mset (all_ids q) = mset (i # all_ids q')" using assms(2) by simp
  show ?thesis
    using assms mset_eq_setD [OF m] mset_eq_imp_distinct_iff [OF m] by (simp add: id_inv_mset)
qed

lemma mset_insert_at: "mset (map f (take n xs @ x # drop n xs)) = add_mset (f x) (mset (map f xs))"
proof -
  have "mset (map f xs) = mset (map f (take n xs)) + mset (map f (drop n xs))"
    by (metis append_take_drop_id map_append mset_append)
  then show ?thesis by simp
qed

lemma id_inv_add:
  assumes "timer_add mem sec usec h a q = Ret (i, q')" "id_inv q"
  shows "id_inv q'"
  using assms(1)
proof (cases rule: timer_add_cases)
  case (later hd app t ts n)
  show ?thesis
    using later mset_insert_at [of tid n ts app]
    by (intro id_inv_new [OF assms(2)]) (simp_all add: all_ids_def)
next
  case (none)
  with assms(2) show ?thesis by simp
next
  case (empty hd app)
  then show ?thesis by (intro id_inv_new [OF assms(2)]) (simp_all add: all_ids_def)
next
  case (first hd app t ts)
  then show ?thesis
    by (intro id_inv_new [OF assms(2)]) (simp_all add: all_ids_def timer_start_def)
qed

lemma use_inv_add:
  assumes "timer_add mem sec usec h a q = Ret (i, q')" "use_inv q"
  shows "use_inv q'"
  using assms(1)
proof (cases rule: timer_add_cases)
  case (later hd app t ts n)
  then show ?thesis using assms(2)
    by (auto simp: use_inv_def dest: in_set_takeD in_set_dropD)
qed (use assms(2) in \<open>auto simp: use_inv_def timer_start_def\<close>)

lemma timer_find_Some:
  "timer_find n ts = Some i \<Longrightarrow> i < length ts \<and> tid (ts ! i) = n"
  by (induction ts arbitrary: i) (auto split: if_splits)

lemma timer_find_None: "timer_find n ts = None \<longleftrightarrow> n \<notin> tid ` set ts"
  by (induction ts) auto

text \<open>What a removal does: nothing, mark the timer, or take it out.\<close>

lemma timer_rem_cases:
  obtains (absent) "n \<notin> tid ` set (queue q)" "timer_rem n frees q = ([], q)"
  | (mark) as t bs where "queue q = as @ t # bs" "tid t = n" "in_use t"
      "snd (timer_rem n frees q) = q\<lparr>queue := as @
         t\<lparr>handler_arg := (if frees then None else handler_arg t), cancelled := True\<rparr> # bs\<rparr>"
  | (out) as t bs where "queue q = as @ t # bs" "tid t = n" "\<not> in_use t"
      "snd (timer_rem n frees q) = q\<lparr>queue := as @ bs\<rparr>"
proof (cases "timer_find n (queue q)")
  case None
  then show ?thesis by (intro absent) (auto simp: timer_find_None [symmetric] timer_rem_def)
next
  case (Some i)
  with timer_find_Some [OF Some] have i: "i < length (queue q)" "tid (queue q ! i) = n" by auto
  note q = id_take_nth_drop [OF i(1)]
  show ?thesis
  proof (cases "in_use (queue q ! i)")
    case True
    with Some i show ?thesis
      by (intro mark [OF q i(2) True]) (simp add: timer_rem_def Let_def upd_conv_take_nth_drop)
  next
    case False
    with Some i show ?thesis
      by (intro out [OF q i(2) False]) (simp add: timer_rem_def Let_def timer_dequeue_def)
  qed
qed

lemma id_inv_rem: "id_inv q \<Longrightarrow> id_inv (snd (timer_rem n frees q))"
proof (cases rule: timer_rem_cases [of n q frees])
  case (mark as t bs)
  assume "id_inv q"
  then show ?thesis using mark by (auto simp: id_inv_def)
next
  case (out as t bs)
  assume "id_inv q"
  then show ?thesis using out by (auto simp: id_inv_def)
qed simp

lemma order_inv_rem: "order_inv q \<Longrightarrow> order_inv (snd (timer_rem n frees q))"
proof (cases rule: timer_rem_cases [of n q frees])
  case (mark as t bs)
  assume "order_inv q"
  then show ?thesis using mark by (auto simp: order_inv_def sorted_append)
next
  case (out as t bs)
  assume "order_inv q"
  then show ?thesis using out by (auto simp: order_inv_def sorted_append)
qed simp

lemma use_inv_rem: "use_inv q \<Longrightarrow> use_inv (snd (timer_rem n frees q))"
proof (cases rule: timer_rem_cases [of n q frees])
  case (mark as t bs)
  assume "use_inv q"
  then show ?thesis using mark by (cases as) (auto simp: use_inv_def)
next
  case (out as t bs)
  assume "use_inv q"
  then show ?thesis using out by (cases as; cases bs) (auto simp: use_inv_def)
qed simp

text \<open>A state of the library: the three invariants together.\<close>

definition timer_inv :: "('h, 'a) timerq \<Rightarrow> bool" where
  "timer_inv q \<longleftrightarrow> order_inv q \<and> id_inv q \<and> use_inv q"

lemmas inv_defs = order_inv_def id_inv_def use_inv_def

lemma inv_clock: "\<lbrakk>clock_advance t q = Some q'; timer_inv q\<rbrakk> \<Longrightarrow> timer_inv q'"
  by (cases "alarm q")
     (force simp: clock_advance_def timer_inv_def order_inv_def use_inv_def
        split: if_splits intro: id_inv_perm [of q] simp: all_ids_def)+

lemma inv_arm: "\<lbrakk>cronometer_arm q = Some q'; timer_inv q\<rbrakk> \<Longrightarrow> timer_inv q'"
  by (cases "ticker q"; cases "queue q")
     (auto simp: cronometer_arm_def timer_start_def timer_inv_def order_inv_def use_inv_def all_ids_def
        intro: id_inv_perm [of q])

lemma inv_sigwait: "\<lbrakk>cronometer_sigwait q = Some q'; timer_inv q\<rbrakk> \<Longrightarrow> timer_inv q'"
  by (cases "ticker q")
     (auto simp: cronometer_sigwait_def timer_inv_def order_inv_def use_inv_def all_ids_def
        split: if_splits intro: id_inv_perm [of q])

lemma inv_handler_done: "\<lbrakk>cronometer_handler_done q = Some q'; timer_inv q\<rbrakk> \<Longrightarrow> timer_inv q'"
  by (cases "ticker q")
     (auto simp: cronometer_handler_done_def timer_inv_def order_inv_def use_inv_def all_ids_def
        intro: id_inv_perm [of q])

lemma inv_expire:
  assumes "cronometer_expire q = Some r" "timer_inv q"
  shows "\<exists>q'. r = Ret q' \<and> timer_inv q'"
proof -
  from assms obtain t ts where q: "ticker q = Woken" "queue q = t # ts"
    by (cases "ticker q"; cases "queue q") (auto simp: cronometer_expire_def timer_inv_def use_inv_def)
  have "\<And>x. x \<in> set (tl ts) \<Longrightarrow> x \<in> set ts" by (cases ts) auto
  with assms q show ?thesis
    by (auto simp: cronometer_expire_def timer_dequeue_def timer_inv_def inv_defs split: if_splits)
qed

lemma inv_step:
  assumes "step a q = Some (Ret q')" "timer_inv q"
  shows "timer_inv q'"
proof (cases a)
  case (Add mem sec usec h x)
  with assms(1) obtain i where "timer_add mem sec usec h x q = Ret (i, q')"
    by (auto simp: res_simps split: prod.splits)
  with assms(2) show ?thesis
    by (auto simp: timer_inv_def intro: order_inv_add id_inv_add use_inv_add)
next
  case (Rem n frees)
  with assms show ?thesis
    by (auto simp: timer_inv_def intro: order_inv_rem id_inv_rem use_inv_rem)
next
  case Expire
  with assms inv_expire show ?thesis by fastforce
qed (use assms inv_clock inv_arm inv_sigwait inv_handler_done in auto)

lemma reachable_inv: "reachable q \<Longrightarrow> timer_inv q"
proof (induction rule: reachable.induct)
  case (init t0 q)
  then show ?case by (auto simp: timer_init_def timer_inv_def inv_defs)
qed (rule inv_step)

subsection \<open>What the library promises\<close>

lemma reachable_init [simp]: "tv_ok t0 \<Longrightarrow>
    reachable \<lparr>queue = [], cur_id = 0, ticker = Top, now = t0, alarm = None, pending = False, ran = []\<rparr>"
  by (rule reachable.init) (simp_all add: timer_init_def)

text \<open>An example state: two timers wait, the ticker has armed the first.\<close>

definition ex_epoch :: timeval where "ex_epoch = \<lparr>tv_sec = 100, tv_usec = 0\<rparr>"

definition ex_start :: "(int, int) timerq" where
  "ex_start = \<lparr>queue = [], cur_id = 0, ticker = Top, now = ex_epoch, alarm = None, pending = False,
               ran = []\<rparr>"

definition ex_timer :: "int \<Rightarrow> int \<Rightarrow> bool \<Rightarrow> (int, int) tl_timer_t" where
  "ex_timer sec n used = \<lparr>timeout = \<lparr>tv_sec = sec, tv_usec = 0\<rparr>, handler = 1, handler_arg = None,
     tid = n, in_use = used, cancelled = False\<rparr>"

definition ex_two :: "(int, int) timerq" where
  "ex_two = ex_start\<lparr>queue := [ex_timer 105 1 True, ex_timer 110 0 False], cur_id := 2,
     ticker := Sigwait, alarm := Some 105000000\<rparr>"

lemmas exec_defs = ex_start_def ex_epoch_def ex_timer_def ex_two_def timer_add_def timer_abs_def
  TV_LESS_THAN_def timer_start_def timer_relative_def setitimer_def TV_MINUS_def tv_us_def tv_ok_def
  cronometer_arm_def cronometer_sigwait_def cronometer_expire_def cronometer_handler_done_def
  clock_advance_def timer_dequeue_def timer_rem_def Let_def

lemma reachable_ex_start: "reachable ex_start"
  unfolding ex_start_def by (rule reachable_init) (simp add: exec_defs)

lemma exec_ex_two:
  "exec [Add True 10 0 (Some 1) None, Add True 5 0 (Some 1) None, Arm] ex_start = Some ex_two"
  by (simp add: exec_defs)

lemma reachable_ex_two: "reachable ex_two"
  by (rule exec_reachable [OF exec_ex_two reachable_ex_start])

text \<open>
  C16: In every state the library reaches the queue is in the order of the timeouts and every
  timer has its own id; the ticker never follows the null pointer when it is woken: it takes a
  timer whose timeout is not later than any other's, no timer's handler runs twice, and no timer
  that waits has run.
\<close>

theorem timerq_safe:
  assumes "reachable q"
  shows "sorted (map (\<lambda>t. tv_us (timeout t)) (queue q)) \<and> distinct (map tid (queue q)) \<and>
    distinct (map fst (ran q)) \<and> set (map fst (ran q)) \<inter> set (map tid (queue q)) = {} \<and>
    cronometer_expire q \<noteq> Some Fault \<and>
    (ticker q = Woken \<longrightarrow> queue q \<noteq> [] \<and>
       (\<forall>t \<in> set (queue q). tv_us (timeout (hd (queue q))) \<le> tv_us (timeout t)))"
proof -
  from reachable_inv [OF assms] have i: "timer_inv q" .
  then have "cronometer_expire q \<noteq> Some Fault" using inv_expire by fastforce
  moreover have "ticker q = Woken \<Longrightarrow> queue q \<noteq> [] \<and>
       (\<forall>t \<in> set (queue q). tv_us (timeout (hd (queue q))) \<le> tv_us (timeout t))"
    using i by (cases "queue q") (auto simp: timer_inv_def inv_defs)
  ultimately show ?thesis using i
    unfolding timer_inv_def inv_defs distinct_append by blast
qed

theorem timerq_safe_witness:
  "sorted (map (\<lambda>t. tv_us (timeout t)) (queue ex_two)) \<and> distinct (map tid (queue ex_two)) \<and>
   queue ex_two \<noteq> []"
  using timerq_safe [OF reachable_ex_two] by (simp add: ex_two_def)

text \<open>
  C27: A timer that is added is due exactly the given time after now and gets the next id; every
  other timer stays in the queue, at its timeout, and none that is due at the same time or earlier
  comes after the new one.
\<close>

theorem timer_add_correct:
  assumes "reachable q" and "timer_add mem sec usec h a q = Ret (i, q')" and "i \<noteq> -1"
  shows "i = cur_id q \<and> cur_id q' = i + 1 \<and>
    (\<exists>xs ys app. queue q' = xs @ app # ys \<and> tid app = i \<and>
       tv_us (timeout app) = tv_us (now q) + sec * 1000000 + usec \<and>
       map (\<lambda>t. (tid t, timeout t)) (xs @ ys) = map (\<lambda>t. (tid t, timeout t)) (queue q) \<and>
       (\<forall>t \<in> set xs. tv_us (timeout t) \<le> tv_us (timeout app)) \<and>
       (\<forall>t \<in> set ys. tv_us (timeout app) < tv_us (timeout t)))"
    (is "_ \<and> _ \<and> (\<exists>xs ys app. ?R xs ys app)")
  using assms(2)
proof (cases rule: timer_add_cases)
  case none
  with assms(3) show ?thesis by simp
next
  case (empty hd app)
  then have "?R [] [] app" by (simp add: timer_abs_us)
  then have "\<exists>xs ys app. ?R xs ys app" by blast
  with empty show ?thesis by simp
next
  case (first hd app t ts)
  from reachable_inv [OF assms(1)] have o: "order_inv q" by (simp add: timer_inv_def)
  then have "\<forall>x \<in> set (t # ts). due app < due x"
    using first by (auto simp: order_inv_def TV_LESS_THAN_us)
  with first have "?R [] (t\<lparr>in_use := False\<rparr> # ts) app" by (simp add: timer_abs_us)
  then have "\<exists>xs ys app. ?R xs ys app" by blast
  with first show ?thesis by simp
next
  case (later hd app t ts n)
  from reachable_inv [OF assms(1)] have o: "order_inv q" by (simp add: timer_inv_def)
  then have ok: "\<forall>x \<in> set (t # ts). tv_ok (timeout x)" "tv_ok (timeout app)"
    using later by (auto simp: order_inv_def)
  have "due x \<le> due app" if "x \<in> set (t # take n ts)" for x
  proof -
    from that have "x \<in> set (t # ts)" by (auto dest: in_set_takeD)
    moreover have "\<not> TV_LESS_THAN (timeout app) (timeout x)"
      using that later(8,9) timer_place_take [of x "timeout app" ts] by auto
    ultimately show ?thesis using ok by (simp add: TV_LESS_THAN_us)
  qed
  moreover have "due app < due x" if "x \<in> set (drop n ts)" for x
  proof (cases "drop n ts")
    case (Cons y ys)
    have "sorted (map due ts)" using o later(2) by (simp add: order_inv_def)
    then have "sorted (map due (drop n ts))" by (simp add: drop_map [symmetric] sorted_wrt_drop)
    then have "due y \<le> due x" using that Cons by auto
    moreover have "y \<in> set ts" using Cons by (metis in_set_dropD list.set_intros(1))
    moreover have "TV_LESS_THAN (timeout app) (timeout y)"
      using timer_place_drop [of "timeout app" ts y ys] Cons later by simp
    ultimately show ?thesis using ok by (auto simp: TV_LESS_THAN_us)
  qed (use that in simp)
  moreover have "map (\<lambda>t. (tid t, timeout t)) (take n ts @ drop n ts) = map (\<lambda>t. (tid t, timeout t)) ts"
    by simp
  ultimately have "?R (t # take n ts) (drop n ts) app"
    using later by (simp add: timer_abs_us flip: map_append)
  then have "\<exists>xs ys app. ?R xs ys app" by blast
  with later show ?thesis by simp
qed

theorem timer_add_correct_witness:
  "\<exists>q' xs ys app. timer_add True 7 0 (Some 1) None ex_two = Ret (2, q') \<and>
     queue q' = xs @ app # ys \<and> tid app = 2 \<and> tv_us (timeout app) = 107000000 \<and>
     map tid xs = [1] \<and> map tid ys = [0]"
proof -
  obtain q' where "timer_add True 7 0 (Some 1) None ex_two = Ret (2, q')"
    "queue q' = [ex_timer 105 1 True, ex_timer 107 2 False, ex_timer 110 0 False]"
    by (simp add: exec_defs)
  with timer_add_correct [OF reachable_ex_two, of True 7 0 "Some 1" None 2 q'] show ?thesis
    by (intro exI [of _ q'] exI [of _ "[ex_timer 105 1 True]"] exI [of _ "[ex_timer 110 0 False]"]
          exI [of _ "ex_timer 107 2 False"]) (simp add: exec_defs)
qed

subsection \<open>Removal\<close>

text \<open>A timer that can no longer run: its id is in use no more and it waits, if at all, cancelled.\<close>

definition dead :: "int \<Rightarrow> ('h, 'a) timerq \<Rightarrow> bool" where
  "dead n q \<longleftrightarrow> n < cur_id q \<and> n \<notin> fst ` set (ran q) \<and>
     (\<forall>t \<in> set (queue q). tid t = n \<longrightarrow> cancelled t)"

lemma dead_add:
  assumes "timer_add mem sec usec h a q = Ret (i, q')" "dead n q"
  shows "dead n q'"
  using assms(1)
proof (cases rule: timer_add_cases)
  case (later hd app t ts k)
  then show ?thesis using assms(2)
    by (auto simp: dead_def dest: in_set_takeD in_set_dropD)
qed (use assms(2) in \<open>auto simp: dead_def timer_start_def\<close>)

lemma dead_rem: "dead n q \<Longrightarrow> dead n (snd (timer_rem k frees q))"
  by (cases rule: timer_rem_cases [of k q frees]) (auto simp: dead_def)

lemma dead_step:
  assumes "step a q = Some (Ret q')" "dead n q"
  shows "dead n q'"
proof (cases a)
  case (Add mem sec usec h x)
  with assms dead_add show ?thesis by (fastforce simp: res_simps split: prod.splits)
next
  case (Rem k frees)
  with assms dead_rem show ?thesis by fastforce
next
  case (Clock t)
  with assms show ?thesis
    by (auto simp: clock_advance_def dead_def split: if_splits option.splits)
next
  case Arm
  with assms show ?thesis
    by (cases "ticker q"; cases "queue q") (auto simp: cronometer_arm_def timer_start_def dead_def)
next
  case TakeSignal
  with assms show ?thesis
    by (cases "ticker q") (auto simp: cronometer_sigwait_def dead_def split: if_splits)
next
  case Expire
  with assms show ?thesis
    by (cases "ticker q"; cases "queue q")
       (auto simp: cronometer_expire_def timer_dequeue_def dead_def split: if_splits)
next
  case HandlerDone
  with assms show ?thesis by (cases "ticker q") (auto simp: cronometer_handler_done_def dead_def)
qed

lemma dead_steps: "\<lbrakk>steps q q'; dead n q\<rbrakk> \<Longrightarrow> dead n q'"
  by (induction rule: steps.induct) (auto dest: dead_step)

lemma timer_rem_dead:
  assumes "timer_inv q" "n < cur_id q" "n \<notin> fst ` set (ran q)"
  shows "dead n (snd (timer_rem n frees q))"
proof -
  have d: "distinct (map tid (queue q))" using assms(1) by (simp add: timer_inv_def id_inv_def)
  show ?thesis
  proof (cases rule: timer_rem_cases [of n q frees])
    case absent
    with assms(2,3) show ?thesis by (auto simp: dead_def)
  next
    case (mark as t bs)
    with d have "\<forall>x \<in> set as \<union> set bs. tid x \<noteq> n" by (auto simp: image_iff)
    with mark assms(2,3) show ?thesis by (auto simp: dead_def)
  next
    case (out as t bs)
    with d have "\<forall>x \<in> set as \<union> set bs. tid x \<noteq> n" by (auto simp: image_iff)
    with out assms(2,3) show ?thesis by (auto simp: dead_def)
  qed
qed

text \<open>
  Once \<open>timer_rem\<close> returns, the handler of the timer is not called any more, whatever the
  threads, the ticker and the clock do afterwards, unless it had been called before; the removal
  is effective also for the timer the ticker waits for.
\<close>

theorem timer_rem_stops:
  assumes "reachable q" and "n < cur_id q" and "n \<notin> fst ` set (ran q)"
    and "steps (snd (timer_rem n frees q)) q'"
  shows "n \<notin> fst ` set (ran q')"
proof -
  have "dead n (snd (timer_rem n frees q))"
    by (rule timer_rem_dead [OF reachable_inv [OF assms(1)] assms(2,3)])
  from dead_steps [OF assms(4) this] show ?thesis by (simp add: dead_def)
qed

lemma exec_steps: "exec as q = Some q' \<Longrightarrow> steps p q \<Longrightarrow> steps p q'"
  by (induction as q rule: exec.induct) (auto split: option.splits res.splits intro: steps.next_step)

theorem timer_rem_stops_witness:
  "\<exists>q'. exec [Clock \<lparr>tv_sec = 105, tv_usec = 0\<rparr>, TakeSignal, Expire]
          (snd (timer_rem 1 True ex_two)) = Some q' \<and> 1 \<notin> fst ` set (ran q')"
proof -
  obtain q' where e: "exec [Clock \<lparr>tv_sec = 105, tv_usec = 0\<rparr>, TakeSignal, Expire]
      (snd (timer_rem 1 True ex_two)) = Some q'"
    by (simp add: exec_defs)
  have "steps (snd (timer_rem 1 True ex_two)) q'"
    by (rule exec_steps [OF e steps.no_step])
  from timer_rem_stops [OF reachable_ex_two _ _ this] have "1 \<notin> fst ` set (ran q')"
    by (simp add: ex_two_def ex_start_def)
  with e show ?thesis by blast
qed

subsection \<open>Can a handler run before its time?\<close>

text \<open>
  The runs in which the ticker never arms the interval timer while \<^verbatim>\<open>SIGALRM\<close> is pending.
\<close>

inductive calm :: "('h, 'a) timerq \<Rightarrow> bool" where
  calm_init: "\<lbrakk>tv_ok t0; timer_init t0 True True True True = Some q\<rbrakk> \<Longrightarrow> calm q"
| calm_step: "\<lbrakk>calm q; step a q = Some (Ret q'); a = Arm \<longrightarrow> \<not> pending q\<rbrakk> \<Longrightarrow> calm q'"

lemma calm_reachable: "calm q \<Longrightarrow> reachable q"
  by (induction rule: calm.induct) (auto intro: reachable.intros)

definition not_early :: "('h, 'a) timerq \<Rightarrow> bool" where
  "not_early q \<longleftrightarrow>
     (\<forall>(i, t, r) \<in> set (ran q). tv_us t - 1 \<le> tv_us r) \<and>
     (ticker q = Sigwait \<longrightarrow>
        (pending q \<longrightarrow> due (hd (queue q)) - 1 \<le> tv_us (now q)) \<and>
        (case alarm q of None \<Rightarrow> True | Some d \<Rightarrow> due (hd (queue q)) - 1 \<le> d)) \<and>
     (ticker q = Woken \<longrightarrow> due (hd (queue q)) - 1 \<le> tv_us (now q))"

lemma alarm_not_early:
  assumes "tv_ok (now q)" "tv_ok t"
  shows "case alarm (timer_start t q) of None \<Rightarrow> True | Some d \<Rightarrow> tv_us t - 1 \<le> d"
proof (cases "tv_us (now q) < tv_us t")
  case True
  then show ?thesis using assms
    by (auto simp: timer_start_def timer_relative_def setitimer_def TV_LESS_THAN_us TV_MINUS_us)
next
  case False
  then have "timer_relative (now q) t = \<lparr> tv_sec = 0, tv_usec = ALMOST_NOW \<rparr>"
    using assms by (simp add: timer_relative_def TV_LESS_THAN_us)
  with False show ?thesis by (simp add: timer_start_def setitimer_def tv_us_def)
qed

lemma not_early_add:
  assumes "timer_add mem sec usec h a q = Ret (i, q')" "not_early q" "timer_inv q"
  shows "not_early q'"
  using assms(1)
proof (cases rule: timer_add_cases)
  case (first hd app t ts)
  have o: "tv_ok (now q)" "tv_ok (timeout t)" "tv_ok (timeout app)"
    using assms(3) first by (auto simp: timer_inv_def order_inv_def)
  have "0 < sec * MICRO_PER_SEC + usec" using first(3,4,5) by linarith
  then have "tv_us (now q) < due app" using first by (simp add: timer_abs_us)
  moreover have "due app < due t" using first(8) o by (simp add: TV_LESS_THAN_us)
  ultimately have "\<not> due t - 1 \<le> tv_us (now q)" by linarith
  then show ?thesis
    using assms(2) first alarm_not_early [OF o(1,3)]
    by (auto simp: not_early_def timer_start_def split: option.splits)
qed (use assms(2,3) in \<open>auto simp: not_early_def timer_inv_def use_inv_def split: option.splits\<close>)

lemma not_early_rem:
  assumes "not_early q" "timer_inv q"
  shows "not_early (snd (timer_rem n frees q))"
proof (cases rule: timer_rem_cases [of n q frees])
  case (mark as t bs)
  then show ?thesis using assms(1)
    by (cases as) (auto simp: not_early_def split: option.splits)
next
  case (out as t bs)
  then show ?thesis using assms
    by (cases as) (auto simp: not_early_def timer_inv_def use_inv_def split: option.splits)
qed (use assms(1) in simp)

lemma not_early_step:
  assumes s: "step a q = Some (Ret q')" and e: "not_early q" and i: "timer_inv q"
    and calm: "a = Arm \<longrightarrow> \<not> pending q"
  shows "not_early q'"
proof (cases a)
  case (Add mem sec usec h x)
  with s e i not_early_add show ?thesis by (fastforce simp: res_simps split: prod.splits)
next
  case (Rem k frees)
  with s e i not_early_rem show ?thesis by fastforce
next
  case (Clock t)
  then have t: "tv_us (now q) \<le> tv_us t" using s i
    by (auto simp: clock_advance_def timer_inv_def order_inv_def TV_LESS_THAN_us split: if_splits)
  show ?thesis
  proof (cases "alarm q")
    case None
    with Clock s have "q' = q\<lparr>now := t\<rparr>" by (auto simp: clock_advance_def split: if_splits)
    with None e t show ?thesis by (auto simp: not_early_def)
  next
    case (Some d)
    with Clock s have "q' = (if d \<le> tv_us t then q\<lparr>now := t, alarm := None, pending := True\<rparr>
        else q\<lparr>now := t\<rparr>)" by (auto simp: clock_advance_def split: if_splits)
    with Some e t show ?thesis by (auto simp: not_early_def)
  qed
next
  case Arm
  then obtain t ts where q: "ticker q = Top" "queue q = t # ts"
    using s by (cases "ticker q"; cases "queue q") (auto simp: cronometer_arm_def)
  then have "tv_ok (now q)" "tv_ok (timeout t)" using i by (auto simp: timer_inv_def order_inv_def)
  from alarm_not_early [OF this] s Arm q e calm show ?thesis
    by (auto simp: cronometer_arm_def not_early_def timer_start_def split: option.splits)
next
  case TakeSignal
  with s e show ?thesis
    by (cases "ticker q") (auto simp: cronometer_sigwait_def not_early_def split: if_splits)
next
  case Expire
  with s e show ?thesis
    by (cases "ticker q"; cases "queue q")
       (auto simp: cronometer_expire_def timer_dequeue_def not_early_def split: if_splits)
next
  case HandlerDone
  with s e show ?thesis
    by (cases "ticker q") (auto simp: cronometer_handler_done_def not_early_def)
qed

lemma calm_not_early: "calm q \<Longrightarrow> not_early q"
proof (induction rule: calm.induct)
  case (calm_init t0 q)
  then show ?case by (auto simp: timer_init_def not_early_def)
next
  case (calm_step q a q')
  then show ?case using reachable_inv [OF calm_reachable] not_early_step by blast
qed

text \<open>
  As long as the ticker never arms the interval timer with a signal pending, no handler is
  called more than a microsecond before its timeout.
\<close>

theorem calm_handlers_on_time:
  assumes "calm q" and "(i, t, r) \<in> set (ran q)"
  shows "tv_us t - 1 \<le> tv_us r"
  using calm_not_early [OF assms(1)] assms(2) by (auto simp: not_early_def)

fun calm_exec :: "('h, 'a) action list \<Rightarrow> ('h, 'a) timerq \<Rightarrow> ('h, 'a) timerq option" where
  "calm_exec [] q = Some q"
| "calm_exec (a # as) q =
     (case step a q of
        Some (Ret q') \<Rightarrow> if a = Arm \<and> pending q then None else calm_exec as q'
      | _ \<Rightarrow> None)"

lemma calm_exec: "\<lbrakk>calm_exec as q = Some q'; calm q\<rbrakk> \<Longrightarrow> calm q'"
  by (induction as q rule: calm_exec.induct)
     (auto split: option.splits res.splits if_splits intro: calm.calm_step)

lemma calm_ex_start: "calm ex_start"
  by (rule calm.calm_init [of ex_epoch]) (simp_all add: exec_defs timer_init_def)

theorem calm_handlers_on_time_witness:
  "\<exists>q'. calm_exec [Add True 10 0 (Some 1) None, Arm, Clock \<lparr>tv_sec = 110, tv_usec = 0\<rparr>, TakeSignal,
          Expire] ex_start = Some q' \<and>
     (0, \<lparr>tv_sec = 110, tv_usec = 0\<rparr>, \<lparr>tv_sec = 110, tv_usec = 0\<rparr>) \<in> set (ran q') \<and>
     tv_us \<lparr>tv_sec = 110, tv_usec = 0\<rparr> - 1 \<le> tv_us \<lparr>tv_sec = 110, tv_usec = 0\<rparr>"
proof -
  obtain q' where e: "calm_exec [Add True 10 0 (Some 1) None, Arm,
      Clock \<lparr>tv_sec = 110, tv_usec = 0\<rparr>, TakeSignal, Expire] ex_start = Some q'"
    and r: "(0, \<lparr>tv_sec = 110, tv_usec = 0\<rparr>, \<lparr>tv_sec = 110, tv_usec = 0\<rparr>) \<in> set (ran q')"
    by (simp add: exec_defs)
  from calm_handlers_on_time [OF calm_exec [OF e calm_ex_start] r] e r show ?thesis by blast
qed

text \<open>
  In general a handler may run long before its time. A timer added from a handler or by
  another thread while a handler runs starts the interval timer; its signal is pending when the
  ticker arms the interval timer once more, so the interval timer fires a second time for a timer
  already served, and this signal makes the ticker take the next timer at once. Here the timer
  due at 200 seconds runs at 162.
\<close>

theorem handler_may_run_early:
  "\<exists>q. reachable (q :: (int, int) timerq) \<and>
     (\<exists>(i, t, r) \<in> set (ran q). tv_sec t = 200 \<and> tv_sec r = 162)"
proof -
  let ?at = "\<lambda>s. Clock \<lparr>tv_sec = s, tv_usec = 0\<rparr>"
  let ?run = "[Add True 10 0 (Some 1) None, Add True 100 0 (Some 2) None, Arm, ?at 110, TakeSignal,
    Expire, Add True 20 0 (Some 3) None, ?at 160, HandlerDone, Arm, TakeSignal, Expire, ?at 162,
    HandlerDone, Arm, TakeSignal, Expire] :: (int, int) action list"
  obtain q where e: "exec ?run ex_start = Some q" and r: "ran q =
      [(0, \<lparr>tv_sec = 110, tv_usec = 0\<rparr>, \<lparr>tv_sec = 110, tv_usec = 0\<rparr>),
       (2, \<lparr>tv_sec = 130, tv_usec = 0\<rparr>, \<lparr>tv_sec = 160, tv_usec = 0\<rparr>),
       (1, \<lparr>tv_sec = 200, tv_usec = 0\<rparr>, \<lparr>tv_sec = 162, tv_usec = 0\<rparr>)]"
    by (simp add: exec_defs)
  from exec_reachable [OF e reachable_ex_start] r show ?thesis by (intro exI [of _ q]) simp
qed

text \<open>The ticker waits for a signal nobody will send; the actions of the ticker and the clock.\<close>

definition stuck :: "('h, 'a) timerq \<Rightarrow> bool" where
  "stuck q \<longleftrightarrow> ticker q = Sigwait \<and> alarm q = None \<and> \<not> pending q"

inductive idle :: "('h, 'a) timerq \<Rightarrow> ('h, 'a) timerq \<Rightarrow> bool" where
  idle_refl: "idle q q"
| idle_step: "\<lbrakk>idle q q'; step a q' = Some (Ret q''); a \<in> {Arm, TakeSignal, Expire, HandlerDone} \<or>
    (\<exists>t. a = Clock t)\<rbrakk> \<Longrightarrow> idle q q''"

lemma idle_stuck: "\<lbrakk>idle q q'; stuck q\<rbrakk> \<Longrightarrow> stuck q' \<and> ran q' = ran q \<and> queue q' = queue q"
  by (induction rule: idle.induct)
     (auto simp: stuck_def clock_advance_def cronometer_arm_def cronometer_sigwait_def
        cronometer_expire_def cronometer_handler_done_def split: if_splits)

text \<open>
  C31: The microsecond that \<open>TV_MINUS\<close> loses can stop the ticker: here the first timer is due
  one microsecond after the ticker arms it, across the end of a second, the interval timer is
  switched off, no signal is pending, and as long as no thread adds or removes a timer no action
  but the passing of time is possible: the handler is never called.
\<close>

theorem timer_lost:
  "\<exists>q. reachable (q :: (int, int) timerq) \<and> map tid (queue q) = [0] \<and> ran q = [] \<and>
     (\<lambda>q'. (ticker q', ran q', map tid (queue q'))) ` {q'. idle q q'} = {(Sigwait, [], [0])}"
proof -
  let ?run = "[Add True 1 0 (Some 1) None, Clock \<lparr>tv_sec = 100, tv_usec = 999999\<rparr>, Arm]
    :: (int, int) action list"
  obtain q where e: "exec ?run ex_start = Some q" and q: "stuck q" "map tid (queue q) = [0]" "ran q = []"
    by (simp add: exec_defs stuck_def)
  let ?f = "\<lambda>q'. (ticker q', ran q', map tid (queue q'))"
  have c: "?f q' = (Sigwait, [], [0])" if "idle q q'" for q'
    using idle_stuck [OF that q(1)] q by (simp add: stuck_def)
  have "?f ` {q'. idle q q'} = (\<lambda>_. (Sigwait, [], [0])) ` {q'. idle q q'}"
    by (rule image_cong [OF HOL.refl]) (rule c, simp)
  also have "\<dots> = {(Sigwait, [], [0])}"
    by (rule image_constant [of q]) (simp add: idle_refl)
  finally have "?f ` {q'. idle q q'} = {(Sigwait, [], [0])}" .
  with q(2,3) exec_reachable [OF e reachable_ex_start] show ?thesis by (intro exI [of _ q] conjI)
qed

end
