(* ===== verification/Protocol.thy ===== *)
theory Protocol
  imports Prelude
begin

section \<open>CWProtocol.c: protocol messages\<close>

text \<open>
  The store and retrieve primitives on a message buffer, the frame of a message element, the
  control header, and the message elements that \<^verbatim>\<open>CWProtocol.c\<close> itself assembles and parses.

  A message is its allocated block, the offset of the next byte and the type of the data packet
  (\<open>None\<close>: not initialised). A copy outside the block is a \<open>Fault\<close>: the code compares no
  offset with a length before it copies. A C \<^verbatim>\<open>int\<close> is an \<open>int\<close>; a conversion to an
  unsigned type is \<open>word_of_int\<close>. \<open>mem n\<close> says whether \<^verbatim>\<open>malloc\<close> serves a request
  for \<open>n\<close> bytes; a negative size becomes a huge \<^verbatim>\<open>size_t\<close> that is never served.
\<close>

subsection \<open>Messages\<close>

record CWProtocolMessage =
  msg :: "byte list"
  offset :: nat
  data_msgType :: "int option"

type_synonym memory = "nat \<Rightarrow> bool"

definition malloc_ok :: "memory \<Rightarrow> int \<Rightarrow> bool" where
  "malloc_ok mem n \<longleftrightarrow> 0 \<le> n \<and> mem (nat n)"

definition CW_CREATE_PROTOCOL_MESSAGE :: "memory \<Rightarrow> int \<Rightarrow> CWProtocolMessage res" where
  "CW_CREATE_PROTOCOL_MESSAGE mem n =
     (if malloc_ok mem n
      then Ret \<lparr> msg = replicate (nat n) 0, offset = 0, data_msgType = None \<rparr>
      else Raise CW_ERROR_OUT_OF_MEMORY)"

text \<open>Copies \<open>bs\<close> to the offset.\<close>

definition store :: "byte list \<Rightarrow> CWProtocolMessage \<Rightarrow> CWProtocolMessage res" where
  "store bs m =
     (if offset m + length bs \<le> length (msg m)
      then Ret (m\<lparr> msg := take (offset m) (msg m) @ bs @ drop (offset m + length bs) (msg m),
                   offset := offset m + length bs \<rparr>)
      else Fault)"

definition CWProtocolStore8 :: "CWProtocolMessage \<Rightarrow> byte \<Rightarrow> CWProtocolMessage res" where
  "CWProtocolStore8 m val = store [val] m"

definition CWProtocolStore16 :: "CWProtocolMessage \<Rightarrow> 16 word \<Rightarrow> CWProtocolMessage res" where
  "CWProtocolStore16 m val = store (be16 val) m"

definition CWProtocolStore32 :: "CWProtocolMessage \<Rightarrow> 32 word \<Rightarrow> CWProtocolMessage res" where
  "CWProtocolStore32 m val = store (be32 val) m"

text \<open>A C string is the list of its bytes before the terminating zero.\<close>

definition CWProtocolStoreStr :: "CWProtocolMessage \<Rightarrow> byte list \<Rightarrow> CWProtocolMessage res" where
  "CWProtocolStoreStr m str = store str m"

definition CWProtocolStoreMessage ::
  "CWProtocolMessage \<Rightarrow> CWProtocolMessage \<Rightarrow> CWProtocolMessage res" where
  "CWProtocolStoreMessage m m' =
     (if offset m' \<le> length (msg m') then store (take (offset m') (msg m')) m else Fault)"

definition CWProtocolStoreRawBytes ::
  "CWProtocolMessage \<Rightarrow> byte list \<Rightarrow> int \<Rightarrow> CWProtocolMessage res" where
  "CWProtocolStoreRawBytes m bytes len =
     (if 0 \<le> len \<and> nat len \<le> length bytes then store (take (nat len) bytes) m else Fault)"

text \<open>Reads \<open>n\<close> bytes at the offset.\<close>

definition retrieve :: "nat \<Rightarrow> CWProtocolMessage \<Rightarrow> (byte list \<times> CWProtocolMessage) res" where
  "retrieve n m =
     (if offset m + n \<le> length (msg m)
      then Ret (take n (drop (offset m) (msg m)), m\<lparr>offset := offset m + n\<rparr>)
      else Fault)"

definition CWProtocolRetrieve8 :: "CWProtocolMessage \<Rightarrow> (byte \<times> CWProtocolMessage) res" where
  "CWProtocolRetrieve8 m = res_bind (retrieve 1 m) (\<lambda>(bs, m). Ret (hd bs, m))"

definition CWProtocolRetrieve16 :: "CWProtocolMessage \<Rightarrow> (16 word \<times> CWProtocolMessage) res" where
  "CWProtocolRetrieve16 m = res_bind (retrieve 2 m) (\<lambda>(bs, m). Ret (of_be16 bs, m))"

definition CWProtocolRetrieve32 :: "CWProtocolMessage \<Rightarrow> (32 word \<times> CWProtocolMessage) res" where
  "CWProtocolRetrieve32 m = res_bind (retrieve 4 m) (\<lambda>(bs, m). Ret (of_be32 bs, m))"

text \<open>The null pointer, \<open>None\<close>, when the allocation fails; then the offset stays.\<close>

definition CWProtocolRetrieveRawBytes ::
  "memory \<Rightarrow> CWProtocolMessage \<Rightarrow> int \<Rightarrow> (byte list option \<times> CWProtocolMessage) res" where
  "CWProtocolRetrieveRawBytes mem m len =
     (if malloc_ok mem len then res_bind (retrieve (nat len) m) (\<lambda>(bs, m). Ret (Some bs, m))
      else Ret (None, m))"

definition CWProtocolRetrieveStr ::
  "memory \<Rightarrow> CWProtocolMessage \<Rightarrow> int \<Rightarrow> (byte list option \<times> CWProtocolMessage) res" where
  "CWProtocolRetrieveStr mem m len =
     (if malloc_ok mem (len + 1)
      then if len < 0 then Fault
           else res_bind (retrieve (nat len) m) (\<lambda>(bs, m). Ret (Some bs, m))
      else Ret (None, m))"

subsection \<open>Message elements\<close>

definition CWAssembleMsgElem ::
  "memory \<Rightarrow> CWProtocolMessage option \<Rightarrow> 32 word \<Rightarrow> CWProtocolMessage res" where
  "CWAssembleMsgElem mem msgPtr type =
     (case msgPtr of None \<Rightarrow> Raise CW_ERROR_WRONG_ARG
      | Some m \<Rightarrow>
          res_bind (CW_CREATE_PROTOCOL_MESSAGE mem (6 + int (offset m))) (\<lambda>c.
          res_bind (CWProtocolStore16 c (ucast type)) (\<lambda>c.
          res_bind (CWProtocolStore16 c (word_of_int (int (offset m)))) (\<lambda>c.
          res_bind (CWProtocolStoreMessage c m) (\<lambda>c.
          Ret (m\<lparr>msg := msg c, offset := offset c, data_msgType := Some (sint type)\<rparr>))))))"

definition CWParseFormatMsgElem ::
  "CWProtocolMessage \<Rightarrow> ((16 word \<times> 16 word) \<times> CWProtocolMessage) res" where
  "CWParseFormatMsgElem m =
     res_bind (CWProtocolRetrieve16 m) (\<lambda>(type, m).
     res_bind (CWProtocolRetrieve16 m) (\<lambda>(len, m). Ret ((type, len), m)))"

text \<open>
  \<^verbatim>\<open>CWParseMessageElementStart\<close> and \<^verbatim>\<open>CWParseMessageElementEnd\<close> around the body of a parse
  function: null arguments are refused (the message and the result are not null in the model), and
  the bytes read must be the length announced.
\<close>

definition CWParseMessageElement ::
  "(CWProtocolMessage \<Rightarrow> ('a \<times> CWProtocolMessage) res) \<Rightarrow> CWProtocolMessage \<Rightarrow> int \<Rightarrow>
   ('a \<times> CWProtocolMessage) res" where
  "CWParseMessageElement body m len =
     res_bind (body m) (\<lambda>(v, m').
       if int (offset m') - int (offset m) = len then Ret (v, m')
       else Raise CW_ERROR_INVALID_FORMAT)"

subsection \<open>Control header\<close>

record CWControlHeaderValues =
  messageTypeValue :: "32 word"
  seqNum :: byte
  msgElemsLen :: "16 word"

abbreviation CW_CONTROL_HEADER_OFFSET_FOR_MSG_ELEMS :: int where
  "CW_CONTROL_HEADER_OFFSET_FOR_MSG_ELEMS \<equiv> 3"

definition CWAssembleControlHeader ::
  "memory \<Rightarrow> CWControlHeaderValues \<Rightarrow> CWProtocolMessage res" where
  "CWAssembleControlHeader mem v =
     res_bind (CW_CREATE_PROTOCOL_MESSAGE mem 8) (\<lambda>m.
     res_bind (CWProtocolStore32 m (messageTypeValue v)) (\<lambda>m.
     res_bind (CWProtocolStore8 m (seqNum v)) (\<lambda>m.
     res_bind (CWProtocolStore16 m
        (word_of_int (CW_CONTROL_HEADER_OFFSET_FOR_MSG_ELEMS + uint (msgElemsLen v)))) (\<lambda>m.
     CWProtocolStore8 m 0))))"

definition CWParseControlHeader ::
  "CWProtocolMessage \<Rightarrow> (CWControlHeaderValues \<times> CWProtocolMessage) res" where
  "CWParseControlHeader m =
     res_bind (CWProtocolRetrieve32 m) (\<lambda>(t, m).
     res_bind (CWProtocolRetrieve8 m) (\<lambda>(s, m).
     res_bind (CWProtocolRetrieve16 m) (\<lambda>(l, m).
     res_bind (CWProtocolRetrieve8 m) (\<lambda>(flags, m).
     Ret (\<lparr> messageTypeValue = t, seqNum = s, msgElemsLen = l \<rparr>, m)))))"

subsection \<open>The message elements of CWProtocol.c\<close>

datatype CWProtocolResultCode =
    CW_PROTOCOL_SUCCESS | CW_PROTOCOL_FAILURE_AC_LIST | CW_PROTOCOL_SUCCESS_NAT
  | CW_PROTOCOL_FAILURE | CW_PROTOCOL_FAILURE_RES_DEPLETION | CW_PROTOCOL_FAILURE_UNKNOWN_SRC
  | CW_PROTOCOL_FAILURE_INCORRECT_DATA | CW_PROTOCOL_FAILURE_ID_IN_USE
  | CW_PROTOCOL_FAILURE_WTP_HW_UNSUPP | CW_PROTOCOL_FAILURE_BINDING_UNSUPP
  | CW_PROTOCOL_FAILURE_UNABLE_TO_RESET | CW_PROTOCOL_FAILURE_FIRM_WRT_ERROR
  | CW_PROTOCOL_FAILURE_SERVICE_PROVIDED_ANYHOW | CW_PROTOCOL_FAILURE_SERVICE_NOT_PROVIDED
  | CW_PROTOCOL_FAILURE_INVALID_CHECKSUM | CW_PROTOCOL_FAILURE_INVALID_DATA_LEN
  | CW_PROTOCOL_FAILURE_OTHER_ERROR | CW_PROTOCOL_FAILURE_IMAGE_ALREADY_PRESENT
  | CW_PROTOCOL_FAILURE_INVALID_STATE | CW_PROTOCOL_FAILURE_UNRECOGNIZED_REQ
  | CW_PROTOCOL_FAILURE_MISSING_MSG_ELEM | CW_PROTOCOL_FAILURE_UNRECOGNIZED_MSG_ELEM

fun code_value :: "CWProtocolResultCode \<Rightarrow> 32 word" where
  "code_value CW_PROTOCOL_SUCCESS = 0"
| "code_value CW_PROTOCOL_FAILURE_AC_LIST = 1"
| "code_value CW_PROTOCOL_SUCCESS_NAT = 2"
| "code_value CW_PROTOCOL_FAILURE = 3"
| "code_value CW_PROTOCOL_FAILURE_RES_DEPLETION = 4"
| "code_value CW_PROTOCOL_FAILURE_UNKNOWN_SRC = 5"
| "code_value CW_PROTOCOL_FAILURE_INCORRECT_DATA = 6"
| "code_value CW_PROTOCOL_FAILURE_ID_IN_USE = 7"
| "code_value CW_PROTOCOL_FAILURE_WTP_HW_UNSUPP = 8"
| "code_value CW_PROTOCOL_FAILURE_BINDING_UNSUPP = 9"
| "code_value CW_PROTOCOL_FAILURE_UNABLE_TO_RESET = 10"
| "code_value CW_PROTOCOL_FAILURE_FIRM_WRT_ERROR = 11"
| "code_value CW_PROTOCOL_FAILURE_SERVICE_PROVIDED_ANYHOW = 12"
| "code_value CW_PROTOCOL_FAILURE_SERVICE_NOT_PROVIDED = 13"
| "code_value CW_PROTOCOL_FAILURE_INVALID_CHECKSUM = 14"
| "code_value CW_PROTOCOL_FAILURE_INVALID_DATA_LEN = 15"
| "code_value CW_PROTOCOL_FAILURE_OTHER_ERROR = 16"
| "code_value CW_PROTOCOL_FAILURE_IMAGE_ALREADY_PRESENT = 17"
| "code_value CW_PROTOCOL_FAILURE_INVALID_STATE = 18"
| "code_value CW_PROTOCOL_FAILURE_UNRECOGNIZED_REQ = 19"
| "code_value CW_PROTOCOL_FAILURE_MISSING_MSG_ELEM = 20"
| "code_value CW_PROTOCOL_FAILURE_UNRECOGNIZED_MSG_ELEM = 21"

abbreviation CW_MSG_ELEMENT_RESULT_CODE_CW_TYPE :: "32 word" where
  "CW_MSG_ELEMENT_RESULT_CODE_CW_TYPE \<equiv> 33"
abbreviation CW_MSG_ELEMENT_SESSION_ID_CW_TYPE :: "32 word" where
  "CW_MSG_ELEMENT_SESSION_ID_CW_TYPE \<equiv> 35"
abbreviation CW_MSG_ELEMENT_RESULT_CODE_CW_TYPE_WITH_PAYLOAD :: "32 word" where
  "CW_MSG_ELEMENT_RESULT_CODE_CW_TYPE_WITH_PAYLOAD \<equiv> 58"
abbreviation CW_MSG_ELEMENT_VENDOR_SPEC_PAYLOAD_CW_TYPE :: "16 word" where
  "CW_MSG_ELEMENT_VENDOR_SPEC_PAYLOAD_CW_TYPE \<equiv> 57"

text \<open>An enumeration's value need not be one of its constants: result codes travel as 32 bits.\<close>

definition CWAssembleMsgElemResultCode :: "memory \<Rightarrow> 32 word \<Rightarrow> CWProtocolMessage res" where
  "CWAssembleMsgElemResultCode mem code =
     res_bind (CW_CREATE_PROTOCOL_MESSAGE mem 4) (\<lambda>m.
     res_bind (CWProtocolStore32 m code) (\<lambda>m.
     CWAssembleMsgElem mem (Some m) CW_MSG_ELEMENT_RESULT_CODE_CW_TYPE))"

definition CWParseResultCode ::
  "CWProtocolMessage \<Rightarrow> int \<Rightarrow> (32 word \<times> CWProtocolMessage) res" where
  "CWParseResultCode = CWParseMessageElement CWProtocolRetrieve32"

text \<open>\<^verbatim>\<open>CWProtocolVendorSpecificValues\<close>: a payload of one of the two kinds, or of another type.\<close>

datatype vendor_payload =
    UCI "byte list option"   \<comment> \<open>\<^verbatim>\<open>response\<close>\<close>
  | WUM byte byte byte byte  \<comment> \<open>\<^verbatim>\<open>type\<close> and the three version bytes\<close>
  | OtherPayload

abbreviation WTP_VERSION_RESPONSE :: byte where "WTP_VERSION_RESPONSE \<equiv> 2"

definition vendor_payload_size :: "vendor_payload \<Rightarrow> int" where
  "vendor_payload_size p =
     (case p of
        UCI response \<Rightarrow> (case response of None \<Rightarrow> 0 | Some r \<Rightarrow> int (length r))
      | WUM t mj mn rv \<Rightarrow> if t = WTP_VERSION_RESPONSE then 4 else 1
      | OtherPayload \<Rightarrow> 0)"

definition CWAssembleVendorMsgElemResultCodeWithPayload ::
  "memory \<Rightarrow> 32 word \<Rightarrow> vendor_payload \<Rightarrow> CWProtocolMessage res" where
  "CWAssembleVendorMsgElemResultCodeWithPayload mem code payload =
     (let payloadSize = vendor_payload_size payload in
      res_bind (CW_CREATE_PROTOCOL_MESSAGE mem (2 * 2 + 4 * 2 + payloadSize)) (\<lambda>m.
      res_bind (CWProtocolStore32 m code) (\<lambda>m.
      res_bind
        (case payload of
           UCI response \<Rightarrow>
             res_bind (CWProtocolStore16 m CW_MSG_ELEMENT_VENDOR_SPEC_PAYLOAD_CW_TYPE) (\<lambda>m.
             res_bind (CWProtocolStore16 m 1) (\<lambda>m.
             res_bind (CWProtocolStore32 m (word_of_int payloadSize)) (\<lambda>m.
             case response of None \<Rightarrow> Ret m | Some r \<Rightarrow> CWProtocolStoreStr m r)))
         | WUM t mj mn rv \<Rightarrow>
             res_bind (CWProtocolStore16 m CW_MSG_ELEMENT_VENDOR_SPEC_PAYLOAD_CW_TYPE) (\<lambda>m.
             res_bind (CWProtocolStore16 m 2) (\<lambda>m.
             res_bind (CWProtocolStore32 m (word_of_int payloadSize)) (\<lambda>m.
             res_bind (CWProtocolStore8 m t) (\<lambda>m.
             if t = WTP_VERSION_RESPONSE
             then res_bind (CWProtocolStore8 m mj) (\<lambda>m.
                  res_bind (CWProtocolStore8 m mn) (\<lambda>m. CWProtocolStore8 m rv))
             else Ret m))))
         | OtherPayload \<Rightarrow> Ret m) (\<lambda>m.
      CWAssembleMsgElem mem (Some m) CW_MSG_ELEMENT_RESULT_CODE_CW_TYPE_WITH_PAYLOAD))))"

definition CWAssembleMsgElemSessionID :: "memory \<Rightarrow> byte list \<Rightarrow> CWProtocolMessage res" where
  "CWAssembleMsgElemSessionID mem sessionID =
     res_bind (CW_CREATE_PROTOCOL_MESSAGE mem 16) (\<lambda>m.
     res_bind (CWProtocolStoreRawBytes m sessionID 16) (\<lambda>m.
     CWAssembleMsgElem mem (Some m) CW_MSG_ELEMENT_SESSION_ID_CW_TYPE))"

text \<open>The length of the element is not looked at.\<close>

definition CWParseSessionID ::
  "memory \<Rightarrow> CWProtocolMessage \<Rightarrow> int \<Rightarrow> (byte list option \<times> CWProtocolMessage) res" where
  "CWParseSessionID mem m len = CWProtocolRetrieveRawBytes mem m 16"

definition CWParseACName ::
  "memory \<Rightarrow> CWProtocolMessage \<Rightarrow> int \<Rightarrow> (byte list option \<times> CWProtocolMessage) res" where
  "CWParseACName mem m len = CWParseMessageElement (\<lambda>m. CWProtocolRetrieveStr mem m len) m len"

record CWRadioAdminInfoValues =
  admin_ID :: int
  admin_state :: int

definition CWParseWTPRadioAdminState ::
  "CWProtocolMessage \<Rightarrow> int \<Rightarrow> (CWRadioAdminInfoValues \<times> CWProtocolMessage) res" where
  "CWParseWTPRadioAdminState = CWParseMessageElement (\<lambda>m.
     res_bind (CWProtocolRetrieve8 m) (\<lambda>(i, m).
     res_bind (CWProtocolRetrieve8 m) (\<lambda>(s, m).
     Ret (\<lparr> admin_ID = uint i, admin_state = uint s \<rparr>, m))))"

record CWRadioOperationalInfoValues =
  oper_ID :: int
  oper_state :: int
  oper_cause :: int

definition CWParseWTPRadioOperationalState ::
  "CWProtocolMessage \<Rightarrow> int \<Rightarrow> (CWRadioOperationalInfoValues \<times> CWProtocolMessage) res" where
  "CWParseWTPRadioOperationalState = CWParseMessageElement (\<lambda>m.
     res_bind (CWProtocolRetrieve8 m) (\<lambda>(i, m).
     res_bind (CWProtocolRetrieve8 m) (\<lambda>(s, m).
     res_bind (CWProtocolRetrieve8 m) (\<lambda>(c, m).
     Ret (\<lparr> oper_ID = uint i, oper_state = uint s, oper_cause = uint c \<rparr>, m)))))"

record WTPRadioStatisticsInfo =
  lastFailureType :: int
  resetCount :: int
  SWFailureCount :: int
  HWFailuireCount :: int
  otherFailureCount :: int
  unknownFailureCount :: int
  configUpdateCount :: int
  channelChangeCount :: int
  bandChangeCount :: int
  currentNoiseFloor :: int

definition CWWTPResetRadioStatistics :: "WTPRadioStatisticsInfo \<Rightarrow> WTPRadioStatisticsInfo" where
  "CWWTPResetRadioStatistics s = s
     \<lparr> lastFailureType := 255, resetCount := 0, SWFailureCount := 0, HWFailuireCount := 0,
       otherFailureCount := 0, unknownFailureCount := 0, configUpdateCount := 0,
       channelChangeCount := 0, bandChangeCount := 0, currentNoiseFloor := 0 \<rparr>"

subsection \<open>What the primitives write and read\<close>

text \<open>A message being written: the bytes so far and the number of bytes left in the block. A
  message being read: the bytes read and the bytes to come.\<close>

definition wmsg :: "byte list \<Rightarrow> nat \<Rightarrow> CWProtocolMessage" where
  "wmsg bs k = \<lparr> msg = bs @ replicate k 0, offset = length bs, data_msgType = None \<rparr>"

definition rmsg :: "byte list \<Rightarrow> byte list \<Rightarrow> int option \<Rightarrow> CWProtocolMessage" where
  "rmsg bs rest t = \<lparr> msg = bs @ rest, offset = length bs, data_msgType = t \<rparr>"

text \<open>The bytes of an assembled message: what is sent.\<close>

definition contents :: "CWProtocolMessage \<Rightarrow> byte list" where
  "contents m = take (offset m) (msg m)"

definition well_formed :: "CWProtocolMessage \<Rightarrow> bool" where
  "well_formed m \<longleftrightarrow> offset m \<le> length (msg m)"

definition ample :: "memory \<Rightarrow> bool" where
  "ample mem \<longleftrightarrow> (\<forall>n. mem n)"

lemma ample_malloc [wire]: "ample mem \<Longrightarrow> malloc_ok mem n \<longleftrightarrow> 0 \<le> n"
  by (simp add: ample_def malloc_ok_def)

lemma create_wmsg [wire]:
  "CW_CREATE_PROTOCOL_MESSAGE mem n =
   (if malloc_ok mem n then Ret (wmsg [] (nat n)) else Raise CW_ERROR_OUT_OF_MEMORY)"
  by (simp add: CW_CREATE_PROTOCOL_MESSAGE_def wmsg_def)

lemma store_wmsg [wire]:
  "store xs (wmsg bs k) =
   (if length xs \<le> k then Ret (wmsg (bs @ xs) (k - length xs)) else Fault)"
  by (simp add: store_def wmsg_def)

lemmas store_defs [wire] = CWProtocolStore8_def CWProtocolStore16_def CWProtocolStore32_def
  CWProtocolStoreStr_def CWProtocolStoreRawBytes_def

lemma well_formed_wmsg [simp]: "well_formed (wmsg bs k)"
  by (simp add: well_formed_def wmsg_def)

lemma contents_wmsg [simp]: "contents (wmsg bs k) = bs"
  by (simp add: contents_def wmsg_def)

lemma offset_wmsg [simp]: "offset (wmsg bs k) = length bs"
  by (simp add: wmsg_def)

lemma data_msgType_wmsg [simp]: "data_msgType (wmsg bs k) = None"
  by (simp add: wmsg_def)

lemma length_contents: "well_formed m \<Longrightarrow> length (contents m) = offset m"
  by (simp add: contents_def well_formed_def)

lemma storeMessage_contents [wire]:
  "well_formed m' \<Longrightarrow> CWProtocolStoreMessage m m' = store (contents m') m"
  by (simp add: CWProtocolStoreMessage_def contents_def well_formed_def)

lemma retrieve_rmsg [wire]:
  "retrieve n (rmsg bs rest t) =
   (if n \<le> length rest then Ret (take n rest, rmsg (bs @ take n rest) (drop n rest) t) else Fault)"
  by (simp add: retrieve_def rmsg_def)

lemma offset_rmsg [simp]: "offset (rmsg bs rest t) = length bs"
  by (simp add: rmsg_def)

lemma data_msgType_rmsg [simp]: "data_msgType (rmsg bs rest t) = t"
  by (simp add: rmsg_def)

lemmas retrieve_defs = CWProtocolRetrieve8_def CWProtocolRetrieve16_def
  CWProtocolRetrieve32_def CWProtocolRetrieveRawBytes_def CWProtocolRetrieveStr_def

lemma retrieve8_rmsg [wire]:
  "CWProtocolRetrieve8 (rmsg bs (x # rest) t) = Ret (x, rmsg (bs @ [x]) rest t)"
  by (simp add: wire retrieve_defs)

lemma retrieve16_rmsg [wire]:
  "CWProtocolRetrieve16 (rmsg bs (be16 v @ rest) t) = Ret (v, rmsg (bs @ be16 v) rest t)"
  by (simp add: wire retrieve_defs)

lemma retrieve32_rmsg [wire]:
  "CWProtocolRetrieve32 (rmsg bs (be32 v @ rest) t) = Ret (v, rmsg (bs @ be32 v) rest t)"
  by (simp add: wire retrieve_defs)

text \<open>A complete message element on the wire: type, length, body; the block has two more bytes.\<close>

definition elem_bytes :: "32 word \<Rightarrow> byte list \<Rightarrow> byte list" where
  "elem_bytes t body = be16 (ucast t) @ be16 (word_of_nat (length body)) @ body"

definition elem_msg :: "32 word \<Rightarrow> byte list \<Rightarrow> CWProtocolMessage" where
  "elem_msg t body = \<lparr> msg = elem_bytes t body @ [0, 0], offset = 4 + length body,
                       data_msgType = Some (sint t) \<rparr>"

lemma length_elem_bytes [simp]: "length (elem_bytes t body) = 4 + length body"
  by (simp add: elem_bytes_def)

lemma well_formed_elem_msg [simp]: "well_formed (elem_msg t body)"
  by (simp add: well_formed_def elem_msg_def)

lemma contents_elem_msg [simp]: "contents (elem_msg t body) = elem_bytes t body"
  by (simp add: contents_def elem_msg_def)

lemma offset_elem_msg [simp]: "offset (elem_msg t body) = 4 + length body"
  by (simp add: elem_msg_def)

lemma CWAssembleMsgElem_wmsg [wire]:
  "CWAssembleMsgElem mem (Some (wmsg bs k)) t =
   (if malloc_ok mem (6 + int (length bs)) then Ret (elem_msg t bs)
    else Raise CW_ERROR_OUT_OF_MEMORY)"
  by (simp add: CWAssembleMsgElem_def wire)
     (simp add: wmsg_def elem_msg_def elem_bytes_def nat_add_distrib numeral_2_eq_2)

subsection \<open>Reading the elements of a message\<close>

text \<open>
  The loops of the parse functions read the frame of each element and call the parse function of
  its type with the length found in the frame.
\<close>

definition read_element ::
  "(32 word \<Rightarrow> CWProtocolMessage \<Rightarrow> int \<Rightarrow> ('v \<times> CWProtocolMessage) res) \<Rightarrow> CWProtocolMessage \<Rightarrow>
   ('v \<times> CWProtocolMessage) res" where
  "read_element parse m =
     res_bind (CWParseFormatMsgElem m) (\<lambda>((type, len), m). parse (ucast type) m (uint len))"

lemma CWParseFormatMsgElem_rmsg [wire]:
  "CWParseFormatMsgElem (rmsg bs (elem_bytes t body @ rest) x) =
   Ret ((ucast t, word_of_nat (length body)),
        rmsg (bs @ be16 (ucast t) @ be16 (word_of_nat (length body))) (body @ rest) x)"
  by (simp add: CWParseFormatMsgElem_def elem_bytes_def wire)

text \<open>
  The contract of one kind of message element between a sender and a receiver: with enough memory
  \<open>assemble\<close> frames the body of the value under the type, and \<open>parse\<close> gives from the body what
  the receiver makes of the value, \<open>view\<close>, and stops right after it.
\<close>

locale msg_elem_exchange =
  fixes type :: "32 word"
    and ok :: "'v \<Rightarrow> bool"
    and body :: "'v \<Rightarrow> byte list"
    and view :: "'v \<Rightarrow> 'r"
    and assemble :: "memory \<Rightarrow> 'v \<Rightarrow> CWProtocolMessage res"
    and parse :: "memory \<Rightarrow> CWProtocolMessage \<Rightarrow> int \<Rightarrow> ('r \<times> CWProtocolMessage) res"
  assumes type_16: "ucast (ucast type :: 16 word) = type"
    and body_fits: "ok v \<Longrightarrow> length (body v) < 2 ^ 16"
    and assemble_law: "\<lbrakk>ample mem; ok v\<rbrakk> \<Longrightarrow> assemble mem v = Ret (elem_msg type (body v))"
    and parse_law: "\<lbrakk>ample mem; ok v\<rbrakk> \<Longrightarrow>
      parse mem (rmsg bs (body v @ rest) x) (int (length (body v))) =
      Ret (view v, rmsg (bs @ body v) rest x)"
begin

lemma uint_length: "ok v \<Longrightarrow> uint (word_of_nat (length (body v)) :: 16 word) = int (length (body v))"
  using body_fits [of v] by (simp add: unsigned_of_nat take_bit_nat_eq_self_iff)

text \<open>Assembling, sending with anything before and after, and reading gives the receiver's view.\<close>

lemma received:
  assumes "ample mem" "ok v" and "parser type = parse mem"
  shows "read_element parser (rmsg bs (elem_bytes type (body v) @ rest) x) =
    Ret (view v, rmsg (bs @ elem_bytes type (body v)) rest x)"
  using assms
  by (simp add: read_element_def wire type_16 uint_length parse_law flip: append_assoc)
     (simp add: elem_bytes_def)

lemma roundtrip:
  assumes "ample mem" "ok v" and "parser type = parse mem"
  shows "\<exists>e. assemble mem v = Ret e \<and>
     read_element parser (rmsg bs (contents e @ rest) x) = Ret (view v, rmsg (bs @ contents e) rest x)"
  using received [of mem v parser bs rest x] assms by (simp add: assemble_law)

end

text \<open>A codec: the receiver gets the value itself.\<close>

locale msg_elem_codec = msg_elem_exchange type ok body "\<lambda>v. v" assemble parse
  for type :: "32 word" and ok :: "'v \<Rightarrow> bool" and body assemble parse

subsection \<open>Control header\<close>

definition control_header_bytes :: "CWControlHeaderValues \<Rightarrow> byte list" where
  "control_header_bytes v =
     be32 (messageTypeValue v) @ [seqNum v] @ be16 (3 + msgElemsLen v) @ [0]"

lemma length_control_header [simp]: "length (control_header_bytes v) = 8"
  by (simp add: control_header_bytes_def)

lemma CWAssembleControlHeader_eq [wire]:
  "CWAssembleControlHeader mem v =
   (if malloc_ok mem 8 then Ret (wmsg (control_header_bytes v) 0)
    else Raise CW_ERROR_OUT_OF_MEMORY)"
  by (simp add: CWAssembleControlHeader_def wire control_header_bytes_def)

lemma CWParseControlHeader_eq [wire]:
  "CWParseControlHeader (rmsg bs (control_header_bytes v @ rest) t) =
   Ret (v\<lparr>msgElemsLen := 3 + msgElemsLen v\<rparr>, rmsg (bs @ control_header_bytes v) rest t)"
  by (simp add: CWParseControlHeader_def wire control_header_bytes_def)

text \<open>
  A control header that is assembled and received, with any bytes before and after it, parses
  to the same message type and sequence number, and to a length that counts the three bytes of the
  length field itself and the flags; parsing stops right after its eight bytes. Without memory the
  assembly raises the out-of-memory error and a header cut short is read out of bounds.
\<close>

theorem CWControlHeader_roundtrip:
  shows "(if mem 8
      then \<exists>m. CWAssembleControlHeader mem v = Ret m \<and> length (contents m) = 8 \<and>
             CWParseControlHeader (rmsg bs (contents m @ rest) t) =
             Ret (v\<lparr>msgElemsLen := 3 + msgElemsLen v\<rparr>, rmsg (bs @ contents m) rest t)
      else CWAssembleControlHeader mem v = Raise CW_ERROR_OUT_OF_MEMORY) \<and>
    (CWParseControlHeader (rmsg bs short t) = Fault) = (length short < 8)"
proof -
  have "(CWParseControlHeader (rmsg bs short t) = Fault) = (length short < 8)"
    by (auto simp: CWParseControlHeader_def retrieve_defs wire res_simps not_le)
  then show ?thesis by (simp add: wire malloc_ok_def)
qed

subsection \<open>The elements of CWProtocol.c\<close>

lemma CWAssembleMsgElemResultCode_eq [wire]:
  "ample mem \<Longrightarrow> CWAssembleMsgElemResultCode mem code = Ret (elem_msg 33 (be32 code))"
  by (simp add: CWAssembleMsgElemResultCode_def wire)

interpretation result_code: msg_elem_codec 33 "\<lambda>_. True" be32 CWAssembleMsgElemResultCode
    "\<lambda>mem. CWParseResultCode"
  by unfold_locales (simp_all add: wire CWParseResultCode_def CWParseMessageElement_def)

interpretation session_id: msg_elem_codec 35 "\<lambda>v. \<exists>s. v = Some s \<and> length s = 16" the
    "\<lambda>mem v. CWAssembleMsgElemSessionID mem (the v)" CWParseSessionID
  by unfold_locales
     (auto simp: wire CWAssembleMsgElemSessionID_def CWParseSessionID_def CWProtocolRetrieveRawBytes_def)

text \<open>
  A result code or a session identifier that is assembled as a message element and read by
  the loop of a parse function, with any elements before and after it, comes back unchanged, and
  reading goes on at the next element. The result code is refused when the element's length is not
  four, after four bytes have been read whatever the length.
\<close>

theorem result_code_session_id_roundtrip:
  assumes "ample mem" and "length sid = 16"
  shows "(\<exists>e. CWAssembleMsgElemResultCode mem code = Ret e \<and>
            read_element (\<lambda>_. CWParseResultCode) (rmsg bs (contents e @ rest) t) =
            Ret (code, rmsg (bs @ contents e) rest t)) \<and>
    (\<exists>e. CWAssembleMsgElemSessionID mem sid = Ret e \<and>
            read_element (\<lambda>_. CWParseSessionID mem) (rmsg bs (contents e @ rest) t) =
            Ret (Some sid, rmsg (bs @ contents e) rest t)) \<and>
    (\<forall>len. CWParseResultCode (rmsg bs (be32 code @ rest) t) len =
       (if len = 4 then Ret (code, rmsg (bs @ be32 code) rest t)
        else Raise CW_ERROR_INVALID_FORMAT))"
proof -
  have "\<exists>e. CWAssembleMsgElemSessionID mem sid = Ret e \<and>
            read_element (\<lambda>_. CWParseSessionID mem) (rmsg bs (contents e @ rest) t) =
            Ret (Some sid, rmsg (bs @ contents e) rest t)"
    using session_id.roundtrip [of mem "Some sid" "\<lambda>_. CWParseSessionID mem" bs rest t] assms by simp
  then show ?thesis
    using result_code.roundtrip [OF assms(1) TrueI, of "\<lambda>_. CWParseResultCode" code bs rest t]
    by (simp add: CWParseResultCode_def CWParseMessageElement_def wire)
qed

theorem result_code_session_id_roundtrip_witness:
  "\<exists>e. CWAssembleMsgElemSessionID (\<lambda>_. True) (replicate 16 7) = Ret e \<and>
     read_element (\<lambda>_. CWParseSessionID (\<lambda>_. True)) (rmsg [] (contents e @ [1]) None) =
     Ret (Some (replicate 16 7), rmsg (contents e) [1] None)"
  using result_code_session_id_roundtrip [of "\<lambda>_. True" "replicate 16 7" 0 "[]" "[1]" None]
  by (simp add: ample_def)

text \<open>The result code with a vendor payload fits the block that is allocated for it.\<close>

fun vendor_payload_bytes :: "vendor_payload \<Rightarrow> byte list" where
  "vendor_payload_bytes (UCI response) =
     be16 57 @ be16 1 @ be32 (word_of_nat (length (case response of None \<Rightarrow> [] | Some r \<Rightarrow> r))) @
     (case response of None \<Rightarrow> [] | Some r \<Rightarrow> r)"
| "vendor_payload_bytes (WUM t mj mn rv) =
     be16 57 @ be16 2 @ (if t = WTP_VERSION_RESPONSE then be32 4 @ [t, mj, mn, rv] else be32 1 @ [t])"
| "vendor_payload_bytes OtherPayload = []"

lemma CWAssembleVendorMsgElemResultCodeWithPayload_eq [wire]:
  "ample mem \<Longrightarrow> CWAssembleVendorMsgElemResultCodeWithPayload mem code p =
     Ret (elem_msg 58 (be32 code @ vendor_payload_bytes p))"
  by (cases p)
     (auto simp: CWAssembleVendorMsgElemResultCodeWithPayload_def vendor_payload_size_def Let_def wire
        nat_add_distrib split: option.splits)

end
