(* ===== verification/TransportHeader.thy ===== *)
theory TransportHeader
  imports Protocol
begin

section \<open>The CAPWAP transport header (CWProtocol.c, CWBinding.c)\<close>

text \<open>
  The bit fields of the first two words of the header, the optional radio MAC address and the
  optional wireless information of the 802.11 binding, as they are assembled and parsed. The radio
  MAC address of the process, \<^verbatim>\<open>gRADIO_MAC\<close>, is an argument; all zero means there is none.
\<close>

subsection \<open>Bit fields\<close>

definition CWSetField32 :: "32 word \<Rightarrow> nat \<Rightarrow> nat \<Rightarrow> 32 word \<Rightarrow> 32 word" where
  "CWSetField32 src start len val =
     src OR push_bit (32 - start - len) (NOT (push_bit len 0xFFFFFFFF) AND val)"

definition CWGetField32 :: "32 word \<Rightarrow> nat \<Rightarrow> nat \<Rightarrow> 32 word" where
  "CWGetField32 src start len = NOT (push_bit len 0xFFFFFFFF) AND drop_bit (32 - start - len) src"

lemma field_mask: "NOT (push_bit l 0xFFFFFFFF) = (mask l :: 32 word)"
proof -
  have ones: "(0xFFFFFFFF :: 32 word) = - 1" by simp
  show ?thesis by (simp only: ones push_bit_minus_one_eq_not_mask bit.double_compl)
qed

lemma bit_CWSetField32:
  "n < 32 \<Longrightarrow> bit (CWSetField32 src s l v) n \<longleftrightarrow>
     bit src n \<or> (32 - s - l \<le> n \<and> n - (32 - s - l) < l \<and> bit v (n - (32 - s - l)))"
  unfolding CWSetField32_def field_mask by (auto simp: bit_simps)

lemma bit_CWGetField32:
  "n < 32 \<Longrightarrow> bit (CWGetField32 src s l) n \<longleftrightarrow> n < l \<and> bit src (32 - s - l + n)"
  unfolding CWGetField32_def field_mask by (auto simp: bit_simps)

text \<open>A field reads back what was stored in it, and no other field sees it.\<close>

lemma Get_Set_same [simp]:
  assumes "s + l \<le> 32"
  shows "CWGetField32 (CWSetField32 src s l v) s l = CWGetField32 src s l OR take_bit l v"
  using assms by (intro bit_word_eqI) (auto simp: bit_CWGetField32 bit_CWSetField32 bit_simps)

lemma Get_Set_other [simp]:
  assumes "s + l \<le> s' \<or> s' + l' \<le> s" "s + l \<le> 32" "s' + l' \<le> 32"
  shows "CWGetField32 (CWSetField32 src s l v) s' l' = CWGetField32 src s' l'"
  using assms by (intro bit_word_eqI) (auto simp: bit_CWGetField32 bit_CWSetField32)

lemma Get_0 [simp]: "CWGetField32 0 s l = 0"
  by (simp add: CWGetField32_def)

lemma Set_0 [simp]: "CWSetField32 v s l 0 = v"
  by (simp add: CWSetField32_def)

subsection \<open>Values\<close>

record CWBindingTransportHeaderValues =
  RSSI :: byte
  SNR :: byte
  dataRate :: "32 word"

record CWProtocolTransportHeaderValues =
  payloadType :: "32 word"
  frameType :: "32 word"      \<comment> \<open>\<^verbatim>\<open>type\<close>\<close>
  isFragment :: "32 word"
  lastFlag :: "32 word"       \<comment> \<open>\<^verbatim>\<open>last\<close>\<close>
  fragmentID :: "32 word"
  fragmentOffset :: "32 word"
  keepAlive :: "32 word"
  bindingValuesPtr :: "CWBindingTransportHeaderValues option"

abbreviation CW_DATA_MSG_FRAME_TYPE :: int where "CW_DATA_MSG_FRAME_TYPE \<equiv> 1"
abbreviation CW_DATA_MSG_STATS_TYPE :: int where "CW_DATA_MSG_STATS_TYPE \<equiv> 2"
abbreviation CW_DATA_MSG_FREQ_STATS_TYPE :: int where "CW_DATA_MSG_FREQ_STATS_TYPE \<equiv> 3"
abbreviation CW_IEEE_802_3_FRAME_TYPE :: int where "CW_IEEE_802_3_FRAME_TYPE \<equiv> 4"
abbreviation CW_DATA_MSG_KEEP_ALIVE_TYPE :: int where "CW_DATA_MSG_KEEP_ALIVE_TYPE \<equiv> 5"
abbreviation CW_IEEE_802_11_FRAME_TYPE :: int where "CW_IEEE_802_11_FRAME_TYPE \<equiv> 6"
abbreviation gMaxCAPWAPHeaderSizeBinding :: int where "gMaxCAPWAPHeaderSizeBinding \<equiv> 16"
abbreviation CW_BINDING_HLEN :: "32 word" where "CW_BINDING_HLEN \<equiv> 4"
abbreviation CW_BINDING_DATALENGTH :: "32 word" where "CW_BINDING_DATALENGTH \<equiv> 4"

subsection \<open>Assembling\<close>

definition binding_word1 :: "CWBindingTransportHeaderValues \<Rightarrow> 32 word" where
  "binding_word1 b =
     (let val = CWSetField32 0 0 8 CW_BINDING_DATALENGTH;
          val = CWSetField32 val 8 8 (scast (RSSI b));
          val = CWSetField32 val 16 8 (scast (SNR b))
      in CWSetField32 val 24 8 (signed_drop_bit 8 (dataRate b)))"

definition binding_word2 :: "CWBindingTransportHeaderValues \<Rightarrow> 32 word" where
  "binding_word2 b =
     (let val = CWSetField32 0 0 8 (dataRate b AND 0x000000FF) in CWSetField32 val 8 24 0)"

definition CWAssembleTransportHeaderBinding ::
  "CWProtocolMessage \<Rightarrow> CWBindingTransportHeaderValues \<Rightarrow> CWProtocolMessage res" where
  "CWAssembleTransportHeaderBinding m b =
     res_bind (CWProtocolStore32 m (binding_word1 b)) (\<lambda>m.
     CWProtocolStore32 m (binding_word2 b))"

definition radio_mac_present :: "eth \<Rightarrow> bool" where
  "radio_mac_present mac \<longleftrightarrow> list_ex (\<lambda>b. b \<noteq> 0) (eth_bytes mac)"

text \<open>The first 32 bits, field by field; \<open>present\<close> for \<^verbatim>\<open>radio_mac_present\<close>.\<close>

definition transport_word1 :: "bool \<Rightarrow> CWProtocolTransportHeaderValues \<Rightarrow> 32 word" where
  "transport_word1 present v =
     (let val = CWSetField32 0 0 4 0;
          val = CWSetField32 val 4 4 (if payloadType v = 0 then 0 else 1);
          val = (if present
                 then if bindingValuesPtr v \<noteq> None then CWSetField32 val 8 5 (CW_BINDING_HLEN + 2)
                      else CWSetField32 val 8 5 (2 + 2)
                 else if bindingValuesPtr v \<noteq> None then CWSetField32 val 8 5 CW_BINDING_HLEN
                      else CWSetField32 val 8 5 2);
          val = CWSetField32 val 13 5 0;
          val = CWSetField32 val 18 5 1;
          val = (if bindingValuesPtr v \<noteq> None then CWSetField32 val 23 1 1
                 else if frameType v = 1 then CWSetField32 val 23 1 1
                 else CWSetField32 val 23 1 0);
          val = CWSetField32 val 24 1 (isFragment v);
          val = CWSetField32 val 25 1 (lastFlag v);
          val = (if bindingValuesPtr v \<noteq> None then CWSetField32 val 26 1 1
                 else CWSetField32 val 26 1 0);
          val = (if present then CWSetField32 val 27 1 1 else CWSetField32 val 27 1 0);
          val = CWSetField32 val 28 1 0
      in CWSetField32 val 29 3 0)"

definition transport_word2 :: "CWProtocolTransportHeaderValues \<Rightarrow> 32 word" where
  "transport_word2 v =
     (let val = CWSetField32 0 0 16 (fragmentID v);
          val = CWSetField32 val 16 13 (fragmentOffset v)
      in CWSetField32 val 29 3 0)"

definition CWAssembleTransportHeader ::
  "memory \<Rightarrow> eth \<Rightarrow> CWProtocolTransportHeaderValues \<Rightarrow> CWProtocolMessage res" where
  "CWAssembleTransportHeader mem mac v =
     (let present = radio_mac_present mac; extra = (if present then 8 else 0) in
      res_bind (CW_CREATE_PROTOCOL_MESSAGE mem
         ((if bindingValuesPtr v \<noteq> None then gMaxCAPWAPHeaderSizeBinding else 8) + extra)) (\<lambda>m.
      res_bind (CWProtocolStore32 m (transport_word1 present v)) (\<lambda>m.
      res_bind (CWProtocolStore32 m (transport_word2 v)) (\<lambda>m.
      res_bind (if present
                then res_bind (CWProtocolStore8 m 6) (\<lambda>m.
                     res_bind (CWProtocolStoreRawBytes m (eth_bytes mac) 6) (\<lambda>m.
                     CWProtocolStore8 m 0))
                else Ret m) (\<lambda>m.
      case bindingValuesPtr v of None \<Rightarrow> Ret m
      | Some b \<Rightarrow> CWAssembleTransportHeaderBinding m b)))))"

text \<open>The header of keep-alive packets never has a radio MAC address or a binding.\<close>

definition keepalive_word1 :: "CWProtocolTransportHeaderValues \<Rightarrow> 32 word \<Rightarrow> 32 word" where
  "keepalive_word1 v ka =
     (let val = CWSetField32 0 0 4 0;
          val = CWSetField32 val 4 4 (if payloadType v = 0 then 0 else 1);
          val = CWSetField32 val 8 5 2;
          val = CWSetField32 val 13 5 0;
          val = CWSetField32 val 18 5 1;
          val = CWSetField32 val 23 1 0;
          val = CWSetField32 val 24 1 (isFragment v);
          val = CWSetField32 val 25 1 (lastFlag v);
          val = CWSetField32 val 26 1 0;
          val = CWSetField32 val 27 1 0;
          val = CWSetField32 val 28 1 ka
      in CWSetField32 val 29 3 0)"

definition CWAssembleTransportHeaderKeepAliveData ::
  "memory \<Rightarrow> CWProtocolTransportHeaderValues \<Rightarrow> 32 word \<Rightarrow> CWProtocolMessage res" where
  "CWAssembleTransportHeaderKeepAliveData mem v ka =
     res_bind (CW_CREATE_PROTOCOL_MESSAGE mem 8) (\<lambda>m.
     res_bind (CWProtocolStore32 m (keepalive_word1 v ka)) (\<lambda>m.
     CWProtocolStore32 m (transport_word2 v)))"

subsection \<open>Parsing\<close>

text \<open>
  \<open>RadioMAC\<close> is the caller's buffer, \<open>None\<close> for the null pointer: \<^verbatim>\<open>memcpy\<close> copies as many
  bytes as the length byte of the packet says from a block of seven.
\<close>

definition CWParseTransportHeaderMACAddress ::
  "memory \<Rightarrow> CWProtocolMessage \<Rightarrow> byte list option \<Rightarrow> (byte list option \<times> CWProtocolMessage) res"
where
  "CWParseTransportHeaderMACAddress mem m mac_ptr =
     res_bind (CWProtocolRetrieve8 m) (\<lambda>(len, m).
     res_bind (CWProtocolRetrieveRawBytes mem m 7) (\<lambda>(vval, m).
     case mac_ptr of
       None \<Rightarrow> Ret (None, m)
     | Some dst \<Rightarrow>
         (case vval of
            None \<Rightarrow> if len = 0 then Ret (Some dst, m) else Fault
          | Some bs \<Rightarrow>
              if unat len \<le> length bs \<and> unat len \<le> length dst
              then Ret (Some (take (unat len) bs @ drop (unat len) dst), m) else Fault)))"

definition CWParseTransportHeaderBinding ::
  "CWProtocolMessage \<Rightarrow> (CWBindingTransportHeaderValues \<times> CWProtocolMessage) res" where
  "CWParseTransportHeaderBinding m =
     res_bind (CWProtocolRetrieve32 m) (\<lambda>(val, m).
     if CWGetField32 val 0 8 \<noteq> CW_BINDING_DATALENGTH then Raise CW_ERROR_INVALID_FORMAT
     else
       let rssi = ucast (CWGetField32 val 8 8) :: byte; snr = ucast (CWGetField32 val 16 8) :: byte;
           rate = CWGetField32 val 24 8
       in res_bind (CWProtocolRetrieve32 m) (\<lambda>(val, m).
          let m = (if rate = 255
                   then if snr = 1 then m\<lparr>data_msgType := Some CW_DATA_MSG_FREQ_STATS_TYPE\<rparr>
                        else m\<lparr>data_msgType := Some CW_DATA_MSG_STATS_TYPE\<rparr>
                   else if rate = 0 then m\<lparr>data_msgType := Some CW_DATA_MSG_FRAME_TYPE\<rparr>
                   else m)
          in Ret (\<lparr> RSSI = rssi, SNR = snr,
                    dataRate = push_bit 8 rate OR CWGetField32 val 24 8 \<rparr>, m)))"

text \<open>\<^verbatim>\<open>sizeof(CWBindingTransportHeaderValues)\<close>.\<close>

abbreviation binding_size :: int where "binding_size \<equiv> 8"

definition parse_binding ::
  "memory \<Rightarrow> CWProtocolMessage \<Rightarrow> (CWBindingTransportHeaderValues option \<times> CWProtocolMessage) res" where
  "parse_binding mem m =
     (if malloc_ok mem binding_size
      then res_bind (CWParseTransportHeaderBinding m) (\<lambda>(b, m). Ret (Some b, m))
      else Raise CW_ERROR_OUT_OF_MEMORY)"

text \<open>
  \<open>CWParseTransportHeader\<close> gives the values, the message after the header, the data flag and
  the buffer of the radio MAC address. After a failure the callers use none of them.
\<close>

definition CWParseTransportHeader ::
  "memory \<Rightarrow> CWProtocolMessage \<Rightarrow> bool \<Rightarrow> byte list option \<Rightarrow>
   (CWProtocolTransportHeaderValues \<times> CWProtocolMessage \<times> bool \<times> byte list option) res" where
  "CWParseTransportHeader mem m dataFlag mac_ptr =
     res_bind (CWProtocolRetrieve32 m) (\<lambda>(val, m).
     if CWGetField32 val 0 4 \<noteq> 0 then Raise CW_ERROR_INVALID_FORMAT
     else
       let hlen = CWGetField32 val 8 5; t = CWGetField32 val 23 1; w = CWGetField32 val 26 1;
           mflag = CWGetField32 val 27 1; k = CWGetField32 val 28 1
       in
       res_bind (CWProtocolRetrieve32 m) (\<lambda>(val2, m).
       let v = \<lparr> payloadType = CWGetField32 val 4 4, frameType = t,
                 isFragment = CWGetField32 val 24 1, lastFlag = CWGetField32 val 25 1,
                 fragmentID = CWGetField32 val2 0 16, fragmentOffset = CWGetField32 val2 16 13,
                 keepAlive = k, bindingValuesPtr = None \<rparr>
       in
       res_bind
         (if dataFlag then
            res_bind
              (if k \<noteq> 0 then
                 res_bind (CWProtocolRetrieve16 (m\<lparr>data_msgType := Some CW_DATA_MSG_KEEP_ALIVE_TYPE\<rparr>))
                   (\<lambda>(len, m). Ret (None, m))
               else if t = 0 then
                 if w \<noteq> 0 then parse_binding mem m
                 else Ret (None, m\<lparr>data_msgType := Some CW_IEEE_802_3_FRAME_TYPE\<rparr>)
               else if t = 1 then
                 res_bind (if w \<noteq> 0 then parse_binding mem m else Ret (None, m)) (\<lambda>(b, m).
                   Ret (b, m\<lparr>data_msgType := Some CW_IEEE_802_11_FRAME_TYPE\<rparr>))
               else Ret (None, m)) (\<lambda>(b, m).
            if mflag \<noteq> 0
            then res_bind (CWParseTransportHeaderMACAddress mem m mac_ptr) (\<lambda>(mac, m).
                   Ret (b, m, True, mac))
            else Ret (b, m, True, mac_ptr))
          else if hlen = 4 \<and> w = 1 then
            res_bind (parse_binding mem m) (\<lambda>(b, m). Ret (b, m, True, mac_ptr))
          else if mflag \<noteq> 0 then
            res_bind (CWParseTransportHeaderMACAddress mem m mac_ptr) (\<lambda>(mac, m).
              Ret (None, m, False, mac))
          else Ret (None, m, False, mac_ptr)) (\<lambda>(b, m, flag, mac).
       if hlen = 2 \<or> (hlen = 4 \<and> w = 1) \<or> mflag \<noteq> 0
       then Ret (v\<lparr>bindingValuesPtr := b\<rparr>, m, flag, mac)
       else Raise CW_ERROR_INVALID_FORMAT)))"

subsection \<open>What is on the wire\<close>

definition binding_bytes :: "CWBindingTransportHeaderValues \<Rightarrow> byte list" where
  "binding_bytes b = be32 (binding_word1 b) @ be32 (binding_word2 b)"

definition mac_bytes :: "eth \<Rightarrow> byte list" where
  "mac_bytes mac = (if radio_mac_present mac then 6 # eth_bytes mac @ [0] else [])"

definition header_bytes :: "eth \<Rightarrow> CWProtocolTransportHeaderValues \<Rightarrow> byte list" where
  "header_bytes mac v =
     be32 (transport_word1 (radio_mac_present mac) v) @ be32 (transport_word2 v) @ mac_bytes mac @
     (case bindingValuesPtr v of None \<Rightarrow> [] | Some b \<Rightarrow> binding_bytes b)"

lemma length_binding_bytes [simp]: "length (binding_bytes b) = 8"
  by (simp add: binding_bytes_def)

lemma length_mac_bytes [simp]: "length (mac_bytes mac) = (if radio_mac_present mac then 8 else 0)"
  by (simp add: mac_bytes_def)

lemma length_header_bytes:
  "length (header_bytes mac v) = 8 + (if radio_mac_present mac then 8 else 0) +
     (if bindingValuesPtr v = None then 0 else 8)"
  by (simp add: header_bytes_def split: option.split)

lemma CWAssembleTransportHeader_eq [wire]:
  "CWAssembleTransportHeader mem mac v =
   (if malloc_ok mem (int (length (header_bytes mac v))) then Ret (wmsg (header_bytes mac v) 0)
    else Raise CW_ERROR_OUT_OF_MEMORY)"
  by (cases "bindingValuesPtr v"; cases "radio_mac_present mac")
     (simp_all add: CWAssembleTransportHeader_def CWAssembleTransportHeaderBinding_def wire
        header_bytes_def mac_bytes_def binding_bytes_def)

definition keepalive_bytes :: "CWProtocolTransportHeaderValues \<Rightarrow> 32 word \<Rightarrow> byte list" where
  "keepalive_bytes v ka = be32 (keepalive_word1 v ka) @ be32 (transport_word2 v)"

lemma CWAssembleTransportHeaderKeepAliveData_eq [wire]:
  "CWAssembleTransportHeaderKeepAliveData mem v ka =
   (if malloc_ok mem 8 then Ret (wmsg (keepalive_bytes v ka) 0) else Raise CW_ERROR_OUT_OF_MEMORY)"
  by (simp add: CWAssembleTransportHeaderKeepAliveData_def wire keepalive_bytes_def)

text \<open>The fields of the words, as the parse functions get them.\<close>

lemma word1_get [simp]:
  "CWGetField32 (transport_word1 p v) 0 4 = 0"
  "CWGetField32 (transport_word1 p v) 4 4 = (if payloadType v = 0 then 0 else 1)"
  "CWGetField32 (transport_word1 p v) 8 5 =
     2 + (if p then 2 else 0) + (if bindingValuesPtr v = None then 0 else 2)"
  "CWGetField32 (transport_word1 p v) 23 1 =
     (if bindingValuesPtr v \<noteq> None \<or> frameType v = 1 then 1 else 0)"
  "CWGetField32 (transport_word1 p v) 24 1 = take_bit 1 (isFragment v)"
  "CWGetField32 (transport_word1 p v) 25 1 = take_bit 1 (lastFlag v)"
  "CWGetField32 (transport_word1 p v) 26 1 = (if bindingValuesPtr v = None then 0 else 1)"
  "CWGetField32 (transport_word1 p v) 27 1 = (if p then 1 else 0)"
  "CWGetField32 (transport_word1 p v) 28 1 = 0"
  unfolding transport_word1_def Let_def by (cases p; cases "bindingValuesPtr v"; simp)+

lemma word2_get [simp]:
  "CWGetField32 (transport_word2 v) 0 16 = take_bit 16 (fragmentID v)"
  "CWGetField32 (transport_word2 v) 16 13 = take_bit 13 (fragmentOffset v)"
  unfolding transport_word2_def Let_def by simp_all

lemma keepalive_get [simp]:
  "CWGetField32 (keepalive_word1 v k) 0 4 = 0"
  "CWGetField32 (keepalive_word1 v k) 4 4 = (if payloadType v = 0 then 0 else 1)"
  "CWGetField32 (keepalive_word1 v k) 8 5 = 2"
  "CWGetField32 (keepalive_word1 v k) 23 1 = 0"
  "CWGetField32 (keepalive_word1 v k) 24 1 = take_bit 1 (isFragment v)"
  "CWGetField32 (keepalive_word1 v k) 25 1 = take_bit 1 (lastFlag v)"
  "CWGetField32 (keepalive_word1 v k) 26 1 = 0"
  "CWGetField32 (keepalive_word1 v k) 27 1 = 0"
  "CWGetField32 (keepalive_word1 v k) 28 1 = take_bit 1 k"
  unfolding keepalive_word1_def Let_def by simp_all

lemma binding1_get [simp]:
  "CWGetField32 (binding_word1 b) 0 8 = 4"
  "CWGetField32 (binding_word1 b) 8 8 = take_bit 8 (scast (RSSI b))"
  "CWGetField32 (binding_word1 b) 16 8 = take_bit 8 (scast (SNR b))"
  "CWGetField32 (binding_word1 b) 24 8 = take_bit 8 (signed_drop_bit 8 (dataRate b))"
  unfolding binding_word1_def Let_def by simp_all

lemma binding2_get [simp]: "CWGetField32 (binding_word2 b) 24 8 = 0"
  unfolding binding_word2_def Let_def by simp

lemma ucast_take_bit_scast [simp]: "(ucast (take_bit 8 (scast x :: 32 word)) :: byte) = x"
  by (rule bit_word_eqI) (auto simp: bit_simps)

subsection \<open>The binding\<close>

text \<open>The high byte of the data rate decides which kind of data packet it is; the low byte of the
  received data rate is a byte of padding.\<close>

definition rate_high :: "CWBindingTransportHeaderValues \<Rightarrow> 32 word" where
  "rate_high b = take_bit 8 (drop_bit 8 (dataRate b))"

definition binding_class :: "CWBindingTransportHeaderValues \<Rightarrow> int option \<Rightarrow> int option" where
  "binding_class b t =
     (if rate_high b = 255 then if SNR b = 1 then Some CW_DATA_MSG_FREQ_STATS_TYPE
                                else Some CW_DATA_MSG_STATS_TYPE
      else if rate_high b = 0 then Some CW_DATA_MSG_FRAME_TYPE else t)"

definition binding_received :: "CWBindingTransportHeaderValues \<Rightarrow> CWBindingTransportHeaderValues" where
  "binding_received b = b\<lparr>dataRate := dataRate b AND 0xFF00\<rparr>"

lemma rate_high_signed: "take_bit 8 (signed_drop_bit 8 (w :: 32 word)) = take_bit 8 (drop_bit 8 w)"
  by (rule bit_word_eqI) (auto simp: bit_simps)

lemma push_rate_high: "push_bit 8 (take_bit 8 (drop_bit 8 (w :: 32 word))) = w AND 0xFF00"
proof -
  have ff: "(push_bit 8 (mask 8) :: 32 word) = 0xFF00" by (simp add: mask_eq_exp_minus_1)
  have "push_bit 8 (take_bit 8 (drop_bit 8 w)) = w AND push_bit 8 (mask 8)"
    by (rule bit_word_eqI) (auto simp: bit_simps)
  then show ?thesis unfolding ff .
qed

lemma rmsg_set_type [simp]: "(rmsg bs rest t)\<lparr>data_msgType := x\<rparr> = rmsg bs rest x"
  by (simp add: rmsg_def)

lemma CWParseTransportHeaderBinding_eq [wire]:
  "CWParseTransportHeaderBinding (rmsg bs (binding_bytes b @ rest) t) =
   Ret (binding_received b, rmsg (bs @ binding_bytes b) rest (binding_class b t))"
  by (simp add: CWParseTransportHeaderBinding_def binding_bytes_def wire Let_def
        binding_class_def rate_high_def rate_high_signed binding_received_def push_rate_high)

text \<open>The first byte of the wireless information is its length.\<close>

lemma CWParseTransportHeaderBinding_length:
  assumes "length rest \<ge> 4" "hd rest \<noteq> 4"
  shows "CWParseTransportHeaderBinding (rmsg bs rest t) = Raise CW_ERROR_INVALID_FORMAT"
proof -
  obtain x y z u rest' where r: "rest = x # y # z # u # rest'"
    using assms(1) by (auto simp: numeral_eq_Suc Suc_le_length_iff)
  have "CWGetField32 (of_be32 [x, y, z, u]) 0 8 = ucast x"
    by (rule bit_word_eqI) (auto simp: bit_CWGetField32 bit_simps dest: bit_imp_le_length)
  moreover have "(ucast x :: 32 word) \<noteq> 4"
  proof -
    have "take_bit 32 (uint x) = uint x"
      using unsigned_less [where 'a = int and w = x] by (simp add: take_bit_int_eq_self_iff)
    with assms(2) r show ?thesis by (simp add: word_uint_eq_iff unsigned_ucast_eq)
  qed
  ultimately show ?thesis
    by (simp add: CWParseTransportHeaderBinding_def CWProtocolRetrieve32_def wire r)
qed

subsection \<open>The radio MAC address\<close>

lemma CWParseTransportHeaderMACAddress_rmsg:
  "ample mem \<Longrightarrow> length vval = 7 \<Longrightarrow>
   CWParseTransportHeaderMACAddress mem (rmsg bs (len # vval @ rest) t) mac_ptr =
   (case mac_ptr of None \<Rightarrow> Ret (None, rmsg (bs @ len # vval) rest t)
    | Some dst \<Rightarrow>
        if unat len \<le> 7 \<and> unat len \<le> length dst
        then Ret (Some (take (unat len) vval @ drop (unat len) dst), rmsg (bs @ len # vval) rest t)
        else Fault)"
  by (simp add: CWParseTransportHeaderMACAddress_def retrieve8_rmsg CWProtocolRetrieveRawBytes_def wire
        split: option.split)

definition mac_stored :: "eth \<Rightarrow> byte list option \<Rightarrow> byte list option" where
  "mac_stored mac mac_ptr = map_option (\<lambda>dst. eth_bytes mac @ drop 6 dst) mac_ptr"

definition mac_room :: "byte list option \<Rightarrow> bool" where
  "mac_room mac_ptr = (case mac_ptr of None \<Rightarrow> True | Some dst \<Rightarrow> 6 \<le> length dst)"

lemma CWParseTransportHeaderMACAddress_eq [wire]:
  assumes "ample mem" "mac_room mac_ptr"
  shows "CWParseTransportHeaderMACAddress mem (rmsg bs (6 # eth_bytes mac @ 0 # rest) t) mac_ptr =
     Ret (mac_stored mac mac_ptr, rmsg (bs @ 6 # eth_bytes mac @ [0]) rest t)"
  using CWParseTransportHeaderMACAddress_rmsg [OF assms(1), of "eth_bytes mac @ [0]" bs 6 rest t mac_ptr]
    assms(2)
  by (cases mac_ptr) (simp_all add: mac_stored_def mac_room_def)

subsection \<open>The whole header\<close>

text \<open>Values that fit their fields.\<close>

definition header_fits :: "CWProtocolTransportHeaderValues \<Rightarrow> bool" where
  "header_fits v \<longleftrightarrow> payloadType v \<in> {0, 1} \<and> frameType v \<in> {0, 1} \<and>
     isFragment v \<in> {0, 1} \<and> lastFlag v \<in> {0, 1} \<and> take_bit 16 (fragmentID v) = fragmentID v \<and>
     take_bit 13 (fragmentOffset v) = fragmentOffset v \<and> keepAlive v = 0"

text \<open>What the parser makes of the first two words.\<close>

definition decoded :: "CWProtocolTransportHeaderValues \<Rightarrow> CWProtocolTransportHeaderValues" where
  "decoded v = \<lparr> payloadType = (if payloadType v = 0 then 0 else 1),
     frameType = (if bindingValuesPtr v \<noteq> None \<or> frameType v = 1 then 1 else 0),
     isFragment = take_bit 1 (isFragment v), lastFlag = take_bit 1 (lastFlag v),
     fragmentID = take_bit 16 (fragmentID v), fragmentOffset = take_bit 13 (fragmentOffset v),
     keepAlive = 0, bindingValuesPtr = None \<rparr>"

lemma decoded_fits:
  assumes "header_fits v"
  shows "decoded v = (case bindingValuesPtr v of None \<Rightarrow> v
    | Some b \<Rightarrow> v\<lparr>frameType := 1, bindingValuesPtr := None\<rparr>)"
proof -
  have "take_bit 1 (isFragment v) = isFragment v" "take_bit 1 (lastFlag v) = lastFlag v"
    "(if payloadType v = 0 then 0 else 1) = payloadType v"
    "(if frameType v = 1 then 1 else 0) = frameType v"
    using assms by (auto simp: header_fits_def)
  with assms show ?thesis
    by (cases "bindingValuesPtr v") (simp_all add: decoded_def header_fits_def)
qed

lemma decoded_binding [simp]: "bindingValuesPtr (decoded v) = None"
  by (simp add: decoded_def)

text \<open>On the control channel (\<^verbatim>\<open>dataFlag\<close> false).\<close>

lemma parse_control_plain:
  assumes "ample mem" "mac_room mac_ptr" "bindingValuesPtr v = None"
  shows "CWParseTransportHeader mem (rmsg bs (header_bytes mac v @ rest) t) False mac_ptr =
     Ret (decoded v, rmsg (bs @ header_bytes mac v) rest t, False,
          if radio_mac_present mac then mac_stored mac mac_ptr else mac_ptr)"
  using assms
  by (cases "radio_mac_present mac")
     (simp_all add: CWParseTransportHeader_def header_bytes_def mac_bytes_def wire Let_def decoded_def del: One_nat_def)

lemma parse_control_binding:
  assumes "ample mem" "bindingValuesPtr v = Some b" "\<not> radio_mac_present mac"
  shows "CWParseTransportHeader mem (rmsg bs (header_bytes mac v @ rest) t) False mac_ptr =
     Ret ((decoded v)\<lparr>bindingValuesPtr := Some (binding_received b)\<rparr>,
          rmsg (bs @ header_bytes mac v) rest (binding_class b t), True, mac_ptr)"
  using assms
  by (simp add: CWParseTransportHeader_def header_bytes_def mac_bytes_def parse_binding_def wire Let_def
        decoded_def del: One_nat_def)

text \<open>With both a radio MAC address and a binding the binding is left in the payload.\<close>

lemma parse_control_both:
  assumes "ample mem" "mac_room mac_ptr" "bindingValuesPtr v = Some b" "radio_mac_present mac"
  shows "CWParseTransportHeader mem (rmsg bs (header_bytes mac v @ rest) t) False mac_ptr =
     Ret (decoded v, rmsg (bs @ take 16 (header_bytes mac v)) (binding_bytes b @ rest) t, False,
          mac_stored mac mac_ptr)"
  using assms
  by (simp add: CWParseTransportHeader_def header_bytes_def mac_bytes_def wire Let_def decoded_def del: One_nat_def)

text \<open>On the data channel.\<close>

lemma parse_data_plain:
  assumes "ample mem" "mac_room mac_ptr" "bindingValuesPtr v = None"
  shows "CWParseTransportHeader mem (rmsg bs (header_bytes mac v @ rest) t) True mac_ptr =
     Ret (decoded v,
          rmsg (bs @ header_bytes mac v) rest
            (Some (if frameType v = 1 then CW_IEEE_802_11_FRAME_TYPE else CW_IEEE_802_3_FRAME_TYPE)),
          True, if radio_mac_present mac then mac_stored mac mac_ptr else mac_ptr)"
  using assms
  by (cases "radio_mac_present mac"; cases "frameType v = 1")
     (simp_all add: CWParseTransportHeader_def header_bytes_def mac_bytes_def wire Let_def decoded_def del: One_nat_def)

lemma parse_data_binding:
  assumes "ample mem" "bindingValuesPtr v = Some b" "\<not> radio_mac_present mac"
  shows "CWParseTransportHeader mem (rmsg bs (header_bytes mac v @ rest) t) True mac_ptr =
     Ret ((decoded v)\<lparr>bindingValuesPtr := Some (binding_received b)\<rparr>,
          rmsg (bs @ header_bytes mac v) rest (Some CW_IEEE_802_11_FRAME_TYPE), True, mac_ptr)"
  using assms
  by (simp add: CWParseTransportHeader_def header_bytes_def mac_bytes_def parse_binding_def wire Let_def
        decoded_def del: One_nat_def)

text \<open>With both, the parser takes the radio MAC address for the binding.\<close>

lemma parse_data_both:
  assumes "ample mem" "bindingValuesPtr v = Some b" "radio_mac_present mac"
  shows "CWParseTransportHeader mem (rmsg bs (header_bytes mac v @ rest) t) True mac_ptr =
     Raise CW_ERROR_INVALID_FORMAT"
  using assms
  by (cases mac)
     (simp add: CWParseTransportHeader_def header_bytes_def mac_bytes_def parse_binding_def wire Let_def
        CWParseTransportHeaderBinding_length del: One_nat_def)

lemma parse_keepalive:
  assumes "ample mem" "take_bit 1 ka = 1"
  shows "CWParseTransportHeader mem (rmsg bs (keepalive_bytes v ka @ be16 len @ rest) t) True mac_ptr =
     Ret ((decoded (v\<lparr>frameType := 0, bindingValuesPtr := None\<rparr>))\<lparr>keepAlive := 1\<rparr>,
          rmsg (bs @ keepalive_bytes v ka @ be16 len) rest (Some CW_DATA_MSG_KEEP_ALIVE_TYPE),
          True, mac_ptr)"
  using assms
  by (simp add: CWParseTransportHeader_def keepalive_bytes_def wire Let_def decoded_def del: One_nat_def)

subsection \<open>Sender and receiver\<close>

definition ex_header :: "CWBindingTransportHeaderValues option \<Rightarrow> CWProtocolTransportHeaderValues" where
  "ex_header b = \<lparr> payloadType = 0, frameType = 0, isFragment = 1, lastFlag = 1, fragmentID = 513,
     fragmentOffset = 25, keepAlive = 0, bindingValuesPtr = b \<rparr>"

definition ex_binding :: CWBindingTransportHeaderValues where
  "ex_binding = \<lparr> RSSI = 200, SNR = 30, dataRate = 0x0102 \<rparr>"

definition ex_mac :: eth where "ex_mac = Eth 0xAA 0xBB 0xCC 0xDD 0xEE 0xFF"

abbreviation no_mac :: eth where "no_mac \<equiv> Eth 0 0 0 0 0 0"

lemma ex_header_fits [simp]: "header_fits (ex_header b)"
  by (simp add: header_fits_def ex_header_def)

lemma ex_mac_present [simp]: "radio_mac_present ex_mac" "\<not> radio_mac_present no_mac"
  by (simp_all add: radio_mac_present_def ex_mac_def)

lemma ample_all [simp]: "ample (\<lambda>_. True)"
  by (simp add: ample_def)

lemma bindingValuesPtr_ex [simp]: "bindingValuesPtr (ex_header b) = b"
  by (simp add: ex_header_def)

text \<open>
  C28: A transport header without wireless information that is assembled and received on the
  control channel parses to the same values, and parsing stops right after it; the radio MAC
  address, when the sender has one, arrives in the receiver's buffer and nowhere else.
\<close>

theorem transport_header_control:
  assumes "ample mem" "header_fits v" "bindingValuesPtr v = None" "mac_room mac_ptr"
  shows "\<exists>m. CWAssembleTransportHeader mem mac v = Ret m \<and>
     length (contents m) = (if radio_mac_present mac then 16 else 8) \<and>
     CWParseTransportHeader mem (rmsg bs (contents m @ rest) t) False mac_ptr =
     Ret (v, rmsg (bs @ contents m) rest t, False,
          if radio_mac_present mac then map_option (\<lambda>dst. eth_bytes mac @ drop 6 dst) mac_ptr
          else mac_ptr)"
  using parse_control_plain [OF assms(1,4,3), of bs mac rest t] assms
  by (simp add: wire decoded_fits length_header_bytes mac_stored_def)

theorem transport_header_control_witness:
  "\<exists>m. CWAssembleTransportHeader (\<lambda>_. True) ex_mac (ex_header None) = Ret m \<and>
     length (contents m) = 16 \<and>
     CWParseTransportHeader (\<lambda>_. True) (rmsg [] (contents m @ [1, 2]) None) False
       (Some (replicate 7 0)) =
     Ret (ex_header None, rmsg (contents m) [1, 2] None, False,
          Some [0xAA, 0xBB, 0xCC, 0xDD, 0xEE, 0xFF, 0])"
proof -
  have "mac_room (Some (replicate 7 0))" by (simp add: mac_room_def)
  from transport_header_control [of "\<lambda>_. True" "ex_header None", OF _ _ _ this, of ex_mac "[]" "[1, 2]" None]
  show ?thesis by (simp add: ex_mac_def radio_mac_present_def)
qed

text \<open>
  On the data channel a header that has a radio MAC address or wireless information, but
  not both, parses to the same values up to two things: the wireless information makes the packet
  an 802.11 frame whatever its data rate says, and the low byte of the data rate is lost. Without
  wireless information the type flag tells 802.11 frames from 802.3 frames.
\<close>

theorem transport_header_data:
  assumes "ample mem" "header_fits v" "mac_room mac_ptr"
    and "bindingValuesPtr v = None \<or> \<not> radio_mac_present mac"
  shows "\<exists>m. CWAssembleTransportHeader mem mac v = Ret m \<and>
     CWParseTransportHeader mem (rmsg bs (contents m @ rest) t) True mac_ptr =
     (case bindingValuesPtr v of
        None \<Rightarrow> Ret (v, rmsg (bs @ contents m) rest (Some (if frameType v = 1 then 6 else 4)), True,
                  if radio_mac_present mac then map_option (\<lambda>dst. eth_bytes mac @ drop 6 dst) mac_ptr
                  else mac_ptr)
      | Some b \<Rightarrow> Ret (v\<lparr>frameType := 1,
                        bindingValuesPtr := Some (b\<lparr>dataRate := dataRate b AND 0xFF00\<rparr>)\<rparr>,
                     rmsg (bs @ contents m) rest (Some 6), True, mac_ptr))"
proof (cases "bindingValuesPtr v")
  case None
  then show ?thesis
    using parse_data_plain [OF assms(1,3), of v bs mac rest t] assms
    by (simp add: wire decoded_fits length_header_bytes mac_stored_def)
next
  case (Some b)
  then show ?thesis
    using parse_data_binding [OF assms(1), of v b mac bs rest t mac_ptr] assms
    by (simp add: wire decoded_fits length_header_bytes binding_received_def)
qed

theorem transport_header_data_witness:
  "\<exists>m. CWAssembleTransportHeader (\<lambda>_. True) no_mac (ex_header (Some ex_binding)) = Ret m \<and>
     CWParseTransportHeader (\<lambda>_. True) (rmsg [] (contents m @ [9]) None) True None =
     Ret ((ex_header (Some (ex_binding\<lparr>dataRate := 0x0100\<rparr>)))\<lparr>frameType := 1\<rparr>,
          rmsg (contents m) [9] (Some 6), True, None)"
  using transport_header_data [of "\<lambda>_. True" "ex_header (Some ex_binding)" None no_mac "[]" "[9]" None]
  by (simp add: mac_room_def ex_binding_def ex_header_def header_fits_def)

text \<open>
  A sender that has a radio MAC address cannot send wireless information. The receiver
  of a data packet takes the MAC address for the wireless information and refuses the packet; the
  receiver of a control packet leaves the eight bytes of wireless information in front of the
  payload.
\<close>

theorem transport_header_mac_and_binding:
  assumes "ample mem" "header_fits v" "mac_room mac_ptr"
    and "bindingValuesPtr v = Some b" "radio_mac_present mac"
  shows "\<exists>m. CWAssembleTransportHeader mem mac v = Ret m \<and>
     CWParseTransportHeader mem (rmsg bs (contents m @ rest) t) True mac_ptr =
       Raise CW_ERROR_INVALID_FORMAT \<and>
     CWParseTransportHeader mem (rmsg bs (contents m @ rest) t) False mac_ptr =
       Ret (v\<lparr>frameType := 1, bindingValuesPtr := None\<rparr>,
            rmsg (bs @ take 16 (contents m)) (drop 16 (contents m) @ rest) t, False,
            map_option (\<lambda>dst. eth_bytes mac @ drop 6 dst) mac_ptr)"
proof -
  have "drop 16 (header_bytes mac v) = binding_bytes b"
    using assms(4,5) by (simp add: header_bytes_def mac_bytes_def)
  then show ?thesis
    using parse_data_both [OF assms(1,4,5)] parse_control_both [OF assms(1,3,4,5)] assms
    by (simp add: wire decoded_fits mac_stored_def)
qed

theorem transport_header_mac_and_binding_witness:
  "\<exists>m. CWAssembleTransportHeader (\<lambda>_. True) ex_mac (ex_header (Some ex_binding)) = Ret m \<and>
     CWParseTransportHeader (\<lambda>_. True) (rmsg [] (contents m @ [9]) None) True None =
       Raise CW_ERROR_INVALID_FORMAT"
  using transport_header_mac_and_binding
    [of "\<lambda>_. True" "ex_header (Some ex_binding)" None ex_binding ex_mac "[]" "[9]" None]
  by (auto simp: mac_room_def)

text \<open>
  The length byte of the radio MAC address is trusted: the copy into the caller's buffer
  stays in bounds exactly when it is at most seven and at most the size of the buffer, so with a
  six-byte buffer any packet whose length byte is over six corrupts memory.
\<close>

theorem radio_mac_copy_bounds:
  assumes "ample mem" "length vval = 7"
  shows "(CWParseTransportHeaderMACAddress mem (rmsg bs (len # vval @ rest) t) (Some dst) = Fault) =
     (length dst < unat len \<or> 7 < unat len)"
  using assms by (auto simp: CWParseTransportHeaderMACAddress_rmsg)

theorem radio_mac_copy_bounds_witness:
  "CWParseTransportHeaderMACAddress (\<lambda>_. True) (rmsg [] (255 # replicate 7 0 @ []) None)
     (Some (replicate 6 0)) = Fault"
  using radio_mac_copy_bounds [of "\<lambda>_. True" "replicate 7 0" "[]" 255 "[]" None "replicate 6 0"]
  by simp

end
