(* ===== verification/Fragments.thy ===== *)
theory Fragments
  imports TransportHeader CWLists
begin

section \<open>Fragmentation and reassembly (CWProtocol.c, CWBinding.c)\<close>

text \<open>
  How a control message or a data frame is cut into packets, and how the receiver puts the
  fragments together again, with the list of the fragments received so far as its state. The
  lists are those of \<^verbatim>\<open>CWList.c\<close>.
\<close>

subsection \<open>Sending\<close>

abbreviation gMaxDTLSHeaderSize :: int where "gMaxDTLSHeaderSize \<equiv> 25"
abbreviation gMaxCAPWAPHeaderSize :: int where "gMaxCAPWAPHeaderSize \<equiv> 8"

fun store_messages ::
  "CWProtocolMessage \<Rightarrow> CWProtocolMessage list \<Rightarrow> CWProtocolMessage res" where
  "store_messages m [] = Ret m"
| "store_messages m (x # xs) = res_bind (CWProtocolStoreMessage m x) (\<lambda>m. store_messages m xs)"

text \<open>The payload bytes per fragment, zero when the message is not fragmented, and the number of
  fragments.\<close>

definition fragment_payload :: "int \<Rightarrow> int" where
  "fragment_payload PMTU = (if PMTU > 0 then (PMTU div 8) * 8 else 0)"

definition fragments_num :: "int \<Rightarrow> int \<Rightarrow> int" where
  "fragments_num totalSize pmtu =
     (if pmtu = 0 then 1 else totalSize div pmtu + (if totalSize mod pmtu \<noteq> 0 then 1 else 0))"

text \<open>
  The loop over the fragments, \<open>left\<close> of \<open>n\<close> still to do; \<open>off\<close> is \<^verbatim>\<open>msg.offset\<close>.
  \<open>hdr\<close> assembles the transport header.
\<close>

fun fragment_loop ::
  "memory \<Rightarrow> (CWProtocolTransportHeaderValues \<Rightarrow> CWProtocolMessage res) \<Rightarrow>
   CWProtocolTransportHeaderValues \<Rightarrow> byte list \<Rightarrow> int \<Rightarrow> int \<Rightarrow> nat \<Rightarrow> nat \<Rightarrow> int \<Rightarrow>
   CWProtocolMessage list res" where
  "fragment_loop mem hdr v body pmtu totalSize n 0 off = Ret []"
| "fragment_loop mem hdr v body pmtu totalSize n (Suc left) off =
     (let i = n - Suc left;
          fragSize = (if i < n - 1 then pmtu else totalSize - (int n - 1) * pmtu);
          v' = v\<lparr>isFragment := 1, fragmentOffset := word_of_int (off div 8),
                 lastFlag := (if i < n - 1 then 0 else 1)\<rparr>
      in res_bind (hdr v') (\<lambda>h.
         res_bind (CW_CREATE_PROTOCOL_MESSAGE mem (int (offset h) + fragSize)) (\<lambda>c.
         res_bind (CWProtocolStoreMessage c h) (\<lambda>c.
         res_bind (CWProtocolStoreRawBytes c (drop (nat off) body) fragSize) (\<lambda>c.
         res_bind (fragment_loop mem hdr v body pmtu totalSize n left (off + fragSize)) (\<lambda>cs.
         Ret (c # cs)))))))"

text \<open>
  \<open>CWAssembleMessage\<close> gives the array of fragments. \<open>fid\<close> is the answer of
  \<^verbatim>\<open>CWGetFragmentID\<close>; \<open>garbage\<close> stands for \<^verbatim>\<open>transportVal.type\<close>, which the loop over
  the fragments uses without initialising it. The arrays of message elements are lists.
\<close>

definition CWAssembleMessage ::
  "memory \<Rightarrow> eth \<Rightarrow> int \<Rightarrow> 32 word \<Rightarrow> int \<Rightarrow> byte \<Rightarrow> 32 word \<Rightarrow> CWProtocolMessage list \<Rightarrow>
   CWProtocolMessage list \<Rightarrow> 32 word \<Rightarrow> CWProtocolMessage list res" where
  "CWAssembleMessage mem mac fid garbage PMTU seq msgType msgElems msgElemsBinding is_crypted =
     (let len = sum_list (map (int \<circ> offset) msgElems) + sum_list (map (int \<circ> offset) msgElemsBinding) in
      res_bind (CWAssembleControlHeader mem
         \<lparr> messageTypeValue = msgType, seqNum = seq, msgElemsLen = word_of_int len \<rparr>) (\<lambda>ch.
      res_bind (CW_CREATE_PROTOCOL_MESSAGE mem (int (offset ch) + len)) (\<lambda>m.
      res_bind (CWProtocolStoreMessage m ch) (\<lambda>m.
      res_bind (store_messages m msgElems) (\<lambda>m.
      res_bind (store_messages m msgElemsBinding) (\<lambda>m.
      let pmtu = fragment_payload (PMTU - gMaxDTLSHeaderSize - gMaxCAPWAPHeaderSize);
          n = fragments_num (int (offset m)) pmtu;
          v = \<lparr> payloadType = is_crypted, frameType = garbage, isFragment = 0, lastFlag = 0,
                fragmentID = word_of_int fid, fragmentOffset = 0, keepAlive = 0,
                bindingValuesPtr = None \<rparr>
      in if n = 1 then
           res_bind (CWAssembleTransportHeader mem mac (v\<lparr>frameType := 0, fragmentID := 0\<rparr>)) (\<lambda>h.
           res_bind (CW_CREATE_PROTOCOL_MESSAGE mem (int (offset h) + int (offset m))) (\<lambda>c.
           res_bind (CWProtocolStoreMessage c h) (\<lambda>c.
           res_bind (CWProtocolStoreMessage c m) (\<lambda>c. Ret [c]))))
         else fragment_loop mem (CWAssembleTransportHeader mem mac) v (msg m) pmtu (int (offset m))
                (nat n) (nat n) 0))))))"

text \<open>
  \<open>CWAssembleDataMessage\<close>: the header of each packet carries the binding. A keep-alive
  packet that is not fragmented has the length of its message elements after the header.
\<close>

definition CWAssembleDataMessage ::
  "memory \<Rightarrow> eth \<Rightarrow> int \<Rightarrow> int \<Rightarrow> CWProtocolMessage \<Rightarrow> CWBindingTransportHeaderValues option \<Rightarrow>
   32 word \<Rightarrow> 32 word \<Rightarrow> CWProtocolMessage list res" where
  "CWAssembleDataMessage mem mac fid PMTU frame binding is_crypted ka =
     (let pmtu = fragment_payload (PMTU - gMaxCAPWAPHeaderSizeBinding);
          n = fragments_num (int (offset frame)) pmtu;
          v = \<lparr> payloadType = is_crypted,
                frameType = (if data_msgType frame = Some CW_IEEE_802_11_FRAME_TYPE then 1 else 0),
                isFragment = 0, lastFlag = 0, fragmentID = word_of_int fid, fragmentOffset = 0,
                keepAlive = 0, bindingValuesPtr = binding \<rparr>;
          hdr = (\<lambda>v. if ka \<noteq> 0 then CWAssembleTransportHeaderKeepAliveData mem v ka
                     else CWAssembleTransportHeader mem mac v)
      in if n = 1 then
           res_bind (hdr (v\<lparr>fragmentID := 0\<rparr>)) (\<lambda>h.
           res_bind (CW_CREATE_PROTOCOL_MESSAGE mem
              (int (offset h) + int (offset frame) + (if ka \<noteq> 0 then 2 else 0))) (\<lambda>c.
           res_bind (CWProtocolStoreMessage c h) (\<lambda>c.
           res_bind (if ka \<noteq> 0 then CWProtocolStore16 c 22 else Ret c) (\<lambda>c.
           res_bind (CWProtocolStoreMessage c frame) (\<lambda>c. Ret [c])))))
         else fragment_loop mem hdr v (msg frame) pmtu (int (offset frame)) (nat n) (nat n) 0)"

definition CWBindingCheckType :: "int \<Rightarrow> bool" where
  "CWBindingCheckType elemType \<longleftrightarrow> elemType \<ge> 1024 \<and> elemType \<le> 2047"

subsection \<open>Receiving\<close>

record CWProtocolFragment =
  fragData :: "byte list"
  dataLen :: int
  fragID :: "32 word"
  fragOffset :: "32 word"
  fragLast :: "32 word"

definition CWCompareFragment :: "CWProtocolFragment \<Rightarrow> CWProtocolFragment \<Rightarrow> bool" where
  "CWCompareFragment newEl oldEl \<longleftrightarrow>
     fragID newEl = fragID oldEl \<and> fragOffset newEl = fragOffset oldEl"

text \<open>The size of the message when its last fragment is in the list, otherwise zero.\<close>

fun total_size :: "CWProtocolFragment list \<Rightarrow> int \<Rightarrow> int" where
  "total_size [] totalSize = totalSize"
| "total_size (el # fs) totalSize =
     total_size fs (if fragLast el = 1 then uint (fragOffset el) * 8 + dataLen el else totalSize)"

fun current_size :: "CWProtocolFragment list \<Rightarrow> int \<Rightarrow> int" where
  "current_size [] n = n"
| "current_size (el # fs) n = current_size fs (n + dataLen el)"

text \<open>The reassembly loop; \<open>None\<close> when it does not end.\<close>

partial_function (option) reassemble ::
  "int option \<Rightarrow> CWProtocolFragment list \<Rightarrow> int \<Rightarrow> CWProtocolMessage \<Rightarrow>
   CWProtocolMessage res option" where
  "reassemble t fs currentOffset m =
     (case find (\<lambda>el. uint (fragOffset el) = currentOffset) fs of
        None \<Rightarrow> Some (Raise CW_ERROR_INVALID_FORMAT)
      | Some el \<Rightarrow>
          (case CWProtocolStoreRawBytes m (fragData el) (dataLen el) of
             Fault \<Rightarrow> Some Fault
           | Raise e \<Rightarrow> Some (Raise e)
           | Ret m \<Rightarrow>
               if fragLast el = 1 then Some (Ret (m\<lparr>data_msgType := t\<rparr>))
               else reassemble t fs (currentOffset + dataLen el div 8) (m\<lparr>data_msgType := t\<rparr>)))"

abbreviation fragment_struct_size :: int where "fragment_struct_size \<equiv> 56"
abbreviation list_element_size :: int where "list_element_size \<equiv> 16"

text \<open>Copies the payload of the packet and puts the fragment at the head of the list.\<close>

definition keep_fragment ::
  "memory \<Rightarrow> byte list \<Rightarrow> CWProtocolFragment list \<Rightarrow> CWProtocolFragment \<Rightarrow>
   unit res \<times> CWProtocolFragment list" where
  "keep_fragment mem bytes fs el =
     (if \<not> malloc_ok mem (dataLen el) then (Raise CW_ERROR_OUT_OF_MEMORY, fs)
      else if int (length bytes) < dataLen el then (Fault, fs)
      else (case CWAddElementToList (malloc_ok mem list_element_size) fs
                   (Some (el\<lparr>fragData := take (nat (dataLen el)) bytes\<rparr>)) of
              (fs, True) \<Rightarrow> (Ret (), fs)
            | (fs, False) \<Rightarrow> (Raise CW_ERROR_OUT_OF_MEMORY, [])))"

text \<open>Whether all fragments are there, and then the message.\<close>

definition try_reassemble ::
  "memory \<Rightarrow> int option \<Rightarrow> CWProtocolFragment list \<Rightarrow>
   (CWProtocolMessage res \<times> CWProtocolFragment list) option" where
  "try_reassemble mem t fs =
     (let totalSize = total_size fs 0 in
      if totalSize = 0 then Some (Raise CW_ERROR_NEED_RESOURCE, fs)
      else if current_size fs 0 \<noteq> totalSize then Some (Raise CW_ERROR_NEED_RESOURCE, fs)
      else (case CW_CREATE_PROTOCOL_MESSAGE mem totalSize of
              Ret m \<Rightarrow> map_option (\<lambda>r. (r, fst (CWDeleteList fs))) (reassemble t fs 0 m)
            | Raise e \<Rightarrow> Some (Raise e, fs)
            | Fault \<Rightarrow> Some (Fault, fs)))"

text \<open>
  \<open>CWProtocolParseFragment\<close>: the result, the list of fragments, the data flag and the buffer
  of the radio MAC address; \<open>None\<close> when it does not return. \<open>buf\<close> is the whole receive
  buffer, \<open>readBytes\<close> of which belong to the packet.
\<close>

definition CWProtocolParseFragment ::
  "memory \<Rightarrow> byte list \<Rightarrow> int \<Rightarrow> CWProtocolFragment list \<Rightarrow> bool \<Rightarrow> byte list option \<Rightarrow>
   (CWProtocolMessage res \<times> CWProtocolFragment list \<times> bool \<times> byte list option) option" where
  "CWProtocolParseFragment mem buf readBytes fs dataFlag mac_ptr =
     (case CWParseTransportHeader mem \<lparr> msg = buf, offset = 0, data_msgType = None \<rparr> dataFlag mac_ptr of
        Raise e \<Rightarrow> Some (Raise e, fs, dataFlag, mac_ptr)
      | Fault \<Rightarrow> Some (Fault, fs, dataFlag, mac_ptr)
      | Ret (v, m, flag, mac) \<Rightarrow>
          let len = readBytes - int (offset m); bytes = drop (offset m) buf in
          if isFragment v = 0 then
            Some (res_bind (CW_CREATE_PROTOCOL_MESSAGE mem len) (\<lambda>r.
                  res_bind (CWProtocolStoreRawBytes r bytes len) (\<lambda>r.
                  Ret (r\<lparr>data_msgType := data_msgType m\<rparr>))), fs, flag, mac)
          else if \<not> malloc_ok mem fragment_struct_size then
            Some (Raise CW_ERROR_OUT_OF_MEMORY, fs, flag, mac)
          else
            let el = \<lparr> fragData = [], dataLen = len, fragID = fragmentID v,
                       fragOffset = fragmentOffset v, fragLast = lastFlag v \<rparr>;
                same = (fs = [] \<or> fragID (hd fs) = fragID el)
            in
            if same \<and> CWSearchInList fs (Some el) CWCompareFragment \<noteq> None
            then Some (Raise CW_ERROR_NEED_RESOURCE, fs, flag, mac)
            else
              (case keep_fragment mem bytes (if same then fs else fst (CWDeleteList fs)) el of
                 (Raise e, fs) \<Rightarrow> Some (Raise e, fs, flag, mac)
               | (Fault, fs) \<Rightarrow> Some (Fault, fs, flag, mac)
               | (Ret _, fs) \<Rightarrow>
                   map_option (\<lambda>(r, fs). (r, fs, flag, mac)) (try_reassemble mem (data_msgType m) fs)))"

subsection \<open>What the sender makes\<close>

definition chunk :: "byte list \<Rightarrow> nat \<Rightarrow> nat \<Rightarrow> byte list" where
  "chunk body p i = take p (drop (i * p) body)"

definition frag_values ::
  "CWProtocolTransportHeaderValues \<Rightarrow> nat \<Rightarrow> nat \<Rightarrow> nat \<Rightarrow> CWProtocolTransportHeaderValues" where
  "frag_values v p n i = v\<lparr>isFragment := 1, fragmentOffset := word_of_nat (i * p div 8),
     lastFlag := (if i < n - 1 then 0 else 1)\<rparr>"

text \<open>\<open>n\<close> fragments of \<open>p\<close> bytes, the last one shorter or full, none empty.\<close>

definition cuts :: "nat \<Rightarrow> nat \<Rightarrow> nat \<Rightarrow> bool" where
  "cuts T p n \<longleftrightarrow> 0 < p \<and> 0 < n \<and> (n - 1) * p < T \<and> T \<le> n * p"

lemma cuts_unique:
  assumes "0 < T" "0 < p"
  shows "cuts T p (nat (fragments_num (int T) (int p)))"
proof -
  have f: "nat (fragments_num (int T) (int p)) = T div p + (if T mod p = 0 then 0 else 1)"
    using assms by (simp add: fragments_num_def nat_add_distrib flip: of_nat_div of_nat_mod)
  have T: "T = T div p * p + T mod p" by simp
  show ?thesis
  proof (cases "T mod p = 0")
    case True
    with T assms have "0 < T div p" by (metis add_0_right mult_0 neq0_conv)
    then obtain k where k: "T div p = Suc k" by (metis gr0_implies_Suc)
    with True f have n: "nat (fragments_num (int T) (int p)) = Suc k" by simp
    from T True k have "T = Suc k * p" by simp
    with assms show ?thesis unfolding cuts_def n by simp
  next
    case False
    then have n: "nat (fragments_num (int T) (int p)) = Suc (T div p)" using f by simp
    have "T mod p < p" "0 < T mod p" using False assms by auto
    with T have "T div p * p < T" "T \<le> T div p * p + p" by linarith+
    with assms show ?thesis unfolding cuts_def n by simp
  qed
qed

lemma length_chunk: "cuts (length body) p n \<Longrightarrow> i < n \<Longrightarrow>
   length (chunk body p i) = (if i < n - 1 then p else length body - (n - 1) * p)"
proof -
  assume c: "cuts (length body) p n" and i: "i < n"
  show ?thesis
  proof (cases "i < n - 1")
    case True
    then have "Suc i * p \<le> (n - 1) * p" by (intro mult_right_mono) auto
    then have "i * p + p \<le> (n - 1) * p" by simp
    moreover have "(n - 1) * p < length body" using c by (simp add: cuts_def)
    ultimately have "p \<le> length body - i * p" by linarith
    with True show ?thesis by (simp add: chunk_def)
  next
    case False
    with i have n: "n = Suc i" by simp
    with c have "length body \<le> i * p + p" by (simp add: cuts_def)
    then have "length body - i * p \<le> p" by linarith
    with n show ?thesis by (simp add: chunk_def)
  qed
qed

lemma chunk_pos: "cuts (length body) p n \<Longrightarrow> i < n \<Longrightarrow> 0 < length (chunk body p i)"
  by (simp add: length_chunk) (auto simp: cuts_def)

lemma concat_chunks:
  "cuts (length body) p n \<Longrightarrow> i \<le> n \<Longrightarrow> concat (map (chunk body p) [0..<i]) = take (i * p) body"
proof (induction i)
  case (Suc i)
  then show ?case by (simp add: chunk_def take_add [of "i * p" p, symmetric] add.commute)
qed simp

lemma one_packet:
  assumes "ample mem" "k \<le> length rest"
  shows "res_bind (CW_CREATE_PROTOCOL_MESSAGE mem (int (offset (wmsg h 0)) + int k)) (\<lambda>c.
     res_bind (CWProtocolStoreMessage c (wmsg h 0)) (\<lambda>c.
     res_bind (CWProtocolStoreRawBytes c rest (int k)) f)) = f (wmsg (h @ take k rest) 0)"
  using assms by (simp add: wire nat_add_distrib)

lemma fragment_loop_eq:
  assumes "ample mem" "\<And>v. hdr v = Ret (wmsg (H v) 0)" "cuts (length body) p n" "left \<le> n"
  shows "fragment_loop mem hdr v body (int p) (int (length body)) n left (int ((n - left) * p)) =
     Ret (map (\<lambda>i. wmsg (H (frag_values v p n i) @ chunk body p i) 0) [n - left..<n])"
  using assms(4)
proof (induction left)
  case (Suc left)
  let ?i = "n - Suc left"
  have i: "?i < n" "n - left = Suc ?i" using Suc.prems by auto
  then have up: "[?i..<n] = ?i # [n - left..<n]" by (simp add: upt_conv_Cons)
  have off: "word_of_int (int (?i * p) div 8) = (word_of_nat (?i * p div 8) :: 32 word)"
  proof -
    have "int (?i * p) div 8 = int (?i * p div 8)" by (simp only: of_nat_div of_nat_numeral)
    then show ?thesis by (simp only: of_int_of_nat_eq)
  qed
  have size: "(if ?i < n - 1 then int p else int (length body) - (int n - 1) * int p) =
      int (length (chunk body p ?i))"
  proof (cases "?i < n - 1")
    case False
    have "(int n - 1) * int p = int ((n - 1) * p)" using i by (simp add: of_nat_diff)
    moreover have "(n - 1) * p \<le> length body" using assms(3) by (simp add: cuts_def)
    ultimately show ?thesis using False length_chunk [OF assms(3) i(1)] by (simp add: of_nat_diff)
  qed (use length_chunk [OF assms(3) i(1)] in simp)
  have take: "take (length (chunk body p ?i)) (drop (?i * p) body) = chunk body p ?i"
    by (simp add: chunk_def min_def)
  have le: "length (chunk body p ?i) \<le> length (drop (?i * p) body)" by (simp add: chunk_def)
  have next_off: "left \<noteq> 0 \<Longrightarrow> ?i * p + length (chunk body p ?i) = (n - left) * p"
  proof -
    assume "left \<noteq> 0"
    then have "?i < n - 1" using Suc.prems by arith
    then show ?thesis using length_chunk [OF assms(3) i(1)] i(2) by simp
  qed
  have rest: "fragment_loop mem hdr v body (int p) (int (length body)) n left
      (int (?i * p) + int (length (chunk body p ?i))) =
      Ret (map (\<lambda>i. wmsg (H (frag_values v p n i) @ chunk body p i) 0) [n - left..<n])"
  proof (cases "left = 0")
    case False
    have "int (?i * p) + int (length (chunk body p ?i)) = int ((n - left) * p)"
      unfolding next_off [OF False, symmetric] by (rule of_nat_add [symmetric])
    then show ?thesis using Suc.IH Suc.prems by (simp only: Suc_leD)
  qed simp
  have v': "v\<lparr>isFragment := 1, fragmentOffset := word_of_int (int (?i * p) div 8),
      lastFlag := (if ?i < n - 1 then 0 else 1)\<rparr> = frag_values v p n ?i"
    unfolding off frag_values_def ..
  show ?case
    unfolding fragment_loop.simps Let_def size up v' assms(2) res_bind.simps nat_int
      one_packet [OF assms(1) le] take
    by (simp only: rest [unfolded assms(2)] res_bind.simps list.map)
qed simp

text \<open>The bytes of a control message.\<close>

definition message_bytes ::
  "byte \<Rightarrow> 32 word \<Rightarrow> CWProtocolMessage list \<Rightarrow> CWProtocolMessage list \<Rightarrow> byte list" where
  "message_bytes seq msgType es bs =
     (let elems = concat (map contents (es @ bs)) in
      control_header_bytes \<lparr> messageTypeValue = msgType, seqNum = seq,
                             msgElemsLen = word_of_nat (length elems) \<rparr> @ elems)"

definition plain_values :: "32 word \<Rightarrow> 32 word \<Rightarrow> 32 word \<Rightarrow> CWProtocolTransportHeaderValues" where
  "plain_values is_crypted garbage fid =
     \<lparr> payloadType = is_crypted, frameType = garbage, isFragment = 0, lastFlag = 0,
       fragmentID = fid, fragmentOffset = 0, keepAlive = 0, bindingValuesPtr = None \<rparr>"

lemma store_messages_wmsg [wire]:
  "list_all well_formed ms \<Longrightarrow>
   store_messages (wmsg bs k) ms =
   (if length (concat (map contents ms)) \<le> k
    then Ret (wmsg (bs @ concat (map contents ms)) (k - length (concat (map contents ms)))) else Fault)"
  by (induction ms arbitrary: bs k) (auto simp: wire)

lemma sum_offsets:
  "list_all well_formed ms \<Longrightarrow>
   sum_list (map (int \<circ> offset) ms) = int (length (concat (map contents ms)))"
  by (induction ms) (auto simp: length_contents)

text \<open>The packets a control message becomes: the payload of one packet, or the chunks.\<close>

definition control_pmtu :: "int \<Rightarrow> nat" where
  "control_pmtu PMTU = nat (fragment_payload (PMTU - 33))"

definition control_fragments :: "int \<Rightarrow> nat \<Rightarrow> nat" where
  "control_fragments PMTU len = nat (fragments_num (int len) (int (control_pmtu PMTU)))"

lemma int_control_pmtu: "int (control_pmtu PMTU) = fragment_payload (PMTU - 33)"
  by (simp add: control_pmtu_def fragment_payload_def)

lemma CWAssembleMessage_parts:
  assumes "ample mem" "list_all well_formed es" "list_all well_formed bs"
  shows "CWAssembleMessage mem mac fid garbage PMTU seq msgType es bs is_crypted =
    (let body = message_bytes seq msgType es bs; n = control_fragments PMTU (length body);
         p = control_pmtu PMTU in
     if n = 1 then Ret [wmsg (header_bytes mac (plain_values is_crypted 0 0) @ body) 0]
     else fragment_loop mem (CWAssembleTransportHeader mem mac)
            (plain_values is_crypted garbage (word_of_int fid)) body (int p) (int (length body)) n n 0)"
proof -
  let ?elems = "concat (map contents (es @ bs))"
  let ?ch = "control_header_bytes \<lparr> messageTypeValue = msgType, seqNum = seq,
               msgElemsLen = word_of_nat (length ?elems) \<rparr>"
  let ?body = "message_bytes seq msgType es bs"
  have len: "sum_list (map (int \<circ> offset) es) + sum_list (map (int \<circ> offset) bs) = int (length ?elems)"
    using sum_offsets [OF assms(2)] sum_offsets [OF assms(3)] by simp
  have create: "CW_CREATE_PROTOCOL_MESSAGE mem (int (offset (wmsg ?ch 0)) + int (length ?elems)) =
      Ret (wmsg [] (8 + length ?elems))"
    using assms(1) by (simp add: wire nat_add_distrib del: map_append concat_append)
  have store: "res_bind (CWProtocolStoreMessage (wmsg [] (8 + length ?elems)) (wmsg ?ch 0)) (\<lambda>m.
      res_bind (store_messages m es) (\<lambda>m. res_bind (store_messages m bs) f)) = f (wmsg ?body 0)" for f
    using assms(2,3) by (simp add: wire message_bytes_def Let_def)
  have hdr: "CWAssembleControlHeader mem \<lparr> messageTypeValue = msgType, seqNum = seq,
      msgElemsLen = word_of_int (int (length ?elems)) \<rparr> = Ret (wmsg ?ch 0)"
    using assms(1) by (simp add: wire del: map_append concat_append)
  have n: "nat (fragments_num (int (length ?body)) (fragment_payload (PMTU - 33))) =
      control_fragments PMTU (length ?body)"
    by (simp add: control_fragments_def int_control_pmtu)
  have n1: "fragments_num (int (length ?body)) (fragment_payload (PMTU - 33)) = 1 \<longleftrightarrow>
      control_fragments PMTU (length ?body) = 1"
    unfolding n [symmetric] by linarith
  have m: "msg (wmsg ?body 0) = ?body" by (simp add: wmsg_def)
  have one: "res_bind (CWAssembleTransportHeader mem mac (plain_values is_crypted 0 0)) (\<lambda>h.
      res_bind (CW_CREATE_PROTOCOL_MESSAGE mem (int (offset h) + int (length ?body))) (\<lambda>c.
      res_bind (CWProtocolStoreMessage c h) (\<lambda>c.
      res_bind (CWProtocolStoreMessage c (wmsg ?body 0)) (\<lambda>c. Ret [c])))) =
      Ret [wmsg (header_bytes mac (plain_values is_crypted 0 0) @ ?body) 0]"
    using assms(1) by (simp add: wire nat_add_distrib)
  show ?thesis
    unfolding CWAssembleMessage_def Let_def len hdr res_bind.simps
    unfolding create res_bind.simps
    unfolding store offset_wmsg m
    using one n n1 by (simp add: plain_values_def int_control_pmtu)
qed

lemma control_pmtu_8: "\<exists>q. control_pmtu PMTU = 8 * q"
  by (rule exI [of _ "nat ((PMTU - 33) div 8)"]) (simp add: control_pmtu_def fragment_payload_def nat_mult_distrib)

lemma message_bytes_pos: "0 < length (message_bytes seq msgType es bs)"
  by (simp add: message_bytes_def Let_def)

lemma control_cuts:
  assumes "0 < len" "control_fragments PMTU len \<noteq> 1"
  shows "cuts len (control_pmtu PMTU) (control_fragments PMTU len)"
proof -
  have "control_fragments PMTU len = 1" if "control_pmtu PMTU = 0"
    using that by (simp add: control_fragments_def fragments_num_def)
  with assms(2) have "0 < control_pmtu PMTU" by blast
  with cuts_unique [OF assms(1)] show ?thesis by (simp add: control_fragments_def)
qed

lemma CWAssembleMessage_eq:
  assumes "ample mem" "list_all well_formed es" "list_all well_formed bs"
    and "body = message_bytes seq msgType es bs" "n = control_fragments PMTU (length body)"
    and "p = control_pmtu PMTU" "v = plain_values is_crypted garbage (word_of_int fid)"
  shows "CWAssembleMessage mem mac fid garbage PMTU seq msgType es bs is_crypted =
    (if n = 1 then Ret [wmsg (header_bytes mac (plain_values is_crypted 0 0) @ body) 0]
     else Ret (map (\<lambda>i. wmsg (header_bytes mac (frag_values v p n i) @ chunk body p i) 0) [0..<n]))"
proof (cases "n = 1")
  case True
  with CWAssembleMessage_parts [OF assms(1,2,3), of mac fid garbage PMTU seq msgType is_crypted]
  show ?thesis unfolding assms(4-7) by (simp add: Let_def)
next
  case False
  have c: "cuts (length body) p n"
    using control_cuts [of "length body" PMTU] False message_bytes_pos assms(4-6) by simp
  have hdr: "CWAssembleTransportHeader mem mac = (\<lambda>v. Ret (wmsg (header_bytes mac v) 0))"
    using assms(1) by (simp add: wire fun_eq_iff)
  have "CWAssembleMessage mem mac fid garbage PMTU seq msgType es bs is_crypted =
      fragment_loop mem (CWAssembleTransportHeader mem mac) v body (int p) (int (length body)) n n
        (int ((n - n) * p))"
    using CWAssembleMessage_parts [OF assms(1,2,3), of mac fid garbage PMTU seq msgType is_crypted] False
    unfolding assms(4-7) by (simp add: Let_def)
  also have "\<dots> = Ret (map (\<lambda>i. wmsg (header_bytes mac (frag_values v p n i) @ chunk body p i) 0) [0..<n])"
    using fragment_loop_eq [OF assms(1) _ c order_refl, of "CWAssembleTransportHeader mem mac"
        "header_bytes mac"] by (simp add: hdr)
  finally show ?thesis using False by simp
qed

subsection \<open>The list of fragments\<close>

text \<open>What the sizes must satisfy for the offsets to fit their thirteen bits.\<close>

definition frag_ok :: "byte list \<Rightarrow> nat \<Rightarrow> nat \<Rightarrow> 32 word \<Rightarrow> bool" where
  "frag_ok body q n fid \<longleftrightarrow> cuts (length body) (8 * q) n \<and> (n - 1) * q < 2 ^ 13 \<and> take_bit 16 fid = fid"

definition off_word :: "nat \<Rightarrow> nat \<Rightarrow> 32 word" where
  "off_word q i = word_of_nat (i * q)"

definition frag :: "byte list \<Rightarrow> nat \<Rightarrow> nat \<Rightarrow> 32 word \<Rightarrow> nat \<Rightarrow> CWProtocolFragment" where
  "frag body q n fid i =
     \<lparr> fragData = chunk body (8 * q) i, dataLen = int (length (chunk body (8 * q) i)), fragID = fid,
       fragOffset = off_word q i, fragLast = (if i < n - 1 then 0 else 1) \<rparr>"

lemma frag_sel [simp]:
  "fragData (frag body q n fid i) = chunk body (8 * q) i"
  "dataLen (frag body q n fid i) = int (length (chunk body (8 * q) i))"
  "fragID (frag body q n fid i) = fid"
  "fragOffset (frag body q n fid i) = off_word q i"
  "fragLast (frag body q n fid i) = (if i < n - 1 then 0 else 1)"
  by (simp_all add: frag_def)

lemma frag_bound: "frag_ok body q n fid \<Longrightarrow> i < n \<Longrightarrow> i * q < 2 ^ 13"
proof -
  assume "frag_ok body q n fid" "i < n"
  then have "i * q \<le> (n - 1) * q" "(n - 1) * q < 2 ^ 13"
    by (auto simp: frag_ok_def intro: mult_right_mono)
  then show ?thesis by (rule le_less_trans)
qed

lemma uint_offset:
  assumes "frag_ok body q n fid" "i < n"
  shows "uint (off_word q i) = int (i * q)"
proof -
  have "i * q < 2 ^ 32" using frag_bound [OF assms] by simp
  then have "take_bit 32 (i * q) = i * q" by (rule take_bit_nat_eq_self)
  then show ?thesis unfolding off_word_def
    by (simp add: unsigned_of_nat del: of_nat_mult)
qed

lemma q_pos: "frag_ok body q n fid \<Longrightarrow> 0 < q"
  by (simp add: frag_ok_def cuts_def)

lemma offset_inject:
  assumes "frag_ok body q n fid" "i < n" "j < n"
  shows "off_word q i = off_word q j \<longleftrightarrow> i = j"
proof
  assume "off_word q i = off_word q j"
  then have "int (i * q) = int (j * q)" using uint_offset [OF assms(1)] assms(2,3) by metis
  then show "i = j" using q_pos [OF assms(1)] by simp
qed simp

text \<open>Fragments of one message are keyed by their offset: the list is a keyed bag.\<close>

interpretation fragment_bag: keyed_bag "\<lambda>l x. fst (CWAddElementToList True l (Some x))"
    "\<lambda>l x. CWSearchInList l (Some x) CWCompareFragment" "\<lambda>l. l" "\<lambda>f. (fragID f, fragOffset f)"
  by (rule keyed_bag_CWList) (auto simp: CWCompareFragment_def)

lemma search_frag:
  assumes "frag_ok body q n fid" "set is \<subseteq> {..<n}" "j < n"
    and "fragID el = fid" "fragOffset el = off_word q j"
  shows "CWSearchInList (map (frag body q n fid) is) (Some el) CWCompareFragment = None \<longleftrightarrow> j \<notin> set is"
  using assms(2) offset_inject [OF assms(1) _ assms(3)]
  by (auto simp: fragment_bag.search_None assms(4,5))

lemma find_frag:
  assumes "frag_ok body q n fid" "set is \<subseteq> {..<n}" "j \<in> set is"
  shows "find (\<lambda>el. uint (fragOffset el) = int (j * q)) (map (frag body q n fid) is) =
     Some (frag body q n fid j)"
  using assms(2,3)
proof (induction "is")
  case (Cons i "is")
  have "uint (off_word q i) = int (i * q)"
    using uint_offset [OF assms(1)] Cons.prems(1) by simp
  then have "uint (off_word q i) = int (j * q) \<longleftrightarrow> i = j"
    using q_pos [OF assms(1)] by simp
  then show ?case using Cons by (auto simp del: of_nat_mult)
qed simp

subsection \<open>Sizes\<close>

lemma total_size_frags:
  assumes "frag_ok body q n fid" "set is \<subseteq> {..<n}"
  shows "total_size (map (frag body q n fid) is) t =
     (if n - 1 \<in> set is then int (length body) else t)"
  using assms(2)
proof (induction "is" arbitrary: t)
  case (Cons i "is")
  have c: "cuts (length body) (8 * q) n" using assms(1) by (simp add: frag_ok_def)
  show ?case
  proof (cases "i < n - 1")
    case True
    then show ?thesis using Cons by auto
  next
    case False
    then have i: "i = n - 1" "i < n" using Cons.prems by auto
    have "(n - 1) * (8 * q) < length body" using c by (simp add: cuts_def)
    then have "int (i * q) * 8 + int (length (chunk body (8 * q) i)) = int (length body)"
      using length_chunk [OF c i(2)] False i(1) by simp
    then show ?thesis using Cons i uint_offset [OF assms(1) i(2)] by simp
  qed
qed simp

lemma current_size_frags:
  "current_size (map (frag body q n fid) is) t =
   t + int (sum_list (map (\<lambda>i. length (chunk body (8 * q) i)) is))"
  by (induction "is" arbitrary: t) auto

lemma sum_chunks:
  assumes "frag_ok body q n fid" "set is \<subseteq> {..<n}" "distinct is"
  shows "sum_list (map (\<lambda>i. length (chunk body (8 * q) i)) is) = length body \<longleftrightarrow> set is = {..<n}"
proof -
  let ?f = "\<lambda>i. length (chunk body (8 * q) i)"
  have c: "cuts (length body) (8 * q) n" using assms(1) by (simp add: frag_ok_def)
  then have "length body \<le> n * (8 * q)" by (simp add: cuts_def)
  with concat_chunks [OF c order_refl] have "concat (map (chunk body (8 * q)) [0..<n]) = body"
    by simp
  moreover have "length (concat (map (chunk body (8 * q)) [0..<n])) = sum_list (map ?f [0..<n])"
    by (simp add: length_concat comp_def)
  ultimately have "sum_list (map ?f [0..<n]) = length body" by simp
  then have all: "sum ?f {..<n} = length body"
    by (simp add: sum_list_distinct_conv_sum_set atLeast0LessThan)
  have "sum_list (map ?f is) = sum ?f (set is)"
    by (rule sum_list_distinct_conv_sum_set [OF assms(3)])
  moreover have "sum ?f (set is) < sum ?f {..<n}" if d: "set is \<noteq> {..<n}"
  proof -
    obtain j where j: "j \<in> {..<n} - set is" using d assms(2) by blast
    then have "0 < ?f j" using chunk_pos [OF c] by simp
    with j assms(2) show ?thesis by (intro sum_strict_mono2 [of _ _ j]) auto
  qed
  ultimately show ?thesis using all by (cases "set is = {..<n}") simp_all
qed

subsection \<open>Reassembly of the complete list\<close>

lemma store_typed:
  "store xs (m\<lparr>data_msgType := t\<rparr>) = res_bind (store xs m) (\<lambda>m. Ret (m\<lparr>data_msgType := t\<rparr>))"
  by (simp add: store_def)

text \<open>A message being reassembled.\<close>

definition amsg :: "int option \<Rightarrow> byte list \<Rightarrow> nat \<Rightarrow> CWProtocolMessage" where
  "amsg t bs k = (wmsg bs k)\<lparr>data_msgType := t\<rparr>"

lemma store_amsg:
  "length xs \<le> k \<Longrightarrow> CWProtocolStoreRawBytes (amsg t bs k) xs (int (length xs)) =
   Ret (amsg t (bs @ xs) (k - length xs))"
  by (simp add: CWProtocolStoreRawBytes_def amsg_def store_typed store_wmsg)

lemma amsg_typed [simp]: "(amsg t bs k)\<lparr>data_msgType := t'\<rparr> = amsg t' bs k"
  by (simp add: amsg_def)

lemma amsg_None: "wmsg bs k = amsg None bs k"
  by (simp add: amsg_def wmsg_def)

lemma chunk_take:
  "cuts (length body) p n \<Longrightarrow> i < n \<Longrightarrow> take (i * p) body @ chunk body p i = take (Suc i * p) body"
  by (simp add: chunk_def add.commute flip: take_add)

lemma reassemble_frags:
  assumes ok: "frag_ok body q n fid" and all: "set is = {..<n}" and "i < n"
  shows "reassemble t (map (frag body q n fid) is) (int (i * q))
           (amsg t0 (take (i * (8 * q)) body) (length body - i * (8 * q))) =
         Some (Ret (amsg t body 0))"
  using assms(3)
proof (induction "n - Suc i" arbitrary: i t0)
  have c: "cuts (length body) (8 * q) n" using ok by (simp add: frag_ok_def)
  have find: "find (\<lambda>el. uint (fragOffset el) = int (i * q)) (map (frag body q n fid) is) =
      Some (frag body q n fid i)" if "i < n" for i
    using find_frag [OF ok, of "is" i] all that by simp
  have len: "length (chunk body (8 * q) i) \<le> length body - i * (8 * q)" for i
    by (simp add: chunk_def)
  note step = reassemble.simps [of t "map (frag body q n fid) is"]
  {
    case 0
    then have i: "i = n - 1" by simp
    have "take (Suc i * (8 * q)) body = body" using c i 0 by (simp add: cuts_def)
    moreover have "length body - i * (8 * q) - length (chunk body (8 * q) i) = 0"
      using length_chunk [OF c 0(2)] i by simp
    ultimately show ?case
      using find [OF 0(2)] store_amsg [OF len] chunk_take [OF c 0(2)] i
      by (subst step) (simp del: of_nat_mult mult_Suc)
  next
    case (Suc m)
    then have i: "i < n - 1" "Suc i < n" "m = n - Suc (Suc i)" by auto
    have l: "length (chunk body (8 * q) i) = 8 * q" using length_chunk [OF c Suc(3)] i by simp
    have off: "int (i * q) + int (8 * q) div 8 = int (Suc i * q)" by simp
    have k: "length body - i * (8 * q) - 8 * q = length body - Suc i * (8 * q)" by simp
    show ?case
      using find [OF Suc(3)] store_amsg [OF len, of t0 "take (i * (8 * q)) body" i]
        chunk_take [OF c Suc(3)] i(1) Suc(1) [OF i(3,2), of t]
      unfolding l k
      by (subst step) (simp add: l off del: of_nat_mult mult_Suc)
  }
qed

subsection \<open>Receiving one packet\<close>

definition mac_after :: "eth \<Rightarrow> byte list option \<Rightarrow> byte list option" where
  "mac_after mac mac_ptr = (if radio_mac_present mac then mac_stored mac mac_ptr else mac_ptr)"

lemma mac_room_after [simp]: "mac_room mac_ptr \<Longrightarrow> mac_room (mac_after mac mac_ptr)"
  by (cases mac_ptr) (auto simp: mac_room_def mac_after_def mac_stored_def)

lemma rmsg_start: "\<lparr> msg = buf, offset = 0, data_msgType = t \<rparr> = rmsg [] buf t"
  by (simp add: rmsg_def)

lemma parse_packet:
  assumes "ample mem" "mac_room mac_ptr" "bindingValuesPtr v = None"
  shows "CWParseTransportHeader mem \<lparr> msg = (header_bytes mac v @ x) @ junk, offset = 0,
           data_msgType = None \<rparr> False mac_ptr =
     Ret (decoded v, rmsg (header_bytes mac v) (x @ junk) None, False, mac_after mac mac_ptr)"
  using parse_control_plain [OF assms, of "[]" mac "x @ junk" None]
  by (simp add: rmsg_start mac_after_def)

lemma receive_single:
  assumes "ample mem" "mac_room mac_ptr" "bindingValuesPtr v = None" "take_bit 1 (isFragment v) = 0"
  shows "CWProtocolParseFragment mem ((header_bytes mac v @ x) @ junk)
           (int (length (header_bytes mac v @ x))) fs False mac_ptr =
     Some (Ret (amsg None x 0), fs, False, mac_after mac mac_ptr)"
proof -
  have "isFragment (decoded v) = 0" using assms(4) by (simp add: decoded_def)
  moreover have "drop (length (header_bytes mac v)) ((header_bytes mac v @ x) @ junk) = x @ junk" by simp
  ultimately show ?thesis
    unfolding CWProtocolParseFragment_def parse_packet [OF assms(1-3)] res.case prod.case Let_def
    using assms(1)
    by (simp add: wire CWProtocolStoreRawBytes_def rmsg_def amsg_def)
qed

lemma offset_field:
  assumes "frag_ok body q n fid" "j < n"
  shows "take_bit 13 (word_of_nat (j * (8 * q) div 8) :: 32 word) = off_word q j"
proof -
  have "j * (8 * q) div 8 = j * q" by (simp add: mult.left_commute)
  then have w: "(word_of_nat (j * (8 * q) div 8) :: 32 word) = off_word q j" by (simp only: off_word_def)
  have "take_bit 13 (int (j * q)) = int (j * q)"
  proof (rule take_bit_int_eq_self)
    have "int (j * q) < int (2 ^ 13)" using frag_bound [OF assms] by (simp only: of_nat_less_iff)
    then show "int (j * q) < 2 ^ 13" by (simp del: of_nat_mult)
  qed simp
  then show ?thesis
    unfolding w word_uint_eq_iff unsigned_take_bit_eq uint_offset [OF assms] .
qed

text \<open>The packet of fragment \<open>j\<close>, as \<open>CWAssembleMessage\<close> makes it.\<close>

definition packet :: "eth \<Rightarrow> 32 word \<Rightarrow> 32 word \<Rightarrow> byte list \<Rightarrow> nat \<Rightarrow> nat \<Rightarrow> 32 word \<Rightarrow> nat \<Rightarrow> byte list"
where
  "packet mac is_crypted garbage body q n fid j =
     header_bytes mac (frag_values (plain_values is_crypted garbage fid) (8 * q) n j) @
     chunk body (8 * q) j"

text \<open>What the receiver does with any fragment.\<close>

definition frag_of :: "CWProtocolTransportHeaderValues \<Rightarrow> byte list \<Rightarrow> CWProtocolFragment" where
  "frag_of v x = \<lparr> fragData = x, dataLen = int (length x), fragID = take_bit 16 (fragmentID v),
     fragOffset = take_bit 13 (fragmentOffset v), fragLast = take_bit 1 (lastFlag v) \<rparr>"

lemma receive_any:
  assumes "ample mem" "mac_room mac_ptr" "bindingValuesPtr v = None" "take_bit 1 (isFragment v) = 1"
    and el: "el = (frag_of v x)\<lparr>fragData := []\<rparr>"
    and same: "same = (fs = [] \<or> fragID (hd fs) = take_bit 16 (fragmentID v))"
  shows "CWProtocolParseFragment mem ((header_bytes mac v @ x) @ junk)
       (int (length (header_bytes mac v @ x))) fs False mac_ptr =
    (if same \<and> CWSearchInList fs (Some el) CWCompareFragment \<noteq> None
     then Some (Raise CW_ERROR_NEED_RESOURCE, fs, False, mac_after mac mac_ptr)
     else map_option (\<lambda>(r, fs). (r, fs, False, mac_after mac mac_ptr))
            (try_reassemble mem None (frag_of v x # (if same then fs else []))))"
proof -
  let ?h = "header_bytes mac v"
  have v: "isFragment (decoded v) = 1" "fragmentID (decoded v) = take_bit 16 (fragmentID v)"
    "fragmentOffset (decoded v) = take_bit 13 (fragmentOffset v)"
    "lastFlag (decoded v) = take_bit 1 (lastFlag v)"
    using assms(4) by (simp_all add: decoded_def)
  have len: "int (length (?h @ x)) - int (offset (rmsg ?h (x @ junk) None)) = int (length x)" by simp
  have bytes: "drop (offset (rmsg ?h (x @ junk) None)) ((?h @ x) @ junk) = x @ junk" by simp
  have e: "\<lparr> fragData = [], dataLen = int (length x), fragID = take_bit 16 (fragmentID v),
      fragOffset = take_bit 13 (fragmentOffset v), fragLast = take_bit 1 (lastFlag v) \<rparr> = el"
    by (simp add: el frag_of_def)
  have keep: "keep_fragment mem (x @ junk) fs' el = (Ret (), frag_of v x # fs')" for fs'
    using assms(1) by (simp add: keep_fragment_def wire el frag_of_def)
  have "fragID el = take_bit 16 (fragmentID v)" by (simp add: el frag_of_def)
  then show ?thesis
    unfolding CWProtocolParseFragment_def parse_packet [OF assms(1-3)] res.case prod.case
      Let_def len bytes v e same
    using assms(1) by (simp add: keep wire)
qed

lemma frag_of_packet:
  assumes "frag_ok body q n fid" "j < n"
  shows "frag_of (frag_values (plain_values c g fid) (8 * q) n j) (chunk body (8 * q) j) =
     frag body q n fid j"
  using assms(1) offset_field [OF assms]
  by (simp add: frag_of_def frag_def frag_values_def plain_values_def frag_ok_def)

lemma receive_fragment:
  assumes "ample mem" "mac_room mac_ptr" "frag_ok body q n fid" "j < n"
    and p: "p = packet mac c g body q n fid j"
    and el: "el = (frag body q n fid j)\<lparr>fragData := []\<rparr>"
  shows "CWProtocolParseFragment mem (p @ junk) (int (length p)) fs False mac_ptr =
    (if (fs = [] \<or> fragID (hd fs) = fid) \<and> CWSearchInList fs (Some el) CWCompareFragment \<noteq> None
     then Some (Raise CW_ERROR_NEED_RESOURCE, fs, False, mac_after mac mac_ptr)
     else map_option (\<lambda>(r, fs). (r, fs, False, mac_after mac mac_ptr))
            (try_reassemble mem None
               (frag body q n fid j # (if fs = [] \<or> fragID (hd fs) = fid then fs else []))))"
proof -
  let ?v = "frag_values (plain_values c g fid) (8 * q) n j"
  have v: "bindingValuesPtr ?v = None" "take_bit 1 (isFragment ?v) = 1" "take_bit 16 (fragmentID ?v) = fid"
    using assms(3) by (simp_all add: frag_values_def plain_values_def frag_ok_def)
  have el': "el = (frag_of ?v (chunk body (8 * q) j))\<lparr>fragData := []\<rparr>"
    by (simp add: el frag_of_packet [OF assms(3,4)])
  from receive_any [OF assms(1,2) v(1,2) el' refl, of mac junk] show ?thesis
    by (simp only: p packet_def v(3) frag_of_packet [OF assms(3,4)])
qed

text \<open>Duplicates are ignored, the message comes out with the last missing fragment, and the list
  is then empty.\<close>

lemma receive_frags:
  assumes "ample mem" "mac_room mac_ptr" "frag_ok body q n fid" "j < n"
    and "distinct is" "set is \<subseteq> {..<n}" and p: "p = packet mac c g body q n fid j"
    and fs: "fs = map (frag body q n fid) is \<or> (is = [] \<and> fragID (hd fs) \<noteq> fid)"
  shows "CWProtocolParseFragment mem (p @ junk) (int (length p)) fs False mac_ptr =
    (if j \<in> set is then Some (Raise CW_ERROR_NEED_RESOURCE, fs, False, mac_after mac mac_ptr)
     else if insert j (set is) = {..<n}
     then Some (Ret (amsg None body 0), [], False, mac_after mac mac_ptr)
     else Some (Raise CW_ERROR_NEED_RESOURCE, map (frag body q n fid) (j # is), False,
                mac_after mac mac_ptr))"
proof -
  let ?el = "(frag body q n fid j)\<lparr>fragData := []\<rparr>"
  let ?F = "frag body q n fid"
  have c: "cuts (length body) (8 * q) n" using assms(3) by (simp add: frag_ok_def)
  have same: "(if fs = [] \<or> fragID (hd fs) = fid then fs else []) = map ?F is"
    using fs by (cases "is") auto
  have search: "((fs = [] \<or> fragID (hd fs) = fid) \<and>
      CWSearchInList fs (Some ?el) CWCompareFragment \<noteq> None) \<longleftrightarrow> j \<in> set is"
    using fs search_frag [OF assms(3,6,4), of ?el] by (cases "is") auto
  have sub: "set (j # is) \<subseteq> {..<n}" using assms(4,6) by simp
  have "try_reassemble mem None (map ?F (j # is)) =
      (if insert j (set is) = {..<n} then Some (Ret (amsg None body 0), [])
       else Some (Raise CW_ERROR_NEED_RESOURCE, map ?F (j # is)))" if "j \<notin> set is"
  proof -
    have d: "distinct (j # is)" using that assms(5) by simp
    have T: "0 < length body" using c by (auto simp: cuts_def)
    note sizes = total_size_frags [OF assms(3) sub, of 0] current_size_frags [of body q n fid "j # is" 0]
      sum_chunks [OF assms(3) sub d]
    show ?thesis
    proof (cases "insert j (set is) = {..<n}")
      case True
      then have all: "set (j # is) = {..<n}" by simp
      have "0 < n" using assms(4) by simp
      have "n - 1 \<in> set (j # is)" unfolding all using \<open>0 < n\<close> by simp
      moreover have "reassemble None (map ?F (j # is)) 0 (wmsg [] (length body)) =
          Some (Ret (amsg None body 0))"
        using reassemble_frags [OF assms(3) all \<open>0 < n\<close>, of None None] by (simp add: amsg_None)
      ultimately show ?thesis
        using sizes T assms(1) all True
        by (simp add: try_reassemble_def Let_def wire del: list.map list.set)
    next
      case False
      then show ?thesis using sizes T
        by (auto simp: try_reassemble_def Let_def simp del: list.map)
    qed
  qed
  then show ?thesis
    unfolding receive_fragment [OF assms(1-4) p refl] search same by simp
qed

subsection \<open>Sender and receiver\<close>

text \<open>
  The receiver gets packets one after the other on the control channel, each in a buffer with
  anything after it; the results, the fragments left and the radio MAC address.
\<close>

fun receive_all :: "memory \<Rightarrow> (byte list \<times> int) list \<Rightarrow> CWProtocolFragment list \<Rightarrow> byte list option \<Rightarrow>
    (CWProtocolMessage res list \<times> CWProtocolFragment list \<times> byte list option) option" where
  "receive_all mem [] fs mac_ptr = Some ([], fs, mac_ptr)"
| "receive_all mem ((buf, readBytes) # ps) fs mac_ptr =
     (case CWProtocolParseFragment mem buf readBytes fs False mac_ptr of
        None \<Rightarrow> None
      | Some (r, fs, flag, mac_ptr) \<Rightarrow>
          map_option (\<lambda>(rs, fs, mac_ptr). (r # rs, fs, mac_ptr)) (receive_all mem ps fs mac_ptr))"

lemma receive_all_append:
  "receive_all mem (ps @ qs) fs m =
   (case receive_all mem ps fs m of None \<Rightarrow> None
    | Some (rs, fs, m) \<Rightarrow> map_option (\<lambda>(rs', fs, m). (rs @ rs', fs, m)) (receive_all mem qs fs m))"
proof (induction ps arbitrary: fs m)
  case Nil
  then show ?case by (cases "receive_all mem qs fs m") auto
next
  case (Cons p ps)
  obtain buf n where p: "p = (buf, n)" by (cases p)
  show ?case
  proof (cases "CWProtocolParseFragment mem buf n fs False m")
    case (Some x)
    obtain r fs' flag m' where x: "x = (r, fs', flag, m')" by (cases x)
    show ?thesis
    proof (cases "receive_all mem ps fs' m'")
      case None
      then show ?thesis using Cons Some x p by simp
    next
      case ps: (Some y)
      obtain rs fs'' m'' where y: "y = (rs, fs'', m'')" by (cases y)
      show ?thesis using Cons Some x p ps y
        by (cases "receive_all mem qs fs'' m''") auto
    qed
  qed (simp add: p)
qed

text \<open>The list holds the fragments \<open>is\<close> of the message, or those of another message.\<close>

definition holds ::
  "byte list \<Rightarrow> nat \<Rightarrow> nat \<Rightarrow> 32 word \<Rightarrow> CWProtocolFragment list \<Rightarrow> nat list \<Rightarrow> bool" where
  "holds body q n fid fs is \<longleftrightarrow> distinct is \<and> set is \<subseteq> {..<n} \<and>
     (fs = map (frag body q n fid) is \<or> (is = [] \<and> fragID (hd fs) \<noteq> fid))"

abbreviation received :: "byte list \<Rightarrow> byte list \<Rightarrow> byte list \<times> int" where
  "received p junk \<equiv> (p @ junk, int (length p))"

lemma receive_some:
  assumes "ample mem" "mac_room mac_ptr" "frag_ok body q n fid" "holds body q n fid fs is"
    and "set js \<subseteq> {..<n}" "set is \<union> set js \<noteq> {..<n}"
    and p: "p = packet mac c g body q n fid"
  shows "\<exists>fs' is' mac'.
     receive_all mem (map (\<lambda>j. received (p j) (junk j)) js) fs mac_ptr =
       Some (replicate (length js) (Raise CW_ERROR_NEED_RESOURCE), fs', mac') \<and>
     holds body q n fid fs' is' \<and> set is' = set is \<union> set js \<and> mac_room mac'"
  using assms(2,4,5,6)
proof (induction js arbitrary: fs "is" mac_ptr)
  case Nil
  then show ?case by auto
next
  case (Cons j js)
  from Cons.prems have j: "j < n" and d: "distinct is" "set is \<subseteq> {..<n}"
    and fs: "fs = map (frag body q n fid) is \<or> (is = [] \<and> fragID (hd fs) \<noteq> fid)"
    by (auto simp: holds_def)
  note r = receive_frags [OF assms(1) Cons.prems(1) assms(3) j d fun_cong [OF p] fs, of "junk j"]
  have room: "mac_room (mac_after mac mac_ptr)" using Cons.prems(1) by simp
  show ?case
  proof (cases "j \<in> set is")
    case True
    then have "set is \<union> set js \<noteq> {..<n}" using Cons.prems(4) by auto
    from Cons.IH [OF room Cons.prems(2) _ this] Cons.prems(3) r True show ?thesis by fastforce
  next
    case False
    have "\<not> insert j (set is) = {..<n}" using Cons.prems(3,4) j d(2) by auto
    with r False have r': "CWProtocolParseFragment mem (p j @ junk j) (int (length (p j))) fs False mac_ptr =
        Some (Raise CW_ERROR_NEED_RESOURCE, map (frag body q n fid) (j # is), False, mac_after mac mac_ptr)"
      by simp
    have h: "holds body q n fid (map (frag body q n fid) (j # is)) (j # is)"
      using False d j by (simp add: holds_def)
    have u: "set (j # is) \<union> set js \<noteq> {..<n}" using Cons.prems(4) by simp
    have s: "set js \<subseteq> {..<n}" using Cons.prems(3) by simp
    from Cons.IH [OF room h s u] obtain fs' is' mac' where
      "receive_all mem (map (\<lambda>j. received (p j) (junk j)) js) (map (frag body q n fid) (j # is))
         (mac_after mac mac_ptr) =
       Some (replicate (length js) (Raise CW_ERROR_NEED_RESOURCE), fs', mac')"
      "holds body q n fid fs' is'" "set is' = set (j # is) \<union> set js" "mac_room mac'"
      by (elim exE conjE) (rule that)
    with r' show ?thesis by (intro exI [of _ fs'] exI [of _ is'] exI [of _ mac']) simp
  qed
qed

lemma receive_message:
  assumes "ample mem" "mac_room mac_ptr" "frag_ok body q n fid" "holds body q n fid fs []"
    and "insert j (set js) = {..<n}" "j \<notin> set js"
    and p: "p = packet mac c g body q n fid"
  shows "\<exists>mac'. receive_all mem (map (\<lambda>j. received (p j) (junk j)) (js @ [j])) fs mac_ptr =
       Some (replicate (length js) (Raise CW_ERROR_NEED_RESOURCE) @ [Ret (amsg None body 0)], [], mac')"
proof -
  have s: "set js \<subseteq> {..<n}" "set [] \<union> set js \<noteq> {..<n}" and j: "j < n" using assms(5,6) by auto
  from receive_some [OF assms(1-4) s p, of junk] obtain fs' is' mac' where
    r: "receive_all mem (map (\<lambda>j. received (p j) (junk j)) js) fs mac_ptr =
       Some (replicate (length js) (Raise CW_ERROR_NEED_RESOURCE), fs', mac')"
    and h: "holds body q n fid fs' is'" "set is' = set js" "mac_room mac'" by auto
  then have d: "distinct is'" "set is' \<subseteq> {..<n}"
    and fs': "fs' = map (frag body q n fid) is' \<or> (is' = [] \<and> fragID (hd fs') \<noteq> fid)"
    by (auto simp: holds_def)
  have "CWProtocolParseFragment mem (p j @ junk j) (int (length (p j))) fs' False mac' =
      Some (Ret (amsg None body 0), [], False, mac_after mac mac')"
    using receive_frags [OF assms(1) h(3) assms(3) j d fun_cong [OF p] fs', of "junk j"] h(2) assms(5,6)
    by simp
  with r show ?thesis by (simp add: receive_all_append)
qed

subsection \<open>A message arrives as it was sent\<close>

lemma message_frag_ok:
  assumes "n = control_fragments PMTU (length body)" "n \<noteq> 1" "0 < length body" "length body \<le> 65536"
    and "control_pmtu PMTU = 8 * q" "0 \<le> fid" "fid < 65536"
  shows "frag_ok body q n (word_of_int fid)"
proof -
  have c: "cuts (length body) (8 * q) n" using control_cuts [OF assms(3), of PMTU] assms(1,2,5) by simp
  then have "(n - 1) * (8 * q) < 65536" using assms(4) unfolding cuts_def by linarith
  then have "(n - 1) * q < 2 ^ 13" by (simp add: mult.commute)
  moreover have "uint (word_of_int fid :: 32 word) = fid"
    using assms(6,7) by (simp add: uint_word_of_int_eq take_bit_int_eq_self)
  then have "take_bit 16 (word_of_int fid) = (word_of_int fid :: 32 word)"
    using assms(6,7) by (simp add: word_uint_eq_iff unsigned_take_bit_eq take_bit_int_eq_self)
  ultimately show ?thesis using c by (simp add: frag_ok_def)
qed

text \<open>
  C2: A control message too long for one packet is cut into fragments from which the receiver
  rebuilds it exactly, in whatever order they arrive and however often each of them arrives: while
  a fragment is missing every packet is answered with the need for more, duplicates change
  nothing, and the packet that brings the last missing fragment yields the bytes of the message,
  control header and elements, and empties the list. Fragments of an older message in the list are
  dropped. The message may have up to 65536 bytes, what thirteen bits of offset can address.
\<close>

theorem reassembly_any_order:
  assumes "ample mem" "list_all well_formed es" "list_all well_formed bs" "mac_room mac_ptr"
    and "body = message_bytes seq msgType es bs" "length body \<le> 65536"
    and "n = control_fragments PMTU (length body)" "n \<noteq> 1" "0 \<le> fid" "fid < 65536"
    and "fs = [] \<or> fragID (hd fs) \<noteq> word_of_int fid"
    and "insert j (set js) = {..<n}" "j \<notin> set js"
  shows "\<exists>pkts mac' m.
     CWAssembleMessage mem mac fid garbage PMTU seq msgType es bs is_crypted = Ret pkts \<and>
     length pkts = n \<and>
     receive_all mem (map (\<lambda>i. received (contents (pkts ! i)) (junk i)) (js @ [j])) fs mac_ptr =
       Some (replicate (length js) (Raise CW_ERROR_NEED_RESOURCE) @ [Ret m], [], mac') \<and>
     contents m = body"
proof -
  obtain q where q: "control_pmtu PMTU = 8 * q" using control_pmtu_8 by blast
  let ?fid = "word_of_int fid :: 32 word"
  let ?v = "plain_values is_crypted garbage ?fid"
  let ?p = "packet mac is_crypted garbage body q n ?fid"
  let ?pkts = "map (\<lambda>i. wmsg (header_bytes mac (frag_values ?v (8 * q) n i) @ chunk body (8 * q) i) 0) [0..<n]"
  have ok: "frag_ok body q n ?fid"
    using message_frag_ok [OF assms(7,8) _ assms(6) q assms(9,10)] message_bytes_pos assms(5) by simp
  have a: "CWAssembleMessage mem mac fid garbage PMTU seq msgType es bs is_crypted = Ret ?pkts"
    using CWAssembleMessage_eq [OF assms(1,2,3,5,7) q [symmetric] refl] assms(8) by simp
  have h: "holds body q n ?fid fs []" using assms(11) by (auto simp: holds_def)
  from receive_message [OF assms(1,4) ok h assms(12,13), of ?p mac is_crypted garbage junk]
  obtain mac' where r: "receive_all mem (map (\<lambda>j. received (?p j) (junk j)) (js @ [j])) fs mac_ptr =
      Some (replicate (length js) (Raise CW_ERROR_NEED_RESOURCE) @ [Ret (amsg None body 0)], [], mac')"
    by blast
  have "contents (?pkts ! i) = ?p i" if "i \<in> set (js @ [j])" for i
    using that assms(12) by (auto simp: packet_def)
  then have eq: "map (\<lambda>i. received (contents (?pkts ! i)) (junk i)) (js @ [j]) =
      map (\<lambda>j. received (?p j) (junk j)) (js @ [j])" by (intro map_cong) simp_all
  show ?thesis
  proof (intro exI conjI)
    show "CWAssembleMessage mem mac fid garbage PMTU seq msgType es bs is_crypted = Ret ?pkts" by (rule a)
    show "length ?pkts = n" by simp
    show "receive_all mem (map (\<lambda>i. received (contents (?pkts ! i)) (junk i)) (js @ [j])) fs mac_ptr =
      Some (replicate (length js) (Raise CW_ERROR_NEED_RESOURCE) @ [Ret (amsg None body 0)], [], mac')"
      unfolding eq by (rule r)
    show "contents (amsg None body 0) = body" by (simp add: amsg_None [symmetric])
  qed
qed

definition ex_elems :: "CWProtocolMessage list" where
  "ex_elems = [elem_msg 33 (be32 0), elem_msg 4 (replicate 40 65)]"

theorem reassembly_any_order_witness:
  "\<exists>pkts mac' m.
     CWAssembleMessage (\<lambda>_. True) no_mac 7 0 60 1 4 ex_elems [] 0 = Ret pkts \<and> length pkts = 3 \<and>
     receive_all (\<lambda>_. True) (map (\<lambda>i. received (contents (pkts ! i)) []) [2, 0, 2, 1]) [] None =
       Some ([Raise CW_ERROR_NEED_RESOURCE, Raise CW_ERROR_NEED_RESOURCE,
              Raise CW_ERROR_NEED_RESOURCE, Ret m], [], mac') \<and>
     contents m = message_bytes 1 4 ex_elems []"
proof -
  have l: "length (message_bytes 1 4 ex_elems []) = 60"
    by (simp add: message_bytes_def ex_elems_def Let_def)
  have n: "3 = control_fragments 60 (length (message_bytes 1 4 ex_elems []))"
    unfolding l by (simp add: control_fragments_def control_pmtu_def fragment_payload_def fragments_num_def)
  have w: "list_all well_formed ex_elems" by (simp add: ex_elems_def)
  have all: "insert 1 (set [2, 0, 2]) = {..<3 :: nat}" by auto
  have "\<exists>pkts mac' m.
     CWAssembleMessage (\<lambda>_. True) no_mac 7 0 60 1 4 ex_elems [] 0 = Ret pkts \<and> length pkts = 3 \<and>
     receive_all (\<lambda>_. True) (map (\<lambda>i. received (contents (pkts ! i)) []) ([2, 0, 2] @ [1])) [] None =
       Some (replicate (length [2, 0, 2 :: nat]) (Raise CW_ERROR_NEED_RESOURCE) @ [Ret m], [], mac') \<and>
     contents m = message_bytes 1 4 ex_elems []"
    by (rule reassembly_any_order [OF ample_all w _ _ refl _ n _ _ _ _ all])
       (simp_all add: mac_room_def l)
  then show ?thesis by (simp add: numeral_3_eq_3)
qed

text \<open>
  A control message that fits one packet is received as it was sent from that packet alone,
  whatever fragments are in the list, and leaves the list as it is.
\<close>

theorem single_packet_roundtrip:
  assumes "ample mem" "list_all well_formed es" "list_all well_formed bs" "mac_room mac_ptr"
    and "body = message_bytes seq msgType es bs" "control_fragments PMTU (length body) = 1"
  shows "\<exists>p mac' m.
     CWAssembleMessage mem mac fid garbage PMTU seq msgType es bs is_crypted = Ret [p] \<and>
     CWProtocolParseFragment mem (contents p @ junk) (int (length (contents p))) fs False mac_ptr =
       Some (Ret m, fs, False, mac') \<and> contents m = body"
proof -
  let ?v = "plain_values is_crypted 0 0"
  have v: "bindingValuesPtr ?v = None" "take_bit 1 (isFragment ?v) = 0" by (simp_all add: plain_values_def)
  have "CWAssembleMessage mem mac fid garbage PMTU seq msgType es bs is_crypted =
      Ret [wmsg (header_bytes mac ?v @ body) 0]"
    using CWAssembleMessage_eq [OF assms(1,2,3,5) refl refl refl] assms(6) by simp
  moreover note receive_single [OF assms(1,4) v, of mac body junk fs]
  moreover have "contents (amsg None body 0) = body" by (simp add: amsg_None [symmetric])
  ultimately show ?thesis by (metis contents_wmsg)
qed

theorem single_packet_roundtrip_witness:
  "\<exists>p mac' m.
     CWAssembleMessage (\<lambda>_. True) ex_mac 7 0 1400 1 4 ex_elems [] 0 = Ret [p] \<and>
     CWProtocolParseFragment (\<lambda>_. True) (contents p @ [1, 2, 3]) (int (length (contents p))) [] False None =
       Some (Ret m, [], False, mac') \<and> contents m = message_bytes 1 4 ex_elems []"
proof -
  have "control_fragments 1400 (length (message_bytes 1 4 ex_elems [])) = 1"
    by (simp add: message_bytes_def ex_elems_def Let_def control_fragments_def control_pmtu_def
        fragment_payload_def fragments_num_def)
  moreover have "list_all well_formed ex_elems" by (simp add: ex_elems_def)
  ultimately show ?thesis
    by (intro single_packet_roundtrip) (simp_all add: mac_room_def)
qed

subsection \<open>What the receiver does not check\<close>

text \<open>A fragment that is not the last one and whose data is shorter than eight bytes does not move
  the loop on.\<close>

lemma reassemble_hang:
  assumes "find (\<lambda>el. uint (fragOffset el) = k) fs = Some el" "fragLast el \<noteq> 1" "dataLen el = 0"
    and "offset m \<le> length (msg m)"
  shows "reassemble t fs k m = None"
proof (rule ccontr)
  assume "reassemble t fs k m \<noteq> None"
  then obtain r where r: "reassemble t fs k m = Some r" by blast
  then have "find (\<lambda>el. uint (fragOffset el) = k) fs = Some el \<longrightarrow> offset m \<le> length (msg m) \<longrightarrow> False"
  proof (induction rule: reassemble.raw_induct)
    case (1 rec t fs k m r)
    show ?case
    proof (intro impI)
      assume f: "find (\<lambda>el. uint (fragOffset el) = k) fs = Some el" and o: "offset m \<le> length (msg m)"
      have s: "CWProtocolStoreRawBytes m (fragData el) (dataLen el) = Ret m"
        using o assms(3) by (simp add: CWProtocolStoreRawBytes_def store_def)
      have "rec t fs k (m\<lparr>data_msgType := t\<rparr>) = Some r"
        using 1(2) f s assms(2,3) by simp
      moreover have "reassemble t fs k (m\<lparr>data_msgType := t\<rparr>) = Some r"
        using 1(3) f s assms(2,3) by (subst (asm) reassemble.simps) simp
      ultimately have "find (\<lambda>el. uint (fragOffset el) = k) fs = Some el \<longrightarrow>
          offset (m\<lparr>data_msgType := t\<rparr>) \<le> length (msg (m\<lparr>data_msgType := t\<rparr>)) \<longrightarrow> False"
        by (rule 1(1))
      then show False using f o by simp
    qed
  qed (rule r)
  with assms(1,4) show False by blast
qed

lemma reassemble_overflow:
  assumes "find (\<lambda>el. uint (fragOffset el) = k) fs = Some el" "fragLast el \<noteq> 1"
    and "0 < dataLen el" "dataLen el < 8" "length (fragData el) = nat (dataLen el)"
  shows "reassemble t fs k (amsg t0 bs n) = Some Fault"
proof (induction n arbitrary: bs t0 rule: less_induct)
  case (less n)
  let ?x = "fragData el"
  have len: "dataLen el = int (length ?x)" using assms(3,5) by simp
  have d: "k + dataLen el div 8 = k" using assms(3,4) by simp
  show ?case
  proof (cases "length ?x \<le> n")
    case True
    then have "n - length ?x < n" using assms(3) len by linarith
    from less.IH [OF this] store_amsg [OF True] assms(1,2) d show ?thesis
      by (subst reassemble.simps) (simp add: len)
  next
    case False
    then have "CWProtocolStoreRawBytes (amsg t0 bs n) ?x (dataLen el) = Fault"
      by (simp add: len CWProtocolStoreRawBytes_def amsg_def store_typed store_wmsg)
    with assms(1) show ?thesis by (subst reassemble.simps) simp
  qed
qed

text \<open>Three packets with the same fragment identifier, as anyone can send them.\<close>

definition ex_values :: "32 word \<Rightarrow> 32 word \<Rightarrow> CWProtocolTransportHeaderValues" where
  "ex_values off l = (plain_values 0 0 7)\<lparr>isFragment := 1, fragmentOffset := off, lastFlag := l\<rparr>"

definition ex_packet :: "32 word \<Rightarrow> 32 word \<Rightarrow> byte list \<Rightarrow> byte list" where
  "ex_packet off l x = header_bytes no_mac (ex_values off l) @ x"

lemma ex_receive:
  "CWProtocolParseFragment (\<lambda>_. True) (ex_packet off l x @ []) (int (length (ex_packet off l x))) fs False None =
    (let el = frag_of (ex_values off l) x; same = (fs = [] \<or> fragID (hd fs) = 7) in
     if same \<and> CWSearchInList fs (Some (el\<lparr>fragData := []\<rparr>)) CWCompareFragment \<noteq> None
     then Some (Raise CW_ERROR_NEED_RESOURCE, fs, False, None)
     else map_option (\<lambda>(r, fs). (r, fs, False, None))
            (try_reassemble (\<lambda>_. True) None (el # (if same then fs else []))))"
proof -
  have v: "bindingValuesPtr (ex_values off l) = None" "take_bit 1 (isFragment (ex_values off l)) = 1"
    "take_bit 16 (fragmentID (ex_values off l)) = 7"
    by (simp_all add: ex_values_def plain_values_def)
  have "mac_room None" by (simp add: mac_room_def)
  from receive_any [OF ample_all this v(1,2) refl refl, of no_mac x "[]" fs] show ?thesis
    unfolding ex_packet_def v(3) Let_def by (simp add: mac_after_def)
qed

lemma ex_frag [simp]:
  "frag_of (ex_values off l) x = \<lparr> fragData = x, dataLen = int (length x), fragID = 7,
     fragOffset = take_bit 13 off, fragLast = take_bit 1 l \<rparr>"
  by (simp add: frag_of_def ex_values_def plain_values_def)

lemma ex_store: "CW_CREATE_PROTOCOL_MESSAGE (\<lambda>_. True) (int n) = Ret (amsg None [] n)"
  by (simp add: wire malloc_ok_def amsg_None)

text \<open>
  C32: The reassembly trusts the sizes of the fragments. Three small packets whose sizes add up
  to the size the last fragment announces make the receiver loop for ever when the fragment at
  offset zero is empty, and make it write past the end of its block when that fragment has four
  bytes.
\<close>

theorem reassembly_trusts_sizes:
  "receive_all (\<lambda>_. True)
     [received (ex_packet 0 0 []) [], received (ex_packet 2 0 (replicate 8 1)) [],
      received (ex_packet 1 1 [9]) []] [] None = None \<and>
   (\<exists>fs. receive_all (\<lambda>_. True)
     [received (ex_packet 0 0 [1, 2, 3, 4]) [], received (ex_packet 2 0 [5, 6, 7, 8]) [],
      received (ex_packet 1 1 [9]) []] [] None =
     Some ([Raise CW_ERROR_NEED_RESOURCE, Raise CW_ERROR_NEED_RESOURCE, Fault], fs, None))"
proof
  let ?A = "\<lparr> fragData = [], dataLen = 0, fragID = 7, fragOffset = 0, fragLast = 0 \<rparr>"
  let ?C = "\<lparr> fragData = replicate 8 1, dataLen = 8, fragID = 7, fragOffset = 2, fragLast = 0 \<rparr>"
  let ?L = "\<lparr> fragData = [9], dataLen = 1, fragID = 7, fragOffset = 1, fragLast = 1 \<rparr>"
  have "reassemble None [?L, ?C, ?A] 0 (amsg None [] 9) = None"
    by (rule reassemble_hang [of _ _ ?A]) (simp_all add: amsg_def wmsg_def)
  then have "try_reassemble (\<lambda>_. True) None [?L, ?C, ?A] = None"
    using ex_store [of 9] by (simp add: try_reassemble_def Let_def)
  then show "receive_all (\<lambda>_. True)
     [received (ex_packet 0 0 []) [], received (ex_packet 2 0 (replicate 8 1)) [],
      received (ex_packet 1 1 [9]) []] [] None = None"
    by (simp add: ex_receive [simplified] Let_def CWCompareFragment_def try_reassemble_def [of _ _ "[_]"]
        try_reassemble_def [of _ _ "[_, _]"])
next
  let ?A = "\<lparr> fragData = [1, 2, 3, 4], dataLen = 4, fragID = 7, fragOffset = 0, fragLast = 0 \<rparr>"
  let ?C = "\<lparr> fragData = [5, 6, 7, 8], dataLen = 4, fragID = 7, fragOffset = 2, fragLast = 0 \<rparr>"
  let ?L = "\<lparr> fragData = [9], dataLen = 1, fragID = 7, fragOffset = 1, fragLast = 1 \<rparr>"
  have "reassemble None [?L, ?C, ?A] 0 (amsg None [] 9) = Some Fault"
    by (rule reassemble_overflow [of _ _ ?A]) simp_all
  then have "try_reassemble (\<lambda>_. True) None [?L, ?C, ?A] = Some (Fault, [])"
    using ex_store [of 9] by (simp add: try_reassemble_def Let_def)
  then show "\<exists>fs. receive_all (\<lambda>_. True)
     [received (ex_packet 0 0 [1, 2, 3, 4]) [], received (ex_packet 2 0 [5, 6, 7, 8]) [],
      received (ex_packet 1 1 [9]) []] [] None =
     Some ([Raise CW_ERROR_NEED_RESOURCE, Raise CW_ERROR_NEED_RESOURCE, Fault], fs, None)"
    by (simp add: ex_receive [simplified] Let_def CWCompareFragment_def try_reassemble_def [of _ _ "[_]"]
        try_reassemble_def [of _ _ "[_, _]"])
qed

subsection \<open>Data packets\<close>

lemma receive_parsed:
  assumes "ample mem" "isFragment v = 0"
    and "CWParseTransportHeader mem (rmsg [] ((h @ x) @ junk) None) flag mac_ptr =
       Ret (v, rmsg h (x @ junk) t, flag', mac')"
  shows "CWProtocolParseFragment mem ((h @ x) @ junk) (int (length (h @ x))) fs flag mac_ptr =
     Some (Ret (amsg t x 0), fs, flag', mac')"
proof -
  have len: "int (length (h @ x)) - int (offset (rmsg h (x @ junk) t)) = int (length x)" by simp
  have bytes: "drop (offset (rmsg h (x @ junk) t)) ((h @ x) @ junk) = x @ junk" by simp
  show ?thesis
    unfolding CWProtocolParseFragment_def rmsg_start assms(3) res.case prod.case Let_def len bytes
    using assms(1,2) by (simp add: wire CWProtocolStoreRawBytes_def amsg_def)
qed

definition data_values ::
  "32 word \<Rightarrow> CWProtocolMessage \<Rightarrow> CWBindingTransportHeaderValues option \<Rightarrow> CWProtocolTransportHeaderValues"
where
  "data_values is_crypted frame binding =
     (plain_values is_crypted (if data_msgType frame = Some CW_IEEE_802_11_FRAME_TYPE then 1 else 0) 0)
       \<lparr>bindingValuesPtr := binding\<rparr>"

lemma CWAssembleDataMessage_single:
  assumes "ample mem" "well_formed frame"
    and "fragments_num (int (offset frame)) (fragment_payload (PMTU - 16)) = 1"
  shows "CWAssembleDataMessage mem mac fid PMTU frame binding is_crypted ka =
    Ret [wmsg ((if ka = 0 then header_bytes mac (data_values is_crypted frame binding)
                else keepalive_bytes (data_values is_crypted frame binding) ka @ be16 22) @
               contents frame) 0]"
  using assms
  by (simp add: CWAssembleDataMessage_def Let_def wire data_values_def plain_values_def
        length_contents nat_add_distrib keepalive_bytes_def)

text \<open>
  A data frame that fits one packet arrives as it was sent, and arrives as what it is: a
  keep-alive packet, an 802.11 frame when it has wireless information or is of that type, and an
  802.3 frame otherwise. (A sender with a radio MAC address must not add wireless information.)
\<close>

theorem data_frame_roundtrip:
  assumes "ample mem" "well_formed frame" "mac_room mac_ptr"
    and "fragments_num (int (offset frame)) (fragment_payload (PMTU - 16)) = 1"
    and "binding = None \<or> \<not> radio_mac_present mac" "take_bit 1 ka = ka"
  shows "\<exists>p mac' m.
     CWAssembleDataMessage mem mac fid PMTU frame binding is_crypted ka = Ret [p] \<and>
     CWProtocolParseFragment mem (contents p @ junk) (int (length (contents p))) fs True mac_ptr =
       Some (Ret m, fs, True, mac') \<and>
     contents m = contents frame \<and>
     data_msgType m = Some (if ka = 1 then 5
        else if binding \<noteq> None \<or> data_msgType frame = Some 6 then 6 else 4)"
proof -
  let ?v = "data_values is_crypted frame binding"
  let ?h = "if ka = 0 then header_bytes mac ?v else keepalive_bytes ?v ka @ be16 22"
  let ?t = "Some (if ka = 1 then 5 else if binding \<noteq> None \<or> data_msgType frame = Some 6 then 6 else 4)"
  have b: "bindingValuesPtr ?v = binding" by (simp add: data_values_def)
  have ft: "frameType ?v = 1 \<longleftrightarrow> data_msgType frame = Some 6"
    by (simp add: data_values_def plain_values_def)
  have "isFragment (decoded ?v) = 0"
    by (simp add: decoded_def data_values_def plain_values_def)
  have ka: "ka = 0 \<or> ka = 1"
  proof -
    have "ka = 0 \<or> ka = 1" if "ka = ka mod 2"
      using that by (metis not_mod_2_eq_0_eq_1)
    then show ?thesis using assms(6) by (simp add: take_bit_eq_mod)
  qed
  have "\<exists>v mac'. isFragment v = 0 \<and>
     CWParseTransportHeader mem (rmsg [] ((?h @ contents frame) @ junk) None) True mac_ptr =
       Ret (v, rmsg ?h (contents frame @ junk) ?t, True, mac')"
  proof (cases "ka = 1")
    case True
    then show ?thesis
      using parse_keepalive [OF assms(1), of ka "[]" ?v 22 "contents frame @ junk" None mac_ptr]
      by (simp add: decoded_def data_values_def plain_values_def)
  next
    case False
    with ka have z: "ka = 0" by simp
    show ?thesis
    proof (cases binding)
      case None
      then show ?thesis
        using parse_data_plain [OF assms(1,3), of ?v "[]" mac "contents frame @ junk" None] b ft z
          \<open>isFragment (decoded ?v) = 0\<close> by simp
    next
      case (Some x)
      with assms(5) have "\<not> radio_mac_present mac" by simp
      with Some show ?thesis
        using parse_data_binding [OF assms(1), of ?v x mac "[]" "contents frame @ junk" None mac_ptr] b z
          \<open>isFragment (decoded ?v) = 0\<close> by simp
    qed
  qed
  then obtain v mac' where "isFragment v = 0"
    "CWParseTransportHeader mem (rmsg [] ((?h @ contents frame) @ junk) None) True mac_ptr =
       Ret (v, rmsg ?h (contents frame @ junk) ?t, True, mac')" by blast
  note r = receive_parsed [OF assms(1) this, of fs]
  have c: "contents (amsg t x 0) = x" for t x by (simp add: amsg_def wmsg_def contents_def)
  have d: "data_msgType (amsg t x 0) = t" for t x by (simp add: amsg_def)
  show ?thesis
  proof (intro exI conjI)
    show "CWAssembleDataMessage mem mac fid PMTU frame binding is_crypted ka =
        Ret [wmsg (?h @ contents frame) 0]"
      by (rule CWAssembleDataMessage_single [OF assms(1,2,4)])
    show "CWProtocolParseFragment mem (contents (wmsg (?h @ contents frame) 0) @ junk)
        (int (length (contents (wmsg (?h @ contents frame) 0)))) fs True mac_ptr =
        Some (Ret (amsg ?t (contents frame) 0), fs, True, mac')"
      unfolding contents_wmsg by (rule r)
  qed (rule c, rule d)
qed

theorem data_frame_roundtrip_witness:
  "\<exists>p mac' m.
     CWAssembleDataMessage (\<lambda>_. True) no_mac 0 1400 (wmsg [1, 2, 3] 0) (Some ex_binding) 0 0 = Ret [p] \<and>
     CWProtocolParseFragment (\<lambda>_. True) (contents p @ [0]) (int (length (contents p))) [] True None =
       Some (Ret m, [], True, mac') \<and>
     contents m = contents (wmsg [1, 2, 3] 0) \<and>
     data_msgType m = Some (if 0 = (1 :: 32 word) then 5
        else if Some ex_binding \<noteq> None \<or> data_msgType (wmsg [1, 2, 3] 0) = Some 6 then 6 else 4)"
  by (rule data_frame_roundtrip)
     (simp_all add: mac_room_def fragment_payload_def fragments_num_def)

end
