(* ===== verification/ReceivedFragments.thy ===== *)
theory ReceivedFragments
  imports Fragments
begin

section \<open>What any sender can bring into the list of fragments\<close>

text \<open>
  The list of fragments of a session is filled from the bytes of the packets, which anybody may send. Whatever they
  are, what the list holds has the shape the reassembly relies on, and the list is bounded. (What it does not have, and
  the reassembly relies on as well, are sizes that fit the offsets: \<open>reassembly_trusts_sizes\<close>.)
\<close>

subsection \<open>Well-typed lists\<close>

definition fragment_typed :: "CWProtocolFragment \<Rightarrow> bool" where
  "fragment_typed el \<longleftrightarrow> dataLen el = int (length (fragData el)) \<and> uint (fragID el) < 2 ^ 16 \<and>
     uint (fragOffset el) < 2 ^ 13 \<and> (fragLast el = 0 \<or> fragLast el = 1)"

definition fragments_typed :: "CWProtocolFragment list \<Rightarrow> bool" where
  "fragments_typed fs \<longleftrightarrow> list_all fragment_typed fs \<and> (\<forall>el \<in> set fs. fragID el = fragID (hd fs)) \<and>
     distinct (map fragOffset fs)"

lemma fragments_typed_Nil [simp]: "fragments_typed []"
  by (simp add: fragments_typed_def)

text \<open>All of one message, at most one for each offset: there are not more than offsets.\<close>

lemma fragments_typed_bounded:
  assumes "fragments_typed fs"
  shows "length fs \<le> 2 ^ 13"
proof -
  have d: "distinct (map fragOffset fs)" and t: "list_all fragment_typed fs"
    using assms by (simp_all add: fragments_typed_def)
  have "inj_on unat (set (map fragOffset fs))" by (rule inj_onI) (rule unsigned_word_eqI)
  with d have "distinct (map unat (map fragOffset fs))" using distinct_map [of unat] by metis
  moreover have "set (map unat (map fragOffset fs)) \<subseteq> {..<2 ^ 13}"
  proof
    fix i assume "i \<in> set (map unat (map fragOffset fs))"
    then obtain el where el: "el \<in> set fs" "i = unat (fragOffset el)" by auto
    with t have "uint (fragOffset el) < 2 ^ 13" by (simp add: list_all_iff fragment_typed_def)
    then have "int i < 2 ^ 13" unfolding el(2) by (simp only: of_nat_unat)
    then show "i \<in> {..<2 ^ 13}" by simp
  qed
  ultimately have "length (map unat (map fragOffset fs)) \<le> card {..<(2 :: nat) ^ 13}"
    by (metis card_mono distinct_card finite_lessThan)
  then show ?thesis by simp
qed

subsection \<open>The fields of the header\<close>

lemma uint_CWGetField32:
  assumes "l < 32" "s + l \<le> 32"
  shows "uint (CWGetField32 w s l) < 2 ^ l"
proof -
  have "CWGetField32 w s l = take_bit l (CWGetField32 w s l)"
    by (intro bit_word_eqI) (auto simp: bit_CWGetField32 bit_simps)
  then have "uint (CWGetField32 w s l) = take_bit l (uint (CWGetField32 w s l))"
    by (metis unsigned_take_bit_eq)
  then show ?thesis by (metis take_bit_int_less_exp)
qed

lemma CWGetField32_flag: "s + 1 \<le> 32 \<Longrightarrow> CWGetField32 w s 1 = 0 \<or> CWGetField32 w s 1 = 1"
proof -
  assume "s + 1 \<le> 32"
  then have "uint (CWGetField32 w s 1) < 2" using uint_CWGetField32 [of 1 s w] by simp
  then have "uint (CWGetField32 w s 1) = 0 \<or> uint (CWGetField32 w s 1) = 1"
    using uint_ge_0 [of "CWGetField32 w s 1"] by linarith
  then show ?thesis by (metis word_of_int_uint word_of_int_0 word_of_int_1)
qed

lemma parsed_fields:
  assumes "CWParseTransportHeader mem m flag mac = Ret (v, m', flag', mac')"
  shows "uint (fragmentID v) < 2 ^ 16 \<and> uint (fragmentOffset v) < 2 ^ 13 \<and> (lastFlag v = 0 \<or> lastFlag v = 1)"
proof -
  from assms obtain w w2 where
    "fragmentID v = CWGetField32 w2 0 16 \<and> fragmentOffset v = CWGetField32 w2 16 13 \<and> lastFlag v = CWGetField32 w 25 1"
    unfolding CWParseTransportHeader_def Let_def
    by (auto simp: res_bind_Ret_iff split: if_splits prod.splits)
  with uint_CWGetField32 [of 16 0 w2] uint_CWGetField32 [of 13 16 w2] CWGetField32_flag [of 25 w]
  show ?thesis by simp
qed

subsection \<open>Messages\<close>

text \<open>No store leaves its block, and what is rebuilt is a block with an offset in it.\<close>

lemma store_well_formed: "store bs m = Ret m' \<Longrightarrow> well_formed m' \<and> length (msg m') = length (msg m)"
  by (auto simp: store_def well_formed_def split: if_splits)

lemma store_raw_well_formed:
  "CWProtocolStoreRawBytes m bs n = Ret m' \<Longrightarrow> well_formed m' \<and> length (msg m') = length (msg m)"
  by (auto simp: CWProtocolStoreRawBytes_def dest: store_well_formed split: if_splits)

lemma well_formed_data [simp]: "well_formed (m\<lparr>data_msgType := t\<rparr>) = well_formed m"
  by (simp add: well_formed_def)

lemma created_length: "CW_CREATE_PROTOCOL_MESSAGE mem n = Ret m \<Longrightarrow> length (msg m) = nat n"
  by (auto simp: CW_CREATE_PROTOCOL_MESSAGE_def split: if_splits)

lemma reassemble_well_formed:
  assumes "reassemble t fs k m = Some r"
  shows "\<forall>m'. r = Ret m' \<longrightarrow> well_formed m' \<and> length (msg m') = length (msg m)"
proof (induction t fs k m r rule: reassemble.raw_induct)
  case (1 reassemble t fs k m r)
  from 1(2) show ?case
    by (auto split: option.splits res.splits if_splits dest!: 1(1) store_raw_well_formed)
qed (rule assms)

subsection \<open>One packet\<close>

lemma keep_fragment_typed:
  assumes "fragments_typed fs" "fs = [] \<or> fragID (hd fs) = fragID el" "\<forall>x \<in> set fs. fragOffset x \<noteq> fragOffset el"
    and "uint (fragID el) < 2 ^ 16" "uint (fragOffset el) < 2 ^ 13" "fragLast el = 0 \<or> fragLast el = 1"
    and "keep_fragment mem bytes fs el = (r, fs')"
  shows "fragments_typed fs'"
proof -
  let ?el = "el\<lparr>fragData := take (nat (dataLen el)) bytes\<rparr>"
  have "fs' = fs \<or> fs' = [] \<or> 0 \<le> dataLen el \<and> dataLen el \<le> int (length bytes) \<and> fs' = ?el # fs"
    using assms(7) by (auto simp: keep_fragment_def CWAddElementToList_def malloc_ok_def split: if_splits)
  moreover have "fragments_typed (?el # fs)" if n: "0 \<le> dataLen el" "dataLen el \<le> int (length bytes)"
  proof -
    from n have "nat (dataLen el) \<le> length bytes" by linarith
    with n assms(4-6) have "fragment_typed ?el" by (simp add: fragment_typed_def min_absorb2)
    moreover have "\<forall>x \<in> set fs. fragID x = fragID el"
      using assms(1,2) by (auto simp: fragments_typed_def)
    ultimately show ?thesis using assms(1,3) by (fastforce simp: fragments_typed_def)
  qed
  ultimately show ?thesis using assms(1) by auto
qed

lemma try_reassemble_kept:
  assumes "try_reassemble mem t fs = Some (r, fs')"
  shows "(fs' = fs \<or> fs' = []) \<and> (\<forall>m. r = Ret m \<longrightarrow> well_formed m)"
  using assms unfolding try_reassemble_def Let_def
  by (auto split: if_splits res.splits dest: reassemble_well_formed)

lemma parse_fragment_typed:
  assumes "fragments_typed fs" "CWProtocolParseFragment mem buf n fs flag mac = Some (r, fs', flag', mac')"
  shows "fragments_typed fs' \<and> (\<forall>m. r = Ret m \<longrightarrow> well_formed m)"
proof (cases "CWParseTransportHeader mem \<lparr> msg = buf, offset = 0, data_msgType = None \<rparr> flag mac")
  case head: (Ret x)
  obtain v m f p where x: "x = (v, m, f, p)" by (metis prod_cases4)
  note fields = parsed_fields [OF head [unfolded x]]
  let ?el = "\<lparr> fragData = [], dataLen = n - int (offset m), fragID = fragmentID v, fragOffset = fragmentOffset v,
    fragLast = lastFlag v \<rparr>"
  let ?same = "fs = [] \<or> fragID (hd fs) = fragmentID v"
  show ?thesis
  proof (cases "isFragment v = 0 \<or> \<not> malloc_ok mem fragment_struct_size \<or>
      ?same \<and> CWSearchInList fs (Some ?el) CWCompareFragment \<noteq> None")
    case True
    with assms show ?thesis unfolding CWProtocolParseFragment_def head x
      by (auto simp: Let_def res_bind_Ret_iff split: if_splits dest!: store_raw_well_formed)
  next
    case False
    let ?fs = "if ?same then fs else fst (CWDeleteList fs)"
    obtain r1 fs1 where keep: "keep_fragment mem (drop (offset m) buf) ?fs ?el = (r1, fs1)" by fastforce
    have t: "fragments_typed fs1"
    proof (rule keep_fragment_typed [OF _ _ _ _ _ _ keep])
      show "\<forall>x \<in> set ?fs. fragOffset x \<noteq> fragOffset ?el"
        using False assms(1) by (auto simp: CWSearchInList_None CWCompareFragment_def fragments_typed_def)
    qed (use assms(1) fields in auto)
    show ?thesis
    proof (cases r1)
      case (Ret u)
      with assms(2) False keep have "try_reassemble mem (data_msgType m) fs1 = Some (r, fs')"
        unfolding CWProtocolParseFragment_def head x by (auto simp: Let_def)
      from try_reassemble_kept [OF this] t show ?thesis by auto
    qed (use assms(2) False keep t in
      \<open>auto simp: CWProtocolParseFragment_def head x Let_def\<close>)
  qed
qed (use assms in \<open>auto simp: CWProtocolParseFragment_def\<close>)

subsection \<open>Any sequence of packets\<close>

lemma receive_all_typed:
  "\<lbrakk>receive_all mem ps fs mac = Some (rs, fs', mac'); fragments_typed fs\<rbrakk> \<Longrightarrow>
   fragments_typed fs' \<and> (\<forall>m. Ret m \<in> set rs \<longrightarrow> well_formed m)"
proof (induction mem ps fs mac arbitrary: rs rule: receive_all.induct)
  case (2 mem buf n ps fs mac)
  from 2(2) obtain r fs1 f1 mac1 where p: "CWProtocolParseFragment mem buf n fs False mac = Some (r, fs1, f1, mac1)"
    and rs: "\<exists>rs1. receive_all mem ps fs1 mac1 = Some (rs1, fs', mac') \<and> rs = r # rs1"
    by (auto split: option.splits)
  from rs 2(1) [OF p refl refl refl] parse_fragment_typed [OF 2(3) p] show ?case by fastforce
qed simp

text \<open>
  C35: Whatever bytes the packets of a control channel hold, in whatever memory, the list of fragments stays well typed:
  all fragments belong to one message, no two have the same offset, each has as many bytes as its length says, a 16-bit
  identifier, a 13-bit offset and a one-bit last flag. So it never has more than 8192 entries, and a message that is handed
  on is a block with an offset inside it.
\<close>

theorem received_fragments_typed:
  assumes "receive_all mem ps [] mac = Some (rs, fs, mac')"
  shows "(\<forall>el \<in> set fs. dataLen el = int (length (fragData el)) \<and> uint (fragID el) < 2 ^ 16 \<and>
      uint (fragOffset el) < 2 ^ 13 \<and> (fragLast el = 0 \<or> fragLast el = 1) \<and> fragID el = fragID (hd fs)) \<and>
    distinct (map fragOffset fs) \<and> length fs \<le> 8192 \<and> (\<forall>m. Ret m \<in> set rs \<longrightarrow> offset m \<le> length (msg m))"
proof -
  from receive_all_typed [OF assms fragments_typed_Nil] have f: "fragments_typed fs"
    and w: "\<forall>m. Ret m \<in> set rs \<longrightarrow> well_formed m" by auto
  from fragments_typed_bounded [OF f] have "length fs \<le> 8192" by simp
  with f w show ?thesis unfolding fragments_typed_def fragment_typed_def list_all_iff well_formed_def by blast
qed

text \<open>Two fragments of a message of which the last is missing.\<close>

theorem received_fragments_typed_witness:
  "\<exists>rs fs. receive_all (\<lambda>_. True) [received (ex_packet 0 0 [1, 2, 3]) [], received (ex_packet 5 0 (replicate 8 1)) []] [] None =
      Some (rs, fs, None) \<and> map dataLen fs = [8, 3] \<and> distinct (map fragOffset fs) \<and> length fs \<le> 8192"
proof -
  let ?fs = "[\<lparr> fragData = replicate 8 1, dataLen = 8, fragID = 7, fragOffset = 5, fragLast = 0 \<rparr>,
    \<lparr> fragData = [1, 2, 3], dataLen = 3, fragID = 7, fragOffset = 0, fragLast = 0 \<rparr>]"
  have r: "receive_all (\<lambda>_. True) [received (ex_packet 0 0 [1, 2, 3]) [], received (ex_packet 5 0 (replicate 8 1)) []] [] None =
      Some ([Raise CW_ERROR_NEED_RESOURCE, Raise CW_ERROR_NEED_RESOURCE], ?fs, None)"
    by (simp add: ex_receive [simplified] Let_def CWCompareFragment_def try_reassemble_def)
  from received_fragments_typed [OF r] have h: "length ?fs \<le> 8192 \<and> distinct (map fragOffset ?fs)" by blast
  show ?thesis
  proof (intro exI conjI)
    show "map dataLen ?fs = [8, 3]" by simp
  qed (use r h in blast)+
qed

end
