(* ===== verification/Elements.thy ===== *)
theory Elements
  imports Protocol
begin

section \<open>The shape of the element functions of AC and WTP\<close>

text \<open>
  Nearly every assemble function of \<^verbatim>\<open>ACProtocol.c\<close> and \<^verbatim>\<open>WTPProtocol.c\<close> creates a block of a
  size it works out, makes a sequence of store calls and frames the result. The sequence is a list
  of \<open>store_call\<close>s here, executed one after the other, so that what is stored and whether it
  fits the block is one lemma for all of them. The elements that repeat per radio or per interface
  are assembled one by one and copied into one block.

  A C function that returns \<^verbatim>\<open>CW_FALSE\<close> without raising an error is \<open>Raise CW_ERROR_NONE\<close>. A
  block of \<open>n\<close> structures is a request for \<open>n\<close> times their size on a 64-bit host.
\<close>

subsection \<open>Store calls\<close>

datatype store_call =
    Store8 byte | Store16 "16 word" | Store32 "32 word" | StoreStr "byte list"
  | StoreRaw "byte list" int

fun do_store :: "store_call \<Rightarrow> CWProtocolMessage \<Rightarrow> CWProtocolMessage res" where
  "do_store (Store8 v) m = CWProtocolStore8 m v"
| "do_store (Store16 v) m = CWProtocolStore16 m v"
| "do_store (Store32 v) m = CWProtocolStore32 m v"
| "do_store (StoreStr s) m = CWProtocolStoreStr m s"
| "do_store (StoreRaw bs n) m = CWProtocolStoreRawBytes m bs n"

fun stores :: "store_call list \<Rightarrow> CWProtocolMessage \<Rightarrow> CWProtocolMessage res" where
  "stores [] m = Ret m"
| "stores (c # cs) m = res_bind (do_store c m) (stores cs)"

definition assemble_elem ::
  "memory \<Rightarrow> int \<Rightarrow> store_call list \<Rightarrow> 32 word \<Rightarrow> CWProtocolMessage res" where
  "assemble_elem mem n cs type =
     res_bind (CW_CREATE_PROTOCOL_MESSAGE mem n) (\<lambda>m.
     res_bind (stores cs m) (\<lambda>m.
     CWAssembleMsgElem mem (Some m) type))"

text \<open>The same where the function does not look at the result of the framing: without memory for
  the framed block the message stays unframed.\<close>

definition assemble_unchecked ::
  "memory \<Rightarrow> int \<Rightarrow> store_call list \<Rightarrow> 32 word \<Rightarrow> CWProtocolMessage res" where
  "assemble_unchecked mem n cs type =
     res_bind (CW_CREATE_PROTOCOL_MESSAGE mem n) (\<lambda>m.
     res_bind (stores cs m) (\<lambda>m.
     case CWAssembleMsgElem mem (Some m) type of
       Ret e \<Rightarrow> Ret e | Raise e \<Rightarrow> Ret m | Fault \<Rightarrow> Fault))"

text \<open>The conversions of an \<^verbatim>\<open>int\<close> argument to the unsigned parameter of a store call.\<close>

abbreviation i8 :: "int \<Rightarrow> store_call" where "i8 v \<equiv> Store8 (word_of_int v)"
abbreviation i16 :: "int \<Rightarrow> store_call" where "i16 v \<equiv> Store16 (word_of_int v)"
abbreviation i32 :: "int \<Rightarrow> store_call" where "i32 v \<equiv> Store32 (word_of_int v)"

subsection \<open>What the calls store\<close>

fun call_ok :: "store_call \<Rightarrow> bool" where
  "call_ok (StoreRaw bs n) \<longleftrightarrow> 0 \<le> n \<and> nat n \<le> length bs"
| "call_ok _ \<longleftrightarrow> True"

fun call_bytes :: "store_call \<Rightarrow> byte list" where
  "call_bytes (Store8 v) = [v]"
| "call_bytes (Store16 v) = be16 v"
| "call_bytes (Store32 v) = be32 v"
| "call_bytes (StoreStr s) = s"
| "call_bytes (StoreRaw bs n) = take (nat n) bs"

fun calls_bytes :: "store_call list \<Rightarrow> byte list" where
  "calls_bytes [] = []"
| "calls_bytes (c # cs) = call_bytes c @ calls_bytes cs"

fun calls_ok :: "store_call list \<Rightarrow> bool" where
  "calls_ok [] \<longleftrightarrow> True"
| "calls_ok (c # cs) \<longleftrightarrow> call_ok c \<and> calls_ok cs"

lemma calls_bytes_append [simp]: "calls_bytes (cs @ ds) = calls_bytes cs @ calls_bytes ds"
  by (induction cs) auto

lemma calls_ok_append [simp]: "calls_ok (cs @ ds) \<longleftrightarrow> calls_ok cs \<and> calls_ok ds"
  by (induction cs) auto

lemma do_store_wmsg:
  "do_store c (wmsg bs k) =
   (if call_ok c \<and> length (call_bytes c) \<le> k
    then Ret (wmsg (bs @ call_bytes c) (k - length (call_bytes c))) else Fault)"
  by (cases c) (auto simp: wire)

lemma stores_wmsg [wire]:
  "stores cs (wmsg bs k) =
   (if calls_ok cs \<and> length (calls_bytes cs) \<le> k
    then Ret (wmsg (bs @ calls_bytes cs) (k - length (calls_bytes cs))) else Fault)"
  by (induction cs arbitrary: bs k) (auto simp: do_store_wmsg)

text \<open>With enough memory, an element is assembled exactly when its block is large enough.\<close>

lemma assemble_elem_eq [wire]:
  "\<lbrakk>ample mem; 0 \<le> n; calls_ok cs\<rbrakk> \<Longrightarrow> assemble_elem mem n cs t =
   (if int (length (calls_bytes cs)) \<le> n then Ret (elem_msg t (calls_bytes cs)) else Fault)"
  by (auto simp: assemble_elem_def wire)

lemma assemble_unchecked_eq [wire]:
  "\<lbrakk>ample mem; 0 \<le> n; calls_ok cs\<rbrakk> \<Longrightarrow> assemble_unchecked mem n cs t =
   (if int (length (calls_bytes cs)) \<le> n then Ret (elem_msg t (calls_bytes cs)) else Fault)"
  by (auto simp: assemble_unchecked_def wire)

lemma assemble_elem_Fault:
  "\<lbrakk>ample mem; 0 \<le> n; calls_ok cs \<Longrightarrow> n < int (length (calls_bytes cs))\<rbrakk> \<Longrightarrow>
   assemble_elem mem n cs t = Fault"
  by (auto simp: assemble_elem_def wire)

lemma assemble_elem_no_memory:
  "\<not> malloc_ok mem n \<Longrightarrow> assemble_elem mem n cs t = Raise CW_ERROR_OUT_OF_MEMORY"
  by (simp add: assemble_elem_def wire)

subsection \<open>Repeated elements\<close>

abbreviation message_size :: int where "message_size \<equiv> 16"

fun store_all :: "CWProtocolMessage list \<Rightarrow> CWProtocolMessage \<Rightarrow> CWProtocolMessage res" where
  "store_all [] m = Ret m"
| "store_all (e # es) m = res_bind (CWProtocolStoreMessage m e) (store_all es)"

text \<open>
  The elements of an array, each assembled into an entry of \<^verbatim>\<open>msgs\<close>, then all copied into one
  message: the two loops of \<^verbatim>\<open>CWAssembleMsgElemDecryptErrorReportPeriod\<close>,
  \<^verbatim>\<open>CWAssembleMsgElemRadioOperationalState\<close> and the like.
\<close>

definition assemble_each ::
  "memory \<Rightarrow> ('a \<Rightarrow> CWProtocolMessage res) \<Rightarrow> 'a list \<Rightarrow> CWProtocolMessage res" where
  "assemble_each mem f xs =
     (if \<not> malloc_ok mem (message_size * int (length xs)) then Raise CW_ERROR_OUT_OF_MEMORY
      else res_bind (res_map f xs) (\<lambda>msgs.
        res_bind (CW_CREATE_PROTOCOL_MESSAGE mem (int (sum_list (map offset msgs)))) (\<lambda>m.
        store_all msgs m)))"

lemma store_all_wmsg [wire]:
  "\<forall>e \<in> set es. well_formed e \<Longrightarrow> store_all es (wmsg bs k) =
   (if length (concat (map contents es)) \<le> k
    then Ret (wmsg (bs @ concat (map contents es)) (k - length (concat (map contents es))))
    else Fault)"
  by (induction es arbitrary: bs k) (auto simp: wire)

lemma sum_elem_offsets:
  "\<forall>e \<in> set es. well_formed e \<Longrightarrow> sum_list (map offset es) = length (concat (map contents es))"
  by (induction es) (auto simp: length_contents)

lemma assemble_each_eq [wire]:
  assumes "ample mem" and "\<And>x. x \<in> set xs \<Longrightarrow> f x = Ret (elem_msg t (g x))"
  shows "assemble_each mem f xs = Ret (wmsg (concat (map (\<lambda>x. elem_bytes t (g x)) xs)) 0)"
proof -
  let ?es = "map (\<lambda>x. elem_msg t (g x)) xs"
  have c: "concat (map contents ?es) = concat (map (\<lambda>x. elem_bytes t (g x)) xs)"
    by (simp add: comp_def)
  have w: "\<forall>e \<in> set ?es. well_formed e" by auto
  have r: "res_map f xs = Ret ?es" by (rule res_map_Ret) (rule assms(2))
  from assms(1) c w show ?thesis
    by (simp add: assemble_each_def r create_wmsg ample_malloc sum_elem_offsets [OF w] store_all_wmsg
        del: map_map)
qed

lemma assemble_each_Fault:
  "\<lbrakk>ample mem; f x = Fault\<rbrakk> \<Longrightarrow> assemble_each mem f (x # xs) = Fault"
  by (simp add: assemble_each_def wire)

subsection \<open>Retrieve calls of the parse functions\<close>

text \<open>
  \<^verbatim>\<open>CW_COPY_MEMORY(dst, CWProtocolRetrieveRawBytes(msgPtr, len), n)\<close>: the retrieved block has
  \<open>len\<close> bytes; a null block and a copy past the block are faults.
\<close>

definition retrieve_copy ::
  "memory \<Rightarrow> CWProtocolMessage \<Rightarrow> int \<Rightarrow> int \<Rightarrow> (byte list \<times> CWProtocolMessage) res" where
  "retrieve_copy mem m len n =
     res_bind (CWProtocolRetrieveRawBytes mem m len) (\<lambda>(b, m).
       case b of None \<Rightarrow> Fault
       | Some bs \<Rightarrow> if 0 \<le> n \<and> nat n \<le> length bs then Ret (take (nat n) bs, m) else Fault)"

lemma retrieve_raw_rmsg [wire]:
  "\<lbrakk>ample mem; length xs = nat n; 0 \<le> n\<rbrakk> \<Longrightarrow>
   CWProtocolRetrieveRawBytes mem (rmsg bs (xs @ rest) t) n = Ret (Some xs, rmsg (bs @ xs) rest t)"
  by (simp add: CWProtocolRetrieveRawBytes_def wire)

lemma retrieve_str_rmsg [wire]:
  "\<lbrakk>ample mem; length xs = nat n; 0 \<le> n\<rbrakk> \<Longrightarrow>
   CWProtocolRetrieveStr mem (rmsg bs (xs @ rest) t) n = Ret (Some xs, rmsg (bs @ xs) rest t)"
  by (simp add: CWProtocolRetrieveStr_def wire)

lemma retrieve_copy_rmsg [wire]:
  "\<lbrakk>ample mem; length xs = nat len; 0 \<le> len; 0 \<le> n; n \<le> len\<rbrakk> \<Longrightarrow>
   retrieve_copy mem (rmsg bs (xs @ rest) t) len n = Ret (take (nat n) xs, rmsg (bs @ xs) rest t)"
  by (simp add: retrieve_copy_def wire)

text \<open>The frame of a parse function: the body's value, provided it reads what was announced.\<close>

lemma CWParseMessageElement_eq [wire]:
  assumes "body (rmsg bs (xs @ rest) t) = Ret (v, rmsg (bs @ xs) rest t)"
  shows "CWParseMessageElement body (rmsg bs (xs @ rest) t) len =
    (if int (length xs) = len then Ret (v, rmsg (bs @ xs) rest t)
     else Raise CW_ERROR_INVALID_FORMAT)"
  using assms by (simp add: CWParseMessageElement_def)

subsection \<open>Data of both sides\<close>

text \<open>A WLAN interface and the physical device of a radio.\<close>

record WTPInterfaceInfo =
  wlanID :: int
  typeInterface :: int
  capability :: "byte list"
  capabilityBit :: "16 word"
  keyIndex :: byte
  keyStatus :: byte
  keyLength :: "16 word"
  key :: "byte list"
  groupTSC :: "byte list"
  qos :: byte
  authType :: byte
  MACmode :: byte
  frameTunnelMode :: int
  suppressSSID :: byte
  SSID :: "byte list"
  BSSID :: "byte list option"

text \<open>\<open>phy_frequencyList\<close>: frequency and power of the first entry, \<open>None\<close> for no block.\<close>

record WTPSinglePhyInfo =
  phy_radioID :: int
  phy_supportedRates :: "byte list option"
  phy_lenSupportedRates :: int
  phyStandardA :: bool
  phyStandardB :: bool
  phyStandardG :: bool
  phyStandardN :: bool
  phy_standardValue :: byte
  phy_totChannels :: int
  phy_frequencyList :: "(int \<times> int) option"
  phy_fragmentationTreshold :: int
  phy_rtsThreshold :: int
  phy_shortRetry :: byte
  phy_longRetry :: byte
  phy_txMSDU :: int
  phy_rxMSDU :: int
  numInterfaces :: int
  interfaces :: "WTPInterfaceInfo list"

text \<open>A radio of a WTP.\<close>

record CWWTPRadioInfoValues =
  radio_radioID :: int
  radio_decryptErrorMACAddressList :: "eth list"
  radio_adminState :: int
  radio_adminCause :: int
  radio_operationalState :: int
  radio_operationalCause :: int
  radio_TxQueueLevel :: int
  radio_wirelessLinkFramesPerSec :: int
  radio_statistics :: WTPRadioStatisticsInfo
  gWTPPhyInfo :: WTPSinglePhyInfo

text \<open>A decryption error report; the addresses are the bytes of their array.\<close>

record CWDecryptErrorReportValues =
  decrypt_ID :: int
  numEntries :: byte
  decrypt_length :: byte
  decryptErrorMACAddressList :: "byte list option"

text \<open>A vendor information of AC or WTP; the value is the bytes of its block.\<close>

record VendorInfoValues =
  vendorIdentifier :: int
  info_type :: int
  info_length :: int
  valuePtr :: "byte list"

abbreviation vendor_info_size :: int where "vendor_info_size \<equiv> 24"

record WTPRebootStatisticsInfo =
  reboot_Count :: int
  reboot_ACInitiatedCount :: int
  reboot_linkFailurerCount :: int
  reboot_SWFailureCount :: int
  reboot_HWFailuireCount :: int
  reboot_otherFailureCount :: int
  reboot_unknownFailureCount :: int
  reboot_lastFailureType :: int

record CWMsgElemDataDeleteStation =
  del_radioID :: int
  del_staAddr :: "byte list"

subsection \<open>Host byte order\<close>

text \<open>
  A few functions swap a value at a place where it is not, or not only, in host byte order; what
  happens then depends on the host. \<open>le\<close> says that the host is little-endian.
\<close>

definition int_bytes :: "bool \<Rightarrow> 32 word \<Rightarrow> byte list" where
  "int_bytes le v = (if le then rev (be32 v) else be32 v)"

definition int_of_bytes :: "bool \<Rightarrow> byte list \<Rightarrow> 32 word" where
  "int_of_bytes le bs = (if le then of_be32 (rev bs) else of_be32 bs)"

definition htonl :: "bool \<Rightarrow> 32 word \<Rightarrow> 32 word" where
  "htonl le v = (if le then of_be32 (rev (be32 v)) else v)"

lemma int_of_bytes_int_bytes [simp]: "int_of_bytes le (int_bytes le v) = v"
  by (simp add: int_of_bytes_def int_bytes_def)

lemma int_bytes_htonl [simp]: "int_bytes le (htonl le v) = be32 v"
proof -
  have "be32 (of_be32 (rev (be32 v))) = rev (be32 v)"
    by (simp add: be32_def) (auto intro!: bit_word_eqI simp: bit_simps)
  then show ?thesis by (simp add: int_bytes_def htonl_def)
qed

lemma length_int_bytes [simp]: "length (int_bytes le v) = 4"
  by (simp add: int_bytes_def)

subsection \<open>Reading vendor informations\<close>

lemma retrieve_offset:
  "CWProtocolRetrieve16 m = Ret (v, m') \<Longrightarrow> offset m' = offset m + 2"
  "CWProtocolRetrieve32 m = Ret (w, m') \<Longrightarrow> offset m' = offset m + 4"
  by (auto simp: retrieve_defs retrieve_def res_simps split: if_splits)

lemma neg_uint: "0 < (k :: int) \<Longrightarrow> - uint x < k"
  using unsigned_greater_eq [of x, where 'a = int] by linarith

text \<open>
  The functions that read vendor informations go over the element twice: first they count the
  entries, jumping over the values, until the length of the element is reached or passed; then they
  go back and read as many. \<open>own\<close> says whether every entry has a vendor identifier of its own.
\<close>

function count_vendor_infos :: "bool \<Rightarrow> nat \<Rightarrow> int \<Rightarrow> CWProtocolMessage \<Rightarrow> nat res" where
  "count_vendor_infos own old len m =
     (if int (offset m) - int old < len then
        res_bind (if own then CWProtocolRetrieve32 m else Ret (0, m)) (\<lambda>(_, m1).
        res_bind (CWProtocolRetrieve16 m1) (\<lambda>(_, m2).
        res_bind (CWProtocolRetrieve16 m2) (\<lambda>(tmp, m3).
        res_bind (count_vendor_infos own old len (m3\<lparr>offset := offset m3 + unat tmp\<rparr>)) (\<lambda>n.
        Ret (Suc n)))))
      else Ret 0)"
  by pat_completeness auto

termination
  by (relation "measure (\<lambda>(own, old, len, m). nat (len - (int (offset m) - int old)))")
     (auto dest!: retrieve_offset simp: neg_uint split: if_splits)

declare count_vendor_infos.simps [simp del]

text \<open>
  One entry; \<open>conv\<close> is what the function does to a value of four bytes, \<open>vid\<close> the common vendor
  identifier, if there is one.
\<close>

definition read_vendor_info ::
  "memory \<Rightarrow> int option \<Rightarrow> (byte list \<Rightarrow> byte list) \<Rightarrow> CWProtocolMessage \<Rightarrow>
   (VendorInfoValues \<times> CWProtocolMessage) res" where
  "read_vendor_info mem vid conv m =
     res_bind (case vid of None \<Rightarrow> res_bind (CWProtocolRetrieve32 m) (\<lambda>(i, m). Ret (sint i, m))
                         | Some i \<Rightarrow> Ret (i, m)) (\<lambda>(i, m).
     res_bind (CWProtocolRetrieve16 m) (\<lambda>(t, m).
     res_bind (CWProtocolRetrieve16 m) (\<lambda>(l, m).
     res_bind (CWProtocolRetrieveRawBytes mem m (uint l)) (\<lambda>(b, m).
       case b of None \<Rightarrow> Raise CW_ERROR_OUT_OF_MEMORY
       | Some bs \<Rightarrow> Ret (\<lparr> vendorIdentifier = i, info_type = uint t, info_length = uint l,
                          valuePtr = (if l = 4 then conv bs else bs) \<rparr>, m)))))"

fun read_vendor_infos ::
  "memory \<Rightarrow> int option \<Rightarrow> (byte list \<Rightarrow> byte list) \<Rightarrow> nat \<Rightarrow> CWProtocolMessage \<Rightarrow>
   (VendorInfoValues list \<times> CWProtocolMessage) res" where
  "read_vendor_infos mem vid conv 0 m = Ret ([], m)"
| "read_vendor_infos mem vid conv (Suc n) m =
     res_bind (read_vendor_info mem vid conv m) (\<lambda>(v, m).
     res_bind (read_vendor_infos mem vid conv n m) (\<lambda>(vs, m). Ret (v # vs, m)))"

definition parse_vendor_infos ::
  "memory \<Rightarrow> int option \<Rightarrow> (byte list \<Rightarrow> byte list) \<Rightarrow> nat \<Rightarrow> int \<Rightarrow> CWProtocolMessage \<Rightarrow>
   (VendorInfoValues list \<times> CWProtocolMessage) res" where
  "parse_vendor_infos mem vid conv old len m =
     res_bind (count_vendor_infos (vid = None) old len m) (\<lambda>n.
       if malloc_ok mem (vendor_info_size * int n) then read_vendor_infos mem vid conv n m
       else Raise CW_ERROR_OUT_OF_MEMORY)"

text \<open>Well-formed vendor informations and their bytes.\<close>

definition info_ok :: "VendorInfoValues \<Rightarrow> bool" where
  "info_ok v \<longleftrightarrow> 0 \<le> info_length v \<and> info_length v < 65536 \<and>
     length (valuePtr v) = nat (info_length v) \<and> 0 \<le> info_type v \<and> info_type v < 65536 \<and>
     - 2147483648 \<le> vendorIdentifier v \<and> vendorIdentifier v < 2147483648"

definition info_bytes :: "bool \<Rightarrow> VendorInfoValues \<Rightarrow> byte list" where
  "info_bytes own v =
     (if own then be32 (word_of_int (vendorIdentifier v)) else []) @
     be16 (word_of_int (info_type v)) @ be16 (word_of_int (info_length v)) @ valuePtr v"

abbreviation infos_bytes :: "bool \<Rightarrow> VendorInfoValues list \<Rightarrow> byte list" where
  "infos_bytes own vs \<equiv> concat (map (info_bytes own) vs)"

lemma length_info_bytes:
  "info_ok v \<Longrightarrow> length (info_bytes own v) = (if own then 8 else 4) + nat (info_length v)"
  by (simp add: info_bytes_def info_ok_def)

lemma rmsg_skip:
  "\<lbrakk>n = length bs + length xs\<rbrakk> \<Longrightarrow> (rmsg bs (xs @ rest) t)\<lparr>offset := n\<rparr> = rmsg (bs @ xs) rest t"
  by (simp add: rmsg_def)

lemma unat_of_int16: "\<lbrakk>0 \<le> k; k < 65536\<rbrakk> \<Longrightarrow> unat (word_of_int k :: 16 word) = nat k"
  by (simp add: unsigned_of_int take_bit_int_eq_self)

lemma count_vendor_infos_rmsg:
  assumes "\<forall>v \<in> set vs. info_ok v"
  shows "count_vendor_infos own old (int (length bs) - int old + int (length (infos_bytes own vs)))
      (rmsg bs (infos_bytes own vs @ rest) t) = Ret (length vs)"
  using assms
proof (induction vs arbitrary: bs)
  case Nil
  show ?case by (subst count_vendor_infos.simps) simp
next
  case (Cons v vs)
  let ?bs = "bs @ info_bytes own v" and ?l = "int (length (infos_bytes own vs))"
  have v: "info_ok v" and ih: "count_vendor_infos own old (int (length ?bs) - int old + ?l)
      (rmsg ?bs (infos_bytes own vs @ rest) t) = Ret (length vs)"
    using Cons.prems Cons.IH [of ?bs] by simp_all
  have l: "int (length bs) - int old + int (length (infos_bytes own (v # vs))) =
      int (length ?bs) - int old + ?l" by simp
  have pos: "0 < length (info_bytes own v)" using v by (simp add: length_info_bytes)
  show ?case
  proof (cases own)
    case True
    have skip: "(rmsg (bs @ be32 (word_of_int (vendorIdentifier v)) @ be16 (word_of_int (info_type v)) @
          be16 (word_of_int (info_length v))) (valuePtr v @ infos_bytes own vs @ rest) t)
        \<lparr>offset := length bs + 8 + nat (info_length v)\<rparr> =
      rmsg ?bs (infos_bytes own vs @ rest) t"
      using v True by (subst rmsg_skip) (auto simp: info_bytes_def info_ok_def)
    from pos ih skip v True show ?thesis unfolding l
      by (subst count_vendor_infos.simps)
         (simp add: info_bytes_def wire info_ok_def unat_of_int16)
  next
    case False
    have skip: "(rmsg (bs @ be16 (word_of_int (info_type v)) @
          be16 (word_of_int (info_length v))) (valuePtr v @ infos_bytes own vs @ rest) t)
        \<lparr>offset := length bs + 4 + nat (info_length v)\<rparr> =
      rmsg ?bs (infos_bytes own vs @ rest) t"
      using v False by (subst rmsg_skip) (auto simp: info_bytes_def info_ok_def)
    from pos ih skip v False show ?thesis unfolding l
      by (subst count_vendor_infos.simps)
         (simp add: info_bytes_def wire info_ok_def unat_of_int16)
  qed
qed

text \<open>What the receiver makes of an entry.\<close>

definition info_view ::
  "int option \<Rightarrow> (byte list \<Rightarrow> byte list) \<Rightarrow> VendorInfoValues \<Rightarrow> VendorInfoValues" where
  "info_view vid conv v = v
     \<lparr> vendorIdentifier := (case vid of None \<Rightarrow> vendorIdentifier v | Some i \<Rightarrow> i),
       valuePtr := (if info_length v = 4 then conv (valuePtr v) else valuePtr v) \<rparr>"

lemma read_vendor_info_rmsg:
  assumes "ample mem" "info_ok v"
  shows "read_vendor_info mem vid conv (rmsg bs (info_bytes (vid = None) v @ rest) t) =
    Ret (info_view vid conv v, rmsg (bs @ info_bytes (vid = None) v) rest t)"
proof -
  have u: "uint (word_of_int (info_length v) :: 16 word) = info_length v"
      "uint (word_of_int (info_type v) :: 16 word) = info_type v"
      "sint (word_of_int (vendorIdentifier v) :: 32 word) = vendorIdentifier v"
    using assms(2)
    by (simp_all add: info_ok_def unsigned_of_int signed_of_int take_bit_int_eq_self_iff
        signed_take_bit_int_eq_self_iff)
  have four: "(word_of_int (info_length v) :: 16 word) = 4 \<longleftrightarrow> info_length v = 4"
    using u(1) by (auto simp: word_uint_eq_iff)
  show ?thesis using assms
    by (cases vid) (simp_all add: read_vendor_info_def info_bytes_def info_view_def wire u four info_ok_def)
qed

lemma read_vendor_infos_rmsg:
  assumes "ample mem" "\<forall>v \<in> set vs. info_ok v"
  shows "read_vendor_infos mem vid conv (length vs) (rmsg bs (infos_bytes (vid = None) vs @ rest) t) =
    Ret (map (info_view vid conv) vs, rmsg (bs @ infos_bytes (vid = None) vs) rest t)"
  using assms(2)
proof (induction vs arbitrary: bs)
  case (Cons v vs)
  then show ?case using read_vendor_info_rmsg [OF assms(1), of v vid conv bs] by simp
qed simp

lemma parse_vendor_infos_rmsg [wire]:
  assumes "ample mem" "\<forall>v \<in> set vs. info_ok v"
    and "len = int (length bs) - int old + int (length (infos_bytes (vid = None) vs))"
  shows "parse_vendor_infos mem vid conv old len (rmsg bs (infos_bytes (vid = None) vs @ rest) t) =
    Ret (map (info_view vid conv) vs, rmsg (bs @ infos_bytes (vid = None) vs) rest t)"
  using assms read_vendor_infos_rmsg [OF assms(1,2), of vid conv bs rest t]
  by (simp add: parse_vendor_infos_def count_vendor_infos_rmsg wire)

end
