(* ===== verification/ACElements.thy ===== *)
theory ACElements
  imports Elements
begin

section \<open>ACProtocol.c: the message elements of the AC\<close>

text \<open>
  Every element the AC assembles and every element it parses. The global variables of the AC that
  the elements carry are the record \<open>ac_globals\<close>; a function that reads the WTP's entry of
  \<^verbatim>\<open>gWTPs\<close> gets the radios of the entry as an argument. Functions that AC and WTP both define
  under one name have the suffix \<open>_AC\<close> here.
\<close>

subsection \<open>The AC's data\<close>

text \<open>
  The address of an interface is the bytes of its socket address structure: \<^verbatim>\<open>sin_addr\<close> is at
  offset 4 of an IPv4 address, \<^verbatim>\<open>sin6_addr\<close> at offset 8 of an IPv6 address.
\<close>

datatype CWNetworkFamily = CW_IPv4 | CW_IPv6

record CWProtocolNetworkInterface =
  addr :: "byte list"
  addrIPv4 :: "byte list"
  WTPCount :: int

record ac_globals =
  gACName :: "byte list"
  gActiveStations :: int
  gLimit :: int
  gActiveWTPs :: int
  gMaxWTPs :: int
  gACDescriptorSecurity :: int
  gRMACField :: int
  gDTLSPolicy :: int
  gACHWVersion :: "32 word"
  gACSWVersion :: "32 word"
  gNetworkPreferredFamily :: CWNetworkFamily
  gInterfaces :: "CWProtocolNetworkInterface list"
  gDiscoveryTimer :: int
  gEchoRequestTimer :: int
  gIdleTimeout :: int
  gACECNSupport :: int

definition CWACGetInterfaceIPv4AddressAtIndex :: "ac_globals \<Rightarrow> nat \<Rightarrow> 32 word" where
  "CWACGetInterfaceIPv4AddressAtIndex ac i =
     (let a = (case gNetworkPreferredFamily ac of
                 CW_IPv4 \<Rightarrow> addr (gInterfaces ac ! i) | CW_IPv6 \<Rightarrow> addrIPv4 (gInterfaces ac ! i))
      in of_be32 (take 4 (drop 4 a)))"

definition CWACGetInterfaceIPv6AddressAtIndex :: "ac_globals \<Rightarrow> nat \<Rightarrow> byte list" where
  "CWACGetInterfaceIPv6AddressAtIndex ac i = take 16 (drop 8 (addr (gInterfaces ac ! i)))"

definition CWACGetInterfaceWTPCountAtIndex :: "ac_globals \<Rightarrow> nat \<Rightarrow> int" where
  "CWACGetInterfaceWTPCountAtIndex ac i = WTPCount (gInterfaces ac ! i)"

definition CWACGetVendorInfos :: "memory \<Rightarrow> bool \<Rightarrow> ac_globals \<Rightarrow> VendorInfoValues list res" where
  "CWACGetVendorInfos mem le ac =
     (if malloc_ok mem (vendor_info_size * 2) \<and> malloc_ok mem 4
      then Ret [\<lparr> vendorIdentifier = 65432, info_type = 4, info_length = 4,
                  valuePtr = int_bytes le (gACHWVersion ac) \<rparr>,
                \<lparr> vendorIdentifier = 65432, info_type = 5, info_length = 4,
                  valuePtr = int_bytes le (gACSWVersion ac) \<rparr>]
      else Raise CW_ERROR_OUT_OF_MEMORY)"

text \<open>
  The lists of the ACs of the cluster, two addresses each. An IPv4 address is an \<^verbatim>\<open>s_addr\<close>: the
  integer whose bytes in memory are the address.
\<close>

definition CWACGetACIPv4List :: "memory \<Rightarrow> bool \<Rightarrow> 32 word list res" where
  "CWACGetACIPv4List mem le =
     (if malloc_ok mem 8
      then Ret [int_of_bytes le [192, 168, 1, 2], int_of_bytes le [192, 168, 1, 66]]
      else Raise CW_ERROR_OUT_OF_MEMORY)"

definition CWACGetACIPv6List :: "memory \<Rightarrow> byte list list res" where
  "CWACGetACIPv6List mem =
     (let a = [0x5f, 0x1b, 0xdf, 0x00, 0xce, 0x3e, 0xe2, 0x00, 0x00, 0x20, 0x08, 0x00, 0x20, 0x78, 0xe3]
      in if malloc_ok mem 32 then Ret [a @ [0xe3], a @ [0xe4]] else Raise CW_ERROR_OUT_OF_MEMORY)"

text \<open>
  With a radio identifier the loop runs up to \<^verbatim>\<open>valPtr->radiosCount\<close>, which nobody has set:
  \<open>garbage\<close> is its value. The block of one entry is written at the index found.
\<close>

fun find_radio :: "int \<Rightarrow> int \<Rightarrow> nat \<Rightarrow> CWWTPRadioInfoValues list \<Rightarrow> nat option res" where
  "find_radio radioID garbage i [] = (if int i < garbage then Fault else Ret None)"
| "find_radio radioID garbage i (r # rs) =
     (if \<not> int i < garbage then Ret None
      else if radio_radioID r = radioID then Ret (Some i)
      else find_radio radioID garbage (Suc i) rs)"

abbreviation oper_info :: "CWWTPRadioInfoValues \<Rightarrow> CWRadioOperationalInfoValues" where
  "oper_info r \<equiv> \<lparr> oper_ID = radio_radioID r, oper_state = radio_operationalState r,
                   oper_cause = radio_operationalCause r \<rparr>"

definition CWGetWTPRadiosOperationalState_AC ::
  "memory \<Rightarrow> CWWTPRadioInfoValues list \<Rightarrow> int \<Rightarrow> int \<Rightarrow> CWRadioOperationalInfoValues list res" where
  "CWGetWTPRadiosOperationalState_AC mem radios radioID garbage =
     (if radioID < 0 then
        if malloc_ok mem (12 * int (length radios)) then Ret (map oper_info radios)
        else Raise CW_ERROR_OUT_OF_MEMORY
      else res_bind (find_radio radioID garbage 0 radios) (\<lambda>f.
        case f of None \<Rightarrow> Raise CW_ERROR_NONE
        | Some i \<Rightarrow>
            if \<not> malloc_ok mem 12 then Raise CW_ERROR_OUT_OF_MEMORY
            else if i = 0 then Ret [oper_info (radios ! i)] else Fault))"

subsection \<open>Assembly: AC information\<close>

definition CWAssembleMsgElemACWTPRadioInformation ::
  "memory \<Rightarrow> int \<Rightarrow> byte \<Rightarrow> CWProtocolMessage res" where
  "CWAssembleMsgElemACWTPRadioInformation mem radioID phyStandardValue =
     assemble_elem mem 5
       [i8 radioID, Store8 0, Store8 0, Store8 0, Store8 phyStandardValue] 1048"

definition CWAssembleMsgElemECNSupport_AC :: "memory \<Rightarrow> ac_globals \<Rightarrow> CWProtocolMessage res" where
  "CWAssembleMsgElemECNSupport_AC mem ac = assemble_elem mem 1 [i8 (gACECNSupport ac)] 53"

definition CWAssembleMsgElemCWLocalIPv4Addresses ::
  "memory \<Rightarrow> ac_globals \<Rightarrow> CWProtocolMessage res" where
  "CWAssembleMsgElemCWLocalIPv4Addresses mem ac =
     (if gInterfaces ac = [] then Raise CW_ERROR_NEED_RESOURCE
      else assemble_elem mem 4 [Store32 (CWACGetInterfaceIPv4AddressAtIndex ac 0)] 30)"

text \<open>A value of four bytes is converted to network order in its block before it is stored.\<close>

definition ac_vendor_calls :: "bool \<Rightarrow> VendorInfoValues \<Rightarrow> store_call list" where
  "ac_vendor_calls le v =
     [i32 (vendorIdentifier v), i16 (info_type v), i16 (info_length v),
      StoreRaw (if info_length v = 4
                then int_bytes le (htonl le (int_of_bytes le (take 4 (valuePtr v))))
                else valuePtr v) (info_length v)]"

definition CWAssembleMsgElemACDescriptor ::
  "memory \<Rightarrow> bool \<Rightarrow> ac_globals \<Rightarrow> CWProtocolMessage res" where
  "CWAssembleMsgElemACDescriptor mem le ac =
     res_bind (CWACGetVendorInfos mem le ac) (\<lambda>infos.
     assemble_elem mem (sum_list (map (\<lambda>v. 8 + info_length v) infos) + 12)
       ([i16 (gActiveStations ac), i16 (gLimit ac), i16 (gActiveWTPs ac), i16 (gMaxWTPs ac),
         i8 (gACDescriptorSecurity ac), i8 (gRMACField ac), Store8 0, i8 (gDTLSPolicy ac)]
        @ concat (map (ac_vendor_calls le) infos)) 1)"

definition CWAssembleMsgElemACIPv4List :: "memory \<Rightarrow> bool \<Rightarrow> CWProtocolMessage res" where
  "CWAssembleMsgElemACIPv4List mem le =
     res_bind (CWACGetACIPv4List mem le) (\<lambda>l.
     assemble_elem mem (4 * int (length l)) (map Store32 l) 2)"

definition CWAssembleMsgElemACIPv6List :: "memory \<Rightarrow> CWProtocolMessage res" where
  "CWAssembleMsgElemACIPv6List mem =
     res_bind (CWACGetACIPv6List mem) (\<lambda>l.
     assemble_elem mem (16 * int (length l)) (map (\<lambda>a. StoreRaw a 16) l) 3)"

definition CWAssembleMsgElemACName_AC :: "memory \<Rightarrow> ac_globals \<Rightarrow> CWProtocolMessage res" where
  "CWAssembleMsgElemACName_AC mem ac =
     assemble_elem mem (int (length (gACName ac))) [StoreStr (gACName ac)] 4"

subsection \<open>Assembly: WLANs and stations\<close>

abbreviation WLAN_KEY_LEN :: int where "WLAN_KEY_LEN \<equiv> 4"
abbreviation WLAN_GROUP_TSC_LEN :: int where "WLAN_GROUP_TSC_LEN \<equiv> 6"
abbreviation WLAN_CAPABILITY_NUM_FIELDS :: nat where "WLAN_CAPABILITY_NUM_FIELDS \<equiv> 16"
abbreviation CW_MSG_IEEE_ADD_WLAN_MIN_LEN :: int where "CW_MSG_IEEE_ADD_WLAN_MIN_LEN \<equiv> 23"
abbreviation CW_MSG_IEEE_STATION_LEN :: int where "CW_MSG_IEEE_STATION_LEN \<equiv> 13"

definition CWAssembleMsgElemACAddWlan ::
  "memory \<Rightarrow> int \<Rightarrow> WTPInterfaceInfo \<Rightarrow> CWProtocolMessage res" where
  "CWAssembleMsgElemACAddWlan mem radioID w =
     assemble_elem mem (CW_MSG_IEEE_ADD_WLAN_MIN_LEN + int (length (SSID w)))
       [i8 radioID, i8 (wlanID w), Store16 (capabilityBit w), Store8 (keyIndex w),
        Store8 (keyStatus w), i16 WLAN_KEY_LEN, StoreRaw (key w) WLAN_KEY_LEN,
        StoreRaw (groupTSC w) WLAN_GROUP_TSC_LEN, Store8 (qos w), Store8 (authType w),
        Store8 (MACmode w), i8 (frameTunnelMode w), Store8 (suppressSSID w),
        StoreRaw (SSID w) (int (length (SSID w)))] 1024"

definition CWAssembleMsgElemACDelWlan :: "memory \<Rightarrow> int \<Rightarrow> int \<Rightarrow> CWProtocolMessage res" where
  "CWAssembleMsgElemACDelWlan mem radioID wlan =
     assemble_elem mem 2 [i8 radioID, i8 wlan] 1027"

definition CWAssembleMsgElemACUpdateWlan ::
  "memory \<Rightarrow> int \<Rightarrow> WTPInterfaceInfo \<Rightarrow> CWProtocolMessage res" where
  "CWAssembleMsgElemACUpdateWlan mem radioID w =
     assemble_elem mem 12
       ([i8 radioID, i8 (wlanID w)]
        @ map (\<lambda>i. Store8 (capability w ! i)) [0..<WLAN_CAPABILITY_NUM_FIELDS]
        @ [Store8 (keyIndex w), Store8 (keyStatus w), StoreRaw (key w) WLAN_KEY_LEN]) 1044"

definition CWAssembleMsgElemAddStation :: "memory \<Rightarrow> int \<Rightarrow> eth \<Rightarrow> CWProtocolMessage res" where
  "CWAssembleMsgElemAddStation mem radioID sta =
     assemble_elem mem 8 [i8 radioID, i8 6, StoreRaw (eth_bytes sta) 6] 8"

record CWFrameAssociationResponse =
  DA :: eth
  resp_capabilityBit :: "16 word"
  assID :: "16 word"
  supportedRatesLen :: int
  supportedRates :: "byte list"

definition CWAssembleMsgElem80211Station ::
  "memory \<Rightarrow> int \<Rightarrow> int \<Rightarrow> CWFrameAssociationResponse \<Rightarrow> CWProtocolMessage res" where
  "CWAssembleMsgElem80211Station mem radioID wlan r =
     assemble_elem mem (CW_MSG_IEEE_STATION_LEN + supportedRatesLen r)
       [i8 radioID, Store16 (assID r - 49152), Store8 0, StoreRaw (eth_bytes (DA r)) 6,
        Store16 (resp_capabilityBit r), i8 wlan,
        StoreRaw (supportedRates r) (supportedRatesLen r)] 1036"

definition CWAssembleMsgElemDeleteStation :: "memory \<Rightarrow> int \<Rightarrow> eth \<Rightarrow> CWProtocolMessage res" where
  "CWAssembleMsgElemDeleteStation mem radioID sta =
     assemble_elem mem 8 [i8 radioID, i8 6, StoreRaw (eth_bytes sta) 6] 18"

subsection \<open>Assembly: control addresses, timers and radio states\<close>

text \<open>
  One element per interface. The block for all is created when the first element is there, for
  the first element's size times the number of interfaces; the result of the framing is not looked
  at, so without memory for the framing the unframed element is copied.
\<close>

fun control_addresses ::
  "memory \<Rightarrow> nat \<Rightarrow> (nat \<Rightarrow> CWProtocolMessage res) \<Rightarrow> nat list \<Rightarrow> CWProtocolMessage option \<Rightarrow>
   CWProtocolMessage option res" where
  "control_addresses mem count f [] m = Ret m"
| "control_addresses mem count f (i # is) m =
     res_bind (f i) (\<lambda>temp.
     res_bind (if i = 0
               then CW_CREATE_PROTOCOL_MESSAGE mem (int (offset temp) * int count)
               else (case m of None \<Rightarrow> Fault | Some m \<Rightarrow> Ret m)) (\<lambda>m.
     res_bind (CWProtocolStoreMessage m temp) (\<lambda>m.
     control_addresses mem count f is (Some m))))"

definition CWAssembleMsgElemCWControlIPv4Addresses ::
  "memory \<Rightarrow> ac_globals \<Rightarrow> CWProtocolMessage option res" where
  "CWAssembleMsgElemCWControlIPv4Addresses mem ac =
     (let count = length (gInterfaces ac) in
      if count = 0 then Raise CW_ERROR_NEED_RESOURCE
      else control_addresses mem count
        (\<lambda>i. assemble_unchecked mem 6
               [Store32 (CWACGetInterfaceIPv4AddressAtIndex ac i),
                i16 (CWACGetInterfaceWTPCountAtIndex ac i)] 10) [0..<count] None)"

text \<open>Without an interface the IPv6 variant succeeds and leaves the message as it was.\<close>

definition CWAssembleMsgElemCWControlIPv6Addresses ::
  "memory \<Rightarrow> ac_globals \<Rightarrow> CWProtocolMessage option res" where
  "CWAssembleMsgElemCWControlIPv6Addresses mem ac =
     (let count = length (gInterfaces ac) in
      control_addresses mem count
        (\<lambda>i. assemble_unchecked mem 18
               [StoreRaw (CWACGetInterfaceIPv6AddressAtIndex ac i) 16,
                i16 (CWACGetInterfaceWTPCountAtIndex ac i)] 11) [0..<count] None)"

definition CWAssembleMsgElemCWTimer :: "memory \<Rightarrow> ac_globals \<Rightarrow> CWProtocolMessage res" where
  "CWAssembleMsgElemCWTimer mem ac =
     assemble_elem mem 2 [i8 (gDiscoveryTimer ac), i8 (gEchoRequestTimer ac)] 12"

definition CWAssembleMsgElemDecryptErrorReportPeriod ::
  "memory \<Rightarrow> CWRadioAdminInfoValues list \<Rightarrow> CWProtocolMessage res" where
  "CWAssembleMsgElemDecryptErrorReportPeriod mem radios =
     assemble_each mem (\<lambda>r. assemble_elem mem 3 [i8 (admin_ID r), i16 15] 16) radios"

definition CWAssembleMsgElemIdleTimeout :: "memory \<Rightarrow> ac_globals \<Rightarrow> CWProtocolMessage res" where
  "CWAssembleMsgElemIdleTimeout mem ac = assemble_elem mem 4 [i32 (gIdleTimeout ac)] 23"

definition CWAssembleMsgElemWTPFallback :: "memory \<Rightarrow> CWProtocolMessage res" where
  "CWAssembleMsgElemWTPFallback mem = assemble_elem mem 1 [Store8 0] 40"

definition CWAssembleMsgElemRadioOperationalState_AC ::
  "memory \<Rightarrow> CWWTPRadioInfoValues list \<Rightarrow> int \<Rightarrow> int \<Rightarrow> CWProtocolMessage res" where
  "CWAssembleMsgElemRadioOperationalState_AC mem radios radioID garbage =
     res_bind (CWGetWTPRadiosOperationalState_AC mem radios radioID garbage) (\<lambda>infos.
     assemble_each mem
       (\<lambda>r. assemble_elem mem 3 [i8 (oper_ID r), i8 (oper_state r), i8 (oper_cause r)] 32) infos)"

subsection \<open>Parsing: WTP information\<close>

definition CWParseACNameWithIndex ::
  "memory \<Rightarrow> CWProtocolMessage \<Rightarrow> int \<Rightarrow> ((int \<times> byte list option) \<times> CWProtocolMessage) res" where
  "CWParseACNameWithIndex mem m len = CWParseMessageElement (\<lambda>m.
     res_bind (CWProtocolRetrieve8 m) (\<lambda>(i, m).
     res_bind (CWProtocolRetrieveStr mem m (len - 1)) (\<lambda>(s, m). Ret ((uint i, s), m)))) m len"

definition CWParseDiscoveryType ::
  "CWProtocolMessage \<Rightarrow> int \<Rightarrow> (int \<times> CWProtocolMessage) res" where
  "CWParseDiscoveryType = CWParseMessageElement (\<lambda>m.
     res_bind (CWProtocolRetrieve8 m) (\<lambda>(t, m). Ret (uint t, m)))"

definition CWParseLocationData ::
  "memory \<Rightarrow> CWProtocolMessage \<Rightarrow> int \<Rightarrow> (byte list option \<times> CWProtocolMessage) res" where
  "CWParseLocationData mem m len =
     CWParseMessageElement (\<lambda>m. CWProtocolRetrieveStr mem m len) m len"

record WTPDuplicateIPv4 =
  ipv4Address :: "32 word"
  status4 :: int
  length4 :: int
  MACoffendingDevice_forIpv4 :: "byte list option"

definition CWParseMsgElemDuplicateIPv4Address ::
  "memory \<Rightarrow> CWProtocolMessage \<Rightarrow> int \<Rightarrow> (WTPDuplicateIPv4 \<times> CWProtocolMessage) res" where
  "CWParseMsgElemDuplicateIPv4Address mem = CWParseMessageElement (\<lambda>m.
     res_bind (CWProtocolRetrieve32 m) (\<lambda>(a, m).
     res_bind (CWProtocolRetrieve8 m) (\<lambda>(s, m).
     res_bind (CWProtocolRetrieve8 m) (\<lambda>(l, m).
     res_bind (CWProtocolRetrieveRawBytes mem m (uint l)) (\<lambda>(b, m).
     Ret (\<lparr> ipv4Address = a, status4 = uint s, length4 = uint l,
            MACoffendingDevice_forIpv4 = b \<rparr>, m))))))"

record WTPDuplicateIPv6 =
  ipv6Address :: "byte list"
  status6 :: int
  length6 :: int
  MACoffendingDevice_forIpv6 :: "byte list option"

text \<open>The address byte by byte, each in a block of its own whose pointer is followed.\<close>

fun retrieve_bytes ::
  "memory \<Rightarrow> nat \<Rightarrow> CWProtocolMessage \<Rightarrow> (byte list \<times> CWProtocolMessage) res" where
  "retrieve_bytes mem 0 m = Ret ([], m)"
| "retrieve_bytes mem (Suc n) m =
     res_bind (retrieve_copy mem m 1 1) (\<lambda>(b, m).
     res_bind (retrieve_bytes mem n m) (\<lambda>(bs, m). Ret (b @ bs, m)))"

definition CWParseMsgElemDuplicateIPv6Address ::
  "memory \<Rightarrow> CWProtocolMessage \<Rightarrow> int \<Rightarrow> (WTPDuplicateIPv6 \<times> CWProtocolMessage) res" where
  "CWParseMsgElemDuplicateIPv6Address mem = CWParseMessageElement (\<lambda>m.
     res_bind (retrieve_bytes mem 16 m) (\<lambda>(a, m).
     res_bind (CWProtocolRetrieve8 m) (\<lambda>(s, m).
     res_bind (CWProtocolRetrieve8 m) (\<lambda>(l, m).
     res_bind (CWProtocolRetrieveRawBytes mem m (uint l)) (\<lambda>(b, m).
     Ret (\<lparr> ipv6Address = a, status6 = uint s, length6 = uint l,
            MACoffendingDevice_forIpv6 = b \<rparr>, m))))))"

definition CWParseWTPStatisticsTimer ::
  "CWProtocolMessage \<Rightarrow> int \<Rightarrow> (int \<times> CWProtocolMessage) res" where
  "CWParseWTPStatisticsTimer = CWParseMessageElement (\<lambda>m.
     res_bind (CWProtocolRetrieve16 m) (\<lambda>(t, m). Ret (uint t, m)))"

definition CWParseWTPECNSupport ::
  "CWProtocolMessage \<Rightarrow> int \<Rightarrow> (int \<times> CWProtocolMessage) res" where
  "CWParseWTPECNSupport = CWParseMessageElement (\<lambda>m.
     res_bind (CWProtocolRetrieve8 m) (\<lambda>(t, m). Ret (uint t, m)))"

subsection \<open>Parsing: vendor informations\<close>

text \<open>
  A board information of four bytes: the first byte, sign extended to an \<^verbatim>\<open>int\<close>, is swapped and
  written over all four. A version of the WTP descriptor: the first byte is swapped as an
  \<^verbatim>\<open>int\<close>, and the low byte of the result replaces it.
\<close>

definition board_conv :: "bool \<Rightarrow> byte list \<Rightarrow> byte list" where
  "board_conv le bs = int_bytes le (htonl le (scast (hd bs)))"

definition char_conv :: "bool \<Rightarrow> byte list \<Rightarrow> byte list" where
  "char_conv le bs = ucast (htonl le (scast (hd bs))) # tl bs"

definition CWParseWTPBoardData ::
  "memory \<Rightarrow> bool \<Rightarrow> CWProtocolMessage \<Rightarrow> int \<Rightarrow> (VendorInfoValues list \<times> CWProtocolMessage) res" where
  "CWParseWTPBoardData mem le m0 len = CWParseMessageElement (\<lambda>m.
     res_bind (CWProtocolRetrieve32 m) (\<lambda>(vendorID, m).
     parse_vendor_infos mem (Some (sint vendorID)) (board_conv le) (offset m0) len m)) m0 len"

definition CWParseMsgElemDataTransferData ::
  "memory \<Rightarrow> CWProtocolMessage \<Rightarrow> int \<Rightarrow> ((int \<times> int \<times> byte list option) \<times> CWProtocolMessage) res" where
  "CWParseMsgElemDataTransferData mem = CWParseMessageElement (\<lambda>m.
     res_bind (CWProtocolRetrieve8 m) (\<lambda>(d, m).
     res_bind (CWProtocolRetrieve8 m) (\<lambda>(l, m).
     res_bind (CWProtocolRetrieveStr mem m (uint l)) (\<lambda>(s, m).
     Ret ((uint d, uint l, s), m)))))"

record CWWTPDescriptor =
  maxRadios :: int
  radiosInUse :: int
  encCapabilities :: "int option"
  vendorInfos :: "VendorInfoValues list"

text \<open>The encryption capabilities of the IEEE 802.11 binding, the last ones found; other bindings'
  entries are not skipped beyond their identifier.\<close>

fun enc_loop ::
  "nat \<Rightarrow> int option \<Rightarrow> CWProtocolMessage \<Rightarrow> (int option \<times> CWProtocolMessage) res" where
  "enc_loop 0 e m = Ret (e, m)"
| "enc_loop (Suc n) e m =
     res_bind (CWProtocolRetrieve8 m) (\<lambda>(b, m).
     if b = 1 then res_bind (CWProtocolRetrieve16 m) (\<lambda>(c, m). enc_loop n (Some (uint c)) m)
     else enc_loop n e m)"

text \<open>\<open>enc\<close>: what the caller's structure holds before.\<close>

definition CWParseWTPDescriptor ::
  "memory \<Rightarrow> bool \<Rightarrow> int option \<Rightarrow> CWProtocolMessage \<Rightarrow> int \<Rightarrow> (CWWTPDescriptor \<times> CWProtocolMessage) res" where
  "CWParseWTPDescriptor mem le enc m0 len = CWParseMessageElement (\<lambda>m.
     res_bind (CWProtocolRetrieve8 m) (\<lambda>(mr, m).
     res_bind (CWProtocolRetrieve8 m) (\<lambda>(ru, m).
     res_bind (CWProtocolRetrieve8 m) (\<lambda>(countenc, m).
     res_bind (enc_loop (unat countenc) enc m) (\<lambda>(e, m).
     res_bind (parse_vendor_infos mem None (char_conv le) (offset m0) len m) (\<lambda>(vs, m).
     Ret (\<lparr> maxRadios = uint mr, radiosInUse = uint ru, encCapabilities = e, vendorInfos = vs \<rparr>,
          m))))))) m0 len"

definition CWParseWTPFrameTunnelMode ::
  "CWProtocolMessage \<Rightarrow> int \<Rightarrow> (int \<times> CWProtocolMessage) res" where
  "CWParseWTPFrameTunnelMode = CWParseMessageElement (\<lambda>m.
     res_bind (CWProtocolRetrieve8 m) (\<lambda>(t, m). Ret (uint t, m)))"

text \<open>The bytes of \<^verbatim>\<open>sin_addr\<close>; family and port are constants.\<close>

definition CWParseWTPIPv4Address ::
  "bool \<Rightarrow> CWProtocolMessage \<Rightarrow> int \<Rightarrow> (byte list \<times> CWProtocolMessage) res" where
  "CWParseWTPIPv4Address le = CWParseMessageElement (\<lambda>m.
     res_bind (CWProtocolRetrieve32 m) (\<lambda>(a, m). Ret (int_bytes le (htonl le a), m)))"

definition CWParseWTPMACType ::
  "CWProtocolMessage \<Rightarrow> int \<Rightarrow> (int \<times> CWProtocolMessage) res" where
  "CWParseWTPMACType = CWParseMessageElement (\<lambda>m.
     res_bind (CWProtocolRetrieve8 m) (\<lambda>(t, m). Ret (uint t, m)))"

subsection \<open>Parsing: radios and statistics\<close>

definition CWParseWTPRadioInformation ::
  "CWProtocolMessage \<Rightarrow> int \<Rightarrow> ((int \<times> byte) \<times> CWProtocolMessage) res" where
  "CWParseWTPRadioInformation = CWParseMessageElement (\<lambda>m.
     res_bind (CWProtocolRetrieve8 m) (\<lambda>(r, m).
     res_bind (CWProtocolRetrieve8 m) (\<lambda>(_, m).
     res_bind (CWProtocolRetrieve8 m) (\<lambda>(_, m).
     res_bind (CWProtocolRetrieve8 m) (\<lambda>(_, m).
     res_bind (CWProtocolRetrieve8 m) (\<lambda>(v, m). Ret ((uint r, v), m)))))))"

abbreviation CW_80211_MAX_SUPP_RATES :: nat where "CW_80211_MAX_SUPP_RATES \<equiv> 8"

fun rates_loop ::
  "nat \<Rightarrow> nat \<Rightarrow> int \<Rightarrow> CWProtocolMessage \<Rightarrow> (byte list \<times> CWProtocolMessage) res" where
  "rates_loop 0 old len m = Ret ([], m)"
| "rates_loop (Suc n) old len m =
     res_bind (CWProtocolRetrieve8 m) (\<lambda>(r, m).
     if int (offset m) - int old = len then Ret ([r], m)
     else res_bind (rates_loop n old len m) (\<lambda>(rs, m). Ret (r # rs, m)))"

definition CWParseWTPSupportedRates ::
  "CWProtocolMessage \<Rightarrow> int \<Rightarrow> ((int \<times> byte list) \<times> CWProtocolMessage) res" where
  "CWParseWTPSupportedRates m0 len = CWParseMessageElement (\<lambda>m.
     res_bind (CWProtocolRetrieve8 m) (\<lambda>(r, m).
     res_bind (rates_loop CW_80211_MAX_SUPP_RATES (offset m0) len m) (\<lambda>(rs, m).
     Ret ((uint r, rs), m)))) m0 len"

record PhyFrequencyInfo =
  freq_radioID :: int
  firstChannel :: int
  totChannels :: int
  maxTxPower :: int

definition CWParseWTPMultiDomainCapability ::
  "CWProtocolMessage \<Rightarrow> int \<Rightarrow> (PhyFrequencyInfo \<times> CWProtocolMessage) res" where
  "CWParseWTPMultiDomainCapability = CWParseMessageElement (\<lambda>m.
     res_bind (CWProtocolRetrieve8 m) (\<lambda>(r, m).
     res_bind (CWProtocolRetrieve8 m) (\<lambda>(_, m).
     res_bind (CWProtocolRetrieve16 m) (\<lambda>(f, m).
     res_bind (CWProtocolRetrieve16 m) (\<lambda>(t, m).
     res_bind (CWProtocolRetrieve16 m) (\<lambda>(p, m).
     Ret (\<lparr> freq_radioID = uint r, firstChannel = uint f, totChannels = uint t,
            maxTxPower = uint p \<rparr>, m)))))))"

definition CWParseWTPName ::
  "memory \<Rightarrow> CWProtocolMessage \<Rightarrow> int \<Rightarrow> (byte list option \<times> CWProtocolMessage) res" where
  "CWParseWTPName mem m len = CWParseMessageElement (\<lambda>m. CWProtocolRetrieveStr mem m len) m len"

definition CWParseWTPRebootStatistics ::
  "CWProtocolMessage \<Rightarrow> int \<Rightarrow> (WTPRebootStatisticsInfo \<times> CWProtocolMessage) res" where
  "CWParseWTPRebootStatistics = CWParseMessageElement (\<lambda>m.
     res_bind (CWProtocolRetrieve16 m) (\<lambda>(r, m).
     res_bind (CWProtocolRetrieve16 m) (\<lambda>(a, m).
     res_bind (CWProtocolRetrieve16 m) (\<lambda>(l, m).
     res_bind (CWProtocolRetrieve16 m) (\<lambda>(s, m).
     res_bind (CWProtocolRetrieve16 m) (\<lambda>(h, m).
     res_bind (CWProtocolRetrieve16 m) (\<lambda>(ot, m).
     res_bind (CWProtocolRetrieve16 m) (\<lambda>(u, m).
     res_bind (CWProtocolRetrieve8 m) (\<lambda>(t, m).
     Ret (\<lparr> reboot_Count = uint r, reboot_ACInitiatedCount = uint a,
            reboot_linkFailurerCount = uint l, reboot_SWFailureCount = uint s,
            reboot_HWFailuireCount = uint h, reboot_otherFailureCount = uint ot,
            reboot_unknownFailureCount = uint u, reboot_lastFailureType = uint t \<rparr>,
          m))))))))))"

text \<open>Six bytes are copied from a block of the length found in the element.\<close>

definition CWParseWTPDeleteStation ::
  "memory \<Rightarrow> CWProtocolMessage \<Rightarrow> int \<Rightarrow> (CWMsgElemDataDeleteStation \<times> CWProtocolMessage) res" where
  "CWParseWTPDeleteStation mem = CWParseMessageElement (\<lambda>m.
     res_bind (CWProtocolRetrieve8 m) (\<lambda>(r, m).
     res_bind (CWProtocolRetrieve8 m) (\<lambda>(l, m).
     res_bind (retrieve_copy mem m (uint l) 6) (\<lambda>(a, m).
     Ret (\<lparr> del_radioID = uint r, del_staAddr = a \<rparr>, m)))))"

text \<open>The counters are \<^verbatim>\<open>short\<close>s, so a value of 32768 or more becomes negative.\<close>

definition CWParseWTPRadioStatistics ::
  "CWProtocolMessage \<Rightarrow> int \<Rightarrow> ((int \<times> WTPRadioStatisticsInfo) \<times> CWProtocolMessage) res" where
  "CWParseWTPRadioStatistics = CWParseMessageElement (\<lambda>m.
     res_bind (CWProtocolRetrieve8 m) (\<lambda>(r, m).
     res_bind (CWProtocolRetrieve8 m) (\<lambda>(t, m).
     res_bind (CWProtocolRetrieve16 m) (\<lambda>(c1, m).
     res_bind (CWProtocolRetrieve16 m) (\<lambda>(c2, m).
     res_bind (CWProtocolRetrieve16 m) (\<lambda>(c3, m).
     res_bind (CWProtocolRetrieve16 m) (\<lambda>(c4, m).
     res_bind (CWProtocolRetrieve16 m) (\<lambda>(c5, m).
     res_bind (CWProtocolRetrieve16 m) (\<lambda>(c6, m).
     res_bind (CWProtocolRetrieve16 m) (\<lambda>(c7, m).
     res_bind (CWProtocolRetrieve16 m) (\<lambda>(c8, m).
     res_bind (CWProtocolRetrieve16 m) (\<lambda>(c9, m).
     Ret ((uint r, \<lparr> lastFailureType = uint t, resetCount = sint c1, SWFailureCount = sint c2,
            HWFailuireCount = sint c3, otherFailureCount = sint c4, unknownFailureCount = sint c5,
            configUpdateCount = sint c6, channelChangeCount = sint c7, bandChangeCount = sint c8,
            currentNoiseFloor = sint c9 \<rparr>), m)))))))))))))"

record WTPOperationalStatisticsValues =
  opstat_radioID :: int
  opstat_TxQueueLevel :: int
  opstat_wirelessLinkFramesPerSec :: int

definition CWParseWTPOperationalStatistics ::
  "CWProtocolMessage \<Rightarrow> int \<Rightarrow> (WTPOperationalStatisticsValues \<times> CWProtocolMessage) res" where
  "CWParseWTPOperationalStatistics = CWParseMessageElement (\<lambda>m.
     res_bind (CWProtocolRetrieve8 m) (\<lambda>(r, m).
     res_bind (CWProtocolRetrieve8 m) (\<lambda>(q, m).
     res_bind (CWProtocolRetrieve16 m) (\<lambda>(f, m).
     Ret (\<lparr> opstat_radioID = uint r, opstat_TxQueueLevel = uint q,
            opstat_wirelessLinkFramesPerSec = uint f \<rparr>, m)))))"

definition CWParseMsgElemDecryptErrorReport ::
  "memory \<Rightarrow> CWProtocolMessage \<Rightarrow> int \<Rightarrow> (CWDecryptErrorReportValues \<times> CWProtocolMessage) res" where
  "CWParseMsgElemDecryptErrorReport mem = CWParseMessageElement (\<lambda>m.
     res_bind (CWProtocolRetrieve8 m) (\<lambda>(i, m).
     res_bind (CWProtocolRetrieve8 m) (\<lambda>(n, m).
     res_bind (CWProtocolRetrieve8 m) (\<lambda>(l, m).
     res_bind (if n = 0 then Ret (None, m)
               else if \<not> malloc_ok mem (6 * uint n) then Raise CW_ERROR_OUT_OF_MEMORY
               else res_bind (retrieve_copy mem m (6 * uint n) (6 * uint n)) (\<lambda>(a, m).
                    Ret (Some a, m))) (\<lambda>(a, m).
     Ret (\<lparr> decrypt_ID = uint i, numEntries = n, decrypt_length = l,
            decryptErrorMACAddressList = a \<rparr>, m))))))"

definition CWParseACAssignedWTPBSSID ::
  "memory \<Rightarrow> CWProtocolMessage \<Rightarrow> int \<Rightarrow> ((int \<times> int \<times> byte list) \<times> CWProtocolMessage) res" where
  "CWParseACAssignedWTPBSSID mem = CWParseMessageElement (\<lambda>m.
     res_bind (CWProtocolRetrieve8 m) (\<lambda>(r, m).
     res_bind (CWProtocolRetrieve8 m) (\<lambda>(w, m).
     res_bind (retrieve_copy mem m 6 6) (\<lambda>(a, m).
     Ret ((uint r, uint w, a), m)))))"

end
