(* ===== verification/WTPElements.thy ===== *)
theory WTPElements
  imports Elements
begin

section \<open>WTPProtocol.c: the message elements of the WTP\<close>

text \<open>
  Every element the WTP assembles and every element it parses. The global variables of the WTP
  that the elements carry are the record \<open>wtp_globals\<close>; the addresses of its socket are fields of
  it too. Functions that AC and WTP both define under one name have the suffix \<open>_WTP\<close> here.
\<close>

subsection \<open>The WTP's data\<close>

record wtp_globals =
  gWTPName :: "byte list"
  gWTPLocation :: "byte list"
  gACInfo_name :: "byte list"
  gWTPStatisticsTimer :: int
  gWTPECNSupport :: int
  gIPv4StatusDuplicate :: int
  gIPv6StatusDuplicate :: int
  socket_IPv4 :: "byte list"
  socket_IPv6 :: "byte list"
  gRadiosInfo :: "CWWTPRadioInfoValues list"
  gWTPRebootStatistics :: WTPRebootStatisticsInfo

text \<open>The socket's address, read in network order, as a host integer.\<close>

definition CWWTPGetIPv4Address :: "wtp_globals \<Rightarrow> 32 word" where
  "CWWTPGetIPv4Address w = of_be32 (socket_IPv4 w)"

text \<open>
  The blocks of the vendor informations have the size of a \<^verbatim>\<open>long\<close>, eight bytes, and an
  \<^verbatim>\<open>int\<close> is written at their start: the last four bytes are whatever \<^verbatim>\<open>malloc\<close> left there, the
  argument \<open>junk\<close> for the \<open>i\<close>-th block.
\<close>

definition vendor_block :: "bool \<Rightarrow> (nat \<Rightarrow> byte list) \<Rightarrow> nat \<Rightarrow> int \<Rightarrow> 32 word \<Rightarrow> VendorInfoValues" where
  "vendor_block le junk i t v =
     \<lparr> vendorIdentifier = 23456, info_type = t, info_length = 8,
       valuePtr = int_bytes le v @ junk i \<rparr>"

definition CWWTPGetBoardData ::
  "memory \<Rightarrow> bool \<Rightarrow> (nat \<Rightarrow> byte list) \<Rightarrow> VendorInfoValues list res" where
  "CWWTPGetBoardData mem le junk =
     (if malloc_ok mem (vendor_info_size * 2) \<and> malloc_ok mem 8
      then Ret [vendor_block le junk 0 0 123456, vendor_block le junk 1 1 123456]
      else Raise CW_ERROR_OUT_OF_MEMORY)"

definition CWWTPGetVendorInfos ::
  "memory \<Rightarrow> bool \<Rightarrow> (nat \<Rightarrow> byte list) \<Rightarrow> VendorInfoValues list res" where
  "CWWTPGetVendorInfos mem le junk =
     (if malloc_ok mem (vendor_info_size * 3) \<and> malloc_ok mem 8
      then Ret [vendor_block le junk 0 0 123456, vendor_block le junk 1 1 12347,
                vendor_block le junk 2 2 1234568]
      else Raise CW_ERROR_OUT_OF_MEMORY)"

abbreviation admin_info :: "CWWTPRadioInfoValues \<Rightarrow> CWRadioAdminInfoValues" where
  "admin_info r \<equiv> \<lparr> admin_ID = radio_radioID r, admin_state = radio_adminState r \<rparr>"

definition CWGetWTPRadiosAdminState_WTP ::
  "memory \<Rightarrow> wtp_globals \<Rightarrow> CWRadioAdminInfoValues list res" where
  "CWGetWTPRadiosAdminState_WTP mem w =
     (if malloc_ok mem (12 * int (length (gRadiosInfo w))) then Ret (map admin_info (gRadiosInfo w))
      else Raise CW_ERROR_OUT_OF_MEMORY)"

abbreviation wtp_oper_info :: "CWWTPRadioInfoValues \<Rightarrow> CWRadioOperationalInfoValues" where
  "wtp_oper_info r \<equiv> \<lparr> oper_ID = radio_radioID r, oper_state = radio_operationalState r,
                       oper_cause = radio_operationalCause r \<rparr>"

definition CWGetWTPRadiosOperationalState_WTP ::
  "memory \<Rightarrow> wtp_globals \<Rightarrow> int \<Rightarrow> CWRadioOperationalInfoValues list res" where
  "CWGetWTPRadiosOperationalState_WTP mem w radioID =
     (if radioID < 0 then
        if malloc_ok mem (12 * int (length (gRadiosInfo w)))
        then Ret (map wtp_oper_info (gRadiosInfo w))
        else Raise CW_ERROR_OUT_OF_MEMORY
      else case find (\<lambda>r. radio_radioID r = radioID) (gRadiosInfo w) of
             None \<Rightarrow> Raise CW_ERROR_NONE
           | Some r \<Rightarrow> if malloc_ok mem 12 then Ret [wtp_oper_info r] else Raise CW_ERROR_OUT_OF_MEMORY)"

text \<open>
  The decryption error report of one radio: the number of entries is cut to a byte, and that many
  addresses are copied from a list, whose end is not looked for. For one chosen radio the addresses
  are copied from the list of the first radio, and the loop goes on after a match.
\<close>

definition decrypt_report ::
  "memory \<Rightarrow> CWWTPRadioInfoValues \<Rightarrow> eth list \<Rightarrow> CWDecryptErrorReportValues res" where
  "decrypt_report mem r addrs =
     (let n = word_of_nat (length (radio_decryptErrorMACAddressList r)) :: byte in
      if \<not> malloc_ok mem (6 * uint n) then Raise CW_ERROR_OUT_OF_MEMORY
      else if length addrs < unat n then Fault
      else Ret \<lparr> decrypt_ID = radio_radioID r, numEntries = n, decrypt_length = 0,
                 decryptErrorMACAddressList = Some (concat (map eth_bytes (take (unat n) addrs))) \<rparr>)"

fun decrypt_find ::
  "memory \<Rightarrow> eth list \<Rightarrow> int \<Rightarrow> CWWTPRadioInfoValues list \<Rightarrow> CWDecryptErrorReportValues option \<Rightarrow>
   CWDecryptErrorReportValues option res" where
  "decrypt_find mem addrs radioID [] acc = Ret acc"
| "decrypt_find mem addrs radioID (r # rs) acc =
     (if radio_radioID r = radioID then
        if \<not> malloc_ok mem 16 then Raise CW_ERROR_OUT_OF_MEMORY
        else res_bind (decrypt_report mem r addrs) (\<lambda>d. decrypt_find mem addrs radioID rs (Some d))
      else decrypt_find mem addrs radioID rs acc)"

definition CWGetDecryptErrorReport ::
  "memory \<Rightarrow> wtp_globals \<Rightarrow> int \<Rightarrow> CWDecryptErrorReportValues list res" where
  "CWGetDecryptErrorReport mem w radioID =
     (let radios = gRadiosInfo w in
      if radioID < 0 then
        if \<not> malloc_ok mem (16 * int (length radios)) then Raise CW_ERROR_OUT_OF_MEMORY
        else res_map (\<lambda>r. decrypt_report mem r (radio_decryptErrorMACAddressList r)) radios
      else res_bind
        (decrypt_find mem (case radios of [] \<Rightarrow> [] | r # _ \<Rightarrow> radio_decryptErrorMACAddressList r)
           radioID radios None)
        (\<lambda>f. case f of None \<Rightarrow> Raise CW_ERROR_NONE | Some d \<Rightarrow> Ret [d]))"

definition bytes_of_string :: "string \<Rightarrow> byte list" where
  "bytes_of_string s = map of_char s"

definition CWWTPGetACNameWithIndex :: "memory \<Rightarrow> (int \<times> byte list) list res" where
  "CWWTPGetACNameWithIndex mem =
     (let p = bytes_of_string ''ACPrimary''; s = bytes_of_string ''ACSecondary'' in
      if malloc_ok mem (16 * 2) \<and> malloc_ok mem (int (length p) + 1) \<and>
         malloc_ok mem (int (length s) + 1)
      then Ret [(0, p), (1, s)] else Raise CW_ERROR_OUT_OF_MEMORY)"

subsection \<open>Assembly: the WTP's description\<close>

definition CWAssembleMsgElemACName_WTP :: "memory \<Rightarrow> wtp_globals \<Rightarrow> CWProtocolMessage res" where
  "CWAssembleMsgElemACName_WTP mem w =
     assemble_elem mem (int (length (gACInfo_name w))) [StoreStr (gACInfo_name w)] 4"

definition CWAssembleMsgElemACNameWithIndex :: "memory \<Rightarrow> CWProtocolMessage res" where
  "CWAssembleMsgElemACNameWithIndex mem =
     res_bind (CWWTPGetACNameWithIndex mem) (\<lambda>acs.
     assemble_each mem
       (\<lambda>(i, name). assemble_elem mem (1 + int (length name)) [i8 i, StoreStr name] 5) acs)"

definition CWAssembleMsgElemDataTransferData :: "memory \<Rightarrow> int \<Rightarrow> CWProtocolMessage res" where
  "CWAssembleMsgElemDataTransferData mem data_type =
     (let d = bytes_of_string '' #### DATA DEBUG INFO #### '' in
      assemble_elem mem (2 + int (length d)) [i8 data_type, i8 (int (length d)), StoreStr d] 13)"

definition CWAssembleMsgElemDiscoveryType :: "memory \<Rightarrow> CWProtocolMessage res" where
  "CWAssembleMsgElemDiscoveryType mem = assemble_elem mem 1 [Store8 1] 20"

definition CWAssembleMsgElemECNSupport_WTP :: "memory \<Rightarrow> wtp_globals \<Rightarrow> CWProtocolMessage res" where
  "CWAssembleMsgElemECNSupport_WTP mem w = assemble_elem mem 1 [i8 (gWTPECNSupport w)] 53"

definition CWAssembleMsgElemLocationData :: "memory \<Rightarrow> wtp_globals \<Rightarrow> CWProtocolMessage res" where
  "CWAssembleMsgElemLocationData mem w =
     assemble_elem mem (int (length (gWTPLocation w))) [StoreStr (gWTPLocation w)] 28"

definition CWAssembleMsgElemStatisticsTimer :: "memory \<Rightarrow> wtp_globals \<Rightarrow> CWProtocolMessage res" where
  "CWAssembleMsgElemStatisticsTimer mem w = assemble_elem mem 2 [i16 (gWTPStatisticsTimer w)] 36"

text \<open>In a block of four bytes the first byte is swapped as an \<^verbatim>\<open>int\<close>, as on the AC's side.\<close>

definition wtp_value :: "bool \<Rightarrow> VendorInfoValues \<Rightarrow> byte list" where
  "wtp_value le v =
     (if info_length v = 4
      then ucast (htonl le (scast (hd (valuePtr v)))) # tl (valuePtr v) else valuePtr v)"

definition CWAssembleMsgElemWTPBoardData ::
  "memory \<Rightarrow> bool \<Rightarrow> (nat \<Rightarrow> byte list) \<Rightarrow> CWProtocolMessage res" where
  "CWAssembleMsgElemWTPBoardData mem le junk =
     res_bind (CWWTPGetBoardData mem le junk) (\<lambda>infos.
     assemble_elem mem (4 + sum_list (map (\<lambda>v. 4 + info_length v) infos))
       (i32 (vendorIdentifier (infos ! 0)) #
        concat (map (\<lambda>v. [i16 (info_type v), i16 (info_length v),
                          StoreRaw (wtp_value le v) (info_length v)]) infos)) 38)"

definition CWAssembleMsgElemVendorSpecificPayload ::
  "memory \<Rightarrow> bool \<Rightarrow> (nat \<Rightarrow> byte list) \<Rightarrow> CWProtocolMessage res" where
  "CWAssembleMsgElemVendorSpecificPayload mem le junk =
     res_bind (CWWTPGetBoardData mem le junk) (\<lambda>infos.
     assemble_elem mem (4 + 2 + 2) [i32 (vendorIdentifier (infos ! 0)), Store16 0, Store16 0] 37)"

definition CWAssembleMsgElemWTPDescriptor ::
  "memory \<Rightarrow> bool \<Rightarrow> (nat \<Rightarrow> byte list) \<Rightarrow> wtp_globals \<Rightarrow> CWProtocolMessage res" where
  "CWAssembleMsgElemWTPDescriptor mem le junk w =
     res_bind (CWWTPGetVendorInfos mem le junk) (\<lambda>infos.
     assemble_elem mem (4 + sum_list (map (\<lambda>v. 4 + 4 + info_length v) infos) + 2)
       ([i8 (int (length (gRadiosInfo w))), i8 (int (length (gRadiosInfo w))),
         Store8 1, Store8 1, Store16 0] @
        concat (map (\<lambda>v. [i32 (vendorIdentifier v), i16 (info_type v), i16 (info_length v),
                          StoreRaw (wtp_value le v) (info_length v)]) infos)) 39)"

text \<open>The daemons are built with \<^verbatim>\<open>SPLIT_MAC\<close>: native bridging and split MAC.\<close>

definition CWAssembleMsgElemWTPFrameTunnelMode :: "memory \<Rightarrow> CWProtocolMessage res" where
  "CWAssembleMsgElemWTPFrameTunnelMode mem = assemble_elem mem 1 [Store8 8] 41"

definition CWAssembleMsgElemWTPIPv4Address :: "memory \<Rightarrow> wtp_globals \<Rightarrow> CWProtocolMessage res" where
  "CWAssembleMsgElemWTPIPv4Address mem w = assemble_elem mem 4 [Store32 (CWWTPGetIPv4Address w)] 30"

definition CWAssembleMsgElemWTPMACType :: "memory \<Rightarrow> CWProtocolMessage res" where
  "CWAssembleMsgElemWTPMACType mem = assemble_elem mem 1 [Store8 1] 44"

definition CWAssembleMsgElemWTPName :: "memory \<Rightarrow> wtp_globals \<Rightarrow> CWProtocolMessage res" where
  "CWAssembleMsgElemWTPName mem w =
     assemble_elem mem (int (length (gWTPName w))) [StoreStr (gWTPName w)] 45"

subsection \<open>Assembly: radios and WLANs\<close>

definition CWAssembleMsgElemWTPRadioInformation ::
  "memory \<Rightarrow> int \<Rightarrow> byte \<Rightarrow> CWProtocolMessage res" where
  "CWAssembleMsgElemWTPRadioInformation mem radioID radioType =
     assemble_elem mem 5 [i8 radioID, Store8 0, Store8 0, Store8 0, Store8 radioType] 1048"

definition CWAssembleMsgElemSupportedRates ::
  "memory \<Rightarrow> int \<Rightarrow> byte list \<Rightarrow> CWProtocolMessage res" where
  "CWAssembleMsgElemSupportedRates mem radioID suppRates =
     assemble_elem mem 9 (i8 radioID # map Store8 suppRates) 1040"

definition CWAssembleMsgElemMultiDomainCapability ::
  "memory \<Rightarrow> int \<Rightarrow> int \<Rightarrow> int \<Rightarrow> int \<Rightarrow> CWProtocolMessage res" where
  "CWAssembleMsgElemMultiDomainCapability mem radioID firstChannel numChannels maxTxPower =
     assemble_elem mem 8
       [i8 radioID, Store8 0, i16 firstChannel, i16 numChannels, i16 maxTxPower] 1032"

definition CWAssembleMsgElemMACOperation ::
  "memory \<Rightarrow> int \<Rightarrow> int \<Rightarrow> int \<Rightarrow> byte \<Rightarrow> byte \<Rightarrow> int \<Rightarrow> int \<Rightarrow> CWProtocolMessage res" where
  "CWAssembleMsgElemMACOperation mem radioID fragmentationTreshold rtsThreshold shortRetry longRetry
       txMSDU rxMSDU =
     assemble_elem mem 16
       [i8 radioID, Store8 0, i16 rtsThreshold, Store8 shortRetry, Store8 longRetry,
        i16 fragmentationTreshold, i32 txMSDU, i32 rxMSDU] 1030"

definition CWAssembleMsgElemAssignedWTPSSID ::
  "memory \<Rightarrow> int \<Rightarrow> int \<Rightarrow> eth \<Rightarrow> CWProtocolMessage res" where
  "CWAssembleMsgElemAssignedWTPSSID mem radioID wlan bssid =
     assemble_elem mem 8 [i8 radioID, i8 wlan, StoreRaw (eth_bytes bssid) 6] 1026"

definition CWAssembleMsgElemRadioAdminState :: "memory \<Rightarrow> wtp_globals \<Rightarrow> CWProtocolMessage res" where
  "CWAssembleMsgElemRadioAdminState mem w =
     res_bind (CWGetWTPRadiosAdminState_WTP mem w) (\<lambda>infos.
     assemble_each mem (\<lambda>r. assemble_elem mem 2 [i8 (admin_ID r), i8 (admin_state r)] 31) infos)"

definition CWAssembleMsgElemRadioOperationalState_WTP ::
  "memory \<Rightarrow> wtp_globals \<Rightarrow> int \<Rightarrow> CWProtocolMessage res" where
  "CWAssembleMsgElemRadioOperationalState_WTP mem w radioID =
     res_bind (CWGetWTPRadiosOperationalState_WTP mem w radioID) (\<lambda>infos.
     assemble_each mem
       (\<lambda>r. assemble_elem mem 3 [i8 (oper_ID r), i8 (oper_state r), i8 (oper_cause r)] 32) infos)"

subsection \<open>Assembly: statistics and events\<close>

definition CWAssembleMsgElemWTPOperationalStatistics ::
  "memory \<Rightarrow> wtp_globals \<Rightarrow> int \<Rightarrow> CWProtocolMessage res" where
  "CWAssembleMsgElemWTPOperationalStatistics mem w radio =
     (if radio < 0 \<or> radio \<ge> int (length (gRadiosInfo w)) then Raise CW_ERROR_WRONG_ARG
      else let r = gRadiosInfo w ! nat radio in
        assemble_unchecked mem 4
          [i8 radio, i8 (radio_TxQueueLevel r), i16 (radio_wirelessLinkFramesPerSec r)] 46)"

definition radio_statistics_calls :: "int \<Rightarrow> WTPRadioStatisticsInfo \<Rightarrow> store_call list" where
  "radio_statistics_calls radio s =
     [i8 radio, i8 (lastFailureType s), i16 (resetCount s), i16 (SWFailureCount s),
      i16 (HWFailuireCount s), i16 (otherFailureCount s), i16 (unknownFailureCount s),
      i16 (configUpdateCount s), i16 (channelChangeCount s), i16 (bandChangeCount s),
      i16 (currentNoiseFloor s)]"

text \<open>The guard lets the number of radios itself pass: a read past the array, if there is memory
  for the message.\<close>

definition CWAssembleMsgElemWTPRadioStatistics ::
  "memory \<Rightarrow> wtp_globals \<Rightarrow> int \<Rightarrow> CWProtocolMessage res" where
  "CWAssembleMsgElemWTPRadioStatistics mem w radio =
     (if radio < 0 \<or> radio > int (length (gRadiosInfo w)) then Raise CW_ERROR_WRONG_ARG
      else if \<not> malloc_ok mem 20 then Raise CW_ERROR_OUT_OF_MEMORY
      else if nat radio = length (gRadiosInfo w) then Fault
      else assemble_unchecked mem 20
             (radio_statistics_calls radio (radio_statistics (gRadiosInfo w ! nat radio))) 47)"

definition CWAssembleMsgElemWTPRebootStatistics ::
  "memory \<Rightarrow> wtp_globals \<Rightarrow> CWProtocolMessage res" where
  "CWAssembleMsgElemWTPRebootStatistics mem w =
     (let s = gWTPRebootStatistics w in
      assemble_elem mem 15
        [i16 (reboot_Count s), i16 (reboot_ACInitiatedCount s), i16 (reboot_linkFailurerCount s),
         i16 (reboot_SWFailureCount s), i16 (reboot_HWFailuireCount s),
         i16 (reboot_otherFailureCount s), i16 (reboot_unknownFailureCount s),
         i8 (reboot_lastFailureType s)] 48)"

definition CWAssembleMsgElemWTPDeleteStation ::
  "memory \<Rightarrow> CWMsgElemDataDeleteStation option \<Rightarrow> CWProtocolMessage res" where
  "CWAssembleMsgElemWTPDeleteStation mem info =
     (case info of None \<Rightarrow> Raise CW_ERROR_WRONG_ARG
      | Some d \<Rightarrow> assemble_elem mem (2 + 6) [i8 (del_radioID d), i8 6, StoreRaw (del_staAddr d) 6] 18)"

text \<open>The two elements on duplicate addresses, a test version, with a made-up MAC address in a
  block of its own.\<close>

definition duplicate_mac :: "byte list" where
  "duplicate_mac = [103, 204, 204, 190, 180, 0]"

definition assemble_duplicate ::
  "memory \<Rightarrow> int \<Rightarrow> store_call list \<Rightarrow> 32 word \<Rightarrow> CWProtocolMessage res" where
  "assemble_duplicate mem n cs type =
     res_bind (CW_CREATE_PROTOCOL_MESSAGE mem n) (\<lambda>m.
     res_bind (stores cs m) (\<lambda>m.
     if \<not> malloc_ok mem 6 then Raise CW_ERROR_OUT_OF_MEMORY
     else res_bind (stores [StoreRaw duplicate_mac 6] m) (\<lambda>m.
          CWAssembleMsgElem mem (Some m) type)))"

definition CWAssembleMsgElemDuplicateIPv4Address ::
  "memory \<Rightarrow> wtp_globals \<Rightarrow> CWProtocolMessage res" where
  "CWAssembleMsgElemDuplicateIPv4Address mem w =
     assemble_duplicate mem 11
       [Store32 (CWWTPGetIPv4Address w), i8 (gIPv4StatusDuplicate w), Store8 6] 21"

definition CWAssembleMsgElemDuplicateIPv6Address ::
  "memory \<Rightarrow> wtp_globals \<Rightarrow> CWProtocolMessage res" where
  "CWAssembleMsgElemDuplicateIPv6Address mem w =
     assemble_duplicate mem 23
       [StoreRaw (socket_IPv6 w) 16, i8 (gIPv6StatusDuplicate w), Store8 6] 22"

definition CWAssembleMsgElemDecryptErrorReport ::
  "memory \<Rightarrow> wtp_globals \<Rightarrow> int \<Rightarrow> CWProtocolMessage res" where
  "CWAssembleMsgElemDecryptErrorReport mem w radioID =
     res_bind (CWGetDecryptErrorReport mem w radioID) (\<lambda>infos.
     assemble_each mem
       (\<lambda>r. assemble_elem mem (2 + 6 * uint (numEntries r))
              [i8 (decrypt_ID r), Store8 (numEntries r), Store8 (6 * numEntries r),
               StoreRaw (the (decryptErrorMACAddressList r)) (6 * uint (numEntries r))] 15) infos)"

subsection \<open>Parsing: the AC's description\<close>

text \<open>No length check here.\<close>

definition CWParseWTPRadioInformation_FromAC ::
  "CWProtocolMessage \<Rightarrow> int \<Rightarrow> (byte \<times> CWProtocolMessage) res" where
  "CWParseWTPRadioInformation_FromAC m len =
     res_bind (CWProtocolRetrieve8 m) (\<lambda>(_, m).
     res_bind (CWProtocolRetrieve8 m) (\<lambda>(_, m).
     res_bind (CWProtocolRetrieve8 m) (\<lambda>(_, m).
     res_bind (CWProtocolRetrieve8 m) (\<lambda>(_, m).
     CWProtocolRetrieve8 m))))"

record CWACInfoValues =
  stations :: int
  limit :: int
  activeWTPs :: int
  maxWTPs :: int
  security :: int
  RMACField :: int
  DTLSPolicy :: int
  ac_vendorInfos :: "VendorInfoValues list"

text \<open>A value of four bytes is converted to the host's order in its block.\<close>

definition int_conv :: "bool \<Rightarrow> byte list \<Rightarrow> byte list" where
  "int_conv le bs = int_bytes le (htonl le (int_of_bytes le bs))"

definition CWParseACDescriptor ::
  "memory \<Rightarrow> bool \<Rightarrow> CWProtocolMessage \<Rightarrow> int \<Rightarrow> (CWACInfoValues \<times> CWProtocolMessage) res" where
  "CWParseACDescriptor mem le m0 len = CWParseMessageElement (\<lambda>m.
     res_bind (CWProtocolRetrieve16 m) (\<lambda>(s, m).
     res_bind (CWProtocolRetrieve16 m) (\<lambda>(l, m).
     res_bind (CWProtocolRetrieve16 m) (\<lambda>(a, m).
     res_bind (CWProtocolRetrieve16 m) (\<lambda>(w, m).
     res_bind (CWProtocolRetrieve8 m) (\<lambda>(sec, m).
     res_bind (CWProtocolRetrieve8 m) (\<lambda>(r, m).
     res_bind (CWProtocolRetrieve8 m) (\<lambda>(_, m).
     res_bind (CWProtocolRetrieve8 m) (\<lambda>(d, m).
     res_bind (parse_vendor_infos mem None (int_conv le) (offset m0) len m) (\<lambda>(vs, m).
     Ret (\<lparr> stations = uint s, limit = uint l, activeWTPs = uint a, maxWTPs = uint w,
            security = uint sec, RMACField = uint r, DTLSPolicy = uint d, ac_vendorInfos = vs \<rparr>,
          m))))))))))) m0 len"

fun retrieve_words :: "nat \<Rightarrow> CWProtocolMessage \<Rightarrow> (32 word list \<times> CWProtocolMessage) res" where
  "retrieve_words 0 m = Ret ([], m)"
| "retrieve_words (Suc n) m =
     res_bind (CWProtocolRetrieve32 m) (\<lambda>(w, m).
     res_bind (retrieve_words n m) (\<lambda>(ws, m). Ret (w # ws, m)))"

definition CWParseACIPv4List ::
  "memory \<Rightarrow> CWProtocolMessage \<Rightarrow> int \<Rightarrow> (32 word list \<times> CWProtocolMessage) res" where
  "CWParseACIPv4List mem m len = CWParseMessageElement (\<lambda>m.
     if len = 0 \<or> len mod 4 \<noteq> 0 then Raise CW_ERROR_INVALID_FORMAT
     else if \<not> malloc_ok mem (4 * (len div 4)) then Raise CW_ERROR_OUT_OF_MEMORY
     else retrieve_words (nat (len div 4)) m) m len"

fun retrieve_in6 ::
  "memory \<Rightarrow> nat \<Rightarrow> CWProtocolMessage \<Rightarrow> (byte list list \<times> CWProtocolMessage) res" where
  "retrieve_in6 mem 0 m = Ret ([], m)"
| "retrieve_in6 mem (Suc n) m =
     res_bind (retrieve_copy mem m 16 16) (\<lambda>(a, m).
     res_bind (retrieve_in6 mem n m) (\<lambda>(as, m). Ret (a # as, m)))"

definition CWParseACIPv6List ::
  "memory \<Rightarrow> CWProtocolMessage \<Rightarrow> int \<Rightarrow> (byte list list \<times> CWProtocolMessage) res" where
  "CWParseACIPv6List mem m len = CWParseMessageElement (\<lambda>m.
     if len = 0 \<or> len mod 16 \<noteq> 0 then Raise CW_ERROR_INVALID_FORMAT
     else if \<not> malloc_ok mem (16 * (len div 16)) then Raise CW_ERROR_OUT_OF_MEMORY
     else retrieve_in6 mem (nat (len div 16)) m) m len"

subsection \<open>Parsing: stations and WLANs\<close>

text \<open>The address is the block itself, of the length found in the element.\<close>

definition CWParseDeleteStation ::
  "memory \<Rightarrow> CWProtocolMessage \<Rightarrow> int \<Rightarrow> ((int \<times> byte list option) \<times> CWProtocolMessage) res" where
  "CWParseDeleteStation mem = CWParseMessageElement (\<lambda>m.
     res_bind (CWProtocolRetrieve8 m) (\<lambda>(r, m).
     res_bind (CWProtocolRetrieve8 m) (\<lambda>(l, m).
     res_bind (CWProtocolRetrieveRawBytes mem m (uint l)) (\<lambda>(a, m). Ret ((uint r, a), m)))))"

definition CWParseAddStation ::
  "memory \<Rightarrow> CWProtocolMessage \<Rightarrow> int \<Rightarrow> ((int \<times> byte list option) \<times> CWProtocolMessage) res" where
  "CWParseAddStation mem = CWParseMessageElement (\<lambda>m.
     res_bind (CWProtocolRetrieve8 m) (\<lambda>(r, m).
     res_bind (CWProtocolRetrieve8 m) (\<lambda>(l, m).
     res_bind (CWProtocolRetrieveRawBytes mem m (uint l)) (\<lambda>(a, m). Ret ((uint r, a), m)))))"

record station_values =
  sta_radioID :: int
  sta_assID :: "16 word"
  sta_flags :: byte
  sta_address :: "byte list option"
  sta_capability :: "16 word"
  sta_wlanID :: int
  sta_supportedRatesLen :: int
  sta_supportedRates :: "byte list"

text \<open>The array of the rates has one byte more, which stays zero.\<close>

definition CWParse80211Station ::
  "memory \<Rightarrow> CWProtocolMessage \<Rightarrow> int \<Rightarrow> (station_values \<times> CWProtocolMessage) res" where
  "CWParse80211Station mem m len = CWParseMessageElement (\<lambda>m.
     res_bind (CWProtocolRetrieve8 m) (\<lambda>(r, m).
     res_bind (CWProtocolRetrieve16 m) (\<lambda>(ass, m).
     res_bind (CWProtocolRetrieve8 m) (\<lambda>(f, m).
     res_bind (CWProtocolRetrieveRawBytes mem m 6) (\<lambda>(a, m).
     res_bind (CWProtocolRetrieve16 m) (\<lambda>(c, m).
     res_bind (CWProtocolRetrieve8 m) (\<lambda>(w, m).
     if \<not> malloc_ok mem (len - 13 + 1) then Raise CW_ERROR_OUT_OF_MEMORY
     else res_bind (retrieve_copy mem m (len - 13) (len - 13)) (\<lambda>(rs, m).
     Ret (\<lparr> sta_radioID = uint r, sta_assID = ass, sta_flags = f, sta_address = a,
            sta_capability = c, sta_wlanID = uint w, sta_supportedRatesLen = len - 13,
            sta_supportedRates = rs @ [0] \<rparr>, m)))))))))  m len"

text \<open>The field of the request holds an \<^verbatim>\<open>int\<close>, which no message element need have set; any other value is unknown.\<close>

datatype wlanOperationType = CW_OP_ADD_WLAN | CW_OP_DEL_WLAN | CW_OP_UPDATE_WLAN | CW_OP_UNKNOWN int

record ACInterfaceRequestInfo =
  req_operation :: wlanOperationType
  req_radioID :: int
  req_wlanID :: int
  req_capabilityBit :: "16 word"
  req_keyIndex :: byte
  req_keyStatus :: byte
  req_keyLength :: "16 word"
  req_key :: "byte list"
  req_groupTSC :: "byte list"
  req_qos :: byte
  req_authType :: byte
  req_MACmode :: byte
  req_tunnelMode :: byte
  req_suppressSSID :: byte
  req_SSID :: "byte list"

text \<open>The functions fill in a structure of the caller, \<open>v\<close>. The SSID is a string: the array has
  one byte more, a zero.\<close>

definition CWParseACAddWlan ::
  "memory \<Rightarrow> ACInterfaceRequestInfo \<Rightarrow> CWProtocolMessage \<Rightarrow> int \<Rightarrow>
   (ACInterfaceRequestInfo \<times> CWProtocolMessage) res" where
  "CWParseACAddWlan mem v m len = CWParseMessageElement (\<lambda>m.
     res_bind (CWProtocolRetrieve8 m) (\<lambda>(r, m).
     res_bind (CWProtocolRetrieve8 m) (\<lambda>(w, m).
     res_bind (CWProtocolRetrieve16 m) (\<lambda>(c, m).
     res_bind (CWProtocolRetrieve8 m) (\<lambda>(ki, m).
     res_bind (CWProtocolRetrieve8 m) (\<lambda>(ks, m).
     res_bind (CWProtocolRetrieve16 m) (\<lambda>(kl, m).
     res_bind (retrieve_copy mem m 4 4) (\<lambda>(k, m).
     res_bind (retrieve_copy mem m 6 6) (\<lambda>(tsc, m).
     res_bind (CWProtocolRetrieve8 m) (\<lambda>(q, m).
     res_bind (CWProtocolRetrieve8 m) (\<lambda>(au, m).
     res_bind (CWProtocolRetrieve8 m) (\<lambda>(mm, m).
     res_bind (CWProtocolRetrieve8 m) (\<lambda>(tm, m).
     res_bind (CWProtocolRetrieve8 m) (\<lambda>(sup, m).
     if \<not> malloc_ok mem (len - 23 + 1) then Raise CW_ERROR_OUT_OF_MEMORY
     else res_bind (retrieve_copy mem m (len - 23) (len - 23)) (\<lambda>(ssid, m).
     Ret (v\<lparr> req_operation := CW_OP_ADD_WLAN, req_radioID := uint r, req_wlanID := uint w,
             req_capabilityBit := c, req_keyIndex := ki, req_keyStatus := ks, req_keyLength := kl,
             req_key := k, req_groupTSC := tsc, req_qos := q, req_authType := au,
             req_MACmode := mm, req_tunnelMode := tm, req_suppressSSID := sup,
             req_SSID := ssid @ [0] \<rparr>, m)))))))))))))))) m len"

definition CWParseACDelWlan ::
  "ACInterfaceRequestInfo \<Rightarrow> CWProtocolMessage \<Rightarrow> int \<Rightarrow>
   (ACInterfaceRequestInfo \<times> CWProtocolMessage) res" where
  "CWParseACDelWlan v = CWParseMessageElement (\<lambda>m.
     res_bind (CWProtocolRetrieve8 m) (\<lambda>(r, m).
     res_bind (CWProtocolRetrieve8 m) (\<lambda>(w, m).
     Ret (v\<lparr> req_operation := CW_OP_DEL_WLAN, req_radioID := uint r, req_wlanID := uint w \<rparr>, m))))"

definition CWParseACUpdateWlan ::
  "memory \<Rightarrow> ACInterfaceRequestInfo \<Rightarrow> CWProtocolMessage \<Rightarrow> int \<Rightarrow>
   (ACInterfaceRequestInfo \<times> CWProtocolMessage) res" where
  "CWParseACUpdateWlan mem v = CWParseMessageElement (\<lambda>m.
     res_bind (CWProtocolRetrieve8 m) (\<lambda>(r, m).
     res_bind (CWProtocolRetrieve8 m) (\<lambda>(w, m).
     res_bind (CWProtocolRetrieve16 m) (\<lambda>(c, m).
     res_bind (CWProtocolRetrieve8 m) (\<lambda>(ki, m).
     res_bind (CWProtocolRetrieve8 m) (\<lambda>(ks, m).
     res_bind (CWProtocolRetrieve8 m) (\<lambda>(kl, m).
     res_bind (retrieve_copy mem m 4 4) (\<lambda>(k, m).
     Ret (v\<lparr> req_operation := CW_OP_UPDATE_WLAN, req_radioID := uint r, req_wlanID := uint w,
             req_capabilityBit := c, req_keyIndex := ki, req_keyStatus := ks,
             req_keyLength := ucast kl, req_key := k \<rparr>, m)))))))))"

subsection \<open>Parsing: control addresses, timers and periods\<close>

text \<open>The address is the bytes of the socket address's field; family and port are constants.\<close>

definition CWParseCWControlIPv4Addresses ::
  "bool \<Rightarrow> CWProtocolMessage \<Rightarrow> int \<Rightarrow> ((byte list \<times> int) \<times> CWProtocolMessage) res" where
  "CWParseCWControlIPv4Addresses le = CWParseMessageElement (\<lambda>m.
     res_bind (CWProtocolRetrieve32 m) (\<lambda>(a, m).
     res_bind (CWProtocolRetrieve16 m) (\<lambda>(n, m).
     Ret ((int_bytes le (htonl le a), uint n), m))))"

definition CWParseCWControlIPv6Addresses ::
  "memory \<Rightarrow> CWProtocolMessage \<Rightarrow> int \<Rightarrow> ((byte list \<times> int) \<times> CWProtocolMessage) res" where
  "CWParseCWControlIPv6Addresses mem = CWParseMessageElement (\<lambda>m.
     res_bind (retrieve_copy mem m 16 16) (\<lambda>(a, m).
     res_bind (CWProtocolRetrieve16 m) (\<lambda>(n, m). Ret ((a, uint n), m))))"

text \<open>Discovery timer and echo request timer.\<close>

definition CWParseCWTimers ::
  "CWProtocolMessage \<Rightarrow> int \<Rightarrow> ((int \<times> int) \<times> CWProtocolMessage) res" where
  "CWParseCWTimers = CWParseMessageElement (\<lambda>m.
     res_bind (CWProtocolRetrieve8 m) (\<lambda>(d, m).
     res_bind (CWProtocolRetrieve8 m) (\<lambda>(e, m). Ret ((uint d, uint e), m))))"

definition CWParseACECNSupport ::
  "CWProtocolMessage \<Rightarrow> int \<Rightarrow> (int \<times> CWProtocolMessage) res" where
  "CWParseACECNSupport = CWParseMessageElement (\<lambda>m.
     res_bind (CWProtocolRetrieve8 m) (\<lambda>(e, m). Ret (uint e, m)))"

text \<open>Radio identifier and interval.\<close>

definition CWParseDecryptErrorReportPeriod ::
  "CWProtocolMessage \<Rightarrow> int \<Rightarrow> ((int \<times> int) \<times> CWProtocolMessage) res" where
  "CWParseDecryptErrorReportPeriod = CWParseMessageElement (\<lambda>m.
     res_bind (CWProtocolRetrieve8 m) (\<lambda>(r, m).
     res_bind (CWProtocolRetrieve16 m) (\<lambda>(i, m). Ret ((uint r, uint i), m))))"

definition CWParseIdleTimeout ::
  "CWProtocolMessage \<Rightarrow> int \<Rightarrow> (int \<times> CWProtocolMessage) res" where
  "CWParseIdleTimeout = CWParseMessageElement (\<lambda>m.
     res_bind (CWProtocolRetrieve32 m) (\<lambda>(t, m). Ret (sint t, m)))"

definition CWParseWTPFallback ::
  "CWProtocolMessage \<Rightarrow> int \<Rightarrow> (int \<times> CWProtocolMessage) res" where
  "CWParseWTPFallback = CWParseMessageElement (\<lambda>m.
     res_bind (CWProtocolRetrieve8 m) (\<lambda>(f, m). Ret (uint f, m)))"

definition CWWTPResetRebootStatistics :: "WTPRebootStatisticsInfo \<Rightarrow> WTPRebootStatisticsInfo" where
  "CWWTPResetRebootStatistics s = s
     \<lparr> reboot_Count := 0, reboot_ACInitiatedCount := 0, reboot_linkFailurerCount := 0,
       reboot_SWFailureCount := 0, reboot_HWFailuireCount := 0, reboot_otherFailureCount := 0,
       reboot_unknownFailureCount := 0, reboot_lastFailureType := 0 \<rparr>"

end
