(* ===== verification/ElementExchange.thy ===== *)
theory ElementExchange
  imports ACElements WTPElements
begin

section \<open>Elements between AC and WTP\<close>

text \<open>
  What the receiver makes of an element the other side has assembled: every pair of an assemble
  function of one daemon and a parse function of the other is an instance of \<open>msg_elem_exchange\<close>.
  An \<^verbatim>\<open>int\<close> travels in one, two or four bytes, so the receiver sees it modulo a power of two.
\<close>

named_theorems field_values \<open>what is left of an int that was cut to a field\<close>

lemma uint_of_int8 [field_values]: "uint (word_of_int k :: byte) = k mod 256"
  by (simp add: unsigned_of_int take_bit_eq_mod)

lemma uint_of_nat8 [field_values]: "uint (word_of_nat n :: byte) = int n mod 256"
  by (simp add: unsigned_of_nat take_bit_eq_mod zmod_int)

lemma uint_of_int16 [field_values]: "uint (word_of_int k :: 16 word) = k mod 65536"
  by (simp add: unsigned_of_int take_bit_eq_mod)

lemma sint_of_int16 [field_values]:
  "sint (word_of_int k :: 16 word) = (k + 32768) mod 65536 - 32768"
  by (simp add: signed_of_int signed_take_bit_eq_take_bit_shift take_bit_eq_mod)

lemma sint_of_int32 [field_values]:
  "sint (word_of_int k :: 32 word) = (k + 2147483648) mod 4294967296 - 2147483648"
  by (simp add: signed_of_int signed_take_bit_eq_take_bit_shift take_bit_eq_mod)

lemma htonl_bytes [simp]: "int_bytes le (htonl le v) = be32 v"
  by simp

subsection \<open>WLANs and stations: AC to WTP\<close>

definition wlan_ok :: "WTPInterfaceInfo \<Rightarrow> bool" where
  "wlan_ok w \<longleftrightarrow> length (key w) = 4 \<and> length (groupTSC w) = 6 \<and> length (SSID w) < 65000"

fun add_wlan_body :: "int \<times> WTPInterfaceInfo \<Rightarrow> byte list" where
  "add_wlan_body (r, w) =
     word_of_int r # word_of_int (wlanID w) # be16 (capabilityBit w) @ keyIndex w # keyStatus w #
     be16 4 @ key w @ groupTSC w @ qos w # authType w # MACmode w #
     word_of_int (frameTunnelMode w) # suppressSSID w # SSID w"

fun add_wlan_view :: "int \<times> WTPInterfaceInfo \<Rightarrow> ACInterfaceRequestInfo" where
  "add_wlan_view (r, w) =
     \<lparr> req_operation = CW_OP_ADD_WLAN, req_radioID = r mod 256, req_wlanID = wlanID w mod 256,
       req_capabilityBit = capabilityBit w, req_keyIndex = keyIndex w, req_keyStatus = keyStatus w,
       req_keyLength = 4, req_key = key w, req_groupTSC = groupTSC w, req_qos = qos w,
       req_authType = authType w, req_MACmode = MACmode w,
       req_tunnelMode = word_of_int (frameTunnelMode w), req_suppressSSID = suppressSSID w,
       req_SSID = SSID w @ [0] \<rparr>"

lemmas parse_frame = CWParseMessageElement_def

interpretation add_wlan: msg_elem_exchange 1024 "\<lambda>(r, w). wlan_ok w" add_wlan_body add_wlan_view
    "\<lambda>mem (r, w). CWAssembleMsgElemACAddWlan mem r w" "\<lambda>mem. CWParseACAddWlan mem req" for req
proof (unfold_locales, goal_cases)
  case (3 mem v)
  then show ?case
    by (cases v) (simp add: CWAssembleMsgElemACAddWlan_def wlan_ok_def wire)
next
  case (4 mem v bs rest x)
  then show ?case
    by (cases v) (simp add: CWParseACAddWlan_def parse_frame wlan_ok_def wire field_values)
qed (auto simp: wlan_ok_def)

interpretation del_wlan: msg_elem_exchange 1027 "\<lambda>_. True" "\<lambda>(r, w). [word_of_int r, word_of_int w]"
    "\<lambda>(r, w). req\<lparr> req_operation := CW_OP_DEL_WLAN, req_radioID := r mod 256, req_wlanID := w mod 256 \<rparr>"
    "\<lambda>mem (r, w). CWAssembleMsgElemACDelWlan mem r w" "\<lambda>mem. CWParseACDelWlan req" for req
  by unfold_locales
     (auto simp: CWAssembleMsgElemACDelWlan_def CWParseACDelWlan_def parse_frame wire field_values)

interpretation add_station: msg_elem_exchange 8 "\<lambda>_. True"
    "\<lambda>(r, a). word_of_int r # 6 # eth_bytes a" "\<lambda>(r, a). (r mod 256, Some (eth_bytes a))"
    "\<lambda>mem (r, a). CWAssembleMsgElemAddStation mem r a" CWParseAddStation
  by unfold_locales
     (auto simp: CWAssembleMsgElemAddStation_def CWParseAddStation_def parse_frame wire field_values)

interpretation delete_station: msg_elem_exchange 18 "\<lambda>_. True"
    "\<lambda>(r, a). word_of_int r # 6 # eth_bytes a" "\<lambda>(r, a). (r mod 256, Some (eth_bytes a))"
    "\<lambda>mem (r, a). CWAssembleMsgElemDeleteStation mem r a" CWParseDeleteStation
  by unfold_locales
     (auto simp: CWAssembleMsgElemDeleteStation_def CWParseDeleteStation_def parse_frame wire field_values)

definition rates_ok :: "CWFrameAssociationResponse \<Rightarrow> bool" where
  "rates_ok a \<longleftrightarrow> int (length (supportedRates a)) = supportedRatesLen a \<and> supportedRatesLen a < 32768"

fun station_body :: "int \<times> int \<times> CWFrameAssociationResponse \<Rightarrow> byte list" where
  "station_body (r, w, a) =
     word_of_int r # be16 (assID a - 49152) @ 0 # eth_bytes (DA a) @ be16 (resp_capabilityBit a) @
     word_of_int w # supportedRates a"

fun station_view :: "int \<times> int \<times> CWFrameAssociationResponse \<Rightarrow> station_values" where
  "station_view (r, w, a) =
     \<lparr> sta_radioID = r mod 256, sta_assID = assID a - 49152, sta_flags = 0,
       sta_address = Some (eth_bytes (DA a)), sta_capability = resp_capabilityBit a,
       sta_wlanID = w mod 256, sta_supportedRatesLen = supportedRatesLen a,
       sta_supportedRates = supportedRates a @ [0] \<rparr>"

interpretation ieee_station: msg_elem_exchange 1036 "\<lambda>(r, w, a). rates_ok a" station_body station_view
    "\<lambda>mem (r, w, a). CWAssembleMsgElem80211Station mem r w a" CWParse80211Station
proof (unfold_locales, goal_cases)
  case (3 mem v)
  then show ?case
    by (cases v) (auto simp: CWAssembleMsgElem80211Station_def rates_ok_def wire)
next
  case (4 mem v bs rest x)
  then show ?case
    by (cases v) (auto simp: CWParse80211Station_def parse_frame rates_ok_def wire field_values)
qed (auto simp: rates_ok_def)

text \<open>
  C25: What the WTP reads of a WLAN or a station that the AC configures, when key, group TSC and SSID of the WLAN
  have their lengths and the rates fit. From an add-WLAN element it reads the capability bits, the key with its index
  and status, the group TSC, QoS, authentication and MAC mode and whether the SSID is hidden as the AC has them, the
  tunnel mode cut to a byte, the SSID as a zero-terminated string, and the key length as four, whatever it is for
  the AC; from a delete-WLAN element the two identifiers, with the rest of its own structure left alone; and from a station
  element the address, capabilities and rates as the AC has them, the flags as zero, and the association identifier less
  0xC000. Identifiers are cut to a byte. Reading stops at the next element.
\<close>

theorem wlan_station_exchange:
  assumes "ample mem" and "wlan_ok w" and "rates_ok a"
  shows
    "(\<exists>e. CWAssembleMsgElemACAddWlan mem r w = Ret e \<and>
       read_element (\<lambda>_. CWParseACAddWlan mem v) (rmsg bs (contents e @ rest) t) =
       Ret (\<lparr> req_operation = CW_OP_ADD_WLAN, req_radioID = r mod 256, req_wlanID = wlanID w mod 256,
              req_capabilityBit = capabilityBit w, req_keyIndex = keyIndex w,
              req_keyStatus = keyStatus w, req_keyLength = 4, req_key = key w,
              req_groupTSC = groupTSC w, req_qos = qos w, req_authType = authType w,
              req_MACmode = MACmode w, req_tunnelMode = word_of_int (frameTunnelMode w),
              req_suppressSSID = suppressSSID w, req_SSID = SSID w @ [0] \<rparr>,
            rmsg (bs @ contents e) rest t)) \<and>
     (\<exists>e. CWAssembleMsgElemACDelWlan mem r n = Ret e \<and>
       read_element (\<lambda>_. CWParseACDelWlan v) (rmsg bs (contents e @ rest) t) =
       Ret (v\<lparr> req_operation := CW_OP_DEL_WLAN, req_radioID := r mod 256, req_wlanID := n mod 256 \<rparr>,
            rmsg (bs @ contents e) rest t)) \<and>
     (\<exists>e. CWAssembleMsgElem80211Station mem r n a = Ret e \<and>
       read_element (\<lambda>_. CWParse80211Station mem) (rmsg bs (contents e @ rest) t) =
       Ret (\<lparr> sta_radioID = r mod 256, sta_assID = assID a - 0xC000, sta_flags = 0,
              sta_address = Some (eth_bytes (DA a)), sta_capability = resp_capabilityBit a,
              sta_wlanID = n mod 256, sta_supportedRatesLen = int (length (supportedRates a)),
              sta_supportedRates = supportedRates a @ [0] \<rparr>,
            rmsg (bs @ contents e) rest t))"
  using assms
    add_wlan.roundtrip [where mem = mem and v = "(r, w)" and parser = "\<lambda>_. CWParseACAddWlan mem v"
      and bs = bs and rest = rest and x = t and req = v]
    del_wlan.roundtrip [where mem = mem and v = "(r, n)" and parser = "\<lambda>_. CWParseACDelWlan v"
      and bs = bs and rest = rest and x = t and req = v]
    ieee_station.roundtrip [where mem = mem and v = "(r, n, a)"
      and parser = "\<lambda>_. CWParse80211Station mem" and bs = bs and rest = rest and x = t]
  by (simp add: rates_ok_def)

definition ex_request :: "ACInterfaceRequestInfo" where
  "ex_request =
     \<lparr> req_operation = CW_OP_ADD_WLAN, req_radioID = 0, req_wlanID = 0, req_capabilityBit = 0,
       req_keyIndex = 0, req_keyStatus = 0, req_keyLength = 0, req_key = [], req_groupTSC = [],
       req_qos = 0, req_authType = 0, req_MACmode = 0, req_tunnelMode = 0, req_suppressSSID = 0,
       req_SSID = [7] \<rparr>"

definition ex_wlan :: "WTPInterfaceInfo" where
  "ex_wlan =
     \<lparr> wlanID = 1, typeInterface = 0, capability = replicate 16 0, capabilityBit = 0, keyIndex = 0, keyStatus = 0,
       keyLength = 0, key = [1, 2, 3, 4], groupTSC = replicate 6 0, qos = 0, authType = 0, MACmode = 0,
       frameTunnelMode = 4, suppressSSID = 0, SSID = [65, 66],
       BSSID = None \<rparr>"

definition ex_response :: "CWFrameAssociationResponse" where
  "ex_response = \<lparr> DA = Eth 1 2 3 4 5 6, resp_capabilityBit = 1, assID = 0xC001,
     supportedRatesLen = 2, supportedRates = [2, 4] \<rparr>"

theorem wlan_station_exchange_witness:
  "\<exists>e. CWAssembleMsgElem80211Station (\<lambda>_. True) 257 3 ex_response = Ret e \<and>
     read_element (\<lambda>_. CWParse80211Station (\<lambda>_. True)) (rmsg [] (contents e @ [9]) None) =
     Ret (\<lparr> sta_radioID = 1, sta_assID = 1, sta_flags = 0, sta_address = Some [1, 2, 3, 4, 5, 6],
            sta_capability = 1, sta_wlanID = 3, sta_supportedRatesLen = 2,
            sta_supportedRates = [2, 4, 0] \<rparr>, rmsg (contents e) [9] None)"
proof -
  have "ample (\<lambda>_. True)" "wlan_ok ex_wlan" "rates_ok ex_response"
    by (simp_all add: ample_def wlan_ok_def rates_ok_def ex_wlan_def ex_response_def)
  from wlan_station_exchange [OF this, where r = 257 and n = 3 and bs = "[]" and rest = "[9]"
      and t = None and v = ex_request, THEN conjunct2, THEN conjunct2]
  show ?thesis by (simp add: ex_response_def)
qed

subsection \<open>Configuration: AC to WTP\<close>

interpretation radio_information_ac: msg_elem_exchange 1048 "\<lambda>_. True"
    "\<lambda>(r, p). [word_of_int r, 0, 0, 0, p]" snd
    "\<lambda>mem (r, p). CWAssembleMsgElemACWTPRadioInformation mem r p"
    "\<lambda>mem. CWParseWTPRadioInformation_FromAC"
  by unfold_locales
     (auto simp: CWAssembleMsgElemACWTPRadioInformation_def CWParseWTPRadioInformation_FromAC_def wire)

interpretation ecn_ac: msg_elem_exchange 53 "\<lambda>_. True" "\<lambda>ac. [word_of_int (gACECNSupport ac)]"
    "\<lambda>ac. gACECNSupport ac mod 256" CWAssembleMsgElemECNSupport_AC "\<lambda>mem. CWParseACECNSupport"
  by unfold_locales
     (auto simp: CWAssembleMsgElemECNSupport_AC_def CWParseACECNSupport_def parse_frame wire field_values)

interpretation timers: msg_elem_exchange 12 "\<lambda>_. True"
    "\<lambda>ac. [word_of_int (gDiscoveryTimer ac), word_of_int (gEchoRequestTimer ac)]"
    "\<lambda>ac. (gDiscoveryTimer ac mod 256, gEchoRequestTimer ac mod 256)"
    CWAssembleMsgElemCWTimer "\<lambda>mem. CWParseCWTimers"
  by unfold_locales
     (auto simp: CWAssembleMsgElemCWTimer_def CWParseCWTimers_def parse_frame wire field_values)

interpretation idle_timeout: msg_elem_exchange 23 "\<lambda>_. True" "\<lambda>ac. be32 (word_of_int (gIdleTimeout ac))"
    "\<lambda>ac. (gIdleTimeout ac + 2147483648) mod 4294967296 - 2147483648"
    CWAssembleMsgElemIdleTimeout "\<lambda>mem. CWParseIdleTimeout"
  by unfold_locales
     (auto simp: CWAssembleMsgElemIdleTimeout_def CWParseIdleTimeout_def parse_frame wire field_values)

interpretation fallback: msg_elem_exchange 40 "\<lambda>_ :: unit. True" "\<lambda>_. [0]" "\<lambda>_. 0"
    "\<lambda>mem _. CWAssembleMsgElemWTPFallback mem" "\<lambda>mem. CWParseWTPFallback"
  by unfold_locales
     (auto simp: CWAssembleMsgElemWTPFallback_def CWParseWTPFallback_def parse_frame wire)

text \<open>One element of the decryption error report periods, as the code frames it for one radio.\<close>

interpretation report_period: msg_elem_exchange 16 "\<lambda>_. True"
    "\<lambda>r. word_of_int (admin_ID r) # be16 15" "\<lambda>r. (admin_ID r mod 256, 15)"
    "\<lambda>mem r. assemble_elem mem 3 [i8 (admin_ID r), i16 15] 16"
    "\<lambda>mem. CWParseDecryptErrorReportPeriod"
  by unfold_locales
     (auto simp: CWParseDecryptErrorReportPeriod_def parse_frame wire field_values)

subsection \<open>Elements that are framed one after the other\<close>

text \<open>Reads \<open>n\<close> elements in a row: the loops of the parse functions over a message.\<close>

fun read_elements ::
  "nat \<Rightarrow> (32 word \<Rightarrow> CWProtocolMessage \<Rightarrow> int \<Rightarrow> ('v \<times> CWProtocolMessage) res) \<Rightarrow> CWProtocolMessage \<Rightarrow>
   ('v list \<times> CWProtocolMessage) res" where
  "read_elements 0 parse m = Ret ([], m)"
| "read_elements (Suc n) parse m =
     res_bind (read_element parse m) (\<lambda>(v, m).
     res_bind (read_elements n parse m) (\<lambda>(vs, m). Ret (v # vs, m)))"

context msg_elem_exchange
begin

lemma received_all:
  assumes "ample mem" "\<forall>v \<in> set vs. ok v" "parser type = parse mem"
  shows "read_elements (length vs) parser
      (rmsg bs (concat (map (\<lambda>v. elem_bytes type (body v)) vs) @ rest) x) =
    Ret (map view vs, rmsg (bs @ concat (map (\<lambda>v. elem_bytes type (body v)) vs)) rest x)"
  using assms(2)
proof (induction vs arbitrary: bs)
  case (Cons v vs)
  then show ?case
    using received [of mem v parser bs "concat (map (\<lambda>v. elem_bytes type (body v)) vs) @ rest" x]
      assms(1,3)
    by simp
qed simp

end

lemma each_elements_received:
  fixes f :: "'a \<Rightarrow> CWProtocolMessage res"
  assumes "ample mem"
    and "\<And>x. x \<in> set xs \<Longrightarrow> f x = Ret (elem_msg ty (g x))"
    and "read_elements (length xs) parser
       (rmsg bs (concat (map (\<lambda>x. elem_bytes ty (g x)) xs) @ rest) t) = r
          (concat (map (\<lambda>x. elem_bytes ty (g x)) xs))"
  shows "\<exists>e. assemble_each mem f xs = Ret e \<and>
    read_elements (length xs) parser (rmsg bs (contents e @ rest) t) = r (contents e)"
  using assms(3) by (simp add: assemble_each_eq [OF assms(1,2)])

text \<open>
  The configuration the AC answers with arrives at the WTP: the two timers and the fallback
  cut to a byte, the idle timeout as a 32-bit integer, and, for any number of radios, as many
  decryption error report periods as there are radios, in order, each with its radio and 15 seconds.
\<close>

theorem configuration_exchange:
  assumes "ample mem"
  shows
    "(\<exists>e. CWAssembleMsgElemCWTimer mem ac = Ret e \<and>
       read_element (\<lambda>_. CWParseCWTimers) (rmsg bs (contents e @ rest) t) =
       Ret ((gDiscoveryTimer ac mod 256, gEchoRequestTimer ac mod 256),
            rmsg (bs @ contents e) rest t)) \<and>
     (\<exists>e. CWAssembleMsgElemDecryptErrorReportPeriod mem radios = Ret e \<and>
       read_elements (length radios) (\<lambda>_. CWParseDecryptErrorReportPeriod)
         (rmsg bs (contents e @ rest) t) =
       Ret (map (\<lambda>r. (admin_ID r mod 256, 15)) radios, rmsg (bs @ contents e) rest t)) \<and>
     (\<exists>e. CWAssembleMsgElemIdleTimeout mem ac = Ret e \<and>
       read_element (\<lambda>_. CWParseIdleTimeout) (rmsg bs (contents e @ rest) t) =
       Ret (sint (word_of_int (gIdleTimeout ac) :: 32 word), rmsg (bs @ contents e) rest t)) \<and>
     (\<exists>e. CWAssembleMsgElemWTPFallback mem = Ret e \<and>
       read_element (\<lambda>_. CWParseWTPFallback) (rmsg bs (contents e @ rest) t) =
       Ret (0, rmsg (bs @ contents e) rest t))"
proof -
  have "\<exists>e. CWAssembleMsgElemDecryptErrorReportPeriod mem radios = Ret e \<and>
       read_elements (length radios) (\<lambda>_. CWParseDecryptErrorReportPeriod)
         (rmsg bs (contents e @ rest) t) =
       Ret (map (\<lambda>r. (admin_ID r mod 256, 15)) radios, rmsg (bs @ contents e) rest t)"
    unfolding CWAssembleMsgElemDecryptErrorReportPeriod_def
    by (rule each_elements_received [OF assms report_period.assemble_law [OF assms TrueI]])
       (rule report_period.received_all [OF assms], simp_all)
  then show ?thesis
    using timers.roundtrip [OF assms TrueI, where parser = "\<lambda>_. CWParseCWTimers"]
      idle_timeout.roundtrip [OF assms TrueI, where parser = "\<lambda>_. CWParseIdleTimeout"]
      fallback.roundtrip [OF assms TrueI, where parser = "\<lambda>_. CWParseWTPFallback"]
    by (simp add: sint_of_int32)
qed

definition ex_ac :: ac_globals where
  "ex_ac = \<lparr> gACName = [65, 67], gActiveStations = 2, gLimit = 100, gActiveWTPs = 1, gMaxWTPs = 5,
     gACDescriptorSecurity = 4, gRMACField = 0, gDTLSPolicy = 4, gACHWVersion = 123456,
     gACSWVersion = 7, gNetworkPreferredFamily = CW_IPv4,
     gInterfaces = [\<lparr> addr = [2, 0, 0x14, 0x7e, 10, 0, 0, 1] @ replicate 8 0, addrIPv4 = [],
                      WTPCount = 1 \<rparr>],
     gDiscoveryTimer = 20, gEchoRequestTimer = 286, gIdleTimeout = 10, gACECNSupport = 0 \<rparr>"

theorem configuration_exchange_witness:
  "\<exists>e. CWAssembleMsgElemDecryptErrorReportPeriod (\<lambda>_. True)
          [\<lparr> admin_ID = 1, admin_state = 1 \<rparr>, \<lparr> admin_ID = 2, admin_state = 1 \<rparr>] = Ret e \<and>
     read_elements 2 (\<lambda>_. CWParseDecryptErrorReportPeriod) (rmsg [] (contents e @ [7]) None) =
     Ret ([(1, 15), (2, 15)], rmsg (contents e) [7] None)"
proof -
  have "ample (\<lambda>_. True)" by (simp add: ample_def)
  from configuration_exchange [OF this, of ex_ac "[]" "[7]" None
      "[\<lparr> admin_ID = 1, admin_state = 1 \<rparr>, \<lparr> admin_ID = 2, admin_state = 1 \<rparr>]",
      THEN conjunct2, THEN conjunct1]
  show ?thesis by (simp add: numeral_2_eq_2)
qed

end
