(* ===== verification/ReportExchange.thy ===== *)
theory ReportExchange
  imports ElementExchange
begin

section \<open>Elements from the WTP to the AC, vendor informations, and elements that do not fit\<close>

subsection \<open>Radios\<close>

interpretation radio_information: msg_elem_exchange 1048 "\<lambda>_. True"
    "\<lambda>(r, p). [word_of_int r, 0, 0, 0, p]" "\<lambda>(r, p). (r mod 256, p)"
    "\<lambda>mem (r, p). CWAssembleMsgElemWTPRadioInformation mem r p" "\<lambda>mem. CWParseWTPRadioInformation"
  by unfold_locales
     (auto simp: CWAssembleMsgElemWTPRadioInformation_def CWParseWTPRadioInformation_def parse_frame
        wire field_values)

interpretation multi_domain: msg_elem_exchange 1032 "\<lambda>_. True"
    "\<lambda>(r, f, n, p). word_of_int r # 0 # be16 (word_of_int f) @ be16 (word_of_int n) @
       be16 (word_of_int p)"
    "\<lambda>(r, f, n, p). \<lparr> freq_radioID = r mod 256, firstChannel = f mod 65536,
       totChannels = n mod 65536, maxTxPower = p mod 65536 \<rparr>"
    "\<lambda>mem (r, f, n, p). CWAssembleMsgElemMultiDomainCapability mem r f n p"
    "\<lambda>mem. CWParseWTPMultiDomainCapability"
  by unfold_locales
     (auto simp: CWAssembleMsgElemMultiDomainCapability_def CWParseWTPMultiDomainCapability_def
        parse_frame wire field_values)

interpretation assigned_bssid: msg_elem_exchange 1026 "\<lambda>_. True"
    "\<lambda>(r, w, a). word_of_int r # word_of_int w # eth_bytes a"
    "\<lambda>(r, w, a). (r mod 256, w mod 256, eth_bytes a)"
    "\<lambda>mem (r, w, a). CWAssembleMsgElemAssignedWTPSSID mem r w a" CWParseACAssignedWTPBSSID
  by unfold_locales
     (auto simp: CWAssembleMsgElemAssignedWTPSSID_def CWParseACAssignedWTPBSSID_def parse_frame wire
        field_values)

interpretation wtp_delete_station: msg_elem_exchange 18 "\<lambda>d. length (del_staAddr d) = 6"
    "\<lambda>d. word_of_int (del_radioID d) # 6 # del_staAddr d"
    "\<lambda>d. \<lparr> del_radioID = del_radioID d mod 256, del_staAddr = del_staAddr d \<rparr>"
    "\<lambda>mem d. CWAssembleMsgElemWTPDeleteStation mem (Some d)" CWParseWTPDeleteStation
  by unfold_locales
     (auto simp: CWAssembleMsgElemWTPDeleteStation_def CWParseWTPDeleteStation_def parse_frame wire
        field_values)

lemma rates_loop_rmsg:
  assumes "rs \<noteq> []" and "length rs \<le> n"
  shows "rates_loop n old (int (length bs) - int old + int (length rs)) (rmsg bs (rs @ rest) t) =
    Ret (rs, rmsg (bs @ rs) rest t)"
  using assms
proof (induction n arbitrary: bs rs)
  case (Suc n)
  obtain r ps where rs: "rs = r # ps" using Suc.prems(1) by (cases rs) auto
  show ?case
  proof (cases "ps = []")
    case False
    have l: "int (length bs) - int old + (1 + int (length ps)) =
        int (length (bs @ [r])) - int old + int (length ps)" by simp
    from False Suc.IH [of ps "bs @ [r]"] Suc.prems rs show ?thesis
      by (simp add: wire) (simp only: l, simp)
  qed (simp add: rs wire)
qed simp

lemma map_Store8 [simp]: "calls_bytes (map Store8 rs) = rs" "calls_ok (map Store8 rs)"
    "calls_bytes (map (\<lambda>i. Store8 (f i)) is) = map f is" "calls_ok (map (\<lambda>i. Store8 (f i)) is)"
  by (induction rs; induction "is"; simp)+

interpretation supported_rates: msg_elem_exchange 1040 "\<lambda>(r, rs). rs \<noteq> [] \<and> length rs \<le> 8"
    "\<lambda>(r, rs). word_of_int r # rs" "\<lambda>(r, rs). (r mod 256, rs)"
    "\<lambda>mem (r, rs). CWAssembleMsgElemSupportedRates mem r rs" "\<lambda>mem. CWParseWTPSupportedRates"
proof (unfold_locales, goal_cases)
  case (4 mem v bs rest x)
  then obtain r rs where v: "v = (r, rs)" "rs \<noteq> []" "length rs \<le> 8" by (cases v) auto
  from rates_loop_rmsg [OF v(2,3), of "length bs" "bs @ [word_of_int r]" rest x] v(1) show ?case
    by (simp add: CWParseWTPSupportedRates_def parse_frame wire field_values)
qed (auto simp: CWAssembleMsgElemSupportedRates_def wire)

text \<open>
  What a WTP tells about a radio arrives at the AC: its type, one to eight supported rates in
  order, the first channel, number of channels and power of its frequencies, the BSSID of a WLAN,
  and the address of a station that left. Nine rates or more are written past the block of the
  element.
\<close>

theorem radio_exchange:
  assumes "ample mem"
  shows
    "(\<exists>e. CWAssembleMsgElemWTPRadioInformation mem r p = Ret e \<and>
       read_element (\<lambda>_. CWParseWTPRadioInformation) (rmsg bs (contents e @ rest) t) =
       Ret ((r mod 256, p), rmsg (bs @ contents e) rest t)) \<and>
     (if length rs > 8 then CWAssembleMsgElemSupportedRates mem r rs = Fault
      else rs = [] \<or> (\<exists>e. CWAssembleMsgElemSupportedRates mem r rs = Ret e \<and>
       read_element (\<lambda>_. CWParseWTPSupportedRates) (rmsg bs (contents e @ rest) t) =
       Ret ((r mod 256, rs), rmsg (bs @ contents e) rest t))) \<and>
     (\<exists>e. CWAssembleMsgElemMultiDomainCapability mem r f n q = Ret e \<and>
       read_element (\<lambda>_. CWParseWTPMultiDomainCapability) (rmsg bs (contents e @ rest) t) =
       Ret (\<lparr> freq_radioID = r mod 256, firstChannel = f mod 65536, totChannels = n mod 65536,
              maxTxPower = q mod 65536 \<rparr>, rmsg (bs @ contents e) rest t)) \<and>
     (\<exists>e. CWAssembleMsgElemAssignedWTPSSID mem r w a = Ret e \<and>
       read_element (\<lambda>_. CWParseACAssignedWTPBSSID mem) (rmsg bs (contents e @ rest) t) =
       Ret ((r mod 256, w mod 256, eth_bytes a), rmsg (bs @ contents e) rest t)) \<and>
     (\<exists>e. CWAssembleMsgElemWTPDeleteStation mem
             (Some \<lparr> del_radioID = r, del_staAddr = eth_bytes a \<rparr>) = Ret e \<and>
       read_element (\<lambda>_. CWParseWTPDeleteStation mem) (rmsg bs (contents e @ rest) t) =
       Ret (\<lparr> del_radioID = r mod 256, del_staAddr = eth_bytes a \<rparr>, rmsg (bs @ contents e) rest t))"
proof -
  have "CWAssembleMsgElemSupportedRates mem r rs = Fault" if "length rs > 8"
    using that assms by (simp add: CWAssembleMsgElemSupportedRates_def wire)
  then show ?thesis
    using assms
      radio_information.roundtrip [where mem = mem and v = "(r, p)" and bs = bs and rest = rest
        and x = t and parser = "\<lambda>_. CWParseWTPRadioInformation"]
      supported_rates.roundtrip [where mem = mem and v = "(r, rs)" and bs = bs and rest = rest
        and x = t and parser = "\<lambda>_. CWParseWTPSupportedRates"]
      multi_domain.roundtrip [where mem = mem and v = "(r, f, n, q)" and bs = bs and rest = rest
        and x = t and parser = "\<lambda>_. CWParseWTPMultiDomainCapability"]
      assigned_bssid.roundtrip [where mem = mem and v = "(r, w, a)" and bs = bs and rest = rest
        and x = t and parser = "\<lambda>_. CWParseACAssignedWTPBSSID mem"]
      wtp_delete_station.roundtrip [where mem = mem and bs = bs and rest = rest and x = t
        and v = "\<lparr> del_radioID = r, del_staAddr = eth_bytes a \<rparr>"
        and parser = "\<lambda>_. CWParseWTPDeleteStation mem"]
    by (cases "length rs > 8"; cases "rs = []") simp_all
qed

theorem radio_exchange_witness:
  "\<exists>e. CWAssembleMsgElemSupportedRates (\<lambda>_. True) 1 [2, 4, 11] = Ret e \<and>
     read_element (\<lambda>_. CWParseWTPSupportedRates) (rmsg [] (contents e @ [5]) None) =
     Ret ((1, [2, 4, 11]), rmsg (contents e) [5] None)"
proof -
  have "ample (\<lambda>_. True)" by (simp add: ample_def)
  from radio_exchange [OF this, where r = 1 and rs = "[2, 4, 11]" and bs = "[]" and rest = "[5]"
      and t = None and p = 0 and f = 0 and n = 0 and q = 0 and w = 0 and a = "Eth 0 0 0 0 0 0",
      THEN conjunct2, THEN conjunct1]
  show ?thesis by simp
qed

subsection \<open>Statistics\<close>

fun radio_statistics_body :: "int \<times> WTPRadioStatisticsInfo \<Rightarrow> byte list" where
  "radio_statistics_body (r, s) = calls_bytes (radio_statistics_calls r s)"

abbreviation short :: "int \<Rightarrow> int" where "short k \<equiv> (k + 32768) mod 65536 - 32768"

fun radio_statistics_view :: "int \<times> WTPRadioStatisticsInfo \<Rightarrow> int \<times> WTPRadioStatisticsInfo" where
  "radio_statistics_view (r, s) =
     (r mod 256,
      \<lparr> lastFailureType = lastFailureType s mod 256, resetCount = short (resetCount s),
        SWFailureCount = short (SWFailureCount s), HWFailuireCount = short (HWFailuireCount s),
        otherFailureCount = short (otherFailureCount s),
        unknownFailureCount = short (unknownFailureCount s),
        configUpdateCount = short (configUpdateCount s),
        channelChangeCount = short (channelChangeCount s),
        bandChangeCount = short (bandChangeCount s),
        currentNoiseFloor = short (currentNoiseFloor s) \<rparr>)"

interpretation radio_statistics: msg_elem_exchange 47 "\<lambda>_. True" radio_statistics_body
    radio_statistics_view
    "\<lambda>mem (r, s). assemble_unchecked mem 20 (radio_statistics_calls r s)  47"
    "\<lambda>mem. CWParseWTPRadioStatistics"
  by unfold_locales
     (auto simp: CWParseWTPRadioStatistics_def radio_statistics_calls_def parse_frame wire field_values)

text \<open>Values a \<^verbatim>\<open>short\<close> can have, and a failure type that is a byte, are not changed.\<close>

definition statistics_ok :: "WTPRadioStatisticsInfo \<Rightarrow> bool" where
  "statistics_ok s \<longleftrightarrow> lastFailureType s \<in> {0..<256} \<and>
     (\<forall>f \<in> {resetCount, SWFailureCount, HWFailuireCount, otherFailureCount, unknownFailureCount,
            configUpdateCount, channelChangeCount, bandChangeCount, currentNoiseFloor}.
        f s \<in> {-32768..<32768})"

lemma short_id: "k \<in> {-32768..<32768} \<Longrightarrow> short k = k"
  by simp

lemma radio_statistics_view_id: "statistics_ok s \<Longrightarrow> radio_statistics_view (r, s) = (r mod 256, s)"
  by (simp add: statistics_ok_def)

fun reboot_body :: "wtp_globals \<Rightarrow> byte list" where
  "reboot_body w =
     (let s = gWTPRebootStatistics w in
      be16 (word_of_int (reboot_Count s)) @ be16 (word_of_int (reboot_ACInitiatedCount s)) @
      be16 (word_of_int (reboot_linkFailurerCount s)) @ be16 (word_of_int (reboot_SWFailureCount s)) @
      be16 (word_of_int (reboot_HWFailuireCount s)) @
      be16 (word_of_int (reboot_otherFailureCount s)) @
      be16 (word_of_int (reboot_unknownFailureCount s)) @
      [word_of_int (reboot_lastFailureType s)])"

fun reboot_view :: "wtp_globals \<Rightarrow> WTPRebootStatisticsInfo" where
  "reboot_view w =
     (let s = gWTPRebootStatistics w in
      \<lparr> reboot_Count = reboot_Count s mod 65536,
        reboot_ACInitiatedCount = reboot_ACInitiatedCount s mod 65536,
        reboot_linkFailurerCount = reboot_linkFailurerCount s mod 65536,
        reboot_SWFailureCount = reboot_SWFailureCount s mod 65536,
        reboot_HWFailuireCount = reboot_HWFailuireCount s mod 65536,
        reboot_otherFailureCount = reboot_otherFailureCount s mod 65536,
        reboot_unknownFailureCount = reboot_unknownFailureCount s mod 65536,
        reboot_lastFailureType = reboot_lastFailureType s mod 256 \<rparr>)"

interpretation reboot_statistics: msg_elem_exchange 48 "\<lambda>_. True" reboot_body reboot_view
    CWAssembleMsgElemWTPRebootStatistics "\<lambda>mem. CWParseWTPRebootStatistics"
  by unfold_locales
     (auto simp: CWAssembleMsgElemWTPRebootStatistics_def CWParseWTPRebootStatistics_def Let_def
        parse_frame wire field_values)

text \<open>
  The statistics of a radio that exists arrive at the AC unchanged, as long as the counters
  are \<^verbatim>\<open>short\<close>s and the failure type a byte; a negative radio is refused; but the radio numbered
  like the number of radios, one past the last, passes the guard, and its statistics are read from
  behind the array.
\<close>

theorem radio_statistics_exchange:
  assumes "ample mem"
  shows "(if radio < 0 \<or> radio > int (length (gRadiosInfo w))
      then CWAssembleMsgElemWTPRadioStatistics mem w radio = Raise CW_ERROR_WRONG_ARG
      else if radio = int (length (gRadiosInfo w))
      then CWAssembleMsgElemWTPRadioStatistics mem w radio = Fault
      else \<exists>e. CWAssembleMsgElemWTPRadioStatistics mem w radio = Ret e \<and>
        (statistics_ok (radio_statistics (gRadiosInfo w ! nat radio)) \<longrightarrow>
         read_element (\<lambda>_. CWParseWTPRadioStatistics) (rmsg bs (contents e @ rest) t) =
         Ret ((radio mod 256, radio_statistics (gRadiosInfo w ! nat radio)),
              rmsg (bs @ contents e) rest t)))"
proof -
  have "malloc_ok mem 20" using assms by (simp add: wire)
  then show ?thesis
    using radio_statistics.roundtrip [OF assms TrueI,
        where v = "(radio, radio_statistics (gRadiosInfo w ! nat radio))"
          and parser = "\<lambda>_. CWParseWTPRadioStatistics" and bs = bs and rest = rest and x = t]
      radio_statistics_view_id [of "radio_statistics (gRadiosInfo w ! nat radio)" radio]
    by (auto simp: CWAssembleMsgElemWTPRadioStatistics_def simp del: radio_statistics_view.simps)
qed

definition ex_radio :: CWWTPRadioInfoValues where
  "ex_radio = \<lparr> radio_radioID = 1, radio_decryptErrorMACAddressList = [Eth 1 2 3 4 5 6],
     radio_adminState = 1, radio_adminCause = 1, radio_operationalState = 1, radio_operationalCause = 0,
     radio_TxQueueLevel = 3, radio_wirelessLinkFramesPerSec = 100,
     radio_statistics = \<lparr> lastFailureType = 1, resetCount = 2, SWFailureCount = 3,
       HWFailuireCount = 0, otherFailureCount = 0, unknownFailureCount = 0, configUpdateCount = 4,
       channelChangeCount = 0, bandChangeCount = 0, currentNoiseFloor = -90 \<rparr>,
     gWTPPhyInfo = \<lparr> phy_radioID = 1, phy_supportedRates = Some [2, 4, 11, 22, 12, 18, 24, 36],
       phy_lenSupportedRates = 8, phyStandardA = False, phyStandardB = True, phyStandardG = True,
       phyStandardN = False, phy_standardValue = 5, phy_totChannels = 13, phy_frequencyList = Some (2412, 20),
       phy_fragmentationTreshold = 2346, phy_rtsThreshold = 2347, phy_shortRetry = 7, phy_longRetry = 4,
       phy_txMSDU = 512, phy_rxMSDU = 512, numInterfaces = 0, interfaces = [] \<rparr> \<rparr>"

definition ex_wtp :: wtp_globals where
  "ex_wtp = \<lparr> gWTPName = [87], gWTPLocation = [76], gACInfo_name = [65], gWTPStatisticsTimer = 120,
     gWTPECNSupport = 0, gIPv4StatusDuplicate = 0, gIPv6StatusDuplicate = 0,
     socket_IPv4 = [10, 0, 0, 2], socket_IPv6 = replicate 16 0, gRadiosInfo = [ex_radio],
     gWTPRebootStatistics = \<lparr> reboot_Count = 1, reboot_ACInitiatedCount = 0,
       reboot_linkFailurerCount = 0, reboot_SWFailureCount = 0, reboot_HWFailuireCount = 0,
       reboot_otherFailureCount = 0, reboot_unknownFailureCount = 0, reboot_lastFailureType = 0 \<rparr> \<rparr>"

theorem radio_statistics_exchange_witness:
  "CWAssembleMsgElemWTPRadioStatistics (\<lambda>_. True) ex_wtp 1 = Fault \<and>
   (\<exists>e. CWAssembleMsgElemWTPRadioStatistics (\<lambda>_. True) ex_wtp 0 = Ret e \<and>
      read_element (\<lambda>_. CWParseWTPRadioStatistics) (rmsg [] (contents e @ []) None) =
      Ret ((0, radio_statistics ex_radio), rmsg ([] @ contents e) [] None))"
proof -
  have a: "ample (\<lambda>_. True)" by (simp add: ample_def)
  have s: "statistics_ok (radio_statistics ex_radio)" by (simp add: statistics_ok_def ex_radio_def)
  show ?thesis
    using radio_statistics_exchange [OF a, of 1 ex_wtp] s
      radio_statistics_exchange [OF a, of 0 ex_wtp "[]" "[]" None]
    by (simp add: ex_wtp_def)
qed

subsection \<open>Elements that do not fit their blocks\<close>

lemma decrypt_report_entries:
  "decrypt_report mem r addrs = Ret d \<Longrightarrow>
     length (the (decryptErrorMACAddressList d)) = 6 * unat (numEntries d)"
  by (auto simp: decrypt_report_def Let_def length_concat comp_def sum_list_triv min_def
      split: if_splits)

lemma decrypt_find_entries:
  assumes "decrypt_find mem addrs i rs acc = Ret f"
    and "case acc of None \<Rightarrow> True | Some d \<Rightarrow> length (the (decryptErrorMACAddressList d)) = 6 * unat (numEntries d)"
  shows "case f of None \<Rightarrow> True | Some d \<Rightarrow> length (the (decryptErrorMACAddressList d)) = 6 * unat (numEntries d)"
  using assms
proof (induction mem addrs i rs acc rule: decrypt_find.induct)
  case (2 mem addrs i r rs acc)
  then show ?case
    by (auto simp: res_simps decrypt_report_entries split: if_splits option.splits)
qed simp

lemma decrypt_elem_Fault:
  assumes "ample mem" "length (the (decryptErrorMACAddressList d)) = 6 * unat (numEntries d)"
  shows "assemble_elem mem (2 + 6 * uint (numEntries d))
     [i8 (decrypt_ID d), Store8 (numEntries d), Store8 (6 * numEntries d),
      StoreRaw (the (decryptErrorMACAddressList d)) (6 * uint (numEntries d))] 15 = Fault"
proof (rule assemble_elem_Fault [OF assms(1)])
  have "nat (6 * uint (numEntries d)) = 6 * unat (numEntries d)"
    by (simp add: nat_mult_distrib)
  with assms(2) show "2 + 6 * uint (numEntries d) < int (length (calls_bytes
      [i8 (decrypt_ID d), Store8 (numEntries d), Store8 (6 * numEntries d),
       StoreRaw (the (decryptErrorMACAddressList d)) (6 * uint (numEntries d))]))"
    by simp
qed simp

lemma decrypt_find_absent:
  "i \<notin> radio_radioID ` set rs \<Longrightarrow> decrypt_find mem addrs i rs acc = Ret acc"
  by (induction rs) auto

lemma decrypt_report_outcome:
  "ample mem \<Longrightarrow> decrypt_report mem r addrs = Fault \<or> (\<exists>d. decrypt_report mem r addrs = Ret d)"
  by (simp add: decrypt_report_def Let_def wire)

lemma decrypt_find_outcome:
  assumes "ample mem" "i \<in> radio_radioID ` set rs \<or> acc \<noteq> None"
  shows "decrypt_find mem addrs i rs acc = Fault \<or> (\<exists>d. decrypt_find mem addrs i rs acc = Ret (Some d))"
  using assms(2)
proof (induction rs arbitrary: acc)
  case (Cons r rs)
  show ?case
    using Cons.prems Cons.IH decrypt_report_outcome [OF assms(1), of r addrs] assms(1)
    by (fastforce simp: wire)
qed auto

lemma decrypt_report_own:
  assumes "ample mem"
  shows "\<exists>d. decrypt_report mem r (radio_decryptErrorMACAddressList r) = Ret d"
proof -
  let ?l = "length (radio_decryptErrorMACAddressList r)"
  have "unat (word_of_nat ?l :: byte) \<le> ?l" by (simp add: unsigned_of_nat take_bit_nat_less_eq_self)
  then show ?thesis using assms by (simp add: decrypt_report_def Let_def wire)
qed

lemma decrypt_reports_own:
  assumes "ample mem"
  shows "\<exists>ds. res_map (\<lambda>r. decrypt_report mem r (radio_decryptErrorMACAddressList r)) rs = Ret ds \<and>
    length ds = length rs \<and>
    (\<forall>d \<in> set ds. length (the (decryptErrorMACAddressList d)) = 6 * unat (numEntries d))"
proof (induction rs)
  case (Cons r rs)
  obtain d where d: "decrypt_report mem r (radio_decryptErrorMACAddressList r) = Ret d"
    using decrypt_report_own [OF assms] by blast
  with Cons decrypt_report_entries [OF d] show ?case by auto
qed simp

lemma decrypt_element_overflow:
  assumes "ample mem"
  shows "if 0 \<le> i \<and> i \<notin> radio_radioID ` set (gRadiosInfo w)
     then CWAssembleMsgElemDecryptErrorReport mem w i = Raise CW_ERROR_NONE
     else gRadiosInfo w = [] \<or> CWAssembleMsgElemDecryptErrorReport mem w i = Fault"
proof (cases "i < 0")
  case True
  obtain ds where ds: "res_map (\<lambda>r. decrypt_report mem r (radio_decryptErrorMACAddressList r))
        (gRadiosInfo w) = Ret ds" "length ds = length (gRadiosInfo w)"
      "\<forall>d \<in> set ds. length (the (decryptErrorMACAddressList d)) = 6 * unat (numEntries d)"
    using decrypt_reports_own [OF assms] by blast
  show ?thesis
  proof (cases ds)
    case (Cons d ds')
    with ds True assms show ?thesis
      by (simp add: CWAssembleMsgElemDecryptErrorReport_def CWGetDecryptErrorReport_def wire
          assemble_each_Fault decrypt_elem_Fault)
  qed (use ds True in simp)
next
  case False
  let ?a = "case gRadiosInfo w of [] \<Rightarrow> [] | r # _ \<Rightarrow> radio_decryptErrorMACAddressList r"
  show ?thesis
  proof (cases "i \<in> radio_radioID ` set (gRadiosInfo w)")
    case True
    then consider "decrypt_find mem ?a i (gRadiosInfo w) None = Fault"
      | d where "decrypt_find mem ?a i (gRadiosInfo w) None = Ret (Some d)"
      using decrypt_find_outcome [OF assms] by blast
    then show ?thesis
    proof cases
      case (2 d)
      from decrypt_find_entries [OF this] True False 2 assms show ?thesis
        by (simp add: CWAssembleMsgElemDecryptErrorReport_def CWGetDecryptErrorReport_def
            assemble_each_Fault decrypt_elem_Fault)
    qed (use True False in \<open>simp add: CWAssembleMsgElemDecryptErrorReport_def CWGetDecryptErrorReport_def\<close>)
  next
    case absent: False
    with False decrypt_find_absent [OF absent] show ?thesis
      by (simp add: CWAssembleMsgElemDecryptErrorReport_def CWGetDecryptErrorReport_def)
  qed
qed

text \<open>
  Four elements are always written past the end of the block that is allocated for them: the
  update of a WLAN (24 bytes into 12), the two reports of a duplicate address (12 bytes into 11, 24
  into 23) and the decryption error report of any radio (three bytes and the addresses into a block
  with two bytes and the addresses); the only outcome without the overflow is that there is no such
  radio.
\<close>

theorem elements_overflow:
  assumes "ample mem" and "length (socket_IPv6 w) = 16"
  shows "CWAssembleMsgElemACUpdateWlan mem r wlan = Fault \<and>
    CWAssembleMsgElemDuplicateIPv4Address mem w = Fault \<and>
    CWAssembleMsgElemDuplicateIPv6Address mem w = Fault \<and>
    (if 0 \<le> radioID \<and> radioID \<notin> radio_radioID ` set (gRadiosInfo w)
     then CWAssembleMsgElemDecryptErrorReport mem w radioID = Raise CW_ERROR_NONE
     else gRadiosInfo w = [] \<or> CWAssembleMsgElemDecryptErrorReport mem w radioID = Fault)"
  using assms decrypt_element_overflow [OF assms(1), of radioID w]
  by (simp add: CWAssembleMsgElemACUpdateWlan_def assemble_elem_Fault duplicate_mac_def
      CWAssembleMsgElemDuplicateIPv4Address_def CWAssembleMsgElemDuplicateIPv6Address_def
      assemble_duplicate_def wire)

theorem elements_overflow_witness:
  "CWAssembleMsgElemDuplicateIPv4Address (\<lambda>_. True) ex_wtp = Fault \<and>
   CWAssembleMsgElemDecryptErrorReport (\<lambda>_. True) ex_wtp 1 = Fault"
  using elements_overflow [of "\<lambda>_. True" ex_wtp 1 undefined 1]
  by (simp add: ample_def ex_wtp_def ex_radio_def)

subsection \<open>Vendor informations\<close>

lemma ac_vendor_calls:
  "info_ok v \<Longrightarrow> calls_ok (ac_vendor_calls le v) \<and>
   calls_bytes (ac_vendor_calls le v) = info_bytes True
     (v\<lparr>valuePtr := (if info_length v = 4 then be32 (int_of_bytes le (valuePtr v)) else valuePtr v)\<rparr>)"
  by (simp add: ac_vendor_calls_def info_bytes_def info_ok_def)

fun ac_descriptor_body :: "ac_globals \<Rightarrow> byte list" where
  "ac_descriptor_body ac =
     be16 (word_of_int (gActiveStations ac)) @ be16 (word_of_int (gLimit ac)) @
     be16 (word_of_int (gActiveWTPs ac)) @ be16 (word_of_int (gMaxWTPs ac)) @
     [word_of_int (gACDescriptorSecurity ac), word_of_int (gRMACField ac), 0,
      word_of_int (gDTLSPolicy ac)] @
     infos_bytes True
       [\<lparr> vendorIdentifier = 65432, info_type = 4, info_length = 4, valuePtr = be32 (gACHWVersion ac) \<rparr>,
        \<lparr> vendorIdentifier = 65432, info_type = 5, info_length = 4, valuePtr = be32 (gACSWVersion ac) \<rparr>]"

fun ac_descriptor_view :: "bool \<Rightarrow> ac_globals \<Rightarrow> CWACInfoValues" where
  "ac_descriptor_view le ac =
     \<lparr> stations = gActiveStations ac mod 65536, limit = gLimit ac mod 65536,
       activeWTPs = gActiveWTPs ac mod 65536, maxWTPs = gMaxWTPs ac mod 65536,
       security = gACDescriptorSecurity ac mod 256, RMACField = gRMACField ac mod 256,
       DTLSPolicy = gDTLSPolicy ac mod 256,
       ac_vendorInfos =
         [\<lparr> vendorIdentifier = 65432, info_type = 4, info_length = 4,
            valuePtr = int_bytes le (gACHWVersion ac) \<rparr>,
          \<lparr> vendorIdentifier = 65432, info_type = 5, info_length = 4,
            valuePtr = int_bytes le (gACSWVersion ac) \<rparr>] \<rparr>"

lemma int_conv_be32: "int_conv le (be32 v) = int_bytes le v"
  by (cases le) (simp_all add: int_conv_def int_bytes_def int_of_bytes_def htonl_def)

interpretation ac_descriptor: msg_elem_exchange 1 "\<lambda>_. True" ac_descriptor_body
    "ac_descriptor_view le'" "\<lambda>mem ac. CWAssembleMsgElemACDescriptor mem le ac"
    "\<lambda>mem. CWParseACDescriptor mem le'" for le le'
proof (unfold_locales, goal_cases)
  case (2 ac)
  show ?case by (simp add: info_bytes_def)
next
  case (3 mem ac)
  then show ?case
    by (simp add: CWAssembleMsgElemACDescriptor_def CWACGetVendorInfos_def ac_vendor_calls_def wire
        info_bytes_def)
next
  case (4 mem ac bs rest x)
  let ?vs = "[\<lparr> vendorIdentifier = 65432, info_type = 4, info_length = 4, valuePtr = be32 (gACHWVersion ac) \<rparr>,
    \<lparr> vendorIdentifier = 65432, info_type = 5, info_length = 4, valuePtr = be32 (gACSWVersion ac) \<rparr>]"
  have ok: "\<forall>v \<in> set ?vs. info_ok v" by (simp add: info_ok_def)
  let ?p = "be16 (word_of_int (gActiveStations ac)) @ be16 (word_of_int (gLimit ac)) @
     be16 (word_of_int (gActiveWTPs ac)) @ be16 (word_of_int (gMaxWTPs ac)) @
     [word_of_int (gACDescriptorSecurity ac), word_of_int (gRMACField ac), 0,
      word_of_int (gDTLSPolicy ac)]"
  have "parse_vendor_infos mem None (int_conv le') (length bs) 36
      (rmsg (bs @ ?p) (infos_bytes ((None :: int option) = None) ?vs @ rest) x) =
    Ret (map (info_view None (int_conv le')) ?vs, rmsg ((bs @ ?p) @ infos_bytes ((None :: int option) = None) ?vs) rest x)"
    by (rule parse_vendor_infos_rmsg) (use 4 ok in \<open>simp_all add: info_bytes_def\<close>)
  then show ?case
    by (simp add: CWParseACDescriptor_def parse_frame wire field_values info_view_def int_conv_be32
        info_bytes_def)
qed simp

text \<open>
  The AC's descriptor arrives at the WTP: the counts and policies, cut to their fields, and the
  two versions, found by going over the element twice. The versions have the AC's values as
  integers of the WTP's host, whatever the byte orders of the two hosts.
\<close>

theorem ac_descriptor_exchange:
  assumes "ample mem"
  shows "\<exists>e. CWAssembleMsgElemACDescriptor mem le ac = Ret e \<and>
    read_element (\<lambda>_. CWParseACDescriptor mem le') (rmsg bs (contents e @ rest) t) =
    Ret (\<lparr> stations = gActiveStations ac mod 65536, limit = gLimit ac mod 65536,
           activeWTPs = gActiveWTPs ac mod 65536, maxWTPs = gMaxWTPs ac mod 65536,
           security = gACDescriptorSecurity ac mod 256, RMACField = gRMACField ac mod 256,
           DTLSPolicy = gDTLSPolicy ac mod 256,
           ac_vendorInfos =
             [\<lparr> vendorIdentifier = 65432, info_type = 4, info_length = 4,
                valuePtr = int_bytes le' (gACHWVersion ac) \<rparr>,
              \<lparr> vendorIdentifier = 65432, info_type = 5, info_length = 4,
                valuePtr = int_bytes le' (gACSWVersion ac) \<rparr>] \<rparr>,
         rmsg (bs @ contents e) rest t)"
  using ac_descriptor.roundtrip [OF assms TrueI, where parser = "\<lambda>_. CWParseACDescriptor mem le'"]
  by simp

theorem ac_descriptor_exchange_witness:
  "\<exists>e. CWAssembleMsgElemACDescriptor (\<lambda>_. True) True ex_ac = Ret e \<and>
    read_element (\<lambda>_. CWParseACDescriptor (\<lambda>_. True) False) (rmsg [] (contents e @ []) None) =
    Ret (\<lparr> stations = 2, limit = 100, activeWTPs = 1, maxWTPs = 5, security = 4, RMACField = 0,
           DTLSPolicy = 4,
           ac_vendorInfos =
             [\<lparr> vendorIdentifier = 65432, info_type = 4, info_length = 4,
                valuePtr = int_bytes False 123456 \<rparr>,
              \<lparr> vendorIdentifier = 65432, info_type = 5, info_length = 4,
                valuePtr = int_bytes False 7 \<rparr>] \<rparr>, rmsg ([] @ contents e) [] None)"
proof -
  have a: "ample (\<lambda>_. True)" by (simp add: ample_def)
  show ?thesis
    using ac_descriptor_exchange [OF a, of True ex_ac False "[]" "[]" None] by (simp add: ex_ac_def)
qed

definition descriptor_infos :: "bool \<Rightarrow> (nat \<Rightarrow> byte list) \<Rightarrow> VendorInfoValues list" where
  "descriptor_infos le junk =
     [vendor_block le junk 0 0 123456, vendor_block le junk 1 1 12347, vendor_block le junk 2 2 1234568]"

definition board_infos :: "bool \<Rightarrow> (nat \<Rightarrow> byte list) \<Rightarrow> VendorInfoValues list" where
  "board_infos le junk = [vendor_block le junk 0 0 123456, vendor_block le junk 1 1 123456]"

lemma vendor_blocks_ok:
  assumes "\<forall>i. length (junk i) = 4"
  shows "\<forall>v \<in> set (descriptor_infos le junk). info_ok v" "\<forall>v \<in> set (board_infos le junk). info_ok v"
  using assms by (auto simp: descriptor_infos_def board_infos_def vendor_block_def info_ok_def)

lemma vendor_blocks_view:
  "map (info_view None conv) (descriptor_infos le junk) = descriptor_infos le junk"
  "map (info_view (Some 23456) conv) (board_infos le junk) = board_infos le junk"
  by (simp_all add: descriptor_infos_def board_infos_def vendor_block_def info_view_def)

interpretation wtp_descriptor: msg_elem_exchange 39 "\<lambda>w. \<forall>i. length (junk i) = 4"
    "\<lambda>w. let n = word_of_int (int (length (gRadiosInfo w))) in
       [n, n, 1, 1] @ be16 0 @ infos_bytes True (descriptor_infos le junk)"
    "\<lambda>w. let n = int (length (gRadiosInfo w)) mod 256 in
       \<lparr> maxRadios = n, radiosInUse = n, encCapabilities = Some 0,
         vendorInfos = descriptor_infos le junk \<rparr>"
    "\<lambda>mem w. CWAssembleMsgElemWTPDescriptor mem le junk w"
    "\<lambda>mem. CWParseWTPDescriptor mem le' enc" for le le' junk enc
proof (unfold_locales, goal_cases)
  case (2 w)
  then show ?case by (simp add: Let_def descriptor_infos_def vendor_block_def info_bytes_def)
next
  case (3 mem w)
  then show ?case
    by (simp add: CWAssembleMsgElemWTPDescriptor_def CWWTPGetVendorInfos_def descriptor_infos_def
        vendor_block_def wtp_value_def info_bytes_def Let_def wire)
next
  case (4 mem w bs rest x)
  let ?vs = "descriptor_infos le junk" and ?n = "word_of_int (int (length (gRadiosInfo w))) :: byte"
  let ?p = "[?n, ?n, 1, 1] @ be16 0"
  have l: "length (infos_bytes True ?vs) = 48"
    using 4 by (simp add: descriptor_infos_def vendor_block_def info_bytes_def)
  have "parse_vendor_infos mem None (char_conv le') (length bs) 54
      (rmsg (bs @ ?p) (infos_bytes ((None :: int option) = None) ?vs @ rest) x) =
    Ret (map (info_view None (char_conv le')) ?vs,
         rmsg ((bs @ ?p) @ infos_bytes ((None :: int option) = None) ?vs) rest x)"
    by (rule parse_vendor_infos_rmsg) (use 4 vendor_blocks_ok [of junk le] l in simp_all)
  then show ?case using l
    by (simp add: CWParseWTPDescriptor_def parse_frame wire Let_def vendor_blocks_view)
       (simp add: field_values zmod_int wire numeral_eq_Suc)
qed simp

interpretation board_data: msg_elem_exchange 38 "\<lambda>_. \<forall>i. length (junk i) = 4"
    "\<lambda>_. be32 23456 @ infos_bytes False (board_infos le junk)"
    "\<lambda>_. board_infos le junk"
    "\<lambda>mem (_ :: unit). CWAssembleMsgElemWTPBoardData mem le junk"
    "\<lambda>mem. CWParseWTPBoardData mem le'" for le le' junk
proof (unfold_locales, goal_cases)
  case (2 w)
  then show ?case by (simp add: board_infos_def vendor_block_def info_bytes_def)
next
  case (3 mem w)
  then show ?case
    by (simp add: CWAssembleMsgElemWTPBoardData_def CWWTPGetBoardData_def board_infos_def
        vendor_block_def wtp_value_def info_bytes_def Let_def wire)
next
  case (4 mem w bs rest x)
  let ?vs = "board_infos le junk"
  have l: "length (infos_bytes False ?vs) = 24"
    using 4 by (simp add: board_infos_def vendor_block_def info_bytes_def)
  have "parse_vendor_infos mem (Some 23456) (board_conv le') (length bs) 28
      (rmsg (bs @ be32 23456) (infos_bytes (Some (23456 :: int) = None) ?vs @ rest) x) =
    Ret (map (info_view (Some 23456) (board_conv le')) ?vs,
         rmsg ((bs @ be32 23456) @ infos_bytes (Some (23456 :: int) = None) ?vs) rest x)"
    by (rule parse_vendor_infos_rmsg) (use 4 vendor_blocks_ok [of junk le] l in simp_all)
  then show ?case using l
    by (simp add: CWParseWTPBoardData_def parse_frame wire vendor_blocks_view)
qed simp

text \<open>
  The WTP's descriptor and its board data arrive at the AC: the number of radios modulo 256,
  the three versions and the two board informations, found by going over each element twice. A
  value is the four bytes of an int in the byte order of the WTP's host, and eight bytes are sent:
  the last four are what the WTP's heap held before (\<open>junk\<close>).
\<close>

theorem wtp_description_exchange:
  assumes "ample mem" and junk: "\<And>i. length (junk i) = 4"
  shows "(\<exists>e. CWAssembleMsgElemWTPDescriptor mem le junk w = Ret e \<and>
      read_element (\<lambda>_. CWParseWTPDescriptor mem le' enc) (rmsg bs (contents e @ rest) t) =
      Ret (\<lparr> maxRadios = int (length (gRadiosInfo w)) mod 256,
             radiosInUse = int (length (gRadiosInfo w)) mod 256, encCapabilities = Some 0,
             vendorInfos = map (\<lambda>(i, t, v). \<lparr> vendorIdentifier = 23456, info_type = t,
                 info_length = 8, valuePtr = int_bytes le v @ junk i \<rparr>)
               [(0, 0, 123456), (1, 1, 12347), (2, 2, 1234568)] \<rparr>,
           rmsg (bs @ contents e) rest t)) \<and>
    (\<exists>e. CWAssembleMsgElemWTPBoardData mem le junk = Ret e \<and>
      read_element (\<lambda>_. CWParseWTPBoardData mem le') (rmsg bs (contents e @ rest) t) =
      Ret (map (\<lambda>(i, t, v). \<lparr> vendorIdentifier = 23456, info_type = t, info_length = 8,
                 valuePtr = int_bytes le v @ junk i \<rparr>) [(0, 0, 123456), (1, 1, 123456)],
           rmsg (bs @ contents e) rest t))"
proof -
  have j: "\<forall>i. length (junk i) = 4" by (simp add: junk)
  show ?thesis
    using wtp_descriptor.roundtrip [OF assms(1) j,
        where parser = "\<lambda>_. CWParseWTPDescriptor mem le' enc" and bs = bs and rest = rest]
      board_data.roundtrip [OF assms(1) j,
        where parser = "\<lambda>_. CWParseWTPBoardData mem le'" and bs = bs and rest = rest]
    by (simp add: Let_def descriptor_infos_def board_infos_def vendor_block_def)
qed

theorem wtp_description_exchange_witness:
  "\<exists>e. CWAssembleMsgElemWTPBoardData (\<lambda>_. True) True (\<lambda>i. [1, 2, 3, of_nat i]) = Ret e \<and>
     read_element (\<lambda>_. CWParseWTPBoardData (\<lambda>_. True) False) (rmsg [] (contents e @ [7]) None) =
     Ret ([\<lparr> vendorIdentifier = 23456, info_type = 0, info_length = 8,
             valuePtr = int_bytes True 123456 @ [1, 2, 3, 0] \<rparr>,
           \<lparr> vendorIdentifier = 23456, info_type = 1, info_length = 8,
             valuePtr = int_bytes True 123456 @ [1, 2, 3, 1] \<rparr>], rmsg (contents e) [7] None)"
  using wtp_description_exchange [of "\<lambda>_. True" "\<lambda>i. [1, 2, 3, of_nat i]" True undefined False None
      "[]" "[7]" None]
  by (simp add: ample_def)

subsection \<open>Address lists: AC to WTP\<close>

lemma retrieve_words_rmsg [wire]:
  "retrieve_words (length ws) (rmsg bs (concat (map be32 ws) @ rest) t) =
   Ret (ws, rmsg (bs @ concat (map be32 ws)) rest t)"
  by (induction ws arbitrary: bs) (simp_all add: wire)

lemma retrieve_in6_rmsg [wire]:
  assumes "ample mem"
  shows "\<forall>a \<in> set as. length a = 16 \<Longrightarrow> retrieve_in6 mem (length as) (rmsg bs (concat as @ rest) t) =
    Ret (as, rmsg (bs @ concat as) rest t)"
  using assms by (induction as arbitrary: bs) (simp_all add: wire retrieve_copy_def)

lemma length_words: "length (concat (map be32 ws)) = 4 * length ws"
  by (induction ws) simp_all

lemma length_addresses: "\<forall>a \<in> set as. length a = 16 \<Longrightarrow> length (concat as) = 16 * length as"
  by (induction as) simp_all

lemma int_of_bytes_swap:
  assumes "length bs = 4"
  shows "be32 (int_of_bytes le bs) = (if le then rev bs else bs)"
    and "int_bytes le' (int_of_bytes le bs) = (if le' = le then bs else rev bs)"
  using assms by (cases le; cases le'; simp add: int_of_bytes_def int_bytes_def)+

interpretation ac_ipv4_list: msg_elem_exchange 2 "\<lambda>_. True"
    "\<lambda>_. concat (map be32 [int_of_bytes le [192, 168, 1, 2], int_of_bytes le [192, 168, 1, 66]])"
    "\<lambda>_. [int_of_bytes le [192, 168, 1, 2], int_of_bytes le [192, 168, 1, 66]]"
    "\<lambda>mem (_ :: unit). CWAssembleMsgElemACIPv4List mem le" CWParseACIPv4List for le
proof (unfold_locales, goal_cases)
  case (4 mem v bs rest t)
  let ?ws = "[int_of_bytes le [192, 168, 1, 2], int_of_bytes le [192, 168, 1, 66]] :: 32 word list"
  show ?case using 4 retrieve_words_rmsg [of ?ws bs rest t]
    by (simp add: CWParseACIPv4List_def parse_frame wire numeral_2_eq_2)
qed (simp_all add: CWAssembleMsgElemACIPv4List_def CWACGetACIPv4List_def wire)

definition ac_ipv6 :: "byte list list" where
  "ac_ipv6 = map (\<lambda>b. [0x5f, 0x1b, 0xdf, 0x00, 0xce, 0x3e, 0xe2, 0x00, 0x00, 0x20, 0x08, 0x00,
                       0x20, 0x78, 0xe3, b]) [0xe3, 0xe4]"

interpretation ac_ipv6_list: msg_elem_exchange 3 "\<lambda>_. True" "\<lambda>_. concat ac_ipv6" "\<lambda>_. ac_ipv6"
    "\<lambda>mem (_ :: unit). CWAssembleMsgElemACIPv6List mem" CWParseACIPv6List
proof (unfold_locales, goal_cases)
  case (4 mem v bs rest t)
  then show ?case using retrieve_in6_rmsg [of mem ac_ipv6 bs rest t]
    by (simp add: CWParseACIPv6List_def parse_frame wire numeral_2_eq_2 ac_ipv6_def)
qed (simp_all add: CWAssembleMsgElemACIPv6List_def CWACGetACIPv6List_def ac_ipv6_def Let_def wire)

text \<open>
  The AC's lists of addresses. The IPv6 addresses arrive as they are. An IPv4 address is held
  in network order and stored with a conversion to network order: a little-endian AC puts its bytes
  on the wire backwards, and the WTP's \<^verbatim>\<open>s_addr\<close> is the address exactly when its host has the AC's
  byte order.
\<close>

theorem ac_address_lists_exchange:
  assumes "ample mem"
  shows "(\<exists>e. CWAssembleMsgElemACIPv4List mem le = Ret e \<and>
      contents e = be16 2 @ be16 8 @
        (if le then [2, 1, 168, 192, 66, 1, 168, 192] else [192, 168, 1, 2, 192, 168, 1, 66]) \<and>
      (\<exists>as. read_element (\<lambda>_. CWParseACIPv4List mem) (rmsg bs (contents e @ rest) t) =
              Ret (as, rmsg (bs @ contents e) rest t) \<and>
            map (int_bytes le') as =
              (if le' = le then [[192, 168, 1, 2], [192, 168, 1, 66]]
               else [[2, 1, 168, 192], [66, 1, 168, 192]]))) \<and>
    (\<exists>e. CWAssembleMsgElemACIPv6List mem = Ret e \<and>
      read_element (\<lambda>_. CWParseACIPv6List mem) (rmsg bs (contents e @ rest) t) =
        Ret (map (\<lambda>b. [0x5f, 0x1b, 0xdf, 0x00, 0xce, 0x3e, 0xe2, 0x00, 0x00, 0x20, 0x08, 0x00,
                       0x20, 0x78, 0xe3, b]) [0xe3, 0xe4], rmsg (bs @ contents e) rest t))"
proof -
  let ?ws = "[int_of_bytes le [192, 168, 1, 2], int_of_bytes le [192, 168, 1, 66]] :: 32 word list"
  let ?b = "concat (map be32 ?ws)"
  have v4: "read_element (\<lambda>_. CWParseACIPv4List mem) (rmsg bs (elem_bytes 2 ?b @ rest) t) =
      Ret (?ws, rmsg (bs @ elem_bytes 2 ?b) rest t)"
    by (rule ac_ipv4_list.received [OF assms TrueI refl])
  have w: "?b = (if le then [2, 1, 168, 192, 66, 1, 168, 192] else [192, 168, 1, 2, 192, 168, 1, 66])"
    "map (int_bytes le') ?ws =
      (if le' = le then [[192, 168, 1, 2], [192, 168, 1, 66]] else [[2, 1, 168, 192], [66, 1, 168, 192]])"
    by (simp_all add: int_of_bytes_swap)
  have e: "elem_bytes 2 ?b = be16 2 @ be16 8 @ ?b" by (simp add: elem_bytes_def)
  have "\<exists>e. CWAssembleMsgElemACIPv4List mem le = Ret e \<and> contents e = be16 2 @ be16 8 @ ?b \<and>
      (\<exists>as. read_element (\<lambda>_. CWParseACIPv4List mem) (rmsg bs (contents e @ rest) t) =
              Ret (as, rmsg (bs @ contents e) rest t) \<and> map (int_bytes le') as = map (int_bytes le') ?ws)"
    by (intro exI [of _ "elem_msg 2 ?b"] conjI exI [of _ ?ws])
       (simp_all only: contents_elem_msg e ac_ipv4_list.assemble_law [OF assms TrueI] v4 [unfolded e])
  then show ?thesis
    using ac_ipv6_list.roundtrip [OF assms TrueI, where parser = "\<lambda>_. CWParseACIPv6List mem"
        and bs = bs and rest = rest and x = t]
    by (simp only: w ac_ipv6_def)
qed

theorem ac_address_lists_exchange_witness:
  "\<exists>e. CWAssembleMsgElemACIPv4List (\<lambda>_. True) True = Ret e \<and>
    contents e = be16 2 @ be16 8 @ [2, 1, 168, 192, 66, 1, 168, 192] \<and>
    (\<exists>as. read_element (\<lambda>_. CWParseACIPv4List (\<lambda>_. True)) (rmsg [] (contents e @ []) None) =
            Ret (as, rmsg ([] @ contents e) [] None) \<and>
          map (int_bytes False) as = [[2, 1, 168, 192], [66, 1, 168, 192]])"
proof -
  have a: "ample (\<lambda>_. True)" by (simp add: ample_def)
  show ?thesis
    using conjunct1 [OF ac_address_lists_exchange [OF a, of True "[]" "[]" None False]]
    by (simp only: simp_thms if_True if_False)
qed

end
