(* ===== verification/ControlMessages.thy ===== *)
theory ControlMessages
  imports ReportExchange Fragments
begin

section \<open>The shape of the message functions of AC and WTP\<close>

text \<open>
  Every message of the protocol is parsed the same way: the control header, the expected type, and
  a loop that takes one element after the other and hands it to the branch of a \<^verbatim>\<open>switch\<close> on its
  type, until the length from the control header is reached or passed. The loop is here, with the
  \<^verbatim>\<open>switch\<close> as an argument; the messages are in the theories that follow.

  The loop need not end: a branch may leave the offset where it was. So its value is an option, and
  \<open>None\<close> is a loop without end.
\<close>

subsection \<open>Running in sequence\<close>

definition run_bind :: "'a res option \<Rightarrow> ('a \<Rightarrow> 'b res option) \<Rightarrow> 'b res option" where
  "run_bind r f =
     (case r of None \<Rightarrow> None | Some (Ret x) \<Rightarrow> f x | Some (Raise e) \<Rightarrow> Some (Raise e)
      | Some Fault \<Rightarrow> Some Fault)"

lemma run_bind_simps [simp]:
  "run_bind None f = None"
  "run_bind (Some (Ret x)) f = f x"
  "run_bind (Some (Raise e)) f = Some (Raise e)"
  "run_bind (Some Fault) f = Some Fault"
  by (simp_all add: run_bind_def)

lemma run_bind_None_iff: "run_bind r f = None \<longleftrightarrow> r = None \<or> (\<exists>x. r = Some (Ret x) \<and> f x = None)"
  by (auto simp: run_bind_def split: option.splits res.splits)

subsection \<open>The loop over the elements of a message\<close>

partial_function (option) parse_elements ::
  "('s \<Rightarrow> 16 word \<Rightarrow> CWProtocolMessage \<Rightarrow> int \<Rightarrow> ('s \<times> CWProtocolMessage) res) \<Rightarrow> nat \<Rightarrow> int \<Rightarrow> 's \<Rightarrow>
   CWProtocolMessage \<Rightarrow> ('s \<times> CWProtocolMessage) res option" where
  "parse_elements branch start len s m =
     (if int (offset m) - int start < len then
        case res_bind (CWParseFormatMsgElem m) (\<lambda>((t, l), m). branch s t m (uint l)) of
          Ret sm \<Rightarrow> parse_elements branch start len (fst sm) (snd sm)
        | Raise e \<Rightarrow> Some (Raise e)
        | Fault \<Rightarrow> Some Fault
      else Some (Ret (s, m)))"

lemma parse_elements_end:
  "len \<le> int (offset m) - int start \<Longrightarrow> parse_elements branch start len s m = Some (Ret (s, m))"
  by (subst parse_elements.simps) simp

text \<open>One element: its branch gets the message right after the element's header.\<close>

lemma parse_elements_step:
  assumes "int (length bs) - int start < len" "length body < 65536"
    and "branch s (ucast t) (rmsg (bs @ be16 (ucast t) @ be16 (word_of_nat (length body))) (body @ rest) x)
           (int (length body)) = Ret (s', rmsg (bs @ elem_bytes t body) rest x)"
  shows "parse_elements branch start len s (rmsg bs (elem_bytes t body @ rest) x) =
    parse_elements branch start len s' (rmsg (bs @ elem_bytes t body) rest x)"
proof -
  have "uint (word_of_nat (length body) :: 16 word) = int (length body)"
    using assms(2) by (simp add: unsigned_of_nat take_bit_nat_eq_self_iff)
  then show ?thesis
    using assms(1,3) by (subst parse_elements.simps) (simp add: CWParseFormatMsgElem_def wire elem_bytes_def)
qed

text \<open>Two kinds of branch: one that jumps over the element, and one that calls a parse function.\<close>

lemma parse_elements_skip:
  assumes "int (length bs) - int start < len" "length body < 65536"
    and "\<And>m l. branch s (ucast t) m l = Ret (s', m\<lparr>offset := offset m + nat l\<rparr>)"
  shows "parse_elements branch start len s (rmsg bs (elem_bytes t body @ rest) x) =
    parse_elements branch start len s' (rmsg (bs @ elem_bytes t body) rest x)"
  by (rule parse_elements_step [OF assms(1,2)]) (simp add: assms(3) rmsg_def elem_bytes_def)

text \<open>
  A list of elements, pairs of a type and a body: \<open>upd\<close> is what an element makes of the state, which its branch is only
  asked for in the state the elements before it have left.
\<close>

abbreviation elems_bytes :: "(32 word \<times> byte list) list \<Rightarrow> byte list" where
  "elems_bytes es \<equiv> concat (map (\<lambda>e. elem_bytes (fst e) (snd e)) es)"

lemma parse_elements_list:
  assumes "\<forall>e \<in> set es. length (snd e) < 65536" "int (length bs) - int start + int (length (elems_bytes es)) \<le> len"
    and "\<And>pre t b post bs rest. es = pre @ (t, b) # post \<Longrightarrow>
      branch (fold upd pre s) (ucast t) (rmsg (bs @ be16 (ucast t) @ be16 (word_of_nat (length b))) (b @ rest) x)
        (int (length b)) = Ret (upd (t, b) (fold upd pre s), rmsg (bs @ elem_bytes t b) rest x)"
  shows "parse_elements branch start len s (rmsg bs (elems_bytes es @ rest) x) =
    parse_elements branch start len (fold upd es s) (rmsg (bs @ elems_bytes es) rest x)"
  using assms
proof (induction es arbitrary: s bs)
  case (Cons e es)
  obtain t b where e: "e = (t, b)" by (cases e)
  have l: "int (length bs) - int start < len" "length b < 65536" using Cons.prems(1,2) e by auto
  have "parse_elements branch start len s (rmsg bs (elem_bytes t b @ elems_bytes es @ rest) x) =
      parse_elements branch start len (upd e s) (rmsg (bs @ elem_bytes t b) (elems_bytes es @ rest) x)"
    using Cons.prems(3) [of "[]" t b es] by (intro parse_elements_step [OF l]) (simp add: e)
  also have "\<dots> = parse_elements branch start len (fold upd es (upd e s)) (rmsg ((bs @ elem_bytes t b) @ elems_bytes es) rest x)"
  proof (rule Cons.IH)
    show "branch (fold upd pre (upd e s)) (ucast t') (rmsg (bs' @ be16 (ucast t') @ be16 (word_of_nat (length b'))) (b' @ rest') x)
        (int (length b')) = Ret (upd (t', b') (fold upd pre (upd e s)), rmsg (bs' @ elem_bytes t' b') rest' x)"
      if "es = pre @ (t', b') # post" for pre t' b' post bs' rest'
      using Cons.prems(3) [of "e # pre" t' b' post bs' rest'] that by simp
  qed (use Cons.prems(1,2) e in auto)
  finally show ?case by (simp add: e)
qed simp

context msg_elem_exchange
begin

lemma parse_elements_exchange:
  assumes "ample mem" "ok v" "int (length bs) - int start < len"
    and "\<And>m l. branch s (ucast type) m l = res_bind (parse mem m l) (\<lambda>(r, m). Ret (upd r, m))"
  shows "parse_elements branch start len s (rmsg bs (elem_bytes type (body v) @ rest) x) =
    parse_elements branch start len (upd (view v)) (rmsg (bs @ elem_bytes type (body v)) rest x)"
proof (rule parse_elements_step [OF assms(3)])
  show "length (body v) < 65536" using body_fits [OF assms(2)] by simp
  show "branch s (ucast type)
     (rmsg (bs @ be16 (ucast type) @ be16 (word_of_nat (length (body v)))) (body v @ rest) x) (int (length (body v))) =
    Ret (upd (view v), rmsg (bs @ elem_bytes type (body v)) rest x)"
    using parse_law [OF assms(1,2)] by (simp add: assms(4) elem_bytes_def)
qed

end

text \<open>
  The branches of the messages go forward: they never set the offset back and leave the block's
  size alone. Then the loop ends, and what it reads lies in the block.
\<close>

locale forward_branch =
  fixes branch :: "'s \<Rightarrow> 16 word \<Rightarrow> CWProtocolMessage \<Rightarrow> int \<Rightarrow> ('s \<times> CWProtocolMessage) res"
  assumes forward: "branch s t m l = Ret (s', m') \<Longrightarrow> 0 \<le> l \<Longrightarrow> offset m \<le> offset m'"
begin

lemma element_forward:
  assumes "res_bind (CWParseFormatMsgElem m) (\<lambda>((t, l), m). branch s t m (uint l)) = Ret (s', m')"
  shows "offset m + 4 \<le> offset m'"
  using assms forward
  by (fastforce simp: CWParseFormatMsgElem_def res_simps dest!: retrieve_offset)

lemma elements_end: "parse_elements branch start len s m \<noteq> None"
proof (induction "nat (len - (int (offset m) - int start))" arbitrary: s m rule: less_induct)
  case less
  show ?case
  proof (cases "res_bind (CWParseFormatMsgElem m) (\<lambda>((t, l), m). branch s t m (uint l))")
    case (Ret sm)
    then have "offset m + 4 \<le> offset (snd sm)" using element_forward [of m s "fst sm" "snd sm"] by simp
    then show ?thesis using less [of "snd sm" "fst sm"] Ret by (subst parse_elements.simps) auto
  qed (subst parse_elements.simps; simp)+
qed

end

text \<open>Branches that call a framed parse function, or jump over the element, go forward.\<close>

lemma framed_offset:
  "CWParseMessageElement body m l = Ret (v, m') \<Longrightarrow> int (offset m') = int (offset m) + l"
  by (auto simp: CWParseMessageElement_def res_simps split: if_splits)

subsection \<open>The start of a message\<close>

text \<open>
  The first lines of every parse function: the control header is read from the start of the buffer,
  the message must be of the expected type, and three bytes are taken from the unsigned 16-bit
  length of the elements. The results are the sequence number, the length of the elements and the
  message positioned at its first element.
\<close>

definition parse_control ::
  "32 word \<Rightarrow> CWProtocolMessage \<Rightarrow> (byte \<times> int \<times> CWProtocolMessage) res" where
  "parse_control type m =
     res_bind (CWParseControlHeader m) (\<lambda>(c, m).
     if messageTypeValue c \<noteq> type then Raise CW_ERROR_INVALID_FORMAT
     else Ret (seqNum c, uint (msgElemsLen c - 3), m))"

definition parse_message_header ::
  "32 word \<Rightarrow> byte list \<Rightarrow> (byte \<times> int \<times> CWProtocolMessage) res" where
  "parse_message_header type bytes = parse_control type \<lparr> msg = bytes, offset = 0, data_msgType = None \<rparr>"

text \<open>
  The array of the elements of a message has a fixed number of entries, which are empty at first;
  the entries are assembled one after the other, and an element beyond the array is written past
  its block.
\<close>

definition no_message :: CWProtocolMessage where
  "no_message = \<lparr> msg = [], offset = 0, data_msgType = None \<rparr>"

fun fill_elements :: "nat \<Rightarrow> CWProtocolMessage res list \<Rightarrow> CWProtocolMessage list res" where
  "fill_elements n [] = Ret (replicate n no_message)"
| "fill_elements 0 (e # es) = Fault"
| "fill_elements (Suc n) (e # es) =
     res_bind e (\<lambda>m. res_bind (fill_elements n es) (\<lambda>ms. Ret (m # ms)))"

definition message_elements :: "CWProtocolMessage list \<Rightarrow> byte list" where
  "message_elements es = concat (map contents es)"

definition message_header :: "byte \<Rightarrow> 32 word \<Rightarrow> nat \<Rightarrow> byte list" where
  "message_header seq type n =
     control_header_bytes \<lparr> messageTypeValue = type, seqNum = seq, msgElemsLen = word_of_nat n \<rparr>"

lemma length_message_header [simp]: "length (message_header seq type n) = 8"
  by (simp add: message_header_def)

lemma message_bytes_eq:
  "message_bytes seq type es [] =
   message_header seq type (length (message_elements es)) @ message_elements es"
  by (simp add: message_bytes_def message_header_def message_elements_def Let_def)

lemma parse_control_eq:
  assumes "n < 65536"
  shows "parse_control t (rmsg bs (message_header seq type n @ rest) x) =
    (if type = t then Ret (seq, int n, rmsg (bs @ message_header seq type n) rest x)
     else Raise CW_ERROR_INVALID_FORMAT)"
proof -
  have "uint (word_of_nat n :: 16 word) = int n"
    using assms by (simp add: unsigned_of_nat take_bit_nat_eq_self_iff)
  then show ?thesis by (simp add: parse_control_def message_header_def CWParseControlHeader_eq)
qed

lemma parse_message_header_eq:
  assumes "n < 65536"
  shows "parse_message_header t (message_header seq type n @ rest) =
    (if type = t then Ret (seq, int n, rmsg (message_header seq type n) rest None)
     else Raise CW_ERROR_INVALID_FORMAT)"
  using parse_control_eq [OF assms, of t "[]" seq type rest None]
  by (simp add: parse_message_header_def rmsg_def)

lemma fill_elements_Ret:
  "fill_elements n (map Ret ms) =
   (if length ms \<le> n then Ret (ms @ replicate (n - length ms) no_message) else Fault)"
proof (induction ms arbitrary: n)
  case (Cons m ms)
  then show ?case by (cases n) auto
qed simp

lemma fill_elements_Fault: "fill_elements n (map Ret ms @ Fault # es) = Fault"
proof (induction ms arbitrary: n)
  case Nil
  show ?case by (cases n) auto
next
  case (Cons m ms)
  then show ?case by (cases n) auto
qed

lemma no_message_simps [simp]: "well_formed no_message" "contents no_message = []"
  by (simp_all add: no_message_def well_formed_def contents_def)

subsection \<open>The way of a message\<close>

text \<open>
  A message that is assembled, whether it fits one packet or is cut into fragments, arrives: the
  packets may come in any order and any number of times. This is the transport that the messages
  of the following theories use.
\<close>

lemma message_delivered_binding:
  assumes "ample mem" "list_all well_formed es" "list_all well_formed bs" "mac_room mac_ptr"
    and "body = message_bytes seq type es bs" "length body \<le> 65536" "0 \<le> fid" "fid < 65536"
    and "n = control_fragments PMTU (length body)" "insert j (set js) = {..<n}" "j \<notin> set js"
  shows "\<exists>pkts mac'. CWAssembleMessage mem mac fid garbage PMTU seq type es bs is_crypted = Ret pkts \<and>
    length pkts = n \<and>
    receive_all mem (map (\<lambda>i. received (contents (pkts ! i)) (junk i)) (js @ [j])) [] mac_ptr =
      Some (replicate (length js) (Raise CW_ERROR_NEED_RESOURCE) @ [Ret (amsg None body 0)], [], mac')"
proof (cases "n = 1")
  case True
  have "insert j (set js) = {0}" using assms(10) True by (simp only: lessThan_Suc lessThan_0 One_nat_def)
  then have "j = 0" "set js \<subseteq> {0}" by blast+
  then have js: "js = []" "j = 0" using assms(11) by (cases js; simp)+
  let ?v = "plain_values is_crypted 0 0"
  have v: "bindingValuesPtr ?v = None" "take_bit 1 (isFragment ?v) = 0" by (simp_all add: plain_values_def)
  have "CWAssembleMessage mem mac fid garbage PMTU seq type es bs is_crypted =
      Ret [wmsg (header_bytes mac ?v @ body) 0]"
    using CWAssembleMessage_eq [OF assms(1,2,3,5) refl refl refl] True assms(9) by simp
  then show ?thesis
    using receive_single [OF assms(1,4) v, of mac body "junk 0" "[]"] True by (simp add: js)
next
  case False
  obtain q where q: "control_pmtu PMTU = 8 * q" using control_pmtu_8 by blast
  let ?fid = "word_of_int fid :: 32 word"
  let ?p = "packet mac is_crypted garbage body q n ?fid"
  let ?pkts = "map (\<lambda>i. wmsg (header_bytes mac (frag_values (plain_values is_crypted garbage ?fid) (8 * q) n i)
    @ chunk body (8 * q) i) 0) [0..<n]"
  have ok: "frag_ok body q n ?fid"
    using message_frag_ok [OF assms(9) False _ assms(6) q assms(7,8)] message_bytes_pos assms(5) by simp
  have a: "CWAssembleMessage mem mac fid garbage PMTU seq type es bs is_crypted = Ret ?pkts"
    using CWAssembleMessage_eq [OF assms(1,2,3,5,9) q [symmetric] refl] False by simp
  have h: "holds body q n ?fid [] []" by (simp add: holds_def)
  from receive_message [OF assms(1,4) ok h assms(10,11), of ?p mac is_crypted garbage junk]
  obtain mac' where r: "receive_all mem (map (\<lambda>j. received (?p j) (junk j)) (js @ [j])) [] mac_ptr =
      Some (replicate (length js) (Raise CW_ERROR_NEED_RESOURCE) @ [Ret (amsg None body 0)], [], mac')"
    by blast
  have "contents (?pkts ! i) = ?p i" if "i \<in> set (js @ [j])" for i
    using that assms(10) by (auto simp: packet_def)
  then have eq: "map (\<lambda>i. received (contents (?pkts ! i)) (junk i)) (js @ [j]) =
      map (\<lambda>j. received (?p j) (junk j)) (js @ [j])" by (intro map_cong) simp_all
  have "length ?pkts = n" by simp
  with a r show ?thesis unfolding eq [symmetric] by blast
qed

lemma message_delivered:
  assumes "ample mem" "list_all well_formed es" "mac_room mac_ptr"
    and "body = message_bytes seq type es []" "length body \<le> 65536" "0 \<le> fid" "fid < 65536"
    and "n = control_fragments PMTU (length body)" "insert j (set js) = {..<n}" "j \<notin> set js"
  shows "\<exists>pkts mac'. CWAssembleMessage mem mac fid garbage PMTU seq type es [] is_crypted = Ret pkts \<and>
    length pkts = n \<and>
    receive_all mem (map (\<lambda>i. received (contents (pkts ! i)) (junk i)) (js @ [j])) [] mac_ptr =
      Some (replicate (length js) (Raise CW_ERROR_NEED_RESOURCE) @ [Ret (amsg None body 0)], [], mac')"
  by (rule message_delivered_binding [OF assms(1,2) _ assms(3-10)]) simp

end
