(* ===== verification/DataCheck.thy ===== *)
theory DataCheck
  imports ControlMessages
begin

section \<open>Change State Event: ACDataCheckState.c and WTPDataCheckState.c\<close>

text \<open>
  The last exchange before the Run state: the WTP tells the operational state of its radios, the AC
  notes them and answers with an empty message. Both daemons are built without DTLS, so the messages
  are sent plain.
\<close>

subsection \<open>The request: WTP\<close>

definition CWAssembleChangeStateEventRequest ::
  "memory \<Rightarrow> eth \<Rightarrow> int \<Rightarrow> 32 word \<Rightarrow> int \<Rightarrow> byte \<Rightarrow> wtp_globals \<Rightarrow> CWProtocolMessage list res" where
  "CWAssembleChangeStateEventRequest mem mac fid garbage PMTU seq w =
     (if \<not> malloc_ok mem (message_size * 2) then Raise CW_ERROR_OUT_OF_MEMORY
      else res_bind (CWAssembleMsgElemRadioOperationalState_WTP mem w (-1)) (\<lambda>e1.
           res_bind (CWAssembleMsgElemResultCode mem (code_value CW_PROTOCOL_SUCCESS)) (\<lambda>e2.
           CWAssembleMessage mem mac fid garbage PMTU seq 11 [e1, e2] [] 0)))"

subsection \<open>The request: AC\<close>

text \<open>The result code is \<open>None\<close> while no element has set it.\<close>

record CWProtocolChangeStateEventRequestValues =
  radioOperationalInfo :: "CWRadioOperationalInfoValues list"
  cs_resultCode :: "32 word option"

text \<open>The first pass counts the radios and reads the result code, the second reads the radios.\<close>

definition count_branch ::
  "nat \<times> 32 word option \<Rightarrow> 16 word \<Rightarrow> CWProtocolMessage \<Rightarrow> int \<Rightarrow>
   ((nat \<times> 32 word option) \<times> CWProtocolMessage) res" where
  "count_branch s elemType m elemLen =
     (if elemType = 32 then Ret ((Suc (fst s), snd s), m\<lparr>offset := offset m + nat elemLen\<rparr>)
      else if elemType = 33 then
        res_bind (CWParseResultCode m elemLen) (\<lambda>(c, m). Ret ((fst s, Some c), m))
      else Raise CW_ERROR_INVALID_FORMAT)"

definition read_branch ::
  "nat \<Rightarrow> CWRadioOperationalInfoValues list \<Rightarrow> 16 word \<Rightarrow> CWProtocolMessage \<Rightarrow> int \<Rightarrow>
   (CWRadioOperationalInfoValues list \<times> CWProtocolMessage) res" where
  "read_branch n rs type m len =
     (if type = 32 then
        if length rs < n
        then res_bind (CWParseWTPRadioOperationalState m len) (\<lambda>(r, m). Ret (rs @ [r], m))
        else Fault
      else Ret (rs, m\<lparr>offset := offset m + nat len\<rparr>))"

definition CWParseChangeStateEventRequestMessage ::
  "memory \<Rightarrow> byte list \<Rightarrow> int \<Rightarrow> (byte \<times> CWProtocolChangeStateEventRequestValues) res option" where
  "CWParseChangeStateEventRequestMessage mem bytes len =
     run_bind (Some (parse_message_header 11 bytes)) (\<lambda>(seq, elemsLen, m).
     run_bind (parse_elements count_branch (offset m) elemsLen (0, None) m) (\<lambda>((n, code), m').
     if int (offset m') \<noteq> len then Some (Raise CW_ERROR_INVALID_FORMAT)
     else if \<not> malloc_ok mem (12 * int n) then Some (Raise CW_ERROR_OUT_OF_MEMORY)
     else run_bind (parse_elements (read_branch n) (offset m) elemsLen [] m) (\<lambda>(rs, m').
       Some (Ret (seq, \<lparr> radioOperationalInfo = rs, cs_resultCode = code \<rparr>)))))"

text \<open>
  Every reported radio is looked for among the WTP's radios, and its states are noted. The test
  \<^verbatim>\<open>if(!found)\<close> stands inside the loop over the WTP's radios.
\<close>

fun save_radio ::
  "CWRadioOperationalInfoValues \<Rightarrow> bool \<Rightarrow> CWWTPRadioInfoValues list \<Rightarrow> CWWTPRadioInfoValues list \<times> bool" where
  "save_radio o' found [] = ([], True)"
| "save_radio o' found (r # rs) =
     (let match = radio_radioID r = oper_ID o';
          r' = (if match then r\<lparr> radio_operationalState := oper_state o',
                                radio_operationalCause := oper_cause o' \<rparr> else r);
          (rs', ok) = save_radio o' (found \<or> match) rs
      in (r' # rs', (found \<or> match) \<and> ok))"

fun save_radios ::
  "CWRadioOperationalInfoValues list \<Rightarrow> CWWTPRadioInfoValues list \<Rightarrow> CWWTPRadioInfoValues list \<times> bool" where
  "save_radios [] rs = (rs, True)"
| "save_radios (o' # os) rs =
     (let (rs, ok) = save_radio o' False rs; (rs, ok') = save_radios os rs in (rs, ok \<and> ok'))"

definition CWSaveChangeStateEventRequestMessage ::
  "CWProtocolChangeStateEventRequestValues \<Rightarrow> CWWTPRadioInfoValues list \<Rightarrow>
   CWWTPRadioInfoValues list \<times> bool" where
  "CWSaveChangeStateEventRequestMessage v radios = save_radios (radioOperationalInfo v) radios"

subsection \<open>The response\<close>

definition CWAssembleChangeStateEventResponse ::
  "memory \<Rightarrow> eth \<Rightarrow> int \<Rightarrow> 32 word \<Rightarrow> int \<Rightarrow> byte \<Rightarrow> CWProtocolMessage list res" where
  "CWAssembleChangeStateEventResponse mem mac fid garbage PMTU seq =
     CWAssembleMessage mem mac fid garbage PMTU seq 12 [] [] 0"

definition CWParseChangeStateEventResponseMessage :: "byte list \<Rightarrow> int \<Rightarrow> byte \<Rightarrow> unit res" where
  "CWParseChangeStateEventResponseMessage bytes len seq =
     res_bind (parse_message_header 12 bytes) (\<lambda>(s, elemsLen, m).
       if s \<noteq> seq then Raise CW_ERROR_INVALID_FORMAT
       else if elemsLen \<noteq> 0 then Raise CW_ERROR_INVALID_FORMAT
       else Ret ())"

subsection \<open>Both passes over the request end\<close>

interpretation cs_count: forward_branch count_branch
  by unfold_locales
     (auto simp: count_branch_def CWParseResultCode_def res_simps split: if_splits dest!: framed_offset)

interpretation cs_read: forward_branch "read_branch n" for n
  by unfold_locales
     (auto simp: read_branch_def CWParseWTPRadioOperationalState_def res_simps
       split: if_splits dest!: framed_offset)

lemma CWParseChangeStateEventRequestMessage_end:
  "CWParseChangeStateEventRequestMessage mem bytes len \<noteq> None"
  by (auto simp: CWParseChangeStateEventRequestMessage_def run_bind_None_iff
      cs_count.elements_end cs_read.elements_end simp del: not_None_eq split: prod.splits if_splits)

subsection \<open>The radios arrive\<close>

abbreviation byte_view :: "CWRadioOperationalInfoValues \<Rightarrow> CWRadioOperationalInfoValues" where
  "byte_view r \<equiv> \<lparr> oper_ID = oper_ID r mod 256, oper_state = oper_state r mod 256,
                    oper_cause = oper_cause r mod 256 \<rparr>"

definition state_elem :: "CWRadioOperationalInfoValues \<Rightarrow> byte list" where
  "state_elem r = elem_bytes 32
     [word_of_int (oper_ID r), word_of_int (oper_state r), word_of_int (oper_cause r)]"

lemma length_state_elem [simp]: "length (state_elem r) = 7"
  by (simp add: state_elem_def)

lemma length_state_elems [simp]: "length (concat (map state_elem rs)) = 7 * length rs"
  by (induction rs) simp_all

lemma count_states:
  assumes "int (length bs) - int start + 7 * int (length rs) \<le> len"
  shows "parse_elements count_branch start len (n, c) (rmsg bs (concat (map state_elem rs) @ rest) x) =
    parse_elements count_branch start len (n + length rs, c)
      (rmsg (bs @ concat (map state_elem rs)) rest x)"
  using assms
proof (induction rs arbitrary: bs n)
  case (Cons r rs)
  have "parse_elements count_branch start len (n, c)
      (rmsg bs (state_elem r @ concat (map state_elem rs) @ rest) x) =
    parse_elements count_branch start len (Suc n, c)
      (rmsg (bs @ state_elem r) (concat (map state_elem rs) @ rest) x)"
    unfolding state_elem_def
    by (rule parse_elements_step)
       (use Cons.prems in \<open>simp_all add: count_branch_def rmsg_def elem_bytes_def\<close>)
  then show ?case using Cons.IH [of "bs @ state_elem r" "Suc n"] Cons.prems by simp
qed simp

lemma read_states:
  assumes "int (length bs) - int start + 7 * int (length rs) \<le> len" "length ds + length rs \<le> n"
  shows "parse_elements (read_branch n) start len ds (rmsg bs (concat (map state_elem rs) @ rest) x) =
    parse_elements (read_branch n) start len (ds @ map byte_view rs)
      (rmsg (bs @ concat (map state_elem rs)) rest x)"
  using assms
proof (induction rs arbitrary: bs ds)
  case (Cons r rs)
  have "parse_elements (read_branch n) start len ds
      (rmsg bs (state_elem r @ concat (map state_elem rs) @ rest) x) =
    parse_elements (read_branch n) start len (ds @ [byte_view r])
      (rmsg (bs @ state_elem r) (concat (map state_elem rs) @ rest) x)"
    unfolding state_elem_def
    by (rule parse_elements_step)
       (use Cons.prems in \<open>simp_all add: read_branch_def CWParseWTPRadioOperationalState_def parse_frame
          wire field_values elem_bytes_def\<close>)
  then show ?case using Cons.IH [of "bs @ state_elem r" "ds @ [byte_view r]"] Cons.prems by simp
qed simp

text \<open>The bytes of the request, and what the AC makes of them.\<close>

lemma radio_states_eq [wire]:
  "ample mem \<Longrightarrow> CWAssembleMsgElemRadioOperationalState_WTP mem w (-1) =
   Ret (wmsg (concat (map state_elem (map wtp_oper_info (gRadiosInfo w)))) 0)"
  unfolding state_elem_def
  by (simp add: CWAssembleMsgElemRadioOperationalState_WTP_def CWGetWTPRadiosOperationalState_WTP_def
      ample_malloc assemble_each_eq assemble_elem_eq)

abbreviation cs_elements :: "CWRadioOperationalInfoValues list \<Rightarrow> byte list" where
  "cs_elements rs \<equiv> concat (map state_elem rs) @ elem_bytes 33 (be32 0)"

lemma parse_change_state_request:
  assumes "ample mem" "length rs < 9000"
  shows "CWParseChangeStateEventRequestMessage mem
      (message_header seq 11 (length (cs_elements rs)) @ cs_elements rs @ junk)
      (int (8 + length (cs_elements rs))) =
    Some (Ret (seq, \<lparr> radioOperationalInfo = map byte_view rs, cs_resultCode = Some 0 \<rparr>))"
proof -
  let ?h = "message_header seq 11 (length (cs_elements rs))" and ?e = "elem_bytes 33 (be32 0)"
  let ?n = "length rs" and ?len = "int (length (cs_elements rs))"
  have code: "parse_elements count_branch 8 ?len s (rmsg bs (?e @ junk) None) =
      Some (Ret ((fst s, Some 0), rmsg (bs @ ?e) junk None))"
    if "int (length bs) = ?len" for s bs
    using that
    by (subst parse_elements_step [where s' = "(fst s, Some 0)"])
       (auto simp: count_branch_def CWParseResultCode_def parse_frame wire elem_bytes_def
         intro!: parse_elements_end)
  have skip: "parse_elements (read_branch ?n) 8 ?len s (rmsg bs (?e @ junk) None) =
      Some (Ret (s, rmsg (bs @ ?e) junk None))"
    if "int (length bs) = ?len" for s bs
    using that
    by (subst parse_elements_step [where s' = s])
       (auto simp: read_branch_def rmsg_def elem_bytes_def intro!: parse_elements_end)
  have l: "length (cs_elements rs) < 65536" using assms(2) by simp
  show ?thesis
    using assms count_states [of ?h 8 rs ?len 0 None "?e @ junk" None]
      read_states [of ?h 8 rs ?len "[]" ?n "?e @ junk" None]
      code [of "?h @ concat (map state_elem rs)"] skip [of "?h @ concat (map state_elem rs)"]
    by (simp add: CWParseChangeStateEventRequestMessage_def parse_message_header_eq l ample_malloc)
qed

lemma change_state_delivered:
  assumes "ample mem" "length (gRadiosInfo w) < 9000" "mac_room mac_ptr" "0 \<le> fid" "fid < 65536"
    and "n = control_fragments PMTU (16 + 7 * length (gRadiosInfo w))"
    and "insert j (set js) = {..<n}" "j \<notin> set js"
  shows "\<exists>pkts mac' m. CWAssembleChangeStateEventRequest mem mac fid garbage PMTU seq w = Ret pkts \<and>
      length pkts = n \<and>
      receive_all mem (map (\<lambda>i. received (contents (pkts ! i)) (junk i)) (js @ [j])) [] mac_ptr =
        Some (replicate (length js) (Raise CW_ERROR_NEED_RESOURCE) @ [Ret m], [], mac') \<and>
      CWParseChangeStateEventRequestMessage mem (msg m) (int (offset m)) =
        Some (Ret (seq, \<lparr> radioOperationalInfo =
                 map (\<lambda>r. \<lparr> oper_ID = radio_radioID r mod 256, oper_state = radio_operationalState r mod 256,
                           oper_cause = radio_operationalCause r mod 256 \<rparr>) (gRadiosInfo w),
               cs_resultCode = Some 0 \<rparr>))"
proof -
  let ?rs = "map wtp_oper_info (gRadiosInfo w)"
  let ?e1 = "wmsg (concat (map state_elem ?rs)) 0" and ?e2 = "elem_msg 33 (be32 0)"
  let ?body = "message_header seq 11 (length (cs_elements ?rs)) @ cs_elements ?rs"
  have body: "?body = message_bytes seq 11 [?e1, ?e2] []"
    by (simp add: message_bytes_eq message_elements_def)
  have len: "length ?body = 16 + 7 * length (gRadiosInfo w)"
    by (simp only: length_append length_message_header length_state_elems length_elem_bytes length_map) simp
  have a: "CWAssembleChangeStateEventRequest mem mac fid garbage PMTU seq w =
      CWAssembleMessage mem mac fid garbage PMTU seq 11 [?e1, ?e2] [] 0"
    using assms(1) radio_states_eq [OF assms(1), of w]
    by (simp add: CWAssembleChangeStateEventRequest_def CWAssembleMsgElemResultCode_eq ample_malloc
        del: map_map)
  obtain pkts mac' where "CWAssembleMessage mem mac fid garbage PMTU seq 11 [?e1, ?e2] [] 0 = Ret pkts"
    "length pkts = n" "receive_all mem (map (\<lambda>i. received (contents (pkts ! i)) (junk i)) (js @ [j])) [] mac_ptr =
       Some (replicate (length js) (Raise CW_ERROR_NEED_RESOURCE) @ [Ret (amsg None ?body 0)], [], mac')"
    using message_delivered [OF assms(1) _ assms(3) body _ assms(4,5) _ assms(7,8), of PMTU mac garbage 0 junk]
      assms(2,6) len by auto
  moreover have "CWParseChangeStateEventRequestMessage mem (msg (amsg None ?body 0))
      (int (offset (amsg None ?body 0))) =
    Some (Ret (seq, \<lparr> radioOperationalInfo = map byte_view ?rs, cs_resultCode = Some 0 \<rparr>))"
    using parse_change_state_request [OF assms(1), of ?rs seq "[]"] assms(2)
    by (simp add: amsg_def wmsg_def)
  ultimately show ?thesis
    unfolding a by (auto simp: comp_def)
qed

text \<open>
  C17: The Change State Event request a WTP assembles tells the AC its sequence number and, for
  every radio of the WTP in order, the radio's identifier, operational state and cause, each cut to
  a byte, and the success code: through the cutting into fragments, the arrival of the packets in any
  order and with duplicates, the reassembly, and the two passes of the AC's parse function over the
  elements. The parse function returns whatever bytes it is given.
\<close>

theorem change_state_request_exchange:
  assumes "ample mem" "length (gRadiosInfo w) < 9000" "mac_room mac_ptr" "0 \<le> fid" "fid < 65536"
    and "n = control_fragments PMTU (16 + 7 * length (gRadiosInfo w))"
    and "insert j (set js) = {..<n}" "j \<notin> set js"
  shows "(\<exists>pkts mac' m. CWAssembleChangeStateEventRequest mem mac fid garbage PMTU seq w = Ret pkts \<and>
      length pkts = n \<and>
      receive_all mem (map (\<lambda>i. received (contents (pkts ! i)) (junk i)) (js @ [j])) [] mac_ptr =
        Some (replicate (length js) (Raise CW_ERROR_NEED_RESOURCE) @ [Ret m], [], mac') \<and>
      CWParseChangeStateEventRequestMessage mem (msg m) (int (offset m)) =
        Some (Ret (seq, \<lparr> radioOperationalInfo =
                 map (\<lambda>r. \<lparr> oper_ID = radio_radioID r mod 256, oper_state = radio_operationalState r mod 256,
                           oper_cause = radio_operationalCause r mod 256 \<rparr>) (gRadiosInfo w),
               cs_resultCode = Some 0 \<rparr>))) \<and>
    CWParseChangeStateEventRequestMessage mem any_bytes any_len \<noteq> None"
  using change_state_delivered [OF assms] CWParseChangeStateEventRequestMessage_end by blast

theorem change_state_request_exchange_witness:
  "\<exists>pkts mac' m.
     CWAssembleChangeStateEventRequest (\<lambda>_. True) no_mac 7 0 50 9 ex_wtp = Ret pkts \<and> length pkts = 2 \<and>
     receive_all (\<lambda>_. True) (map (\<lambda>i. received (contents (pkts ! i)) []) [1, 1, 0]) [] None =
       Some ([Raise CW_ERROR_NEED_RESOURCE, Raise CW_ERROR_NEED_RESOURCE, Ret m], [], mac') \<and>
     CWParseChangeStateEventRequestMessage (\<lambda>_. True) (msg m) (int (offset m)) =
       Some (Ret (9, \<lparr> radioOperationalInfo = [\<lparr> oper_ID = 1, oper_state = 1, oper_cause = 0 \<rparr>],
                      cs_resultCode = Some 0 \<rparr>))"
proof -
  have n: "2 = control_fragments 50 (16 + 7 * length (gRadiosInfo ex_wtp))"
    by (simp add: ex_wtp_def control_fragments_def control_pmtu_def fragment_payload_def fragments_num_def)
  have all: "insert 0 (set [1, 1]) = {..<2 :: nat}" by auto
  have m: "mac_room None" by (simp add: mac_room_def)
  have r: "length (gRadiosInfo ex_wtp) < 9000" by (simp add: ex_wtp_def)
  show ?thesis
    using conjunct1 [OF change_state_request_exchange [OF ample_all r m, of 7 2 50 0 "[1, 1]" no_mac 0 9 "\<lambda>_. []",
      OF _ _ n all]]
    by (simp add: ex_wtp_def ex_radio_def numeral_2_eq_2)
qed

subsection \<open>The radios are noted\<close>

abbreviation noted :: "CWRadioOperationalInfoValues \<Rightarrow> CWWTPRadioInfoValues \<Rightarrow> CWWTPRadioInfoValues" where
  "noted o' r \<equiv> (if radio_radioID r = oper_ID o'
     then r\<lparr> radio_operationalState := oper_state o', radio_operationalCause := oper_cause o' \<rparr> else r)"

lemma save_radio_eq:
  "save_radio o' found rs =
   (map (noted o') rs, rs = [] \<or> found \<or> radio_radioID (hd rs) = oper_ID o')"
  by (induction rs arbitrary: found) (auto simp: Let_def)

lemma save_radios_eq:
  "save_radios os rs =
   (fold (\<lambda>o'. map (noted o')) os rs, rs = [] \<or> (\<forall>o' \<in> set os. radio_radioID (hd rs) = oper_ID o'))"
proof (induction os arbitrary: rs)
  case (Cons o' os)
  have "radio_radioID (hd (map (noted o') rs)) = radio_radioID (hd rs)" if "rs \<noteq> []"
    using that by (cases rs) auto
  then show ?case by (auto simp: save_radio_eq Cons.IH)
qed simp

end
