(* ===== verification/Binding.thy ===== *)
theory Binding
  imports ControlMessages
begin

section \<open>The IEEE 802.11 binding: ACBinding.c and WTPBinding.c\<close>

text \<open>
  The parameters of the four transmission queues of a radio (QoS profiles) and those of the frequency analyser
  (OFDM control) that the AC sends to its WTPs. The AC keeps the profiles of a session in
  \<^verbatim>\<open>bindingValuesPtr\<close> and edits a second array, \<^verbatim>\<open>gWTPs[i].qosValues\<close>, in which the value 255 stands for one
  that is left as it is. A null array is \<open>None\<close>; what a function changes besides its result stands next to the result.
\<close>

subsection \<open>Data\<close>

record WTPQosValues =
  queueDepth :: byte
  cwMin :: "16 word"
  cwMax :: "16 word"
  AIFS :: byte
  dot1PTag :: byte
  DSCPTag :: byte

record OFDMControlValues =
  currentChan :: "32 word"
  BandSupport :: byte
  TIThreshold :: "32 word"

abbreviation NUM_QOS_PROFILES :: nat where "NUM_QOS_PROFILES \<equiv> 4"

subsection \<open>The profiles of a session: AC\<close>

text \<open>
  \<open>junk\<close>: the entries as \<^verbatim>\<open>malloc\<close> left them. Without memory for the first block the session keeps the pointer it has.
\<close>

definition CWACInitBinding ::
  "memory \<Rightarrow> (nat \<Rightarrow> WTPQosValues) \<Rightarrow> WTPQosValues list \<Rightarrow> WTPQosValues list option \<Rightarrow>
   unit res \<times> WTPQosValues list option" where
  "CWACInitBinding mem junk defaults old =
     (if \<not> malloc_ok mem 8 then (Raise CW_ERROR_OUT_OF_MEMORY, old)
      else if \<not> malloc_ok mem (10 * int NUM_QOS_PROFILES) then (Raise CW_ERROR_OUT_OF_MEMORY, None)
      else if length defaults < NUM_QOS_PROFILES then (Fault, old)
      else (Ret (), Some (map (\<lambda>j. (junk j)\<lparr> cwMin := cwMin (defaults ! j), cwMax := cwMax (defaults ! j),
             AIFS := AIFS (defaults ! j), queueDepth := 0, dot1PTag := 0, DSCPTag := 0 \<rparr>) [0..<NUM_QOS_PROFILES])))"

text \<open>The entries of the session are read only for a value that is not used.\<close>

definition unused_qos :: "WTPQosValues \<Rightarrow> bool" where
  "unused_qos q \<longleftrightarrow> cwMin q = 255 \<or> cwMax q = 255 \<or> AIFS q = 255"

definition merge_qos :: "WTPQosValues \<Rightarrow> WTPQosValues \<Rightarrow> WTPQosValues" where
  "merge_qos a q = q\<lparr> cwMin := (if cwMin q = 255 then cwMin a else cwMin q),
     cwMax := (if cwMax q = 255 then cwMax a else cwMax q), AIFS := (if AIFS q = 255 then AIFS a else AIFS q) \<rparr>"

definition CWMergeQosValues ::
  "WTPQosValues list option \<Rightarrow> WTPQosValues list option \<Rightarrow> WTPQosValues list res" where
  "CWMergeQosValues aux qosValues =
     (case qosValues of
        None \<Rightarrow> Fault
      | Some qs \<Rightarrow>
          if length qs < NUM_QOS_PROFILES then Fault
          else (case aux of
                  None \<Rightarrow> if list_ex unused_qos (take NUM_QOS_PROFILES qs) then Fault else Ret qs
                | Some as \<Rightarrow>
                    if length as < NUM_QOS_PROFILES then Fault
                    else Ret (map2 merge_qos as (take NUM_QOS_PROFILES qs) @ drop NUM_QOS_PROFILES qs)))"

text \<open>
  \<^verbatim>\<open>bindingValuesPtr\<close> is read as if it pointed to OFDM values: \<open>aux\<close> is what the bytes of the pointer and of the
  memory behind it make.
\<close>

definition CWMergeOFDMValues :: "OFDMControlValues \<Rightarrow> OFDMControlValues \<Rightarrow> OFDMControlValues" where
  "CWMergeOFDMValues aux v = v
     \<lparr> currentChan := (if currentChan v = 255 then currentChan aux else currentChan v),
       BandSupport := (if BandSupport v = 255 then BandSupport aux else BandSupport v),
       TIThreshold := (if TIThreshold v = 255 then TIThreshold aux else TIThreshold v) \<rparr>"

subsection \<open>The elements: AC\<close>

definition CWAssembleWTPOFDM ::
  "memory \<Rightarrow> OFDMControlValues \<Rightarrow> int \<Rightarrow> OFDMControlValues \<Rightarrow> CWProtocolMessage res \<times> OFDMControlValues" where
  "CWAssembleWTPOFDM mem aux radioID v =
     (let v = CWMergeOFDMValues aux v in
      (assemble_elem mem 8 [i8 radioID, Store32 (currentChan v), Store8 (BandSupport v), Store32 (TIThreshold v)] 1033, v))"

definition qos_calls :: "WTPQosValues \<Rightarrow> store_call list" where
  "qos_calls q = [Store8 (queueDepth q), Store16 (cwMin q), Store16 (cwMax q), Store8 (AIFS q), Store8 (dot1PTag q),
     Store8 (DSCPTag q)]"

definition CWAssembleWTPQoS ::
  "memory \<Rightarrow> WTPQosValues list option \<Rightarrow> int \<Rightarrow> int \<Rightarrow> WTPQosValues list option \<Rightarrow>
   CWProtocolMessage res \<times> WTPQosValues list option" where
  "CWAssembleWTPQoS mem aux radioID tagPackets qosValues =
     (case CWMergeQosValues aux qosValues of
        Ret qs \<Rightarrow> (assemble_elem mem 34
           ([i8 radioID, i8 tagPackets] @ concat (map qos_calls (take NUM_QOS_PROFILES qs))) 1045, Some qs)
      | Raise e \<Rightarrow> (Raise e, qosValues)
      | Fault \<Rightarrow> (Fault, qosValues))"

definition CWAssembleMsgElemACWTPMultiDomainCapability ::
  "memory \<Rightarrow> int \<Rightarrow> int \<Rightarrow> int \<Rightarrow> int \<Rightarrow> CWProtocolMessage res" where
  "CWAssembleMsgElemACWTPMultiDomainCapability mem radioID first numChannels maxPower =
     assemble_elem mem 8 [i8 radioID, Store8 0, i16 first, i16 numChannels, i16 maxPower] 1032"

text \<open>
  Two elements for each radio; \<open>k\<close> elements are assembled. When one cannot be assembled the elements are freed as
  \<^verbatim>\<open>*msgElems[i]\<close>, which for any but the first is read from behind the pointer to the array. A radio beyond the array is
  \<open>None\<close>; one whose frequencies were never set has no block.
\<close>

fun radio_elements ::
  "memory \<Rightarrow> WTPQosValues list option \<Rightarrow> nat \<Rightarrow> CWWTPRadioInfoValues option list \<Rightarrow> WTPQosValues list option \<Rightarrow>
   CWProtocolMessage list res \<times> WTPQosValues list option" where
  "radio_elements mem aux k [] qs = (Ret [], qs)"
| "radio_elements mem aux k (None # rs) qs = (Fault, qs)"
| "radio_elements mem aux k (Some r # rs) qs =
     (case CWAssembleWTPQoS mem aux (phy_radioID (gWTPPhyInfo r)) 0 qs of
        (Ret m1, qs) \<Rightarrow>
          (case phy_frequencyList (gWTPPhyInfo r) of
             None \<Rightarrow> (Fault, qs)
           | Some (first, maxPower) \<Rightarrow>
               (case CWAssembleMsgElemACWTPMultiDomainCapability mem (phy_radioID (gWTPPhyInfo r)) first
                       (phy_totChannels (gWTPPhyInfo r)) maxPower of
                  Ret m2 \<Rightarrow>
                    (case radio_elements mem aux (k + 2) rs qs of
                       (Ret ms, qs) \<Rightarrow> (Ret (m1 # m2 # ms), qs)
                     | (r, qs) \<Rightarrow> (r, qs))
                | _ \<Rightarrow> (Fault, qs)))
      | (Raise e, qs) \<Rightarrow> (if k = 0 then Raise e else Fault, qs)
      | (Fault, qs) \<Rightarrow> (Fault, qs))"

abbreviation radio_array :: "int \<Rightarrow> CWWTPRadioInfoValues list \<Rightarrow> CWWTPRadioInfoValues option list" where
  "radio_array radioCount radios \<equiv>
     map (\<lambda>i. if i < length radios then Some (radios ! i) else None) [0..<nat radioCount]"

text \<open>The second array is the AC's default profiles themselves: what merging changes is changed for all sessions.\<close>

definition CWBindingAssembleConfigureResponse ::
  "memory \<Rightarrow> WTPQosValues list option \<Rightarrow> int \<Rightarrow> CWWTPRadioInfoValues list \<Rightarrow> WTPQosValues list \<Rightarrow>
   CWProtocolMessage list res \<times> WTPQosValues list" where
  "CWBindingAssembleConfigureResponse mem aux radioCount radios defaults =
     (if \<not> malloc_ok mem (message_size * (2 * radioCount)) then (Raise CW_ERROR_OUT_OF_MEMORY, defaults)
      else case radio_elements mem aux 0 (radio_array radioCount radios) (Some defaults) of
        (r, qs) \<Rightarrow> (r, case qs of None \<Rightarrow> defaults | Some qs \<Rightarrow> qs))"

text \<open>
  In the request for an update the address of the \<open>k\<close>-th entry is computed as \<^verbatim>\<open>*msgElems[k]\<close>: the second entry is written
  to wherever the bytes behind the pointer point.
\<close>

definition CWBindingAssembleConfigurationUpdateRequest ::
  "memory \<Rightarrow> WTPQosValues list option \<Rightarrow> OFDMControlValues \<Rightarrow> int \<Rightarrow> int \<Rightarrow> CWWTPRadioInfoValues list \<Rightarrow>
   WTPQosValues list option \<Rightarrow> OFDMControlValues option \<Rightarrow>
   CWProtocolMessage list res \<times> WTPQosValues list option \<times> OFDMControlValues option" where
  "CWBindingAssembleConfigurationUpdateRequest mem aux aux_ofdm BindingMsgElement radioCount radios qs ofdm =
     (if \<not> malloc_ok mem (message_size * radioCount) then (Raise CW_ERROR_OUT_OF_MEMORY, qs, ofdm)
      else if BindingMsgElement \<noteq> 1045 \<and> BindingMsgElement \<noteq> 1033 then (Raise CW_ERROR_NONE, qs, ofdm)
      else if radioCount = 0 then (Ret [], qs, ofdm)
      else if radios = [] \<or> BindingMsgElement = 1033 \<and> ofdm = None then (Fault, qs, ofdm)
      else
        let (r, qs', ofdm') =
          (if BindingMsgElement = 1045
           then (case CWAssembleWTPQoS mem aux (radio_radioID (hd radios)) 0 qs of (r, q) \<Rightarrow> (r, q, ofdm))
           else (case CWAssembleWTPOFDM mem aux_ofdm (radio_radioID (hd radios)) (the ofdm) of (r, v) \<Rightarrow> (r, qs, Some v)))
        in (case r of
              Ret m \<Rightarrow> (if radioCount = 1 then Ret [m] else Fault, qs', ofdm')
            | Raise e \<Rightarrow> (Raise e, qs', ofdm')
            | Fault \<Rightarrow> (Fault, qs', ofdm')))"

definition CWBindingSaveConfigurationUpdateResponse ::
  "32 word \<Rightarrow> WTPQosValues list option \<Rightarrow> WTPQosValues list option \<Rightarrow> WTPQosValues list option res" where
  "CWBindingSaveConfigurationUpdateResponse resultCode qosValues aux =
     (if resultCode \<noteq> 0 then Ret aux
      else case qosValues of
        None \<Rightarrow> Ret aux
      | Some qs \<Rightarrow>
          (case aux of
             None \<Rightarrow> Fault
           | Some as \<Rightarrow>
               if length as < NUM_QOS_PROFILES \<or> length qs < NUM_QOS_PROFILES then Fault
               else Ret (Some (map2 (\<lambda>a q. a\<lparr> cwMin := cwMin q, cwMax := cwMax q, AIFS := AIFS q \<rparr>) as
                                 (take NUM_QOS_PROFILES qs) @ drop NUM_QOS_PROFILES as))))"

subsection \<open>The WTP's profiles\<close>

definition CWTranslateQueueIndex :: "int \<Rightarrow> int" where
  "CWTranslateQueueIndex j = (if j = 0 then 3 else if j = 1 then 2 else if j = 3 then 1 else 0)"

text \<open>The profiles of a radio when it is initialised; only three fields of each are written.\<close>

definition CWWTPInitBinding :: "memory \<Rightarrow> (nat \<Rightarrow> WTPQosValues) \<Rightarrow> WTPQosValues list res" where
  "CWWTPInitBinding mem junk =
     (if malloc_ok mem 8 \<and> malloc_ok mem (10 * int NUM_QOS_PROFILES)
      then Ret (map (\<lambda>j. (junk j)\<lparr> cwMin := 2, cwMax := 4, AIFS := 3 \<rparr>) [0..<NUM_QOS_PROFILES])
      else Raise CW_ERROR_OUT_OF_MEMORY)"

text \<open>
  What the AC asks for reaches the driver through \<^verbatim>\<open>set_cwmin\<close>, \<^verbatim>\<open>set_cwmax\<close> and \<^verbatim>\<open>set_aifs\<close>
  of \<^verbatim>\<open>WTPDriverInteraction.c\<close>, which do nothing and return 1. The value kept is then the constant of the
  settings file, \<open>st\<close>: the minimum, the maximum and the AIFS.
\<close>

definition set_profile :: "16 word \<times> 16 word \<times> byte \<Rightarrow> WTPQosValues \<Rightarrow> WTPQosValues \<Rightarrow> WTPQosValues" where
  "set_profile st req q =
     (case st of (mn, mx, af) \<Rightarrow>
      q\<lparr> cwMin := (if cwMin q \<noteq> cwMin req then mn else cwMin q),
         cwMax := (if cwMax q \<noteq> cwMax req then mx else cwMax q),
         AIFS := (if AIFS q \<noteq> AIFS req then af else AIFS q) \<rparr>)"

text \<open>The first radio with the identifier; radios are their identifiers with their profiles.\<close>

fun set_radio ::
  "16 word \<times> 16 word \<times> byte \<Rightarrow> byte \<times> WTPQosValues list \<Rightarrow> (int \<times> WTPQosValues list) list \<Rightarrow>
   (int \<times> WTPQosValues list) list" where
  "set_radio st req [] = []"
| "set_radio st req ((i, qs) # rs) =
     (if uint (fst req) = i then (i, map2 (set_profile st) (snd req) qs) # rs else (i, qs) # set_radio st req rs)"

text \<open>\<open>sock_ok\<close>: a socket for the ioctl calls can be opened. The result code is \<open>None\<close> when it is not set.\<close>

definition CWBindingSetQosValues ::
  "16 word \<times> 16 word \<times> byte \<Rightarrow> bool \<Rightarrow> (byte \<times> WTPQosValues list) list \<Rightarrow> (int \<times> WTPQosValues list) list \<Rightarrow>
   unit res \<times> 32 word option \<times> (int \<times> WTPQosValues list) list" where
  "CWBindingSetQosValues st sock_ok reqs radios =
     (if reqs = [] then (Ret (), None, radios)
      else if \<not> sock_ok then (Raise CW_ERROR_GENERAL, Some 0, radios)
      else (Ret (), Some 0, fold (set_radio st) reqs radios))"

subsection \<open>Parsing: WTP\<close>

definition CWParseWTPOFDM ::
  "CWProtocolMessage \<Rightarrow> int \<Rightarrow> ((byte \<times> OFDMControlValues) \<times> CWProtocolMessage) res" where
  "CWParseWTPOFDM = CWParseMessageElement (\<lambda>m.
     res_bind (CWProtocolRetrieve8 m) (\<lambda>(r, m).
     res_bind (CWProtocolRetrieve32 m) (\<lambda>(c, m).
     res_bind (CWProtocolRetrieve8 m) (\<lambda>(b, m).
     res_bind (CWProtocolRetrieve32 m) (\<lambda>(t, m).
     Ret ((r, \<lparr> currentChan = c, BandSupport = b, TIThreshold = t \<rparr>), m))))))"

definition retrieve_qos :: "CWProtocolMessage \<Rightarrow> (WTPQosValues \<times> CWProtocolMessage) res" where
  "retrieve_qos m =
     res_bind (CWProtocolRetrieve8 m) (\<lambda>(d, m).
     res_bind (CWProtocolRetrieve16 m) (\<lambda>(mn, m).
     res_bind (CWProtocolRetrieve16 m) (\<lambda>(mx, m).
     res_bind (CWProtocolRetrieve8 m) (\<lambda>(a, m).
     res_bind (CWProtocolRetrieve8 m) (\<lambda>(p, m).
     res_bind (CWProtocolRetrieve8 m) (\<lambda>(c, m).
     Ret (\<lparr> queueDepth = d, cwMin = mn, cwMax = mx, AIFS = a, dot1PTag = p, DSCPTag = c \<rparr>, m)))))))"

fun retrieve_profiles :: "nat \<Rightarrow> CWProtocolMessage \<Rightarrow> (WTPQosValues list \<times> CWProtocolMessage) res" where
  "retrieve_profiles 0 m = Ret ([], m)"
| "retrieve_profiles (Suc n) m =
     res_bind (retrieve_qos m) (\<lambda>(q, m).
     res_bind (retrieve_profiles n m) (\<lambda>(qs, m). Ret (q # qs, m)))"

definition CWParseWTPQoS ::
  "CWProtocolMessage \<Rightarrow> int \<Rightarrow> ((byte \<times> byte \<times> WTPQosValues list) \<times> CWProtocolMessage) res" where
  "CWParseWTPQoS = CWParseMessageElement (\<lambda>m.
     res_bind (CWProtocolRetrieve8 m) (\<lambda>(r, m).
     res_bind (CWProtocolRetrieve8 m) (\<lambda>(t, m).
     res_bind (retrieve_profiles NUM_QOS_PROFILES m) (\<lambda>(qs, m). Ret ((r, t, qs), m)))))"

text \<open>
  On an element of the binding it does not know, and on one it cannot parse, the code frees its argument
  \<^verbatim>\<open>valuesPtr\<close>, the address of a field of its caller's structure on the stack: a fault.
\<close>

definition on_error_free :: "'a res \<Rightarrow> 'a res" where
  "on_error_free r = (case r of Raise e \<Rightarrow> Fault | _ \<Rightarrow> r)"

definition qos_count_branch ::
  "nat \<Rightarrow> 16 word \<Rightarrow> CWProtocolMessage \<Rightarrow> int \<Rightarrow> (nat \<times> CWProtocolMessage) res" where
  "qos_count_branch n type m len =
     (let m' = m\<lparr>offset := offset m + nat len\<rparr> in
      if type = 1045 then Ret (Suc n, m')
      else if type = 1032 then Ret (n, m')
      else if CWBindingCheckType (uint type) then Fault
      else Ret (n, m'))"

definition qos_read_branch ::
  "nat \<Rightarrow> (byte \<times> WTPQosValues list) list \<Rightarrow> 16 word \<Rightarrow> CWProtocolMessage \<Rightarrow> int \<Rightarrow>
   ((byte \<times> WTPQosValues list) list \<times> CWProtocolMessage) res" where
  "qos_read_branch n rs type m len =
     (if type = 1045 then
        if length rs = n then Fault
        else res_bind (on_error_free (CWParseWTPQoS m len)) (\<lambda>((r, t, qs), m). Ret (rs @ [(r, qs)], m))
      else Ret (rs, m\<lparr>offset := offset m + nat len\<rparr>))"

abbreviation start_of :: "byte list \<Rightarrow> CWProtocolMessage" where
  "start_of bytes \<equiv> \<lparr> msg = bytes, offset = 0, data_msgType = None \<rparr>"

definition CWBindingParseConfigureResponse ::
  "memory \<Rightarrow> byte list \<Rightarrow> int \<Rightarrow> (byte \<times> WTPQosValues list) list res option" where
  "CWBindingParseConfigureResponse mem bytes len =
     (if \<not> malloc_ok mem 16 then Some (Raise CW_ERROR_OUT_OF_MEMORY)
      else run_bind (parse_elements qos_count_branch 0 len 0 (start_of bytes)) (\<lambda>(n, m).
        if int (offset m) \<noteq> len then Some (Raise CW_ERROR_INVALID_FORMAT)
        else if \<not> malloc_ok mem (42 * int n) then Some (Raise CW_ERROR_OUT_OF_MEMORY)
        else run_bind (parse_elements (qos_read_branch n) 0 len [] (start_of bytes)) (\<lambda>(rs, m). Some (Ret rs))))"

definition CWBindingSaveConfigureResponse ::
  "16 word \<times> 16 word \<times> byte \<Rightarrow> bool \<Rightarrow> (byte \<times> WTPQosValues list) list option \<Rightarrow> (int \<times> WTPQosValues list) list \<Rightarrow>
   unit res \<times> (int \<times> WTPQosValues list) list" where
  "CWBindingSaveConfigureResponse st sock_ok v radios =
     (case v of None \<Rightarrow> (Raise CW_ERROR_WRONG_ARG, radios)
      | Some reqs \<Rightarrow> (case CWBindingSetQosValues st sock_ok reqs radios of (r, c, radios) \<Rightarrow> (r, radios)))"

subsection \<open>The update request: WTP\<close>

text \<open>
  The type of the last element decides which structure is allocated; an element of the other kind is stored through
  a pointer that was never set.
\<close>

datatype binding_update =
    NoUpdate
  | QosUpdate "(byte \<times> WTPQosValues list) list"
  | OFDMUpdate "(byte \<times> OFDMControlValues) option"

definition update_count_branch ::
  "16 word \<times> nat \<Rightarrow> 16 word \<Rightarrow> CWProtocolMessage \<Rightarrow> int \<Rightarrow> ((16 word \<times> nat) \<times> CWProtocolMessage) res" where
  "update_count_branch s type m len =
     (let m' = m\<lparr>offset := offset m + nat len\<rparr> in
      if type = 1045 then Ret ((type, Suc (snd s)), m')
      else if type = 1033 then Ret ((type, snd s), m')
      else if CWBindingCheckType (uint type) then Fault
      else Ret ((type, snd s), m'))"

definition update_read_branch ::
  "nat \<Rightarrow> binding_update \<Rightarrow> 16 word \<Rightarrow> CWProtocolMessage \<Rightarrow> int \<Rightarrow> (binding_update \<times> CWProtocolMessage) res" where
  "update_read_branch n u type m len =
     (if type = 1045 then
        (case u of
           QosUpdate rs \<Rightarrow>
             if length rs = n then Fault
             else res_bind (on_error_free (CWParseWTPQoS m len)) (\<lambda>((r, t, qs), m). Ret (QosUpdate (rs @ [(r, qs)]), m))
         | _ \<Rightarrow> Fault)
      else if type = 1033 then
        (case u of
           OFDMUpdate v \<Rightarrow> res_bind (on_error_free (CWParseWTPOFDM m len)) (\<lambda>(x, m). Ret (OFDMUpdate (Some x), m))
         | _ \<Rightarrow> Fault)
      else Ret (u, m\<lparr>offset := offset m + nat len\<rparr>))"

definition CWBindingParseConfigurationUpdateRequest ::
  "memory \<Rightarrow> byte list \<Rightarrow> int \<Rightarrow> binding_update res option" where
  "CWBindingParseConfigurationUpdateRequest mem bytes len =
     run_bind (parse_elements update_count_branch 0 len (0, 0) (start_of bytes)) (\<lambda>((type, n), m).
     if int (offset m) \<noteq> len then Some (Raise CW_ERROR_INVALID_FORMAT)
     else if type = 1045 \<and> (\<not> malloc_ok mem 16 \<or> \<not> malloc_ok mem (42 * int n)) then Some (Raise CW_ERROR_OUT_OF_MEMORY)
     else if type = 1033 \<and> (\<not> malloc_ok mem 16 \<or> \<not> malloc_ok mem 12) then Some (Raise CW_ERROR_OUT_OF_MEMORY)
     else run_bind (parse_elements (update_read_branch n) 0 len
            (if type = 1045 then QosUpdate [] else if type = 1033 then OFDMUpdate None else NoUpdate) (start_of bytes))
          (\<lambda>(u, m). Some (Ret u)))"

text \<open>
  \<open>kind\<close> is the type the caller found; \<open>send_ok\<close>: the frequency analyser's process can be sent a datagram. The result
  code is that of the response.
\<close>

definition CWManageOFDMValues :: "bool \<Rightarrow> (byte \<times> OFDMControlValues) option \<Rightarrow> unit res" where
  "CWManageOFDMValues send_ok v = (if send_ok then Ret () else Raise CW_ERROR_GENERAL)"

definition CWBindingSaveConfigurationUpdateRequest ::
  "16 word \<times> 16 word \<times> byte \<Rightarrow> bool \<Rightarrow> bool \<Rightarrow> binding_update \<Rightarrow> (int \<times> WTPQosValues list) list \<Rightarrow>
   unit res \<times> (int \<times> WTPQosValues list) list" where
  "CWBindingSaveConfigurationUpdateRequest st sock_ok send_ok u radios =
     (case u of
        NoUpdate \<Rightarrow> (Raise CW_ERROR_WRONG_ARG, radios)
      | QosUpdate reqs \<Rightarrow> (case CWBindingSetQosValues st sock_ok reqs radios of (r, c, radios) \<Rightarrow> (r, radios))
      | OFDMUpdate v \<Rightarrow> (CWManageOFDMValues send_ok v, radios))"

subsection \<open>The profiles arrive\<close>

definition qos_bytes :: "WTPQosValues \<Rightarrow> byte list" where
  "qos_bytes q = queueDepth q # be16 (cwMin q) @ be16 (cwMax q) @ [AIFS q, dot1PTag q, DSCPTag q]"

lemma length_qos_bytes [simp]: "length (qos_bytes q) = 8"
  by (simp add: qos_bytes_def)

abbreviation profiles_bytes :: "WTPQosValues list \<Rightarrow> byte list" where
  "profiles_bytes qs \<equiv> concat (map qos_bytes qs)"

lemma length_profiles_bytes [simp]: "length (profiles_bytes qs) = 8 * length qs"
  by (induction qs) auto

lemma qos_calls_bytes [simp]:
  "calls_bytes (concat (map qos_calls qs)) = profiles_bytes qs" "calls_ok (concat (map qos_calls qs))"
  by (induction qs) (auto simp: qos_calls_def qos_bytes_def)

lemma retrieve_profiles_rmsg:
  "n = length qs \<Longrightarrow>
   retrieve_profiles n (rmsg bs (profiles_bytes qs @ rest) x) = Ret (qs, rmsg (bs @ profiles_bytes qs) rest x)"
  by (induction qs arbitrary: bs n) (simp_all add: retrieve_qos_def qos_bytes_def wire)

text \<open>Profiles that are complete, or can be completed with those of the session.\<close>

lemma merge_id:
  "\<lbrakk>length qs = 4; \<not> list_ex unused_qos qs; aux = None \<or> aux = Some as \<and> 4 \<le> length as\<rbrakk> \<Longrightarrow>
   CWMergeQosValues aux (Some qs) = Ret qs"
proof -
  assume l: "length qs = 4" and u: "\<not> list_ex unused_qos qs" and a: "aux = None \<or> aux = Some as \<and> 4 \<le> length as"
  have "map2 merge_qos as qs = qs" if "4 \<le> length as"
    using that l u by (auto simp: list_eq_iff_nth_eq list_ex_length merge_qos_def unused_qos_def)
  with l u a show ?thesis by (auto simp: CWMergeQosValues_def)
qed

lemma merge_all:
  "\<lbrakk>length qs = 4; length as = 4\<rbrakk> \<Longrightarrow> CWMergeQosValues (Some as) (Some qs) = Ret (map2 merge_qos as qs)"
  by (simp add: CWMergeQosValues_def)

text \<open>A new session merges the default profiles with themselves.\<close>

lemma init_merges:
  assumes "CWACInitBinding mem junk defaults old = (Ret (), aux)" "length defaults = 4"
  shows "CWMergeQosValues aux (Some defaults) = Ret defaults"
  using assms
  by (auto simp: CWACInitBinding_def CWMergeQosValues_def merge_qos_def list_eq_iff_nth_eq split: if_splits)

lemma parse_qos_rmsg:
  assumes "length qs = 4"
  shows "CWParseWTPQoS (rmsg bs ((r # t # profiles_bytes qs) @ rest) x) 34 =
    Ret ((r, t, qs), rmsg (bs @ r # t # profiles_bytes qs) rest x)"
  using retrieve_profiles_rmsg [of 4 qs "bs @ [r, t]" rest x] assms
  by (simp add: CWParseWTPQoS_def parse_frame wire)

interpretation wtp_qos: msg_elem_exchange 1045 "\<lambda>(r, qs). length qs = 4 \<and> CWMergeQosValues aux (Some qs) = Ret qs"
    "\<lambda>(r, qs). word_of_int r # 0 # profiles_bytes qs" "\<lambda>(r, qs). (word_of_int r, 0, qs)"
    "\<lambda>mem (r, qs). fst (CWAssembleWTPQoS mem aux r 0 (Some qs))" "\<lambda>mem. CWParseWTPQoS" for aux
proof (unfold_locales, goal_cases)
  case (3 mem v)
  then show ?case by (auto simp: CWAssembleWTPQoS_def wire split: prod.splits)
next
  case (4 mem v bs rest x)
  then obtain r qs where v: "v = (r, qs)" "length qs = 4" by (cases v) auto
  from parse_qos_rmsg [OF v(2), of bs "word_of_int r" 0 rest x] v show ?case by simp
qed auto

lemma assemble_qos_eq:
  "\<lbrakk>ample mem; length qs = 4; CWMergeQosValues aux (Some qs) = Ret qs'; length qs' = 4\<rbrakk> \<Longrightarrow>
   CWAssembleWTPQoS mem aux r 0 (Some qs) = (Ret (elem_msg 1045 (word_of_int r # 0 # profiles_bytes qs')), Some qs')"
  by (simp add: CWAssembleWTPQoS_def wire)

interpretation multi_domain_ac: msg_elem_exchange 1032 "\<lambda>_. True"
    "\<lambda>(r, f, n, p). word_of_int r # 0 # be16 (word_of_int f) @ be16 (word_of_int n) @ be16 (word_of_int p)"
    "\<lambda>(r, f, n, p). \<lparr> freq_radioID = r mod 256, firstChannel = f mod 65536, totChannels = n mod 65536,
       maxTxPower = p mod 65536 \<rparr>"
    "\<lambda>mem (r, f, n, p). CWAssembleMsgElemACWTPMultiDomainCapability mem r f n p" "\<lambda>mem. CWParseWTPMultiDomainCapability"
  by unfold_locales
     (auto simp: CWAssembleMsgElemACWTPMultiDomainCapability_def CWParseWTPMultiDomainCapability_def parse_frame
       wire field_values)

subsection \<open>The parse functions return\<close>

lemma qos_offsets:
  "CWParseWTPQoS m l = Ret (a, m') \<Longrightarrow> int (offset m') = int (offset m) + l"
  "CWParseWTPOFDM m l = Ret (b, m') \<Longrightarrow> int (offset m') = int (offset m) + l"
  unfolding CWParseWTPQoS_def CWParseWTPOFDM_def by (fact framed_offset)+

lemma on_error_free_Ret [simp]: "on_error_free r = Ret x \<longleftrightarrow> r = Ret x"
  by (cases r) (auto simp: on_error_free_def)

interpretation qos_count: forward_branch qos_count_branch
  by unfold_locales (auto simp: qos_count_branch_def Let_def split: if_splits)

interpretation qos_read: forward_branch "qos_read_branch n" for n
  by unfold_locales (auto simp: qos_read_branch_def res_simps split: if_splits dest!: qos_offsets)

interpretation update_count: forward_branch update_count_branch
  by unfold_locales (auto simp: update_count_branch_def Let_def split: if_splits)

interpretation update_read: forward_branch "update_read_branch n" for n
  by unfold_locales
     (auto simp: update_read_branch_def res_simps split: if_splits binding_update.splits dest!: qos_offsets)

lemma binding_parsers_return:
  "CWBindingParseConfigureResponse mem bytes len \<noteq> None"
  "CWBindingParseConfigurationUpdateRequest mem bytes len \<noteq> None"
  by (auto simp: CWBindingParseConfigureResponse_def CWBindingParseConfigurationUpdateRequest_def run_bind_None_iff
      qos_count.elements_end qos_read.elements_end update_count.elements_end update_read.elements_end
      simp del: not_None_eq split: prod.splits if_splits)

subsection \<open>An update of the profiles\<close>

lemma start_of_rmsg: "start_of bytes = rmsg [] bytes None"
  by (simp add: rmsg_def)

lemma parse_qos_update:
  assumes "ample mem" "length qs = 4" "b = elem_bytes 1045 (r # 0 # profiles_bytes qs)"
  shows "CWBindingParseConfigurationUpdateRequest mem (b @ junk) (int (length b)) = Some (Ret (QosUpdate [(r, qs)]))"
proof -
  let ?body = "r # 0 # profiles_bytes qs"
  have l: "length ?body < 65536" "0 < length b" using assms(2,3) by simp_all
  have 1: "parse_elements update_count_branch 0 (int (length b)) (0, 0) (rmsg [] (b @ junk) None) =
      Some (Ret ((1045, 1), rmsg b junk None))"
    using parse_elements_skip [of "[]" 0 "int (length b)" ?body update_count_branch "(0, 0)" 1045 "(1045, 1)" junk None] l
    unfolding assms(3) [symmetric]
    by (simp add: update_count_branch_def Let_def parse_elements_end rmsg_def)
  have "parse_elements (update_read_branch 1) 0 (int (length b)) (QosUpdate []) (rmsg [] (b @ junk) None) =
      parse_elements (update_read_branch 1) 0 (int (length b)) (QosUpdate [(r, qs)]) (rmsg ([] @ b) junk None)"
    unfolding assms(3)
  proof (rule parse_elements_step)
    have "CWParseWTPQoS (rmsg bs (?body @ rest) x) (int (length ?body)) = Ret ((r, 0, qs), rmsg (bs @ ?body) rest x)" for bs rest x
      using parse_qos_rmsg [OF assms(2), of bs r 0 rest x] assms(2) by simp
    then show "update_read_branch 1 (QosUpdate []) (ucast (1045 :: 32 word))
        (rmsg ([] @ be16 (ucast (1045 :: 32 word)) @ be16 (word_of_nat (length ?body))) (?body @ junk) None) (int (length ?body)) =
      Ret (QosUpdate [(r, qs)], rmsg ([] @ elem_bytes 1045 ?body) junk None)"
      by (simp add: update_read_branch_def elem_bytes_def on_error_free_def)
  qed (use l assms(3) in auto)
  then have 2: "parse_elements (update_read_branch 1) 0 (int (length b)) (QosUpdate []) (rmsg [] (b @ junk) None) =
      Some (Ret (QosUpdate [(r, qs)], rmsg b junk None))"
    by (simp add: parse_elements_end rmsg_def)
  show ?thesis
    using 1 2 assms(1) by (simp add: CWBindingParseConfigurationUpdateRequest_def start_of_rmsg ample_malloc)
qed

text \<open>What the WTP keeps: the value asked for where it has it already, that of its settings file otherwise.\<close>

lemma wtp_keeps_static_values:
  assumes "CWBindingSetQosValues st True [(r, req)] radios = (Ret (), c, radios')"
    "length req = 4" "(i, qs) \<in> set radios" "distinct (map fst radios)" "i = uint r" "length qs = 4" "k < 4"
  shows "\<exists>qs'. (i, qs') \<in> set radios' \<and>
    cwMin (qs' ! k) = (if cwMin (qs ! k) = cwMin (req ! k) then cwMin (qs ! k) else fst st)"
proof -
  have "(i, map2 (set_profile st) req qs) \<in> set (set_radio st (r, req) radios)"
    using assms(3,4,5)
  proof (induction radios)
    case (Cons p ps)
    then show ?case by (cases p) (force simp: image_iff)
  qed simp
  with assms show ?thesis
    by (auto simp: CWBindingSetQosValues_def set_profile_def split: prod.splits
        intro!: exI [of _ "map2 (set_profile st) req qs"])
qed

lemma saved_update:
  "\<lbrakk>length as = 4; length qs = 4\<rbrakk> \<Longrightarrow>
   CWBindingSaveConfigurationUpdateResponse 0 (Some qs) (Some as) =
     Ret (Some (map2 (\<lambda>a q. a\<lparr> cwMin := cwMin q, cwMax := cwMax q, AIFS := AIFS q \<rparr>) as qs))"
  by (simp add: CWBindingSaveConfigurationUpdateResponse_def)

text \<open>
  C39: the AC changes the QoS profiles of a WTP with one radio: every value it leaves at 255 is completed from the
  session, the element it assembles is read by the WTP as exactly those four profiles for the radio, whatever
  follows it in the message, and when the WTP answers with success the session holds the minimum, the maximum and the
  AIFS that were sent. With more than one radio the request is not assembled at all: the second element is written
  through a wild pointer.
\<close>

theorem qos_update_exchange:
  assumes "ample mem" "length as = 4" "length qs = 4" "radios \<noteq> []" "sent = map2 merge_qos as qs"
  shows "if 2 \<le> n
    then fst (CWBindingAssembleConfigurationUpdateRequest mem (Some as) aux_ofdm 1045 n radios (Some qs) ofdm) = Fault
    else n = 1 \<longrightarrow> (\<exists>e as'.
      CWBindingAssembleConfigurationUpdateRequest mem (Some as) aux_ofdm 1045 n radios (Some qs) ofdm = (Ret [e], Some sent, ofdm) \<and>
      CWBindingParseConfigurationUpdateRequest mem (contents e @ junk) (int (offset e)) =
        Some (Ret (QosUpdate [(word_of_int (radio_radioID (hd radios)), sent)])) \<and>
      CWBindingSaveConfigurationUpdateResponse 0 (Some sent) (Some as) = Ret (Some as') \<and>
      map cwMin as' = map cwMin sent \<and> map cwMax as' = map cwMax sent \<and> map AIFS as' = map AIFS sent)"
proof -
  let ?r = "radio_radioID (hd radios)" and ?e = "\<lambda>r. elem_msg 1045 (word_of_int r # 0 # profiles_bytes sent)"
  have l: "length sent = 4" using assms(2,3,5) by simp
  have q: "CWAssembleWTPQoS mem (Some as) r 0 (Some qs) = (Ret (?e r), Some sent)" for r
    using assemble_qos_eq [OF assms(1,3) merge_all [OF assms(3,2), folded assms(5)] l] by simp
  have a: "CWBindingAssembleConfigurationUpdateRequest mem (Some as) aux_ofdm 1045 1 radios (Some qs) ofdm =
    (Ret [?e ?r], Some sent, ofdm)"
    using assms(1,4) by (simp add: CWBindingAssembleConfigurationUpdateRequest_def ample_malloc q)
  have p: "CWBindingParseConfigurationUpdateRequest mem (contents (?e ?r) @ junk) (int (offset (?e ?r))) =
    Some (Ret (QosUpdate [(word_of_int ?r, sent)]))"
    using parse_qos_update [OF assms(1) l refl, of "word_of_int ?r" junk] l by (simp add: wire)
  have s: "map cwMin as' = map cwMin sent \<and> map cwMax as' = map cwMax sent \<and> map AIFS as' = map AIFS sent"
    if "as' = map2 (\<lambda>a q. a\<lparr> cwMin := cwMin q, cwMax := cwMax q, AIFS := AIFS q \<rparr>) as sent" for as'
    using that l assms(2) by (auto simp: list_eq_iff_nth_eq)
  have f: "fst (CWBindingAssembleConfigurationUpdateRequest mem (Some as) aux_ofdm 1045 n radios (Some qs) ofdm) = Fault" if "2 \<le> n"
    using that assms(1,4) by (simp add: CWBindingAssembleConfigurationUpdateRequest_def ample_malloc q Let_def)
  show ?thesis using a p s [OF refl] saved_update [OF assms(2) l] f by (simp split: if_splits)
qed

text \<open>A profile; and a radio.\<close>

definition ex_qos :: "16 word \<Rightarrow> 16 word \<Rightarrow> byte \<Rightarrow> WTPQosValues" where
  "ex_qos mn mx a = \<lparr> queueDepth = 0, cwMin = mn, cwMax = mx, AIFS = a, dot1PTag = 0, DSCPTag = 0 \<rparr>"

text \<open>The AC sets the minimum of the first queue to 5 and leaves everything else.\<close>

theorem qos_update_exchange_witness:
  "(\<exists>e. CWBindingAssembleConfigurationUpdateRequest (\<lambda>_. True) (Some (replicate 4 (ex_qos 2 4 3)))
         \<lparr> currentChan = 0, BandSupport = 0, TIThreshold = 0 \<rparr> 1045 1 [ex_radio]
         (Some (ex_qos 5 255 255 # replicate 3 (ex_qos 255 255 255))) None =
       (Ret [e], Some (ex_qos 5 4 3 # replicate 3 (ex_qos 2 4 3)), None) \<and>
     CWBindingParseConfigurationUpdateRequest (\<lambda>_. True) (contents e @ [7]) (int (offset e)) =
       Some (Ret (QosUpdate [(1, ex_qos 5 4 3 # replicate 3 (ex_qos 2 4 3))]))) \<and>
   fst (CWBindingAssembleConfigurationUpdateRequest (\<lambda>_. True) (Some (replicate 4 (ex_qos 2 4 3)))
     \<lparr> currentChan = 0, BandSupport = 0, TIThreshold = 0 \<rparr> 1045 2 [ex_radio]
     (Some (ex_qos 5 255 255 # replicate 3 (ex_qos 255 255 255))) None) = Fault"
proof -
  have a: "ample (\<lambda>_. True)" by (simp add: ample_def)
  have four: "replicate 4 x = [x, x, x, x]" "replicate 3 x = [x, x, x]" for x :: WTPQosValues
    by (simp_all add: numeral_eq_Suc)
  have m: "ex_qos 5 4 3 # replicate 3 (ex_qos 2 4 3) =
      map2 merge_qos (replicate 4 (ex_qos 2 4 3)) (ex_qos 5 255 255 # replicate 3 (ex_qos 255 255 255))"
    by (simp add: four merge_qos_def ex_qos_def)
  have r: "word_of_int (radio_radioID (hd [ex_radio])) = (1 :: byte)" by (simp add: ex_radio_def)
  note exchange = qos_update_exchange [OF a _ _ _ m, of "[ex_radio]" _
      "\<lparr> currentChan = 0, BandSupport = 0, TIThreshold = 0 \<rparr>" None "[7]", unfolded r]
  from exchange [of 1] exchange [of 2] show ?thesis by simp blast
qed

end
