(* ===== verification/ACSession.thy ===== *)
theory ACSession
  imports DataCheck TimerLib SafeList Binding
begin

section \<open>The AC's session with one WTP: ACRetransmission.c, timers, data check\<close>

text \<open>
  The entry of \<^verbatim>\<open>gWTPs\<close> for one WTP, the timers its thread requests, and the requests it sends
  and should repeat. An operation of the session thread is a function on \<open>ac_session\<close>: the entry, the
  timer queue of the process, the datagrams sent so far and the AC's default QoS profiles; its result is \<open>Ret\<close> for \<^verbatim>\<open>CW_TRUE\<close>,
  \<open>Raise\<close> for \<^verbatim>\<open>CW_FALSE\<close> with the error raised (\<open>CW_ERROR_NONE\<close> when none is raised), and
  the state is what the operation leaves in every case. The network is a parameter: \<open>net k\<close> says
  whether \<^verbatim>\<open>sendto\<close> accepts a datagram when \<open>k\<close> have been sent. Signals that are blocked around
  critical sections do not occur: a handler runs between operations.
\<close>

subsection \<open>State\<close>

datatype CWStateTransition =
    CW_ENTER_SULKING | CW_ENTER_DISCOVERY | CW_ENTER_JOIN | CW_ENTER_CONFIGURE | CW_ENTER_DATA_CHECK
  | CW_ENTER_RUN | CW_ENTER_RESET | CW_QUIT

datatype CWSubState = CW_DTLS_HANDSHAKE_IN_PROGRESS | CW_WAITING_REQUEST | CW_COMPLETED

text \<open>A socket address: family, address bytes, port.\<close>

record sockaddr =
  sa_IPv6 :: bool
  sa_addr :: "byte list"
  sa_port :: "16 word"

record CWWTPManager =
  address :: sockaddr
  dataaddress :: "sockaddr option"  \<comment> \<open>\<open>None\<close>: \<^verbatim>\<open>AF_UNSPEC\<close>\<close>
  thread :: nat
  isNotFree :: bool
  isRequestClose :: bool
  currentState :: CWStateTransition
  subState :: CWSubState
  interfaceIndex :: nat
  packetReceiveList :: "byte list CWSafeList"
  fragmentsList :: "CWProtocolFragment list"
  pathMTU :: int
  interfaceResult :: int
  interfaceCommandProgress :: bool
  interfaceCommand :: int
  applicationIndex :: int
  currentTimer :: int
  radiosInfo :: "CWWTPRadioInfoValues list"  \<comment> \<open>of \<^verbatim>\<open>WTPProtocolManager\<close>\<close>
  sessionID :: "byte list option"            \<comment> \<open>of \<^verbatim>\<open>WTPProtocolManager\<close>\<close>
  messages :: "CWProtocolMessage list option"
  messagesCount :: nat
  retransmissionCount :: int
  currentPacketTimer :: int
  isRetransmitting :: bool
  responseType :: "32 word"
  responseSeqNum :: byte

datatype timer_signal = CW_CRITICAL_TIMER_EXPIRED_SIGNAL | CW_SOFT_TIMER_EXPIRED_SIGNAL

record CWThreadTimerArg =
  requestedThread :: nat
  signalToRaise :: timer_signal

datatype timer_handler = CWHandleTimer

record ac_session =
  wtp :: CWWTPManager
  timers :: "(timer_handler, CWThreadTimerArg) timerq"
  sent :: "byte list list"
  gDefaultQosValues :: "WTPQosValues list"

abbreviation UNUSED_MSG_TYPE :: "32 word" where "UNUSED_MSG_TYPE \<equiv> 0"
abbreviation gCWMaxRetransmit :: int where "gCWMaxRetransmit \<equiv> 5"
abbreviation gCWRetransmitTimer :: int where "gCWRetransmitTimer \<equiv> 12"

subsection \<open>Timers of a thread: CWThread.c\<close>

text \<open>
  The id is written when \<open>timer_add\<close> has been called, -1 included. The argument of the timer and the
  copy of the thread's identifier are blocks of 16 and 8 bytes, a timer is one of 64.
\<close>

definition CWTimerRequest ::
  "memory \<Rightarrow> int \<Rightarrow> nat \<Rightarrow> int \<Rightarrow> timer_signal \<Rightarrow> (timer_handler, CWThreadTimerArg) timerq \<Rightarrow>
   unit res \<times> int \<times> (timer_handler, CWThreadTimerArg) timerq" where
  "CWTimerRequest mem sec threadPtr idPtr signal q =
     (if sec < 0 then (Raise CW_ERROR_WRONG_ARG, idPtr, q)
      else if \<not> malloc_ok mem 16 \<or> \<not> malloc_ok mem 8 then (Raise CW_ERROR_NONE, idPtr, q)
      else case timer_add (malloc_ok mem 64) sec 0 (Some CWHandleTimer)
                  (Some \<lparr> requestedThread = threadPtr, signalToRaise = signal \<rparr>) q of
             Ret (n, q) \<Rightarrow> (if n = -1 then Raise CW_ERROR_NONE else Ret (), n, q)
           | Raise e \<Rightarrow> (Raise e, idPtr, q)
           | Fault \<Rightarrow> (Fault, idPtr, q))"

text \<open>The handler sends the signal to the thread: the thread and the signal.\<close>

definition CWHandleTimer_signal :: "CWThreadTimerArg option \<Rightarrow> (nat \<times> timer_signal) res" where
  "CWHandleTimer_signal arg =
     (case arg of None \<Rightarrow> Fault | Some a \<Rightarrow> Ret (requestedThread a, signalToRaise a))"

definition CWTimerCancel ::
  "int \<Rightarrow> (timer_handler, CWThreadTimerArg) timerq \<Rightarrow> (timer_handler, CWThreadTimerArg) timerq" where
  "CWTimerCancel idPtr q = snd (timer_rem idPtr True q)"

subsection \<open>Sending: ACRetransmission.c\<close>

fun send_fragments ::
  "(nat \<Rightarrow> bool) \<Rightarrow> CWProtocolMessage list \<Rightarrow> byte list list \<Rightarrow> unit res \<times> byte list list" where
  "send_fragments net [] out = (Ret (), out)"
| "send_fragments net (m # ms) out =
     (if \<not> well_formed m then (Fault, out)
      else if net (length out) then send_fragments net ms (out @ [contents m])
      else (Raise CW_ERROR_SENDING, out))"

text \<open>The messages are freed once they are sent.\<close>

definition CW_FREE_WTP_MSG_ARRAY :: "CWWTPManager \<Rightarrow> CWWTPManager" where
  "CW_FREE_WTP_MSG_ARRAY w = w\<lparr>messages := None, messagesCount := 0\<rparr>"

definition CWACSendFragments :: "(nat \<Rightarrow> bool) \<Rightarrow> ac_session \<Rightarrow> unit res \<times> ac_session" where
  "CWACSendFragments net s =
     (case messages (wtp s) of
        None \<Rightarrow> (Raise CW_ERROR_WRONG_ARG, s)
      | Some ms \<Rightarrow>
          if length ms < messagesCount (wtp s) then (Fault, s)
          else case send_fragments net (take (messagesCount (wtp s)) ms) (sent s) of
                 (Ret _, out) \<Rightarrow> (Ret (), s\<lparr>wtp := CW_FREE_WTP_MSG_ARRAY (wtp s), sent := out\<rparr>)
               | (r, out) \<Rightarrow> (r, s\<lparr>sent := out\<rparr>))"

definition CWACResendAcknowledgedPacket ::
  "memory \<Rightarrow> (nat \<Rightarrow> bool) \<Rightarrow> ac_session \<Rightarrow> unit res \<times> ac_session" where
  "CWACResendAcknowledgedPacket mem net s =
     (case CWACSendFragments net s of
        (Ret _, s) \<Rightarrow>
          (case CWTimerRequest mem gCWRetransmitTimer (thread (wtp s)) (currentPacketTimer (wtp s))
                  CW_SOFT_TIMER_EXPIRED_SIGNAL (timers s) of
             (r, n, q) \<Rightarrow> (r, s\<lparr>wtp := (wtp s)\<lparr>currentPacketTimer := n\<rparr>, timers := q\<rparr>))
      | (r, s) \<Rightarrow> (r, s))"

definition CWACSendAcknowledgedPacket ::
  "memory \<Rightarrow> (nat \<Rightarrow> bool) \<Rightarrow> 32 word \<Rightarrow> byte \<Rightarrow> ac_session \<Rightarrow> unit res \<times> ac_session" where
  "CWACSendAcknowledgedPacket mem net msgType seq s =
     CWACResendAcknowledgedPacket mem net
       (s\<lparr>wtp := (wtp s)\<lparr> retransmissionCount := 0, isRetransmitting := True,
                           responseType := msgType, responseSeqNum := seq \<rparr>\<rparr>)"

text \<open>The number of messages is not reset here.\<close>

definition CWACStopRetransmission :: "ac_session \<Rightarrow> ac_session res" where
  "CWACStopRetransmission s =
     (let w = wtp s in
      if \<not> isRetransmitting w then Ret s
      else if (case messages w of None \<Rightarrow> 0 | Some ms \<Rightarrow> length ms) < messagesCount w then Fault
      else Ret (s\<lparr> wtp := w\<lparr> isRetransmitting := False, responseType := UNUSED_MSG_TYPE,
                            responseSeqNum := 0, messages := None \<rparr>,
                  timers := CWTimerCancel (currentPacketTimer w) (timers s) \<rparr>))"

subsection \<open>Signal handlers: ACMainLoop.c\<close>

definition CWCriticalTimerExpiredHandler :: "ac_session \<Rightarrow> ac_session" where
  "CWCriticalTimerExpiredHandler s = s\<lparr>wtp := (wtp s)\<lparr>isRequestClose := True\<rparr>\<rparr>"

text \<open>The result says whether the handler closes the thread.\<close>

definition CWSoftTimerExpiredHandler ::
  "memory \<Rightarrow> (nat \<Rightarrow> bool) \<Rightarrow> ac_session \<Rightarrow> bool res \<times> ac_session" where
  "CWSoftTimerExpiredHandler mem net s =
     (if \<not> isRetransmitting (wtp s) \<or> messages (wtp s) = None then (Ret False, s)
      else let s = s\<lparr>wtp := (wtp s)\<lparr>retransmissionCount := retransmissionCount (wtp s) + 1\<rparr>\<rparr> in
        if retransmissionCount (wtp s) \<ge> gCWMaxRetransmit
        then (Ret False, s\<lparr>wtp := (wtp s)\<lparr>isRequestClose := True\<rparr>\<rparr>)
        else case CWACResendAcknowledgedPacket mem net s of
               (Ret _, s) \<Rightarrow> (Ret False, s)
             | (Raise e, s) \<Rightarrow> (Ret True, s)
             | (Fault, s) \<Rightarrow> (Fault, s))"

subsection \<open>A request is sent once\<close>

lemma send_fragments_ok:
  "\<lbrakk>list_all well_formed ms; \<forall>k. net k\<rbrakk> \<Longrightarrow> send_fragments net ms out = (Ret (), out @ map contents ms)"
  by (induction ms arbitrary: out) auto

lemma CWACSendFragments_ok:
  assumes "messages (wtp s) = Some ms" "messagesCount (wtp s) = length ms" "list_all well_formed ms"
    and "\<forall>k. net k"
  shows "CWACSendFragments net s = (Ret (),
    s\<lparr>wtp := CW_FREE_WTP_MSG_ARRAY (wtp s), sent := sent s @ map contents ms\<rparr>)"
  using assms by (simp add: CWACSendFragments_def send_fragments_ok)

lemma timer_add_new:
  assumes "timer_add True sec 0 (Some h) a q = Ret (n, q')" "0 < sec"
  shows "n = cur_id q \<and> (\<exists>t \<in> set (queue q'). tid t = n \<and> handler t = h \<and> handler_arg t = a)"
  using assms
  by (auto simp: timer_add_def Let_def split: list.splits nat.splits if_splits simp del: timer_place.simps)

lemma timer_add_returns:
  assumes "0 < sec" "cur_id q < INT_MAX"
  shows "\<exists>q'. timer_add True sec 0 (Some h) a q = Ret (cur_id q, q')"
  using assms
  by (auto simp: timer_add_def Let_def split: list.splits nat.splits simp del: timer_place.simps)

lemma CWTimerRequest_ok:
  assumes "ample mem" "0 < sec" "0 \<le> cur_id q" "cur_id q < INT_MAX"
  shows "\<exists>q'. CWTimerRequest mem sec th n signal q = (Ret (), cur_id q, q') \<and>
    (\<exists>t \<in> set (queue q'). tid t = cur_id q \<and>
       handler_arg t = Some \<lparr> requestedThread = th, signalToRaise = signal \<rparr>)"
proof -
  let ?a = "Some \<lparr> requestedThread = th, signalToRaise = signal \<rparr>"
  obtain q' where "timer_add True sec 0 (Some CWHandleTimer) ?a q = Ret (cur_id q, q')"
    using timer_add_returns [OF assms(2,4)] by blast
  with timer_add_new [OF this assms(2)] assms show ?thesis
    by (auto simp: CWTimerRequest_def ample_malloc)
qed

text \<open>
  C19: When the AC sends a request that must be acknowledged, its packets go out in order and a timer
  is started that sends the soft signal to the session's thread; and that is all: the packets have
  been freed, so that, however often the soft timer expires, and whatever memory and network allow,
  the handler takes the session for one that is not retransmitting. It sends nothing, starts no
  timer, never counts a retransmission and never declares the WTP dead.
\<close>

theorem ac_request_sent_once:
  assumes "ample mem" "\<forall>k. net k" "messages (wtp s) = Some ms" "messagesCount (wtp s) = length ms"
    and "list_all well_formed ms" "0 \<le> cur_id (timers s)" "cur_id (timers s) < INT_MAX"
  shows "\<exists>s'. CWACSendAcknowledgedPacket mem net type seq s = (Ret (), s') \<and>
    sent s' = sent s @ map contents ms \<and> isRetransmitting (wtp s') \<and> retransmissionCount (wtp s') = 0 \<and>
    (\<exists>t \<in> set (queue (timers s')). tid t = currentPacketTimer (wtp s') \<and>
       CWHandleTimer_signal (handler_arg t) = Ret (thread (wtp s), CW_SOFT_TIMER_EXPIRED_SIGNAL)) \<and>
    (\<forall>mem' net' n. CWSoftTimerExpiredHandler mem' net' s' = (Ret False, s') \<and>
       ((\<lambda>s. snd (CWSoftTimerExpiredHandler mem' net' s)) ^^ n) s' = s')"
proof -
  let ?w = "(wtp s)\<lparr> retransmissionCount := 0, isRetransmitting := True, responseType := type,
              responseSeqNum := seq \<rparr>"
  let ?s = "s\<lparr> wtp := CW_FREE_WTP_MSG_ARRAY ?w, sent := sent s @ map contents ms \<rparr>"
  have send: "CWACSendFragments net (s\<lparr>wtp := ?w\<rparr>) = (Ret (), ?s)"
    using CWACSendFragments_ok [of "s\<lparr>wtp := ?w\<rparr>" ms net] assms(2-5) by simp
  obtain q' t where q': "CWTimerRequest mem gCWRetransmitTimer (thread (wtp s)) (currentPacketTimer (wtp s))
      CW_SOFT_TIMER_EXPIRED_SIGNAL (timers s) = (Ret (), cur_id (timers s), q')"
    "t \<in> set (queue q')" "tid t = cur_id (timers s)"
    "handler_arg t = Some \<lparr> requestedThread = thread (wtp s), signalToRaise = CW_SOFT_TIMER_EXPIRED_SIGNAL \<rparr>"
    using CWTimerRequest_ok [OF assms(1) _ assms(6,7)] by (metis zero_less_numeral)
  let ?s' = "?s\<lparr> wtp := (wtp ?s)\<lparr>currentPacketTimer := cur_id (timers s)\<rparr>, timers := q' \<rparr>"
  have a: "CWACSendAcknowledgedPacket mem net type seq s = (Ret (), ?s')"
    using send q'(1)
    by (simp add: CWACSendAcknowledgedPacket_def CWACResendAcknowledgedPacket_def CW_FREE_WTP_MSG_ARRAY_def)
  have h: "CWSoftTimerExpiredHandler mem' net' ?s' = (Ret False, ?s')" for mem' net'
    by (simp add: CWSoftTimerExpiredHandler_def CW_FREE_WTP_MSG_ARRAY_def)
  have n: "((\<lambda>s. snd (CWSoftTimerExpiredHandler mem' net' s)) ^^ n) ?s' = ?s'" for mem' net' n
    by (induction n) (simp_all only: funpow.simps id_apply comp_apply h snd_conv)
  show ?thesis
    using a h n q'(2-4) by (intro exI [of _ ?s']) (auto simp: CW_FREE_WTP_MSG_ARRAY_def CWHandleTimer_signal_def)
qed

definition ex_session :: "CWWTPRadioInfoValues list \<Rightarrow> ac_session" where
  "ex_session radios = \<lparr> wtp = \<lparr> address = \<lparr> sa_IPv6 = False, sa_addr = [10, 0, 0, 2], sa_port = 5246 \<rparr>,
       dataaddress = None, thread = 7, isNotFree = True, isRequestClose = False,
       currentState = CW_ENTER_DATA_CHECK, subState = CW_WAITING_REQUEST, interfaceIndex = 0,
       packetReceiveList = None, fragmentsList = [], pathMTU = 1400, interfaceResult = 0,
       interfaceCommandProgress = False, interfaceCommand = 0, applicationIndex = 0, currentTimer = 0, radiosInfo = radios,
       sessionID = None, messages = Some [elem_msg 33 (be32 0)], messagesCount = 1,
       retransmissionCount = 0, currentPacketTimer = 0, isRetransmitting = False,
       responseType = 0, responseSeqNum = 0 \<rparr>,
     timers = \<lparr> queue = [], cur_id = 1, ticker = Top, now = \<lparr> tv_sec = 100, tv_usec = 0 \<rparr>, alarm = None,
                pending = False, ran = [] \<rparr>, sent = [], gDefaultQosValues = replicate 4 (ex_qos 2 4 3) \<rparr>"

theorem ac_request_sent_once_witness:
  "\<exists>s'. CWACSendAcknowledgedPacket (\<lambda>_. True) (\<lambda>_. True) 7 3 (ex_session []) = (Ret (), s') \<and>
     sent s' = [elem_bytes 33 (be32 0)] \<and>
     ((\<lambda>s. snd (CWSoftTimerExpiredHandler (\<lambda>_. True) (\<lambda>_. True) s)) ^^ 5) s' = s'"
  using ac_request_sent_once [of "\<lambda>_. True" "\<lambda>_. True" "ex_session []" "[elem_msg 33 (be32 0)]" 7 3]
  by (auto simp: ex_session_def ample_def)

subsection \<open>The Change State Event at the AC: ACDataCheckState.c\<close>

text \<open>\<open>None\<close> when the parse function does not return.\<close>

definition ACEnterDataCheck ::
  "memory \<Rightarrow> eth \<Rightarrow> int \<Rightarrow> 32 word \<Rightarrow> (nat \<Rightarrow> bool) \<Rightarrow> CWProtocolMessage \<Rightarrow> ac_session \<Rightarrow>
   (unit res \<times> ac_session) option" where
  "ACEnterDataCheck mem mac fid garbage net m s =
     (let s = s\<lparr>timers := CWTimerCancel (currentTimer (wtp s)) (timers s)\<rparr> in
      if \<not> malloc_ok mem 24 then Some (Raise CW_ERROR_OUT_OF_MEMORY, s)
      else case CWParseChangeStateEventRequestMessage mem (msg m) (int (offset m)) of
        None \<Rightarrow> None
      | Some Fault \<Rightarrow> Some (Fault, s)
      | Some (Raise e) \<Rightarrow> Some (Raise e, s)
      | Some (Ret (seq, v)) \<Rightarrow>
          let (rs, ok) = CWSaveChangeStateEventRequestMessage v (radiosInfo (wtp s));
              s = s\<lparr>wtp := (wtp s)\<lparr>radiosInfo := rs\<rparr>\<rparr>
          in if \<not> ok then Some (Raise CW_ERROR_NONE, s)
             else case CWAssembleChangeStateEventResponse mem mac fid garbage (pathMTU (wtp s)) seq of
               Fault \<Rightarrow> Some (Fault, s)
             | Raise e \<Rightarrow> Some (Raise e, s)
             | Ret ms \<Rightarrow>
                 (case CWACSendFragments net
                         (s\<lparr>wtp := (wtp s)\<lparr>messages := Some ms, messagesCount := length ms\<rparr>\<rparr>) of
                    (Ret _, s) \<Rightarrow> Some (Ret (), s\<lparr>wtp := (wtp s)\<lparr> currentState := CW_ENTER_RUN,
                                                               subState := CW_WAITING_REQUEST \<rparr>\<rparr>)
                  | (r, s) \<Rightarrow> Some (r, s)))"

text \<open>The answer of the AC, and what the WTP makes of it.\<close>

lemma change_state_response:
  assumes "ample mem" "control_fragments PMTU 8 = 1"
  shows "\<exists>p. CWAssembleChangeStateEventResponse mem mac fid garbage PMTU seq = Ret [p] \<and> well_formed p \<and>
    (\<exists>mac' m. CWProtocolParseFragment mem (contents p @ junk) (int (length (contents p))) [] False None =
        Some (Ret m, [], False, mac') \<and>
      (\<forall>seq'. CWParseChangeStateEventResponseMessage (msg m) (int (offset m)) seq' =
        (if seq = seq' then Ret () else Raise CW_ERROR_INVALID_FORMAT)))"
proof -
  let ?v = "plain_values 0 0 0" and ?b = "message_header seq 12 0"
  have b: "?b = message_bytes seq 12 [] []" by (simp add: message_bytes_eq message_elements_def)
  have v: "bindingValuesPtr ?v = None" "take_bit 1 (isFragment ?v) = 0" by (simp_all add: plain_values_def)
  have a: "CWAssembleChangeStateEventResponse mem mac fid garbage PMTU seq = Ret [wmsg (header_bytes mac ?v @ ?b) 0]"
    using CWAssembleMessage_eq [OF assms(1) _ _ b refl refl refl, of mac fid garbage PMTU 0] assms(2)
    by (simp add: CWAssembleChangeStateEventResponse_def)
  have p: "CWParseChangeStateEventResponseMessage (msg (amsg None ?b 0)) (int (offset (amsg None ?b 0))) seq' =
      (if seq = seq' then Ret () else Raise CW_ERROR_INVALID_FORMAT)" for seq'
    using parse_message_header_eq [of 0 12 seq 12 "[]"]
    by (simp add: CWParseChangeStateEventResponseMessage_def amsg_def wmsg_def)
  have "mac_room None" by (simp add: mac_room_def)
  from receive_single [OF assms(1) this v, of mac ?b junk "[]"] p show ?thesis
    by (intro exI [of _ "wmsg (header_bytes mac ?v @ ?b) 0"]) (auto simp: a)
qed

text \<open>
  C33: The AC's handler of a Change State Event that it has parsed, with memory enough and an answer that fits in one
  packet. Whatever it decides, every radio of the AC's entry whose identifier is reported gets the last reported state and
  cause. When the AC knows no radio, or every reported radio is the first of the AC's list, the session enters the Run
  state and the WTP, which receives one packet, accepts it as the response to this request and to no
  other. In every other case, so for every WTP that reports two different radios, the handler fails although
  all radios may have been found: nothing is sent, no error is raised and the session stays where it is.
\<close>

theorem ac_data_check:
  assumes "ample mem" "net (length (sent s))" "control_fragments (pathMTU (wtp s)) 8 = 1"
    and "CWParseChangeStateEventRequestMessage mem (msg m) (int (offset m)) = Some (Ret (seq, v))"
  shows "\<exists>r s'. ACEnterDataCheck mem mac fid garbage net m s = Some (r, s') \<and>
    radiosInfo (wtp s') = fold (\<lambda>o'. map (noted o')) (radioOperationalInfo v) (radiosInfo (wtp s)) \<and>
    (if radiosInfo (wtp s) = [] \<or>
        (\<forall>o' \<in> set (radioOperationalInfo v). oper_ID o' = radio_radioID (hd (radiosInfo (wtp s))))
     then r = Ret () \<and> currentState (wtp s') = CW_ENTER_RUN \<and>
       (\<exists>p mac' m'. sent s' = sent s @ [p] \<and>
          CWProtocolParseFragment mem (p @ junk) (int (length p)) [] False None =
            Some (Ret m', [], False, mac') \<and>
          CWParseChangeStateEventResponseMessage (msg m') (int (offset m')) seq' =
            (if seq = seq' then Ret () else Raise CW_ERROR_INVALID_FORMAT))
     else r = Raise CW_ERROR_NONE \<and> sent s' = sent s \<and> currentState (wtp s') = currentState (wtp s))"
proof -
  let ?rs = "radiosInfo (wtp s)" and ?os = "radioOperationalInfo v"
  let ?new = "fold (\<lambda>o'. map (noted o')) ?os ?rs"
  have save: "CWSaveChangeStateEventRequestMessage v ?rs =
      (?new, ?rs = [] \<or> (\<forall>o' \<in> set ?os. oper_ID o' = radio_radioID (hd ?rs)))"
    by (auto simp: CWSaveChangeStateEventRequestMessage_def save_radios_eq)
  from change_state_response [OF assms(1,3), of mac fid garbage seq junk]
  obtain p mac' m' where p: "CWAssembleChangeStateEventResponse mem mac fid garbage (pathMTU (wtp s)) seq = Ret [p]"
    "well_formed p" "CWProtocolParseFragment mem (contents p @ junk) (int (length (contents p))) [] False None =
        Some (Ret m', [], False, mac')"
    "\<And>seq'. CWParseChangeStateEventResponseMessage (msg m') (int (offset m')) seq' =
        (if seq = seq' then Ret () else Raise CW_ERROR_INVALID_FORMAT)"
    by blast
  show ?thesis
    using assms(1,2) p
    by (auto simp: ACEnterDataCheck_def Let_def ample_malloc assms(4) save CWACSendFragments_def
        CW_FREE_WTP_MSG_ARRAY_def)
qed

text \<open>A WTP with two radios: the request of its report is refused.\<close>

theorem ac_data_check_witness:
  "\<exists>s'. ACEnterDataCheck (\<lambda>_. True) no_mac 0 0 (\<lambda>_. True)
      \<lparr> msg = message_header 5 11 (length (cs_elements [\<lparr> oper_ID = 1, oper_state = 1, oper_cause = 0 \<rparr>,
                 \<lparr> oper_ID = 2, oper_state = 1, oper_cause = 0 \<rparr>])) @
               cs_elements [\<lparr> oper_ID = 1, oper_state = 1, oper_cause = 0 \<rparr>,
                 \<lparr> oper_ID = 2, oper_state = 1, oper_cause = 0 \<rparr>],
        offset = 30, data_msgType = None \<rparr>
      (ex_session [ex_radio, ex_radio\<lparr>radio_radioID := 2\<rparr>]) = Some (Raise CW_ERROR_NONE, s') \<and>
    sent s' = [] \<and> currentState (wtp s') = CW_ENTER_DATA_CHECK"
proof -
  let ?os = "[\<lparr> oper_ID = 1, oper_state = 1, oper_cause = 0 \<rparr>, \<lparr> oper_ID = 2, oper_state = 1, oper_cause = 0 \<rparr>]"
  let ?m = "\<lparr> msg = message_header 5 11 (length (cs_elements ?os)) @ cs_elements ?os, offset = 30,
     data_msgType = None \<rparr>" and ?s = "ex_session [ex_radio, ex_radio\<lparr>radio_radioID := 2\<rparr>]"
  have p: "CWParseChangeStateEventRequestMessage (\<lambda>_. True) (msg ?m) (int (offset ?m)) =
      Some (Ret (5, \<lparr> radioOperationalInfo = ?os, cs_resultCode = Some 0 \<rparr>))"
    using parse_change_state_request [OF ample_all, of ?os 5 "[]"] by simp
  have f: "control_fragments (pathMTU (wtp ?s)) 8 = 1"
    by (simp add: ex_session_def control_fragments_def control_pmtu_def fragment_payload_def fragments_num_def)
  show ?thesis
    using ac_data_check [OF ample_all _ f p, of "\<lambda>_. True" no_mac 0 0 "[]" 5]
    by (auto simp: ex_session_def ex_radio_def)
qed

end
