(* ===== verification/WTPRetransmission.thy ===== *)
theory WTPRetransmission
  imports ACSession
begin

section \<open>Requests of the WTP: WTP.c, WTPRetransmission.c, WTPRunStateCheck.c\<close>

text \<open>
  The WTP sends a request in one of two ways. Outside the Run state \<open>CWWTPSendAcknowledgedPacket\<close>
  waits for the response and repeats the request; in the Run state the request is put into a box of
  \<open>gPendingRequestMsgs\<close> whose timer repeats it.
\<close>

subsection \<open>Waiting for the response: WTP.c\<close>

text \<open>
  What the wait on the packet queue brings: an error code, of which the expired time is the usual
  one, or a packet, from which \<^verbatim>\<open>CWReceiveMessage\<close> makes a message or fails.
\<close>

datatype wait_event = WaitFailed CWErrorCode | Received "CWProtocolMessage res"

datatype 'v attempt = Acked 'v | TryAgain | GiveUp CWErrorCode | Crash | StillWaiting

text \<open>
  The inner loop: it goes on waiting only when a response was parsed but could not be saved
  because of its format. \<open>parse\<close> and \<open>save\<close> are the functions of the request.
\<close>

fun await_response ::
  "(CWProtocolMessage \<Rightarrow> 'v res) \<Rightarrow> ('v \<Rightarrow> unit res) \<Rightarrow> wait_event list \<Rightarrow> 'v attempt \<times> wait_event list" where
  "await_response parse save [] = (StillWaiting, [])"
| "await_response parse save (WaitFailed e # es) =
     (if e = CW_ERROR_TIME_EXPIRED \<or> e = CW_ERROR_INTERRUPTED then TryAgain else GiveUp e, es)"
| "await_response parse save (Received r # es) =
     (case r of Fault \<Rightarrow> (Crash, es)
      | Raise e \<Rightarrow> (GiveUp e, es)
      | Ret m \<Rightarrow>
          (case parse m of Fault \<Rightarrow> (Crash, es)
           | Raise e \<Rightarrow> (if e = CW_ERROR_INVALID_FORMAT then TryAgain else GiveUp e, es)
           | Ret v \<Rightarrow>
               (case save v of Fault \<Rightarrow> (Crash, es)
                | Ret _ \<Rightarrow> (Acked v, es)
                | Raise e \<Rightarrow> if e = CW_ERROR_INVALID_FORMAT then await_response parse save es
                             else (GiveUp e, es))))"

text \<open>
  The outer loop with \<open>left\<close> transmissions to go; \<open>sleep\<close> is \<^verbatim>\<open>gTimeToSleep\<close>, the time the next wait
  is given. The value is what the function returns, what was sent, and the times waited.
\<close>

abbreviation gMaxTimeToSleep :: int where "gMaxTimeToSleep \<equiv> 5 div 2"

definition next_sleep :: "int \<Rightarrow> int" where "next_sleep s = min (2 * s) gMaxTimeToSleep"

fun send_until_acked ::
  "(nat \<Rightarrow> bool) \<Rightarrow> CWProtocolMessage list \<Rightarrow> (CWProtocolMessage \<Rightarrow> 'v res) \<Rightarrow> ('v \<Rightarrow> unit res) \<Rightarrow>
   nat \<Rightarrow> int \<Rightarrow> wait_event list \<Rightarrow> byte list list \<Rightarrow> 'v attempt \<times> byte list list \<times> int list" where
  "send_until_acked net ms parse save 0 sleep es out = (GiveUp CW_ERROR_NEED_RESOURCE, out, [])"
| "send_until_acked net ms parse save (Suc left) sleep es out =
     (case send_fragments net ms out of
        (Fault, out) \<Rightarrow> (Crash, out, [])
      | (Raise e, out) \<Rightarrow> (GiveUp e, out, [])
      | (Ret _, out) \<Rightarrow>
          (case await_response parse save es of
             (TryAgain, es) \<Rightarrow>
               (case send_until_acked net ms parse save left (next_sleep sleep) es out of
                  (r, out, sleeps) \<Rightarrow> (r, out, sleep # sleeps))
           | (r, es) \<Rightarrow> (r, out, [sleep])))"

text \<open>\<open>assemble\<close> is the assemble function of the request, for the path MTU and sequence number.\<close>

definition CWWTPSendAcknowledgedPacket ::
  "(nat \<Rightarrow> bool) \<Rightarrow> CWProtocolMessage list res \<Rightarrow> (CWProtocolMessage \<Rightarrow> 'v res) \<Rightarrow> ('v \<Rightarrow> unit res) \<Rightarrow>
   wait_event list \<Rightarrow> 'v attempt \<times> byte list list \<times> int list" where
  "CWWTPSendAcknowledgedPacket net assemble parse save es =
     (case assemble of
        Fault \<Rightarrow> (Crash, [], [])
      | Raise e \<Rightarrow> (GiveUp e, [], [])
      | Ret ms \<Rightarrow> send_until_acked net ms parse save (nat gCWMaxRetransmit) gCWRetransmitTimer es [])"

text \<open>The variant with a time of its own for the first wait: it never sets its number of fragments, so
  it sends none of the messages it is given.\<close>

definition CWWTPRequestPacketRetransmissionCustomTimeInterval ::
  "int \<Rightarrow> CWProtocolMessage list \<Rightarrow> (CWProtocolMessage \<Rightarrow> 'v res) \<Rightarrow> ('v \<Rightarrow> unit res) \<Rightarrow>
   wait_event list \<Rightarrow> 'v attempt \<times> byte list list \<times> int list" where
  "CWWTPRequestPacketRetransmissionCustomTimeInterval interval ms parse save es =
     send_until_acked (\<lambda>_. True) (take 0 ms) parse save (nat gCWMaxRetransmit) interval es []"

text \<open>An event after which the request is repeated.\<close>

fun lost :: "(CWProtocolMessage \<Rightarrow> 'v res) \<Rightarrow> wait_event \<Rightarrow> bool" where
  "lost parse (WaitFailed e) \<longleftrightarrow> e = CW_ERROR_TIME_EXPIRED \<or> e = CW_ERROR_INTERRUPTED"
| "lost parse (Received r) \<longleftrightarrow> (\<exists>m. r = Ret m \<and> parse m = Raise CW_ERROR_INVALID_FORMAT)"

lemma await_lost: "lost parse e \<Longrightarrow> await_response parse save (e # es) = (TryAgain, es)"
  by (cases e) auto

lemma send_until_acked_lost:
  assumes "list_all well_formed ms" "\<forall>k. net k" "list_all (lost parse) losses"
  shows "send_until_acked net ms parse save (length losses + n) sleep (losses @ es) out =
    (case send_until_acked net ms parse save n ((next_sleep ^^ length losses) sleep) es
            (out @ concat (replicate (length losses) (map contents ms))) of
       (r, out, sleeps) \<Rightarrow> (r, out, map (\<lambda>i. (next_sleep ^^ i) sleep) [0..<length losses] @ sleeps))"
  using assms(3)
proof (induction losses arbitrary: sleep out)
  case (Cons e losses)
  have f: "(next_sleep ^^ k) (next_sleep x) = (next_sleep ^^ Suc k) x" for k x
    by (simp only: funpow_Suc_right comp_apply)
  have m: "map (\<lambda>i. (next_sleep ^^ i) sleep) [0..<Suc k] =
      sleep # map (\<lambda>i. (next_sleep ^^ i) (next_sleep sleep)) [0..<k]" for k
    by (simp only: f upt_conv_Cons [of 0 "Suc k"] zero_less_Suc list.map funpow_0 map_map comp_def
        flip: map_Suc_upt)
  show ?case
    using Cons send_fragments_ok [OF assms(1,2)] await_lost [of parse e]
    by (simp add: m f del: funpow.simps upt_Suc split: prod.splits)
qed simp

lemma send_until_acked_bound:
  assumes "list_all well_formed ms" "\<forall>k. net k"
  shows "\<exists>k \<le> left. \<exists>r. send_until_acked net ms parse save left sleep es out =
    (r, out @ concat (replicate k (map contents ms)), map (\<lambda>i. (next_sleep ^^ i) sleep) [0..<k])"
proof (induction left arbitrary: sleep es out)
  case (Suc left)
  let ?P = "map contents ms"
  obtain r es' where a: "await_response parse save es = (r, es')" by fastforce
  show ?case
  proof (cases "r = TryAgain")
    case True
    obtain k r' where "k \<le> left" and s: "send_until_acked net ms parse save left (next_sleep sleep) es' (out @ ?P) =
        (r', (out @ ?P) @ concat (replicate k ?P), map (\<lambda>i. (next_sleep ^^ i) (next_sleep sleep)) [0..<k])"
      using Suc.IH by blast
    have m: "sleep # map (\<lambda>i. (next_sleep ^^ i) (next_sleep sleep)) [0..<k] =
        map (\<lambda>i. (next_sleep ^^ i) sleep) [0..<Suc k]"
      by (simp only: funpow_Suc_right comp_apply upt_conv_Cons [of 0 "Suc k"] zero_less_Suc list.map
          funpow_0 map_map comp_def flip: map_Suc_upt)
    show ?thesis
      using s m a True \<open>k \<le> left\<close> send_fragments_ok [OF assms]
      by (intro exI [of _ "Suc k"]) (simp del: upt_Suc)
  next
    case False
    then show ?thesis
      using a send_fragments_ok [OF assms] by (intro exI [of _ 1]) (cases r; simp)
  qed
qed simp

lemma sleeps_eq: "k \<le> 5 \<Longrightarrow> map (\<lambda>i. (next_sleep ^^ i) 12) [0..<k] = take k [12, 2, 2, 2, 2]"
  by (auto simp: le_Suc_eq numeral_eq_Suc next_sleep_def)

text \<open>
  C18: A request of the WTP is sent at most five times, always all its packets in order. The waits between the
  transmissions shrink from 12 to 2 seconds and stay there: the doubling is cut at half the echo
  interval. When the waits end by timeout, by an interruption or with a message of another format,
  the response that then arrives ends the exchange after one transmission more than there were such
  losses; after five losses the WTP gives the AC up for dead, whatever arrives later.
\<close>

theorem wtp_request_acknowledged:
  assumes "list_all well_formed ms" "\<forall>k. net k" "list_all (lost parse) losses"
    and "parse m = Ret v" "save v = Ret ()"
  shows "CWWTPSendAcknowledgedPacket net (Ret ms) parse save (losses @ Received (Ret m) # es) =
      (if length losses < 5
       then (Acked v, concat (replicate (Suc (length losses)) (map contents ms)),
             take (Suc (length losses)) [12, 2, 2, 2, 2])
       else (GiveUp CW_ERROR_NEED_RESOURCE, concat (replicate 5 (map contents ms)), [12, 2, 2, 2, 2])) \<and>
    (\<exists>k \<le> 5. \<exists>r. CWWTPSendAcknowledgedPacket net (Ret ms) parse save any_events =
      (r, concat (replicate k (map contents ms)), take k [12, 2, 2, 2, 2]))"
proof -
  let ?P = "map contents ms"
  have five: "nat gCWMaxRetransmit = 5" by simp
  note start = CWWTPSendAcknowledgedPacket_def five res.case
  obtain k r where k: "k \<le> 5" "send_until_acked net ms parse save 5 12 any_events [] =
      (r, [] @ concat (replicate k ?P), map (\<lambda>i. (next_sleep ^^ i) 12) [0..<k])"
    using send_until_acked_bound [OF assms(1,2), of 5 parse save 12 any_events "[]"] by blast
  have b: "\<exists>k \<le> 5. \<exists>r. CWWTPSendAcknowledgedPacket net (Ret ms) parse save any_events =
      (r, concat (replicate k ?P), take k [12, 2, 2, 2, 2])"
    unfolding start k(2) sleeps_eq [OF k(1)] append_Nil using k(1) by blast
  have "CWWTPSendAcknowledgedPacket net (Ret ms) parse save (losses @ Received (Ret m) # es) =
      (if length losses < 5
       then (Acked v, concat (replicate (Suc (length losses)) ?P), take (Suc (length losses)) [12, 2, 2, 2, 2])
       else (GiveUp CW_ERROR_NEED_RESOURCE, concat (replicate 5 ?P), [12, 2, 2, 2, 2]))"
  proof (cases "length losses < 5")
    case True
    define n where "n = 4 - length losses"
    have n: "5 = length losses + Suc n" using True by (simp add: n_def)
    have one: "send_until_acked net ms parse save (Suc n) sleep (Received (Ret m) # es) out =
        (Acked v, out @ ?P, [sleep])" for sleep out
      using send_fragments_ok [OF assms(1,2)] assms(4,5) by simp
    have "map (\<lambda>i. (next_sleep ^^ i) 12) [0..<length losses] @ [(next_sleep ^^ length losses) 12] =
        map (\<lambda>i. (next_sleep ^^ i) 12) [0..<Suc (length losses)]" by simp
    also have "\<dots> = take (Suc (length losses)) [12, 2, 2, 2, 2]" by (rule sleeps_eq) (use True in simp)
    finally show ?thesis
      using send_until_acked_lost [OF assms(1-3), of save "Suc n" 12 "Received (Ret m) # es" "[]"] True
      unfolding start one n [symmetric] by (simp add: replicate_append_same [symmetric] del: take_Suc_Cons)
  next
    case False
    let ?l = "take 5 losses"
    have "list_all (lost parse) ?l" using assms(3) by (auto simp: list_all_iff dest: in_set_takeD)
    from send_until_acked_lost [OF assms(1,2) this, of save 0 12 "drop 5 losses @ Received (Ret m) # es" "[]"]
    moreover have "?l @ drop 5 losses @ xs = losses @ xs" for xs by (simp flip: append_assoc)
    ultimately show ?thesis using False unfolding start by (simp add: sleeps_eq)
  qed
  with b show ?thesis by blast
qed

theorem wtp_request_acknowledged_witness:
  "CWWTPSendAcknowledgedPacket (\<lambda>_. True) (Ret [elem_msg 4 [65]])
      (\<lambda>m. CWParseChangeStateEventResponseMessage (msg m) (int (offset m)) 9) (\<lambda>_. Ret ())
      [WaitFailed CW_ERROR_TIME_EXPIRED, Received (Ret (amsg None (message_header 9 12 0) 0))] =
    (Acked (), [elem_bytes 4 [65], elem_bytes 4 [65]], [12, 2])"
proof -
  let ?m = "amsg None (message_header 9 12 0) 0"
  have p: "CWParseChangeStateEventResponseMessage (msg ?m) (int (offset ?m)) 9 = Ret ()"
    using parse_message_header_eq [of 0 12 9 12 "[]"]
    by (simp add: CWParseChangeStateEventResponseMessage_def amsg_def wmsg_def)
  show ?thesis
    using wtp_request_acknowledged [of "[elem_msg 4 [65]]" "\<lambda>_. True"
        "\<lambda>m. CWParseChangeStateEventResponseMessage (msg m) (int (offset m)) 9"
        "[WaitFailed CW_ERROR_TIME_EXPIRED]" ?m "()" "\<lambda>_. Ret ()" "[]"] p
    by simp
qed

end
