(* ===== verification/WTPPending.thy ===== *)
theory WTPPending
  imports WTPRetransmission
begin

section \<open>Pending requests of the Run state: WTPRetransmission.c, WTPRunStateCheck.c\<close>

text \<open>
  In the Run state the WTP puts a request into a box of \<^verbatim>\<open>gPendingRequestMsgs\<close>; a timer of the box
  repeats it. The argument of the timer is a pointer to an allocated \<^verbatim>\<open>int\<close>, the index of the box, and
  who frees it matters: the blocks are a map from addresses to their \<^verbatim>\<open>int\<close>, a pointer to a block that
  is not there is dangling. The boxes are an array of the data segment: zero until they are set.
\<close>

subsection \<open>A timer runs out\<close>

text \<open>
  What timerlib's ticker does with the timer \<open>n\<close> when its time has come: it takes it out of the queue, and then its thread
  calls the handler, unless the timer was cancelled. A timer waits when its handler will be called.
\<close>

definition timer_fires :: "int \<Rightarrow> ('h, 'a) timerq \<Rightarrow> ('h \<times> 'a option) option \<times> ('h, 'a) timerq" where
  "timer_fires n q =
     (case timer_find n (queue q) of
        None \<Rightarrow> (None, q)
      | Some i \<Rightarrow> let t = queue q ! i in
          (if cancelled t then None else Some (handler t, handler_arg t), timer_dequeue i q))"

definition timer_waits :: "int \<Rightarrow> 'h \<Rightarrow> 'a option \<Rightarrow> ('h, 'a) timerq \<Rightarrow> bool" where
  "timer_waits n h a q \<longleftrightarrow> (\<exists>i. timer_find n (queue q) = Some i \<and> i < length (queue q) \<and> tid (queue q ! i) = n \<and>
     \<not> cancelled (queue q ! i) \<and> handler (queue q ! i) = h \<and> handler_arg (queue q ! i) = a)"

lemma timer_find_in:
  "\<lbrakk>t \<in> set ts; distinct (map tid ts); tid t = n\<rbrakk> \<Longrightarrow>
   \<exists>i. timer_find n ts = Some i \<and> i < length ts \<and> ts ! i = t"
proof (induction ts)
  case (Cons a ts)
  show ?case
  proof (cases "tid a = n")
    case True
    with Cons.prems have "a = t" by (auto simp: image_iff)
    with True show ?thesis by simp
  next
    case False
    with Cons show ?thesis by auto
  qed
qed simp

lemma timer_add_waits:
  assumes "id_inv q" "0 < sec" "cur_id q < INT_MAX"
  shows "\<exists>q'. timer_add True sec 0 (Some h) a q = Ret (cur_id q, q') \<and> id_inv q' \<and> timer_waits (cur_id q) h a q' \<and>
    cur_id q' = cur_id q + 1 \<and> ran q' = ran q"
proof -
  obtain q' where add: "timer_add True sec 0 (Some h) a q = Ret (cur_id q, q')"
    using timer_add_returns [OF assms(2,3)] by blast
  have "0 \<le> cur_id q" using assms(1) by (simp add: id_inv_def)
  with add have q': "cur_id q' = cur_id q + 1 \<and> ran q' = ran q \<and> (\<exists>t \<in> set (queue q'). tid t = cur_id q \<and>
      \<not> cancelled t \<and> handler t = h \<and> handler_arg t = a)"
    by (cases rule: timer_add_cases) (auto simp: timer_start_def)
  have inv: "id_inv q'" by (rule id_inv_add [OF add assms(1)])
  then have "distinct (map tid (queue q'))" by (simp add: id_inv_def)
  with q' have "timer_waits (cur_id q) h a q'"
    unfolding timer_waits_def using timer_find_in [of _ "queue q'" "cur_id q"] by blast
  with add q' inv show ?thesis by blast
qed

lemma timer_add_ids:
  assumes "timer_add mem sec usec h a q = Ret (i, q')"
  shows "tid ` set (queue q') \<subseteq> insert (cur_id q) (tid ` set (queue q))"
  using assms by (cases rule: timer_add_cases) (auto simp: timer_start_def dest: in_set_takeD in_set_dropD)

lemma timer_fires_waiting:
  assumes "timer_waits n h a q" "id_inv q"
  shows "\<exists>q'. timer_fires n q = (Some (h, a), q') \<and> id_inv q' \<and> timer_find n (queue q') = None \<and> cur_id q' = cur_id q"
proof -
  obtain i where i: "timer_find n (queue q) = Some i" "i < length (queue q)" "tid (queue q ! i) = n"
    "\<not> cancelled (queue q ! i)" "handler (queue q ! i) = h" "handler_arg (queue q ! i) = a"
    using assms(1) by (auto simp: timer_waits_def)
  have q: "queue q = take i (queue q) @ queue q ! i # drop (Suc i) (queue q)" by (rule id_take_nth_drop [OF i(2)])
  have d: "distinct (map fst (ran q) @ map tid (take i (queue q) @ queue q ! i # drop (Suc i) (queue q)))"
    "\<forall>k \<in> set (map fst (ran q) @ map tid (take i (queue q) @ queue q ! i # drop (Suc i) (queue q))). 0 \<le> k \<and> k < cur_id q"
    using assms(2) q unfolding id_inv_def by metis+
  have "id_inv (timer_dequeue i q)"
    using assms(2) d by (auto simp: id_inv_def timer_dequeue_def)
  moreover have "timer_find n (queue (timer_dequeue i q)) = None"
    using d(1) i(3) by (auto simp: timer_find_None timer_dequeue_def)
  ultimately show ?thesis using i by (simp add: timer_fires_def Let_def timer_dequeue_def)
qed

subsection \<open>State\<close>

datatype wtp_timer_handler = CWWTPRetransmitTimerExpired | OtherTimer nat

record CWPendingRequestMessage =
  msgType :: byte
  pend_seqNum :: byte
  timer_sec :: int
  timer_hdl :: "wtp_timer_handler option"
  timer_arg :: "addr option"
  timer :: int
  retransmission :: int
  msgElems :: "CWProtocolMessage list option"
  fragmentsNum :: int

record wtp_pending =
  boxes :: "CWPendingRequestMessage list"
  wtp_timers :: "(wtp_timer_handler, addr) timerq"
  blocks :: "addr \<rightharpoonup> int"
  wtp_sent :: "byte list list"

definition zero_box :: CWPendingRequestMessage where
  "zero_box = \<lparr> msgType = 0, pend_seqNum = 0, timer_sec = 0, timer_hdl = None, timer_arg = None,
     timer = 0, retransmission = 0, msgElems = None, fragmentsNum = 0 \<rparr>"

definition free_block :: "addr option \<Rightarrow> (addr \<rightharpoonup> int) \<Rightarrow> (addr \<rightharpoonup> int) res" where
  "free_block p h =
     (case p of None \<Rightarrow> Ret h | Some a \<Rightarrow> if h a = None then Fault else Ret (h(a := None)))"

subsection \<open>Operations\<close>

text \<open>Every fragment is freed: the messages are there, or there are none.\<close>

definition fragments_there :: "CWPendingRequestMessage \<Rightarrow> bool" where
  "fragments_there b \<longleftrightarrow>
     fragmentsNum b \<le> (case msgElems b of None \<Rightarrow> 0 | Some ms \<Rightarrow> int (length ms))"

definition CWResetPendingMsgBox :: "nat \<Rightarrow> wtp_pending \<Rightarrow> wtp_pending res" where
  "CWResetPendingMsgBox k p =
     (let b = boxes p ! k in
      res_bind (free_block (timer_arg b) (blocks p)) (\<lambda>h.
      if \<not> fragments_there b then Fault
      else Ret (p\<lparr> blocks := h, wtp_timers := snd (timer_rem (timer b) False (wtp_timers p)),
                   boxes := (boxes p)[k := b\<lparr> msgType := 0, pend_seqNum := 0, retransmission := 0,
                     timer_sec := 0, timer_hdl := None, timer_arg := None, msgElems := None,
                     fragmentsNum := 0 \<rparr>] \<rparr>)))"

text \<open>The first box that is not in use, reset; -1 without one.\<close>

fun CWFindFreePendingMsgBox_loop :: "nat list \<Rightarrow> wtp_pending \<Rightarrow> (int \<times> wtp_pending) res" where
  "CWFindFreePendingMsgBox_loop [] p = Ret (-1, p)"
| "CWFindFreePendingMsgBox_loop (k # ks) p =
     (if msgType (boxes p ! k) = 0
      then res_bind (CWResetPendingMsgBox k p) (\<lambda>p. Ret (int k, p))
      else CWFindFreePendingMsgBox_loop ks p)"

definition CWFindFreePendingMsgBox :: "wtp_pending \<Rightarrow> (int \<times> wtp_pending) res" where
  "CWFindFreePendingMsgBox p = CWFindFreePendingMsgBox_loop [0..<length (boxes p)] p"

text \<open>Any timer id but zero is taken for a failure.\<close>

definition CWUpdatePendingMsgBox ::
  "memory \<Rightarrow> nat \<Rightarrow> byte \<Rightarrow> byte \<Rightarrow> int \<Rightarrow> addr option \<Rightarrow> wtp_timer_handler option \<Rightarrow> int \<Rightarrow>
   CWProtocolMessage list option \<Rightarrow> int \<Rightarrow> wtp_pending \<Rightarrow> (bool \<times> wtp_pending) res" where
  "CWUpdatePendingMsgBox mem k type seq sec arg hdl retr msgs num p =
     (if msgType (boxes p ! k) \<noteq> 0 then Ret (True, p)
      else res_bind (timer_add (malloc_ok mem 64) sec 0 hdl arg (wtp_timers p)) (\<lambda>(n, q).
        Ret (n = 0, p\<lparr> wtp_timers := q, boxes := (boxes p)[k := (boxes p ! k)
               \<lparr> msgType := type, pend_seqNum := seq, retransmission := retr, msgElems := msgs,
                 fragmentsNum := num, timer_sec := sec, timer_hdl := hdl, timer_arg := arg,
                 timer := n \<rparr>] \<rparr>)))"

text \<open>The first box that waits for the message; its timer is removed.\<close>

fun find_pending :: "int \<Rightarrow> int \<Rightarrow> nat \<Rightarrow> CWPendingRequestMessage list \<Rightarrow> nat option" where
  "find_pending type seq k [] = None"
| "find_pending type seq k (b # bs) =
     (if uint (pend_seqNum b) = seq \<and> uint (msgType b) = type then Some k
      else find_pending type seq (Suc k) bs)"

definition CWFindPendingRequestMsgsBox :: "int \<Rightarrow> int \<Rightarrow> wtp_pending \<Rightarrow> int \<times> wtp_pending" where
  "CWFindPendingRequestMsgsBox type seq p =
     (case find_pending type seq 0 (boxes p) of
        None \<Rightarrow> (-1, p)
      | Some k \<Rightarrow> (int k, p\<lparr>wtp_timers := snd (timer_rem (timer (boxes p ! k)) False (wtp_timers p))\<rparr>))"

definition CWSendPendingRequestMessage ::
  "(nat \<Rightarrow> bool) \<Rightarrow> CWProtocolMessage list option \<Rightarrow> int \<Rightarrow> wtp_pending \<Rightarrow> (int \<times> wtp_pending) res" where
  "CWSendPendingRequestMessage net ms num p =
     (case ms of None \<Rightarrow> Ret (-1, p)
      | Some ms \<Rightarrow>
          if num < 0 then Ret (-1, p)
          else res_bind (CWFindFreePendingMsgBox p) (\<lambda>(k, p).
            if k < 0 then Ret (-1, p)
            else if int (length ms) < num then Fault
            else case send_fragments net (take (nat num) ms) (wtp_sent p) of
                   (Ret _, out) \<Rightarrow> Ret (k, p\<lparr>wtp_sent := out\<rparr>)
                 | (Raise e, out) \<Rightarrow> Ret (-1, p\<lparr>wtp_sent := out\<rparr>)
                 | (Fault, out) \<Rightarrow> Fault))"

text \<open>The handler of the timer: it frees the block it was given also when it has started the timer again
  with the same block.\<close>

definition CWWTPRetransmitTimerExpiredHandler ::
  "memory \<Rightarrow> (nat \<Rightarrow> bool) \<Rightarrow> addr \<Rightarrow> wtp_pending \<Rightarrow> wtp_pending res" where
  "CWWTPRetransmitTimerExpiredHandler mem net hdl_arg p =
     (case blocks p hdl_arg of
        None \<Rightarrow> Fault
      | Some index \<Rightarrow>
          if index < 0 \<or> length (boxes p) \<le> nat index then Fault
          else let b = boxes p ! nat index in
            if retransmission b = gCWMaxRetransmit then Ret p
            else if \<not> fragments_there b then Fault
            else case send_fragments net (take (nat (fragmentsNum b)) (case msgElems b of None \<Rightarrow> [] | Some ms \<Rightarrow> ms))
                        (wtp_sent p) of
                   (Fault, out) \<Rightarrow> Fault
                 | (Raise e, out) \<Rightarrow>
                     Ret (p\<lparr> wtp_sent := out, boxes := (boxes p)[nat index := b\<lparr>msgElems := None\<rparr>],
                             blocks := (blocks p)(hdl_arg := None) \<rparr>)
                 | (Ret _, out) \<Rightarrow>
                     res_bind (timer_add (malloc_ok mem 64) (timer_sec b) 0 (timer_hdl b) (timer_arg b)
                        (wtp_timers p)) (\<lambda>(n, q).
                     Ret (p\<lparr> wtp_sent := out, wtp_timers := q, blocks := (blocks p)(hdl_arg := None),
                             boxes := (boxes p)[nat index := b\<lparr> retransmission := retransmission b + 1,
                                                               timer := n \<rparr>] \<rparr>)))"

text \<open>The timer \<open>n\<close> runs out.\<close>

definition pending_expires :: "memory \<Rightarrow> (nat \<Rightarrow> bool) \<Rightarrow> int \<Rightarrow> wtp_pending \<Rightarrow> wtp_pending res" where
  "pending_expires mem net n p =
     (case timer_fires n (wtp_timers p) of (f, q) \<Rightarrow>
        let p = p\<lparr>wtp_timers := q\<rparr> in
        (case f of
           Some (CWWTPRetransmitTimerExpired, Some a) \<Rightarrow> CWWTPRetransmitTimerExpiredHandler mem net a p
         | Some (CWWTPRetransmitTimerExpired, None) \<Rightarrow> Fault
         | _ \<Rightarrow> Ret p))"

text \<open>
  The use of the boxes for an event of the WTP: \<open>a\<close> is the address \<^verbatim>\<open>malloc\<close> returned for the index;
  the assembly of the message is the caller's. \<open>None\<close> when the request could not be sent.
\<close>

definition CWWTPCheckForWTPEventRequest ::
  "memory \<Rightarrow> (nat \<Rightarrow> bool) \<Rightarrow> addr \<Rightarrow> byte \<Rightarrow> CWProtocolMessage list \<Rightarrow> wtp_pending \<Rightarrow>
   (bool \<times> wtp_pending) res" where
  "CWWTPCheckForWTPEventRequest mem net a seq ms p =
     (let p = p\<lparr>blocks := (blocks p)(a \<mapsto> 0)\<rparr> in
      res_bind (CWSendPendingRequestMessage net (Some ms) (int (length ms)) p) (\<lambda>(k, p).
      let p = p\<lparr>blocks := (blocks p)(a \<mapsto> k)\<rparr> in
      if k < 0 then Ret (False, p)
      else res_bind (CWUpdatePendingMsgBox mem (nat k) 10 seq gCWRetransmitTimer (Some a)
             (Some CWWTPRetransmitTimerExpired) 0 (Some ms) (int (length ms)) p) (\<lambda>(_, p).
           Ret (True, p))))"

subsection \<open>A pending request is repeated once\<close>

text \<open>A box with a request that waits: its timer is set, with the block \<open>a\<close> as its argument.\<close>

definition waits :: "nat \<Rightarrow> addr \<Rightarrow> CWProtocolMessage list \<Rightarrow> wtp_pending \<Rightarrow> bool" where
  "waits k a ms p \<longleftrightarrow> k < length (boxes p) \<and> timer_hdl (boxes p ! k) = Some CWWTPRetransmitTimerExpired \<and>
     timer_arg (boxes p ! k) = Some a \<and> msgElems (boxes p ! k) = Some ms \<and>
     fragmentsNum (boxes p ! k) = int (length ms) \<and> timer_sec (boxes p ! k) = gCWRetransmitTimer \<and>
     timer_waits (timer (boxes p ! k)) CWWTPRetransmitTimerExpired (Some a) (wtp_timers p)"

lemma free_box:
  assumes "boxes p = zero_box # bs"
  shows "CWFindFreePendingMsgBox p =
    Ret (0, p\<lparr>wtp_timers := snd (timer_rem 0 False (wtp_timers p))\<rparr>)"
proof -
  have "0 < length (boxes p)" using assms by simp
  then have "[0..<length (boxes p)] = 0 # [Suc 0..<length (boxes p)]" by (rule upt_conv_Cons)
  then show ?thesis using assms
    by (simp add: CWFindFreePendingMsgBox_def CWResetPendingMsgBox_def zero_box_def free_block_def
        fragments_there_def Let_def)
qed

lemma cur_id_rem [simp]: "cur_id (snd (timer_rem n frees q)) = cur_id q"
  by (simp add: timer_rem_def timer_dequeue_def Let_def split: option.split)

lemma event_request_waits:
  assumes "ample mem" "\<forall>k. net k" "list_all well_formed ms" "boxes p = zero_box # bs"
    and "id_inv (wtp_timers p)" "cur_id (wtp_timers p) < INT_MAX"
  shows "\<exists>p'. CWWTPCheckForWTPEventRequest mem net a seq ms p = Ret (True, p') \<and> waits 0 a ms p' \<and>
    wtp_sent p' = wtp_sent p @ map contents ms \<and> retransmission (boxes p' ! 0) = 0 \<and>
    blocks p' = (blocks p)(a \<mapsto> 0) \<and> msgType (boxes p' ! 0) = 10 \<and> pend_seqNum (boxes p' ! 0) = seq \<and>
    length (boxes p') = length (boxes p) \<and> cur_id (wtp_timers p') = cur_id (wtp_timers p) + 1 \<and> id_inv (wtp_timers p')"
proof -
  let ?q = "snd (timer_rem 0 False (wtp_timers p))"
  let ?p = "p\<lparr>blocks := (blocks p)(a \<mapsto> 0)\<rparr>"
  have b: "boxes ?p = zero_box # bs" using assms(4) by simp
  obtain q' where q': "timer_add True 12 0 (Some CWWTPRetransmitTimerExpired) (Some a) ?q = Ret (cur_id ?q, q')" "id_inv q'"
    "timer_waits (cur_id ?q) CWWTPRetransmitTimerExpired (Some a) q'" "cur_id q' = cur_id ?q + 1"
    using timer_add_waits [OF id_inv_rem [OF assms(5)], of 12 0 False CWWTPRetransmitTimerExpired "Some a"] assms(6) by auto
  have "send_fragments net ms out = (Ret (), out @ map contents ms)" for out
    by (rule send_fragments_ok [OF assms(3,2)])
  then have "CWSendPendingRequestMessage net (Some ms) (int (length ms)) ?p =
      Ret (0, ?p\<lparr>wtp_timers := ?q, wtp_sent := wtp_sent p @ map contents ms\<rparr>)"
    using free_box [OF b] by (simp add: CWSendPendingRequestMessage_def)
  moreover have "malloc_ok mem 64 = True" using assms(1) by (simp add: ample_malloc)
  ultimately show ?thesis using q' assms(4)
    by (simp add: CWWTPCheckForWTPEventRequest_def CWUpdatePendingMsgBox_def zero_box_def waits_def)
qed

lemma expired_once:
  assumes "ample mem" "\<forall>k. net k" "list_all well_formed ms" "waits k a ms p" "blocks p a = Some (int k)"
    and "retransmission (boxes p ! k) = 0" "id_inv (wtp_timers p)" "cur_id (wtp_timers p) < INT_MAX"
  shows "\<exists>p'. pending_expires mem net (timer (boxes p ! k)) p = Ret p' \<and> waits k a ms p' \<and>
    timer_find (timer (boxes p ! k)) (queue (wtp_timers p')) = None \<and> id_inv (wtp_timers p') \<and>
    wtp_sent p' = wtp_sent p @ map contents ms \<and> retransmission (boxes p' ! k) = 1 \<and> blocks p' a = None \<and>
    msgType (boxes p' ! k) = msgType (boxes p ! k) \<and> pend_seqNum (boxes p' ! k) = pend_seqNum (boxes p ! k)"
proof -
  let ?n = "timer (boxes p ! k)"
  have w: "timer_waits ?n CWWTPRetransmitTimerExpired (Some a) (wtp_timers p)" using assms(4) by (simp add: waits_def)
  obtain q where q: "timer_fires ?n (wtp_timers p) = (Some (CWWTPRetransmitTimerExpired, Some a), q)" "id_inv q"
    "timer_find ?n (queue q) = None" "cur_id q = cur_id (wtp_timers p)"
    using timer_fires_waiting [OF w assms(7)] by blast
  obtain q' where q': "timer_add True 12 0 (Some CWWTPRetransmitTimerExpired) (Some a) q = Ret (cur_id q, q')" "id_inv q'"
    "timer_waits (cur_id q) CWWTPRetransmitTimerExpired (Some a) q'"
    using timer_add_waits [OF q(2), of 12 CWWTPRetransmitTimerExpired "Some a"] assms(8) q(4) by auto
  have "?n < cur_id q"
  proof -
    obtain i where "i < length (queue (wtp_timers p))" "tid (queue (wtp_timers p) ! i) = ?n"
      using w by (auto simp: timer_waits_def)
    then have "?n \<in> set (map tid (queue (wtp_timers p)))" by (metis length_map nth_map nth_mem)
    with assms(7) q(4) show ?thesis by (simp add: id_inv_def)
  qed
  then have gone: "timer_find ?n (queue q') = None"
    using subsetD [OF timer_add_ids [OF q'(1)], of ?n] q(3) by (auto simp: timer_find_None)
  let ?b = "boxes p ! k"
  let ?p = "p\<lparr> wtp_timers := q', wtp_sent := wtp_sent p @ map contents ms, blocks := (blocks p)(a := None),
    boxes := (boxes p)[k := ?b\<lparr> retransmission := 1, timer := cur_id q \<rparr>] \<rparr>"
  have send: "send_fragments net ms out = (Ret (), out @ map contents ms)" for out
    by (rule send_fragments_ok [OF assms(3,2)])
  have b: "k < length (boxes p)" "msgElems ?b = Some ms" "fragmentsNum ?b = int (length ms)" "timer_sec ?b = 12"
    "timer_hdl ?b = Some CWWTPRetransmitTimerExpired" "timer_arg ?b = Some a" "fragments_there ?b"
    using assms(4) by (simp_all add: waits_def fragments_there_def)
  have m: "malloc_ok mem 64" using assms(1) by (simp add: ample_malloc)
  have "CWWTPRetransmitTimerExpiredHandler mem net a (p\<lparr>wtp_timers := q\<rparr>) = Ret ?p"
    using assms(5,6) b q'(1) m send by (simp add: CWWTPRetransmitTimerExpiredHandler_def)
  then have "pending_expires mem net ?n p = Ret ?p" by (simp add: pending_expires_def q(1))
  moreover have "boxes ?p ! k = ?b\<lparr> retransmission := 1, timer := cur_id q \<rparr>" using b(1) by simp
  ultimately show ?thesis
    using b gone q'(2,3) by (intro exI [of _ ?p]) (simp add: waits_def)
qed

lemma expired_again:
  assumes "waits k a ms p" "blocks p a = None" "id_inv (wtp_timers p)"
  shows "pending_expires mem net (timer (boxes p ! k)) p = Fault"
proof -
  have "timer_waits (timer (boxes p ! k)) CWWTPRetransmitTimerExpired (Some a) (wtp_timers p)"
    using assms(1) by (simp add: waits_def)
  from timer_fires_waiting [OF this assms(3)] assms(2) show ?thesis
    by (auto simp: pending_expires_def CWWTPRetransmitTimerExpiredHandler_def)
qed

lemma find_first:
  assumes "0 < length (boxes p)" "pend_seqNum (boxes p ! 0) = seq" "msgType (boxes p ! 0) = type"
  shows "CWFindPendingRequestMsgsBox (uint type) (uint seq) p =
    (0, p\<lparr>wtp_timers := snd (timer_rem (timer (boxes p ! 0)) False (wtp_timers p))\<rparr>)"
  using assms by (cases "boxes p") (simp_all add: CWFindPendingRequestMsgsBox_def)

lemma reset_dangling:
  assumes "timer_arg (boxes p ! k) = Some a" "blocks p a = None"
  shows "CWResetPendingMsgBox k p = Fault"
  using assms by (simp add: CWResetPendingMsgBox_def free_block_def Let_def)

lemma reset_waiting:
  assumes "waits k a ms p" "blocks p a \<noteq> None"
  shows "\<exists>p'. CWResetPendingMsgBox k p = Ret p' \<and> msgType (boxes p' ! k) = 0 \<and> blocks p' = (blocks p)(a := None) \<and>
    msgElems (boxes p' ! k) = None \<and> wtp_sent p' = wtp_sent p"
  using assms by (auto simp: CWResetPendingMsgBox_def free_block_def Let_def waits_def fragments_there_def)

text \<open>
  C20: A request of the WTP put into a free box is sent. Its timer runs out once, which takes it out of the queue: the request is
  sent a second time, and another timer of the box is in the queue with the same argument; but the handler has freed that
  argument. When the second timer runs out freed memory is read; and so it is by the reset of the box if the response
  comes first: it frees the block a second time.
\<close>

theorem pending_request_repeats_once:
  assumes "ample mem" "\<forall>k. net k" "list_all well_formed ms" "boxes p = zero_box # bs"
    and "id_inv (wtp_timers p)" "cur_id (wtp_timers p) + 1 < INT_MAX"
  shows "\<exists>p1 p2. CWWTPCheckForWTPEventRequest mem net a seq ms p = Ret (True, p1) \<and>
    timer_waits (timer (boxes p1 ! 0)) CWWTPRetransmitTimerExpired (Some a) (wtp_timers p1) \<and>
    pending_expires mem net (timer (boxes p1 ! 0)) p1 = Ret p2 \<and>
    wtp_sent p2 = wtp_sent p @ map contents ms @ map contents ms \<and>
    timer_find (timer (boxes p1 ! 0)) (queue (wtp_timers p2)) = None \<and>
    timer_waits (timer (boxes p2 ! 0)) CWWTPRetransmitTimerExpired (Some a) (wtp_timers p2) \<and>
    pending_expires mem net (timer (boxes p2 ! 0)) p2 = Fault \<and>
    fst (CWFindPendingRequestMsgsBox 10 (uint seq) p2) = 0 \<and>
    CWResetPendingMsgBox 0 (snd (CWFindPendingRequestMsgsBox 10 (uint seq) p2)) = Fault"
proof -
  obtain p1 where p1: "CWWTPCheckForWTPEventRequest mem net a seq ms p = Ret (True, p1)" "waits 0 a ms p1"
      "wtp_sent p1 = wtp_sent p @ map contents ms" "retransmission (boxes p1 ! 0) = 0"
      "blocks p1 = (blocks p)(a \<mapsto> 0)" "msgType (boxes p1 ! 0) = 10" "pend_seqNum (boxes p1 ! 0) = seq"
      "cur_id (wtp_timers p1) = cur_id (wtp_timers p) + 1" "id_inv (wtp_timers p1)"
    using event_request_waits [OF assms(1-5), of a seq] assms(6) by auto
  have b: "blocks p1 a = Some (int 0)" "cur_id (wtp_timers p1) < INT_MAX" using p1 assms(6) by simp_all
  from expired_once [OF assms(1-3) p1(2) b(1) p1(4,9) b(2)]
  obtain p2 where p2: "pending_expires mem net (timer (boxes p1 ! 0)) p1 = Ret p2" "waits 0 a ms p2"
      "timer_find (timer (boxes p1 ! 0)) (queue (wtp_timers p2)) = None" "id_inv (wtp_timers p2)"
      "wtp_sent p2 = wtp_sent p1 @ map contents ms" "blocks p2 a = None"
      "msgType (boxes p2 ! 0) = 10" "pend_seqNum (boxes p2 ! 0) = seq"
    using p1(6,7) by auto
  have t: "timer_waits (timer (boxes p1 ! 0)) CWWTPRetransmitTimerExpired (Some a) (wtp_timers p1)"
    "timer_waits (timer (boxes p2 ! 0)) CWWTPRetransmitTimerExpired (Some a) (wtp_timers p2)"
    using p1(2) p2(2) by (simp_all add: waits_def)
  have w: "0 < length (boxes p2)" "timer_arg (boxes p2 ! 0) = Some a" using p2(2) by (simp_all add: waits_def)
  have f: "CWFindPendingRequestMsgsBox 10 (uint seq) p2 =
      (0, p2\<lparr>wtp_timers := snd (timer_rem (timer (boxes p2 ! 0)) False (wtp_timers p2))\<rparr>)"
    using find_first [OF w(1) p2(8,7)] by simp
  have "CWResetPendingMsgBox 0 (snd (CWFindPendingRequestMsgsBox 10 (uint seq) p2)) = Fault"
    unfolding f by (rule reset_dangling [where a = a]) (use w p2(6) in simp_all)
  then show ?thesis
    using p1(1,3) p2(1,3,5) t expired_again [OF p2(2,6,4)] f by (intro exI [of _ p1] exI [of _ p2]) simp
qed

definition ex_boxes :: wtp_pending where
  "ex_boxes = \<lparr> boxes = [zero_box, zero_box], wtp_timers = \<lparr> queue = [], cur_id = 3, ticker = Top,
     now = \<lparr>tv_sec = 100, tv_usec = 0\<rparr>, alarm = None, pending = False, ran = [] \<rparr>,
     blocks = Map.empty, wtp_sent = [] \<rparr>"

theorem pending_request_repeats_once_witness:
  "\<exists>p1 p2. CWWTPCheckForWTPEventRequest (\<lambda>_. True) (\<lambda>_. True) 64 7 [elem_msg 33 [1]] ex_boxes = Ret (True, p1) \<and>
    pending_expires (\<lambda>_. True) (\<lambda>_. True) (timer (boxes p1 ! 0)) p1 = Ret p2 \<and>
    wtp_sent p2 = [elem_bytes 33 [1], elem_bytes 33 [1]] \<and>
    pending_expires (\<lambda>_. True) (\<lambda>_. True) (timer (boxes p2 ! 0)) p2 = Fault"
  using pending_request_repeats_once [of "\<lambda>_. True" "\<lambda>_. True" "[elem_msg 33 [1]]" ex_boxes "[zero_box]" 64 7]
  by (auto simp: ex_boxes_def ample_def id_inv_def)

end
