(* ===== verification/Discovery.thy ===== *)
theory Discovery
  imports ControlMessages
begin

section \<open>Discovery messages: WTPDiscoveryState.c and ACDiscoveryState.c\<close>

text \<open>
  A WTP that looks for an AC describes itself in a Discovery Request; an AC answers with its
  descriptor, its name, the addresses of its interfaces and the radios it was told of. Both
  messages are sent in one packet, and both are parsed where they arrive, without the reassembly of
  fragments.

  The arrays of the elements have a fixed number of entries, whatever the number of radios. The
  AC's array of radios is allocated with the size of one structure and used with the size of
  another; the sizes are those of a 64-bit host.
\<close>

subsection \<open>The request: WTP\<close>

text \<open>\<open>phys\<close> are the radios' \<^verbatim>\<open>gWTPPhyInfo\<close>: identifier and standards. \<open>junkb\<close> and \<open>junkd\<close> are what the
  heap held in the vendor informations of board data and descriptor.\<close>

definition CWAssembleDiscoveryRequest ::
  "memory \<Rightarrow> eth \<Rightarrow> int \<Rightarrow> 32 word \<Rightarrow> bool \<Rightarrow> (nat \<Rightarrow> byte list) \<Rightarrow> (nat \<Rightarrow> byte list) \<Rightarrow>
   (int \<times> byte) list \<Rightarrow> wtp_globals \<Rightarrow> byte \<Rightarrow> CWProtocolMessage list res" where
  "CWAssembleDiscoveryRequest mem mac fid garbage le junkb junkd phys w seq =
     (if \<not> malloc_ok mem (message_size * 6) then Raise CW_ERROR_OUT_OF_MEMORY
      else res_bind (fill_elements 6
        ([CWAssembleMsgElemDiscoveryType mem, CWAssembleMsgElemWTPBoardData mem le junkb,
          CWAssembleMsgElemWTPDescriptor mem le junkd w, CWAssembleMsgElemWTPFrameTunnelMode mem,
          CWAssembleMsgElemWTPMACType mem]
         @ map (\<lambda>(r, p). CWAssembleMsgElemWTPRadioInformation mem r p) phys)) (\<lambda>es.
        CWAssembleMessage mem mac fid garbage 0 seq 1 es [] 0))"

subsection \<open>The request: AC\<close>

text \<open>
  What no element has set is \<open>None\<close>. The array of the radios has room for five entries of the
  structure \<^verbatim>\<open>ACWTPSinglePhyInfo\<close>, 64 bytes each; its entries are addressed as
  \<^verbatim>\<open>WTPSinglePhyInfo\<close>, 352 bytes each, with the identifier at the start of the entry and the
  standards at offset 68.
\<close>

record CWDiscoveryRequestValues =
  disc_type :: "int option"
  disc_boardData :: "VendorInfoValues list option"
  disc_descriptor :: "CWWTPDescriptor option"
  disc_frameTunnelMode :: "int option"
  disc_MACType :: "int option"
  numPhyActive :: nat
  singlePhyInfo :: "(int \<times> byte) list"

abbreviation WTP_RADIO_MAX :: nat where "WTP_RADIO_MAX \<equiv> 5"
abbreviation sizeof_ACWTPSinglePhyInfo :: nat where "sizeof_ACWTPSinglePhyInfo \<equiv> 64"
abbreviation sizeof_WTPSinglePhyInfo :: nat where "sizeof_WTPSinglePhyInfo \<equiv> 352"

definition phy_in_block :: "nat \<Rightarrow> bool" where
  "phy_in_block i \<longleftrightarrow> i * sizeof_WTPSinglePhyInfo + 69 \<le> WTP_RADIO_MAX * sizeof_ACWTPSinglePhyInfo"

text \<open>An element on a radio beyond the fifth is counted, and its bytes are left where they are.\<close>

definition disc_radio ::
  "CWDiscoveryRequestValues \<Rightarrow> CWProtocolMessage \<Rightarrow> int \<Rightarrow>
   (CWDiscoveryRequestValues \<times> CWProtocolMessage) res" where
  "disc_radio s m len =
     (if numPhyActive s < WTP_RADIO_MAX then
        if \<not> phy_in_block (numPhyActive s) then Fault
        else res_bind (CWParseWTPRadioInformation m len) (\<lambda>(p, m).
          Ret (s\<lparr> singlePhyInfo := (singlePhyInfo s)[numPhyActive s := p],
                  numPhyActive := Suc (numPhyActive s) \<rparr>, m))
      else Ret (s\<lparr>numPhyActive := Suc (numPhyActive s)\<rparr>, m))"

definition disc_branch ::
  "memory \<Rightarrow> bool \<Rightarrow> CWDiscoveryRequestValues \<Rightarrow> 16 word \<Rightarrow> CWProtocolMessage \<Rightarrow> int \<Rightarrow>
   (CWDiscoveryRequestValues \<times> CWProtocolMessage) res" where
  "disc_branch mem le s elemType m elemLen =
     (if elemType = 20 then
        res_bind (CWParseDiscoveryType m elemLen) (\<lambda>(v, m). Ret (s\<lparr>disc_type := Some v\<rparr>, m))
      else if elemType = 38 then
        res_bind (CWParseWTPBoardData mem le m elemLen) (\<lambda>(v, m). Ret (s\<lparr>disc_boardData := Some v\<rparr>, m))
      else if elemType = 39 then
        res_bind (CWParseWTPDescriptor mem le None m elemLen) (\<lambda>(v, m).
          Ret (s\<lparr>disc_descriptor := Some v\<rparr>, m))
      else if elemType = 41 then
        res_bind (CWParseWTPFrameTunnelMode m elemLen) (\<lambda>(v, m).
          Ret (s\<lparr>disc_frameTunnelMode := Some v\<rparr>, m))
      else if elemType = 44 then
        res_bind (CWParseWTPMACType m elemLen) (\<lambda>(v, m). Ret (s\<lparr>disc_MACType := Some v\<rparr>, m))
      else if elemType = 1048 then disc_radio s m elemLen
      else Raise CW_ERROR_INVALID_FORMAT)"

definition disc_start :: CWDiscoveryRequestValues where
  "disc_start = \<lparr> disc_type = None, disc_boardData = None, disc_descriptor = None,
     disc_frameTunnelMode = None, disc_MACType = None, numPhyActive = 0,
     singlePhyInfo = replicate WTP_RADIO_MAX (0, 0) \<rparr>"

definition CWParseDiscoveryRequestMessage ::
  "memory \<Rightarrow> bool \<Rightarrow> byte list \<Rightarrow> int \<Rightarrow> (byte \<times> CWDiscoveryRequestValues) res option" where
  "CWParseDiscoveryRequestMessage mem le bytes len =
     (if \<not> malloc_ok mem (int (WTP_RADIO_MAX * sizeof_ACWTPSinglePhyInfo))
      then Some (Raise CW_ERROR_OUT_OF_MEMORY)
      else run_bind (Some (CWParseTransportHeader mem
             \<lparr> msg = bytes, offset = 0, data_msgType = None \<rparr> False None)) (\<lambda>(v, m, _).
           run_bind (Some (parse_control 1 m)) (\<lambda>(seq, elemsLen, m).
           run_bind (parse_elements (disc_branch mem le) (offset m) elemsLen disc_start m) (\<lambda>(s, m).
           if int (offset m) \<noteq> len then Some (Raise CW_ERROR_INVALID_FORMAT)
           else Some (Ret (seq, s))))))"

subsection \<open>The response: AC\<close>

text \<open>The array has four entries, five with IPv6; three of them are used before the radios. The radios
  are those of the request; the AC reads as many entries as were counted.\<close>

definition CWACSupportIPv6 :: "ac_globals \<Rightarrow> bool" where
  "CWACSupportIPv6 ac \<longleftrightarrow> gNetworkPreferredFamily ac = CW_IPv6"

definition CWAssembleDiscoveryResponse ::
  "memory \<Rightarrow> eth \<Rightarrow> int \<Rightarrow> 32 word \<Rightarrow> bool \<Rightarrow> ac_globals \<Rightarrow> CWDiscoveryRequestValues \<Rightarrow> byte \<Rightarrow>
   CWProtocolMessage list res" where
  "CWAssembleDiscoveryResponse mem mac fid garbage le ac s seq =
     (let msgElemCount = (if CWACSupportIPv6 ac then 5 else 4) in
      if \<not> malloc_ok mem (message_size * int msgElemCount) then Raise CW_ERROR_OUT_OF_MEMORY
      else res_bind (fill_elements msgElemCount
        ([CWAssembleMsgElemACDescriptor mem le ac, CWAssembleMsgElemACName_AC mem ac,
          res_bind (CWAssembleMsgElemCWControlIPv4Addresses mem ac) (\<lambda>m.
            Ret (case m of None \<Rightarrow> no_message | Some m \<Rightarrow> m))]
         @ map (\<lambda>i. if \<not> phy_in_block i then Fault
                    else CWAssembleMsgElemACWTPRadioInformation mem (fst (singlePhyInfo s ! i))
                           (snd (singlePhyInfo s ! i))) [0..<numPhyActive s])) (\<lambda>es.
        CWAssembleMessage mem mac fid garbage 0 seq 2 es [] 0))"

subsection \<open>The response: WTP\<close>

text \<open>An address is the bytes of its \<^verbatim>\<open>sin_addr\<close> or \<^verbatim>\<open>sin6_addr\<close> with the number of WTPs.\<close>

record discovery_response =
  resp_info :: "CWACInfoValues option"
  resp_name :: "byte list option"
  IPv4Addresses :: "(byte list \<times> int) list"
  IPv6Addresses :: "(byte list \<times> int) list"

text \<open>First pass: the addresses are counted.\<close>

definition resp_count_branch ::
  "memory \<Rightarrow> bool \<Rightarrow> CWACInfoValues option \<times> byte list option \<times> nat \<times> nat \<Rightarrow> 16 word \<Rightarrow>
   CWProtocolMessage \<Rightarrow> int \<Rightarrow>
   ((CWACInfoValues option \<times> byte list option \<times> nat \<times> nat) \<times> CWProtocolMessage) res" where
  "resp_count_branch mem le s type m len =
     (case s of (i, n, v4, v6) \<Rightarrow>
      if type = 1 then
        res_bind (CWParseACDescriptor mem le m len) (\<lambda>(v, m). Ret ((Some v, n, v4, v6), m))
      else if type = 1048 then
        res_bind (CWParseWTPRadioInformation_FromAC m len) (\<lambda>(_, m). Ret ((i, n, v4, v6), m))
      else if type = 4 then
        res_bind (CWParseACName mem m len) (\<lambda>(v, m). Ret ((i, v, v4, v6), m))
      else if type = 10 then Ret ((i, n, Suc v4, v6), m\<lparr>offset := offset m + nat len\<rparr>)
      else if type = 11 then Ret ((i, n, v4, Suc v6), m\<lparr>offset := offset m + nat len\<rparr>)
      else Raise CW_ERROR_INVALID_FORMAT)"

text \<open>Second pass: they are read into the arrays.\<close>

definition resp_read_branch ::
  "memory \<Rightarrow> bool \<Rightarrow> nat \<Rightarrow> nat \<Rightarrow> (byte list \<times> int) list \<times> (byte list \<times> int) list \<Rightarrow> 16 word \<Rightarrow>
   CWProtocolMessage \<Rightarrow> int \<Rightarrow>
   (((byte list \<times> int) list \<times> (byte list \<times> int) list) \<times> CWProtocolMessage) res" where
  "resp_read_branch mem le n4 n6 s type m len =
     (case s of (v4, v6) \<Rightarrow>
      if type = 10 then
        if length v4 < n4
        then res_bind (CWParseCWControlIPv4Addresses le m len) (\<lambda>(a, m). Ret ((v4 @ [a], v6), m))
        else Fault
      else if type = 11 then
        if length v6 < n6
        then res_bind (CWParseCWControlIPv6Addresses mem m len) (\<lambda>(a, m). Ret ((v4, v6 @ [a]), m))
        else Fault
      else Ret ((v4, v6), m\<lparr>offset := offset m + nat len\<rparr>))"

definition CWParseDiscoveryResponseMessage ::
  "memory \<Rightarrow> bool \<Rightarrow> byte list \<Rightarrow> int \<Rightarrow> (byte \<times> discovery_response) res option" where
  "CWParseDiscoveryResponseMessage mem le bytes len =
     run_bind (Some (CWParseTransportHeader mem
       \<lparr> msg = bytes, offset = 0, data_msgType = None \<rparr> False None)) (\<lambda>(v, m, _).
     run_bind (Some (parse_control 2 m)) (\<lambda>(seq, elemsLen, m).
     run_bind (parse_elements (resp_count_branch mem le) (offset m) elemsLen (None, None, 0, 0) m)
       (\<lambda>((i, n, n4, n6), m').
     if int (offset m') \<noteq> len then Some (Raise CW_ERROR_INVALID_FORMAT)
     else if \<not> malloc_ok mem (20 * int n4) then Some (Raise CW_ERROR_OUT_OF_MEMORY)
     else if 0 < n6 \<and> \<not> malloc_ok mem (32 * int n6) then Some (Raise CW_ERROR_OUT_OF_MEMORY)
     else run_bind (parse_elements (resp_read_branch mem le n4 n6) (offset m) elemsLen ([], []) m)
       (\<lambda>((v4, v6), m'). Some (Ret (seq,
          \<lparr> resp_info = i, resp_name = n, IPv4Addresses = v4, IPv6Addresses = v6 \<rparr>))))))"

subsection \<open>The parse functions return\<close>

lemma discovery_offsets:
  "CWParseDiscoveryType m l = Ret (a, m') \<Longrightarrow> int (offset m') = int (offset m) + l"
  "CWParseWTPBoardData mem le m l = Ret (b, m') \<Longrightarrow> int (offset m') = int (offset m) + l"
  "CWParseWTPDescriptor mem le enc m l = Ret (c, m') \<Longrightarrow> int (offset m') = int (offset m) + l"
  "CWParseWTPFrameTunnelMode m l = Ret (a, m') \<Longrightarrow> int (offset m') = int (offset m) + l"
  "CWParseWTPMACType m l = Ret (a, m') \<Longrightarrow> int (offset m') = int (offset m) + l"
  "CWParseWTPRadioInformation m l = Ret (p, m') \<Longrightarrow> int (offset m') = int (offset m) + l"
  "CWParseACDescriptor mem le m l = Ret (d, m') \<Longrightarrow> int (offset m') = int (offset m) + l"
  "CWParseACName mem m l = Ret (n, m') \<Longrightarrow> int (offset m') = int (offset m) + l"
  "CWParseCWControlIPv4Addresses le m l = Ret (e, m') \<Longrightarrow> int (offset m') = int (offset m) + l"
  "CWParseCWControlIPv6Addresses mem m l = Ret (e, m') \<Longrightarrow> int (offset m') = int (offset m) + l"
  unfolding CWParseDiscoveryType_def CWParseWTPBoardData_def CWParseWTPDescriptor_def
    CWParseWTPFrameTunnelMode_def CWParseWTPMACType_def CWParseWTPRadioInformation_def
    CWParseACDescriptor_def CWParseACName_def CWParseCWControlIPv4Addresses_def
    CWParseCWControlIPv6Addresses_def
  by (fact framed_offset)+

lemma retrieve8_offset: "CWProtocolRetrieve8 m = Ret (v, m') \<Longrightarrow> offset m' = offset m + 1"
  by (auto simp: retrieve_defs retrieve_def res_simps split: if_splits)

lemma radio_from_ac_offset:
  "CWParseWTPRadioInformation_FromAC m l = Ret (v, m') \<Longrightarrow> offset m \<le> offset m'"
  by (auto simp: CWParseWTPRadioInformation_FromAC_def res_simps dest!: retrieve8_offset)

interpretation disc: forward_branch "disc_branch mem le" for mem le
  by unfold_locales
     (auto simp: disc_branch_def disc_radio_def res_simps split: if_splits dest!: discovery_offsets)

interpretation resp_count: forward_branch "resp_count_branch mem le" for mem le
  by unfold_locales
     (auto simp: resp_count_branch_def res_simps split: if_splits prod.splits
       dest!: discovery_offsets radio_from_ac_offset)

interpretation resp_read: forward_branch "resp_read_branch mem le n4 n6" for mem le n4 n6
  by unfold_locales
     (auto simp: resp_read_branch_def res_simps split: if_splits prod.splits dest!: discovery_offsets)

lemma discovery_parsers_return:
  "CWParseDiscoveryRequestMessage mem le bytes len \<noteq> None"
  "CWParseDiscoveryResponseMessage mem le bytes len \<noteq> None"
  by (auto simp: CWParseDiscoveryRequestMessage_def CWParseDiscoveryResponseMessage_def run_bind_None_iff
      disc.elements_end resp_count.elements_end resp_read.elements_end
      simp del: not_None_eq split: prod.splits if_splits)

subsection \<open>The request arrives\<close>

interpretation discovery_type: msg_elem_exchange 20 "\<lambda>_. True" "\<lambda>_. [1]" "\<lambda>_. 1"
    "\<lambda>mem (_ :: unit). CWAssembleMsgElemDiscoveryType mem" "\<lambda>mem. CWParseDiscoveryType"
  by unfold_locales (auto simp: CWAssembleMsgElemDiscoveryType_def CWParseDiscoveryType_def parse_frame wire)

interpretation tunnel_mode: msg_elem_exchange 41 "\<lambda>_. True" "\<lambda>_. [8]" "\<lambda>_. 8"
    "\<lambda>mem (_ :: unit). CWAssembleMsgElemWTPFrameTunnelMode mem" "\<lambda>mem. CWParseWTPFrameTunnelMode"
  by unfold_locales
     (auto simp: CWAssembleMsgElemWTPFrameTunnelMode_def CWParseWTPFrameTunnelMode_def parse_frame wire)

interpretation mac_type: msg_elem_exchange 44 "\<lambda>_. True" "\<lambda>_. [1]" "\<lambda>_. 1"
    "\<lambda>mem (_ :: unit). CWAssembleMsgElemWTPMACType mem" "\<lambda>mem. CWParseWTPMACType"
  by unfold_locales (auto simp: CWAssembleMsgElemWTPMACType_def CWParseWTPMACType_def parse_frame wire)

definition board_body :: "bool \<Rightarrow> (nat \<Rightarrow> byte list) \<Rightarrow> byte list" where
  "board_body le junk = be32 23456 @ infos_bytes False (board_infos le junk)"

definition descriptor_body :: "bool \<Rightarrow> (nat \<Rightarrow> byte list) \<Rightarrow> wtp_globals \<Rightarrow> byte list" where
  "descriptor_body le junk w =
     (let n = word_of_int (int (length (gRadiosInfo w))) in
      [n, n, 1, 1] @ be16 0 @ infos_bytes True (descriptor_infos le junk))"

abbreviation junk_ok :: "(nat \<Rightarrow> byte list) \<Rightarrow> bool" where
  "junk_ok junk \<equiv> \<forall>i. length (junk i) = 4"

lemma description_lengths:
  "junk_ok junk \<Longrightarrow> length (board_body le junk) = 28"
  "junk_ok junk \<Longrightarrow> length (descriptor_body le junk w) = 54"
  by (simp_all add: board_body_def descriptor_body_def board_infos_def descriptor_infos_def vendor_block_def
      info_bytes_def Let_def)

definition descriptor_view :: "bool \<Rightarrow> (nat \<Rightarrow> byte list) \<Rightarrow> wtp_globals \<Rightarrow> CWWTPDescriptor" where
  "descriptor_view le junk w =
     (let n = int (length (gRadiosInfo w)) mod 256 in
      \<lparr> maxRadios = n, radiosInUse = n, encCapabilities = Some 0, vendorInfos = descriptor_infos le junk \<rparr>)"

text \<open>One step of the loop for each element.\<close>

named_theorems disc_steps \<open>steps of the parse loops of the Discovery messages\<close>

lemma disc_steps_request [disc_steps]:
  assumes "ample mem" "int (length bs) - int start < len"
  shows "parse_elements (disc_branch mem le) start len s (rmsg bs (elem_bytes 20 [1] @ rest) x) =
      parse_elements (disc_branch mem le) start len (s\<lparr>disc_type := Some 1\<rparr>)
        (rmsg (bs @ elem_bytes 20 [1]) rest x)"
    and "junk_ok junk \<Longrightarrow>
      parse_elements (disc_branch mem le) start len s (rmsg bs (elem_bytes 38 (board_body le' junk) @ rest) x) =
      parse_elements (disc_branch mem le) start len (s\<lparr>disc_boardData := Some (board_infos le' junk)\<rparr>)
        (rmsg (bs @ elem_bytes 38 (board_body le' junk)) rest x)"
    and "junk_ok junk \<Longrightarrow>
      parse_elements (disc_branch mem le) start len s (rmsg bs (elem_bytes 39 (descriptor_body le' junk w) @ rest) x) =
      parse_elements (disc_branch mem le) start len (s\<lparr>disc_descriptor := Some (descriptor_view le' junk w)\<rparr>)
        (rmsg (bs @ elem_bytes 39 (descriptor_body le' junk w)) rest x)"
    and "parse_elements (disc_branch mem le) start len s (rmsg bs (elem_bytes 41 [8] @ rest) x) =
      parse_elements (disc_branch mem le) start len (s\<lparr>disc_frameTunnelMode := Some 8\<rparr>)
        (rmsg (bs @ elem_bytes 41 [8]) rest x)"
    and "parse_elements (disc_branch mem le) start len s (rmsg bs (elem_bytes 44 [1] @ rest) x) =
      parse_elements (disc_branch mem le) start len (s\<lparr>disc_MACType := Some 1\<rparr>)
        (rmsg (bs @ elem_bytes 44 [1]) rest x)"
  using discovery_type.parse_elements_exchange [OF assms(1) TrueI assms(2), where branch = "disc_branch mem le"
      and s = s and upd = "\<lambda>v. s\<lparr>disc_type := Some v\<rparr>"]
    board_data.parse_elements_exchange [OF assms(1) _ assms(2), where branch = "disc_branch mem le" and le' = le
      and le = le' and junk = junk and s = s and upd = "\<lambda>v. s\<lparr>disc_boardData := Some v\<rparr>"]
    wtp_descriptor.parse_elements_exchange [OF assms(1) _ assms(2), where branch = "disc_branch mem le"
      and le' = le and le = le' and junk = junk and enc = None and v = w and s = s
      and upd = "\<lambda>v. s\<lparr>disc_descriptor := Some v\<rparr>"]
    tunnel_mode.parse_elements_exchange [OF assms(1) TrueI assms(2), where branch = "disc_branch mem le"
      and s = s and upd = "\<lambda>v. s\<lparr>disc_frameTunnelMode := Some v\<rparr>"]
    mac_type.parse_elements_exchange [OF assms(1) TrueI assms(2), where branch = "disc_branch mem le"
      and s = s and upd = "\<lambda>v. s\<lparr>disc_MACType := Some v\<rparr>"]
  by (simp_all add: disc_branch_def board_body_def descriptor_body_def descriptor_view_def)

lemma phy_in_block_iff [simp]: "phy_in_block i \<longleftrightarrow> i = 0"
  by (cases i) (simp_all add: phy_in_block_def)

lemma disc_steps_radio [disc_steps]:
  assumes "ample mem" "int (length bs) - int start < len"
  shows "numPhyActive s = 0 \<Longrightarrow>
      parse_elements (disc_branch mem le) start len s (rmsg bs (elem_bytes 1048 [word_of_int r, 0, 0, 0, p] @ rest) x) =
      parse_elements (disc_branch mem le) start len
        (s\<lparr>singlePhyInfo := (singlePhyInfo s)[0 := (r mod 256, p)], numPhyActive := 1\<rparr>)
        (rmsg (bs @ elem_bytes 1048 [word_of_int r, 0, 0, 0, p]) rest x)"
    and "0 < numPhyActive s \<Longrightarrow> numPhyActive s < 5 \<Longrightarrow>
      parse_elements (disc_branch mem le) start len s (rmsg bs (elem_bytes 1048 body @ rest) x) = Some Fault"
proof -
  show "parse_elements (disc_branch mem le) start len s (rmsg bs (elem_bytes 1048 [word_of_int r, 0, 0, 0, p] @ rest) x) =
      parse_elements (disc_branch mem le) start len
        (s\<lparr>singlePhyInfo := (singlePhyInfo s)[0 := (r mod 256, p)], numPhyActive := 1\<rparr>)
        (rmsg (bs @ elem_bytes 1048 [word_of_int r, 0, 0, 0, p]) rest x)" if "numPhyActive s = 0"
    using radio_information.parse_elements_exchange [OF assms(1) TrueI assms(2), where branch = "disc_branch mem le"
      and v = "(r, p)" and s = s
      and upd = "\<lambda>v. s\<lparr>singlePhyInfo := (singlePhyInfo s)[0 := v], numPhyActive := 1\<rparr>"] that
    by (simp add: disc_branch_def disc_radio_def)
  show "parse_elements (disc_branch mem le) start len s (rmsg bs (elem_bytes 1048 body @ rest) x) = Some Fault"
    if "0 < numPhyActive s" "numPhyActive s < 5"
    using that assms(2)
    by (subst parse_elements.simps)
       (simp add: CWParseFormatMsgElem_def wire elem_bytes_def disc_branch_def disc_radio_def)
qed

text \<open>A message that is never cut into fragments, and the headers in front of its elements.\<close>

abbreviation packet_bytes :: "eth \<Rightarrow> byte \<Rightarrow> 32 word \<Rightarrow> byte list \<Rightarrow> byte list" where
  "packet_bytes mac seq type elems \<equiv>
     header_bytes mac (plain_values 0 0 0) @ message_header seq type (length elems) @ elems"

lemma assemble_packet:
  assumes "ample mem" "list_all well_formed es"
  shows "CWAssembleMessage mem mac fid garbage 0 seq type es [] 0 =
    Ret [wmsg (packet_bytes mac seq type (message_elements es)) 0]"
proof -
  have "control_fragments 0 (length (message_bytes seq type es [])) = 1"
    using message_bytes_pos by (simp add: control_fragments_def control_pmtu_def fragment_payload_def
        fragments_num_def)
  then show ?thesis
    using CWAssembleMessage_eq [OF assms _ refl refl refl refl, of "[]" mac fid garbage 0 seq type 0]
    by (simp add: message_bytes_eq)
qed

lemma parse_packet_header:
  assumes "ample mem"
  shows "CWParseTransportHeader mem \<lparr> msg = header_bytes mac (plain_values 0 0 0) @ rest, offset = 0,
       data_msgType = None \<rparr> False None =
    Ret (decoded (plain_values 0 0 0), rmsg (header_bytes mac (plain_values 0 0 0)) rest None, False,
         mac_after mac None)"
  using parse_control_plain [OF assms, of None "plain_values 0 0 0" "[]" mac rest None]
  by (simp add: rmsg_def plain_values_def mac_room_def mac_after_def)

abbreviation radio_body :: "int \<times> byte \<Rightarrow> byte list" where
  "radio_body rp \<equiv> [word_of_int (fst rp), 0, 0, 0, snd rp]"

abbreviation disc_elements ::
  "bool \<Rightarrow> (nat \<Rightarrow> byte list) \<Rightarrow> (nat \<Rightarrow> byte list) \<Rightarrow> wtp_globals \<Rightarrow> (int \<times> byte) list \<Rightarrow> byte list" where
  "disc_elements le junkb junkd w phys \<equiv>
     elem_bytes 20 [1] @ elem_bytes 38 (board_body le junkb) @ elem_bytes 39 (descriptor_body le junkd w) @
     elem_bytes 41 [8] @ elem_bytes 44 [1] @ concat (map (\<lambda>rp. elem_bytes 1048 (radio_body rp)) phys)"

lemma assemble_discovery_request:
  assumes "ample mem" "junk_ok junkb" "junk_ok junkd"
  shows "CWAssembleDiscoveryRequest mem mac fid garbage le junkb junkd phys w seq =
    (if 1 < length phys then Fault
     else Ret [wmsg (packet_bytes mac seq 1 (disc_elements le junkb junkd w phys)) 0])"
proof -
  let ?radio = "\<lambda>rp. elem_msg 1048 (radio_body rp)"
  let ?es = "[elem_msg 20 [1], elem_msg 38 (board_body le junkb), elem_msg 39 (descriptor_body le junkd w),
    elem_msg 41 [8], elem_msg 44 [1]] @ map ?radio phys"
  have r: "map (\<lambda>(r, p). CWAssembleMsgElemWTPRadioInformation mem r p) phys = map Ret (map ?radio phys)"
    using radio_information.assemble_law [OF assms(1) TrueI] by (auto simp: split_def)
  have "CWAssembleDiscoveryRequest mem mac fid garbage le junkb junkd phys w seq =
      res_bind (fill_elements 6 (map Ret ?es)) (\<lambda>es. CWAssembleMessage mem mac fid garbage 0 seq 1 es [] 0)"
    using discovery_type.assemble_law [OF assms(1) TrueI] tunnel_mode.assemble_law [OF assms(1) TrueI]
      mac_type.assemble_law [OF assms(1) TrueI] board_data.assemble_law [OF assms(1,2), where le = le]
      wtp_descriptor.assemble_law [OF assms(1,3), where le = le and v = w] assms(1)
    by (simp add: CWAssembleDiscoveryRequest_def ample_malloc board_body_def descriptor_body_def r del: map_map)
  also have "\<dots> = (if 1 < length phys then Fault
      else Ret [wmsg (packet_bytes mac seq 1 (message_elements (?es @ replicate (1 - length phys) no_message))) 0])"
  proof -
    have "list_all well_formed (?es @ replicate (1 - length phys) no_message)"
      by (auto simp: list_all_iff)
    from assemble_packet [OF assms(1) this] show ?thesis unfolding fill_elements_Ret by simp
  qed
  also have "message_elements (?es @ replicate (1 - length phys) no_message) = disc_elements le junkb junkd w phys"
    by (simp add: message_elements_def comp_def)
  finally show ?thesis .
qed

lemma parse_disc_elements:
  assumes "ample mem" "junk_ok junkb" "junk_ok junkd" "length phys \<le> 1"
    and "len = int (length (disc_elements le' junkb junkd w phys))"
  shows "parse_elements (disc_branch mem le) (length bs) len disc_start
      (rmsg bs (disc_elements le' junkb junkd w phys @ junk) x) =
    Some (Ret (\<lparr> disc_type = Some 1, disc_boardData = Some (board_infos le' junkb),
      disc_descriptor = Some (descriptor_view le' junkd w), disc_frameTunnelMode = Some 8,
      disc_MACType = Some 1, numPhyActive = length phys,
      singlePhyInfo = map (\<lambda>(r, p). (r mod 256, p)) phys @ replicate (5 - length phys) (0, 0) \<rparr>,
      rmsg (bs @ disc_elements le' junkb junkd w phys) junk x))"
proof -
  note steps = disc_steps_request [OF assms(1)] disc_steps_radio(1) [OF assms(1)] description_lengths
  have len: "len = 105 + 9 * int (length phys)"
    using description_lengths assms(2,3,5) by (simp add: length_concat comp_def sum_list_triv)
  consider "phys = []" | r p where "phys = [(r, p)]" using assms(4) by (cases phys) auto
  then show ?thesis
  proof cases
    case 1
    then show ?thesis using assms(2,3) unfolding len 1
      by (simp add: steps parse_elements_end) (simp add: disc_start_def)
  next
    case 2
    show ?thesis using assms(2,3) unfolding len 2
      by (simp add: steps parse_elements_end disc_start_def [THEN arg_cong, of numPhyActive])
         (simp add: disc_start_def eval_nat_numeral)
  qed
qed

lemma parse_discovery_request:
  assumes "ample mem" "junk_ok junkb" "junk_ok junkd" "length phys \<le> 1"
  shows "CWParseDiscoveryRequestMessage mem le
      (packet_bytes mac seq 1 (disc_elements le' junkb junkd w phys) @ junk)
      (int (length (packet_bytes mac seq 1 (disc_elements le' junkb junkd w phys)))) =
    Some (Ret (seq, \<lparr> disc_type = Some 1, disc_boardData = Some (board_infos le' junkb),
      disc_descriptor = Some (descriptor_view le' junkd w), disc_frameTunnelMode = Some 8,
      disc_MACType = Some 1, numPhyActive = length phys,
      singlePhyInfo = map (\<lambda>(r, p). (r mod 256, p)) phys @ replicate (5 - length phys) (0, 0) \<rparr>))"
proof -
  define e where "e = disc_elements le' junkb junkd w phys"
  have "length e = 105 + 9 * length phys"
    using description_lengths assms(2,3) unfolding e_def by (simp add: length_concat comp_def sum_list_triv)
  then have l: "length e < 65536" using assms(4) by simp
  have "parse_elements (disc_branch mem le) (length bs) (int (length e)) disc_start (rmsg bs (e @ junk) x) =
    Some (Ret (\<lparr> disc_type = Some 1, disc_boardData = Some (board_infos le' junkb),
      disc_descriptor = Some (descriptor_view le' junkd w), disc_frameTunnelMode = Some 8,
      disc_MACType = Some 1, numPhyActive = length phys,
      singlePhyInfo = map (\<lambda>(r, p). (r mod 256, p)) phys @ replicate (5 - length phys) (0, 0) \<rparr>,
      rmsg (bs @ e) junk x))" for bs x
    unfolding e_def by (rule parse_disc_elements [OF assms refl])
  from this [of "header_bytes mac (plain_values 0 0 0) @ message_header seq 1 (length e)" None] show ?thesis
    using assms(1) l unfolding e_def [symmetric]
    by (simp add: CWParseDiscoveryRequestMessage_def ample_malloc parse_packet_header parse_control_eq)
qed

text \<open>
  The Discovery Request of a WTP with at most one radio tells the AC its sequence number, that the
  WTP was configured with the AC's address, its board data, its descriptor, the tunnel mode and MAC
  type, and the radio's identifier, cut to a byte, with its standards, whatever follows the packet in the
  buffer. A WTP with more radios writes past the array of its message elements.
\<close>

theorem discovery_request_exchange:
  assumes "ample mem" "junk_ok junkb" "junk_ok junkd"
  shows "if 1 < length phys
    then CWAssembleDiscoveryRequest mem mac fid garbage le junkb junkd phys w seq = Fault
    else \<exists>p. CWAssembleDiscoveryRequest mem mac fid garbage le junkb junkd phys w seq = Ret [p] \<and>
      CWParseDiscoveryRequestMessage mem le' (contents p @ junk) (int (length (contents p))) =
      Some (Ret (seq, \<lparr> disc_type = Some 1, disc_boardData = Some (board_infos le junkb),
        disc_descriptor = Some (descriptor_view le junkd w), disc_frameTunnelMode = Some 8,
        disc_MACType = Some 1, numPhyActive = length phys,
        singlePhyInfo = map (\<lambda>(r, p). (r mod 256, p)) phys @ replicate (5 - length phys) (0, 0) \<rparr>))"
  using assemble_discovery_request [OF assms, of mac fid garbage le phys w seq]
    parse_discovery_request [OF assms, of phys le' mac seq le w junk]
  by (simp only: contents_wmsg split: if_split) simp

theorem discovery_request_exchange_witness:
  "\<exists>p. CWAssembleDiscoveryRequest (\<lambda>_. True) ex_mac 0 0 True (\<lambda>_. [1, 2, 3, 4]) (\<lambda>_. [5, 6, 7, 8]) [(257, 12)] ex_wtp 3 = Ret [p] \<and>
     CWParseDiscoveryRequestMessage (\<lambda>_. True) False (contents p @ [0, 0]) (int (length (contents p))) =
     Some (Ret (3, \<lparr> disc_type = Some 1, disc_boardData = Some (board_infos True (\<lambda>_. [1, 2, 3, 4])),
       disc_descriptor = Some (descriptor_view True (\<lambda>_. [5, 6, 7, 8]) ex_wtp), disc_frameTunnelMode = Some 8,
       disc_MACType = Some 1, numPhyActive = 1,
       singlePhyInfo = [(1, 12), (0, 0), (0, 0), (0, 0), (0, 0)] \<rparr>))"
  using discovery_request_exchange [OF ample_all, of "\<lambda>_. [1, 2, 3, 4]" "\<lambda>_. [5, 6, 7, 8]" "[(257, 12)]" ex_mac 0 0
      True ex_wtp 3 False "[0, 0]"]
  by (simp add: eval_nat_numeral)

text \<open>
  C21: A Discovery Request with two radio elements, whatever the second one contains and whatever follows,
  makes the AC write behind the block of its radios: one packet of 29 bytes is enough.
\<close>

theorem discovery_two_radios_overflow:
  assumes "ample mem" "9 < n" "n < 65536"
  shows "CWParseDiscoveryRequestMessage mem le
      (header_bytes mac (plain_values 0 0 0) @ message_header seq 1 n @
       elem_bytes 1048 [word_of_int r, 0, 0, 0, p] @ elem_bytes 1048 body @ rest) len = Some Fault"
proof -
  have "numPhyActive disc_start = 0" by (simp add: disc_start_def)
  then show ?thesis
    using assms disc_steps_radio [OF assms(1)]
    by (simp add: CWParseDiscoveryRequestMessage_def ample_malloc parse_packet_header parse_control_eq)
qed

theorem discovery_two_radios_overflow_witness:
  "CWParseDiscoveryRequestMessage (\<lambda>_. True) True
      (header_bytes no_mac (plain_values 0 0 0) @ message_header 0 1 13 @
       elem_bytes 1048 [1, 0, 0, 0, 1] @ elem_bytes 1048 [] @ []) 29 = Some Fault"
  using discovery_two_radios_overflow [OF ample_all, of 13 True no_mac 0 1 1 "[]" "[]" 29] by simp

subsection \<open>The response arrives\<close>

lemma control_addresses_rest:
  assumes "\<And>i. i \<in> set is \<Longrightarrow> i \<noteq> 0 \<and> f i = Ret (elem_msg t (g i)) \<and> length (g i) = k"
  shows "control_addresses mem num f is (Some (wmsg bs ((4 + k) * length is))) =
    Ret (Some (wmsg (bs @ concat (map (\<lambda>i. elem_bytes t (g i)) is)) 0))"
  using assms
proof (induction "is" arbitrary: bs)
  case (Cons i "is")
  then have i: "i \<noteq> 0" "f i = Ret (elem_msg t (g i))" "length (g i) = k" by auto
  have "control_addresses mem num f is (Some (wmsg (bs @ elem_bytes t (g i)) ((4 + k) * length is))) =
      Ret (Some (wmsg ((bs @ elem_bytes t (g i)) @ concat (map (\<lambda>i. elem_bytes t (g i)) is)) 0))"
    by (rule Cons.IH) (use Cons.prems in auto)
  then show ?case using i by (simp add: wire)
qed simp

lemma control_addresses_eq:
  assumes "ample mem" "\<And>i. i < n \<Longrightarrow> f i = Ret (elem_msg t (g i)) \<and> length (g i) = k" "0 < n"
  shows "control_addresses mem n f [0..<n] None =
    Ret (Some (wmsg (concat (map (\<lambda>i. elem_bytes t (g i)) [0..<n])) 0))"
proof -
  have u: "[0..<n] = 0 # [1..<n]" using assms(3) by (simp add: upt_conv_Cons)
  have z: "f 0 = Ret (elem_msg t (g 0))" "length (g 0) = k" using assms(2,3) by simp_all
  have "(4 + int k) * int n = int ((4 + k) * n)" by simp
  then have c: "CW_CREATE_PROTOCOL_MESSAGE mem ((4 + int k) * int n) = Ret (wmsg [] ((4 + k) * n))"
    using assms(1) by (simp only: create_wmsg ample_malloc nat_int if_True of_nat_0_le_iff)
  have room: "4 + k \<le> (4 + k) * n" "(4 + k) * n - (4 + k) = (4 + k) * (n - 1)"
    using assms(3) by (simp_all add: diff_mult_distrib2 del: add_mult_distrib)
  have "control_addresses mem n f [0..<n] None =
      control_addresses mem n f [1..<n] (Some (wmsg (elem_bytes t (g 0)) ((4 + k) * (n - 1))))"
    unfolding u using z c room by (simp add: wire del: create_wmsg add_mult_distrib mult_Suc_right)
  also have "\<dots> = Ret (Some (wmsg (elem_bytes t (g 0) @ concat (map (\<lambda>i. elem_bytes t (g i)) [1..<n])) 0))"
    using control_addresses_rest [of "[1..<n]" f t g k mem n "elem_bytes t (g 0)"] assms(2) by simp
  finally show ?thesis unfolding u by simp
qed

definition address_body :: "ac_globals \<Rightarrow> nat \<Rightarrow> byte list" where
  "address_body ac i = be32 (CWACGetInterfaceIPv4AddressAtIndex ac i) @
     be16 (word_of_int (CWACGetInterfaceWTPCountAtIndex ac i))"

lemma length_address_body [simp]: "length (address_body ac i) = 6"
  by (simp add: address_body_def)

lemma length_addresses_bytes [simp]:
  "length (concat (map (\<lambda>i. elem_bytes 10 (address_body ac i)) is)) = 10 * length is"
  by (simp add: length_concat comp_def sum_list_triv)

lemma control_IPv4_addresses_eq:
  assumes "ample mem" "gInterfaces ac \<noteq> []"
  shows "CWAssembleMsgElemCWControlIPv4Addresses mem ac =
    Ret (Some (wmsg (concat (map (\<lambda>i. elem_bytes 10 (address_body ac i)) [0..<length (gInterfaces ac)])) 0))"
  using assms control_addresses_eq [OF assms(1), of "length (gInterfaces ac)" _ 10 "address_body ac" 6]
  by (simp add: CWAssembleMsgElemCWControlIPv4Addresses_def Let_def wire address_body_def)

interpretation ac_name: msg_elem_exchange 4 "\<lambda>ac. length (gACName ac) < 65536" gACName "\<lambda>ac. Some (gACName ac)"
    CWAssembleMsgElemACName_AC CWParseACName
  by unfold_locales (auto simp: CWAssembleMsgElemACName_AC_def CWParseACName_def parse_frame wire)

interpretation control_address: msg_elem_exchange 10 "\<lambda>_. True" "\<lambda>(ac, i). address_body ac i"
    "\<lambda>(ac, i). (be32 (CWACGetInterfaceIPv4AddressAtIndex ac i), CWACGetInterfaceWTPCountAtIndex ac i mod 65536)"
    "\<lambda>mem (ac, i). assemble_unchecked mem 6 [Store32 (CWACGetInterfaceIPv4AddressAtIndex ac i),
       i16 (CWACGetInterfaceWTPCountAtIndex ac i)] 10"
    "\<lambda>mem. CWParseCWControlIPv4Addresses le" for le
  by unfold_locales
     (auto simp: CWParseCWControlIPv4Addresses_def address_body_def parse_frame wire field_values)

abbreviation addresses_bytes :: "ac_globals \<Rightarrow> nat list \<Rightarrow> byte list" where
  "addresses_bytes ac is \<equiv> concat (map (\<lambda>i. elem_bytes 10 (address_body ac i)) is)"

abbreviation address_view :: "ac_globals \<Rightarrow> nat \<Rightarrow> byte list \<times> int" where
  "address_view ac i \<equiv>
     (be32 (CWACGetInterfaceIPv4AddressAtIndex ac i), CWACGetInterfaceWTPCountAtIndex ac i mod 65536)"

lemma resp_count_steps:
  assumes "ample mem" "int (length bs) - int start < len"
  shows "parse_elements (resp_count_branch mem le) start len (i, n, v4, v6)
        (rmsg bs (elem_bytes 1 (ac_descriptor_body ac) @ rest) x) =
      parse_elements (resp_count_branch mem le) start len (Some (ac_descriptor_view le ac), n, v4, v6)
        (rmsg (bs @ elem_bytes 1 (ac_descriptor_body ac)) rest x)"
    and "length (gACName ac) < 65536 \<Longrightarrow>
      parse_elements (resp_count_branch mem le) start len (i, n, v4, v6)
        (rmsg bs (elem_bytes 4 (gACName ac) @ rest) x) =
      parse_elements (resp_count_branch mem le) start len (i, Some (gACName ac), v4, v6)
        (rmsg (bs @ elem_bytes 4 (gACName ac)) rest x)"
    and "parse_elements (resp_count_branch mem le) start len (i, n, v4, v6)
        (rmsg bs (elem_bytes 10 (address_body ac j) @ rest) x) =
      parse_elements (resp_count_branch mem le) start len (i, n, Suc v4, v6)
        (rmsg (bs @ elem_bytes 10 (address_body ac j)) rest x)"
    and "parse_elements (resp_count_branch mem le) start len (i, n, v4, v6)
        (rmsg bs (elem_bytes 1048 [word_of_int r, 0, 0, 0, p] @ rest) x) =
      parse_elements (resp_count_branch mem le) start len (i, n, v4, v6)
        (rmsg (bs @ elem_bytes 1048 [word_of_int r, 0, 0, 0, p]) rest x)"
  using ac_descriptor.parse_elements_exchange [OF assms(1) TrueI assms(2), where branch = "resp_count_branch mem le"
      and le' = le and v = ac and s = "(i, n, v4, v6)" and upd = "\<lambda>v. (Some v, n, v4, v6)"]
    ac_name.parse_elements_exchange [OF assms(1) _ assms(2), where branch = "resp_count_branch mem le"
      and v = ac and s = "(i, n, v4, v6)" and upd = "\<lambda>v. (i, v, v4, v6)"]
    radio_information_ac.parse_elements_exchange [OF assms(1) TrueI assms(2), where branch = "resp_count_branch mem le"
      and v = "(r, p)" and s = "(i, n, v4, v6)" and upd = "\<lambda>_. (i, n, v4, v6)"]
    parse_elements_skip [OF assms(2), of "address_body ac j" "resp_count_branch mem le" "(i, n, v4, v6)" 10
      "(i, n, Suc v4, v6)"]
  by (simp_all add: resp_count_branch_def del: ac_descriptor_body.simps ac_descriptor_view.simps)

lemma resp_read_steps:
  assumes "ample mem" "int (length bs) - int start < len"
  shows "\<lbrakk>ucast t \<noteq> (10 :: 16 word); ucast t \<noteq> (11 :: 16 word); length body < 65536\<rbrakk> \<Longrightarrow>
      parse_elements (resp_read_branch mem le n4 n6) start len s (rmsg bs (elem_bytes t body @ rest) x) =
      parse_elements (resp_read_branch mem le n4 n6) start len s (rmsg (bs @ elem_bytes t body) rest x)"
    and "length v4 < n4 \<Longrightarrow>
      parse_elements (resp_read_branch mem le n4 n6) start len (v4, v6)
        (rmsg bs (elem_bytes 10 (address_body ac j) @ rest) x) =
      parse_elements (resp_read_branch mem le n4 n6) start len (v4 @ [address_view ac j], v6)
        (rmsg (bs @ elem_bytes 10 (address_body ac j)) rest x)"
  using parse_elements_skip [OF assms(2), of body "resp_read_branch mem le n4 n6" s t s]
    control_address.parse_elements_exchange [OF assms(1) TrueI assms(2), where branch = "resp_read_branch mem le n4 n6"
      and le = le and v = "(ac, j)" and s = "(v4, v6)" and upd = "\<lambda>v. (v4 @ [v], v6)"]
  by (cases s; simp add: resp_read_branch_def)+

lemma count_addresses:
  assumes "ample mem" "int (length bs) - int start + 10 * int (length is) \<le> len"
  shows "parse_elements (resp_count_branch mem le) start len (i, n, v4, v6) (rmsg bs (addresses_bytes ac is @ rest) x) =
    parse_elements (resp_count_branch mem le) start len (i, n, v4 + length is, v6)
      (rmsg (bs @ addresses_bytes ac is) rest x)"
  using assms(2)
proof (induction "is" arbitrary: bs v4)
  case (Cons j "is")
  then show ?case
    using resp_count_steps(3) [OF assms(1), of bs start len le i n v4 v6 ac j "addresses_bytes ac is @ rest" x]
      Cons.IH [of "bs @ elem_bytes 10 (address_body ac j)" "Suc v4"] by simp
qed simp

lemma read_addresses:
  assumes "ample mem" "int (length bs) - int start + 10 * int (length is) \<le> len" "length v4 + length is \<le> n4"
  shows "parse_elements (resp_read_branch mem le n4 n6) start len (v4, v6)
      (rmsg bs (addresses_bytes ac is @ rest) x) =
    parse_elements (resp_read_branch mem le n4 n6) start len (v4 @ map (address_view ac) is, v6)
      (rmsg (bs @ addresses_bytes ac is) rest x)"
  using assms(2,3)
proof (induction "is" arbitrary: bs v4)
  case (Cons j "is")
  then show ?case
    using resp_read_steps(2) [OF assms(1), of bs start len v4 n4 le n6 v6 ac j "addresses_bytes ac is @ rest" x]
      Cons.IH [of "bs @ elem_bytes 10 (address_body ac j)" "v4 @ [address_view ac j]"] by simp
qed simp

abbreviation phys_of :: "CWDiscoveryRequestValues \<Rightarrow> (int \<times> byte) list" where
  "phys_of s \<equiv> map (\<lambda>i. singlePhyInfo s ! i) [0..<numPhyActive s]"

abbreviation resp_elements :: "ac_globals \<Rightarrow> CWDiscoveryRequestValues \<Rightarrow> byte list" where
  "resp_elements ac s \<equiv>
     elem_bytes 1 (ac_descriptor_body ac) @ elem_bytes 4 (gACName ac) @
     addresses_bytes ac [0..<length (gInterfaces ac)] @
     concat (map (\<lambda>rp. elem_bytes 1048 (radio_body rp)) (phys_of s))"

lemma assemble_discovery_response:
  assumes "ample mem" "gInterfaces ac \<noteq> []" "length (gACName ac) < 65536"
  shows "CWAssembleDiscoveryResponse mem mac fid garbage le ac s seq =
    (if 1 < numPhyActive s then Fault
     else Ret [wmsg (packet_bytes mac seq 2 (resp_elements ac s)) 0])"
proof (cases "1 < numPhyActive s")
  case True
  let ?f = "\<lambda>i. if \<not> phy_in_block i then Fault
    else CWAssembleMsgElemACWTPRadioInformation mem (fst (singlePhyInfo s ! i)) (snd (singlePhyInfo s ! i))"
  let ?n = "if CWACSupportIPv6 ac then 5 else 4 :: nat"
  let ?e = "elem_msg 1048 (radio_body (singlePhyInfo s ! 0))"
  have "[0..<numPhyActive s] = 0 # 1 # [2..<numPhyActive s]" using True by (simp add: upt_conv_Cons numeral_2_eq_2)
  then have "map ?f [0..<numPhyActive s] = ?f 0 # Fault # map ?f [2..<numPhyActive s]" by simp
  also have "?f 0 = Ret ?e"
    using radio_information_ac.assemble_law [OF assms(1) TrueI, of "singlePhyInfo s ! 0"] by (simp add: split_def)
  finally have m: "map ?f [0..<numPhyActive s] = Ret ?e # Fault # map ?f [2..<numPhyActive s]" .
  have "CWAssembleDiscoveryResponse mem mac fid garbage le ac s seq =
      res_bind (fill_elements ?n (map Ret [elem_msg 1 (ac_descriptor_body ac), elem_msg 4 (gACName ac),
        wmsg (addresses_bytes ac [0..<length (gInterfaces ac)]) 0, ?e] @ Fault # map ?f [2..<numPhyActive s]))
      (\<lambda>es. CWAssembleMessage mem mac fid garbage 0 seq 2 es [] 0)"
    using assms ac_descriptor.assemble_law [OF assms(1) TrueI, where le = le and v = ac]
      ac_name.assemble_law [OF assms(1,3)] control_IPv4_addresses_eq [OF assms(1,2)]
    unfolding CWAssembleDiscoveryResponse_def m Let_def
    by (simp add: ample_malloc del: ac_descriptor_body.simps fill_elements.simps phy_in_block_iff)
  then show ?thesis using True unfolding fill_elements_Fault by simp
next
  case False
  let ?n = "if CWACSupportIPv6 ac then 5 else 4 :: nat"
  let ?es = "[elem_msg 1 (ac_descriptor_body ac), elem_msg 4 (gACName ac),
     wmsg (addresses_bytes ac [0..<length (gInterfaces ac)]) 0] @ map (\<lambda>rp. elem_msg 1048 (radio_body rp)) (phys_of s)"
  let ?all = "?es @ replicate (?n - length ?es) no_message"
  have r: "map (\<lambda>i. if \<not> phy_in_block i then Fault
      else CWAssembleMsgElemACWTPRadioInformation mem (fst (singlePhyInfo s ! i)) (snd (singlePhyInfo s ! i)))
      [0..<numPhyActive s] = map Ret (map (\<lambda>rp. elem_msg 1048 (radio_body rp)) (phys_of s))"
    using False radio_information_ac.assemble_law [OF assms(1) TrueI] by (auto simp: split_def)
  have "CWAssembleDiscoveryResponse mem mac fid garbage le ac s seq =
      res_bind (fill_elements ?n (map Ret ?es)) (\<lambda>es. CWAssembleMessage mem mac fid garbage 0 seq 2 es [] 0)"
    using assms ac_descriptor.assemble_law [OF assms(1) TrueI, where le = le and v = ac]
      ac_name.assemble_law [OF assms(1,3)] control_IPv4_addresses_eq [OF assms(1,2)]
    unfolding CWAssembleDiscoveryResponse_def r Let_def
    by (simp add: ample_malloc del: map_map ac_descriptor_body.simps)
  also have "\<dots> = CWAssembleMessage mem mac fid garbage 0 seq 2 ?all [] 0"
    using False unfolding fill_elements_Ret by simp
  also have "\<dots> = Ret [wmsg (packet_bytes mac seq 2 (message_elements ?all)) 0]"
    by (rule assemble_packet [OF assms(1)]) (auto simp: list_all_iff)
  also have "message_elements ?all = resp_elements ac s"
    by (simp add: message_elements_def comp_def del: ac_descriptor_body.simps)
  finally show ?thesis using False by simp
qed

lemma parse_discovery_response:
  assumes "ample mem" "numPhyActive s \<le> 1" "length (gACName ac) + 10 * length (gInterfaces ac) < 65000"
  shows "CWParseDiscoveryResponseMessage mem le (packet_bytes mac seq 2 (resp_elements ac s) @ junk)
      (int (length (packet_bytes mac seq 2 (resp_elements ac s)))) =
    Some (Ret (seq, \<lparr> resp_info = Some (ac_descriptor_view le ac), resp_name = Some (gACName ac),
      IPv4Addresses = map (address_view ac) [0..<length (gInterfaces ac)], IPv6Addresses = [] \<rparr>))"
proof -
  let ?n = "length (gInterfaces ac)"
  let ?d = "elem_bytes 1 (ac_descriptor_body ac)" and ?m = "elem_bytes 4 (gACName ac)"
    and ?a = "addresses_bytes ac [0..<?n]" and ?r = "concat (map (\<lambda>rp. elem_bytes 1048 (radio_body rp)) (phys_of s))"
  define e where "e = resp_elements ac s"
  define len where "len = int (length e)"
  have d: "length (ac_descriptor_body ac) = 36" by (simp add: info_bytes_def)
  have len: "len = 44 + int (length (gACName ac)) + 10 * int ?n + 9 * int (numPhyActive s)"
    unfolding len_def e_def by (simp add: d length_concat comp_def sum_list_triv del: ac_descriptor_body.simps)
  have name: "length (gACName ac) < 65536" using assms(3) by simp
  have radios: "phys_of s = [] \<and> numPhyActive s = 0 \<or>
      phys_of s = [(fst (singlePhyInfo s ! 0), snd (singlePhyInfo s ! 0))] \<and> numPhyActive s = 1"
    using assms(2) by (cases "numPhyActive s") auto
  define h where "h = header_bytes mac (plain_values 0 0 0) @ message_header seq 2 (length e)"
  have count: "parse_elements (resp_count_branch mem le) (length h) len (None, None, 0, 0) (rmsg h (e @ junk) None) =
      Some (Ret ((Some (ac_descriptor_view le ac), Some (gACName ac), ?n, 0), rmsg (h @ e) junk None))"
  proof -
    have tail: "parse_elements (resp_count_branch mem le) (length h) len (i, nm, n4, n6)
        (rmsg (h @ ?d @ ?m @ ?a) (?r @ junk) None) =
      Some (Ret ((i, nm, n4, n6), rmsg (h @ e) junk None))" for i nm n4 n6
      using radios
      by (elim disjE conjE)
         (simp_all add: resp_count_steps(4) [OF assms(1)] parse_elements_end len e_def d del: ac_descriptor_body.simps)
    show ?thesis
      using resp_count_steps(1) [OF assms(1), of h "length h" len le None None 0 0 ac "?m @ ?a @ ?r @ junk" None]
        resp_count_steps(2) [OF assms(1) _ name, of "h @ ?d" "length h" len le "Some (ac_descriptor_view le ac)" None 0 0
          "?a @ ?r @ junk" None]
        count_addresses [OF assms(1), of "h @ ?d @ ?m" "length h" "[0..<?n]" len le "Some (ac_descriptor_view le ac)"
          "Some (gACName ac)" 0 0 ac "?r @ junk" None] tail
      by (simp add: len e_def d del: ac_descriptor_body.simps ac_descriptor_view.simps)
  qed
  have read: "parse_elements (resp_read_branch mem le ?n 0) (length h) len ([], []) (rmsg h (e @ junk) None) =
      Some (Ret ((map (address_view ac) [0..<?n], []), rmsg (h @ e) junk None))"
  proof -
    have tail: "parse_elements (resp_read_branch mem le ?n 0) (length h) len vs (rmsg (h @ ?d @ ?m @ ?a) (?r @ junk) None) =
      Some (Ret (vs, rmsg (h @ e) junk None))" for vs
      using radios
      by (elim disjE conjE)
         (simp_all add: resp_read_steps(1) [OF assms(1)] parse_elements_end len e_def d del: ac_descriptor_body.simps)
    show ?thesis
      using resp_read_steps(1) [OF assms(1), of h "length h" len 1 "ac_descriptor_body ac" le ?n 0 "([], [])" "?m @ ?a @ ?r @ junk" None]
        resp_read_steps(1) [OF assms(1), of "h @ ?d" "length h" len 4 "gACName ac" le ?n 0 "([], [])" "?a @ ?r @ junk" None]
        read_addresses [OF assms(1), of "h @ ?d @ ?m" "length h" "[0..<?n]" len "[]" ?n le 0 "[]" ac "?r @ junk" None]
        tail name
      by (simp add: len e_def d del: ac_descriptor_body.simps)
  qed
  have l: "length e < 65536" using len assms(2,3) unfolding len_def by simp
  show ?thesis
    using assms(1) l count read unfolding e_def [symmetric] len_def h_def
    by (simp add: CWParseDiscoveryResponseMessage_def ample_malloc parse_packet_header parse_control_eq)
qed

text \<open>
  The AC's Discovery Response. A WTP that reads it learns the sequence number, the descriptor, the
  name and, for each interface of the AC in order, its IPv4 address with the number of WTPs on it, also when the
  AC prefers IPv6; the IPv6 addresses are never sent. For a request that counted more than one radio the AC reads
  and writes behind its arrays, and an AC without interfaces raises an error.
\<close>

theorem discovery_response_exchange:
  assumes "ample mem" "length (gACName ac) + 10 * length (gInterfaces ac) < 65000"
  shows "if gInterfaces ac = [] then
      CWAssembleDiscoveryResponse mem mac fid garbage le ac s seq = Raise CW_ERROR_NEED_RESOURCE
    else if 1 < numPhyActive s then CWAssembleDiscoveryResponse mem mac fid garbage le ac s seq = Fault
    else \<exists>p. CWAssembleDiscoveryResponse mem mac fid garbage le ac s seq = Ret [p] \<and>
      CWParseDiscoveryResponseMessage mem le' (contents p @ junk) (int (length (contents p))) =
      Some (Ret (seq, \<lparr> resp_info = Some (ac_descriptor_view le' ac), resp_name = Some (gACName ac),
        IPv4Addresses = map (\<lambda>i. (be32 (CWACGetInterfaceIPv4AddressAtIndex ac i),
          CWACGetInterfaceWTPCountAtIndex ac i mod 65536)) [0..<length (gInterfaces ac)],
        IPv6Addresses = [] \<rparr>))"
proof -
  have name: "length (gACName ac) < 65536" using assms(2) by simp
  have "CWAssembleDiscoveryResponse mem mac fid garbage le ac s seq = Raise CW_ERROR_NEED_RESOURCE"
    if "gInterfaces ac = []"
    using that assms(1) ac_descriptor.assemble_law [OF assms(1) TrueI, where le = le and v = ac]
      ac_name.assemble_law [OF assms(1) name]
    by (simp add: CWAssembleDiscoveryResponse_def Let_def ample_malloc eval_nat_numeral
        CWAssembleMsgElemCWControlIPv4Addresses_def del: ac_descriptor_body.simps)
  then show ?thesis
    using assemble_discovery_response [OF assms(1) _ name, of mac fid garbage le s seq]
      parse_discovery_response [OF assms(1) _ assms(2), of s le' mac seq junk]
    by (simp only: contents_wmsg split: if_split) simp
qed

theorem discovery_response_exchange_witness:
  "\<exists>p. CWAssembleDiscoveryResponse (\<lambda>_. True) no_mac 0 0 True ex_ac disc_start 3 = Ret [p] \<and>
     CWParseDiscoveryResponseMessage (\<lambda>_. True) False (contents p @ [1]) (int (length (contents p))) =
     Some (Ret (3, \<lparr> resp_info = Some (ac_descriptor_view False ex_ac), resp_name = Some [65, 67],
       IPv4Addresses = [([10, 0, 0, 1], 1)], IPv6Addresses = [] \<rparr>))"
proof -
  have a: "CWACGetInterfaceIPv4AddressAtIndex ex_ac 0 = of_be32 [10, 0, 0, 1]"
    by (simp add: CWACGetInterfaceIPv4AddressAtIndex_def ex_ac_def Let_def del: of_be32.simps)
  have "length (gACName ex_ac) + 10 * length (gInterfaces ex_ac) < 65000" by (simp add: ex_ac_def)
  from discovery_response_exchange [OF ample_all this, of no_mac 0 0 True disc_start 3 False "[1]"] a show ?thesis
    by (simp add: ex_ac_def disc_start_def CWACGetInterfaceWTPCountAtIndex_def del: of_be32.simps)
qed

end
