(* ===== verification/JoinMessages.thy ===== *)
theory JoinMessages
  imports Discovery
begin

section \<open>Join messages: WTPJoinState.c and ACJoinState.c\<close>

text \<open>
  A WTP that has chosen an AC describes itself in a Join Request; the AC stores the description and
  answers with its own and a result code. The messages travel over the control channel, so they may
  be cut into fragments and are parsed after reassembly.

  The values of a message are a structure on the caller's stack: a parse function gets it as an
  argument (\<open>v\<close>, whatever it holds) and sets what it finds. A pointer that no element has set is
  \<open>None\<close>, and following it is a \<open>Fault\<close>.
\<close>

subsection \<open>The request: WTP\<close>

text \<open>\<open>phys\<close> are the radios' identifiers and standards, \<open>sid\<close> is \<^verbatim>\<open>gWTPSessionID\<close>.\<close>

definition CWAssembleJoinRequest ::
  "memory \<Rightarrow> eth \<Rightarrow> int \<Rightarrow> 32 word \<Rightarrow> bool \<Rightarrow> (nat \<Rightarrow> byte list) \<Rightarrow> (nat \<Rightarrow> byte list) \<Rightarrow>
   (int \<times> byte) list \<Rightarrow> byte list \<Rightarrow> wtp_globals \<Rightarrow> int \<Rightarrow> byte \<Rightarrow> CWProtocolMessage list res" where
  "CWAssembleJoinRequest mem mac fid garbage le junkb junkd phys sid w PMTU seq =
     (if \<not> malloc_ok mem (message_size * 10) then Raise CW_ERROR_OUT_OF_MEMORY
      else res_bind (fill_elements 10
        ([CWAssembleMsgElemLocationData mem w, CWAssembleMsgElemWTPBoardData mem le junkb,
          CWAssembleMsgElemWTPDescriptor mem le junkd w, CWAssembleMsgElemWTPIPv4Address mem w,
          CWAssembleMsgElemWTPName mem w, CWAssembleMsgElemSessionID mem sid,
          CWAssembleMsgElemWTPFrameTunnelMode mem, CWAssembleMsgElemWTPMACType mem,
          CWAssembleMsgElemECNSupport_WTP mem w]
         @ map (\<lambda>(r, p). CWAssembleMsgElemWTPRadioInformation mem r p) phys)) (\<lambda>es.
        CWAssembleMessage mem mac fid garbage PMTU seq 3 es [] 0))"

subsection \<open>The request: AC\<close>

record CWProtocolJoinRequestValues =
  join_location :: "byte list option option"
  join_name :: "byte list option option"
  join_boardData :: "VendorInfoValues list option"
  join_sessionID :: "byte list option option"
  join_descriptor :: CWWTPDescriptor
  join_addr :: "byte list"
  join_frameTunnelMode :: int
  join_MACType :: int
  join_ECNSupport :: int
  join_numPhyActive :: nat
  join_singlePhyInfo :: "(int \<times> byte) list"

text \<open>The array of the radios has five entries; the counter also counts those that do not fit, and leaves
  the message at their bodies.\<close>

definition join_radio ::
  "CWProtocolJoinRequestValues \<Rightarrow> CWProtocolMessage \<Rightarrow> int \<Rightarrow>
   (CWProtocolJoinRequestValues \<times> CWProtocolMessage) res" where
  "join_radio v m len =
     (let n = join_numPhyActive v in
      if n < WTP_RADIO_MAX then
        res_bind (CWParseWTPRadioInformation m len) (\<lambda>(p, m).
          Ret (v\<lparr> join_singlePhyInfo := (join_singlePhyInfo v)[n := p], join_numPhyActive := Suc n \<rparr>, m))
      else Ret (v\<lparr>join_numPhyActive := Suc n\<rparr>, m))"

definition join_branch ::
  "memory \<Rightarrow> bool \<Rightarrow> CWProtocolJoinRequestValues \<Rightarrow> 16 word \<Rightarrow> CWProtocolMessage \<Rightarrow> int \<Rightarrow>
   (CWProtocolJoinRequestValues \<times> CWProtocolMessage) res" where
  "join_branch mem le v elemType m elemLen =
     (if elemType = 28 then
        res_bind (CWParseLocationData mem m elemLen) (\<lambda>(x, m). Ret (v\<lparr>join_location := Some x\<rparr>, m))
      else if elemType = 38 then
        res_bind (CWParseWTPBoardData mem le m elemLen) (\<lambda>(x, m). Ret (v\<lparr>join_boardData := Some x\<rparr>, m))
      else if elemType = 35 then
        res_bind (CWParseSessionID mem m elemLen) (\<lambda>(x, m). Ret (v\<lparr>join_sessionID := Some x\<rparr>, m))
      else if elemType = 39 then
        res_bind (CWParseWTPDescriptor mem le (encCapabilities (join_descriptor v)) m elemLen) (\<lambda>(x, m).
          Ret (v\<lparr>join_descriptor := x\<rparr>, m))
      else if elemType = 30 then
        res_bind (CWParseWTPIPv4Address le m elemLen) (\<lambda>(x, m). Ret (v\<lparr>join_addr := x\<rparr>, m))
      else if elemType = 45 then
        res_bind (CWParseWTPName mem m elemLen) (\<lambda>(x, m). Ret (v\<lparr>join_name := Some x\<rparr>, m))
      else if elemType = 41 then
        res_bind (CWParseWTPFrameTunnelMode m elemLen) (\<lambda>(x, m). Ret (v\<lparr>join_frameTunnelMode := x\<rparr>, m))
      else if elemType = 44 then
        res_bind (CWParseWTPMACType m elemLen) (\<lambda>(x, m). Ret (v\<lparr>join_MACType := x\<rparr>, m))
      else if elemType = 1048 then join_radio v m elemLen
      else if elemType = 53 then
        res_bind (CWParseWTPECNSupport m elemLen) (\<lambda>(x, m). Ret (v\<lparr>join_ECNSupport := x\<rparr>, m))
      else Ret (v, m\<lparr>offset := offset m + nat elemLen\<rparr>))"

definition CWParseJoinRequestMessage ::
  "memory \<Rightarrow> bool \<Rightarrow> CWProtocolJoinRequestValues \<Rightarrow> byte list \<Rightarrow> int \<Rightarrow>
   (byte \<times> CWProtocolJoinRequestValues) res option" where
  "CWParseJoinRequestMessage mem le v bytes len =
     (if \<not> malloc_ok mem (int (WTP_RADIO_MAX * sizeof_WTPSinglePhyInfo))
      then Some (Raise CW_ERROR_OUT_OF_MEMORY)
      else run_bind (Some (parse_message_header 3 bytes)) (\<lambda>(seq, elemsLen, m).
           run_bind (parse_elements (join_branch mem le) (offset m) elemsLen
             (v\<lparr> join_numPhyActive := 0, join_singlePhyInfo := replicate WTP_RADIO_MAX (0, 0) \<rparr>) m) (\<lambda>(v, m).
           if int (offset m) \<noteq> len then Some (Raise CW_ERROR_INVALID_FORMAT)
           else Some (Ret (seq, v)))))"

subsection \<open>The response: AC\<close>

text \<open>
  \<open>radioCount\<close> radios, in an array whose entries are \<open>radios\<close>: a null array has none. The elements asked
  for are pairs of a type and a value; an unknown type ends the assembly with an error.
\<close>

definition join_response_known :: "32 word \<times> int \<Rightarrow> bool" where
  "join_response_known tv \<longleftrightarrow> fst tv = 2 \<or> fst tv = 3 \<or> fst tv = 33"

definition join_response_elem :: "memory \<Rightarrow> bool \<Rightarrow> 32 word \<times> int \<Rightarrow> CWProtocolMessage res" where
  "join_response_elem mem le tv =
     (if fst tv = 2 then CWAssembleMsgElemACIPv4List mem le
      else if fst tv = 3 then CWAssembleMsgElemACIPv6List mem
      else CWAssembleMsgElemResultCode mem (word_of_int (snd tv)))"

definition CWAssembleJoinResponse ::
  "memory \<Rightarrow> eth \<Rightarrow> int \<Rightarrow> 32 word \<Rightarrow> bool \<Rightarrow> ac_globals \<Rightarrow> int \<Rightarrow> byte \<Rightarrow> (32 word \<times> int) list \<Rightarrow>
   int \<Rightarrow> CWWTPRadioInfoValues list \<Rightarrow> CWProtocolMessage list res" where
  "CWAssembleJoinResponse mem mac fid garbage le ac PMTU seq msgElemList radioCount radios =
     (let msgElemCount = length msgElemList + 6 in
      if msgElemList = [] then Raise CW_ERROR_WRONG_ARG
      else if \<not> malloc_ok mem (message_size * int msgElemCount) then Raise CW_ERROR_OUT_OF_MEMORY
      else res_bind (fill_elements msgElemCount
        ([CWAssembleMsgElemACDescriptor mem le ac, CWAssembleMsgElemACName_AC mem ac,
          CWAssembleMsgElemECNSupport_AC mem ac, CWAssembleMsgElemCWLocalIPv4Addresses mem ac,
          res_bind (CWAssembleMsgElemCWControlIPv4Addresses mem ac) (\<lambda>m.
            Ret (case m of None \<Rightarrow> no_message | Some m \<Rightarrow> m))]
         @ map (\<lambda>i. if length radios \<le> i then Fault
                    else let p = gWTPPhyInfo (radios ! i) in
                      CWAssembleMsgElemACWTPRadioInformation mem (phy_radioID p) (phy_standardValue p))
             [0..<nat radioCount]
         @ map (join_response_elem mem le) (takeWhile join_response_known msgElemList))) (\<lambda>es.
        if list_all join_response_known msgElemList
        then CWAssembleMessage mem mac fid garbage PMTU seq 4 es [] 0
        else Raise CW_ERROR_INVALID_FORMAT))"

subsection \<open>The response: WTP\<close>

text \<open>The lists of the ACs of the cluster are reset at every element.\<close>

record CWProtocolJoinResponseValues =
  jresp_info :: CWACInfoValues
  jresp_name :: "byte list option option"
  jresp_code :: "32 word"
  jresp_IPv4List :: "32 word list"
  jresp_IPv6List :: "byte list list"
  jresp_IPv4Addresses :: "(byte list \<times> int) list"
  jresp_IPv6Addresses :: "(byte list \<times> int) list"
  jresp_ECNSupport :: int

text \<open>First pass. The state is the structure with the numbers of control addresses.\<close>

definition jresp_branch ::
  "memory \<Rightarrow> bool \<Rightarrow> CWProtocolJoinResponseValues \<times> nat \<times> nat \<Rightarrow> 16 word \<Rightarrow> CWProtocolMessage \<Rightarrow> int \<Rightarrow>
   ((CWProtocolJoinResponseValues \<times> nat \<times> nat) \<times> CWProtocolMessage) res" where
  "jresp_branch mem le s type m len =
     (case s of (v, n4, n6) \<Rightarrow>
      let v = v\<lparr> jresp_IPv4List := [], jresp_IPv6List := [] \<rparr> in
      if type = 1 then
        res_bind (CWParseACDescriptor mem le m len) (\<lambda>(x, m). Ret ((v\<lparr>jresp_info := x\<rparr>, n4, n6), m))
      else if type = 1048 then
        res_bind (CWParseWTPRadioInformation_FromAC m len) (\<lambda>(_, m). Ret ((v, n4, n6), m))
      else if type = 2 then
        res_bind (CWParseACIPv4List mem m len) (\<lambda>(x, m). Ret ((v\<lparr>jresp_IPv4List := x\<rparr>, n4, n6), m))
      else if type = 3 then
        res_bind (CWParseACIPv6List mem m len) (\<lambda>(x, m). Ret ((v\<lparr>jresp_IPv6List := x\<rparr>, n4, n6), m))
      else if type = 33 then
        res_bind (CWParseResultCode m len) (\<lambda>(x, m). Ret ((v\<lparr>jresp_code := x\<rparr>, n4, n6), m))
      else if type = 4 then
        res_bind (CWParseACName mem m len) (\<lambda>(x, m). Ret ((v\<lparr>jresp_name := Some x\<rparr>, n4, n6), m))
      else if type = 30 then Ret ((v, n4, n6), m\<lparr>offset := offset m + nat len\<rparr>)
      else if type = 10 then Ret ((v, Suc n4, n6), m\<lparr>offset := offset m + nat len\<rparr>)
      else if type = 11 then Ret ((v, n4, Suc n6), m\<lparr>offset := offset m + nat len\<rparr>)
      else if type = 53 then
        res_bind (CWParseACECNSupport m len) (\<lambda>(x, m). Ret ((v\<lparr>jresp_ECNSupport := x\<rparr>, n4, n6), m))
      else Raise CW_ERROR_INVALID_FORMAT)"

text \<open>The second pass reads the control addresses, as in the Discovery Response.\<close>

definition CWParseJoinResponseMessage ::
  "memory \<Rightarrow> bool \<Rightarrow> CWProtocolJoinResponseValues \<Rightarrow> byte list \<Rightarrow> int \<Rightarrow> byte \<Rightarrow>
   CWProtocolJoinResponseValues res option" where
  "CWParseJoinResponseMessage mem le v bytes len expected =
     run_bind (Some (parse_message_header 4 bytes)) (\<lambda>(seq, elemsLen, m).
     if seq \<noteq> expected then Some (Raise CW_ERROR_INVALID_FORMAT)
     else run_bind (parse_elements (jresp_branch mem le) (offset m) elemsLen (v, 0, 0) m) (\<lambda>((v, n4, n6), m').
     if int (offset m') \<noteq> len then Some (Raise CW_ERROR_INVALID_FORMAT)
     else if \<not> malloc_ok mem (20 * int n4) then Some (Raise CW_ERROR_OUT_OF_MEMORY)
     else if 0 < n6 \<and> \<not> malloc_ok mem (32 * int n6) then Some (Raise CW_ERROR_OUT_OF_MEMORY)
     else run_bind (parse_elements (resp_read_branch mem le n4 n6) (offset m) elemsLen ([], []) m)
       (\<lambda>((v4, v6), m'). Some (Ret (v\<lparr> jresp_IPv4Addresses := v4, jresp_IPv6Addresses := v6 \<rparr>)))))"

subsection \<open>The parse functions return\<close>

lemma join_offsets:
  "CWParseLocationData mem m l = Ret (a, m') \<Longrightarrow> int (offset m') = int (offset m) + l"
  "CWParseWTPIPv4Address le m l = Ret (b, m') \<Longrightarrow> int (offset m') = int (offset m) + l"
  "CWParseWTPName mem m l = Ret (a, m') \<Longrightarrow> int (offset m') = int (offset m) + l"
  "CWParseWTPECNSupport m l = Ret (d, m') \<Longrightarrow> int (offset m') = int (offset m) + l"
  "CWParseACIPv4List mem m l = Ret (e, m') \<Longrightarrow> int (offset m') = int (offset m) + l"
  "CWParseACIPv6List mem m l = Ret (f, m') \<Longrightarrow> int (offset m') = int (offset m) + l"
  "CWParseResultCode m l = Ret (g, m') \<Longrightarrow> int (offset m') = int (offset m) + l"
  "CWParseACECNSupport m l = Ret (d, m') \<Longrightarrow> int (offset m') = int (offset m) + l"
  unfolding CWParseLocationData_def CWParseWTPIPv4Address_def CWParseWTPName_def CWParseWTPECNSupport_def
    CWParseACIPv4List_def CWParseACIPv6List_def CWParseResultCode_def CWParseACECNSupport_def
  by (fact framed_offset)+

lemma session_id_offset: "CWParseSessionID mem m l = Ret (a, m') \<Longrightarrow> offset m \<le> offset m'"
  by (auto simp: CWParseSessionID_def CWProtocolRetrieveRawBytes_def retrieve_def res_simps split: if_splits)

interpretation join: forward_branch "join_branch mem le" for mem le
  by unfold_locales
     (auto simp: join_branch_def join_radio_def Let_def res_simps split: if_splits
       dest!: join_offsets discovery_offsets session_id_offset)

interpretation jresp: forward_branch "jresp_branch mem le" for mem le
  by unfold_locales
     (auto simp: jresp_branch_def Let_def res_simps split: if_splits prod.splits
       dest!: join_offsets discovery_offsets radio_from_ac_offset)

lemma join_parsers_return:
  "CWParseJoinRequestMessage mem le v bytes len \<noteq> None"
  "CWParseJoinResponseMessage mem le u bytes len seq \<noteq> None"
  by (auto simp: CWParseJoinRequestMessage_def CWParseJoinResponseMessage_def run_bind_None_iff
      join.elements_end jresp.elements_end resp_read.elements_end
      simp del: not_None_eq split: prod.splits if_splits)

subsection \<open>The request arrives\<close>

interpretation location_data: msg_elem_exchange 28 "\<lambda>w. length (gWTPLocation w) < 65536" gWTPLocation
    "\<lambda>w. Some (gWTPLocation w)" CWAssembleMsgElemLocationData CWParseLocationData
  by unfold_locales (auto simp: CWAssembleMsgElemLocationData_def CWParseLocationData_def parse_frame wire)

interpretation wtp_name: msg_elem_exchange 45 "\<lambda>w. length (gWTPName w) < 65536" gWTPName
    "\<lambda>w. Some (gWTPName w)" CWAssembleMsgElemWTPName CWParseWTPName
  by unfold_locales (auto simp: CWAssembleMsgElemWTPName_def CWParseWTPName_def parse_frame wire)

interpretation wtp_ipv4: msg_elem_exchange 30 "\<lambda>_. True" "\<lambda>w. be32 (CWWTPGetIPv4Address w)"
    "\<lambda>w. be32 (CWWTPGetIPv4Address w)" CWAssembleMsgElemWTPIPv4Address "\<lambda>mem. CWParseWTPIPv4Address le" for le
  by unfold_locales (auto simp: CWAssembleMsgElemWTPIPv4Address_def CWParseWTPIPv4Address_def parse_frame wire)

interpretation ecn_wtp: msg_elem_exchange 53 "\<lambda>_. True" "\<lambda>w. [word_of_int (gWTPECNSupport w)]"
    "\<lambda>w. gWTPECNSupport w mod 256" CWAssembleMsgElemECNSupport_WTP "\<lambda>mem. CWParseWTPECNSupport"
  by unfold_locales
     (auto simp: CWAssembleMsgElemECNSupport_WTP_def CWParseWTPECNSupport_def parse_frame wire field_values)

text \<open>One step of the loop for each element.\<close>

lemma join_steps:
  assumes "ample mem" "int (length bs) - int start < len"
  shows "length (gWTPLocation w) < 65536 \<Longrightarrow>
      parse_elements (join_branch mem le) start len v (rmsg bs (elem_bytes 28 (gWTPLocation w) @ rest) x) =
      parse_elements (join_branch mem le) start len (v\<lparr>join_location := Some (Some (gWTPLocation w))\<rparr>)
        (rmsg (bs @ elem_bytes 28 (gWTPLocation w)) rest x)"
    and "junk_ok junk \<Longrightarrow>
      parse_elements (join_branch mem le) start len v (rmsg bs (elem_bytes 38 (board_body le' junk) @ rest) x) =
      parse_elements (join_branch mem le) start len (v\<lparr>join_boardData := Some (board_infos le' junk)\<rparr>)
        (rmsg (bs @ elem_bytes 38 (board_body le' junk)) rest x)"
    and "junk_ok junk \<Longrightarrow>
      parse_elements (join_branch mem le) start len v (rmsg bs (elem_bytes 39 (descriptor_body le' junk w) @ rest) x) =
      parse_elements (join_branch mem le) start len (v\<lparr>join_descriptor := descriptor_view le' junk w\<rparr>)
        (rmsg (bs @ elem_bytes 39 (descriptor_body le' junk w)) rest x)"
    and "parse_elements (join_branch mem le) start len v
        (rmsg bs (elem_bytes 30 (be32 (CWWTPGetIPv4Address w)) @ rest) x) =
      parse_elements (join_branch mem le) start len (v\<lparr>join_addr := be32 (CWWTPGetIPv4Address w)\<rparr>)
        (rmsg (bs @ elem_bytes 30 (be32 (CWWTPGetIPv4Address w))) rest x)"
    and "length (gWTPName w) < 65536 \<Longrightarrow>
      parse_elements (join_branch mem le) start len v (rmsg bs (elem_bytes 45 (gWTPName w) @ rest) x) =
      parse_elements (join_branch mem le) start len (v\<lparr>join_name := Some (Some (gWTPName w))\<rparr>)
        (rmsg (bs @ elem_bytes 45 (gWTPName w)) rest x)"
    and "length sid = 16 \<Longrightarrow>
      parse_elements (join_branch mem le) start len v (rmsg bs (elem_bytes 35 sid @ rest) x) =
      parse_elements (join_branch mem le) start len (v\<lparr>join_sessionID := Some (Some sid)\<rparr>)
        (rmsg (bs @ elem_bytes 35 sid) rest x)"
    and "parse_elements (join_branch mem le) start len v (rmsg bs (elem_bytes 41 [8] @ rest) x) =
      parse_elements (join_branch mem le) start len (v\<lparr>join_frameTunnelMode := 8\<rparr>)
        (rmsg (bs @ elem_bytes 41 [8]) rest x)"
    and "parse_elements (join_branch mem le) start len v (rmsg bs (elem_bytes 44 [1] @ rest) x) =
      parse_elements (join_branch mem le) start len (v\<lparr>join_MACType := 1\<rparr>)
        (rmsg (bs @ elem_bytes 44 [1]) rest x)"
    and "parse_elements (join_branch mem le) start len v
        (rmsg bs (elem_bytes 53 [word_of_int (gWTPECNSupport w)] @ rest) x) =
      parse_elements (join_branch mem le) start len (v\<lparr>join_ECNSupport := gWTPECNSupport w mod 256\<rparr>)
        (rmsg (bs @ elem_bytes 53 [word_of_int (gWTPECNSupport w)]) rest x)"
  using location_data.parse_elements_exchange [OF assms(1) _ assms(2), where branch = "join_branch mem le"
      and v = w and s = v and upd = "\<lambda>x. v\<lparr>join_location := Some x\<rparr>"]
    board_data.parse_elements_exchange [OF assms(1) _ assms(2), where branch = "join_branch mem le" and le' = le
      and le = le' and junk = junk and s = v and upd = "\<lambda>x. v\<lparr>join_boardData := Some x\<rparr>"]
    wtp_descriptor.parse_elements_exchange [OF assms(1) _ assms(2), where branch = "join_branch mem le"
      and le' = le and le = le' and junk = junk and enc = "encCapabilities (join_descriptor v)" and v = w and s = v
      and upd = "\<lambda>x. v\<lparr>join_descriptor := x\<rparr>"]
    wtp_ipv4.parse_elements_exchange [OF assms(1) TrueI assms(2), where branch = "join_branch mem le" and le = le
      and v = w and s = v and upd = "\<lambda>x. v\<lparr>join_addr := x\<rparr>"]
    wtp_name.parse_elements_exchange [OF assms(1) _ assms(2), where branch = "join_branch mem le"
      and v = w and s = v and upd = "\<lambda>x. v\<lparr>join_name := Some x\<rparr>"]
    session_id.parse_elements_exchange [OF assms(1) _ assms(2), where branch = "join_branch mem le"
      and v = "Some sid" and s = v and upd = "\<lambda>x. v\<lparr>join_sessionID := Some x\<rparr>"]
    tunnel_mode.parse_elements_exchange [OF assms(1) TrueI assms(2), where branch = "join_branch mem le"
      and s = v and upd = "\<lambda>x. v\<lparr>join_frameTunnelMode := x\<rparr>"]
    mac_type.parse_elements_exchange [OF assms(1) TrueI assms(2), where branch = "join_branch mem le"
      and s = v and upd = "\<lambda>x. v\<lparr>join_MACType := x\<rparr>"]
    ecn_wtp.parse_elements_exchange [OF assms(1) TrueI assms(2), where branch = "join_branch mem le"
      and v = w and s = v and upd = "\<lambda>x. v\<lparr>join_ECNSupport := x\<rparr>"]
  by (simp_all add: join_branch_def board_body_def descriptor_body_def descriptor_view_def)

text \<open>The radios, as far as the array goes.\<close>

abbreviation phy_view :: "int \<times> byte \<Rightarrow> int \<times> byte" where
  "phy_view rp \<equiv> (fst rp mod 256, snd rp)"

abbreviation radios_bytes :: "(int \<times> byte) list \<Rightarrow> byte list" where
  "radios_bytes phys \<equiv> concat (map (\<lambda>rp. elem_bytes 1048 (radio_body rp)) phys)"

lemma length_radios_bytes [simp]: "length (radios_bytes phys) = 9 * length phys"
  by (simp add: length_concat comp_def sum_list_triv)

lemma join_step_radio:
  assumes "ample mem" "int (length bs) - int start < len" "join_numPhyActive v < 5"
  shows "parse_elements (join_branch mem le) start len v (rmsg bs (elem_bytes 1048 (radio_body rp) @ rest) x) =
    parse_elements (join_branch mem le) start len
      (v\<lparr> join_singlePhyInfo := (join_singlePhyInfo v)[join_numPhyActive v := phy_view rp],
          join_numPhyActive := Suc (join_numPhyActive v) \<rparr>)
      (rmsg (bs @ elem_bytes 1048 (radio_body rp)) rest x)"
  using radio_information.parse_elements_exchange [OF assms(1) TrueI assms(2), where branch = "join_branch mem le"
      and v = rp and s = v and upd = "\<lambda>x. v\<lparr> join_singlePhyInfo := (join_singlePhyInfo v)[join_numPhyActive v := x],
          join_numPhyActive := Suc (join_numPhyActive v) \<rparr>"] assms(3)
  by (simp add: join_branch_def join_radio_def Let_def split_def)

abbreviation join_elements ::
  "bool \<Rightarrow> (nat \<Rightarrow> byte list) \<Rightarrow> (nat \<Rightarrow> byte list) \<Rightarrow> (int \<times> byte) list \<Rightarrow> byte list \<Rightarrow> wtp_globals \<Rightarrow> byte list" where
  "join_elements le junkb junkd phys sid w \<equiv>
     elem_bytes 28 (gWTPLocation w) @ elem_bytes 38 (board_body le junkb) @
     elem_bytes 39 (descriptor_body le junkd w) @ elem_bytes 30 (be32 (CWWTPGetIPv4Address w)) @
     elem_bytes 45 (gWTPName w) @ elem_bytes 35 sid @ elem_bytes 41 [8] @ elem_bytes 44 [1] @
     elem_bytes 53 [word_of_int (gWTPECNSupport w)] @ radios_bytes phys"

lemma join_length:
  assumes "junk_ok junkb" "junk_ok junkd" "length sid = 16"
  shows "length (join_elements le junkb junkd phys sid w) =
    length (gWTPLocation w) + length (gWTPName w) + 141 + 9 * length phys"
  using description_lengths assms by simp

definition join_messages ::
  "bool \<Rightarrow> (nat \<Rightarrow> byte list) \<Rightarrow> (nat \<Rightarrow> byte list) \<Rightarrow> (int \<times> byte) list \<Rightarrow> byte list \<Rightarrow> wtp_globals \<Rightarrow>
   CWProtocolMessage list" where
  "join_messages le junkb junkd phys sid w =
     [elem_msg 28 (gWTPLocation w), elem_msg 38 (board_body le junkb), elem_msg 39 (descriptor_body le junkd w),
      elem_msg 30 (be32 (CWWTPGetIPv4Address w)), elem_msg 45 (gWTPName w), elem_msg 35 sid, elem_msg 41 [8],
      elem_msg 44 [1], elem_msg 53 [word_of_int (gWTPECNSupport w)]] @
     map (\<lambda>rp. elem_msg 1048 (radio_body rp)) phys"

lemma join_messages_bytes:
  "message_elements (join_messages le junkb junkd phys sid w @ replicate n no_message) =
   join_elements le junkb junkd phys sid w"
  by (simp add: join_messages_def message_elements_def comp_def)

lemma assemble_join_request:
  assumes "ample mem" "junk_ok junkb" "junk_ok junkd" "length sid = 16"
    and "length (gWTPLocation w) < 65536" "length (gWTPName w) < 65536"
  shows "CWAssembleJoinRequest mem mac fid garbage le junkb junkd phys sid w PMTU seq =
    (if 1 < length phys then Fault
     else CWAssembleMessage mem mac fid garbage PMTU seq 3
       (join_messages le junkb junkd phys sid w @ replicate (1 - length phys) no_message) [] 0)"
proof -
  let ?es = "join_messages le junkb junkd phys sid w"
  have r: "map (\<lambda>(r, p). CWAssembleMsgElemWTPRadioInformation mem r p) phys =
      map Ret (map (\<lambda>rp. elem_msg 1048 (radio_body rp)) phys)"
    using radio_information.assemble_law [OF assms(1) TrueI] by (auto simp: split_def)
  have sid: "CWAssembleMsgElemSessionID mem sid = Ret (elem_msg 35 sid)"
    using session_id.assemble_law [OF assms(1), of "Some sid"] assms(4) by simp
  have "CWAssembleJoinRequest mem mac fid garbage le junkb junkd phys sid w PMTU seq =
      res_bind (fill_elements 10 (map Ret ?es)) (\<lambda>es. CWAssembleMessage mem mac fid garbage PMTU seq 3 es [] 0)"
    using location_data.assemble_law [OF assms(1,5)] wtp_name.assemble_law [OF assms(1,6)]
      wtp_ipv4.assemble_law [OF assms(1) TrueI, of w] ecn_wtp.assemble_law [OF assms(1) TrueI, of w]
      tunnel_mode.assemble_law [OF assms(1) TrueI] mac_type.assemble_law [OF assms(1) TrueI]
      board_data.assemble_law [OF assms(1,2), where le = le]
      wtp_descriptor.assemble_law [OF assms(1,3), where le = le and v = w] assms(1) sid
    by (simp add: CWAssembleJoinRequest_def ample_malloc board_body_def descriptor_body_def r join_messages_def
        del: map_map)
  then show ?thesis unfolding fill_elements_Ret by (auto simp: join_messages_def)
qed

text \<open>What the AC makes of the request; \<open>v\<close> is what its structure held.\<close>

definition join_view ::
  "bool \<Rightarrow> (nat \<Rightarrow> byte list) \<Rightarrow> (nat \<Rightarrow> byte list) \<Rightarrow> (int \<times> byte) list \<Rightarrow> byte list \<Rightarrow> wtp_globals \<Rightarrow>
   CWProtocolJoinRequestValues" where
  "join_view le junkb junkd phys sid w =
     \<lparr> join_location = Some (Some (gWTPLocation w)), join_name = Some (Some (gWTPName w)),
       join_boardData = Some (board_infos le junkb), join_sessionID = Some (Some sid),
       join_descriptor = descriptor_view le junkd w, join_addr = be32 (CWWTPGetIPv4Address w),
       join_frameTunnelMode = 8, join_MACType = 1, join_ECNSupport = gWTPECNSupport w mod 256,
       join_numPhyActive = length phys,
       join_singlePhyInfo = map phy_view phys @ replicate (5 - length phys) (0, 0) \<rparr>"

lemma parse_join_fixed:
  assumes "ample mem" "junk_ok junkb" "junk_ok junkd" "length sid = 16"
    and "length (gWTPLocation w) < 65536" "length (gWTPName w) < 65536"
    and "int (length (join_elements le' junkb junkd [] sid w)) \<le> len"
  shows "parse_elements (join_branch mem le) (length bs) len v
      (rmsg bs (join_elements le' junkb junkd [] sid w @ rest) x) =
    parse_elements (join_branch mem le) (length bs) len
      (v\<lparr> join_location := Some (Some (gWTPLocation w)), join_boardData := Some (board_infos le' junkb),
          join_descriptor := descriptor_view le' junkd w, join_addr := be32 (CWWTPGetIPv4Address w),
          join_name := Some (Some (gWTPName w)), join_sessionID := Some (Some sid), join_frameTunnelMode := 8,
          join_MACType := 1, join_ECNSupport := gWTPECNSupport w mod 256 \<rparr>)
      (rmsg (bs @ join_elements le' junkb junkd [] sid w) rest x)"
proof -
  note steps = join_steps [OF assms(1)] description_lengths
  have len: "int (length (gWTPLocation w)) + int (length (gWTPName w)) + 141 \<le> len"
    using join_length [OF assms(2-4), where le = le' and phys = "[]" and w = w] assms(7) by simp
  show ?thesis using assms(2-6) len by (simp add: steps)
qed

lemma parse_join_elements:
  assumes "ample mem" "junk_ok junkb" "junk_ok junkd" "length sid = 16" "length phys \<le> 1"
    and "length (gWTPLocation w) < 65536" "length (gWTPName w) < 65536"
    and "len = int (length (join_elements le' junkb junkd phys sid w))"
  shows "parse_elements (join_branch mem le) (length bs) len
      (v\<lparr> join_numPhyActive := 0, join_singlePhyInfo := replicate 5 (0, 0) \<rparr>)
      (rmsg bs (join_elements le' junkb junkd phys sid w @ junk) x) =
    Some (Ret (join_view le' junkb junkd phys sid w, rmsg (bs @ join_elements le' junkb junkd phys sid w) junk x))"
proof -
  define f where "f = join_elements le' junkb junkd [] sid w"
  define u where "u = (join_view le' junkb junkd [] sid w)"
  have e: "join_elements le' junkb junkd phys sid w = f @ radios_bytes phys" by (simp add: f_def)
  have len: "len = int (length f) + 9 * int (length phys)" unfolding assms(8) e by simp
  have u: "join_numPhyActive u = 0" "join_singlePhyInfo u = replicate 5 (0, 0)" by (simp_all add: u_def join_view_def)
  have 1: "parse_elements (join_branch mem le) (length bs) len
      (v\<lparr> join_numPhyActive := 0, join_singlePhyInfo := replicate 5 (0, 0) \<rparr>)
      (rmsg bs (f @ radios_bytes phys @ junk) x) =
    parse_elements (join_branch mem le) (length bs) len u (rmsg (bs @ f) (radios_bytes phys @ junk) x)"
  proof -
    have "(v\<lparr> join_numPhyActive := 0, join_singlePhyInfo := replicate 5 (0, 0) \<rparr>)
        \<lparr> join_location := Some (Some (gWTPLocation w)), join_boardData := Some (board_infos le' junkb),
          join_descriptor := descriptor_view le' junkd w, join_addr := be32 (CWWTPGetIPv4Address w),
          join_name := Some (Some (gWTPName w)), join_sessionID := Some (Some sid), join_frameTunnelMode := 8,
          join_MACType := 1, join_ECNSupport := gWTPECNSupport w mod 256 \<rparr> = u"
      unfolding u_def join_view_def
      by (cases v) (simp add: eval_nat_numeral)
    moreover have "int (length f) \<le> len" using len by simp
    ultimately show ?thesis
      using parse_join_fixed [OF assms(1-4,6,7), of le' len le bs
        "v\<lparr> join_numPhyActive := 0, join_singlePhyInfo := replicate 5 (0, 0) \<rparr>" "radios_bytes phys @ junk" x]
      unfolding f_def [symmetric] by (simp only:)
  qed
  consider "phys = []" | rp where "phys = [rp]" using assms(5) by (cases phys) auto
  then have "parse_elements (join_branch mem le) (length bs) len u (rmsg (bs @ f) (radios_bytes phys @ junk) x) =
      Some (Ret (join_view le' junkb junkd phys sid w, rmsg (bs @ f @ radios_bytes phys) junk x))"
  proof cases
    case 1
    then show ?thesis using len by (simp add: parse_elements_end u_def)
  next
    case 2
    have "u\<lparr> join_singlePhyInfo := (join_singlePhyInfo u)[0 := phy_view rp], join_numPhyActive := 1 \<rparr> =
        join_view le' junkb junkd [rp] sid w"
      by (simp add: u_def join_view_def eval_nat_numeral)
    then show ?thesis using len u join_step_radio [OF assms(1), of "bs @ f" "length bs" len u le rp junk x] 2
      by (simp add: parse_elements_end)
  qed
  with 1 show ?thesis unfolding e by simp
qed

lemma parse_join_request:
  assumes "ample mem" "junk_ok junkb" "junk_ok junkd" "length sid = 16" "length phys \<le> 1"
    and "length (gWTPLocation w) + length (gWTPName w) < 65000"
    and "e = join_elements le' junkb junkd phys sid w"
  shows "CWParseJoinRequestMessage mem le v (message_header seq 3 (length e) @ e @ junk) (int (8 + length e)) =
    Some (Ret (seq, join_view le' junkb junkd phys sid w))"
proof -
  have l: "length e < 65536" using join_length [OF assms(2-4), where le = le' and phys = phys and w = w] assms(5-7) by simp
  have "parse_elements (join_branch mem le) (length bs) (int (length e))
      (v\<lparr> join_numPhyActive := 0, join_singlePhyInfo := replicate 5 (0, 0) \<rparr>) (rmsg bs (e @ junk) x) =
    Some (Ret (join_view le' junkb junkd phys sid w, rmsg (bs @ e) junk x))" for bs x
    using assms(5,6) unfolding assms(7) by (intro parse_join_elements [OF assms(1-5) _ _ refl]) simp_all
  from this [of "message_header seq 3 (length e)" None] show ?thesis
    using assms(1) l by (simp add: CWParseJoinRequestMessage_def ample_malloc parse_message_header_eq)
qed

lemma join_request_delivered:
  assumes "ample mem" "junk_ok junkb" "junk_ok junkd" "length sid = 16" "mac_room mac_ptr" "0 \<le> fid" "fid < 65536"
    and "length (gWTPLocation w) + length (gWTPName w) < 65000"
    and "n = control_fragments PMTU (149 + length (gWTPLocation w) + length (gWTPName w) + 9 * length phys)"
    and "insert j (set js) = {..<n}" "j \<notin> set js" "length phys \<le> 1"
  shows "\<exists>pkts mac' m. CWAssembleJoinRequest mem mac fid garbage le junkb junkd phys sid w PMTU seq = Ret pkts \<and>
    length pkts = n \<and>
    receive_all mem (map (\<lambda>i. received (contents (pkts ! i)) (junk i)) (js @ [j])) [] mac_ptr =
      Some (replicate (length js) (Raise CW_ERROR_NEED_RESOURCE) @ [Ret m], [], mac') \<and>
    CWParseJoinRequestMessage mem le' v (msg m) (int (offset m)) = Some (Ret (seq, join_view le junkb junkd phys sid w))"
proof -
  have name: "length (gWTPLocation w) < 65536" "length (gWTPName w) < 65536" using assms(8) by simp_all
  note asm = assemble_join_request [OF assms(1-4) name, of mac fid garbage le phys PMTU seq]
  let ?es = "join_messages le junkb junkd phys sid w @ replicate (1 - length phys) no_message"
  define e where "e = join_elements le junkb junkd phys sid w"
  let ?body = "message_header seq 3 (length e) @ e"
  have body: "?body = message_bytes seq 3 ?es []"
    unfolding message_bytes_eq join_messages_bytes e_def [symmetric] ..
  have len: "length ?body = 149 + length (gWTPLocation w) + length (gWTPName w) + 9 * length phys"
    using join_length [OF assms(2-4), where le = le and phys = phys and w = w]
    unfolding length_append length_message_header e_def [symmetric] by simp
  have wf: "list_all well_formed ?es" by (auto simp: list_all_iff join_messages_def)
  have l: "length ?body \<le> 65536" unfolding len using assms(8,12) by simp
  obtain pkts mac' where "CWAssembleMessage mem mac fid garbage PMTU seq 3 ?es [] 0 = Ret pkts"
    "length pkts = n" "receive_all mem (map (\<lambda>i. received (contents (pkts ! i)) (junk i)) (js @ [j])) [] mac_ptr =
       Some (replicate (length js) (Raise CW_ERROR_NEED_RESOURCE) @ [Ret (amsg None ?body 0)], [], mac')"
    using message_delivered [OF assms(1) wf assms(5) body l assms(6,7) _ assms(10,11), of PMTU mac garbage 0 junk]
    unfolding len assms(9) by blast
  moreover have "CWParseJoinRequestMessage mem le' v (msg (amsg None ?body 0)) (int (offset (amsg None ?body 0))) =
      Some (Ret (seq, join_view le junkb junkd phys sid w))"
    using parse_join_request [OF assms(1-4,12,8) e_def, of le' v seq "[]"] by (simp add: amsg_def wmsg_def)
  ultimately show ?thesis using asm assms(12) by auto
qed

text \<open>
  The Join Request of a WTP with at most one radio, cut into fragments that arrive in any order and
  any number of times, tells the AC everything: location, name, board data, descriptor, address,
  session identifier, tunnel mode and MAC type, ECN support and the radio, whatever the AC's structure held
  before. A WTP with more radios writes past the array of its message elements. The AC's parse function
  returns whatever bytes it is given.
\<close>

theorem join_request_exchange:
  assumes "ample mem" "junk_ok junkb" "junk_ok junkd" "length sid = 16" "mac_room mac_ptr" "0 \<le> fid" "fid < 65536"
    and "length (gWTPLocation w) + length (gWTPName w) < 65000"
    and "n = control_fragments PMTU (149 + length (gWTPLocation w) + length (gWTPName w) + 9 * length phys)"
    and "insert j (set js) = {..<n}" "j \<notin> set js"
  shows "(if 1 < length phys
      then CWAssembleJoinRequest mem mac fid garbage le junkb junkd phys sid w PMTU seq = Fault
      else \<exists>pkts mac' m. CWAssembleJoinRequest mem mac fid garbage le junkb junkd phys sid w PMTU seq = Ret pkts \<and>
        length pkts = n \<and>
        receive_all mem (map (\<lambda>i. received (contents (pkts ! i)) (junk i)) (js @ [j])) [] mac_ptr =
          Some (replicate (length js) (Raise CW_ERROR_NEED_RESOURCE) @ [Ret m], [], mac') \<and>
        CWParseJoinRequestMessage mem le' v (msg m) (int (offset m)) =
        Some (Ret (seq, \<lparr> join_location = Some (Some (gWTPLocation w)), join_name = Some (Some (gWTPName w)),
          join_boardData = Some (board_infos le junkb), join_sessionID = Some (Some sid),
          join_descriptor = descriptor_view le junkd w, join_addr = be32 (CWWTPGetIPv4Address w),
          join_frameTunnelMode = 8, join_MACType = 1, join_ECNSupport = gWTPECNSupport w mod 256,
          join_numPhyActive = length phys,
          join_singlePhyInfo = map (\<lambda>(r, p). (r mod 256, p)) phys @ replicate (5 - length phys) (0, 0) \<rparr>))) \<and>
    CWParseJoinRequestMessage mem le' v any_bytes any_len \<noteq> None"
proof -
  have name: "length (gWTPLocation w) < 65536" "length (gWTPName w) < 65536" using assms(8) by simp_all
  note asm = assemble_join_request [OF assms(1-4) name, of mac fid garbage le phys PMTU seq]
  have v: "join_view le junkb junkd phys sid w = \<lparr> join_location = Some (Some (gWTPLocation w)),
      join_name = Some (Some (gWTPName w)), join_boardData = Some (board_infos le junkb),
      join_sessionID = Some (Some sid), join_descriptor = descriptor_view le junkd w,
      join_addr = be32 (CWWTPGetIPv4Address w), join_frameTunnelMode = 8, join_MACType = 1,
      join_ECNSupport = gWTPECNSupport w mod 256, join_numPhyActive = length phys,
      join_singlePhyInfo = map (\<lambda>(r, p). (r mod 256, p)) phys @ replicate (5 - length phys) (0, 0) \<rparr>"
    by (simp add: join_view_def split_def)
  show ?thesis
    using asm join_request_delivered [OF assms, of mac garbage le seq junk le' v]
      join_parsers_return(1) [of mem le' v any_bytes any_len]
    unfolding v by (cases "1 < length phys") auto
qed

theorem join_request_exchange_witness:
  "\<exists>pkts mac' m.
     CWAssembleJoinRequest (\<lambda>_. True) no_mac 7 0 True (\<lambda>_. [1, 2, 3, 4]) (\<lambda>_. [5, 6, 7, 8]) [(257, 12)]
       (replicate 16 9) ex_wtp 100 4 = Ret pkts \<and> length pkts = 3 \<and>
     receive_all (\<lambda>_. True) (map (\<lambda>i. received (contents (pkts ! i)) []) [2, 1, 1, 0]) [] None =
       Some (replicate 3 (Raise CW_ERROR_NEED_RESOURCE) @ [Ret m], [], mac') \<and>
     (\<exists>v. CWParseJoinRequestMessage (\<lambda>_. True) True (join_view True (\<lambda>_. []) (\<lambda>_. []) [] [] ex_wtp)
         (msg m) (int (offset m)) = Some (Ret (4, v)) \<and>
       join_name v = Some (Some [87]) \<and> join_sessionID v = Some (Some (replicate 16 9)) \<and>
       join_singlePhyInfo v = [(1, 12), (0, 0), (0, 0), (0, 0), (0, 0)])"
proof -
  have n: "3 = control_fragments 100 (149 + length (gWTPLocation ex_wtp) + length (gWTPName ex_wtp) +
      9 * length [(257 :: int, 12 :: byte)])"
    by (simp add: ex_wtp_def control_fragments_def control_pmtu_def fragment_payload_def fragments_num_def)
  have all: "insert 0 (set [2, 1, 1]) = {..<3 :: nat}" by auto
  have m: "mac_room None" by (simp add: mac_room_def)
  have l: "length (gWTPLocation ex_wtp) + length (gWTPName ex_wtp) < 65000" by (simp add: ex_wtp_def)
  show ?thesis
    using conjunct1 [OF join_request_exchange [OF ample_all _ _ _ m _ _ l n all,
      of "\<lambda>_. [1, 2, 3, 4]" "\<lambda>_. [5, 6, 7, 8]" "replicate 16 9" 7 no_mac 0 True 4 "\<lambda>_. []" True
        "join_view True (\<lambda>_. []) (\<lambda>_. []) [] [] ex_wtp"]]
    by (auto simp: ex_wtp_def eval_nat_numeral)
qed

subsection \<open>The response arrives\<close>

lemma fill_elements_overflow:
  "\<lbrakk>n < length es; \<forall>e \<in> set es. (\<exists>m. e = Ret m) \<or> e = Fault\<rbrakk> \<Longrightarrow> fill_elements n es = Fault"
proof (induction n es rule: fill_elements.induct)
  case (3 n e es)
  then show ?case by (auto simp: res_simps)
qed auto

abbreviation local_body :: "ac_globals \<Rightarrow> byte list" where
  "local_body ac \<equiv> be32 (CWACGetInterfaceIPv4AddressAtIndex ac 0)"

abbreviation phys_of_radios :: "int \<Rightarrow> CWWTPRadioInfoValues list \<Rightarrow> (int \<times> byte) list" where
  "phys_of_radios n radios \<equiv>
     map (\<lambda>i. (phy_radioID (gWTPPhyInfo (radios ! i)), phy_standardValue (gWTPPhyInfo (radios ! i)))) [0..<nat n]"

abbreviation jresp_elements :: "ac_globals \<Rightarrow> int \<Rightarrow> CWWTPRadioInfoValues list \<Rightarrow> 32 word \<Rightarrow> byte list" where
  "jresp_elements ac n radios code \<equiv>
     elem_bytes 1 (ac_descriptor_body ac) @ elem_bytes 4 (gACName ac) @
     elem_bytes 53 [word_of_int (gACECNSupport ac)] @ elem_bytes 30 (local_body ac) @
     addresses_bytes ac [0..<length (gInterfaces ac)] @ radios_bytes (phys_of_radios n radios) @
     elem_bytes 33 (be32 code)"

definition jresp_messages ::
  "ac_globals \<Rightarrow> int \<Rightarrow> CWWTPRadioInfoValues list \<Rightarrow> 32 word \<Rightarrow> CWProtocolMessage list" where
  "jresp_messages ac n radios code =
     [elem_msg 1 (ac_descriptor_body ac), elem_msg 4 (gACName ac), elem_msg 53 [word_of_int (gACECNSupport ac)],
      elem_msg 30 (local_body ac), wmsg (addresses_bytes ac [0..<length (gInterfaces ac)]) 0] @
     map (\<lambda>rp. elem_msg 1048 (radio_body rp)) (phys_of_radios n radios) @ [elem_msg 33 (be32 code)]"

lemma jresp_messages_bytes:
  "message_elements (jresp_messages ac n radios code @ replicate k no_message) = jresp_elements ac n radios code"
  by (simp add: jresp_messages_def message_elements_def comp_def del: ac_descriptor_body.simps)

lemma assemble_join_response:
  assumes "ample mem" "gInterfaces ac \<noteq> []" "length (gACName ac) < 65536"
  shows "CWAssembleJoinResponse mem mac fid garbage le ac PMTU seq [(33, code)] n radios =
    (if 1 < n \<or> int (length radios) < n then Fault
     else CWAssembleMessage mem mac fid garbage PMTU seq 4
       (jresp_messages ac n radios (word_of_int code) @ replicate (1 - nat n) no_message) [] 0)"
proof -
  let ?radio = "\<lambda>i. if length radios \<le> i then Fault
    else let p = gWTPPhyInfo (radios ! i) in
      CWAssembleMsgElemACWTPRadioInformation mem (phy_radioID p) (phy_standardValue p)"
  let ?pre = "[elem_msg 1 (ac_descriptor_body ac), elem_msg 4 (gACName ac), elem_msg 53 [word_of_int (gACECNSupport ac)],
      elem_msg 30 (local_body ac), wmsg (addresses_bytes ac [0..<length (gInterfaces ac)]) 0]"
  have r: "?radio i = (if length radios \<le> i then Fault else Ret (elem_msg 1048
      (radio_body (phy_radioID (gWTPPhyInfo (radios ! i)), phy_standardValue (gWTPPhyInfo (radios ! i))))))" for i
    using radio_information_ac.assemble_law [OF assms(1) TrueI,
        of "(phy_radioID (gWTPPhyInfo (radios ! i)), phy_standardValue (gWTPPhyInfo (radios ! i)))"]
    by (simp add: Let_def)
  have loc: "CWAssembleMsgElemCWLocalIPv4Addresses mem ac = Ret (elem_msg 30 (local_body ac))"
    using assms(1,2) by (simp add: CWAssembleMsgElemCWLocalIPv4Addresses_def wire)
  have e: "CWAssembleJoinResponse mem mac fid garbage le ac PMTU seq [(33, code)] n radios =
      res_bind (fill_elements 7 (map Ret ?pre @ map ?radio [0..<nat n] @ [Ret (elem_msg 33 (be32 (word_of_int code)))]))
        (\<lambda>es. CWAssembleMessage mem mac fid garbage PMTU seq 4 es [] 0)"
    using assms ac_descriptor.assemble_law [OF assms(1) TrueI, where le = le and v = ac]
      ac_name.assemble_law [OF assms(1,3)] ecn_ac.assemble_law [OF assms(1) TrueI, of ac]
      control_IPv4_addresses_eq [OF assms(1,2)] CWAssembleMsgElemResultCode_eq [OF assms(1)] loc
    by (simp add: CWAssembleJoinResponse_def ample_malloc join_response_elem_def join_response_known_def
        del: ac_descriptor_body.simps)
  show ?thesis
  proof (cases "1 < n \<or> int (length radios) < n")
    case True
    let ?all = "map Ret ?pre @ map ?radio [0..<nat n] @ [Ret (elem_msg 33 (be32 (word_of_int code)))]"
    have f: "\<forall>e \<in> set ?all. (\<exists>m. e = Ret m) \<or> e = Fault" unfolding r by auto
    have "fill_elements 7 ?all = Fault"
    proof (cases "1 < n")
      case True
      then have "7 < length ?all" by simp
      then show ?thesis using f by (rule fill_elements_overflow)
    next
      case False
      then have "length radios = 0" "n = 1" using True by linarith+
      then show ?thesis unfolding r by (simp add: eval_nat_numeral)
    qed
    then show ?thesis using e True by simp
  next
    case False
    let ?es = "jresp_messages ac n radios (word_of_int code)"
    have m: "map ?radio [0..<nat n] = map Ret (map (\<lambda>rp. elem_msg 1048 (radio_body rp)) (phys_of_radios n radios))"
      unfolding r using False by auto
    have "map Ret ?pre @ map ?radio [0..<nat n] @ [Ret (elem_msg 33 (be32 (word_of_int code)))] = map Ret ?es"
      unfolding m by (simp add: jresp_messages_def del: ac_descriptor_body.simps)
    moreover have "length ?es = 6 + nat n" by (simp add: jresp_messages_def)
    ultimately show ?thesis using e False by (simp only: fill_elements_Ret) auto
  qed
qed

abbreviation no_lists :: "CWProtocolJoinResponseValues \<Rightarrow> CWProtocolJoinResponseValues" where
  "no_lists v \<equiv> v\<lparr> jresp_IPv4List := [], jresp_IPv6List := [] \<rparr>"

lemma jresp_steps:
  assumes "ample mem" "int (length bs) - int start < len"
  shows "parse_elements (jresp_branch mem le) start len (v, n4, n6)
        (rmsg bs (elem_bytes 1 (ac_descriptor_body ac) @ rest) x) =
      parse_elements (jresp_branch mem le) start len ((no_lists v)\<lparr>jresp_info := ac_descriptor_view le ac\<rparr>, n4, n6)
        (rmsg (bs @ elem_bytes 1 (ac_descriptor_body ac)) rest x)"
    and "length (gACName ac) < 65536 \<Longrightarrow>
      parse_elements (jresp_branch mem le) start len (v, n4, n6) (rmsg bs (elem_bytes 4 (gACName ac) @ rest) x) =
      parse_elements (jresp_branch mem le) start len ((no_lists v)\<lparr>jresp_name := Some (Some (gACName ac))\<rparr>, n4, n6)
        (rmsg (bs @ elem_bytes 4 (gACName ac)) rest x)"
    and "parse_elements (jresp_branch mem le) start len (v, n4, n6)
        (rmsg bs (elem_bytes 53 [word_of_int (gACECNSupport ac)] @ rest) x) =
      parse_elements (jresp_branch mem le) start len
        ((no_lists v)\<lparr>jresp_ECNSupport := gACECNSupport ac mod 256\<rparr>, n4, n6)
        (rmsg (bs @ elem_bytes 53 [word_of_int (gACECNSupport ac)]) rest x)"
    and "parse_elements (jresp_branch mem le) start len (v, n4, n6) (rmsg bs (elem_bytes 30 (local_body ac) @ rest) x) =
      parse_elements (jresp_branch mem le) start len (no_lists v, n4, n6)
        (rmsg (bs @ elem_bytes 30 (local_body ac)) rest x)"
    and "parse_elements (jresp_branch mem le) start len (v, n4, n6)
        (rmsg bs (elem_bytes 10 (address_body ac j) @ rest) x) =
      parse_elements (jresp_branch mem le) start len (no_lists v, Suc n4, n6)
        (rmsg (bs @ elem_bytes 10 (address_body ac j)) rest x)"
    and "parse_elements (jresp_branch mem le) start len (v, n4, n6)
        (rmsg bs (elem_bytes 1048 (radio_body rp) @ rest) x) =
      parse_elements (jresp_branch mem le) start len (no_lists v, n4, n6)
        (rmsg (bs @ elem_bytes 1048 (radio_body rp)) rest x)"
    and "parse_elements (jresp_branch mem le) start len (v, n4, n6) (rmsg bs (elem_bytes 33 (be32 code) @ rest) x) =
      parse_elements (jresp_branch mem le) start len ((no_lists v)\<lparr>jresp_code := code\<rparr>, n4, n6)
        (rmsg (bs @ elem_bytes 33 (be32 code)) rest x)"
  using ac_descriptor.parse_elements_exchange [OF assms(1) TrueI assms(2), where branch = "jresp_branch mem le"
      and le' = le and v = ac and s = "(v, n4, n6)" and upd = "\<lambda>x. ((no_lists v)\<lparr>jresp_info := x\<rparr>, n4, n6)"]
    ac_name.parse_elements_exchange [OF assms(1) _ assms(2), where branch = "jresp_branch mem le"
      and v = ac and s = "(v, n4, n6)" and upd = "\<lambda>x. ((no_lists v)\<lparr>jresp_name := Some x\<rparr>, n4, n6)"]
    ecn_ac.parse_elements_exchange [OF assms(1) TrueI assms(2), where branch = "jresp_branch mem le"
      and v = ac and s = "(v, n4, n6)" and upd = "\<lambda>x. ((no_lists v)\<lparr>jresp_ECNSupport := x\<rparr>, n4, n6)"]
    radio_information_ac.parse_elements_exchange [OF assms(1) TrueI assms(2), where branch = "jresp_branch mem le"
      and v = rp and s = "(v, n4, n6)" and upd = "\<lambda>_. (no_lists v, n4, n6)"]
    result_code.parse_elements_exchange [OF assms(1) TrueI assms(2), where branch = "jresp_branch mem le"
      and v = code and s = "(v, n4, n6)" and upd = "\<lambda>x. ((no_lists v)\<lparr>jresp_code := x\<rparr>, n4, n6)"]
    parse_elements_skip [OF assms(2), of "local_body ac" "jresp_branch mem le" "(v, n4, n6)" 30 "(no_lists v, n4, n6)"]
    parse_elements_skip [OF assms(2), of "address_body ac j" "jresp_branch mem le" "(v, n4, n6)" 10
      "(no_lists v, Suc n4, n6)"]
  by (simp_all add: jresp_branch_def Let_def split_def del: ac_descriptor_body.simps ac_descriptor_view.simps)

lemma jresp_addresses:
  assumes "ample mem" "int (length bs) - int start + 10 * int (length is) \<le> len" "is \<noteq> []"
  shows "parse_elements (jresp_branch mem le) start len (v, n4, n6) (rmsg bs (addresses_bytes ac is @ rest) x) =
    parse_elements (jresp_branch mem le) start len (no_lists v, n4 + length is, n6)
      (rmsg (bs @ addresses_bytes ac is) rest x)"
  using assms(2,3)
proof (induction "is" arbitrary: bs n4 v)
  case (Cons j "is")
  then show ?case
    using jresp_steps(5) [OF assms(1), of bs start len le v n4 n6 ac j "addresses_bytes ac is @ rest" x]
      Cons.IH [of "bs @ elem_bytes 10 (address_body ac j)" "no_lists v" "Suc n4"] by (cases "is = []") simp_all
qed simp

lemma jresp_radios:
  assumes "ample mem" "int (length bs) - int start + 9 * int (length phys) \<le> len"
    and "jresp_IPv4List v = []" "jresp_IPv6List v = []"
  shows "parse_elements (jresp_branch mem le) start len (v, n4, n6) (rmsg bs (radios_bytes phys @ rest) x) =
    parse_elements (jresp_branch mem le) start len (v, n4, n6) (rmsg (bs @ radios_bytes phys) rest x)"
  using assms(2)
proof (induction phys arbitrary: bs)
  case (Cons rp phys)
  have "no_lists v = v" using assms(3,4) by simp
  then show ?case
    using Cons.prems jresp_steps(6) [OF assms(1), of bs start len le v n4 n6 rp "radios_bytes phys @ rest" x]
      Cons.IH [of "bs @ elem_bytes 1048 (radio_body rp)"] by simp
qed simp

lemma read_radios:
  assumes "ample mem" "int (length bs) - int start + 9 * int (length phys) \<le> len"
  shows "parse_elements (resp_read_branch mem le n4 n6) start len vs (rmsg bs (radios_bytes phys @ rest) x) =
    parse_elements (resp_read_branch mem le n4 n6) start len vs (rmsg (bs @ radios_bytes phys) rest x)"
  using assms(2)
proof (induction phys arbitrary: bs)
  case (Cons rp phys)
  then show ?case
    using resp_read_steps(1) [OF assms(1), of bs start len 1048 "radio_body rp" le n4 n6 vs "radios_bytes phys @ rest" x]
      Cons.IH [of "bs @ elem_bytes 1048 (radio_body rp)"] by simp
qed simp

text \<open>What the WTP makes of the response; \<open>v\<close> is what its structure held.\<close>

definition jresp_view :: "bool \<Rightarrow> ac_globals \<Rightarrow> 32 word \<Rightarrow> CWProtocolJoinResponseValues" where
  "jresp_view le ac code =
     \<lparr> jresp_info = ac_descriptor_view le ac, jresp_name = Some (Some (gACName ac)), jresp_code = code,
       jresp_IPv4List = [], jresp_IPv6List = [],
       jresp_IPv4Addresses = map (address_view ac) [0..<length (gInterfaces ac)], jresp_IPv6Addresses = [],
       jresp_ECNSupport = gACECNSupport ac mod 256 \<rparr>"

lemma jresp_length:
  "length (jresp_elements ac n radios code) =
   65 + length (gACName ac) + 10 * length (gInterfaces ac) + 9 * nat n"
proof -
  have "length (ac_descriptor_body ac) = 36" by (simp add: info_bytes_def)
  then show ?thesis by (simp del: ac_descriptor_body.simps map_map)
qed

lemma parse_jresp_first:
  assumes "ample mem" "gInterfaces ac \<noteq> []" "length (gACName ac) < 65536"
    and "e = jresp_elements ac n radios code" "len = int (length e)"
  shows "\<exists>u. parse_elements (jresp_branch mem le) (length bs) len (v, 0, 0) (rmsg bs (e @ junk) x) =
      Some (Ret ((u, length (gInterfaces ac), 0), rmsg (bs @ e) junk x)) \<and>
    u\<lparr> jresp_IPv4Addresses := map (address_view ac) [0..<length (gInterfaces ac)], jresp_IPv6Addresses := [] \<rparr> =
      jresp_view le ac code"
proof -
  let ?k = "length (gInterfaces ac)" and ?run = "parse_elements (jresp_branch mem le) (length bs) len"
  define d m c l a r t where "d = elem_bytes 1 (ac_descriptor_body ac)" and "m = elem_bytes 4 (gACName ac)"
    and "c = elem_bytes 53 [word_of_int (gACECNSupport ac)]" and "l = elem_bytes 30 (local_body ac)"
    and "a = addresses_bytes ac [0..<?k]" and "r = radios_bytes (phys_of_radios n radios)"
    and "t = elem_bytes 33 (be32 code)"
  note parts = d_def m_def c_def l_def a_def r_def t_def
  have "length (ac_descriptor_body ac) = 36" by (simp add: info_bytes_def)
  then have lens: "length d = 40" "length m = 4 + length (gACName ac)" "length c = 5" "length l = 8"
      "length a = 10 * ?k" "length r = 9 * nat n" "length t = 8"
    by (simp_all add: parts del: ac_descriptor_body.simps map_map)
  have e: "e = d @ m @ c @ l @ a @ r @ t" unfolding assms(4) parts ..
  have len: "len = int (length d) + (int (length m) + (int (length c) + (int (length l) + (int (length a) +
      (int (length r) + int (length t))))))" unfolding assms(5) e by simp
  define v1 v2 v3 v4 where "v1 = (no_lists v)\<lparr>jresp_info := ac_descriptor_view le ac\<rparr>"
    and "v2 = (no_lists v1)\<lparr>jresp_name := Some (Some (gACName ac))\<rparr>"
    and "v3 = (no_lists v2)\<lparr>jresp_ECNSupport := gACECNSupport ac mod 256\<rparr>" and "v4 = no_lists v3"
  let ?u = "(no_lists v4)\<lparr>jresp_code := code\<rparr>"
  have "?run (v, 0, 0) (rmsg bs (d @ (m @ c @ l @ a @ r @ t @ junk)) x) =
      ?run (v1, 0, 0) (rmsg (bs @ d) (m @ c @ l @ a @ r @ t @ junk) x)"
    unfolding d_def v1_def by (rule jresp_steps(1) [OF assms(1)]) (use len lens in simp)
  also have "\<dots> = ?run (v2, 0, 0) (rmsg ((bs @ d) @ m) (c @ l @ a @ r @ t @ junk) x)"
    unfolding m_def v2_def by (rule jresp_steps(2) [OF assms(1) _ assms(3)]) (use len lens in simp)
  also have "\<dots> = ?run (v3, 0, 0) (rmsg (((bs @ d) @ m) @ c) (l @ a @ r @ t @ junk) x)"
    unfolding c_def v3_def by (rule jresp_steps(3) [OF assms(1)]) (use len lens in simp)
  also have "\<dots> = ?run (v4, 0, 0) (rmsg ((((bs @ d) @ m) @ c) @ l) (a @ r @ t @ junk) x)"
    unfolding l_def v4_def by (rule jresp_steps(4) [OF assms(1)]) (use len lens in simp)
  also have "\<dots> = ?run (no_lists v4, 0 + length [0..<?k], 0) (rmsg (((((bs @ d) @ m) @ c) @ l) @ a) (r @ t @ junk) x)"
    unfolding a_def by (rule jresp_addresses [OF assms(1)]) (use len lens assms(2) in simp_all)
  also have "\<dots> = ?run (no_lists v4, 0 + length [0..<?k], 0)
      (rmsg ((((((bs @ d) @ m) @ c) @ l) @ a) @ r) (t @ junk) x)"
    unfolding r_def by (rule jresp_radios [OF assms(1)]) (use len lens in simp_all)
  also have "\<dots> = ?run ((no_lists (no_lists v4))\<lparr>jresp_code := code\<rparr>, 0 + length [0..<?k], 0)
      (rmsg (((((((bs @ d) @ m) @ c) @ l) @ a) @ r) @ t) junk x)"
    unfolding t_def by (rule jresp_steps(7) [OF assms(1)]) (use len lens in simp)
  also have "\<dots> = Some (Ret ((?u, ?k, 0), rmsg (bs @ e) junk x))"
    by (subst parse_elements_end) (use len in \<open>simp_all add: e\<close>)
  finally show ?thesis
    by (intro exI [of _ ?u] conjI) (simp_all add: e v1_def v2_def v3_def v4_def jresp_view_def)
qed

lemma parse_jresp_second:
  assumes "ample mem" "length (gACName ac) < 65536"
    and "e = jresp_elements ac n radios code" "len = int (length e)" "k = length (gInterfaces ac)"
  shows "parse_elements (resp_read_branch mem le k 0) (length bs) len ([], []) (rmsg bs (e @ junk) x) =
    Some (Ret ((map (address_view ac) [0..<k], []), rmsg (bs @ e) junk x))"
proof -
  let ?run = "parse_elements (resp_read_branch mem le k 0) (length bs) len"
  define d m c l a r t where "d = elem_bytes 1 (ac_descriptor_body ac)" and "m = elem_bytes 4 (gACName ac)"
    and "c = elem_bytes 53 [word_of_int (gACECNSupport ac)]" and "l = elem_bytes 30 (local_body ac)"
    and "a = addresses_bytes ac [0..<k]" and "r = radios_bytes (phys_of_radios n radios)"
    and "t = elem_bytes 33 (be32 code)"
  note parts = d_def m_def c_def l_def a_def r_def t_def
  have b: "length (ac_descriptor_body ac) = 36" by (simp add: info_bytes_def)
  then have lens: "length d = 40" "length m = 4 + length (gACName ac)" "length c = 5" "length l = 8"
      "length a = 10 * k" "length r = 9 * nat n" "length t = 8"
    by (simp_all add: parts del: ac_descriptor_body.simps map_map)
  have e: "e = d @ m @ c @ l @ a @ r @ t" unfolding assms(3,5) parts ..
  have len: "len = int (length d) + (int (length m) + (int (length c) + (int (length l) + (int (length a) +
      (int (length r) + int (length t))))))" unfolding assms(4) e by simp
  have skip: "?run vs (rmsg (bs @ bs') (elem_bytes ty body @ rest) x) = ?run vs (rmsg (bs @ bs' @ elem_bytes ty body) rest x)"
    if "ucast ty \<noteq> (10 :: 16 word)" "ucast ty \<noteq> (11 :: 16 word)" "length body < 65536" "int (length bs') < len"
    for vs bs' ty body rest
    using resp_read_steps(1) [OF assms(1), of "bs @ bs'" "length bs" len ty body le k 0 vs rest x] that by simp
  have "?run ([], []) (rmsg bs (d @ (m @ c @ l @ a @ r @ t @ junk)) x) =
      ?run ([], []) (rmsg (bs @ [] @ d) (m @ c @ l @ a @ r @ t @ junk) x)"
    using skip [of 1 "ac_descriptor_body ac" "[]" "([], [])"] len lens b unfolding d_def
    by (simp del: ac_descriptor_body.simps)
  also have "\<dots> = ?run ([], []) (rmsg (bs @ ([] @ d) @ m) (c @ l @ a @ r @ t @ junk) x)"
    unfolding m_def by (rule skip) (use len lens assms(2) in simp_all)
  also have "\<dots> = ?run ([], []) (rmsg (bs @ (([] @ d) @ m) @ c) (l @ a @ r @ t @ junk) x)"
    unfolding c_def by (rule skip) (use len lens in simp_all)
  also have "\<dots> = ?run ([], []) (rmsg (bs @ ((([] @ d) @ m) @ c) @ l) (a @ r @ t @ junk) x)"
    unfolding l_def by (rule skip) (use len lens in simp_all)
  also have "\<dots> = ?run ([] @ map (address_view ac) [0..<k], [])
      (rmsg ((bs @ ((([] @ d) @ m) @ c) @ l) @ a) (r @ t @ junk) x)"
    unfolding a_def by (rule read_addresses [OF assms(1)]) (use len lens in simp_all)
  also have "\<dots> = ?run ([] @ map (address_view ac) [0..<k], [])
      (rmsg (((bs @ ((([] @ d) @ m) @ c) @ l) @ a) @ r) (t @ junk) x)"
    unfolding r_def by (rule read_radios [OF assms(1)]) (use len lens in simp_all)
  also have "\<dots> = ?run ([] @ map (address_view ac) [0..<k], [])
      (rmsg (bs @ (d @ m @ c @ l @ a @ r) @ t) junk x)"
    using skip [of 33 "be32 code" "d @ m @ c @ l @ a @ r" "([] @ map (address_view ac) [0..<k], [])" junk] len lens
    unfolding t_def by simp
  also have "\<dots> = Some (Ret ((map (address_view ac) [0..<k], []), rmsg (bs @ e) junk x))"
    by (subst parse_elements_end) (use len in \<open>simp_all add: e\<close>)
  finally show ?thesis by (simp add: e)
qed

lemma parse_join_response:
  assumes "ample mem" "gInterfaces ac \<noteq> []" "n \<le> 1"
    and "length (gACName ac) + 10 * length (gInterfaces ac) < 65000" "e = jresp_elements ac n radios code"
  shows "CWParseJoinResponseMessage mem le v (message_header seq 4 (length e) @ e @ junk) (int (8 + length e)) expected =
    Some (if seq = expected then Ret (jresp_view le ac code) else Raise CW_ERROR_INVALID_FORMAT)"
proof -
  let ?h = "message_header seq 4 (length e)"
  have l: "length e < 65536" unfolding assms(5) jresp_length using assms(3,4) by simp
  have name: "length (gACName ac) < 65536" using assms(4) by simp
  obtain u where u: "parse_elements (jresp_branch mem le) 8 (int (length e)) (v, 0, 0) (rmsg ?h (e @ junk) None) =
      Some (Ret ((u, length (gInterfaces ac), 0), rmsg (?h @ e) junk None))"
    "u\<lparr> jresp_IPv4Addresses := map (address_view ac) [0..<length (gInterfaces ac)], jresp_IPv6Addresses := [] \<rparr> =
      jresp_view le ac code"
    using parse_jresp_first [OF assms(1,2) name assms(5) refl, of le ?h v junk None] by auto
  have "parse_elements (resp_read_branch mem le (length (gInterfaces ac)) 0) 8 (int (length e)) ([], [])
      (rmsg ?h (e @ junk) None) =
      Some (Ret ((map (address_view ac) [0..<length (gInterfaces ac)], []), rmsg (?h @ e) junk None))"
    using parse_jresp_second [OF assms(1) name assms(5) refl refl, of le ?h junk None] by simp
  with u show ?thesis
    using assms(1) l
    by (cases "seq = expected"; clarsimp simp: CWParseJoinResponseMessage_def ample_malloc parse_message_header_eq)
qed

end
