(* ===== verification/ErrorHandling.thy ===== *)
theory ErrorHandling
  imports Prelude
begin

section \<open>The last error of a thread: CWErrorHandling.c\<close>

text \<open>
  Every thread keeps the error it raised last; a function that fails returns \<^verbatim>\<open>CW_FALSE\<close>, and usually has raised
  one. The caller asks for the code, or has the error handled. Handling an error is not harmless: it is taken for a
  success when the code says that there was none, it ends the thread when there was no memory, and the process when the
  thread has never raised an error.
\<close>

text \<open>\<open>None\<close>: the thread has raised no error yet.\<close>

type_synonym last_error = "CWErrorCode option"

text \<open>\<open>Raise CW_ERROR_NONE\<close> is a failure without an error of its own: the thread's last error stays.\<close>

definition CWErrorRaise :: "last_error \<Rightarrow> CWErrorCode \<Rightarrow> last_error" where
  "CWErrorRaise old e = (if e = CW_ERROR_NONE then old else Some e)"

definition CWErrorGetLastErrorCode :: "last_error \<Rightarrow> CWErrorCode" where
  "CWErrorGetLastErrorCode old = (case old of None \<Rightarrow> CW_ERROR_GENERAL | Some e \<Rightarrow> e)"

text \<open>What \<^verbatim>\<open>CWErrorHandleLast\<close> does: it returns true or false, or ends the thread or the process.\<close>

datatype handled = HandledTrue | HandledFalse | ThreadExits | ProcessExits

definition CWErrorHandleLast :: "last_error \<Rightarrow> handled" where
  "CWErrorHandleLast old =
     (case old of
        None \<Rightarrow> ProcessExits
      | Some e \<Rightarrow>
          if e = CW_ERROR_SUCCESS \<or> e = CW_ERROR_NONE then HandledTrue
          else if e = CW_ERROR_OUT_OF_MEMORY then ThreadExits
          else HandledFalse)"

text \<open>The macro \<^verbatim>\<open>CWErr\<close>: true without a look at the last error when the function succeeded.\<close>

definition CWErr :: "last_error \<Rightarrow> unit res \<Rightarrow> handled res" where
  "CWErr old r =
     (case r of
        Ret _ \<Rightarrow> Ret HandledTrue
      | Raise e \<Rightarrow> Ret (CWErrorHandleLast (CWErrorRaise old e))
      | Fault \<Rightarrow> Fault)"

text \<open>
  \<^verbatim>\<open>if(!CWErr(f)) CWCloseThread();\<close> as the result of the handler it stands in: the thread closes itself, which is what it
  does for any other error, unless \<open>CWErr\<close> takes the failure for a success or ends the thread or the process itself.
\<close>

definition or_close_thread :: "last_error \<Rightarrow> unit res \<Rightarrow> unit res" where
  "or_close_thread old r =
     (case CWErr old r of
        Ret HandledTrue \<Rightarrow> Ret ()
      | Ret HandledFalse \<Rightarrow> Raise CW_ERROR_GENERAL
      | Ret ThreadExits \<Rightarrow> Raise CW_ERROR_OUT_OF_MEMORY
      | Ret ProcessExits \<Rightarrow> Raise CW_ERROR_NONE
      | _ \<Rightarrow> Fault)"

lemma or_close_thread_Ret [simp]: "or_close_thread old (Ret ()) = Ret ()"
  by (simp add: or_close_thread_def CWErr_def)

lemma or_close_thread_Fault [simp]: "or_close_thread old Fault = Fault"
  by (simp add: or_close_thread_def CWErr_def)

lemma handle_last_simps [simp]:
  "CWErrorHandleLast None = ProcessExits"
  "CWErrorHandleLast (Some CW_ERROR_SUCCESS) = HandledTrue"
  "CWErrorHandleLast (Some CW_ERROR_NONE) = HandledTrue"
  "CWErrorHandleLast (Some CW_ERROR_OUT_OF_MEMORY) = ThreadExits"
  "\<lbrakk>e \<noteq> CW_ERROR_SUCCESS; e \<noteq> CW_ERROR_NONE; e \<noteq> CW_ERROR_OUT_OF_MEMORY\<rbrakk> \<Longrightarrow>
    CWErrorHandleLast (Some e) = HandledFalse"
  by (simp_all add: CWErrorHandleLast_def)

lemma raise_simps [simp]:
  "CWErrorRaise old CW_ERROR_NONE = old"
  "e \<noteq> CW_ERROR_NONE \<Longrightarrow> CWErrorRaise old e = Some e"
  by (simp_all add: CWErrorRaise_def)

lemma handle_last_iff:
  "CWErrorHandleLast (Some e) = HandledTrue \<longleftrightarrow> e = CW_ERROR_SUCCESS \<or> e = CW_ERROR_NONE"
  "CWErrorHandleLast (Some e) = ThreadExits \<longleftrightarrow> e = CW_ERROR_OUT_OF_MEMORY"
  "CWErrorHandleLast (Some e) \<noteq> ProcessExits"
  by (auto simp: CWErrorHandleLast_def)

end
