(* ===== verification/DiscoveryState.thy ===== *)
theory DiscoveryState
  imports Discovery WTPRetransmission ErrorHandling
begin

section \<open>The Discovery and Sulking states of the WTP: WTPDiscoveryState.c, WTPSulkingState.c\<close>

text \<open>
  A WTP asks the ACs it was configured with, in up to ten rounds, and joins the first AC it has heard
  of; without one it sulks and starts again. The network is a list of the outcomes of
  \<^verbatim>\<open>CWNetworkTimedPollRead\<close> with the time that \<^verbatim>\<open>gettimeofday\<close> returns after each; the program waits
  for an outcome that is not in the list (\<open>None\<close>).
\<close>

subsection \<open>Time: CWCommon.c\<close>

definition CWTimevalSubtract :: "timeval \<Rightarrow> timeval \<Rightarrow> timeval \<times> bool" where
  "CWTimevalSubtract x y =
     (let z = (if tv_usec x < tv_usec y
               then let nsec = (tv_usec y - tv_usec x) div 1000000 + 1 in
                    \<lparr> tv_sec = tv_sec y + nsec, tv_usec = tv_usec y - 1000000 * nsec \<rparr>
               else y);
          z = (if tv_usec x - tv_usec z > 1000000
               then let nsec = (tv_usec x - tv_usec z) div 1000000 in
                    \<lparr> tv_sec = tv_sec z - nsec, tv_usec = tv_usec z + 1000000 * nsec \<rparr>
               else z)
      in (\<lparr> tv_sec = tv_sec x - tv_sec z, tv_usec = tv_usec x - tv_usec z \<rparr>,
          tv_sec x < tv_sec z \<or> tv_sec x = tv_sec z \<and> tv_usec x < tv_usec z))"

lemma CWTimevalSubtract_correct:
  assumes "tv_ok x" "tv_ok y"
  shows "tv_us (fst (CWTimevalSubtract x y)) = tv_us x - tv_us y"
    and "0 \<le> tv_usec (fst (CWTimevalSubtract x y))" "tv_usec (fst (CWTimevalSubtract x y)) < 1000000"
    and "snd (CWTimevalSubtract x y) \<longleftrightarrow> tv_us x < tv_us y"
  using assms by (auto simp: CWTimevalSubtract_def Let_def tv_us_def tv_ok_def)

subsection \<open>Choosing an AC\<close>

text \<open>
  What the program makes of a socket address: the family \<^verbatim>\<open>AF_UNSPEC\<close>, a port with an IPv4 address, or
  the two bytes of another family. The daemons are built without \<^verbatim>\<open>IPV6\<close>: the functions of
  \<^verbatim>\<open>CWStevens.c\<close> copy nothing of an IPv6 address but its family, and compare it with nothing.
\<close>

datatype net_address = Unspec | Inet "16 word" "byte list" | OtherFamily "byte list"

record wtp_ac_info =
  ac_response :: discovery_response
  incomingAddress :: net_address
  preferredAddress :: net_address

record wtp_discovery =
  acs :: "(bool \<times> int) list"
  gACInfoPtr :: "wtp_ac_info option"
  seqNum_counter :: int
  asked :: "(nat \<times> byte list) list"

definition CWGetSeqNum :: "int \<Rightarrow> int" where
  "CWGetSeqNum seq = (if seq = 255 then 0 else seq + 1)"

definition CWWTPEvaluateAC :: "wtp_ac_info \<Rightarrow> wtp_discovery \<Rightarrow> wtp_discovery" where
  "CWWTPEvaluateAC info st =
     (case gACInfoPtr st of None \<Rightarrow> st\<lparr>gACInfoPtr := Some info\<rparr> | Some _ \<Rightarrow> st)"

definition host16 :: "bool \<Rightarrow> 16 word \<Rightarrow> byte list" where
  "host16 le v = (if le then rev (be16 v) else be16 v)"

definition sockaddr_in :: "bool \<Rightarrow> byte list \<Rightarrow> byte list" where
  "sockaddr_in le a = host16 le 2 @ be16 5246 @ a @ replicate 8 0"

definition sockaddr_in6 :: "bool \<Rightarrow> byte list \<Rightarrow> byte list" where
  "sockaddr_in6 le a = host16 le 10 @ be16 5246 @ replicate 4 0 @ a @ replicate 4 0"

definition sock_cpy_addr_port :: "bool \<Rightarrow> byte list \<Rightarrow> net_address" where
  "sock_cpy_addr_port le b =
     (if take 2 b = host16 le 2 then Inet (of_be16 (take 2 (drop 2 b))) (take 4 (drop 4 b))
      else OtherFamily (take 2 b))"

definition sock_cmp_addr :: "bool \<Rightarrow> byte list \<Rightarrow> net_address \<Rightarrow> bool" where
  "sock_cmp_addr le a b \<longleftrightarrow>
     (case b of Inet port x \<Rightarrow> take 2 a = host16 le 2 \<and> take 4 (drop 4 a) = x | _ \<Rightarrow> False)"

text \<open>
  An interface of the AC is a structure with the number of WTPs in front of the address; it is the
  structure, not the address in it, that is compared with the address the response came from.
\<close>

definition interface_bytes :: "bool \<Rightarrow> byte list \<times> int \<Rightarrow> byte list" where
  "interface_bytes le i = int_bytes le (word_of_int (snd i)) @ sockaddr_in le (fst i)"

fun pick_least :: "(byte list \<times> int) list \<Rightarrow> int \<Rightarrow> byte list \<Rightarrow> byte list" where
  "pick_least [] best a = a"
| "pick_least (i # is) best a =
     (if snd i < best then pick_least is (snd i) (fst i) else pick_least is best a)"

definition pick_IPv4 :: "bool \<Rightarrow> wtp_ac_info \<Rightarrow> net_address" where
  "pick_IPv4 le info =
     (case IPv4Addresses (ac_response info) of
        [] \<Rightarrow> Unspec
      | i # is \<Rightarrow>
          if list_ex (\<lambda>i. sock_cmp_addr le (interface_bytes le i) (incomingAddress info)) is
          then sock_cpy_addr_port le (sockaddr_in le (pick_least is (snd i) (fst i)))
          else incomingAddress info)"

definition CWWTPPickACInterface :: "bool \<Rightarrow> CWNetworkFamily \<Rightarrow> wtp_ac_info \<Rightarrow> wtp_ac_info" where
  "CWWTPPickACInterface le family info = info\<lparr>preferredAddress :=
     (case family of
        CW_IPv4 \<Rightarrow> pick_IPv4 le info
      | CW_IPv6 \<Rightarrow>
          case IPv6Addresses (ac_response info) of
            [] \<Rightarrow> pick_IPv4 le info
          | i # is \<Rightarrow> sock_cpy_addr_port le (sockaddr_in6 le (pick_least is (snd i) (fst i))))\<rparr>"

subsection \<open>Reading responses\<close>

text \<open>A datagram: the buffer it is read into, its length and the sender's address.\<close>

datatype poll_event = PollFailed CWErrorCode | Readable "(byte list \<times> int \<times> byte list) res"

text \<open>The first AC whose request had the number of the response.\<close>

fun mark_received :: "int \<Rightarrow> (bool \<times> int) list \<Rightarrow> (bool \<times> int) list option" where
  "mark_received seq [] = None"
| "mark_received seq ((r, s) # as) =
     (if s = seq then Some ((True, s) # as) else map_option (Cons (r, s)) (mark_received seq as))"

text \<open>
  A failure \<open>e\<close> of a function under \<^verbatim>\<open>CWErr\<close>, and \<open>r\<close>, what the caller does when it is one for it. An error that ends
  the thread is \<open>Raise CW_ERROR_OUT_OF_MEMORY\<close> in the results of this theory; an error that counts for none makes the
  caller use what the function did not deliver. The last error before was the success of the poll.
\<close>

definition on_error :: "CWErrorCode \<Rightarrow> 'a res \<Rightarrow> 'a res" where
  "on_error e r =
     (case CWErrorHandleLast (CWErrorRaise (Some CW_ERROR_SUCCESS) e) of
        HandledFalse \<Rightarrow> r | ThreadExits \<Rightarrow> Raise CW_ERROR_OUT_OF_MEMORY | _ \<Rightarrow> Fault)"

text \<open>The result, the last error, and the state.\<close>

definition CWReceiveDiscoveryResponse ::
  "memory \<Rightarrow> bool \<Rightarrow> (byte list \<times> int \<times> byte list) res \<Rightarrow> wtp_discovery \<Rightarrow>
   (bool \<times> CWErrorCode \<times> wtp_discovery) res option" where
  "CWReceiveDiscoveryResponse mem le datagram st =
     (case datagram of
        Fault \<Rightarrow> Some Fault
      | Raise e \<Rightarrow> Some (on_error e (Ret (False, e, st)))
      | Ret (buf, readBytes, src) \<Rightarrow>
          if \<not> malloc_ok mem 376 then Some (Ret (False, CW_ERROR_OUT_OF_MEMORY, st))
          else case CWParseDiscoveryResponseMessage mem le buf readBytes of
            None \<Rightarrow> None
          | Some Fault \<Rightarrow> Some Fault
          | Some (Raise e) \<Rightarrow> Some (on_error e (Ret (False, CW_ERROR_INVALID_FORMAT, st)))
          | Some (Ret (seq, v)) \<Rightarrow>
              let st = CWWTPEvaluateAC \<lparr> ac_response = v, incomingAddress = sock_cpy_addr_port le src, preferredAddress = Unspec \<rparr> st in
              case mark_received (uint seq) (acs st) of
                None \<Rightarrow> Some (Ret (False, CW_ERROR_INVALID_FORMAT, st))
              | Some as \<Rightarrow> Some (Ret (True, CW_ERROR_SUCCESS, st\<lparr>acs := as\<rparr>)))"

text \<open>
  The interval of three seconds, from \<open>before\<close>: the result is that of the last response. An interruption
  or a response leaves what remains of the interval.
\<close>

abbreviation gCWDiscoveryInterval :: int where "gCWDiscoveryInterval \<equiv> 3"

definition time_over :: "timeval \<Rightarrow> timeval \<Rightarrow> int \<Rightarrow> bool" where
  "time_over before after secs =
     snd (CWTimevalSubtract \<lparr> tv_sec = secs, tv_usec = 0 \<rparr> (fst (CWTimevalSubtract after before)))"

fun read_responses ::
  "memory \<Rightarrow> bool \<Rightarrow> timeval \<Rightarrow> (poll_event \<times> timeval) list \<Rightarrow> bool \<Rightarrow> wtp_discovery \<Rightarrow>
   (bool \<times> CWErrorCode \<times> wtp_discovery) res option" where
  "read_responses mem le before [] result st = None"
| "read_responses mem le before ((PollFailed e, after) # es) result st =
     (if e = CW_ERROR_INTERRUPTED then
        if time_over before after gCWDiscoveryInterval then Some (Ret (result, e, st))
        else read_responses mem le before es result st
      else Some (Ret (result, e, st)))"
| "read_responses mem le before ((Readable d, after) # es) result st =
     run_bind (CWReceiveDiscoveryResponse mem le d st) (\<lambda>(result, e, st).
     if time_over before after gCWDiscoveryInterval then Some (Ret (result, e, st))
     else read_responses mem le before es result st)"

definition CWReadResponses ::
  "memory \<Rightarrow> bool \<Rightarrow> timeval \<Rightarrow> (poll_event \<times> timeval) list \<Rightarrow> wtp_discovery \<Rightarrow>
   (bool \<times> CWErrorCode \<times> wtp_discovery) res option" where
  "CWReadResponses mem le before es st = read_responses mem le before es False st"

subsection \<open>The Discovery state\<close>

datatype wtp_next = Next CWStateTransition | Exit

text \<open>
  One pass over the ACs: every AC that has not answered is asked, with a new sequence number. The
  request needs the address of the AC, for which the code uses \<^verbatim>\<open>gACInfoPtr\<close> and frees it.
\<close>

fun send_requests ::
  "memory \<Rightarrow> (byte \<Rightarrow> CWProtocolMessage list res) \<Rightarrow> nat list \<Rightarrow> bool \<Rightarrow> wtp_discovery \<Rightarrow>
   (wtp_next option \<times> bool \<times> wtp_discovery) res" where
  "send_requests mem request [] something st = Ret (None, something, st)"
| "send_requests mem request (i # is) something st =
     (if fst (acs st ! i) then send_requests mem request is something st
      else let seq = CWGetSeqNum (seqNum_counter st);
               st = st\<lparr>seqNum_counter := seq, acs := (acs st)[i := (fst (acs st ! i), seq)]\<rparr> in
        case request (word_of_int seq) of
          Fault \<Rightarrow> Fault
        | Raise e \<Rightarrow> on_error e (Ret (Some Exit, something, st))
        | Ret [] \<Rightarrow> Fault
        | Ret (p # _) \<Rightarrow>
            if \<not> malloc_ok mem 376 then Ret (Some (Next CW_QUIT), something, st\<lparr>gACInfoPtr := None\<rparr>)
            else send_requests mem request is True
                   (st\<lparr>gACInfoPtr := None, asked := asked st @ [(i, contents p)]\<rparr>))"

text \<open>The rounds: \<open>left\<close> of ten are left, and \<open>net\<close> has the events of each round.\<close>

abbreviation gCWMaxDiscoveries :: nat where "gCWMaxDiscoveries \<equiv> 10"

definition pick_and_join ::
  "bool \<Rightarrow> CWNetworkFamily \<Rightarrow> wtp_discovery \<Rightarrow> wtp_next \<times> wtp_discovery" where
  "pick_and_join le family st =
     (case gACInfoPtr st of
        None \<Rightarrow> (Next CW_ENTER_DISCOVERY, st)
      | Some info \<Rightarrow> (Next CW_ENTER_JOIN, st\<lparr>gACInfoPtr := Some (CWWTPPickACInterface le family info)\<rparr>))"

fun discovery_rounds ::
  "memory \<Rightarrow> bool \<Rightarrow> CWNetworkFamily \<Rightarrow> (byte \<Rightarrow> CWProtocolMessage list res) \<Rightarrow> nat \<Rightarrow>
   (timeval \<times> (poll_event \<times> timeval) list) list \<Rightarrow> wtp_discovery \<Rightarrow> (wtp_next \<times> wtp_discovery) res option" where
  "discovery_rounds mem le family request 0 net st = Some (Ret (Next CW_ENTER_SULKING, st))"
| "discovery_rounds mem le family request (Suc left) net st =
     run_bind (Some (send_requests mem request [0..<length (acs st)] False st)) (\<lambda>(stop, something, st).
     case stop of Some n \<Rightarrow> Some (Ret (n, st))
     | None \<Rightarrow>
         if \<not> something \<and> gACInfoPtr st \<noteq> None then Some (Ret (pick_and_join le family st))
         else case net of
           [] \<Rightarrow> None
         | (before, es) # net \<Rightarrow>
             run_bind (CWReadResponses mem le before es st) (\<lambda>(ok, e, st).
             let h = (if ok then HandledTrue else CWErrorHandleLast (Some e)) in
             if h = ThreadExits then Some (Raise CW_ERROR_OUT_OF_MEMORY)
             else if h = HandledTrue \<and> gACInfoPtr st \<noteq> None then Some (Ret (pick_and_join le family st))
             else discovery_rounds mem le family request left net st))"

definition CWWTPEnterDiscovery ::
  "memory \<Rightarrow> bool \<Rightarrow> CWNetworkFamily \<Rightarrow> bool \<Rightarrow> (byte \<Rightarrow> CWProtocolMessage list res) \<Rightarrow>
   (timeval \<times> (poll_event \<times> timeval) list) list \<Rightarrow> wtp_discovery \<Rightarrow> (wtp_next \<times> wtp_discovery) res option" where
  "CWWTPEnterDiscovery mem le family socket_ok request net st =
     (if \<not> socket_ok then Some (Ret (Next CW_QUIT, st))
      else discovery_rounds mem le family request gCWMaxDiscoveries net
             (st\<lparr>acs := map (\<lambda>(r, s). (False, s)) (acs st)\<rparr>))"

subsection \<open>The Sulking state\<close>

text \<open>Five seconds in which every datagram is read and thrown away.\<close>

abbreviation gCWSilentInterval :: int where "gCWSilentInterval \<equiv> 5"

fun CWWTPEnterSulking :: "timeval \<Rightarrow> (poll_event \<times> timeval) list \<Rightarrow> wtp_next res option" where
  "CWWTPEnterSulking before [] = None"
| "CWWTPEnterSulking before ((PollFailed e, after) # es) =
     (if e = CW_ERROR_INTERRUPTED then
        if time_over before after gCWSilentInterval then Some (Ret (Next CW_ENTER_DISCOVERY))
        else CWWTPEnterSulking before es
      else Some (Ret (Next CW_ENTER_DISCOVERY)))"
| "CWWTPEnterSulking before ((Readable d, after) # es) =
     (case d of
        Fault \<Rightarrow> Some Fault
      | Raise e \<Rightarrow> Some (on_error e (Ret (Next CW_QUIT)))
      | Ret _ \<Rightarrow>
          if time_over before after gCWSilentInterval then Some (Ret (Next CW_ENTER_DISCOVERY))
          else CWWTPEnterSulking before es)"

subsection \<open>The state is left\<close>

text \<open>Events that end: the last outcome is a timeout or an error that is no interruption.\<close>

fun ends :: "(poll_event \<times> timeval) list \<Rightarrow> bool" where
  "ends [] \<longleftrightarrow> False"
| "ends ((PollFailed e, t) # es) \<longleftrightarrow> e \<noteq> CW_ERROR_INTERRUPTED \<or> ends es"
| "ends ((Readable d, t) # es) \<longleftrightarrow> ends es"

fun silent :: "(poll_event \<times> timeval) list \<Rightarrow> bool" where
  "silent [] \<longleftrightarrow> True"
| "silent ((PollFailed e, t) # es) \<longleftrightarrow> silent es"
| "silent ((Readable d, t) # es) \<longleftrightarrow> False"

text \<open>A datagram that does no harm to the program that reads it: it is read or refused with an error.\<close>

fun harmless :: "memory \<Rightarrow> bool \<Rightarrow> poll_event \<Rightarrow> bool" where
  "harmless mem le (PollFailed e) \<longleftrightarrow> e \<noteq> CW_ERROR_OUT_OF_MEMORY"
| "harmless mem le (Readable d) \<longleftrightarrow>
     (case d of
        Fault \<Rightarrow> False
      | Raise e \<Rightarrow> CWErrorHandleLast (Some e) = HandledFalse
      | Ret (buf, n, src) \<Rightarrow>
          (case CWParseDiscoveryResponseMessage mem le buf n of
             Some (Ret _) \<Rightarrow> True
           | Some (Raise e) \<Rightarrow> CWErrorHandleLast (Some e) = HandledFalse
           | _ \<Rightarrow> False))"

lemma handled_false: "CWErrorHandleLast (Some e) = HandledFalse \<Longrightarrow> on_error e r = r"
  by (auto simp: on_error_def CWErrorHandleLast_def CWErrorRaise_def split: if_splits)

lemma receive_harmless:
  assumes "ample mem" "harmless mem le (Readable d)"
  shows "\<exists>ok e st'. CWReceiveDiscoveryResponse mem le d st = Some (Ret (ok, e, st')) \<and>
    (ok \<or> CWErrorHandleLast (Some e) = HandledFalse)"
proof (cases d)
  case (Ret x)
  obtain buf n src where x: "x = (buf, n, src)" by (cases x)
  from assms(2) consider seq v where "CWParseDiscoveryResponseMessage mem le buf n = Some (Ret (seq, v))"
    | e where "CWParseDiscoveryResponseMessage mem le buf n = Some (Raise e)" "CWErrorHandleLast (Some e) = HandledFalse"
    by (auto simp: Ret x split: option.splits res.splits)
  then show ?thesis unfolding Ret x
    by cases (auto simp: CWReceiveDiscoveryResponse_def Let_def ample_malloc [OF assms(1)] handled_false split: option.split)
next
  case (Raise e)
  then show ?thesis using assms(2) by (auto simp: CWReceiveDiscoveryResponse_def handled_false)
next
  case Fault
  then show ?thesis using assms(2) by simp
qed

lemma read_responses_harmless:
  "\<lbrakk>ample mem; ends es; \<forall>x \<in> set es. harmless mem le (fst x)\<rbrakk> \<Longrightarrow>
   \<exists>ok e st'. read_responses mem le before es result st = Some (Ret (ok, e, st')) \<and>
     (ok \<or> CWErrorHandleLast (Some e) \<noteq> ThreadExits)"
proof (induction es arbitrary: result st rule: ends.induct)
  case (2 e t es)
  then show ?case by (cases "e = CW_ERROR_INTERRUPTED") (auto simp: handle_last_iff)
next
  case (3 d t es)
  from 3(4) have "harmless mem le (Readable d)" by simp
  from receive_harmless [OF 3(2) this, of st] obtain ok e st' where
    r: "CWReceiveDiscoveryResponse mem le d st = Some (Ret (ok, e, st'))" "ok \<or> CWErrorHandleLast (Some e) = HandledFalse"
    by blast
  then show ?case using 3 by auto
qed simp

lemma read_responses_silent:
  "\<lbrakk>ends es; silent es\<rbrakk> \<Longrightarrow> \<exists>e. read_responses mem le before es result st = Some (Ret (result, e, st)) \<and>
     (e = CW_ERROR_INTERRUPTED \<or> e \<in> (\<lambda>x. case fst x of PollFailed e \<Rightarrow> e | Readable _ \<Rightarrow> CW_ERROR_NONE) ` set es)"
  by (induction es arbitrary: result st rule: ends.induct) auto

definition request_ok :: "(byte \<Rightarrow> CWProtocolMessage list res) \<Rightarrow> bool" where
  "request_ok request \<longleftrightarrow> (\<forall>s. \<exists>p ps. request s = Ret (p # ps))"

lemma keep_flag: "\<not> fst (xs ! i) \<Longrightarrow> fst (xs[i := (False, s)] ! k) = fst (xs ! k)"
  by (cases "k = i"; cases "k < length xs") (simp_all add: nth_list_update list_update_beyond)

lemma keep_flags: "\<not> fst (xs ! i) \<Longrightarrow> map fst (xs[i := (False, s)]) = map fst xs"
  by (intro nth_equalityI) (simp_all add: keep_flag)

lemma send_requests_ok:
  assumes "ample mem" "request_ok request"
  shows "\<exists>st'. send_requests mem request is something st =
      Ret (None, something \<or> (\<exists>i \<in> set is. \<not> fst (acs st ! i)), st') \<and>
    map fst (acs st') = map fst (acs st) \<and>
    map fst (asked st') = map fst (asked st) @ filter (\<lambda>i. \<not> fst (acs st ! i)) is \<and>
    gACInfoPtr st' = (if \<exists>i \<in> set is. \<not> fst (acs st ! i) then None else gACInfoPtr st)"
proof (induction "is" arbitrary: something st)
  case (Cons i "is")
  show ?case
  proof (cases "fst (acs st ! i)")
    case True
    then show ?thesis using Cons.IH [of something st] by auto
  next
    case False
    let ?seq = "CWGetSeqNum (seqNum_counter st)"
    obtain p ps where r: "request (word_of_int ?seq) = Ret (p # ps)"
      using assms(2) unfolding request_ok_def by blast
    let ?st = "st\<lparr>seqNum_counter := ?seq, acs := (acs st)[i := (fst (acs st ! i), ?seq)],
      gACInfoPtr := None, asked := asked st @ [(i, contents p)]\<rparr>"
    show ?thesis using Cons.IH [of True ?st] False r assms(1)
      by (auto simp: ample_malloc keep_flag keep_flags Let_def)
  qed
qed simp

lemma rounds_return:
  assumes "ample mem" "request_ok request"
  shows "\<lbrakk>left \<le> length net; \<forall>be \<in> set net. ends (snd be) \<and> (\<forall>x \<in> set (snd be). harmless mem le (fst x))\<rbrakk> \<Longrightarrow>
    \<exists>n st'. discovery_rounds mem le family request left net st = Some (Ret (n, st')) \<and>
      (n = Next CW_ENTER_SULKING \<or> n = Next CW_ENTER_JOIN \<and> gACInfoPtr st' \<noteq> None)"
proof (induction left arbitrary: net st)
  case (Suc left)
  have join: "\<exists>n st'. pick_and_join le family st = (n, st') \<and>
      (n = Next CW_ENTER_SULKING \<or> n = Next CW_ENTER_JOIN \<and> gACInfoPtr st' \<noteq> None)"
    if "gACInfoPtr st \<noteq> None" for st
    using that by (auto simp: pick_and_join_def)
  obtain before es net' where net: "net = (before, es) # net'" "left \<le> length net'" "ends es" "\<forall>x \<in> set es. harmless mem le (fst x)"
      "\<forall>be \<in> set net'. ends (snd be) \<and> (\<forall>x \<in> set (snd be). harmless mem le (fst x))"
    using Suc.prems by (cases net) auto
  obtain something st1 where s: "send_requests mem request [0..<length (acs st)] False st = Ret (None, something, st1)"
    using send_requests_ok [OF assms, of "[0..<length (acs st)]" False st] by blast
  obtain ok e st2 where q: "CWReadResponses mem le before es st1 = Some (Ret (ok, e, st2))"
      "ok \<or> CWErrorHandleLast (Some e) \<noteq> ThreadExits"
    using read_responses_harmless [OF assms(1) net(3,4)] unfolding CWReadResponses_def by blast
  show ?case
  proof (cases "\<not> something \<and> gACInfoPtr st1 \<noteq> None")
    case True
    then show ?thesis using join [of st1] s by auto
  next
    case False
    then show ?thesis using Suc.IH [OF net(2,5), of st2] join [of st2] s q net(1) by (auto simp: Let_def)
  qed
qed simp

lemma rounds_silent:
  assumes "ample mem" "request_ok request"
  shows "\<lbrakk>left \<le> length net; \<forall>be \<in> set net. ends (snd be) \<and> silent (snd be) \<and> (\<forall>x \<in> set (snd be). harmless mem le (fst x));
      acs st \<noteq> []; \<forall>a \<in> set (acs st). \<not> fst a\<rbrakk> \<Longrightarrow>
    \<exists>st'. discovery_rounds mem le family request left net st = Some (Ret (Next CW_ENTER_SULKING, st')) \<and>
      map fst (asked st') = map fst (asked st) @ concat (replicate left [0..<length (acs st)])"
proof (induction left arbitrary: net st)
  case (Suc left)
  obtain before es net' where net: "net = (before, es) # net'" "left \<le> length net'" "ends es" "silent es" "\<forall>x \<in> set es. harmless mem le (fst x)"
      "\<forall>be \<in> set net'. ends (snd be) \<and> silent (snd be) \<and> (\<forall>x \<in> set (snd be). harmless mem le (fst x))"
    using Suc.prems(1,2) by (cases net) auto
  have no: "\<not> fst (acs st ! i)" if "i < length (acs st)" for i using that Suc.prems(4) nth_mem by blast
  have n: "0 < length (acs st)" using Suc.prems(3) by simp
  then have ex: "\<exists>i \<in> set [0..<length (acs st)]. \<not> fst (acs st ! i)" using no by force
  have "filter (\<lambda>i. \<not> fst (acs st ! i)) [0..<length (acs st)] = [0..<length (acs st)]"
    using no by (intro filter_True) auto
  then obtain st1 where s: "send_requests mem request [0..<length (acs st)] False st = Ret (None, True, st1)"
      "map fst (acs st1) = map fst (acs st)" "map fst (asked st1) = map fst (asked st) @ [0..<length (acs st)]"
      "gACInfoPtr st1 = None"
    using send_requests_ok [OF assms, of "[0..<length (acs st)]" False st] ex by auto
  have l: "length (acs st1) = length (acs st)" using s(2) by (metis length_map)
  have "set (map fst (acs st1)) = set (map fst (acs st))" using s(2) by simp
  then have f: "\<forall>a \<in> set (acs st1). \<not> fst a" using Suc.prems(4) by force
  obtain e where r: "CWReadResponses mem le before es st1 = Some (Ret (False, e, st1))"
    using read_responses_silent [OF net(3,4)] unfolding CWReadResponses_def by blast
  have "False \<or> CWErrorHandleLast (Some e) \<noteq> ThreadExits"
    using read_responses_harmless [OF assms(1) net(3,5), of before False st1] r unfolding CWReadResponses_def by auto
  then have t: "CWErrorHandleLast (Some e) \<noteq> ThreadExits" by simp
  have "acs st1 \<noteq> []" using l n by force
  from Suc.IH [OF net(2,6) this f] show ?case using s r net(1) l t by (auto simp: Let_def)
qed simp

text \<open>
  C22: The Discovery state ends: within ten rounds, if every round's waiting ends and no datagram crashes the parser or is
  an error that ends the thread, the WTP goes on to the Join state, with an AC, or to the Sulking state. In a
  silent network it sulks after it has asked every AC, one after the other, ten times.
\<close>

theorem discovery_state_ends:
  assumes "ample mem" "request_ok request" "10 \<le> length net"
    and "\<forall>be \<in> set net. ends (snd be) \<and> (\<forall>x \<in> set (snd be). harmless mem le (fst x))"
  shows "(\<exists>n st'. CWWTPEnterDiscovery mem le family True request net st = Some (Ret (n, st')) \<and>
      (n = Next CW_ENTER_SULKING \<or> n = Next CW_ENTER_JOIN \<and> gACInfoPtr st' \<noteq> None)) \<and>
    (acs st \<noteq> [] \<and> (\<forall>be \<in> set net. silent (snd be)) \<longrightarrow>
      (\<exists>st'. CWWTPEnterDiscovery mem le family True request net st = Some (Ret (Next CW_ENTER_SULKING, st')) \<and>
        map fst (asked st') = map fst (asked st) @ concat (replicate 10 [0..<length (acs st)])))"
proof -
  let ?st = "st\<lparr>acs := map (\<lambda>(r, s). (False, s)) (acs st)\<rparr>"
  have u: "CWWTPEnterDiscovery mem le family True request net st = discovery_rounds mem le family request 10 net ?st"
    by (simp only: CWWTPEnterDiscovery_def not_True_eq_False if_False)
  have "\<exists>st'. discovery_rounds mem le family request 10 net ?st = Some (Ret (Next CW_ENTER_SULKING, st')) \<and>
      map fst (asked st') = map fst (asked ?st) @ concat (replicate 10 [0..<length (acs ?st)])"
    if "acs st \<noteq> []" "\<forall>be \<in> set net. silent (snd be)"
    by (rule rounds_silent [OF assms(1-3)]) (use that assms(4) in auto)
  then show ?thesis unfolding u using rounds_return [OF assms, of family ?st] by simp
qed

definition ex_request :: "byte \<Rightarrow> CWProtocolMessage list res" where
  "ex_request = CWAssembleDiscoveryRequest (\<lambda>_. True) no_mac 0 0 True (\<lambda>_. [0, 0, 0, 0]) (\<lambda>_. [0, 0, 0, 0]) [(1, 12)] ex_wtp"

lemma ex_request_ok: "request_ok ex_request"
  using assemble_discovery_request [OF ample_all, of "\<lambda>_. [0, 0, 0, 0]" "\<lambda>_. [0, 0, 0, 0]" no_mac 0 0 True "[(1, 12)]" ex_wtp]
  by (simp add: request_ok_def ex_request_def)

definition ex_discovery :: wtp_discovery where
  "ex_discovery = \<lparr> acs = [(True, 8), (False, 0)], gACInfoPtr = None, seqNum_counter = 254, asked = [] \<rparr>"

theorem discovery_state_ends_witness:
  "\<exists>st'. CWWTPEnterDiscovery (\<lambda>_. True) True CW_IPv4 True ex_request
      (replicate 10 (\<lparr> tv_sec = 7, tv_usec = 0 \<rparr>, [(PollFailed CW_ERROR_TIME_EXPIRED, \<lparr> tv_sec = 10, tv_usec = 0 \<rparr>)]))
      ex_discovery = Some (Ret (Next CW_ENTER_SULKING, st')) \<and>
    map fst (asked st') = concat (replicate 10 [0, 1])"
  using discovery_state_ends [OF ample_all ex_request_ok, of "replicate 10 (\<lparr> tv_sec = 7, tv_usec = 0 \<rparr>,
      [(PollFailed CW_ERROR_TIME_EXPIRED, \<lparr> tv_sec = 10, tv_usec = 0 \<rparr>)])" True CW_IPv4 ex_discovery]
  by (simp add: ex_discovery_def upt_rec)

subsection \<open>Whom the WTP joins\<close>














end
