(* ===== verification/JoinStates.thy ===== *)
theory JoinStates
  imports JoinMessages DiscoveryState
begin

section \<open>The Join state: ACJoinState.c and WTPJoinState.c\<close>

text \<open>
  What the AC stores of a Join Request, its handler of the request, and what the WTP stores of the
  response. A field the code reads although no element has set it is whatever the caller's structure
  or the heap held: an argument.
\<close>

subsection \<open>Identifiers: CWCommon.c\<close>

definition CWIEEEBindingGetIndexFromDevID :: "int \<Rightarrow> int" where
  "CWIEEEBindingGetIndexFromDevID devID = devID"

definition CWIEEEBindingGetDevFromIndexID :: "int \<Rightarrow> int" where
  "CWIEEEBindingGetDevFromIndexID indexID = (if indexID < 0 then -1 else indexID + 1)"

subsection \<open>Saving the request\<close>

text \<open>\<^verbatim>\<open>CWWTPProtocolManager\<close> without its radios and session identifier, which are in \<open>CWWTPManager\<close>.\<close>

record CWWTPProtocolManager =
  locationData :: "byte list option"
  pm_name :: "byte list option"
  pm_boardData :: "VendorInfoValues list option"
  pm_descriptor :: CWWTPDescriptor
  pm_ipv4Address :: "byte list"
  radioCount :: int
  pm_ACName :: "byte list option option"  \<comment> \<open>\<open>None\<close>: a pointer that was never set\<close>
  pm_ACNameIndex :: "(int \<times> byte list option) list"
  pm_radioAdminInfo :: "CWRadioAdminInfoValues list"
  pm_StatisticsTimer :: int
  pm_WTPRebootStatistics :: "WTPRebootStatisticsInfo option option"
  pm_qosValues :: "WTPQosValues list option"  \<comment> \<open>\<^verbatim>\<open>bindingValuesPtr\<close>\<close>

abbreviation WTP_MAX_INTERFACES :: nat where "WTP_MAX_INTERFACES \<equiv> 1"
abbreviation sizeof_CWWTPRadioInfoValues :: int where "sizeof_CWWTPRadioInfoValues \<equiv> 432"

text \<open>One radio: \<open>r\<close> is what \<^verbatim>\<open>malloc\<close> left in the entry.\<close>

definition save_phy :: "int \<times> byte \<Rightarrow> int \<Rightarrow> WTPSinglePhyInfo \<Rightarrow> WTPSinglePhyInfo" where
  "save_phy rp tunnel p =
     (let b = snd rp AND 1 = 1; a = snd rp AND 2 = 2; g = snd rp AND 4 = 4; n = snd rp AND 8 = 8 in
      p\<lparr> phy_radioID := fst rp, phyStandardB := b, phyStandardA := a, phyStandardG := g, phyStandardN := n,
         phy_standardValue := (if b then 1 else 0) + (if a then 2 else 0) + (if g then 4 else 0) +
                              (if n then 8 else 0),
         numInterfaces := 0,
         interfaces := map (\<lambda>j. (interfaces p ! j)\<lparr> typeInterface := 0, BSSID := None,
             wlanID := CWIEEEBindingGetDevFromIndexID (int j),
             frameTunnelMode := (if tunnel \<noteq> 0 then tunnel else 0) \<rparr>) [0..<WTP_MAX_INTERFACES] \<rparr>)"

definition save_join_radio :: "int \<times> byte \<Rightarrow> int \<Rightarrow> CWWTPRadioInfoValues \<Rightarrow> CWWTPRadioInfoValues" where
  "save_join_radio rp tunnel r = r
     \<lparr> radio_adminState := 1, radio_adminCause := 1, radio_operationalState := 2, radio_operationalCause := 0,
       radio_TxQueueLevel := 0, radio_wirelessLinkFramesPerSec := 0,
       radio_radioID := CWIEEEBindingGetIndexFromDevID (fst rp),
       gWTPPhyInfo := save_phy rp tunnel (gWTPPhyInfo r) \<rparr>"

text \<open>
  The number of radios is that of the descriptor; the entries after the fifth are not written. The
  result is the value with the changed structures. Without memory for the session identifier the
  function returns no value at all: a \<open>Fault\<close>.
\<close>

definition CWSaveJoinRequestMessage ::
  "memory \<Rightarrow> (nat \<Rightarrow> CWWTPRadioInfoValues) \<Rightarrow> CWProtocolJoinRequestValues \<Rightarrow> CWWTPManager \<Rightarrow>
   CWWTPProtocolManager \<Rightarrow> unit res \<times> CWWTPManager \<times> CWWTPProtocolManager" where
  "CWSaveJoinRequestMessage mem junk v w pm =
     (case join_location v of
        None \<Rightarrow> (Fault, w, pm)
      | Some None \<Rightarrow> (Raise CW_ERROR_WRONG_ARG, w, pm)
      | Some (Some loc) \<Rightarrow>
          let pm = pm\<lparr>locationData := Some loc\<rparr> in
          (case join_name v of
             None \<Rightarrow> (Fault, w, pm)
           | Some None \<Rightarrow> (Raise CW_ERROR_WRONG_ARG, w, pm)
           | Some (Some name) \<Rightarrow>
               let pm = pm\<lparr> pm_name := Some name, pm_boardData := join_boardData v \<rparr> in
               (case join_sessionID v of
                  Some (Some sid) \<Rightarrow>
                    let n = radiosInUse (join_descriptor v);
                        w' = w\<lparr>sessionID := Some (take 16 sid)\<rparr>;
                        pm' = pm\<lparr> pm_ipv4Address := join_addr v, pm_descriptor := join_descriptor v,
                                  radioCount := n \<rparr>
                    in if \<not> malloc_ok mem 16 \<or> length sid < 16 then (Fault, w, pm)
                       else if \<not> malloc_ok mem (sizeof_CWWTPRadioInfoValues * n)
                       then (Raise CW_ERROR_OUT_OF_MEMORY, w'\<lparr>radiosInfo := []\<rparr>, pm')
                       else (Ret (), w'\<lparr>radiosInfo := map (\<lambda>i.
                               if i < WTP_RADIO_MAX
                               then save_join_radio (join_singlePhyInfo v ! i) (join_frameTunnelMode v) (junk i)
                               else junk i) [0..<nat n]\<rparr>, pm')
                | _ \<Rightarrow> (Fault, w, pm))))"

subsection \<open>The handler of the request\<close>

text \<open>
  \<open>stack\<close> is what the local structure of the handler held. A request that cannot be saved is answered
  with the code 4, resource depletion; the session goes on to the Configure state all the same.
\<close>

definition ACEnterJoin ::
  "memory \<Rightarrow> (nat \<Rightarrow> CWWTPRadioInfoValues) \<Rightarrow> CWProtocolJoinRequestValues \<Rightarrow> eth \<Rightarrow> int \<Rightarrow> 32 word \<Rightarrow> bool \<Rightarrow>
   ac_globals \<Rightarrow> (nat \<Rightarrow> bool) \<Rightarrow> CWProtocolMessage \<Rightarrow> ac_session \<Rightarrow> CWWTPProtocolManager \<Rightarrow>
   (unit res \<times> ac_session \<times> CWWTPProtocolManager) option" where
  "ACEnterJoin mem junk stack mac fid garbage le ac net m s pm =
     (case CWParseJoinRequestMessage mem le stack (msg m) (int (offset m)) of
        None \<Rightarrow> None
      | Some Fault \<Rightarrow> Some (Fault, s, pm)
      | Some (Raise e) \<Rightarrow> Some (Raise e, s, pm)
      | Some (Ret (seq, v)) \<Rightarrow>
          let s = s\<lparr>timers := CWTimerCancel (currentTimer (wtp s)) (timers s)\<rparr> in
          (case CWSaveJoinRequestMessage mem junk v (wtp s) pm of (r, w, pm) \<Rightarrow>
           let s = s\<lparr>wtp := w\<rparr>; resultCodeValue = (case r of Ret _ \<Rightarrow> 0 | _ \<Rightarrow> 4) in
           if r = Fault then Some (Fault, s, pm)
           else if \<not> malloc_ok mem 8 then Some (Raise CW_ERROR_OUT_OF_MEMORY, s, pm)
           else case CWAssembleJoinResponse mem mac fid garbage le ac (pathMTU w) seq
                       (if malloc_ok mem 16 then [(33, resultCodeValue)] else []) (radioCount pm) (radiosInfo w) of
             Fault \<Rightarrow> Some (Fault, s, pm)
           | Raise e \<Rightarrow> Some (Raise e, s, pm)
           | Ret ms \<Rightarrow>
               (case CWACSendFragments net
                       (s\<lparr>wtp := w\<lparr> messages := Some ms, messagesCount := length ms \<rparr>\<rparr>) of
                  (Ret _, s) \<Rightarrow> Some (Ret (), s\<lparr>wtp := (wtp s)\<lparr>currentState := CW_ENTER_CONFIGURE\<rparr>\<rparr>, pm)
                | (r, s) \<Rightarrow> Some (r, s, pm))))"

subsection \<open>Saving the response\<close>

text \<open>The WTP's \<^verbatim>\<open>CWACInfoValues\<close> with the lists of the cluster.\<close>

record joined_ac =
  joined_info :: "CWACInfoValues option"
  joined_name :: "byte list option"
  joined_IPv4List :: "32 word list"
  joined_IPv6List :: "byte list list"

text \<open>
  \<open>forced\<close>: the WTP was configured with the AC's address, and its structure is a fresh block, whose
  contents are \<open>block\<close>. Otherwise it is the structure of the Discovery Response, whose vendor
  informations are freed. A string is copied up to its first zero.
\<close>

definition CWSaveJoinResponseMessage ::
  "memory \<Rightarrow> bool \<Rightarrow> CWACInfoValues \<Rightarrow> CWProtocolJoinResponseValues \<Rightarrow> joined_ac option \<Rightarrow>
   unit res \<times> joined_ac option" where
  "CWSaveJoinResponseMessage mem forced block v g =
     (if jresp_code v \<noteq> 0 \<and> jresp_code v \<noteq> 2 then (Raise CW_ERROR_NONE, g)
      else case g of
        None \<Rightarrow> (Raise CW_ERROR_NEED_RESOURCE, g)
      | Some a \<Rightarrow>
          let j = jresp_info v; old = (case joined_info a of None \<Rightarrow> block | Some i \<Rightarrow> i);
              i = old\<lparr> stations := stations j, limit := limit j, activeWTPs := activeWTPs j,
                       maxWTPs := maxWTPs j, security := security j, RMACField := RMACField j \<rparr>;
              a' = a\<lparr>joined_info := Some i\<rparr>
          in (case jresp_name v of
                Some (Some name) \<Rightarrow>
                  let name = takeWhile (\<lambda>b. b \<noteq> 0) name in
                  if \<not> malloc_ok mem (int (length name) + 1)
                  then (Raise CW_ERROR_OUT_OF_MEMORY, Some (a'\<lparr>joined_name := None\<rparr>))
                  else if \<not> forced \<and> joined_info a = None then (Fault, g)
                  else (Ret (), Some (a'\<lparr> joined_name := Some name,
                          joined_info := Some (i\<lparr>ac_vendorInfos := ac_vendorInfos j\<rparr>),
                          joined_IPv4List := (if jresp_IPv4List v = [] then joined_IPv4List a else jresp_IPv4List v),
                          joined_IPv6List := (if jresp_IPv6List v = [] then joined_IPv6List a else jresp_IPv6List v) \<rparr>))
              | _ \<Rightarrow> (Fault, g)))"

subsection \<open>The answer arrives\<close>

lemma CWAssembleMessage_well_formed:
  assumes "ample mem" "list_all well_formed es" "list_all well_formed bs"
    "CWAssembleMessage mem mac fid garbage PMTU seq t es bs c = Ret pkts"
  shows "list_all well_formed pkts"
  using assms(4) CWAssembleMessage_eq [OF assms(1-3) refl refl refl refl, of mac fid garbage PMTU seq t c]
  by (auto simp: list_all_iff split: if_splits)

text \<open>The response the AC assembles with a result code is delivered and read as such.\<close>

lemma join_answer:
  assumes "ample mem" "gInterfaces ac \<noteq> []" "n \<le> 1" "n \<le> int (length radios)"
    and "length (gACName ac) + 10 * length (gInterfaces ac) < 65000" "mac_room mac_ptr" "0 \<le> fid" "fid < 65536"
    and "k = control_fragments PMTU (73 + length (gACName ac) + 10 * length (gInterfaces ac) + 9 * nat n)"
    and "insert j (set js) = {..<k}" "j \<notin> set js"
  shows "\<exists>pkts mac' m. CWAssembleJoinResponse mem mac fid garbage le ac PMTU seq [(33, code)] n radios = Ret pkts \<and>
    length pkts = k \<and> list_all well_formed pkts \<and>
    receive_all mem (map (\<lambda>i. received (contents (pkts ! i)) (junk i)) (js @ [j])) [] mac_ptr =
      Some (replicate (length js) (Raise CW_ERROR_NEED_RESOURCE) @ [Ret m], [], mac') \<and>
    (\<forall>le' v expected. CWParseJoinResponseMessage mem le' v (msg m) (int (offset m)) expected =
      Some (if seq = expected then Ret (jresp_view le' ac (word_of_int code)) else Raise CW_ERROR_INVALID_FORMAT))"
proof -
  let ?es = "jresp_messages ac n radios (word_of_int code) @ replicate (1 - nat n) no_message"
  define e where "e = jresp_elements ac n radios (word_of_int code)"
  let ?body = "message_header seq 4 (length e) @ e"
  have name: "length (gACName ac) < 65536" using assms(5) by simp
  have asm: "CWAssembleJoinResponse mem mac fid garbage le ac PMTU seq [(33, code)] n radios =
      CWAssembleMessage mem mac fid garbage PMTU seq 4 ?es [] 0"
    unfolding assemble_join_response [OF assms(1,2) name] using assms(3,4) by simp
  have body: "?body = message_bytes seq 4 ?es []"
    unfolding message_bytes_eq jresp_messages_bytes e_def [symmetric] ..
  have "length e = 65 + length (gACName ac) + 10 * length (gInterfaces ac) + 9 * nat n"
    unfolding e_def by (rule jresp_length)
  then have len: "length ?body = 73 + length (gACName ac) + 10 * length (gInterfaces ac) + 9 * nat n"
    by simp
  have wf: "list_all well_formed ?es" by (auto simp: list_all_iff jresp_messages_def)
  have l: "length ?body \<le> 65536" unfolding len using assms(3,5) by simp
  obtain pkts mac' where p: "CWAssembleMessage mem mac fid garbage PMTU seq 4 ?es [] 0 = Ret pkts"
    "length pkts = k" "receive_all mem (map (\<lambda>i. received (contents (pkts ! i)) (junk i)) (js @ [j])) [] mac_ptr =
       Some (replicate (length js) (Raise CW_ERROR_NEED_RESOURCE) @ [Ret (amsg None ?body 0)], [], mac')"
    using message_delivered [OF assms(1) wf assms(6) body l assms(7,8) _ assms(10,11), of PMTU mac garbage 0 junk]
    unfolding len assms(9) by blast
  have "list_all well_formed pkts" by (rule CWAssembleMessage_well_formed [OF assms(1) wf _ p(1)]) simp
  moreover have "CWParseJoinResponseMessage mem le' v (msg (amsg None ?body 0)) (int (offset (amsg None ?body 0))) expected =
      Some (if seq = expected then Ret (jresp_view le' ac (word_of_int code)) else Raise CW_ERROR_INVALID_FORMAT)"
    for le' v expected
    using parse_join_response [OF assms(1-3,5) e_def, of le' v seq "[]" expected] by (simp add: amsg_def wmsg_def)
  ultimately show ?thesis unfolding asm using p by blast
qed

lemma ac_joined:
  assumes "ample mem" "\<forall>k. net k" "gInterfaces ac \<noteq> []" "mac_room mac_ptr" "0 \<le> fid" "fid < 65536"
    and "length (gACName ac) + 10 * length (gInterfaces ac) < 65000"
    and "CWParseJoinRequestMessage mem le stack (msg m) (int (offset m)) = Some (Ret (seq, v))"
    and "join_location v = Some (Some loc)" "join_name v = Some (Some name)" "join_sessionID v = Some (Some sid)"
    and "length sid = 16" "n = radiosInUse (join_descriptor v)" "0 \<le> n" "n \<le> 1"
    and "k = control_fragments (pathMTU (wtp s))
           (73 + length (gACName ac) + 10 * length (gInterfaces ac) + 9 * nat n)"
    and "insert j (set js) = {..<k}" "j \<notin> set js"
  shows "\<exists>s' pm' pkts mac' m'. ACEnterJoin mem blk stack mac fid garbage le ac net m s pm = Some (Ret (), s', pm') \<and>
      currentState (wtp s') = CW_ENTER_CONFIGURE \<and> sessionID (wtp s') = Some sid \<and>
      pm' = pm\<lparr> locationData := Some loc, pm_name := Some name, pm_boardData := join_boardData v,
              pm_descriptor := join_descriptor v, pm_ipv4Address := join_addr v, radioCount := n \<rparr> \<and>
      radiosInfo (wtp s') = map (\<lambda>i. save_join_radio (join_singlePhyInfo v ! i) (join_frameTunnelMode v) (blk i)) [0..<nat n] \<and>
      sent s' = sent s @ map contents pkts \<and> length pkts = k \<and>
      receive_all mem (map (\<lambda>i. received (contents (pkts ! i)) (junk i)) (js @ [j])) [] mac_ptr =
        Some (replicate (length js) (Raise CW_ERROR_NEED_RESOURCE) @ [Ret m'], [], mac') \<and>
      CWParseJoinResponseMessage mem le' u (msg m') (int (offset m')) expected =
        Some (if seq = expected then Ret (jresp_view le' ac 0) else Raise CW_ERROR_INVALID_FORMAT)"
proof -
  let ?rs = "map (\<lambda>i. if i < 5 then save_join_radio (join_singlePhyInfo v ! i) (join_frameTunnelMode v) (blk i)
    else blk i) [0..<nat n]"
  let ?pm = "pm\<lparr> locationData := Some loc, pm_name := Some name, pm_boardData := join_boardData v,
    pm_descriptor := join_descriptor v, pm_ipv4Address := join_addr v, radioCount := n \<rparr>"
  let ?w = "(wtp s)\<lparr> sessionID := Some sid, radiosInfo := ?rs \<rparr>"
  have save: "CWSaveJoinRequestMessage mem blk v (wtp s) pm = (Ret (), ?w, ?pm)"
    using assms(1,9-14) by (cases pm) (simp add: CWSaveJoinRequestMessage_def Let_def ample_malloc)
  note enter = ACEnterJoin_def assms(8) save Let_def ample_malloc [OF assms(1)]
  have n: "n \<le> 1" "n \<le> int (length ?rs)" using assms(15) by simp_all
  have map_rs: "?rs = map (\<lambda>i. save_join_radio (join_singlePhyInfo v ! i) (join_frameTunnelMode v) (blk i)) [0..<nat n]"
    using n(1) by auto
  obtain pkts mac' m' where p: "CWAssembleJoinResponse mem mac fid garbage le ac (pathMTU (wtp s)) seq [(33, 0)] n ?rs = Ret pkts"
    "length pkts = k" "list_all well_formed pkts"
    "receive_all mem (map (\<lambda>i. received (contents (pkts ! i)) (junk i)) (js @ [j])) [] mac_ptr =
      Some (replicate (length js) (Raise CW_ERROR_NEED_RESOURCE) @ [Ret m'], [], mac')"
    "\<forall>le' v expected. CWParseJoinResponseMessage mem le' v (msg m') (int (offset m')) expected =
      Some (if seq = expected then Ret (jresp_view le' ac 0) else Raise CW_ERROR_INVALID_FORMAT)"
    using join_answer [OF assms(1,3) n assms(7,4-6,16-18), of mac garbage le seq 0 junk] unfolding of_int_0 by blast
  let ?s = "s\<lparr> timers := CWTimerCancel (currentTimer (wtp s)) (timers s),
    wtp := ?w\<lparr> messages := Some pkts, messagesCount := length pkts \<rparr> \<rparr>"
  let ?s' = "?s\<lparr> wtp := (CW_FREE_WTP_MSG_ARRAY (wtp ?s))\<lparr>currentState := CW_ENTER_CONFIGURE\<rparr>,
    sent := sent s @ map contents pkts \<rparr>"
  have send: "CWACSendFragments net ?s = (Ret (), ?s\<lparr> wtp := CW_FREE_WTP_MSG_ARRAY (wtp ?s),
      sent := sent ?s @ map contents pkts \<rparr>)"
    by (rule CWACSendFragments_ok [OF _ _ p(3) assms(2)]) simp_all
  have enter': "ACEnterJoin mem blk stack mac fid garbage le ac net m s pm = Some (Ret (), ?s', ?pm)"
    using p(1) send by (simp add: enter)
  show ?thesis
    by (intro exI conjI, rule enter' [unfolded map_rs]) (use p(2,4) p(5) [rule_format, of le' u expected] in \<open>simp_all add: CW_FREE_WTP_MSG_ARRAY_def\<close>)
qed

text \<open>
  C6: The AC's handler of a Join Request that was parsed and had a location, a name and a session identifier of sixteen
  bytes, on an AC with memory, an interface and a name that fits. A descriptor that claims more than one radio
  makes the AC write past the array of its message elements, whatever the other elements say. A descriptor that claims one, or none:
  the session enters the Configure state, with the WTP's description, its session identifier and
  the claimed number of radios, each up, not operational, and known by the identifier and standards of its
  element; and the packets sent, delivered in any order, tell the WTP the AC's data and success, under the
  number of the request and no other.
\<close>

theorem ac_join:
  assumes "ample mem" "\<forall>k. net k" "gInterfaces ac \<noteq> []" "mac_room mac_ptr" "0 \<le> fid" "fid < 65536"
    and "length (gACName ac) + 10 * length (gInterfaces ac) < 65000"
    and "CWParseJoinRequestMessage mem le stack (msg m) (int (offset m)) = Some (Ret (seq, v))"
    and "join_location v = Some (Some loc)" "join_name v = Some (Some name)" "join_sessionID v = Some (Some sid)"
    and "length sid = 16" "n = radiosInUse (join_descriptor v)" "0 \<le> n"
    and "k = control_fragments (pathMTU (wtp s))
           (73 + length (gACName ac) + 10 * length (gInterfaces ac) + 9 * nat n)"
    and "insert j (set js) = {..<k}" "j \<notin> set js"
  shows "if 1 < n then \<exists>s' pm'. ACEnterJoin mem blk stack mac fid garbage le ac net m s pm = Some (Fault, s', pm')
    else \<exists>s' pm' pkts mac' m'. ACEnterJoin mem blk stack mac fid garbage le ac net m s pm = Some (Ret (), s', pm') \<and>
      currentState (wtp s') = CW_ENTER_CONFIGURE \<and> sessionID (wtp s') = Some sid \<and>
      pm' = pm\<lparr> locationData := Some loc, pm_name := Some name, pm_boardData := join_boardData v,
              pm_descriptor := join_descriptor v, pm_ipv4Address := join_addr v, radioCount := n \<rparr> \<and>
      radiosInfo (wtp s') = map (\<lambda>i. save_join_radio (join_singlePhyInfo v ! i) (join_frameTunnelMode v) (blk i)) [0..<nat n] \<and>
      sent s' = sent s @ map contents pkts \<and> length pkts = k \<and>
      receive_all mem (map (\<lambda>i. received (contents (pkts ! i)) (junk i)) (js @ [j])) [] mac_ptr =
        Some (replicate (length js) (Raise CW_ERROR_NEED_RESOURCE) @ [Ret m'], [], mac') \<and>
      CWParseJoinResponseMessage mem le' u (msg m') (int (offset m')) expected =
        Some (if seq = expected then Ret (jresp_view le' ac 0) else Raise CW_ERROR_INVALID_FORMAT)"
proof -
  let ?rs = "map (\<lambda>i. if i < 5 then save_join_radio (join_singlePhyInfo v ! i) (join_frameTunnelMode v) (blk i)
    else blk i) [0..<nat n]"
  let ?pm = "pm\<lparr> locationData := Some loc, pm_name := Some name, pm_boardData := join_boardData v,
    pm_descriptor := join_descriptor v, pm_ipv4Address := join_addr v, radioCount := n \<rparr>"
  let ?w = "(wtp s)\<lparr> sessionID := Some sid, radiosInfo := ?rs \<rparr>"
  have save: "CWSaveJoinRequestMessage mem blk v (wtp s) pm = (Ret (), ?w, ?pm)"
    using assms(1,9-14) by (cases pm) (simp add: CWSaveJoinRequestMessage_def Let_def ample_malloc)
  have name: "length (gACName ac) < 65536" using assms(7) by simp
  note resp = assemble_join_response [OF assms(1,3) name, of mac fid garbage le "pathMTU (wtp s)" seq 0 n ?rs]
  note enter = ACEnterJoin_def assms(8) save Let_def ample_malloc [OF assms(1)]
  show ?thesis
  proof (cases "1 < n")
    case True
    then show ?thesis using resp by (simp add: enter)
  next
    case False
    then have "n \<le> 1" by simp
    then show ?thesis using ac_joined [OF assms(1-14) _ assms(15-17)] False by simp
  qed
qed

definition ex_stack :: CWProtocolJoinRequestValues where
  "ex_stack = \<lparr> join_location = None, join_name = None, join_boardData = None, join_sessionID = None,
     join_descriptor = \<lparr> maxRadios = 77, radiosInUse = 99, encCapabilities = None, vendorInfos = [] \<rparr>,
     join_addr = [], join_frameTunnelMode = 55, join_MACType = 55, join_ECNSupport = 55, join_numPhyActive = 9,
     join_singlePhyInfo = [] \<rparr>"

definition ex_manager :: CWWTPProtocolManager where
  "ex_manager = \<lparr> locationData = None, pm_name = None, pm_boardData = None,
     pm_descriptor = \<lparr> maxRadios = 0, radiosInUse = 0, encCapabilities = None, vendorInfos = [] \<rparr>,
     pm_ipv4Address = [], radioCount = 0, pm_ACName = Some None, pm_ACNameIndex = [], pm_radioAdminInfo = [],
     pm_StatisticsTimer = 0, pm_WTPRebootStatistics = Some None, pm_qosValues = None \<rparr>"

text \<open>The Join Request of a WTP, whose descriptor says two radios while it describes one.\<close>

theorem ac_join_witness:
  "\<exists>s' pm'. ACEnterJoin (\<lambda>_. True) (\<lambda>_. ex_radio) ex_stack no_mac 0 0 True ex_ac (\<lambda>_. True)
     \<lparr> msg = message_header 3 3 (length (join_elements True (\<lambda>_. [1, 2, 3, 4]) (\<lambda>_. [1, 2, 3, 4]) [(1, 5)]
                 (replicate 16 9) (ex_wtp\<lparr>gRadiosInfo := [ex_radio, ex_radio]\<rparr>))) @
               join_elements True (\<lambda>_. [1, 2, 3, 4]) (\<lambda>_. [1, 2, 3, 4]) [(1, 5)]
                 (replicate 16 9) (ex_wtp\<lparr>gRadiosInfo := [ex_radio, ex_radio]\<rparr>),
       offset = 160, data_msgType = None \<rparr> (ex_session []) ex_manager = Some (Fault, s', pm')"
proof -
  let ?w = "ex_wtp\<lparr>gRadiosInfo := [ex_radio, ex_radio]\<rparr>"
  define e where "e = join_elements True (\<lambda>_. [1, 2, 3, 4]) (\<lambda>_. [1, 2, 3, 4]) [(1, 5)] (replicate 16 9) ?w"
  let ?m = "\<lparr> msg = message_header 3 3 (length e) @ e, offset = 160, data_msgType = None \<rparr>"
  let ?v = "join_view True (\<lambda>_. [1, 2, 3, 4]) (\<lambda>_. [1, 2, 3, 4]) [(1, 5)] (replicate 16 9) ?w"
  have l: "length e = 152" unfolding e_def by (subst join_length) (simp_all add: ex_wtp_def)
  have p: "CWParseJoinRequestMessage (\<lambda>_. True) True ex_stack (msg ?m) (int (offset ?m)) = Some (Ret (3, ?v))"
    using parse_join_request [OF ample_all _ _ _ _ _ e_def, of True ex_stack 3 "[]"] l by (simp add: ex_wtp_def)
  have v: "join_location ?v = Some (Some [76])" "join_name ?v = Some (Some [87])"
      "join_sessionID ?v = Some (Some (replicate 16 9))" "radiosInUse (join_descriptor ?v) = 2"
    by (simp_all add: join_view_def ex_wtp_def descriptor_view_def)
  have k: "1 = control_fragments (pathMTU (wtp (ex_session []))) (73 + length (gACName ex_ac) +
      10 * length (gInterfaces ex_ac) + 9 * nat 2)"
    by (simp add: ex_session_def ex_ac_def control_fragments_def control_pmtu_def fragment_payload_def fragments_num_def)
  have "mac_room None" "gInterfaces ex_ac \<noteq> []" "length (gACName ex_ac) + 10 * length (gInterfaces ex_ac) < 65000"
    by (simp_all add: mac_room_def ex_ac_def)
  then show ?thesis
    using ac_join [OF ample_all _ _ _ _ _ _ p v(1-3) _ v(4) [symmetric] _ k, of "\<lambda>_. True" None 0 0 "[]"]
    unfolding e_def by (simp add: lessThan_Suc)
qed

subsection \<open>Both sides agree\<close>

lemma bit_test: "(v :: byte) AND 2 ^ n = 2 ^ n \<longleftrightarrow> n < 8 \<longrightarrow> bit v n"
proof -
  have "v AND 2 ^ n = 2 ^ n \<longleftrightarrow> (\<forall>k < 8. bit (v AND 2 ^ n) k = bit (2 ^ n :: byte) k)"
    by (auto intro!: bit_word_eqI)
  also have "\<dots> \<longleftrightarrow> (n < 8 \<longrightarrow> bit v n)" by (auto simp: bit_simps)
  finally show ?thesis .
qed

lemma bit_tests:
  "(v :: byte) AND 1 = 1 \<longleftrightarrow> bit v 0" "v AND 2 = 2 \<longleftrightarrow> bit v 1" "v AND 4 = 4 \<longleftrightarrow> bit v 2" "v AND 8 = 8 \<longleftrightarrow> bit v 3"
  using bit_test [of v 0] bit_test [of v 1] bit_test [of v 2] bit_test [of v 3] by simp_all

lemma standards_kept: "phy_standardValue (save_phy rp tunnel p) = take_bit 4 (snd rp)"
proof -
  have "take_bit 4 (snd rp) = of_bool (bit (snd rp) 0) + 2 * of_bool (bit (snd rp) 1) + 4 * of_bool (bit (snd rp) 2) +
      8 * of_bool (bit (snd rp) 3)"
    by (simp add: numeral_eq_Suc take_bit_Suc bit_Suc bit_0 mod_2_eq_odd split: if_splits)
  then show ?thesis by (simp add: save_phy_def Let_def bit_tests)
qed

abbreviation wtp_phys :: "wtp_globals \<Rightarrow> (int \<times> byte) list" where
  "wtp_phys w \<equiv> map (\<lambda>r. (phy_radioID (gWTPPhyInfo r), phy_standardValue (gWTPPhyInfo r))) (gRadiosInfo w)"

text \<open>
  C3: The whole join of a WTP with at most one radio. Its request, in any number of fragments and delivered
  in any order, is accepted by a fresh session of the AC, which then knows the WTP's name, location, session
  identifier and radios, each by its identifier cut to a byte and the four standards bits; the answer,
  delivered in any order, is accepted by the WTP as the response to its request, and the WTP then
  knows the AC's name up to the first zero and its maximum number of WTPs.
\<close>

theorem join_agreement:
  assumes mem: "ample mem" and net: "\<forall>k. net k" and ac: "gInterfaces ac \<noteq> []"
    and fits: "length (gACName ac) + 10 * length (gInterfaces ac) < 65000"
      "length (gWTPLocation w) + length (gWTPName w) < 65000" "length sid = 16" "length (gRadiosInfo w) \<le> 1"
    and junk: "junk_ok junkb" "junk_ok junkd" and room: "mac_room mac_ptr" "mac_room mac_ptr'"
    and fid: "0 \<le> fid" "fid < 65536"
    and k: "k = control_fragments PMTU (149 + length (gWTPLocation w) + length (gWTPName w) + 9 * length (gRadiosInfo w))"
    and k': "k' = control_fragments (pathMTU (wtp s))
        (73 + length (gACName ac) + 10 * length (gInterfaces ac) + 9 * length (gRadiosInfo w))"
    and order: "insert j (set js) = {..<k}" "j \<notin> set js" "insert j' (set js') = {..<k'}" "j' \<notin> set js'"
    and known: "forced \<or> joined_info g \<noteq> None"
  shows "\<exists>pkts mac1 m s' pm' answer mac2 m' v g'.
    CWAssembleJoinRequest mem mac fid garbage le junkb junkd (wtp_phys w) sid w PMTU seq = Ret pkts \<and>
    receive_all mem (map (\<lambda>i. received (contents (pkts ! i)) (junk i)) (js @ [j])) [] mac_ptr =
      Some (replicate (length js) (Raise CW_ERROR_NEED_RESOURCE) @ [Ret m], [], mac1) \<and>
    ACEnterJoin mem blk stack mac fid garbage le' ac net m s pm = Some (Ret (), s', pm') \<and>
    currentState (wtp s') = CW_ENTER_CONFIGURE \<and> pm_name pm' = Some (gWTPName w) \<and>
    locationData pm' = Some (gWTPLocation w) \<and> sessionID (wtp s') = Some sid \<and>
    map (\<lambda>r. (radio_radioID r, phy_standardValue (gWTPPhyInfo r))) (radiosInfo (wtp s')) =
      map (\<lambda>(r, p). (r mod 256, take_bit 4 p)) (wtp_phys w) \<and>
    sent s' = sent s @ map contents answer \<and>
    receive_all mem (map (\<lambda>i. received (contents (answer ! i)) (junk i)) (js' @ [j'])) [] mac_ptr' =
      Some (replicate (length js') (Raise CW_ERROR_NEED_RESOURCE) @ [Ret m'], [], mac2) \<and>
    CWParseJoinResponseMessage mem le u (msg m') (int (offset m')) seq = Some (Ret v) \<and>
    CWSaveJoinResponseMessage mem forced block v (Some g) = (Ret (), Some g') \<and>
    joined_name g' = Some (takeWhile (\<lambda>b. b \<noteq> 0) (gACName ac)) \<and>
    map_option maxWTPs (joined_info g') = Some (gMaxWTPs ac mod 65536)"
proof -
  let ?n = "int (length (gRadiosInfo w))" and ?phys = "wtp_phys w"
  let ?v = "join_view le junkb junkd ?phys sid w"
  have len: "length ?phys \<le> 1" "\<not> 1 < length ?phys" using fits(4) by simp_all
  have k1: "k = control_fragments PMTU (149 + length (gWTPLocation w) + length (gWTPName w) + 9 * length ?phys)"
    using k by simp
  obtain pkts mac1 m where p: "CWAssembleJoinRequest mem mac fid garbage le junkb junkd ?phys sid w PMTU seq = Ret pkts"
    "receive_all mem (map (\<lambda>i. received (contents (pkts ! i)) (junk i)) (js @ [j])) [] mac_ptr =
      Some (replicate (length js) (Raise CW_ERROR_NEED_RESOURCE) @ [Ret m], [], mac1)"
    "CWParseJoinRequestMessage mem le' stack (msg m) (int (offset m)) = Some (Ret (seq, ?v))"
    using join_request_delivered [OF mem junk fits(3) room(1) fid fits(2) k1 order(1,2) len(1)] by blast
  have v: "join_location ?v = Some (Some (gWTPLocation w))" "join_name ?v = Some (Some (gWTPName w))"
      "join_sessionID ?v = Some (Some sid)" "?n = radiosInUse (join_descriptor ?v)"
    using fits(4) by (simp_all add: join_view_def descriptor_view_def Let_def)
  have k2: "k' = control_fragments (pathMTU (wtp s))
      (73 + length (gACName ac) + 10 * length (gInterfaces ac) + 9 * nat ?n)" using k' by simp
  have le1: "0 \<le> ?n" "?n \<le> 1" using fits(4) by simp_all
  obtain s' pm' answer mac2 m' where a: "ACEnterJoin mem blk stack mac fid garbage le' ac net m s pm = Some (Ret (), s', pm')"
    "currentState (wtp s') = CW_ENTER_CONFIGURE" "sessionID (wtp s') = Some sid"
    "pm' = pm\<lparr> locationData := Some (gWTPLocation w), pm_name := Some (gWTPName w), pm_boardData := join_boardData ?v,
              pm_descriptor := join_descriptor ?v, pm_ipv4Address := join_addr ?v, radioCount := ?n \<rparr>"
    "radiosInfo (wtp s') = map (\<lambda>i. save_join_radio (join_singlePhyInfo ?v ! i) (join_frameTunnelMode ?v) (blk i)) [0..<nat ?n]"
    "sent s' = sent s @ map contents answer"
    "receive_all mem (map (\<lambda>i. received (contents (answer ! i)) (junk i)) (js' @ [j'])) [] mac_ptr' =
        Some (replicate (length js') (Raise CW_ERROR_NEED_RESOURCE) @ [Ret m'], [], mac2)"
    "CWParseJoinResponseMessage mem le u (msg m') (int (offset m')) seq =
        Some (if seq = seq then Ret (jresp_view le ac 0) else Raise CW_ERROR_INVALID_FORMAT)"
    using ac_joined [OF mem net ac room(2) fid fits(1) p(3) v(1-3) fits(3) v(4) le1 k2 order(3,4),
      of blk mac garbage pm junk le u seq] by blast
  have names: "pm_name pm' = Some (gWTPName w)" "locationData pm' = Some (gWTPLocation w)" unfolding a(4) by simp_all
  have parsed: "CWParseJoinResponseMessage mem le u (msg m') (int (offset m')) seq = Some (Ret (jresp_view le ac 0))"
    using a(8) by simp
  have radios: "map (\<lambda>r. (radio_radioID r, phy_standardValue (gWTPPhyInfo r))) (radiosInfo (wtp s')) =
      map (\<lambda>(r, p). (r mod 256, take_bit 4 p)) ?phys"
    using fits(4) unfolding a(5)
    by (cases "gRadiosInfo w") (simp_all add: save_join_radio_def CWIEEEBindingGetIndexFromDevID_def standards_kept join_view_def)
  obtain g' where "CWSaveJoinResponseMessage mem forced block (jresp_view le ac 0) (Some g) = (Ret (), Some g')"
    "joined_name g' = Some (takeWhile (\<lambda>b. b \<noteq> 0) (gACName ac))"
    "map_option maxWTPs (joined_info g') = Some (gMaxWTPs ac mod 65536)"
    using mem known by (auto simp: CWSaveJoinResponseMessage_def jresp_view_def Let_def ample_malloc)
  with p(1,2) a(1-3,6,7) names parsed radios show ?thesis by blast
qed

theorem join_agreement_witness:
  "\<exists>pkts mac1 m s' pm' g'.
    CWAssembleJoinRequest (\<lambda>_. True) no_mac 7 0 True (\<lambda>_. [1, 2, 3, 4]) (\<lambda>_. [5, 6, 7, 8]) (wtp_phys ex_wtp)
      (replicate 16 9) ex_wtp 100 4 = Ret pkts \<and>
    receive_all (\<lambda>_. True) (map (\<lambda>i. received (contents (pkts ! i)) []) [2, 1, 1, 0]) [] None =
      Some (replicate 3 (Raise CW_ERROR_NEED_RESOURCE) @ [Ret m], [], mac1) \<and>
    ACEnterJoin (\<lambda>_. True) (\<lambda>_. ex_radio) ex_stack no_mac 7 0 True ex_ac (\<lambda>_. True) m (ex_session []) ex_manager =
      Some (Ret (), s', pm') \<and>
    currentState (wtp s') = CW_ENTER_CONFIGURE \<and> pm_name pm' = Some [87] \<and>
    joined_name (g' :: joined_ac) = Some [65, 67] \<and> map_option maxWTPs (joined_info g') = Some 5"
proof -
  have k: "3 = control_fragments 100 (149 + length (gWTPLocation ex_wtp) + length (gWTPName ex_wtp) +
      9 * length (gRadiosInfo ex_wtp))"
    and k': "1 = control_fragments (pathMTU (wtp (ex_session []))) (73 + length (gACName ex_ac) +
      10 * length (gInterfaces ex_ac) + 9 * length (gRadiosInfo ex_wtp))"
    by (simp_all add: ex_wtp_def ex_session_def ex_ac_def control_fragments_def control_pmtu_def
        fragment_payload_def fragments_num_def)
  have all: "insert 0 (set [2, 1, 1]) = {..<3 :: nat}" "insert 0 (set []) = {..<1 :: nat}" by auto
  have m: "mac_room None" "gInterfaces ex_ac \<noteq> []" by (simp_all add: mac_room_def ex_ac_def)
  have l: "length (gACName ex_ac) + 10 * length (gInterfaces ex_ac) < 65000"
      "length (gWTPLocation ex_wtp) + length (gWTPName ex_wtp) < 65000" "length (gRadiosInfo ex_wtp) \<le> 1"
    by (simp_all add: ex_wtp_def ex_ac_def)
  have v: "gWTPName ex_wtp = [87]" "takeWhile (\<lambda>b. b \<noteq> 0) (gACName ex_ac) = [65, 67]" "gMaxWTPs ex_ac mod 65536 = 5"
    by (simp_all add: ex_wtp_def ex_ac_def)
  have others: "\<forall>k. (\<lambda>_. True) (k :: nat)" "length (replicate 16 9 :: byte list) = 16"
      "junk_ok (\<lambda>_. [1, 2, 3, 4])" "junk_ok (\<lambda>_. [5, 6, 7, 8])" "(0 :: int) \<le> 7" "(7 :: int) < 65536"
      "(0 :: nat) \<notin> set [2, 1, 1]" "(0 :: nat) \<notin> set []" "length [2 :: nat, 1, 1] = 3"
    by simp_all
  note agree = join_agreement [OF ample_all others(1) m(2) l(1,2) others(2) l(3) others(3,4) m(1,1) others(5,6) k k'
      all(1) others(7) all(2) others(8) disjI1 [OF TrueI]]
  obtain pkts mac1 m s' pm' answer mac2 m' v g' where a:
    "CWAssembleJoinRequest (\<lambda>_. True) no_mac 7 0 True (\<lambda>_. [1, 2, 3, 4]) (\<lambda>_. [5, 6, 7, 8]) (wtp_phys ex_wtp)
      (replicate 16 9) ex_wtp 100 4 = Ret pkts"
    "receive_all (\<lambda>_. True) (map (\<lambda>i. received (contents (pkts ! i)) []) ([2, 1, 1] @ [0])) [] None =
      Some (replicate (length [2 :: nat, 1, 1]) (Raise CW_ERROR_NEED_RESOURCE) @ [Ret m], [], mac1)"
    "ACEnterJoin (\<lambda>_. True) (\<lambda>_. ex_radio) ex_stack no_mac 7 0 True ex_ac (\<lambda>_. True) m (ex_session []) ex_manager =
      Some (Ret (), s', pm')"
    "currentState (wtp s') = CW_ENTER_CONFIGURE" "pm_name pm' = Some (gWTPName ex_wtp)"
    "joined_name (g' :: joined_ac) = Some (takeWhile (\<lambda>b. b \<noteq> 0) (gACName ex_ac))"
    "map_option maxWTPs (joined_info g') = Some (gMaxWTPs ex_ac mod 65536)"
    using agree [of no_mac 0 True 4 "\<lambda>_. []" "\<lambda>_. ex_radio" ex_stack True ex_manager
        "jresp_view True ex_ac 0" "jresp_info (jresp_view True ex_ac 0)"
        "\<lparr> joined_info = None, joined_name = None, joined_IPv4List = [], joined_IPv6List = [] \<rparr>"]
    by (elim exE conjE) (rule that; assumption)
  show ?thesis
    by (intro exI conjI, rule a(1), rule a(2) [unfolded others(9) append.simps], rule a(3), rule a(4),
        rule a(5) [unfolded v], rule a(6) [unfolded v], rule a(7) [unfolded v])
qed

end
