(* ===== verification/WTPStates.thy ===== *)
theory WTPStates
  imports WTPPending JoinStates
begin

section \<open>The WTP's state machine: WTP.c, WTPJoinState.c, WTPConfigureState.c, WTPDataCheckState.c\<close>

text \<open>
  The loop of \<^verbatim>\<open>main\<close> runs the handler of one state after the other. A handler is a function of the
  globals of the process and of what its environment does: memory, sockets, threads, the outcome of the
  exchange with the AC (\<open>CWWTPSendAcknowledgedPacket\<close>), and, for the Join state, whether its timer runs out
  while it waits. The value \<open>None\<close> is a handler that does not return: it waits forever, or its thread has ended.
\<close>

subsection \<open>State\<close>

text \<open>
  \<open>forced\<close>: \<^verbatim>\<open>gWTPForceACAddress\<close> is set. \<open>control_open\<close>: the socket of the control channel is open. Of the calls that make the
  sockets and threads only what \<open>CWErr\<close> said is an event: the errors of these wrappers end neither thread nor process.
\<close>

record wtp_machine =
  forced :: bool
  discovery :: wtp_discovery
  gSuccessfulHandshake :: bool
  control_open :: bool
  join_timers :: "(wtp_timer_handler, addr) timerq"

record join_events =
  control_ok :: bool
  data_ok :: bool
  receive_thread_ok :: bool
  data_thread_ok :: bool
  exchange :: "unit attempt"
  code_before :: CWErrorCode
  wait_over :: bool

abbreviation CWWTPWaitJoinExpired_id :: wtp_timer_handler where "CWWTPWaitJoinExpired_id \<equiv> OtherTimer 0"
abbreviation gCWWaitJoin :: int where "gCWWaitJoin \<equiv> 60"
abbreviation sizeof_CWACInfoValues :: int where "sizeof_CWACInfoValues \<equiv> 376"

subsection \<open>The exchange under CWErr\<close>

text \<open>
  What the macro makes of the exchange. An exchange that fails without an error of its own, as when the AC refuses, leaves
  the code that was raised before: \<open>code_before\<close>, which is that of a success when the response came in one packet.
\<close>

definition exchange_handled :: "CWErrorCode \<Rightarrow> unit attempt \<Rightarrow> handled res option" where
  "exchange_handled code ex =
     (case ex of
        Acked _ \<Rightarrow> Some (CWErr (Some code) (Ret ()))
      | GiveUp e \<Rightarrow> Some (CWErr (Some code) (Raise e))
      | Crash \<Rightarrow> Some (CWErr (Some code) Fault)
      | _ \<Rightarrow> None)"

subsection \<open>The Join state\<close>

definition CWWTPWaitJoinExpired :: "wtp_machine \<Rightarrow> wtp_machine" where
  "CWWTPWaitJoinExpired w = w\<lparr>gSuccessfulHandshake := False, control_open := False\<rparr>"

text \<open>The timer thread takes the timer out of the queue and runs its handler.\<close>

definition wait_expires :: "int \<Rightarrow> wtp_machine \<Rightarrow> wtp_machine" where
  "wait_expires n w =
     (case timer_find n (queue (join_timers w)) of
        None \<Rightarrow> w
      | Some i \<Rightarrow>
          let w' = w\<lparr>join_timers := timer_dequeue i (join_timers w)\<rparr>; t = queue (join_timers w) ! i in
          if \<not> cancelled t \<and> handler t = CWWTPWaitJoinExpired_id then CWWTPWaitJoinExpired w' else w')"

definition remove_wait :: "int \<Rightarrow> wtp_machine \<Rightarrow> wtp_machine" where
  "remove_wait n w = w\<lparr>join_timers := snd (timer_rem n False (join_timers w))\<rparr>"

text \<open>The code from the sockets on; \<open>n\<close> is the timer.\<close>

definition join_channels :: "int \<Rightarrow> join_events \<Rightarrow> wtp_machine \<Rightarrow> (CWStateTransition res \<times> wtp_machine) option" where
  "join_channels n ev w =
     (if \<not> control_ok ev then Some (Ret CW_ENTER_DISCOVERY, remove_wait n w)
      else let w = w\<lparr>control_open := True\<rparr> in
      if \<not> data_ok ev then Some (Ret CW_ENTER_DISCOVERY, w)
      else if \<not> receive_thread_ok ev
      then Some (Ret CW_ENTER_DISCOVERY, (remove_wait n w)\<lparr>control_open := False\<rparr>)
      else if \<not> data_thread_ok ev then Some (Ret CW_ENTER_DISCOVERY, w)
      else let w = (if wait_over ev then wait_expires n w else w) in
      case exchange_handled (code_before ev) (exchange ev) of
        Some (Ret HandledTrue) \<Rightarrow>
          let w = remove_wait n w in
          if gSuccessfulHandshake w then Some (Ret CW_ENTER_CONFIGURE, w)
          else Some (Ret CW_ENTER_DISCOVERY, (remove_wait n w)\<lparr>control_open := False\<rparr>)
      | Some (Ret HandledFalse) \<Rightarrow> Some (Ret CW_ENTER_DISCOVERY, (remove_wait n w)\<lparr>control_open := False\<rparr>)
      | Some Fault \<Rightarrow> Some (Fault, w)
      | _ \<Rightarrow> None)"

text \<open>
  \<open>given\<close> is the structure of an AC whose address is configured. When there is no memory for it the
  handler returns the value of \<^verbatim>\<open>CWErrorRaise\<close>: false, which is the first state of the enumeration.
\<close>

definition CWWTPEnterJoin ::
  "memory \<Rightarrow> wtp_ac_info \<Rightarrow> join_events \<Rightarrow> wtp_machine \<Rightarrow> (CWStateTransition res \<times> wtp_machine) option" where
  "CWWTPEnterJoin mem given ev w =
     (let w = w\<lparr>control_open := False\<rparr> in
      if forced w \<and> \<not> malloc_ok mem sizeof_CWACInfoValues
      then Some (Ret CW_ENTER_SULKING, w\<lparr>discovery := (discovery w)\<lparr>gACInfoPtr := None\<rparr>\<rparr>)
      else let w = (if forced w then w\<lparr>discovery := (discovery w)\<lparr>gACInfoPtr := Some given\<rparr>\<rparr> else w) in
      if gACInfoPtr (discovery w) = None then Some (Fault, w)
      else case timer_add (malloc_ok mem 64) gCWWaitJoin 0 (Some CWWTPWaitJoinExpired_id) None (join_timers w) of
             Ret (n, q) \<Rightarrow>
               if n = -1 then Some (Ret CW_ENTER_DISCOVERY, w\<lparr>join_timers := q\<rparr>)
               else join_channels n ev (w\<lparr>join_timers := q\<rparr>)
           | Raise e \<Rightarrow> Some (Raise e, w)
           | Fault \<Rightarrow> Some (Fault, w))"

subsection \<open>The Configure and Data Check states\<close>

definition CWWTPEnterConfigure ::
  "CWErrorCode \<Rightarrow> unit attempt \<Rightarrow> wtp_machine \<Rightarrow> (CWStateTransition res \<times> wtp_machine) option" where
  "CWWTPEnterConfigure code ex w =
     (case exchange_handled code ex of
        Some (Ret HandledTrue) \<Rightarrow> Some (Ret CW_ENTER_DATA_CHECK, w)
      | Some (Ret HandledFalse) \<Rightarrow> Some (Ret CW_QUIT, w\<lparr>control_open := False\<rparr>)
      | Some Fault \<Rightarrow> Some (Fault, w)
      | _ \<Rightarrow> None)"

definition CWWTPEnterDataCheck :: "CWErrorCode \<Rightarrow> unit attempt \<Rightarrow> (CWStateTransition res) option" where
  "CWWTPEnterDataCheck code ex =
     (case exchange_handled code ex of
        Some (Ret HandledTrue) \<Rightarrow> Some (Ret CW_ENTER_RUN)
      | Some (Ret HandledFalse) \<Rightarrow> Some (Ret CW_ENTER_RESET)
      | Some Fault \<Rightarrow> Some Fault
      | _ \<Rightarrow> None)"

subsection \<open>The loop of main\<close>

text \<open>
  The state the loop is in and the globals. A wait-join timer that is still in the queue can run out in any
  state. Whatever made the Run state end, the next one is Reset. There is no step from \<open>CW_QUIT\<close>, from
  an exit, or from a handler that crashes or never returns.
\<close>

inductive wtp_step :: "CWStateTransition \<times> wtp_machine \<Rightarrow> CWStateTransition \<times> wtp_machine \<Rightarrow> bool" where
  discover: "CWWTPEnterDiscovery mem le family ok request net (discovery w) = Some (Ret (Next s, d)) \<Longrightarrow>
    wtp_step (CW_ENTER_DISCOVERY, w) (s, w\<lparr>discovery := d, control_open := ok\<rparr>)"
| sulk: "CWWTPEnterSulking before es = Some (Ret (Next s)) \<Longrightarrow>
    wtp_step (CW_ENTER_SULKING, w) (s, w)"
| join: "CWWTPEnterJoin mem given ev w = Some (Ret s, w') \<Longrightarrow> wtp_step (CW_ENTER_JOIN, w) (s, w')"
| configure: "CWWTPEnterConfigure code ex w = Some (Ret s, w') \<Longrightarrow> wtp_step (CW_ENTER_CONFIGURE, w) (s, w')"
| data_check: "CWWTPEnterDataCheck code ex = Some (Ret s) \<Longrightarrow> wtp_step (CW_ENTER_DATA_CHECK, w) (s, w)"
| run_ends: "wtp_step (CW_ENTER_RUN, w) (CW_ENTER_RESET, w)"
| reset: "wtp_step (CW_ENTER_RESET, w) (CW_ENTER_DISCOVERY, w)"
| expires: "\<lbrakk>t \<in> set (queue (join_timers w)); s \<noteq> CW_QUIT\<rbrakk> \<Longrightarrow> wtp_step (s, w) (s, wait_expires (tid t) w)"

inductive_cases wtp_stepE: "wtp_step (s, w) (s', w')"

definition wtp_start :: "bool \<Rightarrow> wtp_discovery \<Rightarrow> (wtp_timer_handler, addr) timerq \<Rightarrow> CWStateTransition \<times> wtp_machine" where
  "wtp_start f d q =
     (if f then CW_ENTER_JOIN else CW_ENTER_DISCOVERY,
      \<lparr> forced = f, discovery = d, gSuccessfulHandshake = True, control_open = False, join_timers = q \<rparr>)"

inductive wtp_steps :: "CWStateTransition \<times> wtp_machine \<Rightarrow> CWStateTransition \<times> wtp_machine \<Rightarrow> bool" where
  refl: "wtp_steps c c"
| trans: "\<lbrakk>wtp_steps c c'; wtp_step c' c''\<rbrakk> \<Longrightarrow> wtp_steps c c''"

subsection \<open>What the handlers return\<close>

lemma on_error_ret: "on_error e r = Ret x \<Longrightarrow> r = Ret x"
  by (simp add: on_error_def split: handled.splits)

lemma send_requests_stop:
  "send_requests mem request is b st = Ret (Some n, b', st') \<Longrightarrow> n = Exit \<or> n = Next CW_QUIT"
proof (induction mem request "is" b st rule: send_requests.induct)
  case (2 mem request i "is" b st)
  then show ?case by (auto simp: Let_def dest!: on_error_ret split: if_splits res.splits list.splits)
qed simp

lemma pick_and_join_next:
  assumes "pick_and_join le family st = (n, st')"
  shows "n = Next CW_ENTER_DISCOVERY \<or> n = Next CW_ENTER_JOIN \<and> gACInfoPtr st' \<noteq> None"
  using assms by (auto simp: pick_and_join_def split: option.splits)

lemma discovery_rounds_next:
  "discovery_rounds mem le family request left net st = Some (Ret (n, st')) \<Longrightarrow>
   n \<in> {Exit, Next CW_QUIT, Next CW_ENTER_SULKING, Next CW_ENTER_DISCOVERY} \<or>
   n = Next CW_ENTER_JOIN \<and> gACInfoPtr st' \<noteq> None"
proof (induction left arbitrary: net st)
  case (Suc left)
  from Suc.prems show ?case
    by (auto simp: run_bind_def Let_def split: option.splits res.splits prod.splits if_splits list.splits
        dest!: send_requests_stop pick_and_join_next Suc.IH)
qed simp

lemma enter_discovery_next:
  "CWWTPEnterDiscovery mem le family ok request net st = Some (Ret (n, st')) \<Longrightarrow>
   n \<in> {Exit, Next CW_QUIT, Next CW_ENTER_SULKING, Next CW_ENTER_DISCOVERY} \<or>
   n = Next CW_ENTER_JOIN \<and> gACInfoPtr st' \<noteq> None"
  using discovery_rounds_next [of mem le family request gCWMaxDiscoveries net]
  unfolding CWWTPEnterDiscovery_def by (auto split: if_splits)

lemma enter_sulking_next:
  "CWWTPEnterSulking before es = Some (Ret n) \<Longrightarrow> n = Next CW_ENTER_DISCOVERY \<or> n = Next CW_QUIT"
  by (induction before es rule: CWWTPEnterSulking.induct) (auto dest!: on_error_ret split: if_splits res.splits)

subsection \<open>The AC is known where it is used\<close>

text \<open>The states whose handlers read \<^verbatim>\<open>gACInfoPtr\<close>; Join sets it itself when the address is configured.\<close>

definition ac_known :: "CWStateTransition \<times> wtp_machine \<Rightarrow> bool" where
  "ac_known c = (case c of (s, w) \<Rightarrow>
     s \<in> {CW_ENTER_CONFIGURE, CW_ENTER_DATA_CHECK, CW_ENTER_RUN} \<or> s = CW_ENTER_JOIN \<and> \<not> forced w
       \<longrightarrow> gACInfoPtr (discovery w) \<noteq> None)"

lemma wait_expires_kept [simp]:
  "forced (wait_expires n w) = forced w" "discovery (wait_expires n w) = discovery w"
  by (simp_all add: wait_expires_def CWWTPWaitJoinExpired_def Let_def split: option.splits)

lemma remove_wait_kept [simp]:
  "forced (remove_wait n w) = forced w" "discovery (remove_wait n w) = discovery w"
  "gSuccessfulHandshake (remove_wait n w) = gSuccessfulHandshake w" "control_open (remove_wait n w) = control_open w"
  by (simp_all add: remove_wait_def)

lemma join_channels_kept:
  "join_channels n ev w = Some (r, w') \<Longrightarrow> forced w' = forced w \<and> discovery w' = discovery w"
  by (auto simp: join_channels_def Let_def split: if_splits option.splits res.splits handled.splits)

lemma enter_join_kept:
  assumes "CWWTPEnterJoin mem given ev w = Some (Ret s, w')"
  shows "forced w' = forced w \<and> (s \<noteq> CW_ENTER_SULKING \<longrightarrow> gACInfoPtr (discovery w') \<noteq> None)"
  using assms
  by (auto simp: CWWTPEnterJoin_def Let_def split: if_splits res.splits dest!: join_channels_kept)

lemma join_channels_next:
  "join_channels n ev w = Some (Ret s, w') \<Longrightarrow>
   s = CW_ENTER_DISCOVERY \<or> s = CW_ENTER_CONFIGURE \<and> gSuccessfulHandshake w"
  by (auto simp: join_channels_def Let_def wait_expires_def CWWTPWaitJoinExpired_def
      split: if_splits option.splits res.splits handled.splits)

lemma enter_join_next:
  assumes "CWWTPEnterJoin mem given ev w = Some (Ret s, w')"
  shows "s \<in> {CW_ENTER_SULKING, CW_ENTER_DISCOVERY} \<or> s = CW_ENTER_CONFIGURE \<and> gSuccessfulHandshake w"
  using assms
  by (auto simp: CWWTPEnterJoin_def Let_def split: if_splits res.splits dest!: join_channels_next)

lemma configure_next:
  "CWWTPEnterConfigure code ex w = Some (Ret s, w') \<Longrightarrow>
   s \<in> {CW_ENTER_DATA_CHECK, CW_QUIT} \<and> discovery w' = discovery w \<and> forced w' = forced w"
  by (auto simp: CWWTPEnterConfigure_def split: option.splits res.splits handled.splits)

lemma data_check_next:
  "CWWTPEnterDataCheck code ex = Some (Ret s) \<Longrightarrow> s = CW_ENTER_RUN \<or> s = CW_ENTER_RESET"
  by (auto simp: CWWTPEnterDataCheck_def split: option.splits res.splits handled.splits)

lemmas handler_next = enter_discovery_next enter_sulking_next enter_join_next enter_join_kept configure_next data_check_next

lemma ac_known_step:
  assumes "wtp_step c c'" "ac_known c"
  shows "ac_known c'"
  using assms
proof (cases rule: wtp_step.cases)
  case (discover mem le family ok request net w s d)
  then show ?thesis using enter_discovery_next [OF discover(3)] by (auto simp: ac_known_def)
next
  case (sulk before es s w)
  then show ?thesis using enter_sulking_next [OF sulk(3)] by (auto simp: ac_known_def)
next
  case (join mem given ev w s w')
  then show ?thesis using enter_join_next [OF join(3)] enter_join_kept [OF join(3)] by (auto simp: ac_known_def)
next
  case (configure code ex w s w')
  then show ?thesis using configure_next [OF configure(3)] assms(2) by (auto simp: ac_known_def)
next
  case (data_check code ex s w)
  then show ?thesis using data_check_next [OF data_check(3)] assms(2) by (auto simp: ac_known_def)
qed (use assms(2) in \<open>auto simp: ac_known_def\<close>)

lemma ac_known_steps: "\<lbrakk>wtp_steps c c'; ac_known c\<rbrakk> \<Longrightarrow> ac_known c'"
  by (induction rule: wtp_steps.induct) (auto intro: ac_known_step)

text \<open>
  C15: However the sockets, the timers, memory and the AC behave, a WTP that is in the Configure, Data Check or Run
  state, or joins an AC it has discovered, has a structure of that AC: \<^verbatim>\<open>gACInfoPtr\<close> is not null where those states read it.
  That holds also when an exchange that failed is taken for a success.
\<close>

theorem wtp_ac_known:
  assumes "wtp_steps (wtp_start f d q) (s, w)"
    and "s \<in> {CW_ENTER_CONFIGURE, CW_ENTER_DATA_CHECK, CW_ENTER_RUN} \<or> s = CW_ENTER_JOIN \<and> \<not> forced w"
  shows "gACInfoPtr (discovery w) \<noteq> None"
proof -
  have "ac_known (wtp_start f d q)" by (simp add: ac_known_def wtp_start_def)
  from ac_known_steps [OF assms(1) this] assms(2) show ?thesis by (auto simp: ac_known_def)
qed

subsection \<open>The outcome of the Join state\<close>

text \<open>The timer \<open>n\<close> waits: its handler will run.\<close>

definition waiting :: "int \<Rightarrow> (wtp_timer_handler, addr) timerq \<Rightarrow> bool" where
  "waiting n q \<longleftrightarrow> (\<exists>i t. timer_find n (queue q) = Some i \<and> i < length (queue q) \<and> t = queue q ! i \<and>
     tid t = n \<and> \<not> cancelled t \<and> handler t = CWWTPWaitJoinExpired_id)"

lemma waiting_expires:
  "waiting n (join_timers w) \<Longrightarrow>
   \<not> gSuccessfulHandshake (wait_expires n w) \<and> \<not> control_open (wait_expires n w)"
  by (auto simp: waiting_def wait_expires_def CWWTPWaitJoinExpired_def)

lemma timer_add_waiting:
  assumes "timer_inv q" "0 < sec" "cur_id q < INT_MAX"
  shows "\<exists>q'. timer_add True sec 0 (Some CWWTPWaitJoinExpired_id) None q = Ret (cur_id q, q') \<and>
    timer_inv q' \<and> waiting (cur_id q) q' \<and> cur_id q' = cur_id q + 1 \<and> ran q' = ran q"
proof -
  have i: "id_inv q" using assms(1) by (simp add: timer_inv_def)
  obtain q' where q': "timer_add True sec 0 (Some CWWTPWaitJoinExpired_id) None q = Ret (cur_id q, q')"
    "timer_waits (cur_id q) CWWTPWaitJoinExpired_id None q'" "cur_id q' = cur_id q + 1" "ran q' = ran q"
    using timer_add_waits [OF i assms(2,3)] by blast
  moreover have "timer_inv q'"
    using assms(1) q'(1) by (auto simp: timer_inv_def intro: order_inv_add id_inv_add use_inv_add)
  ultimately show ?thesis by (auto simp: waiting_def timer_waits_def)
qed

lemma dead_dequeue:
  assumes "distinct (map tid (queue q))" "timer_find n (queue q) = Some i" "n < cur_id q" "n \<notin> fst ` set (ran q)"
    and "i < length (queue q)" "tid (queue q ! i) = n"
  shows "dead n (timer_dequeue i q)"
proof -
  have "\<forall>x \<in> set (take i (queue q)) \<union> set (drop (Suc i) (queue q)). tid x \<noteq> n"
    using assms(1,5,6) id_take_nth_drop [OF assms(5)]
    by (metis (no_types, lifting) UnE distinct_append distinct.simps(2) disjoint_iff image_eqI list.set_intros(1)
        list.set_map list.simps(9) map_append)
  with assms(3,4) show ?thesis by (auto simp: dead_def timer_dequeue_def)
qed

text \<open>The timer is left in the queue on two of the ways out.\<close>

definition timer_left :: "join_events \<Rightarrow> bool" where
  "timer_left ev \<longleftrightarrow> control_ok ev \<and> (\<not> data_ok ev \<or> receive_thread_ok ev \<and> \<not> data_thread_ok ev)"

text \<open>Both sockets and both threads are there. The exchange succeeded, or its failure is one that \<open>CWErr\<close> takes for a
  success; there was no memory for it, which ends the thread.\<close>

definition channels :: "join_events \<Rightarrow> bool" where
  "channels ev \<longleftrightarrow> control_ok ev \<and> data_ok ev \<and> receive_thread_ok ev \<and> data_thread_ok ev"

definition taken_for_success :: "join_events \<Rightarrow> bool" where
  "taken_for_success ev =
     (case exchange ev of
        Acked _ \<Rightarrow> True
      | GiveUp e \<Rightarrow> CWErrorRaise (Some (code_before ev)) e \<in> {Some CW_ERROR_SUCCESS, Some CW_ERROR_NONE}
      | _ \<Rightarrow> False)"

definition without_memory :: "join_events \<Rightarrow> bool" where
  "without_memory ev =
     (case exchange ev of
        GiveUp e \<Rightarrow> CWErrorRaise (Some (code_before ev)) e = Some CW_ERROR_OUT_OF_MEMORY
      | _ \<Rightarrow> False)"

lemma exchange_handled_cases:
  assumes "exchange ev = Acked u \<or> exchange ev = GiveUp e"
  shows "exchange_handled (code_before ev) (exchange ev) =
    Some (Ret (if taken_for_success ev then HandledTrue else if without_memory ev then ThreadExits else HandledFalse))"
  using assms
proof (cases "CWErrorRaise (Some (code_before ev)) e")
  case None
  then show ?thesis by (simp add: CWErrorRaise_def split: if_splits)
next
  case (Some c)
  with assms show ?thesis
    by (auto simp: exchange_handled_def CWErr_def taken_for_success_def without_memory_def CWErrorHandleLast_def)
qed

lemma success_is_not_memory: "taken_for_success ev \<Longrightarrow> \<not> without_memory ev"
  by (auto simp: taken_for_success_def without_memory_def split: attempt.splits)

lemma join_left_for:
  assumes "ample mem" "timer_inv (join_timers w)" "n = cur_id (join_timers w)" "n < INT_MAX"
    and "forced w \<or> gACInfoPtr (discovery w) \<noteq> None" "exchange ev = Acked u \<or> exchange ev = GiveUp e"
  shows "if channels ev \<and> without_memory ev then CWWTPEnterJoin mem given ev w = None
    else \<exists>s w'. CWWTPEnterJoin mem given ev w = Some (Ret s, w') \<and>
      s = (if channels ev \<and> taken_for_success ev \<and> gSuccessfulHandshake w \<and> \<not> wait_over ev
           then CW_ENTER_CONFIGURE else CW_ENTER_DISCOVERY) \<and>
      (s = CW_ENTER_CONFIGURE \<longrightarrow> control_open w') \<and>
      (if timer_left ev then waiting n (join_timers w') else dead n (join_timers w'))"
proof -
  obtain q where q: "timer_add True gCWWaitJoin 0 (Some CWWTPWaitJoinExpired_id) None (join_timers w) = Ret (n, q)"
    "timer_inv q" "waiting n q" "cur_id q = n + 1" "ran q = ran (join_timers w)"
    using timer_add_waiting [OF assms(2), of gCWWaitJoin] assms(3,4) by auto
  have n: "0 \<le> n" "n < cur_id q" "n \<notin> fst ` set (ran q)"
    using assms(2,3) q(4,5) by (auto simp: timer_inv_def id_inv_def)
  note rem = timer_rem_dead [OF q(2) n(2,3)]
  let ?base = "w\<lparr>control_open := False, discovery := (if forced w then (discovery w)\<lparr>gACInfoPtr := Some given\<rparr>
                  else discovery w), join_timers := q\<rparr>"
  let ?w = "?base\<lparr>control_open := True\<rparr>"
  have enter: "CWWTPEnterJoin mem given ev w = join_channels n ev ?base"
    using assms(5) q(1) n(1) by (cases "forced w") (auto simp: CWWTPEnterJoin_def Let_def ample_malloc [OF assms(1)])
  let ?x = "if wait_over ev then wait_expires n ?w else ?w"
  obtain i where i: "timer_find n (queue q) = Some i" "i < length (queue q)" "tid (queue q ! i) = n"
    "\<not> cancelled (queue q ! i)" "handler (queue q ! i) = CWWTPWaitJoinExpired_id"
    using q(3) by (auto simp: waiting_def)
  have d: "distinct (map tid (queue q))" using q(2) by (simp add: timer_inv_def id_inv_def)
  have gone: "dead n (join_timers (wait_expires n ?w))"
    using dead_dequeue [OF d i(1) n(2,3) i(2,3)] i by (simp add: wait_expires_def CWWTPWaitJoinExpired_def)
  have x: "dead n (join_timers (remove_wait n ?x))" "gSuccessfulHandshake ?x = (gSuccessfulHandshake w \<and> \<not> wait_over ev)"
      "\<not> wait_over ev \<longrightarrow> control_open ?x"
    using rem dead_rem [OF gone] waiting_expires [of n ?w] q(3) by (auto simp: remove_wait_def)
  have x2: "dead n (join_timers (remove_wait n (remove_wait n ?x)))"
    using dead_rem [OF x(1)] by (simp add: remove_wait_def)
  have r: "dead n (join_timers (remove_wait n ?base))" "dead n (join_timers (remove_wait n ?w))"
    using rem by (simp_all add: remove_wait_def)
  define y where "y = ?x"
  have c: "join_channels n ev ?base =
    (if \<not> control_ok ev then Some (Ret CW_ENTER_DISCOVERY, remove_wait n ?base)
     else if \<not> data_ok ev then Some (Ret CW_ENTER_DISCOVERY, ?w)
     else if \<not> receive_thread_ok ev then Some (Ret CW_ENTER_DISCOVERY, (remove_wait n ?w)\<lparr>control_open := False\<rparr>)
     else if \<not> data_thread_ok ev then Some (Ret CW_ENTER_DISCOVERY, ?w)
     else if taken_for_success ev \<and> gSuccessfulHandshake y then Some (Ret CW_ENTER_CONFIGURE, remove_wait n y)
     else if taken_for_success ev
     then Some (Ret CW_ENTER_DISCOVERY, (remove_wait n (remove_wait n y))\<lparr>control_open := False\<rparr>)
     else if without_memory ev then None
     else Some (Ret CW_ENTER_DISCOVERY, (remove_wait n y)\<lparr>control_open := False\<rparr>))"
    unfolding join_channels_def y_def exchange_handled_cases [OF assms(6)] by (auto simp: Let_def)
  have y: "dead n (join_timers (remove_wait n y))" "gSuccessfulHandshake y = (gSuccessfulHandshake w \<and> \<not> wait_over ev)"
      "\<not> wait_over ev \<longrightarrow> control_open y" "dead n (join_timers (remove_wait n (remove_wait n y)))"
    using x x2 unfolding y_def by blast+
  show ?thesis
    unfolding enter c using y r q(3) success_is_not_memory [of ev] by (auto simp: timer_left_def channels_def)
qed

text \<open>
  C36: The Join state, when its exchange succeeds or fails, with memory enough for the timer. It is left for Configure
  exactly when both sockets and both threads are there, the exchange is a success or a failure that the macro
  \<open>CWErr\<close> takes for one, because the last error of the thread says that there was none, and no wait for a response has ever
  run out before, this one included. When the exchange had no memory the main thread ends there; otherwise the
  state is left for Discovery. In Configure the control socket is open.
  The timer of the wait can no longer run, except when the data socket or the thread that reads it failed:
  then it still waits, and will declare every later join failed.
\<close>

theorem join_outcome:
  assumes "ample mem" "timer_inv (join_timers w)" "n = cur_id (join_timers w)" "n < INT_MAX"
    and "forced w \<or> gACInfoPtr (discovery w) \<noteq> None" "exchange ev = Acked u \<or> exchange ev = GiveUp e"
  shows "if channels ev \<and> without_memory ev then CWWTPEnterJoin mem given ev w = None
    else \<exists>s w'. CWWTPEnterJoin mem given ev w = Some (Ret s, w') \<and>
      s = (if channels ev \<and> taken_for_success ev \<and> gSuccessfulHandshake w \<and> \<not> wait_over ev
           then CW_ENTER_CONFIGURE else CW_ENTER_DISCOVERY) \<and>
      (s = CW_ENTER_CONFIGURE \<longrightarrow> control_open w') \<and>
      (if timer_left ev then waiting n (join_timers w') else dead n (join_timers w'))"
  using join_left_for [OF assms] .

text \<open>The data socket cannot be opened.\<close>

definition ex_queue :: "(wtp_timer_handler, addr) timerq" where
  "ex_queue = \<lparr> queue = [], cur_id = 4, ticker = Top, now = ex_epoch, alarm = None, pending = False, ran = [] \<rparr>"

definition ex_info :: wtp_ac_info where
  "ex_info = \<lparr> ac_response = \<lparr> resp_info = None, resp_name = None, IPv4Addresses = [], IPv6Addresses = [] \<rparr>,
      incomingAddress = Unspec, preferredAddress = Unspec \<rparr>"

definition ex_machine :: wtp_machine where
  "ex_machine = \<lparr> forced = True, discovery = ex_discovery, gSuccessfulHandshake = True, control_open = False,
     join_timers = ex_queue \<rparr>"

definition ex_events :: "bool \<Rightarrow> join_events" where
  "ex_events data = \<lparr> control_ok = True, data_ok = data, receive_thread_ok = True, data_thread_ok = True,
     exchange = Acked (), code_before = CW_ERROR_SUCCESS, wait_over = False \<rparr>"

lemma timer_inv_empty:
  "\<lbrakk>queue q = []; ran q = []; 0 \<le> cur_id q; tv_ok (now q); ticker q = Top\<rbrakk> \<Longrightarrow> timer_inv q"
  by (simp add: timer_inv_def inv_defs)

lemma ex_machine_facts:
  "timer_inv (join_timers ex_machine)" "4 = cur_id (join_timers ex_machine)" "forced ex_machine"
  "gSuccessfulHandshake ex_machine"
  by (simp_all add: ex_machine_def ex_queue_def timer_inv_empty ex_epoch_def tv_ok_def)

theorem join_outcome_witness:
  "(\<exists>w. CWWTPEnterJoin (\<lambda>_. True) ex_info (ex_events True) ex_machine = Some (Ret CW_ENTER_CONFIGURE, w) \<and>
      control_open w \<and> dead 4 (join_timers w)) \<and>
   (\<exists>w. CWWTPEnterJoin (\<lambda>_. True) ex_info (ex_events False) ex_machine = Some (Ret CW_ENTER_DISCOVERY, w) \<and>
      waiting 4 (join_timers w))"
  using join_outcome [OF ample_all ex_machine_facts(1,2) _ disjI1 [OF ex_machine_facts(3)],
      of "ex_events True" "()" CW_ERROR_NONE ex_info]
    join_outcome [OF ample_all ex_machine_facts(1,2) _ disjI1 [OF ex_machine_facts(3)],
      of "ex_events False" "()" CW_ERROR_NONE ex_info] ex_machine_facts(4)
  by (simp add: ex_events_def timer_left_def channels_def taken_for_success_def without_memory_def)

subsection \<open>A refused join goes on\<close>

text \<open>The WTP's exchange, with the functions of the Join state.\<close>

definition join_exchange ::
  "memory \<Rightarrow> bool \<Rightarrow> (nat \<Rightarrow> bool) \<Rightarrow> CWProtocolMessage list res \<Rightarrow> CWProtocolJoinResponseValues \<Rightarrow> 8 word \<Rightarrow> bool \<Rightarrow>
   CWACInfoValues \<Rightarrow> joined_ac option \<Rightarrow> wait_event list \<Rightarrow> unit attempt" where
  "join_exchange mem le net request stack seq f block g es =
     map_attempt (\<lambda>_. ()) (fst (CWWTPSendAcknowledgedPacket net request
       (\<lambda>m. the (CWParseJoinResponseMessage mem le stack (msg m) (int (offset m)) seq))
       (\<lambda>v. fst (CWSaveJoinResponseMessage mem f block v g)) es))"

lemma refused_exchange:
  assumes "list_all well_formed reqs" "\<forall>k. net k"
    and "CWParseJoinResponseMessage mem le stack (msg m) (int (offset m)) seq = Some (Ret v)"
    and "jresp_code v \<noteq> 0" "jresp_code v \<noteq> 2"
  shows "join_exchange mem le net (Ret reqs) stack seq f block g (Received (Ret m) # es) = GiveUp CW_ERROR_NONE"
  using assms(3-5) send_fragments_ok [OF assms(1,2), of "[]"]
  by (simp add: join_exchange_def CWWTPSendAcknowledgedPacket_def CWSaveJoinResponseMessage_def numeral_eq_Suc)

text \<open>
  The AC refuses a request whose location is a null pointer, and goes on to Configure; its answer fits in one packet.
\<close>

lemma ac_refuses:
  assumes "ample mem" "\<forall>k. net k" "gInterfaces ac \<noteq> []" "mac_room mac_ptr" "0 \<le> fid" "fid < 65536"
    and "length (gACName ac) + 10 * length (gInterfaces ac) < 65000"
    and "CWParseJoinRequestMessage mem le stack (msg m) (int (offset m)) = Some (Ret (seq, v))"
    and "join_location v = Some None" "radioCount pm = 0"
    and "control_fragments (pathMTU (wtp s)) (73 + length (gACName ac) + 10 * length (gInterfaces ac)) = 1"
  shows "\<exists>s' answer mac' m'. ACEnterJoin mem blk stack mac fid garbage le ac net m s pm = Some (Ret (), s', pm) \<and>
    currentState (wtp s') = CW_ENTER_CONFIGURE \<and> sent s' = sent s @ [answer] \<and>
    receive_all mem [received answer junk] [] mac_ptr = Some ([Ret m'], [], mac') \<and>
    (\<forall>le' u. CWParseJoinResponseMessage mem le' u (msg m') (int (offset m')) seq = Some (Ret (jresp_view le' ac 4)))"
proof -
  have save: "CWSaveJoinRequestMessage mem blk v (wtp s) pm = (Raise CW_ERROR_WRONG_ARG, wtp s, pm)"
    using assms(9) by (simp add: CWSaveJoinRequestMessage_def)
  have n: "(0 :: int) \<le> 1" "0 \<le> int (length (radiosInfo (wtp s)))" by simp_all
  have k: "1 = control_fragments (pathMTU (wtp s)) (73 + length (gACName ac) + 10 * length (gInterfaces ac) + 9 * nat 0)"
    using assms(11) by simp
  have one: "insert 0 (set []) = {..<1 :: nat}" "(0 :: nat) \<notin> set []" by auto
  obtain pkts mac' m' where p: "CWAssembleJoinResponse mem mac fid garbage le ac (pathMTU (wtp s)) seq [(33, 4)] 0
      (radiosInfo (wtp s)) = Ret pkts" "length pkts = 1" "list_all well_formed pkts"
    "receive_all mem (map (\<lambda>i. received (contents (pkts ! i)) junk) ([] @ [0])) [] mac_ptr =
      Some (replicate (length ([] :: nat list)) (Raise CW_ERROR_NEED_RESOURCE) @ [Ret m'], [], mac')"
    "\<forall>le' v expected. CWParseJoinResponseMessage mem le' v (msg m') (int (offset m')) expected =
      Some (if seq = expected then Ret (jresp_view le' ac (word_of_int 4)) else Raise CW_ERROR_INVALID_FORMAT)"
    using join_answer [OF assms(1,3) n assms(7,4-6) k one, of mac garbage le seq 4 "\<lambda>_. junk"] by blast
  obtain answer where a: "pkts = [answer]" using p(2) by (auto simp: length_Suc_conv)
  let ?s = "s\<lparr> timers := CWTimerCancel (currentTimer (wtp s)) (timers s),
    wtp := (wtp s)\<lparr> messages := Some pkts, messagesCount := length pkts \<rparr> \<rparr>"
  let ?s' = "?s\<lparr> wtp := (CW_FREE_WTP_MSG_ARRAY (wtp ?s))\<lparr>currentState := CW_ENTER_CONFIGURE\<rparr>,
    sent := sent s @ map contents pkts \<rparr>"
  have send: "CWACSendFragments net ?s = (Ret (), ?s\<lparr> wtp := CW_FREE_WTP_MSG_ARRAY (wtp ?s),
      sent := sent ?s @ map contents pkts \<rparr>)"
    by (rule CWACSendFragments_ok [OF _ _ p(3) assms(2)]) simp_all
  have "ACEnterJoin mem blk stack mac fid garbage le ac net m s pm = Some (Ret (), ?s', pm)"
    using p(1) send assms(10) by (simp add: ACEnterJoin_def assms(8) save Let_def ample_malloc [OF assms(1)])
  then show ?thesis
    by (intro exI conjI, assumption) (use p(4) p(5) [rule_format] a in \<open>auto simp: CW_FREE_WTP_MSG_ARRAY_def simp del: receive_all.simps\<close>)
qed

text \<open>The main thread has just been told that a packet is there, and the response came in that one packet.\<close>

definition after_one_packet :: "unit attempt \<Rightarrow> join_events \<Rightarrow> bool" where
  "after_one_packet ex ev \<longleftrightarrow> channels ev \<and> exchange ev = ex \<and> code_before ev = CW_ERROR_SUCCESS \<and> \<not> wait_over ev"

lemma refused_enters_configure:
  assumes "ample mem" "timer_inv (join_timers w)" "cur_id (join_timers w) < INT_MAX"
    and "forced w \<or> gACInfoPtr (discovery w) \<noteq> None" "gSuccessfulHandshake w"
    and "after_one_packet (GiveUp CW_ERROR_NONE) ev"
  shows "\<exists>w'. CWWTPEnterJoin mem given ev w = Some (Ret CW_ENTER_CONFIGURE, w') \<and> control_open w'"
proof -
  have ev: "channels ev" "exchange ev = GiveUp CW_ERROR_NONE" "taken_for_success ev" "\<not> without_memory ev" "\<not> wait_over ev"
    using assms(6) by (auto simp: after_one_packet_def taken_for_success_def without_memory_def)
  show ?thesis using assms(5) ev join_left_for [OF assms(1,2) HOL.refl assms(3,4), of ev "()" CW_ERROR_NONE given] by auto
qed

text \<open>
  C12: A join that the AC refuses goes on all the same. The location pointer of the parsed request is null, no radio was
  known before, and the answer fits in one packet. The AC answers with the result code 4, and enters Configure with
  what it knew before; the WTP reads that code, does not save the response, and its exchange fails without an error of
  its own. But its last error is then the success that announced the packet, \<open>CWErr\<close> takes the failure for a success,
  and with its sockets and threads there and no wait run out, the WTP enters Configure too.
\<close>

theorem refused_join_goes_on:
  assumes "ample mem" "\<forall>k. net k" "gInterfaces ac \<noteq> []" "mac_room mac_ptr" "0 \<le> fid" "fid < 65536"
    and "length (gACName ac) + 10 * length (gInterfaces ac) < 65000"
    and "CWParseJoinRequestMessage mem le stack (msg m) (int (offset m)) = Some (Ret (seq, v))"
    and "join_location v = Some None" "radioCount pm = 0"
    and "control_fragments (pathMTU (wtp s)) (73 + length (gACName ac) + 10 * length (gInterfaces ac)) = 1"
    and "list_all well_formed reqs" "timer_inv (join_timers w)" "cur_id (join_timers w) < INT_MAX"
    and "forced w \<or> gACInfoPtr (discovery w) \<noteq> None" "gSuccessfulHandshake w"
  shows "\<exists>s' answer mac' m'. ACEnterJoin mem blk stack mac fid garbage le ac net m s pm = Some (Ret (), s', pm) \<and>
    currentState (wtp s') = CW_ENTER_CONFIGURE \<and> sent s' = sent s @ [answer] \<and>
    receive_all mem [received answer junk] [] mac_ptr = Some ([Ret m'], [], mac') \<and>
    CWParseJoinResponseMessage mem le' u (msg m') (int (offset m')) seq = Some (Ret (jresp_view le' ac 4)) \<and>
    (\<forall>ev. after_one_packet (join_exchange mem le' net (Ret reqs) u seq (forced w) block g [Received (Ret m')]) ev \<longrightarrow>
       (\<exists>w'. CWWTPEnterJoin mem given ev w = Some (Ret CW_ENTER_CONFIGURE, w') \<and> control_open w'))"
proof -
  obtain s' answer mac' m' where a: "ACEnterJoin mem blk stack mac fid garbage le ac net m s pm = Some (Ret (), s', pm)"
    "currentState (wtp s') = CW_ENTER_CONFIGURE" "sent s' = sent s @ [answer]"
    "receive_all mem [received answer junk] [] mac_ptr = Some ([Ret m'], [], mac')"
    "CWParseJoinResponseMessage mem le' u (msg m') (int (offset m')) seq = Some (Ret (jresp_view le' ac 4))"
    using ac_refuses [OF assms(1-11), of blk mac garbage junk] by blast
  have ex: "join_exchange mem le' net (Ret reqs) u seq (forced w) block g [Received (Ret m')] = GiveUp CW_ERROR_NONE"
    using refused_exchange [OF assms(12,2) a(5)] by (simp add: jresp_view_def)
  show ?thesis
    by (intro exI conjI, rule a(1), rule a(2), rule a(3), rule a(4), rule a(5))
       (use refused_enters_configure [OF assms(1,13-16)] ex in simp)
qed

text \<open>A request without elements; the structure it is parsed into held a null pointer for the location.\<close>

theorem refused_join_goes_on_witness:
  "\<exists>s' answer mac' m'. ACEnterJoin (\<lambda>_. True) (\<lambda>_. ex_radio) (ex_stack\<lparr>join_location := Some None\<rparr>) no_mac 0 0 True ex_ac
      (\<lambda>_. True) \<lparr> msg = message_header 3 3 0, offset = 8, data_msgType = None \<rparr> (ex_session []) ex_manager =
      Some (Ret (), s', ex_manager) \<and> currentState (wtp s') = CW_ENTER_CONFIGURE \<and>
    receive_all (\<lambda>_. True) [received answer []] [] None = Some ([Ret m'], [], mac') \<and>
    (\<forall>ev. after_one_packet (join_exchange (\<lambda>_. True) True (\<lambda>_. True) (Ret []) (jresp_view True ex_ac 0) 3 True
         (jresp_info (jresp_view True ex_ac 0)) None [Received (Ret m')]) ev \<longrightarrow>
       (\<exists>w'. CWWTPEnterJoin (\<lambda>_. True) ex_info ev ex_machine = Some (Ret CW_ENTER_CONFIGURE, w') \<and> control_open w'))"
proof -
  let ?stack = "ex_stack\<lparr>join_location := Some None\<rparr>"
  let ?m = "\<lparr> msg = message_header 3 3 0, offset = 8, data_msgType = None \<rparr>"
  have p: "CWParseJoinRequestMessage (\<lambda>_. True) True ?stack (msg ?m) (int (offset ?m)) =
      Some (Ret (3, ?stack\<lparr> join_numPhyActive := 0, join_singlePhyInfo := replicate 5 (0, 0) \<rparr>))"
    using parse_message_header_eq [of 0 3 3 3 "[]"]
    by (simp add: CWParseJoinRequestMessage_def run_bind_def ample_malloc [OF ample_all] parse_elements.simps)
  have c: "control_fragments (pathMTU (wtp (ex_session []))) (73 + length (gACName ex_ac) + 10 * length (gInterfaces ex_ac)) = 1"
    by (simp add: ex_session_def ex_ac_def control_fragments_def control_pmtu_def fragment_payload_def fragments_num_def)
  have m: "mac_room None" "gInterfaces ex_ac \<noteq> []" "length (gACName ex_ac) + 10 * length (gInterfaces ex_ac) < 65000"
      "radioCount ex_manager = 0" "cur_id (join_timers ex_machine) < INT_MAX"
      "join_location (?stack\<lparr> join_numPhyActive := 0, join_singlePhyInfo := replicate 5 (0, 0) \<rparr>) = Some None"
    by (simp_all add: mac_room_def ex_ac_def ex_manager_def ex_machine_def ex_queue_def)
  have o: "\<forall>k. (\<lambda>_. True) (k :: nat)" "(0 :: int) \<le> 0" "(0 :: int) < 65536" "list_all well_formed []" by simp_all
  show ?thesis
    using refused_join_goes_on [OF ample_all o(1) m(2,1) o(2,3) m(3) p m(6,4) c o(4) ex_machine_facts(1) m(5)
        disjI1 [OF ex_machine_facts(3)] ex_machine_facts(4), of "\<lambda>_. ex_radio" no_mac 0 "[]" True
        "jresp_view True ex_ac 0" "jresp_info (jresp_view True ex_ac 0)" None ex_info]
    by (simp only: ex_machine_facts(3)) blast
qed

subsection \<open>One wait that runs out is the last join\<close>

text \<open>The states of a WTP that is looking for an AC.\<close>

definition searching :: "CWStateTransition \<Rightarrow> bool" where
  "searching s \<longleftrightarrow> s \<in> {CW_ENTER_SULKING, CW_ENTER_DISCOVERY, CW_ENTER_JOIN, CW_ENTER_RESET, CW_QUIT}"

lemma handshake_kept:
  "\<not> gSuccessfulHandshake w \<Longrightarrow> \<not> gSuccessfulHandshake (wait_expires n w)"
  by (simp add: wait_expires_def CWWTPWaitJoinExpired_def Let_def split: option.splits)

lemma join_channels_handshake:
  "\<lbrakk>join_channels n ev w = Some (r, w'); \<not> gSuccessfulHandshake w\<rbrakk> \<Longrightarrow> \<not> gSuccessfulHandshake w'"
  by (auto simp: join_channels_def Let_def handshake_kept split: if_splits option.splits res.splits handled.splits)

lemma enter_join_handshake:
  "\<lbrakk>CWWTPEnterJoin mem given ev w = Some (r, w'); \<not> gSuccessfulHandshake w\<rbrakk> \<Longrightarrow> \<not> gSuccessfulHandshake w'"
  by (auto simp: CWWTPEnterJoin_def Let_def split: if_splits res.splits dest!: join_channels_handshake)

lemma searching_step:
  assumes "wtp_step c c'" "searching (fst c)" "\<not> gSuccessfulHandshake (snd c)"
  shows "searching (fst c') \<and> \<not> gSuccessfulHandshake (snd c')"
  using assms
proof (cases rule: wtp_step.cases)
  case (discover mem le family ok request net w s d)
  with assms show ?thesis using enter_discovery_next [OF discover(3)] by (auto simp: searching_def)
next
  case (sulk before es s w)
  with assms show ?thesis using enter_sulking_next [OF sulk(3)] by (auto simp: searching_def)
next
  case (join mem given ev w s w')
  with assms show ?thesis
    using enter_join_next [OF join(3)] enter_join_handshake [OF join(3)] by (auto simp: searching_def)
qed (use assms(2,3) in \<open>auto simp: searching_def handshake_kept\<close>)

lemma searching_steps:
  "\<lbrakk>wtp_steps c c'; searching (fst c); \<not> gSuccessfulHandshake (snd c)\<rbrakk> \<Longrightarrow>
   searching (fst c') \<and> \<not> gSuccessfulHandshake (snd c')"
  by (induction rule: wtp_steps.induct) (auto dest: searching_step)

text \<open>
  C14: Once the timer of a join has run out, in Join or in Discovery, Sulking or Reset for a timer a failed join has
  left behind, the WTP never joins again: whatever ACs answer later, it goes round the searching states,
  and Configure, Data Check and Run are never reached in the life of the process.
\<close>

theorem expired_join_is_final:
  assumes "waiting n (join_timers w)" "s \<in> {CW_ENTER_SULKING, CW_ENTER_DISCOVERY, CW_ENTER_JOIN, CW_ENTER_RESET}"
    and "wtp_steps (s, wait_expires n w) (s', w')"
  shows "s' \<notin> {CW_ENTER_CONFIGURE, CW_ENTER_DATA_CHECK, CW_ENTER_RUN}"
  using searching_steps [OF assms(3)] assms(2) waiting_expires [OF assms(1)] by (auto simp: searching_def)

text \<open>The machine \<open>ex_machine\<close> after a join whose data socket failed.\<close>

definition ex_left :: wtp_machine where
  "ex_left = ex_machine\<lparr> discovery := ex_discovery\<lparr>gACInfoPtr := Some ex_info\<rparr>, control_open := True,
     join_timers := ex_queue\<lparr> cur_id := 5, queue := [\<lparr> timeout = timer_abs ex_epoch gCWWaitJoin 0,
       handler = CWWTPWaitJoinExpired_id, handler_arg = None, tid = 4, in_use = False, cancelled = False \<rparr>] \<rparr> \<rparr>"

lemma ex_left:
  "CWWTPEnterJoin (\<lambda>_. True) ex_info (ex_events False) ex_machine = Some (Ret CW_ENTER_DISCOVERY, ex_left)"
  "waiting 4 (join_timers ex_left)"
  by (simp_all add: CWWTPEnterJoin_def join_channels_def exchange_handled_def CWErr_def ex_machine_def ex_queue_def ex_events_def timer_add_def
      ex_left_def waiting_def Let_def ample_malloc [OF ample_all])

lemma ex_left_joins:
  "\<exists>w. CWWTPEnterJoin (\<lambda>_. True) ex_info (ex_events True) (wait_expires 4 ex_left) = Some (Ret CW_ENTER_DISCOVERY, w)"
  by (simp add: CWWTPEnterJoin_def join_channels_def exchange_handled_def CWErr_def ex_machine_def ex_queue_def ex_events_def timer_add_def ex_left_def
      wait_expires_def CWWTPWaitJoinExpired_def Let_def timer_dequeue_def remove_wait_def ample_malloc [OF ample_all])

text \<open>
  The WTP is started with the address of its AC, whose data socket fails at first; the timer that join has
  left runs out, and after it a join in which everything succeeds ends in Discovery.
\<close>

theorem expired_join_is_final_witness:
  "\<exists>w. CWWTPEnterJoin (\<lambda>_. True) ex_info (ex_events False) ex_machine = Some (Ret CW_ENTER_DISCOVERY, ex_left) \<and>
     CWWTPEnterJoin (\<lambda>_. True) ex_info (ex_events True) (wait_expires 4 ex_left) = Some (Ret CW_ENTER_DISCOVERY, w) \<and>
     wtp_steps (CW_ENTER_JOIN, wait_expires 4 ex_left) (CW_ENTER_DISCOVERY, w) \<and>
     CW_ENTER_DISCOVERY \<notin> {CW_ENTER_CONFIGURE, CW_ENTER_DATA_CHECK, CW_ENTER_RUN}"
proof -
  obtain w where w: "CWWTPEnterJoin (\<lambda>_. True) ex_info (ex_events True) (wait_expires 4 ex_left) = Some (Ret CW_ENTER_DISCOVERY, w)"
    using ex_left_joins by blast
  have steps: "wtp_steps (CW_ENTER_JOIN, wait_expires 4 ex_left) (CW_ENTER_DISCOVERY, w)"
    by (rule wtp_steps.trans [OF wtp_steps.refl wtp_step.join [OF w]])
  with w ex_left(1) expired_join_is_final [OF ex_left(2) _ steps] show ?thesis by blast
qed

text \<open>A WTP with a forced address reaches the Run state.\<close>

lemma wtp_reaches_run:
  "\<exists>w. wtp_steps (wtp_start True ex_discovery ex_queue) (CW_ENTER_RUN, w) \<and> gACInfoPtr (discovery w) = Some ex_info"
proof -
  have s: "wtp_start True ex_discovery ex_queue = (CW_ENTER_JOIN, ex_machine)"
    by (simp add: wtp_start_def ex_machine_def)
  obtain w where w: "CWWTPEnterJoin (\<lambda>_. True) ex_info (ex_events True) ex_machine = Some (Ret CW_ENTER_CONFIGURE, w)"
    "gACInfoPtr (discovery w) = Some ex_info"
    by (simp add: CWWTPEnterJoin_def join_channels_def exchange_handled_def CWErr_def ex_machine_def ex_queue_def ex_events_def timer_add_def
        remove_wait_def Let_def ample_malloc [OF ample_all])
  have c: "wtp_step (CW_ENTER_CONFIGURE, w) (CW_ENTER_DATA_CHECK, w)" "wtp_step (CW_ENTER_DATA_CHECK, w) (CW_ENTER_RUN, w)"
    using wtp_step.configure [of _ "Acked ()" w] wtp_step.data_check [of _ "Acked ()"]
    by (simp_all add: CWWTPEnterConfigure_def CWWTPEnterDataCheck_def exchange_handled_def CWErr_def)
  show ?thesis
    unfolding s using w(2) wtp_steps.trans [OF wtp_steps.trans [OF wtp_steps.trans [OF wtp_steps.refl wtp_step.join [OF w(1)]] c(1)] c(2)]
    by blast
qed

theorem wtp_ac_known_witness:
  "\<exists>w. wtp_steps (wtp_start True ex_discovery ex_queue) (CW_ENTER_RUN, w) \<and> gACInfoPtr (discovery w) \<noteq> None"
proof -
  obtain w where "wtp_steps (wtp_start True ex_discovery ex_queue) (CW_ENTER_RUN, w)" using wtp_reaches_run by blast
  with wtp_ac_known [OF this] show ?thesis by blast
qed

end
