(* ===== verification/ConfigureMessages.thy ===== *)
theory ConfigureMessages
  imports JoinStates
begin

section \<open>Configure messages: WTPConfigureState.c and ACConfigureState.c\<close>

text \<open>
  After the Join the WTP reports its configuration, with the frequencies and the rates of its radios, and the AC
  answers with the timers and the QoS profiles of the radios. The elements of the profiles belong to the binding, and
  are parsed by the functions of the binding once more.

  As in the Join, a parse function gets the structure on its caller's stack, whatever it holds; a pointer that no
  element has set is \<open>None\<close>.
\<close>

subsection \<open>The request: WTP\<close>

text \<open>
  Four elements of a radio. The radio's first frequency is read from its list, which has no block before the radio's
  initialisation, and eight rates are read, however many there are; the rates are known by the index of the radio.
\<close>

definition radio_config :: "memory \<Rightarrow> int \<times> CWWTPRadioInfoValues \<Rightarrow> CWProtocolMessage res list" where
  "radio_config mem ir =
     (let p = gWTPPhyInfo (snd ir) in
      [CWAssembleMsgElemWTPRadioInformation mem (phy_radioID p) (phy_standardValue p),
       (case phy_frequencyList p of
          None \<Rightarrow> Fault
        | Some (f, pw) \<Rightarrow> CWAssembleMsgElemMultiDomainCapability mem (phy_radioID p) f (phy_totChannels p) pw),
       CWAssembleMsgElemMACOperation mem (phy_radioID p) (phy_fragmentationTreshold p) (phy_rtsThreshold p)
         (phy_shortRetry p) (phy_longRetry p) (phy_txMSDU p) (phy_rxMSDU p),
       (case phy_supportedRates p of
          None \<Rightarrow> Fault
        | Some rs \<Rightarrow> if length rs < CW_80211_MAX_SUPP_RATES then Fault
                     else CWAssembleMsgElemSupportedRates mem (fst ir) (take CW_80211_MAX_SUPP_RATES rs))])"

definition CWAssembleConfigureRequest ::
  "memory \<Rightarrow> eth \<Rightarrow> int \<Rightarrow> 32 word \<Rightarrow> wtp_globals \<Rightarrow> int \<Rightarrow> byte \<Rightarrow> CWProtocolMessage list res" where
  "CWAssembleConfigureRequest mem mac fid garbage w PMTU seq =
     (if \<not> malloc_ok mem (message_size * 9) then Raise CW_ERROR_OUT_OF_MEMORY
      else res_bind (fill_elements 9
        ([CWAssembleMsgElemACName_WTP mem w, CWAssembleMsgElemACNameWithIndex mem,
          CWAssembleMsgElemRadioAdminState mem w, CWAssembleMsgElemStatisticsTimer mem w,
          CWAssembleMsgElemWTPRebootStatistics mem w]
         @ concat (map (\<lambda>i. radio_config mem (int i, gRadiosInfo w ! i)) [0..<length (gRadiosInfo w)]))) (\<lambda>es.
        CWAssembleMessage mem mac fid garbage PMTU seq 5 es [] 0))"

subsection \<open>The request: AC\<close>

record PhyFrequencyInfoConfigureMessage = PhyFrequencyInfo +
  freq_lenSupportedRates :: int
  freq_supportedRates :: "byte list option"

record CWProtocolConfigureRequestValues =
  cfg_ACName :: "byte list option option"
  cfg_ACinWTP :: "(int \<times> byte list option) list"
  cfg_radioAdminInfo :: "CWRadioAdminInfoValues list"
  cfg_StatisticsTimer :: int
  cfg_WTPRebootStatistics :: "WTPRebootStatisticsInfo option option"
  cfg_numPhyActive :: nat
  cfg_singlePhyInfo :: "(int \<times> byte) list"
  cfg_phyFrequencyInfo :: "PhyFrequencyInfoConfigureMessage list"
  cfg_numPhyFrequencyInfo :: nat

definition no_frequencies :: PhyFrequencyInfoConfigureMessage where
  "no_frequencies = \<lparr> freq_radioID = 0, firstChannel = 0, totChannels = 0, maxTxPower = 0,
     freq_lenSupportedRates = 0, freq_supportedRates = None \<rparr>"

text \<open>
  The two arrays of the radios have five entries. An element that does not fit is counted, and the message is left
  at its body.
\<close>

definition config_radio ::
  "CWProtocolConfigureRequestValues \<Rightarrow> CWProtocolMessage \<Rightarrow> int \<Rightarrow>
   (CWProtocolConfigureRequestValues \<times> CWProtocolMessage) res" where
  "config_radio v m len =
     (let n = cfg_numPhyActive v in
      if n < WTP_RADIO_MAX then
        res_bind (CWParseWTPRadioInformation m len) (\<lambda>(p, m).
          Ret (v\<lparr> cfg_singlePhyInfo := (cfg_singlePhyInfo v)[n := p], cfg_numPhyActive := Suc n \<rparr>, m))
      else Ret (v\<lparr>cfg_numPhyActive := Suc n\<rparr>, m))"

definition config_frequency ::
  "CWProtocolConfigureRequestValues \<Rightarrow> CWProtocolMessage \<Rightarrow> int \<Rightarrow>
   (CWProtocolConfigureRequestValues \<times> CWProtocolMessage) res" where
  "config_frequency v m len =
     (let n = cfg_numPhyFrequencyInfo v in
      if n < WTP_RADIO_MAX then
        res_bind (CWParseWTPMultiDomainCapability m len) (\<lambda>(p, m).
          Ret (v\<lparr> cfg_phyFrequencyInfo := (cfg_phyFrequencyInfo v)[n := (cfg_phyFrequencyInfo v ! n)
                    \<lparr> freq_radioID := freq_radioID p, firstChannel := firstChannel p, totChannels := totChannels p,
                      maxTxPower := maxTxPower p \<rparr>],
                  cfg_numPhyFrequencyInfo := Suc n \<rparr>, m))
      else Ret (v\<lparr>cfg_numPhyFrequencyInfo := Suc n\<rparr>, m))"

text \<open>
  The rates are stored at the index that the element names. An element of the wrong length is not refused: the
  nine bytes that were read of it are skipped.
\<close>

definition config_rates ::
  "memory \<Rightarrow> CWProtocolConfigureRequestValues \<Rightarrow> CWProtocolMessage \<Rightarrow> int \<Rightarrow>
   (CWProtocolConfigureRequestValues \<times> CWProtocolMessage) res" where
  "config_rates mem v m len =
     (if \<not> malloc_ok mem (int CW_80211_MAX_SUPP_RATES) then Raise CW_ERROR_OUT_OF_MEMORY
      else case CWParseWTPSupportedRates m len of
        Fault \<Rightarrow> Fault
      | Raise e \<Rightarrow> Ret (v, m\<lparr>offset := offset m + 1 + CW_80211_MAX_SUPP_RATES\<rparr>)
      | Ret ((radioID, rs), m) \<Rightarrow>
          let i = nat (CWIEEEBindingGetIndexFromDevID radioID) in
          if WTP_RADIO_MAX \<le> i then Fault
          else if \<not> malloc_ok mem (int (length rs) + 1) then Raise CW_ERROR_OUT_OF_MEMORY
          else Ret (v\<lparr>cfg_phyFrequencyInfo := (cfg_phyFrequencyInfo v)[i := (cfg_phyFrequencyInfo v ! i)
                 \<lparr> freq_lenSupportedRates := int (length rs), freq_supportedRates := Some (rs @ [0]) \<rparr>]\<rparr>, m))"

text \<open>First pass. The state is the structure with the numbers of AC names and of administrative states.\<close>

definition config_branch ::
  "memory \<Rightarrow> CWProtocolConfigureRequestValues \<times> nat \<times> nat \<Rightarrow> 16 word \<Rightarrow> CWProtocolMessage \<Rightarrow> int \<Rightarrow>
   ((CWProtocolConfigureRequestValues \<times> nat \<times> nat) \<times> CWProtocolMessage) res" where
  "config_branch mem s elemType m elemLen =
     (case s of (v, na, nr) \<Rightarrow>
      let skipped = m\<lparr>offset := offset m + nat elemLen\<rparr> in
      if elemType = 4 then
        res_bind (CWParseACName mem m elemLen) (\<lambda>(x, m). Ret ((v\<lparr>cfg_ACName := Some x\<rparr>, na, nr), m))
      else if elemType = 5 then Ret ((v, Suc na, nr), skipped)
      else if elemType = 31 then Ret ((v, na, Suc nr), skipped)
      else if elemType = 36 then
        res_bind (CWParseWTPStatisticsTimer m elemLen) (\<lambda>(x, m). Ret ((v\<lparr>cfg_StatisticsTimer := x\<rparr>, na, nr), m))
      else if elemType = 48 then
        (if \<not> malloc_ok mem 32 then Raise CW_ERROR_OUT_OF_MEMORY
         else res_bind (CWParseWTPRebootStatistics m elemLen) (\<lambda>(x, m).
           Ret ((v\<lparr>cfg_WTPRebootStatistics := Some (Some x)\<rparr>, na, nr), m)))
      else if elemType = 1048 then res_bind (config_radio v m elemLen) (\<lambda>(v, m). Ret ((v, na, nr), m))
      else if elemType = 1032 then res_bind (config_frequency v m elemLen) (\<lambda>(v, m). Ret ((v, na, nr), m))
      else if elemType = 1030 then Ret (s, skipped)
      else if elemType = 1040 then res_bind (config_rates mem v m elemLen) (\<lambda>(v, m). Ret ((v, na, nr), m))
      else Raise CW_ERROR_INVALID_FORMAT)"

text \<open>
  Second pass, into arrays of the sizes counted. It walks over the message by the lengths of the elements, the first
  pass by what it read: the two can differ for rates of the wrong length.
\<close>

definition config_read_branch ::
  "memory \<Rightarrow> nat \<Rightarrow> nat \<Rightarrow> (int \<times> byte list option) list \<times> CWRadioAdminInfoValues list \<Rightarrow> 16 word \<Rightarrow>
   CWProtocolMessage \<Rightarrow> int \<Rightarrow>
   (((int \<times> byte list option) list \<times> CWRadioAdminInfoValues list) \<times> CWProtocolMessage) res" where
  "config_read_branch mem na nr s type m len =
     (case s of (as, rs) \<Rightarrow>
      if type = 5 then
        (if length as = na then Fault
         else res_bind (CWParseACNameWithIndex mem m len) (\<lambda>(x, m). Ret ((as @ [x], rs), m)))
      else if type = 31 then
        (if length rs = nr then Fault
         else res_bind (CWParseWTPRadioAdminState m len) (\<lambda>(x, m). Ret ((as, rs @ [x]), m)))
      else Ret (s, m\<lparr>offset := offset m + nat len\<rparr>))"

definition CWParseConfigureRequestMessage ::
  "memory \<Rightarrow> CWProtocolConfigureRequestValues \<Rightarrow> byte list \<Rightarrow> int \<Rightarrow>
   (byte \<times> CWProtocolConfigureRequestValues) res option" where
  "CWParseConfigureRequestMessage mem v bytes len =
     (if \<not> malloc_ok mem (int (WTP_RADIO_MAX * sizeof_WTPSinglePhyInfo)) \<or> \<not> malloc_ok mem (int (WTP_RADIO_MAX * 32))
      then Some (Raise CW_ERROR_OUT_OF_MEMORY)
      else run_bind (Some (parse_message_header 5 bytes)) (\<lambda>(seq, elemsLen, m).
           run_bind (parse_elements (config_branch mem) (offset m) elemsLen
             (v\<lparr> cfg_numPhyActive := 0, cfg_singlePhyInfo := replicate WTP_RADIO_MAX (0, 0),
                 cfg_phyFrequencyInfo := replicate WTP_RADIO_MAX no_frequencies, cfg_numPhyFrequencyInfo := 0 \<rparr>,
              0, 0) m) (\<lambda>((v, na, nr), m').
           if int (offset m') \<noteq> len then Some (Raise CW_ERROR_INVALID_FORMAT)
           else if \<not> malloc_ok mem (16 * int na) \<or> \<not> malloc_ok mem (12 * int nr)
           then Some (Raise CW_ERROR_OUT_OF_MEMORY)
           else run_bind (parse_elements (config_read_branch mem na nr) (offset m) elemsLen ([], []) m)
             (\<lambda>((as, rs), m'). Some (Ret (seq, v\<lparr> cfg_ACinWTP := as, cfg_radioAdminInfo := rs \<rparr>))))))"

subsection \<open>The response: AC\<close>

text \<open>
  The arguments after the AC's globals are those of the session: its administrative states, its QoS profiles, its
  radios, and the AC's default profiles, in which the binding merges. When the binding fails, seven entries of
  the array of six are freed.
\<close>

definition CWAssembleConfigureResponse ::
  "memory \<Rightarrow> eth \<Rightarrow> int \<Rightarrow> 32 word \<Rightarrow> bool \<Rightarrow> ac_globals \<Rightarrow> CWRadioAdminInfoValues list \<Rightarrow> WTPQosValues list option \<Rightarrow>
   int \<Rightarrow> CWWTPRadioInfoValues list \<Rightarrow> WTPQosValues list \<Rightarrow> int \<Rightarrow> byte \<Rightarrow>
   CWProtocolMessage list res \<times> WTPQosValues list" where
  "CWAssembleConfigureResponse mem mac fid garbage le ac admin aux n radios defaults PMTU seq =
     (if \<not> malloc_ok mem (message_size * 6) then (Raise CW_ERROR_OUT_OF_MEMORY, defaults)
      else case fill_elements 6
          [CWAssembleMsgElemACIPv4List mem le, CWAssembleMsgElemACIPv6List mem, CWAssembleMsgElemCWTimer mem ac,
           CWAssembleMsgElemDecryptErrorReportPeriod mem admin, CWAssembleMsgElemIdleTimeout mem ac,
           CWAssembleMsgElemWTPFallback mem] of
        Fault \<Rightarrow> (Fault, defaults)
      | Raise e \<Rightarrow> (Raise e, defaults)
      | Ret es \<Rightarrow>
          (case CWBindingAssembleConfigureResponse mem aux n radios defaults of
             (Ret bs, qs) \<Rightarrow> (CWAssembleMessage mem mac fid garbage PMTU seq 6 es bs 0, qs)
           | (_, qs) \<Rightarrow> (Fault, qs)))"

subsection \<open>The response: WTP\<close>

record CWProtocolConfigureResponseValues =
  cresp_ACIPv4List :: "32 word list"
  cresp_ACIPv6List :: "byte list list"
  cresp_discoveryTimer :: int
  cresp_echoRequestTimer :: int
  cresp_radioOperationalInfo :: "CWRadioOperationalInfoValues list"
  cresp_radiosDecryptErrorPeriod :: "(int \<times> int) list"
  cresp_idleTimeout :: int
  cresp_fallback :: int
  cresp_bindingValues :: "(byte \<times> WTPQosValues list) list option"

text \<open>First pass: the structure, two counters, and whether an element of the binding was seen.\<close>

definition cresp_branch ::
  "memory \<Rightarrow> CWProtocolConfigureResponseValues \<times> nat \<times> nat \<times> bool \<Rightarrow> 16 word \<Rightarrow> CWProtocolMessage \<Rightarrow> int \<Rightarrow>
   ((CWProtocolConfigureResponseValues \<times> nat \<times> nat \<times> bool) \<times> CWProtocolMessage) res" where
  "cresp_branch mem s type m len =
     (case s of (v, no, nd, found) \<Rightarrow>
      let skipped = m\<lparr>offset := offset m + nat len\<rparr> in
      if CWBindingCheckType (uint type) then Ret ((v, no, nd, True), skipped)
      else if type = 2 then
        res_bind (CWParseACIPv4List mem m len) (\<lambda>(x, m). Ret ((v\<lparr>cresp_ACIPv4List := x\<rparr>, no, nd, found), m))
      else if type = 3 then
        res_bind (CWParseACIPv6List mem m len) (\<lambda>(x, m). Ret ((v\<lparr>cresp_ACIPv6List := x\<rparr>, no, nd, found), m))
      else if type = 12 then
        res_bind (CWParseCWTimers m len) (\<lambda>((d, e), m).
          Ret ((v\<lparr> cresp_discoveryTimer := d, cresp_echoRequestTimer := e \<rparr>, no, nd, found), m))
      else if type = 32 then Ret ((v, Suc no, nd, found), skipped)
      else if type = 16 then Ret ((v, no, Suc nd, found), skipped)
      else if type = 23 then
        res_bind (CWParseIdleTimeout m len) (\<lambda>(x, m). Ret ((v\<lparr>cresp_idleTimeout := x\<rparr>, no, nd, found), m))
      else if type = 40 then
        res_bind (CWParseWTPFallback m len) (\<lambda>(x, m). Ret ((v\<lparr>cresp_fallback := x\<rparr>, no, nd, found), m))
      else Raise CW_ERROR_INVALID_FORMAT)"

definition cresp_read_branch ::
  "nat \<Rightarrow> nat \<Rightarrow> CWRadioOperationalInfoValues list \<times> (int \<times> int) list \<Rightarrow> 16 word \<Rightarrow> CWProtocolMessage \<Rightarrow> int \<Rightarrow>
   ((CWRadioOperationalInfoValues list \<times> (int \<times> int) list) \<times> CWProtocolMessage) res" where
  "cresp_read_branch no nd s type m len =
     (case s of (os, ds) \<Rightarrow>
      if type = 32 then
        (if length os = no then Fault
         else res_bind (CWParseWTPRadioOperationalState m len) (\<lambda>(x, m). Ret ((os @ [x], ds), m)))
      else if type = 16 then
        (if length ds = nd then Fault
         else res_bind (CWParseDecryptErrorReportPeriod m len) (\<lambda>(x, m). Ret ((os, ds @ [x]), m)))
      else Ret (s, m\<lparr>offset := offset m + nat len\<rparr>))"

text \<open>The functions of the binding get the elements from the first to the end of the message.\<close>

definition CWParseConfigureResponseMessage ::
  "memory \<Rightarrow> CWProtocolConfigureResponseValues \<Rightarrow> byte list \<Rightarrow> int \<Rightarrow> byte \<Rightarrow>
   CWProtocolConfigureResponseValues res option" where
  "CWParseConfigureResponseMessage mem v bytes len expected =
     run_bind (Some (parse_message_header 6 bytes)) (\<lambda>(seq, elemsLen, m).
     if seq \<noteq> expected then Some (Raise CW_ERROR_INVALID_FORMAT)
     else run_bind (parse_elements (cresp_branch mem) (offset m) elemsLen
            (v\<lparr> cresp_ACIPv4List := [], cresp_ACIPv6List := [], cresp_echoRequestTimer := 0,
                cresp_bindingValues := None \<rparr>, 0, 0, False) m) (\<lambda>((v, no, nd, found), m').
     if int (offset m') \<noteq> len then Some (Raise CW_ERROR_INVALID_FORMAT)
     else if \<not> malloc_ok mem (12 * int no) \<or> \<not> malloc_ok mem (8 * int nd)
     then Some (Raise CW_ERROR_OUT_OF_MEMORY)
     else run_bind (parse_elements (cresp_read_branch no nd) (offset m) elemsLen ([], []) m) (\<lambda>((os, ds), m').
     let v = v\<lparr> cresp_radioOperationalInfo := os, cresp_radiosDecryptErrorPeriod := ds \<rparr> in
     if found then run_bind (CWBindingParseConfigureResponse mem (drop (offset m) bytes) (len - int (offset m)))
            (\<lambda>b. Some (Ret (v\<lparr>cresp_bindingValues := Some b\<rparr>)))
     else Some (Ret v))))"

subsection \<open>The parse functions return\<close>

lemma config_offsets:
  "CWParseACName mem m l = Ret (a, m') \<Longrightarrow> int (offset m') = int (offset m) + l"
  "CWParseWTPStatisticsTimer m l = Ret (b, m') \<Longrightarrow> int (offset m') = int (offset m) + l"
  "CWParseWTPRebootStatistics m l = Ret (c, m') \<Longrightarrow> int (offset m') = int (offset m) + l"
  "CWParseWTPRadioInformation m l = Ret (d, m') \<Longrightarrow> int (offset m') = int (offset m) + l"
  "CWParseWTPMultiDomainCapability m l = Ret (e, m') \<Longrightarrow> int (offset m') = int (offset m) + l"
  "CWParseWTPSupportedRates m l = Ret (f, m') \<Longrightarrow> int (offset m') = int (offset m) + l"
  "CWParseACNameWithIndex mem m l = Ret (g, m') \<Longrightarrow> int (offset m') = int (offset m) + l"
  "CWParseWTPRadioAdminState m l = Ret (h, m') \<Longrightarrow> int (offset m') = int (offset m) + l"
  "CWParseCWTimers m l = Ret (i, m') \<Longrightarrow> int (offset m') = int (offset m) + l"
  "CWParseIdleTimeout m l = Ret (j, m') \<Longrightarrow> int (offset m') = int (offset m) + l"
  "CWParseWTPFallback m l = Ret (j, m') \<Longrightarrow> int (offset m') = int (offset m) + l"
  "CWParseWTPRadioOperationalState m l = Ret (k, m') \<Longrightarrow> int (offset m') = int (offset m) + l"
  "CWParseDecryptErrorReportPeriod m l = Ret (i, m') \<Longrightarrow> int (offset m') = int (offset m) + l"
  unfolding CWParseACName_def CWParseWTPStatisticsTimer_def CWParseWTPRebootStatistics_def
    CWParseWTPRadioInformation_def CWParseWTPMultiDomainCapability_def CWParseWTPSupportedRates_def
    CWParseACNameWithIndex_def CWParseWTPRadioAdminState_def CWParseCWTimers_def CWParseIdleTimeout_def
    CWParseWTPFallback_def CWParseWTPRadioOperationalState_def CWParseDecryptErrorReportPeriod_def
  by (fact framed_offset)+

lemma config_radio_forward:
  "\<lbrakk>config_radio v m l = Ret (v', m'); 0 \<le> l\<rbrakk> \<Longrightarrow> offset m \<le> offset m'"
  "\<lbrakk>config_frequency v m l = Ret (v', m'); 0 \<le> l\<rbrakk> \<Longrightarrow> offset m \<le> offset m'"
  "\<lbrakk>config_rates mem v m l = Ret (v', m'); 0 \<le> l\<rbrakk> \<Longrightarrow> offset m \<le> offset m'"
  by (auto simp: config_radio_def config_frequency_def config_rates_def Let_def res_simps
      split: if_splits res.splits prod.splits dest!: config_offsets)

interpretation config: forward_branch "config_branch mem" for mem
  by unfold_locales
     (auto simp: config_branch_def Let_def res_simps split: if_splits prod.splits
       dest!: config_offsets dest: config_radio_forward)

interpretation config_read: forward_branch "config_read_branch mem na nr" for mem na nr
  by unfold_locales
     (auto simp: config_read_branch_def res_simps split: if_splits prod.splits dest!: config_offsets)

interpretation cresp: forward_branch "cresp_branch mem" for mem
  by unfold_locales
     (auto simp: cresp_branch_def Let_def res_simps split: if_splits prod.splits
       dest!: config_offsets join_offsets)

interpretation cresp_read: forward_branch "cresp_read_branch no nd" for no nd
  by unfold_locales
     (auto simp: cresp_read_branch_def res_simps split: if_splits prod.splits dest!: config_offsets)

lemma configure_parsers_return:
  "CWParseConfigureRequestMessage mem v bytes len \<noteq> None"
  "CWParseConfigureResponseMessage mem u bytes len seq \<noteq> None"
  by (auto simp: CWParseConfigureRequestMessage_def CWParseConfigureResponseMessage_def run_bind_None_iff Let_def
      config.elements_end config_read.elements_end cresp.elements_end cresp_read.elements_end binding_parsers_return
      simp del: not_None_eq split: prod.splits if_splits)

subsection \<open>The request arrives\<close>

interpretation wtp_ac_name: msg_elem_exchange 4 "\<lambda>w. length (gACInfo_name w) < 65536" gACInfo_name
    "\<lambda>w. Some (gACInfo_name w)" CWAssembleMsgElemACName_WTP CWParseACName
  by unfold_locales (auto simp: CWAssembleMsgElemACName_WTP_def CWParseACName_def parse_frame wire)

interpretation ac_name_index: msg_elem_exchange 5 "\<lambda>(i, s). length s < 65535" "\<lambda>(i, s). word_of_int i # s"
    "\<lambda>(i, s). (i mod 256, Some s)" "\<lambda>mem (i, s). assemble_elem mem (1 + int (length s)) [i8 i, StoreStr s] 5"
    CWParseACNameWithIndex
  by unfold_locales (auto simp: CWParseACNameWithIndex_def parse_frame wire field_values)

interpretation admin_state: msg_elem_exchange 31 "\<lambda>_. True"
    "\<lambda>r. [word_of_int (admin_ID r), word_of_int (admin_state r)]"
    "\<lambda>r. \<lparr> admin_ID = admin_ID r mod 256, admin_state = admin_state r mod 256 \<rparr>"
    "\<lambda>mem r. assemble_elem mem 2 [i8 (admin_ID r), i8 (admin_state r)] 31" "\<lambda>mem. CWParseWTPRadioAdminState"
  by unfold_locales (auto simp: CWParseWTPRadioAdminState_def parse_frame wire field_values)

interpretation statistics_timer: msg_elem_exchange 36 "\<lambda>_. True" "\<lambda>w. be16 (word_of_int (gWTPStatisticsTimer w))"
    "\<lambda>w. gWTPStatisticsTimer w mod 65536" CWAssembleMsgElemStatisticsTimer "\<lambda>mem. CWParseWTPStatisticsTimer"
  by unfold_locales
     (auto simp: CWAssembleMsgElemStatisticsTimer_def CWParseWTPStatisticsTimer_def parse_frame wire field_values)

abbreviation primary :: "byte list" where "primary \<equiv> bytes_of_string ''ACPrimary''"
abbreviation secondary :: "byte list" where "secondary \<equiv> bytes_of_string ''ACSecondary''"

lemma length_ac_names [simp]: "length primary = 9" "length secondary = 11"
  by (simp_all add: bytes_of_string_def)

lemma ac_names_eq:
  assumes "ample mem"
  shows "CWAssembleMsgElemACNameWithIndex mem = Ret (wmsg (elem_bytes 5 (0 # primary) @ elem_bytes 5 (1 # secondary)) 0)"
proof -
  have "assemble_each mem (\<lambda>(i, s). assemble_elem mem (1 + int (length s)) [i8 i, StoreStr s] 5)
      [(0, primary), (1, secondary)] =
    Ret (wmsg (concat (map (\<lambda>v. elem_bytes 5 ((\<lambda>(i, s). word_of_int i # s) v)) [(0, primary), (1, secondary)])) 0)"
    by (rule assemble_each_eq [OF assms ac_name_index.assemble_law [OF assms]]) auto
  then show ?thesis
    using assms by (simp add: CWAssembleMsgElemACNameWithIndex_def CWWTPGetACNameWithIndex_def Let_def ample_malloc)
qed

abbreviation admin_body :: "CWWTPRadioInfoValues \<Rightarrow> byte list" where
  "admin_body r \<equiv> [word_of_int (radio_radioID r), word_of_int (radio_adminState r)]"

lemma admin_states_eq:
  assumes "ample mem"
  shows "CWAssembleMsgElemRadioAdminState mem w =
    Ret (wmsg (concat (map (\<lambda>r. elem_bytes 31 (admin_body r)) (gRadiosInfo w))) 0)"
proof -
  have "assemble_each mem (\<lambda>r. assemble_elem mem 2 [i8 (admin_ID r), i8 (admin_state r)] 31) (map admin_info (gRadiosInfo w)) =
    Ret (wmsg (concat (map (\<lambda>r. elem_bytes 31 [word_of_int (admin_ID r), word_of_int (admin_state r)])
      (map admin_info (gRadiosInfo w)))) 0)"
    by (rule assemble_each_eq [OF assms admin_state.assemble_law [OF assms TrueI]])
  then show ?thesis
    using assms by (simp add: CWAssembleMsgElemRadioAdminState_def CWGetWTPRadiosAdminState_WTP_def ample_malloc comp_def)
qed

text \<open>A radio that can be described: its frequencies were read, and it has at least eight rates.\<close>

definition radio_ready :: "CWWTPRadioInfoValues \<Rightarrow> bool" where
  "radio_ready r \<longleftrightarrow> phy_frequencyList (gWTPPhyInfo r) \<noteq> None \<and>
     (\<exists>rs. phy_supportedRates (gWTPPhyInfo r) = Some rs \<and> 8 \<le> length rs)"

definition domain_body :: "CWWTPRadioInfoValues \<Rightarrow> byte list" where
  "domain_body r =
     (let p = gWTPPhyInfo r; f = the (phy_frequencyList p) in
      word_of_int (phy_radioID p) # 0 # be16 (word_of_int (fst f)) @ be16 (word_of_int (phy_totChannels p)) @
      be16 (word_of_int (snd f)))"

definition mac_body :: "CWWTPRadioInfoValues \<Rightarrow> byte list" where
  "mac_body r =
     (let p = gWTPPhyInfo r in
      calls_bytes [i8 (phy_radioID p), Store8 0, i16 (phy_rtsThreshold p), Store8 (phy_shortRetry p),
        Store8 (phy_longRetry p), i16 (phy_fragmentationTreshold p), i32 (phy_txMSDU p), i32 (phy_rxMSDU p)])"

abbreviation phy_pair :: "CWWTPRadioInfoValues \<Rightarrow> int \<times> byte" where
  "phy_pair r \<equiv> (phy_radioID (gWTPPhyInfo r), phy_standardValue (gWTPPhyInfo r))"

abbreviation eight_rates :: "CWWTPRadioInfoValues \<Rightarrow> byte list" where
  "eight_rates r \<equiv> take 8 (the (phy_supportedRates (gWTPPhyInfo r)))"

abbreviation config_radio_bytes :: "int \<Rightarrow> CWWTPRadioInfoValues \<Rightarrow> byte list" where
  "config_radio_bytes i r \<equiv>
     elem_bytes 1048 (radio_body (phy_pair r)) @ elem_bytes 1032 (domain_body r) @ elem_bytes 1030 (mac_body r) @
     elem_bytes 1040 (word_of_int i # eight_rates r)"

lemma length_radio_bodies [simp]: "length (domain_body r) = 8" "length (mac_body r) = 16"
  by (simp_all add: domain_body_def mac_body_def Let_def)

lemma radio_config_eq:
  assumes "ample mem" "radio_ready r"
  shows "radio_config mem (i, r) = map Ret [elem_msg 1048 (radio_body (phy_pair r)), elem_msg 1032 (domain_body r),
    elem_msg 1030 (mac_body r), elem_msg 1040 (word_of_int i # eight_rates r)]"
proof -
  obtain f pw rs where r: "phy_frequencyList (gWTPPhyInfo r) = Some (f, pw)" "phy_supportedRates (gWTPPhyInfo r) = Some rs"
    "8 \<le> length rs" using assms(2) by (auto simp: radio_ready_def)
  then have "take 8 rs \<noteq> []" by auto
  with r assms(1) show ?thesis
    using radio_information.assemble_law [OF assms(1) TrueI, of "phy_pair r"]
      multi_domain.assemble_law [OF assms(1) TrueI, of "(phy_radioID (gWTPPhyInfo r), f, phy_totChannels (gWTPPhyInfo r), pw)"]
      supported_rates.assemble_law [OF assms(1), of "(i, take 8 rs)"]
    by (simp add: radio_config_def Let_def domain_body_def mac_body_def CWAssembleMsgElemMACOperation_def wire)
qed

lemma radio_config_Ret_Fault:
  assumes "ample mem" "e \<in> set (radio_config mem ir)"
  shows "(\<exists>m. e = Ret m) \<or> e = Fault"
  using assms
  by (auto simp: radio_config_def Let_def CWAssembleMsgElemWTPRadioInformation_def CWAssembleMsgElemMACOperation_def
      CWAssembleMsgElemMultiDomainCapability_def CWAssembleMsgElemSupportedRates_def wire split: option.splits if_splits)

definition config_messages :: "wtp_globals \<Rightarrow> CWProtocolMessage list" where
  "config_messages w =
     [elem_msg 4 (gACInfo_name w), wmsg (elem_bytes 5 (0 # primary) @ elem_bytes 5 (1 # secondary)) 0,
      wmsg (concat (map (\<lambda>r. elem_bytes 31 (admin_body r)) (gRadiosInfo w))) 0,
      elem_msg 36 (be16 (word_of_int (gWTPStatisticsTimer w))), elem_msg 48 (reboot_body w)] @
     concat (map (\<lambda>r. [elem_msg 1048 (radio_body (phy_pair r)), elem_msg 1032 (domain_body r),
       elem_msg 1030 (mac_body r), elem_msg 1040 (0 # eight_rates r)]) (gRadiosInfo w))"

abbreviation config_elements :: "wtp_globals \<Rightarrow> byte list" where
  "config_elements w \<equiv>
     elem_bytes 4 (gACInfo_name w) @ elem_bytes 5 (0 # primary) @ elem_bytes 5 (1 # secondary) @
     concat (map (\<lambda>r. elem_bytes 31 (admin_body r)) (gRadiosInfo w)) @
     elem_bytes 36 (be16 (word_of_int (gWTPStatisticsTimer w))) @ elem_bytes 48 (reboot_body w) @
     concat (map (config_radio_bytes 0) (gRadiosInfo w))"

lemma concat_concat_map: "concat (concat (map f xs)) = concat (map (\<lambda>x. concat (f x)) xs)"
  by (induction xs) auto

lemma config_messages_bytes:
  "message_elements (config_messages w @ replicate n no_message) = config_elements w"
  by (simp add: config_messages_def message_elements_def comp_def map_concat concat_concat_map del: reboot_body.simps)

lemma assemble_configure_request:
  assumes "ample mem" "length (gACInfo_name w) < 65536" "\<forall>r \<in> set (gRadiosInfo w). radio_ready r"
  shows "CWAssembleConfigureRequest mem mac fid garbage w PMTU seq =
    (if 1 < length (gRadiosInfo w) then Fault
     else CWAssembleMessage mem mac fid garbage PMTU seq 5
       (config_messages w @ replicate (4 - 4 * length (gRadiosInfo w)) no_message) [] 0)"
proof -
  let ?rs = "gRadiosInfo w"
  let ?five = "[CWAssembleMsgElemACName_WTP mem w, CWAssembleMsgElemACNameWithIndex mem,
    CWAssembleMsgElemRadioAdminState mem w, CWAssembleMsgElemStatisticsTimer mem w,
    CWAssembleMsgElemWTPRebootStatistics mem w]"
  let ?radios = "concat (map (\<lambda>i. radio_config mem (int i, ?rs ! i)) [0..<length ?rs])"
  have five: "?five = map Ret (take 5 (config_messages w))"
    using wtp_ac_name.assemble_law [OF assms(1,2)] ac_names_eq [OF assms(1)] admin_states_eq [OF assms(1)]
      statistics_timer.assemble_law [OF assms(1) TrueI] reboot_statistics.assemble_law [OF assms(1) TrueI]
    by (simp add: config_messages_def del: reboot_body.simps)
  show ?thesis
  proof (cases "1 < length ?rs")
    case True
    then have "2 \<le> length ?rs" by simp
    moreover have "length ?radios = 4 * length ?rs" by (simp add: length_concat comp_def radio_config_def Let_def sum_list_triv)
    ultimately have "9 < length (?five @ ?radios)" by simp
    moreover have "\<forall>e \<in> set (?five @ ?radios). (\<exists>m. e = Ret m) \<or> e = Fault"
    proof
      fix e assume "e \<in> set (?five @ ?radios)"
      then have "e \<in> set (map Ret (take 5 (config_messages w))) \<or> (\<exists>ir. e \<in> set (radio_config mem ir))"
        unfolding five by auto
      then show "(\<exists>m. e = Ret m) \<or> e = Fault" using radio_config_Ret_Fault [OF assms(1)] by auto
    qed
    ultimately have "fill_elements 9 (?five @ ?radios) = Fault" by (rule fill_elements_overflow)
    with True assms(1) show ?thesis by (simp add: CWAssembleConfigureRequest_def ample_malloc)
  next
    case False
    then consider "?rs = []" | r where "?rs = [r]" by (cases ?rs; cases "tl ?rs") auto
    then have "?five @ ?radios = map Ret (config_messages w)"
    proof cases
      case 2
      then show ?thesis
        using five radio_config_eq [OF assms(1), of r 0] assms(3) by (simp add: config_messages_def del: reboot_body.simps)
    qed (use five in \<open>simp add: config_messages_def del: reboot_body.simps\<close>)
    moreover have "length (config_messages w) = 5 + 4 * length ?rs"
      by (simp add: config_messages_def length_concat comp_def sum_list_triv)
    ultimately show ?thesis
      using False assms(1) fill_elements_Ret [of 9 "config_messages w"]
      by (simp add: CWAssembleConfigureRequest_def ample_malloc)
  qed
qed

text \<open>One step of the first pass for each element.\<close>

lemma config_steps:
  assumes "ample mem" "int (length bs) - int start < len"
  shows "length (gACInfo_name w) < 65536 \<Longrightarrow>
      parse_elements (config_branch mem) start len (v, na, nr) (rmsg bs (elem_bytes 4 (gACInfo_name w) @ rest) x) =
      parse_elements (config_branch mem) start len (v\<lparr>cfg_ACName := Some (Some (gACInfo_name w))\<rparr>, na, nr)
        (rmsg (bs @ elem_bytes 4 (gACInfo_name w)) rest x)"
    and "length b < 65536 \<Longrightarrow>
      parse_elements (config_branch mem) start len (v, na, nr) (rmsg bs (elem_bytes 5 b @ rest) x) =
      parse_elements (config_branch mem) start len (v, Suc na, nr) (rmsg (bs @ elem_bytes 5 b) rest x)"
    and "length b < 65536 \<Longrightarrow>
      parse_elements (config_branch mem) start len (v, na, nr) (rmsg bs (elem_bytes 31 b @ rest) x) =
      parse_elements (config_branch mem) start len (v, na, Suc nr) (rmsg (bs @ elem_bytes 31 b) rest x)"
    and "parse_elements (config_branch mem) start len (v, na, nr)
        (rmsg bs (elem_bytes 36 (be16 (word_of_int (gWTPStatisticsTimer w))) @ rest) x) =
      parse_elements (config_branch mem) start len (v\<lparr>cfg_StatisticsTimer := gWTPStatisticsTimer w mod 65536\<rparr>, na, nr)
        (rmsg (bs @ elem_bytes 36 (be16 (word_of_int (gWTPStatisticsTimer w)))) rest x)"
    and "parse_elements (config_branch mem) start len (v, na, nr) (rmsg bs (elem_bytes 48 (reboot_body w) @ rest) x) =
      parse_elements (config_branch mem) start len (v\<lparr>cfg_WTPRebootStatistics := Some (Some (reboot_view w))\<rparr>, na, nr)
        (rmsg (bs @ elem_bytes 48 (reboot_body w)) rest x)"
    and "cfg_numPhyActive v < 5 \<Longrightarrow>
      parse_elements (config_branch mem) start len (v, na, nr) (rmsg bs (elem_bytes 1048 (radio_body rp) @ rest) x) =
      parse_elements (config_branch mem) start len
        (v\<lparr> cfg_singlePhyInfo := (cfg_singlePhyInfo v)[cfg_numPhyActive v := phy_view rp],
            cfg_numPhyActive := Suc (cfg_numPhyActive v) \<rparr>, na, nr)
        (rmsg (bs @ elem_bytes 1048 (radio_body rp)) rest x)"
    and "length b < 65536 \<Longrightarrow>
      parse_elements (config_branch mem) start len (v, na, nr) (rmsg bs (elem_bytes 1030 b @ rest) x) =
      parse_elements (config_branch mem) start len (v, na, nr) (rmsg (bs @ elem_bytes 1030 b) rest x)"
  using wtp_ac_name.parse_elements_exchange [OF assms(1) _ assms(2), where branch = "config_branch mem"
      and v = w and s = "(v, na, nr)" and upd = "\<lambda>x. (v\<lparr>cfg_ACName := Some x\<rparr>, na, nr)"]
    parse_elements_skip [OF assms(2), where t = 5 and branch = "config_branch mem" and s = "(v, na, nr)"
      and s' = "(v, Suc na, nr)" and body = b]
    parse_elements_skip [OF assms(2), where t = 31 and branch = "config_branch mem" and s = "(v, na, nr)"
      and s' = "(v, na, Suc nr)" and body = b]
    statistics_timer.parse_elements_exchange [OF assms(1) TrueI assms(2), where branch = "config_branch mem"
      and v = w and s = "(v, na, nr)" and upd = "\<lambda>x. (v\<lparr>cfg_StatisticsTimer := x\<rparr>, na, nr)"]
    reboot_statistics.parse_elements_exchange [OF assms(1) TrueI assms(2), where branch = "config_branch mem"
      and v = w and s = "(v, na, nr)" and upd = "\<lambda>x. (v\<lparr>cfg_WTPRebootStatistics := Some (Some x)\<rparr>, na, nr)"]
    radio_information.parse_elements_exchange [OF assms(1) TrueI assms(2), where branch = "config_branch mem"
      and v = rp and s = "(v, na, nr)" and upd = "\<lambda>x. (v\<lparr> cfg_singlePhyInfo := (cfg_singlePhyInfo v)[cfg_numPhyActive v := x],
          cfg_numPhyActive := Suc (cfg_numPhyActive v) \<rparr>, na, nr)"]
    parse_elements_skip [OF assms(2), where t = 1030 and branch = "config_branch mem" and s = "(v, na, nr)"
      and s' = "(v, na, nr)" and body = b] assms(1)
  by (simp_all add: config_branch_def config_radio_def Let_def split_def ample_malloc res_bind_assoc del: reboot_body.simps reboot_view.simps)

text \<open>The first radio's frequencies and rates.\<close>

definition frequencies_view :: "CWWTPRadioInfoValues \<Rightarrow> PhyFrequencyInfoConfigureMessage" where
  "frequencies_view r =
     (let p = gWTPPhyInfo r; f = the (phy_frequencyList p) in
      \<lparr> freq_radioID = phy_radioID p mod 256, firstChannel = fst f mod 65536, totChannels = phy_totChannels p mod 65536,
        maxTxPower = snd f mod 65536, freq_lenSupportedRates = 8, freq_supportedRates = Some (eight_rates r @ [0]) \<rparr>)"

lemma config_step_domain:
  assumes "ample mem" "int (length bs) - int start < len" "cfg_numPhyFrequencyInfo v = 0"
    "cfg_phyFrequencyInfo v = no_frequencies # fs"
  shows "parse_elements (config_branch mem) start len (v, na, nr) (rmsg bs (elem_bytes 1032 (domain_body r) @ rest) x) =
    parse_elements (config_branch mem) start len
      (v\<lparr> cfg_phyFrequencyInfo := (frequencies_view r)\<lparr> freq_lenSupportedRates := 0, freq_supportedRates := None \<rparr> #
            fs, cfg_numPhyFrequencyInfo := 1 \<rparr>, na, nr)
      (rmsg (bs @ elem_bytes 1032 (domain_body r)) rest x)"
  using multi_domain.parse_elements_exchange [OF assms(1) TrueI assms(2), where branch = "config_branch mem"
      and v = "(phy_radioID (gWTPPhyInfo r), fst (the (phy_frequencyList (gWTPPhyInfo r))), phy_totChannels (gWTPPhyInfo r),
        snd (the (phy_frequencyList (gWTPPhyInfo r))))" and s = "(v, na, nr)"
      and upd = "\<lambda>p. (v\<lparr> cfg_phyFrequencyInfo := (cfg_phyFrequencyInfo v)[0 := (cfg_phyFrequencyInfo v ! 0)
                    \<lparr> freq_radioID := freq_radioID p, firstChannel := firstChannel p, totChannels := totChannels p,
                      maxTxPower := maxTxPower p \<rparr>], cfg_numPhyFrequencyInfo := Suc 0 \<rparr>, na, nr)"] assms(3,4)
  by (simp add: config_branch_def config_frequency_def Let_def split_def res_bind_assoc domain_body_def frequencies_view_def
      no_frequencies_def)

lemma config_step_rates:
  assumes "ample mem" "int (length bs) - int start < len" "radio_ready r"
    "cfg_phyFrequencyInfo v = (frequencies_view r)\<lparr> freq_lenSupportedRates := 0, freq_supportedRates := None \<rparr> # fs"
  shows "parse_elements (config_branch mem) start len (v, na, nr) (rmsg bs (elem_bytes 1040 (0 # eight_rates r) @ rest) x) =
    parse_elements (config_branch mem) start len (v\<lparr>cfg_phyFrequencyInfo := frequencies_view r # fs\<rparr>, na, nr)
      (rmsg (bs @ elem_bytes 1040 (0 # eight_rates r)) rest x)"
proof -
  have l: "length (eight_rates r) = 8" using assms(3) by (auto simp: radio_ready_def)
  then have ok: "eight_rates r \<noteq> []" by auto
  have p: "CWParseWTPSupportedRates (rmsg bs ((0 # eight_rates r) @ rest) x) 9 =
      Ret ((0, eight_rates r), rmsg (bs @ 0 # eight_rates r) rest x)" for bs rest x
    using supported_rates.parse_law [OF assms(1), of "(0, eight_rates r)" bs rest x] ok l by simp
  show ?thesis
  proof (rule parse_elements_step [OF assms(2)])
    have "p\<lparr> freq_lenSupportedRates := 8, freq_supportedRates := Some (eight_rates r @ [0]) \<rparr> = frequencies_view r"
      if "p = (frequencies_view r)\<lparr> freq_lenSupportedRates := 0, freq_supportedRates := None \<rparr>" for p
      using that by (simp add: frequencies_view_def Let_def)
    then show "config_branch mem (v, na, nr) (ucast (1040 :: 32 word))
        (rmsg (bs @ be16 (ucast (1040 :: 32 word)) @ be16 (word_of_nat (length (0 # eight_rates r))))
          ((0 # eight_rates r) @ rest) x) (int (length (0 # eight_rates r))) =
      Ret ((v\<lparr>cfg_phyFrequencyInfo := frequencies_view r # fs\<rparr>, na, nr),
        rmsg (bs @ elem_bytes 1040 (0 # eight_rates r)) rest x)"
      using p [of "bs @ be16 (ucast (1040 :: 32 word)) @ be16 (word_of_nat (length (0 # eight_rates r)))" rest x] l assms(1,4)
      by (simp add: config_branch_def config_rates_def CWIEEEBindingGetIndexFromDevID_def ample_malloc elem_bytes_def)
  qed (use l in simp)
qed

text \<open>What the AC makes of the request of a WTP with at most one radio.\<close>

definition config_view :: "wtp_globals \<Rightarrow> CWProtocolConfigureRequestValues" where
  "config_view w =
     (let rs = gRadiosInfo w in
      \<lparr> cfg_ACName = Some (Some (gACInfo_name w)), cfg_ACinWTP = [(0, Some primary), (1, Some secondary)],
        cfg_radioAdminInfo =
          map (\<lambda>r. \<lparr> admin_ID = radio_radioID r mod 256, admin_state = radio_adminState r mod 256 \<rparr>) rs,
        cfg_StatisticsTimer = gWTPStatisticsTimer w mod 65536,
        cfg_WTPRebootStatistics = Some (Some (reboot_view w)), cfg_numPhyActive = length rs,
        cfg_singlePhyInfo = map (\<lambda>r. phy_view (phy_pair r)) rs @ replicate (5 - length rs) (0, 0),
        cfg_phyFrequencyInfo = map frequencies_view rs @ replicate (5 - length rs) no_frequencies,
        cfg_numPhyFrequencyInfo = length rs \<rparr>)"

lemma length_reboot_body [simp]: "length (reboot_body w) = 15"
  by (simp add: Let_def)

lemma five: "replicate 5 x = [x, x, x, x, x]" "replicate 4 x = [x, x, x, x]"
  by (simp_all add: numeral_eq_Suc)

lemma length_config_elements:
  assumes "\<forall>r \<in> set (gRadiosInfo w). radio_ready r"
  shows "length (config_elements w) = 59 + length (gACInfo_name w) + 60 * length (gRadiosInfo w)"
proof -
  have "length (concat (map (config_radio_bytes 0) rs)) = 54 * length rs" if "\<forall>r \<in> set rs. radio_ready r" for rs
    using that by (induction rs) (auto simp: radio_ready_def)
  moreover have "length (concat (map (\<lambda>r. elem_bytes 31 (admin_body r)) rs)) = 6 * length rs" for rs
    by (induction rs) auto
  ultimately show ?thesis using assms by (simp del: reboot_body.simps)
qed

lemma parse_config_elements:
  assumes "ample mem" "length (gACInfo_name w) < 65000" "length (gRadiosInfo w) \<le> 1"
    "\<forall>r \<in> set (gRadiosInfo w). radio_ready r" "len = int (length (config_elements w))"
  shows "parse_elements (config_branch mem) (length bs) len
      (v\<lparr> cfg_numPhyActive := 0, cfg_singlePhyInfo := replicate 5 (0, 0),
          cfg_phyFrequencyInfo := replicate 5 no_frequencies, cfg_numPhyFrequencyInfo := 0 \<rparr>, 0, 0)
      (rmsg bs (config_elements w @ junk) x) =
    Some (Ret (((config_view w)\<lparr> cfg_ACinWTP := cfg_ACinWTP v, cfg_radioAdminInfo := cfg_radioAdminInfo v \<rparr>,
        2, length (gRadiosInfo w)), rmsg (bs @ config_elements w) junk x))"
proof -
  have len: "len = 59 + int (length (gACInfo_name w)) + 60 * int (length (gRadiosInfo w))"
    using length_config_elements [OF assms(4)] assms(5) by simp
  note radio = config_steps(6) [OF assms(1), where rp = "(i, p)" for i p, simplified]
  note steps = config_steps [OF assms(1)] radio config_step_domain [OF assms(1)] config_step_rates [OF assms(1)]
  consider "gRadiosInfo w = []" | r where "gRadiosInfo w = [r]" "radio_ready r"
    using assms(3,4) by (cases "gRadiosInfo w"; cases "tl (gRadiosInfo w)") auto
  then show ?thesis
  proof cases
    case 1
    then show ?thesis using assms(2) len
      by (cases v) (simp add: steps parse_elements_end config_view_def Let_def five del: reboot_body.simps reboot_view.simps)
  next
    case 2
    then have "length (eight_rates r) = 8" by (auto simp: radio_ready_def)
    with 2 show ?thesis using assms(2) len
      by (cases v) (simp add: steps parse_elements_end config_view_def Let_def five del: reboot_body.simps reboot_view.simps)
  qed
qed

text \<open>The second pass.\<close>

lemma config_read_steps:
  assumes "ample mem" "int (length bs) - int start < len"
  shows "\<lbrakk>length as \<noteq> na; length n < 65535\<rbrakk> \<Longrightarrow>
      parse_elements (config_read_branch mem na nr) start len (as, rs) (rmsg bs (elem_bytes 5 (word_of_int i # n) @ rest) x) =
      parse_elements (config_read_branch mem na nr) start len (as @ [(i mod 256, Some n)], rs)
        (rmsg (bs @ elem_bytes 5 (word_of_int i # n)) rest x)"
    and "length rs \<noteq> nr \<Longrightarrow>
      parse_elements (config_read_branch mem na nr) start len (as, rs)
        (rmsg bs (elem_bytes 31 [word_of_int i, word_of_int j] @ rest) x) =
      parse_elements (config_read_branch mem na nr) start len
        (as, rs @ [\<lparr> admin_ID = i mod 256, admin_state = j mod 256 \<rparr>])
        (rmsg (bs @ elem_bytes 31 [word_of_int i, word_of_int j]) rest x)"
    and "\<lbrakk>ucast t \<noteq> (5 :: 16 word); ucast t \<noteq> (31 :: 16 word); length b < 65536\<rbrakk> \<Longrightarrow>
      parse_elements (config_read_branch mem na nr) start len (as, rs) (rmsg bs (elem_bytes t b @ rest) x) =
      parse_elements (config_read_branch mem na nr) start len (as, rs) (rmsg (bs @ elem_bytes t b) rest x)"
  using ac_name_index.parse_elements_exchange [OF assms(1) _ assms(2), where branch = "config_read_branch mem na nr"
      and v = "(i, n)" and s = "(as, rs)" and upd = "\<lambda>x. (as @ [x], rs)"]
    admin_state.parse_elements_exchange [OF assms(1) TrueI assms(2), where branch = "config_read_branch mem na nr"
      and v = "\<lparr> admin_ID = i, admin_state = j \<rparr>" and s = "(as, rs)" and upd = "\<lambda>x. (as, rs @ [x])"]
    parse_elements_skip [OF assms(2), where t = t and branch = "config_read_branch mem na nr" and s = "(as, rs)"
      and s' = "(as, rs)" and body = b]
  by (simp_all add: config_read_branch_def)

lemma parse_config_read:
  assumes "ample mem" "length (gACInfo_name w) < 65000" "length (gRadiosInfo w) \<le> 1"
    "\<forall>r \<in> set (gRadiosInfo w). radio_ready r" "len = int (length (config_elements w))"
  shows "parse_elements (config_read_branch mem 2 (length (gRadiosInfo w))) (length bs) len ([], [])
      (rmsg bs (config_elements w @ junk) x) =
    Some (Ret ((cfg_ACinWTP (config_view w), cfg_radioAdminInfo (config_view w)), rmsg (bs @ config_elements w) junk x))"
proof -
  have len: "len = 59 + int (length (gACInfo_name w)) + 60 * int (length (gRadiosInfo w))"
    using length_config_elements [OF assms(4)] assms(5) by simp
  note steps = config_read_steps [OF assms(1)] config_read_steps(1) [OF assms(1), where i = 0, simplified]
    config_read_steps(1) [OF assms(1), where i = 1, simplified]
  consider "gRadiosInfo w = []" | r where "gRadiosInfo w = [r]" "radio_ready r"
    using assms(3,4) by (cases "gRadiosInfo w"; cases "tl (gRadiosInfo w)") auto
  then show ?thesis
  proof cases
    case 1
    then show ?thesis using assms(2) len
      by (simp add: steps parse_elements_end config_view_def Let_def del: reboot_body.simps reboot_view.simps)
  next
    case 2
    then have "length (eight_rates r) = 8" by (auto simp: radio_ready_def)
    with 2 show ?thesis using assms(2) len
      by (simp add: steps parse_elements_end config_view_def Let_def del: reboot_body.simps reboot_view.simps)
  qed
qed

lemma parse_configure_request:
  assumes "ample mem" "length (gACInfo_name w) < 65000" "length (gRadiosInfo w) \<le> 1"
    "\<forall>r \<in> set (gRadiosInfo w). radio_ready r" "e = config_elements w"
  shows "CWParseConfigureRequestMessage mem v (message_header seq 5 (length e) @ e @ junk) (int (8 + length e)) =
    Some (Ret (seq, config_view w))"
proof -
  have l: "length e < 65536" using length_config_elements [OF assms(4)] assms(2,3,5) by simp
  note passes = parse_config_elements [OF assms(1-4) refl, folded assms(5)] parse_config_read [OF assms(1-4) refl, folded assms(5)]
  have "(config_view w)\<lparr> cfg_ACinWTP := cfg_ACinWTP (config_view w), cfg_radioAdminInfo := cfg_radioAdminInfo (config_view w) \<rparr> =
      config_view w" by simp
  with passes [where bs = "message_header seq 5 (length e)"] show ?thesis
    using assms(1) l by (simp add: CWParseConfigureRequestMessage_def ample_malloc parse_message_header_eq)
qed

text \<open>The first part is the way of the request when it is assembled.\<close>

lemma configure_request_delivered:
  assumes "ample mem" "mac_room mac_ptr" "0 \<le> fid" "fid < 65536" "length (gACInfo_name w) < 65000"
    and "\<forall>r \<in> set (gRadiosInfo w). radio_ready r"
    and "n = control_fragments PMTU (67 + length (gACInfo_name w) + 60 * length (gRadiosInfo w))"
    and "insert j (set js) = {..<n}" "j \<notin> set js"
  shows "if 1 < length (gRadiosInfo w) then CWAssembleConfigureRequest mem mac fid garbage w PMTU seq = Fault
      else \<exists>pkts mac' m. CWAssembleConfigureRequest mem mac fid garbage w PMTU seq = Ret pkts \<and> length pkts = n \<and>
        receive_all mem (map (\<lambda>i. received (contents (pkts ! i)) (junk i)) (js @ [j])) [] mac_ptr =
          Some (replicate (length js) (Raise CW_ERROR_NEED_RESOURCE) @ [Ret m], [], mac') \<and>
        (\<forall>v. CWParseConfigureRequestMessage mem v (msg m) (int (offset m)) = Some (Ret (seq, config_view w)))"
proof -
  have name: "length (gACInfo_name w) < 65536" using assms(5) by simp
  note asm = assemble_configure_request [OF assms(1) name assms(6), of mac fid garbage PMTU seq]
  show ?thesis
  proof (cases "1 < length (gRadiosInfo w)")
    case True
    then show ?thesis using asm by simp
  next
    case False
    then have one: "length (gRadiosInfo w) \<le> 1" by simp
    let ?es = "config_messages w @ replicate (4 - 4 * length (gRadiosInfo w)) no_message"
    define e where "e = config_elements w"
    let ?body = "message_header seq 5 (length e) @ e"
    have body: "?body = message_bytes seq 5 ?es []"
      unfolding message_bytes_eq config_messages_bytes e_def [symmetric] ..
    have len: "length ?body = 67 + length (gACInfo_name w) + 60 * length (gRadiosInfo w)"
      using length_config_elements [OF assms(6)] unfolding e_def [symmetric] by simp
    have wf: "list_all well_formed ?es" by (auto simp: list_all_iff config_messages_def)
    have l: "length ?body \<le> 65536" unfolding len using assms(5) one by simp
    obtain pkts mac' where "CWAssembleMessage mem mac fid garbage PMTU seq 5 ?es [] 0 = Ret pkts"
      "length pkts = n" "receive_all mem (map (\<lambda>i. received (contents (pkts ! i)) (junk i)) (js @ [j])) [] mac_ptr =
         Some (replicate (length js) (Raise CW_ERROR_NEED_RESOURCE) @ [Ret (amsg None ?body 0)], [], mac')"
      using message_delivered [OF assms(1) wf assms(2) body l assms(3,4) _ assms(8,9), of PMTU mac garbage 0 junk]
      unfolding len assms(7) by blast
    moreover have "CWParseConfigureRequestMessage mem v (msg (amsg None ?body 0)) (int (offset (amsg None ?body 0))) =
        Some (Ret (seq, config_view w))" for v
      using parse_configure_request [OF assms(1,5) one assms(6) e_def, of v seq "[]"] by (simp add: amsg_def wmsg_def)
    ultimately show ?thesis using asm False by auto
  qed
qed

text \<open>
  C40: The Configure Request of a WTP whose only radio has its frequencies and rates tells the AC, in any order of the
  packets, the AC's name, the two names of ACs, the administrative state of the radio, the statistics timer, the reboot
  statistics, and the radio's standards, frequencies and first eight rates, whatever the AC's structure held. A second
  radio is written past the array of the nine elements. The AC's parse function returns whatever bytes it is given.
\<close>

theorem configure_request_exchange:
  assumes "ample mem" "mac_room mac_ptr" "0 \<le> fid" "fid < 65536" "length (gACInfo_name w) < 65000"
    and "\<forall>r \<in> set (gRadiosInfo w). phy_frequencyList (gWTPPhyInfo r) \<noteq> None \<and>
      (\<exists>rs. phy_supportedRates (gWTPPhyInfo r) = Some rs \<and> 8 \<le> length rs)"
    and "n = control_fragments PMTU (67 + length (gACInfo_name w) + 60 * length (gRadiosInfo w))"
    and "insert j (set js) = {..<n}" "j \<notin> set js"
  shows "(if 1 < length (gRadiosInfo w) then CWAssembleConfigureRequest mem mac fid garbage w PMTU seq = Fault
      else \<exists>pkts mac' m. CWAssembleConfigureRequest mem mac fid garbage w PMTU seq = Ret pkts \<and> length pkts = n \<and>
        receive_all mem (map (\<lambda>i. received (contents (pkts ! i)) (junk i)) (js @ [j])) [] mac_ptr =
          Some (replicate (length js) (Raise CW_ERROR_NEED_RESOURCE) @ [Ret m], [], mac') \<and>
        CWParseConfigureRequestMessage mem v (msg m) (int (offset m)) = Some (Ret (seq, config_view w))) \<and>
    CWParseConfigureRequestMessage mem v any_bytes any_len \<noteq> None"
proof -
  have ready: "\<forall>r \<in> set (gRadiosInfo w). radio_ready r" using assms(6) by (simp add: radio_ready_def)
  show ?thesis
    using configure_request_delivered [OF assms(1-5) ready assms(7-9), of mac garbage seq junk]
      configure_parsers_return(1) [of mem v any_bytes any_len]
    by (cases "1 < length (gRadiosInfo w)") auto
qed

theorem configure_request_exchange_witness:
  "\<exists>pkts mac' m.
     CWAssembleConfigureRequest (\<lambda>_. True) no_mac 7 0 ex_wtp 100 4 = Ret pkts \<and> length pkts = 2 \<and>
     receive_all (\<lambda>_. True) (map (\<lambda>i. received (contents (pkts ! i)) []) [1, 1, 0]) [] None =
       Some (replicate 2 (Raise CW_ERROR_NEED_RESOURCE) @ [Ret m], [], mac') \<and>
     (\<exists>v. CWParseConfigureRequestMessage (\<lambda>_. True) (config_view ex_wtp) (msg m) (int (offset m)) = Some (Ret (4, v)) \<and>
       cfg_ACName v = Some (Some [65]) \<and> cfg_numPhyFrequencyInfo v = 1 \<and>
       freq_supportedRates (hd (cfg_phyFrequencyInfo v)) = Some [2, 4, 11, 22, 12, 18, 24, 36, 0])"
proof -
  have n: "2 = control_fragments 100 (67 + length (gACInfo_name ex_wtp) + 60 * length (gRadiosInfo ex_wtp))"
    by (simp add: ex_wtp_def control_fragments_def control_pmtu_def fragment_payload_def fragments_num_def)
  have all: "insert 0 (set [1, 1]) = {..<2 :: nat}" by auto
  have m: "mac_room None" by (simp add: mac_room_def)
  have r: "\<forall>r \<in> set (gRadiosInfo ex_wtp). phy_frequencyList (gWTPPhyInfo r) \<noteq> None \<and>
      (\<exists>rs. phy_supportedRates (gWTPPhyInfo r) = Some rs \<and> 8 \<le> length rs)"
    by (simp add: ex_wtp_def ex_radio_def)
  have v: "cfg_ACName (config_view ex_wtp) = Some (Some [65])" "cfg_numPhyFrequencyInfo (config_view ex_wtp) = 1"
    "freq_supportedRates (hd (cfg_phyFrequencyInfo (config_view ex_wtp))) = Some [2, 4, 11, 22, 12, 18, 24, 36, 0]"
    by (simp_all add: config_view_def frequencies_view_def Let_def ex_wtp_def ex_radio_def)
  have one: "length (gRadiosInfo ex_wtp) = 1" "length (gACInfo_name ex_wtp) < 65000" by (simp_all add: ex_wtp_def)
  from conjunct1 [OF configure_request_exchange [OF ample_all m _ _ one(2) r n all, of 7 no_mac 0 4 "\<lambda>_. []" "config_view ex_wtp"]]
  obtain pkts mac' m where "CWAssembleConfigureRequest (\<lambda>_. True) no_mac 7 0 ex_wtp 100 4 = Ret pkts" "length pkts = 2"
    "receive_all (\<lambda>_. True) (map (\<lambda>i. received (contents (pkts ! i)) []) ([1, 1] @ [0])) [] None =
       Some (replicate (length [1 :: nat, 1]) (Raise CW_ERROR_NEED_RESOURCE) @ [Ret m], [], mac')"
    "CWParseConfigureRequestMessage (\<lambda>_. True) (config_view ex_wtp) (msg m) (int (offset m)) = Some (Ret (4, config_view ex_wtp))"
    using one(1) by auto
  with v show ?thesis by (intro exI conjI) (simp_all add: numeral_eq_Suc)
qed

end
