(* ===== verification/ConfigureStates.thy ===== *)
theory ConfigureStates
  imports ConfigureMessages
begin

section \<open>The Configure state: ACConfigureState.c and WTPConfigureState.c\<close>

text \<open>
  What the AC stores of a Configure Request, its handler of the request, and what the WTP stores of the response;
  and the way of the response.
\<close>

subsection \<open>Saving the request\<close>

abbreviation set_phy :: "nat \<Rightarrow> (WTPSinglePhyInfo \<Rightarrow> WTPSinglePhyInfo) \<Rightarrow> CWWTPRadioInfoValues list \<Rightarrow> CWWTPRadioInfoValues list" where
  "set_phy j f rs \<equiv> rs[j := (rs ! j)\<lparr>gWTPPhyInfo := f (gWTPPhyInfo (rs ! j))\<rparr>]"

text \<open>
  The \<open>i\<close>-th frequencies are stored in the first radio with their identifier, \<open>j\<close>, but the list for them is
  allocated in the \<open>i\<close>-th radio. The log reads the eighth rate of a block one byte longer than the rates.
\<close>

definition save_frequencies ::
  "memory \<Rightarrow> int \<Rightarrow> nat \<Rightarrow> PhyFrequencyInfoConfigureMessage \<Rightarrow> CWWTPRadioInfoValues list \<Rightarrow>
   unit res \<times> CWWTPRadioInfoValues list" where
  "save_frequencies mem n i f rs =
     (case find (\<lambda>j. length rs \<le> j \<or> phy_radioID (gWTPPhyInfo (rs ! j)) = freq_radioID f) [0..<nat n] of
        None \<Rightarrow> (Ret (), rs)
      | Some j \<Rightarrow>
          let len = freq_lenSupportedRates f; rates = (case freq_supportedRates f of None \<Rightarrow> [] | Some r \<Rightarrow> r) in
          if length rs \<le> j \<or> length rs \<le> i then (Fault, rs)
          else
            let rs = set_phy j (\<lambda>p. p\<lparr>phy_totChannels := totChannels f\<rparr>) rs in
            if \<not> malloc_ok mem 12 then (Raise CW_ERROR_OUT_OF_MEMORY, set_phy i (\<lambda>p. p\<lparr>phy_frequencyList := None\<rparr>) rs)
            else
              let rs = set_phy i (\<lambda>p. p\<lparr>phy_frequencyList := Some (0, 0)\<rparr>) rs in
              if phy_frequencyList (gWTPPhyInfo (rs ! j)) = None then (Fault, rs)
              else
                let rs = set_phy j (\<lambda>p. p\<lparr> phy_frequencyList := Some (firstChannel f, maxTxPower f),
                                            phy_lenSupportedRates := len \<rparr>) rs in
                if \<not> malloc_ok mem (len + 1)
                then (Raise CW_ERROR_OUT_OF_MEMORY, set_phy j (\<lambda>p. p\<lparr>phy_supportedRates := None\<rparr>) rs)
                else if length rates < nat len \<or> len + 1 < 8 then (Fault, rs)
                else (Ret (), set_phy j (\<lambda>p. p\<lparr>phy_supportedRates := Some (take (nat len) rates @ [0])\<rparr>) rs))"

fun save_all_frequencies ::
  "memory \<Rightarrow> int \<Rightarrow> PhyFrequencyInfoConfigureMessage list \<Rightarrow> nat list \<Rightarrow> CWWTPRadioInfoValues list \<Rightarrow>
   unit res \<times> CWWTPRadioInfoValues list" where
  "save_all_frequencies mem n fs [] rs = (Ret (), rs)"
| "save_all_frequencies mem n fs (i # is) rs =
     (if length fs \<le> i then (Fault, rs)
      else case save_frequencies mem n i (fs ! i) rs of
        (Ret _, rs) \<Rightarrow> save_all_frequencies mem n fs is rs
      | (r, rs) \<Rightarrow> (r, rs))"

definition CWSaveConfigureRequestMessage ::
  "memory \<Rightarrow> CWProtocolConfigureRequestValues \<Rightarrow> CWWTPRadioInfoValues list \<Rightarrow> CWWTPProtocolManager \<Rightarrow>
   unit res \<times> CWWTPRadioInfoValues list \<times> CWWTPProtocolManager" where
  "CWSaveConfigureRequestMessage mem v radios pm =
     (if pm_ACName pm = None \<or> pm_WTPRebootStatistics pm = None then (Fault, radios, pm)
      else
        let pm = pm\<lparr> pm_ACName := cfg_ACName v, pm_ACNameIndex := cfg_ACinWTP v, pm_radioAdminInfo := cfg_radioAdminInfo v,
                      pm_StatisticsTimer := cfg_StatisticsTimer v, pm_WTPRebootStatistics := cfg_WTPRebootStatistics v \<rparr>
        in case save_all_frequencies mem (radioCount pm) (cfg_phyFrequencyInfo v) [0..<cfg_numPhyFrequencyInfo v] radios of
             (r, radios) \<Rightarrow> (r, radios, pm))"

subsection \<open>The handler of the request\<close>

abbreviation gCWChangeStatePendingTimer :: int where "gCWChangeStatePendingTimer \<equiv> 50"

text \<open>
  \<open>old_error\<close> is the last error of the thread and \<open>stack\<close> what the local structure of the handler held. When the timer
  cannot be requested the thread closes itself.
\<close>

definition ACEnterConfigure ::
  "last_error \<Rightarrow> memory \<Rightarrow> CWProtocolConfigureRequestValues \<Rightarrow> eth \<Rightarrow> int \<Rightarrow> 32 word \<Rightarrow> bool \<Rightarrow> ac_globals \<Rightarrow> (nat \<Rightarrow> bool) \<Rightarrow>
   CWProtocolMessage \<Rightarrow> ac_session \<Rightarrow> CWWTPProtocolManager \<Rightarrow> (unit res \<times> ac_session \<times> CWWTPProtocolManager) option" where
  "ACEnterConfigure old_error mem stack mac fid garbage le ac net m s pm =
     (case CWParseConfigureRequestMessage mem stack (msg m) (int (offset m)) of
        None \<Rightarrow> None
      | Some Fault \<Rightarrow> Some (Fault, s, pm)
      | Some (Raise e) \<Rightarrow> Some (Raise e, s, pm)
      | Some (Ret (seq, v)) \<Rightarrow>
          (case CWSaveConfigureRequestMessage mem v (radiosInfo (wtp s)) pm of
             (Fault, radios, pm) \<Rightarrow> Some (Fault, s\<lparr>wtp := (wtp s)\<lparr>radiosInfo := radios\<rparr>\<rparr>, pm)
           | (Raise e, radios, pm) \<Rightarrow> Some (Raise e, s\<lparr>wtp := (wtp s)\<lparr>radiosInfo := radios\<rparr>\<rparr>, pm)
           | (Ret _, radios, pm) \<Rightarrow>
               (case CWAssembleConfigureResponse mem mac fid garbage le ac (pm_radioAdminInfo pm) (pm_qosValues pm)
                       (radioCount pm) radios (gDefaultQosValues s) (pathMTU (wtp s)) seq of
                  (r, qs) \<Rightarrow>
                    let s = s\<lparr> wtp := (wtp s)\<lparr>radiosInfo := radios\<rparr>, gDefaultQosValues := qs \<rparr> in
                    (case r of
                       Fault \<Rightarrow> Some (Fault, s, pm)
                     | Raise e \<Rightarrow> Some (Raise e, s, pm)
                     | Ret ms \<Rightarrow>
                         (case CWACSendFragments net
                                 (s\<lparr>wtp := (wtp s)\<lparr> messages := Some ms, messagesCount := length ms \<rparr>\<rparr>) of
                            (Ret _, s) \<Rightarrow>
                              (case CWTimerRequest mem gCWChangeStatePendingTimer (thread (wtp s)) (currentTimer (wtp s))
                                      CW_CRITICAL_TIMER_EXPIRED_SIGNAL (timers s) of
                                 (t, n, q) \<Rightarrow>
                                   let s = s\<lparr> wtp := (wtp s)\<lparr>currentTimer := n\<rparr>, timers := q \<rparr> in
                                   (case or_close_thread old_error t of
                                      Ret _ \<Rightarrow> Some (Ret (), s\<lparr>wtp := (wtp s)\<lparr>currentState := CW_ENTER_DATA_CHECK\<rparr>\<rparr>, pm)
                                    | t \<Rightarrow> Some (t, s, pm)))
                          | (r, s) \<Rightarrow> Some (r, s, pm))))))"

subsection \<open>Saving the response\<close>

text \<open>
  The WTP's AC, its echo interval, and its radios with their profiles. \<open>st\<close> and \<open>sock_ok\<close> are as in the binding.
\<close>

definition CWSaveConfigureResponseMessage ::
  "16 word \<times> 16 word \<times> byte \<Rightarrow> bool \<Rightarrow> CWProtocolConfigureResponseValues \<Rightarrow> joined_ac option \<Rightarrow> int \<Rightarrow>
   (int \<times> WTPQosValues list) list \<Rightarrow> unit res \<times> joined_ac option \<times> int \<times> (int \<times> WTPQosValues list) list" where
  "CWSaveConfigureResponseMessage st sock_ok v g gEchoInterval radios =
     (case g of
        None \<Rightarrow> (Raise CW_ERROR_NEED_RESOURCE, g, gEchoInterval, radios)
      | Some a \<Rightarrow>
          let a = a\<lparr> joined_IPv4List := (if cresp_ACIPv4List v = [] then joined_IPv4List a else cresp_ACIPv4List v),
                     joined_IPv6List := (if cresp_ACIPv6List v = [] then joined_IPv6List a else cresp_ACIPv6List v) \<rparr>;
              (r, radios) = (case cresp_bindingValues v of
                               None \<Rightarrow> (Ret (), radios)
                             | Some b \<Rightarrow> CWBindingSaveConfigureResponse st sock_ok (Some b) radios)
          in (case r of
                Ret _ \<Rightarrow> (Ret (), Some a, if cresp_echoRequestTimer v > 0 then cresp_echoRequestTimer v else gEchoInterval,
                          radios)
              | _ \<Rightarrow> (r, Some a, gEchoInterval, radios)))"

subsection \<open>The elements of the response\<close>

text \<open>The bodies of the elements, and the whole response as a list of types and bodies.\<close>

abbreviation ipv4_body :: "bool \<Rightarrow> byte list" where
  "ipv4_body le \<equiv> concat (map be32 [int_of_bytes le [192, 168, 1, 2], int_of_bytes le [192, 168, 1, 66]])"

abbreviation timers_body :: "ac_globals \<Rightarrow> byte list" where
  "timers_body ac \<equiv> [word_of_int (gDiscoveryTimer ac), word_of_int (gEchoRequestTimer ac)]"

abbreviation period_body :: "CWRadioAdminInfoValues \<Rightarrow> byte list" where
  "period_body r \<equiv> word_of_int (admin_ID r) # be16 15"

definition profile_body :: "WTPQosValues list \<Rightarrow> CWWTPRadioInfoValues \<Rightarrow> byte list" where
  "profile_body qs r = word_of_int (phy_radioID (gWTPPhyInfo r)) # 0 # profiles_bytes qs"

definition cresp_pairs ::
  "bool \<Rightarrow> ac_globals \<Rightarrow> CWRadioAdminInfoValues list \<Rightarrow> WTPQosValues list \<Rightarrow> CWWTPRadioInfoValues list \<Rightarrow>
   (32 word \<times> byte list) list" where
  "cresp_pairs le ac as qs rs =
     [(2, ipv4_body le), (3, concat ac_ipv6), (12, timers_body ac)] @ map (\<lambda>a. (16, period_body a)) as @
     [(23, be32 (word_of_int (gIdleTimeout ac))), (40, [0])] @
     concat (map (\<lambda>r. [(1045, profile_body qs r), (1032, domain_body r)]) rs)"

definition cresp_messages :: "bool \<Rightarrow> ac_globals \<Rightarrow> CWRadioAdminInfoValues list \<Rightarrow> CWProtocolMessage list" where
  "cresp_messages le ac as =
     [elem_msg 2 (ipv4_body le), elem_msg 3 (concat ac_ipv6), elem_msg 12 (timers_body ac),
      wmsg (concat (map (\<lambda>a. elem_bytes 16 (period_body a)) as)) 0, elem_msg 23 (be32 (word_of_int (gIdleTimeout ac))),
      elem_msg 40 [0]]"

definition profile_messages :: "WTPQosValues list \<Rightarrow> CWWTPRadioInfoValues list \<Rightarrow> CWProtocolMessage list" where
  "profile_messages qs rs =
     concat (map (\<lambda>r. [elem_msg 1045 (profile_body qs r), elem_msg 1032 (domain_body r)]) rs)"

lemma cresp_pairs_bytes:
  "concat (map contents (cresp_messages le ac as @ profile_messages qs rs)) = elems_bytes (cresp_pairs le ac as qs rs)"
  by (simp add: cresp_messages_def profile_messages_def cresp_pairs_def comp_def map_concat concat_concat_map)

lemma cresp_messages_well_formed: "list_all well_formed (cresp_messages le ac as @ profile_messages qs rs)"
  by (auto simp: list_all_iff cresp_messages_def profile_messages_def)

lemma length_ipv6 [simp]: "length (concat ac_ipv6) = 32"
  by (simp add: ac_ipv6_def)

lemma length_cresp_pairs:
  assumes "length qs = 4"
  shows "length (elems_bytes (cresp_pairs le ac as qs rs)) = 67 + 7 * length as + 50 * length rs"
proof -
  have "length (elems_bytes (map (\<lambda>a. (16, period_body a)) as)) = 7 * length as" by (induction as) auto
  moreover have "length (elems_bytes (concat (map (\<lambda>r. [(1045, profile_body qs r), (1032, domain_body r)]) rs))) = 50 * length rs"
    using assms by (induction rs) (auto simp: profile_body_def)
  ultimately show ?thesis by (simp add: cresp_pairs_def)
qed

text \<open>Merging with the session's profiles once is enough.\<close>

lemma merge_twice: "map2 merge_qos as (map2 merge_qos as qs) = map2 merge_qos as qs" if "length qs = length as"
  using that by (auto simp: list_eq_iff_nth_eq merge_qos_def)

lemma radio_elements_eq:
  assumes "ample mem" "length qa = 4" "length qs = 4" "\<forall>r \<in> set rs. phy_frequencyList (gWTPPhyInfo r) \<noteq> None"
  shows "radio_elements mem (Some qa) k (map Some rs) (Some qs) =
    (Ret (profile_messages (map2 merge_qos qa qs) rs), Some (if rs = [] then qs else map2 merge_qos qa qs))"
  using assms(3,4)
proof (induction rs arbitrary: k qs)
  case (Cons r rs)
  let ?m = "map2 merge_qos qa qs" and ?p = "gWTPPhyInfo r"
  have l: "length ?m = 4" using assms(2) Cons.prems(1) by simp
  obtain f pw where f: "phy_frequencyList ?p = Some (f, pw)" using Cons.prems(2) by auto
  have q: "CWAssembleWTPQoS mem (Some qa) (phy_radioID ?p) 0 (Some qs) = (Ret (elem_msg 1045 (profile_body ?m r)), Some ?m)"
    using assemble_qos_eq [OF assms(1) Cons.prems(1) merge_all [OF Cons.prems(1) assms(2)] l] by (simp add: profile_body_def)
  have d: "CWAssembleMsgElemACWTPMultiDomainCapability mem (phy_radioID ?p) f (phy_totChannels ?p) pw =
      Ret (elem_msg 1032 (domain_body r))"
    using multi_domain_ac.assemble_law [OF assms(1) TrueI, of "(phy_radioID ?p, f, phy_totChannels ?p, pw)"] f
    by (simp add: domain_body_def Let_def)
  have "radio_elements mem (Some qa) (k + 2) (map Some rs) (Some ?m) =
      (Ret (profile_messages ?m rs), Some ?m)"
    using Cons.IH [OF l, of "k + 2"] Cons.prems merge_twice [of qs qa] assms(2) by simp
  then show ?case by (simp add: q d f profile_messages_def)
qed (simp add: profile_messages_def)

lemma periods_eq:
  assumes "ample mem"
  shows "CWAssembleMsgElemDecryptErrorReportPeriod mem as = Ret (wmsg (concat (map (\<lambda>a. elem_bytes 16 (period_body a)) as)) 0)"
  unfolding CWAssembleMsgElemDecryptErrorReportPeriod_def
  by (rule assemble_each_eq [OF assms report_period.assemble_law [OF assms TrueI]])

lemma fill_configure_response:
  assumes "ample mem"
  shows "fill_elements 6
      [CWAssembleMsgElemACIPv4List mem le, CWAssembleMsgElemACIPv6List mem, CWAssembleMsgElemCWTimer mem ac,
       CWAssembleMsgElemDecryptErrorReportPeriod mem as, CWAssembleMsgElemIdleTimeout mem ac,
       CWAssembleMsgElemWTPFallback mem] = Ret (cresp_messages le ac as)"
proof -
  have laws: "CWAssembleMsgElemACIPv4List mem le = Ret (elem_msg 2 (ipv4_body le))"
    "CWAssembleMsgElemACIPv6List mem = Ret (elem_msg 3 (concat ac_ipv6))"
    "CWAssembleMsgElemCWTimer mem ac = Ret (elem_msg 12 (timers_body ac))"
    "CWAssembleMsgElemIdleTimeout mem ac = Ret (elem_msg 23 (be32 (word_of_int (gIdleTimeout ac))))"
    "CWAssembleMsgElemWTPFallback mem = Ret (elem_msg 40 [0])"
    by (fact ac_ipv4_list.assemble_law [OF assms TrueI] ac_ipv6_list.assemble_law [OF assms TrueI]
        timers.assemble_law [OF assms TrueI] idle_timeout.assemble_law [OF assms TrueI]
        fallback.assemble_law [OF assms TrueI])+
  have "length (cresp_messages le ac as) = 6" by (simp add: cresp_messages_def)
  then have "fill_elements 6 (map Ret (cresp_messages le ac as)) = Ret (cresp_messages le ac as)"
    unfolding fill_elements_Ret by simp
  then show ?thesis unfolding laws periods_eq [OF assms] cresp_messages_def list.map .
qed

lemma assemble_configure_response:
  assumes "ample mem" "length qa = 4" "length qs = 4" "\<forall>r \<in> set rs. phy_frequencyList (gWTPPhyInfo r) \<noteq> None"
    "n = int (length rs)" "merged = map2 merge_qos qa qs"
  shows "CWAssembleConfigureResponse mem mac fid garbage le ac as (Some qa) n rs qs PMTU seq =
    (CWAssembleMessage mem mac fid garbage PMTU seq 6 (cresp_messages le ac as) (profile_messages merged rs) 0,
     if rs = [] then qs else merged)"
proof -
  have a: "radio_array n rs = map Some rs"
    unfolding assms(5) by (rule nth_equalityI) simp_all
  have "CWBindingAssembleConfigureResponse mem (Some qa) n rs qs = (Ret (profile_messages merged rs), if rs = [] then qs else merged)"
    unfolding CWBindingAssembleConfigureResponse_def a radio_elements_eq [OF assms(1-4)]
    using assms(1,5,6) by (auto simp: ample_malloc)
  with fill_configure_response [OF assms(1)] assms(1) show ?thesis
    by (simp add: CWAssembleConfigureResponse_def ample_malloc)
qed

subsection \<open>The response arrives\<close>

text \<open>The elements by their type.\<close>

lemma cresp_pairs_cases:
  assumes "(t, b) \<in> set (cresp_pairs le ac as qs rs)"
  obtains "t = 2" "b = ipv4_body le" | "t = 3" "b = concat ac_ipv6" | "t = 12" "b = timers_body ac"
    | a where "a \<in> set as" "t = 16" "b = period_body a"
    | "t = 23" "b = be32 (word_of_int (gIdleTimeout ac))" | "t = 40" "b = [0]"
    | r where "r \<in> set rs" "t = 1045" "b = profile_body qs r"
    | r where "r \<in> set rs" "t = 1032" "b = domain_body r"
  using assms by (auto simp: cresp_pairs_def)

lemma cresp_pairs_short:
  "length qs = 4 \<Longrightarrow> \<forall>e \<in> set (cresp_pairs le ac as qs rs). length (snd e) < 65536"
proof
  fix e assume "length qs = 4" "e \<in> set (cresp_pairs le ac as qs rs)"
  then show "length (snd e) < 65536" by (cases e) (auto simp: profile_body_def elim!: cresp_pairs_cases)
qed

text \<open>First pass.\<close>

fun cresp_upd ::
  "bool \<Rightarrow> ac_globals \<Rightarrow> 32 word \<times> byte list \<Rightarrow> CWProtocolConfigureResponseValues \<times> nat \<times> nat \<times> bool \<Rightarrow>
   CWProtocolConfigureResponseValues \<times> nat \<times> nat \<times> bool" where
  "cresp_upd le ac (t, b) (v, no, nd, found) =
     (if t = 2 then (v\<lparr>cresp_ACIPv4List := [int_of_bytes le [192, 168, 1, 2], int_of_bytes le [192, 168, 1, 66]]\<rparr>, no, nd, found)
      else if t = 3 then (v\<lparr>cresp_ACIPv6List := ac_ipv6\<rparr>, no, nd, found)
      else if t = 12 then (v\<lparr> cresp_discoveryTimer := gDiscoveryTimer ac mod 256,
                               cresp_echoRequestTimer := gEchoRequestTimer ac mod 256 \<rparr>, no, nd, found)
      else if t = 16 then (v, no, Suc nd, found)
      else if t = 23 then (v\<lparr>cresp_idleTimeout := (gIdleTimeout ac + 2147483648) mod 4294967296 - 2147483648\<rparr>, no, nd, found)
      else if t = 40 then (v\<lparr>cresp_fallback := 0\<rparr>, no, nd, found)
      else (v, no, nd, True))"

lemma fold_cresp_periods: "fold (cresp_upd le ac) (map (\<lambda>a. (16, f a)) as) (v, no, nd, found) = (v, no, nd + length as, found)"
  by (induction as arbitrary: nd) auto

lemma fold_cresp_radios:
  "fold (cresp_upd le ac) (concat (map (\<lambda>r. [(1045, f r), (1032, g r)]) rs)) (v, no, nd, found) =
     (v, no, nd, found \<or> rs \<noteq> [])"
  by (induction rs arbitrary: found) auto

lemma cresp_branch_eq:
  assumes "ample mem" "(t, b) \<in> set (cresp_pairs le ac as qs rs)" "length qs = 4"
  shows "cresp_branch mem s (ucast t) (rmsg (bs @ be16 (ucast t) @ be16 (word_of_nat (length b))) (b @ rest) x)
    (int (length b)) = Ret (cresp_upd le ac (t, b) s, rmsg (bs @ elem_bytes t b) rest x)"
proof -
  let ?bs = "bs @ be16 (ucast t) @ be16 (word_of_nat (length b))"
  have e: "?bs @ b = bs @ elem_bytes t b" by (simp add: elem_bytes_def)
  have skip: "(rmsg ?bs (b @ rest) x)\<lparr>offset := length ?bs + length b\<rparr> = rmsg (bs @ elem_bytes t b) rest x"
    by (simp add: rmsg_def elem_bytes_def)
  obtain v no nd found where s: "s = (v, no, nd, found)" by (cases s)
  from assms(2) show ?thesis
  proof (cases rule: cresp_pairs_cases)
    case 1
    have "CWParseACIPv4List mem (rmsg ?bs (b @ rest) x) (int (length b)) =
        Ret ([int_of_bytes le [192, 168, 1, 2], int_of_bytes le [192, 168, 1, 66]], rmsg (bs @ elem_bytes t b) rest x)"
      using ac_ipv4_list.parse_law [OF assms(1) TrueI, where le = le and bs = ?bs and rest = rest and x = x]
      unfolding 1(2) [symmetric] e .
    with 1(1) show ?thesis by (simp add: cresp_branch_def CWBindingCheckType_def s)
  next
    case 2
    have "CWParseACIPv6List mem (rmsg ?bs (b @ rest) x) (int (length b)) = Ret (ac_ipv6, rmsg (bs @ elem_bytes t b) rest x)"
      using ac_ipv6_list.parse_law [OF assms(1) TrueI, where bs = ?bs and rest = rest and x = x]
      unfolding 2(2) [symmetric] e .
    with 2(1) show ?thesis by (simp add: cresp_branch_def CWBindingCheckType_def s)
  next
    case 3
    have "CWParseCWTimers (rmsg ?bs (b @ rest) x) (int (length b)) =
        Ret ((gDiscoveryTimer ac mod 256, gEchoRequestTimer ac mod 256), rmsg (bs @ elem_bytes t b) rest x)"
      using timers.parse_law [OF assms(1) TrueI, where v = ac and bs = ?bs and rest = rest and x = x]
      unfolding 3(2) [symmetric] e .
    with 3(1) show ?thesis by (simp add: cresp_branch_def CWBindingCheckType_def s)
  next
    case (4 a)
    then show ?thesis using skip by (simp add: cresp_branch_def CWBindingCheckType_def s)
  next
    case 5
    have "CWParseIdleTimeout (rmsg ?bs (b @ rest) x) (int (length b)) =
        Ret ((gIdleTimeout ac + 2147483648) mod 4294967296 - 2147483648, rmsg (bs @ elem_bytes t b) rest x)"
      using idle_timeout.parse_law [OF assms(1) TrueI, where v = ac and bs = ?bs and rest = rest and x = x]
      unfolding 5(2) [symmetric] e .
    with 5(1) show ?thesis by (simp add: cresp_branch_def CWBindingCheckType_def s)
  next
    case 6
    have "CWParseWTPFallback (rmsg ?bs (b @ rest) x) (int (length b)) = Ret (0, rmsg (bs @ elem_bytes t b) rest x)"
      using fallback.parse_law [OF assms(1) TrueI, where bs = ?bs and rest = rest and x = x]
      unfolding 6(2) [symmetric] e .
    with 6(1) show ?thesis by (simp add: cresp_branch_def CWBindingCheckType_def s)
  next
    case (7 r)
    then show ?thesis using skip by (simp add: cresp_branch_def CWBindingCheckType_def s)
  next
    case (8 r)
    then show ?thesis using skip by (simp add: cresp_branch_def CWBindingCheckType_def s)
  qed
qed

lemma cresp_pairs_fit:
  assumes "length qs = 4" "\<And>pre t b post bs rest. cresp_pairs le ac as qs rs = pre @ (t, b) # post \<Longrightarrow>
      branch (fold upd pre s) (ucast t) (rmsg (bs @ be16 (ucast t) @ be16 (word_of_nat (length b))) (b @ rest) x)
        (int (length b)) = Ret (upd (t, b) (fold upd pre s), rmsg (bs @ elem_bytes t b) rest x)"
    and "len = int (length (elems_bytes (cresp_pairs le ac as qs rs)))"
  shows "parse_elements branch (length bs) len s (rmsg bs (elems_bytes (cresp_pairs le ac as qs rs) @ rest) x) =
    Some (Ret (fold upd (cresp_pairs le ac as qs rs) s, rmsg (bs @ elems_bytes (cresp_pairs le ac as qs rs)) rest x))"
proof -
  let ?es = "cresp_pairs le ac as qs rs"
  have "parse_elements branch (length bs) len s (rmsg bs (elems_bytes ?es @ rest) x) =
      parse_elements branch (length bs) len (fold upd ?es s) (rmsg (bs @ elems_bytes ?es) rest x)"
    by (rule parse_elements_list [OF cresp_pairs_short [OF assms(1)]]) (use assms(2,3) in auto)
  then show ?thesis by (simp add: parse_elements_end assms(3))
qed

definition cresp_first ::
  "bool \<Rightarrow> ac_globals \<Rightarrow> CWProtocolConfigureResponseValues \<Rightarrow> CWProtocolConfigureResponseValues" where
  "cresp_first le ac v = v
     \<lparr> cresp_ACIPv4List := [int_of_bytes le [192, 168, 1, 2], int_of_bytes le [192, 168, 1, 66]],
       cresp_ACIPv6List := ac_ipv6, cresp_discoveryTimer := gDiscoveryTimer ac mod 256,
       cresp_echoRequestTimer := gEchoRequestTimer ac mod 256,
       cresp_idleTimeout := (gIdleTimeout ac + 2147483648) mod 4294967296 - 2147483648, cresp_fallback := 0 \<rparr>"

lemma parse_cresp_elements:
  assumes "ample mem" "length qs = 4" "es = cresp_pairs le ac as qs rs"
  shows "parse_elements (cresp_branch mem) (length bs) (int (length (elems_bytes es))) (v, 0, 0, False)
      (rmsg bs (elems_bytes es @ junk) x) =
    Some (Ret ((cresp_first le ac v, 0, length as, rs \<noteq> []), rmsg (bs @ elems_bytes es) junk x))"
proof -
  have "fold (cresp_upd le ac) es (v, 0, 0, False) = (cresp_first le ac v, 0, length as, rs \<noteq> [])"
    unfolding assms(3) by (cases v) (simp add: cresp_pairs_def fold_cresp_periods fold_cresp_radios cresp_first_def)
  moreover have "parse_elements (cresp_branch mem) (length bs) (int (length (elems_bytes es))) (v, 0, 0, False)
      (rmsg bs (elems_bytes es @ junk) x) =
    Some (Ret (fold (cresp_upd le ac) es (v, 0, 0, False), rmsg (bs @ elems_bytes es) junk x))"
    unfolding assms(3)
  proof (rule cresp_pairs_fit [OF assms(2) _ refl])
    fix pre t b post bs rest
    assume "cresp_pairs le ac as qs rs = pre @ (t, b) # post"
    then have "(t, b) \<in> set (cresp_pairs le ac as qs rs)" by simp
    then show "cresp_branch mem (fold (cresp_upd le ac) pre (v, 0, 0, False)) (ucast t)
        (rmsg (bs @ be16 (ucast t) @ be16 (word_of_nat (length b))) (b @ rest) x) (int (length b)) =
      Ret (cresp_upd le ac (t, b) (fold (cresp_upd le ac) pre (v, 0, 0, False)), rmsg (bs @ elem_bytes t b) rest x)"
      by (rule cresp_branch_eq [OF assms(1) _ assms(2)])
  qed
  ultimately show ?thesis by simp
qed

text \<open>Second pass, and the two passes of the binding: each takes the elements of one type.\<close>

lemma radio_pairs_of_type:
  "filter (\<lambda>e. fst e = 16) (concat (map (\<lambda>r. [(1045 :: 32 word, f r), (1032, g r)]) rs)) = []"
  "filter (\<lambda>e. fst e = 1045) (concat (map (\<lambda>r. [(1045 :: 32 word, f r), (1032, g r)]) rs)) = map (\<lambda>r. (1045, f r)) rs"
  by (induction rs) auto

lemma cresp_pairs_of_type:
  "filter (\<lambda>e. fst e = 16) (cresp_pairs le ac as qs rs) = map (\<lambda>a. (16, period_body a)) as"
  "filter (\<lambda>e. fst e = 1045) (cresp_pairs le ac as qs rs) = map (\<lambda>r. (1045, profile_body qs r)) rs"
  by (simp_all add: cresp_pairs_def radio_pairs_of_type filter_map comp_def)

text \<open>\<open>f\<close> reads the body of an element of the type; the others are skipped.\<close>

definition take_type :: "32 word \<Rightarrow> (byte list \<Rightarrow> 'a) \<Rightarrow> 32 word \<times> byte list \<Rightarrow> 'a list \<Rightarrow> 'a list" where
  "take_type type f e xs = (if fst e = type then xs @ [f (snd e)] else xs)"

lemma take_type_pair: "take_type type f (t, b) xs = (if t = type then xs @ [f b] else xs)"
  by (simp add: take_type_def)

lemma fold_take_type: "fold (take_type type f) es xs = xs @ map (\<lambda>e. f (snd e)) (filter (\<lambda>e. fst e = type) es)"
  by (induction es arbitrary: xs) (auto simp: take_type_def)

lemma take_type_before:
  "es = pre @ (type, b) # post \<Longrightarrow> length (fold (take_type type f) pre []) < length (filter (\<lambda>e. fst e = type) es)"
  by (simp add: fold_take_type)

definition read_period :: "byte list \<Rightarrow> int \<times> int" where
  "read_period b = (uint (hd b), 15)"

lemma fold_second: "fold (\<lambda>e (os, ds). (os, upd e ds)) es (os, ds) = (os, fold upd es ds)"
  by (induction es arbitrary: ds) auto

lemma skip_body:
  "(rmsg (bs @ be16 (ucast t) @ be16 n) (b @ rest) x)\<lparr>offset := length bs + 4 + length b\<rparr> =
   rmsg (bs @ be16 (ucast t) @ be16 n @ b) rest x"
  by (simp add: rmsg_def)

lemma parse_cresp_read:
  assumes "ample mem" "length qs = 4" "es = cresp_pairs le ac as qs rs"
  shows "parse_elements (cresp_read_branch 0 (length as)) (length bs) (int (length (elems_bytes es))) ([], [])
      (rmsg bs (elems_bytes es @ junk) x) =
    Some (Ret (([], map (\<lambda>a. (admin_ID a mod 256, 15)) as), rmsg (bs @ elems_bytes es) junk x))"
proof -
  let ?upd = "\<lambda>e (os, ds). (os, take_type 16 read_period e ds)"
  have "map (\<lambda>a. (admin_ID a mod 256, 15)) as = map read_period (map period_body as)"
    by (simp add: read_period_def field_values)
  then have "fold ?upd es ([], []) = ([], map (\<lambda>a. (admin_ID a mod 256, 15)) as)"
    unfolding assms(3) by (simp add: fold_second fold_take_type cresp_pairs_of_type comp_def)
  moreover have "parse_elements (cresp_read_branch 0 (length as)) (length bs) (int (length (elems_bytes es))) ([], [])
      (rmsg bs (elems_bytes es @ junk) x) = Some (Ret (fold ?upd es ([], []), rmsg (bs @ elems_bytes es) junk x))"
    unfolding assms(3)
  proof (rule cresp_pairs_fit [OF assms(2) _ refl])
    fix pre t b post bs rest
    assume es: "cresp_pairs le ac as qs rs = pre @ (t, b) # post"
    let ?bs = "bs @ be16 (ucast t) @ be16 (word_of_nat (length b))"
    have e: "?bs @ b = bs @ elem_bytes t b" by (simp add: elem_bytes_def)
    from es have "(t, b) \<in> set (cresp_pairs le ac as qs rs)" by simp
    then have "t = 16 \<and> (\<exists>a. b = period_body a) \<or> ucast t \<noteq> (32 :: 16 word) \<and> ucast t \<noteq> (16 :: 16 word)"
      by (cases rule: cresp_pairs_cases) auto
    then show "cresp_read_branch 0 (length as) (fold ?upd pre ([], [])) (ucast t) (rmsg ?bs (b @ rest) x) (int (length b)) =
      Ret (?upd (t, b) (fold ?upd pre ([], [])), rmsg (bs @ elem_bytes t b) rest x)"
    proof (elim disjE conjE exE)
      fix a assume t: "t = 16" and b: "b = period_body a"
      have "length (fold (take_type 16 read_period) pre []) < length as"
        using take_type_before [OF es [unfolded t], of read_period] by (simp add: cresp_pairs_of_type)
      moreover have "CWParseDecryptErrorReportPeriod (rmsg ?bs (b @ rest) x) (int (length b)) =
          Ret ((admin_ID a mod 256, 15), rmsg (bs @ elem_bytes t b) rest x)"
        using report_period.parse_law [OF assms(1) TrueI, where v = a and bs = ?bs and rest = rest and x = x]
        unfolding b [symmetric] e .
      ultimately show ?thesis
        by (simp add: fold_second cresp_read_branch_def t take_type_pair read_period_def b field_values)
    next
      assume "ucast t \<noteq> (32 :: 16 word)" "ucast t \<noteq> (16 :: 16 word)"
      then show ?thesis
        by (auto simp: fold_second cresp_read_branch_def take_type_pair skip_body elem_bytes_def)
    qed
  qed
  ultimately show ?thesis by simp
qed

text \<open>The binding finds one element of profiles for each radio.\<close>

definition read_profiles :: "WTPQosValues list \<Rightarrow> byte list \<Rightarrow> byte \<times> WTPQosValues list" where
  "read_profiles qs b = (hd b, qs)"

lemma parse_cresp_binding:
  assumes "ample mem" "length qs = 4" "es = cresp_pairs le ac as qs rs"
  shows "CWBindingParseConfigureResponse mem (elems_bytes es @ junk) (int (length (elems_bytes es))) =
    Some (Ret (map (\<lambda>r. (word_of_int (phy_radioID (gWTPPhyInfo r)), qs)) rs))"
proof -
  let ?count = "\<lambda>e n. if fst e = 1045 then Suc n else n" and ?read = "take_type 1045 (read_profiles qs)"
  have n: "fold ?count es' k = k + length (filter (\<lambda>e. fst e = 1045) es')" for es' :: "(32 word \<times> byte list) list" and k
    by (induction es' arbitrary: k) auto
  have "fold ?count es 0 = length rs" unfolding n by (simp add: assms(3) cresp_pairs_of_type)
  moreover have "parse_elements qos_count_branch (length ([] :: byte list)) (int (length (elems_bytes es))) 0 (rmsg [] (elems_bytes es @ junk) None) =
      Some (Ret (fold ?count es 0, rmsg ([] @ elems_bytes es) junk None))"
    unfolding assms(3)
  proof (rule cresp_pairs_fit [OF assms(2) _ refl])
    fix pre t b post rest and bs :: "byte list" and x :: "32 word option"
    assume "cresp_pairs le ac as qs rs = pre @ (t, b) # post"
    then have "(t, b) \<in> set (cresp_pairs le ac as qs rs)" by simp
    then show "qos_count_branch (fold ?count pre 0) (ucast t) (rmsg (bs @ be16 (ucast t) @ be16 (word_of_nat (length b)))
        (b @ rest) None) (int (length b)) = Ret (?count (t, b) (fold ?count pre 0), rmsg (bs @ elem_bytes t b) rest None)"
      by (cases rule: cresp_pairs_cases)
         (simp_all add: qos_count_branch_def CWBindingCheckType_def Let_def rmsg_def elem_bytes_def)
  qed
  moreover have "fold ?read es [] = map (\<lambda>r. (word_of_int (phy_radioID (gWTPPhyInfo r)), qs)) rs"
    by (simp add: fold_take_type assms(3) cresp_pairs_of_type comp_def read_profiles_def profile_body_def)
  moreover have "parse_elements (qos_read_branch (length rs)) (length ([] :: byte list)) (int (length (elems_bytes es))) []
      (rmsg [] (elems_bytes es @ junk) None) = Some (Ret (fold ?read es [], rmsg ([] @ elems_bytes es) junk None))"
    unfolding assms(3)
  proof (rule cresp_pairs_fit [OF assms(2) _ refl])
    fix pre t b post rest and bs :: "byte list"
    assume es: "cresp_pairs le ac as qs rs = pre @ (t, b) # post"
    let ?bs = "bs @ be16 (ucast t) @ be16 (word_of_nat (length b))"
    have e: "?bs @ b = bs @ elem_bytes t b" by (simp add: elem_bytes_def)
    from es have "(t, b) \<in> set (cresp_pairs le ac as qs rs)" by simp
    then have "t = 1045 \<and> (\<exists>r. b = profile_body qs r) \<or> t \<noteq> 1045 \<and> ucast t \<noteq> (1045 :: 16 word)"
      by (cases rule: cresp_pairs_cases) auto
    then show "qos_read_branch (length rs) (fold ?read pre []) (ucast t) (rmsg ?bs (b @ rest) None) (int (length b)) =
      Ret (?read (t, b) (fold ?read pre []), rmsg (bs @ elem_bytes t b) rest None)"
    proof (elim disjE conjE exE)
      fix r assume t: "t = 1045" and b: "b = profile_body qs r"
      have "length (fold ?read pre []) < length rs"
        using take_type_before [OF es [unfolded t], of "read_profiles qs"] by (simp add: cresp_pairs_of_type)
      moreover have "CWParseWTPQoS (rmsg ?bs (b @ rest) None) (int (length b)) =
          Ret ((word_of_int (phy_radioID (gWTPPhyInfo r)), 0, qs), rmsg (bs @ elem_bytes t b) rest None)"
        using parse_qos_rmsg [OF assms(2), of ?bs "word_of_int (phy_radioID (gWTPPhyInfo r))" 0 rest None] assms(2) e
        by (simp add: b profile_body_def)
      ultimately show ?thesis
        by (simp add: qos_read_branch_def t on_error_free_def take_type_pair read_profiles_def b profile_body_def)
    next
      assume "t \<noteq> 1045" "ucast t \<noteq> (1045 :: 16 word)"
      then show ?thesis by (simp add: qos_read_branch_def take_type_pair skip_body elem_bytes_def)
    qed
  qed
  ultimately show ?thesis
    using assms(1) by (simp add: CWBindingParseConfigureResponse_def start_of_rmsg ample_malloc)
qed

text \<open>What the WTP makes of a response: for each radio, the profiles as merged.\<close>

definition cresp_view ::
  "bool \<Rightarrow> ac_globals \<Rightarrow> CWRadioAdminInfoValues list \<Rightarrow> WTPQosValues list \<Rightarrow> CWWTPRadioInfoValues list \<Rightarrow>
   CWProtocolConfigureResponseValues" where
  "cresp_view le ac as qs rs =
     \<lparr> cresp_ACIPv4List = [int_of_bytes le [192, 168, 1, 2], int_of_bytes le [192, 168, 1, 66]],
       cresp_ACIPv6List = ac_ipv6, cresp_discoveryTimer = gDiscoveryTimer ac mod 256,
       cresp_echoRequestTimer = gEchoRequestTimer ac mod 256, cresp_radioOperationalInfo = [],
       cresp_radiosDecryptErrorPeriod = map (\<lambda>a. (admin_ID a mod 256, 15)) as,
       cresp_idleTimeout = (gIdleTimeout ac + 2147483648) mod 4294967296 - 2147483648, cresp_fallback = 0,
       cresp_bindingValues =
         (if rs = [] then None else Some (map (\<lambda>r. (word_of_int (phy_radioID (gWTPPhyInfo r)), qs)) rs)) \<rparr>"

lemma parse_configure_response:
  assumes "ample mem" "length qs = 4" "e = elems_bytes (cresp_pairs le ac as qs rs)" "length e < 65536"
  shows "CWParseConfigureResponseMessage mem v (message_header seq 6 (length e) @ e @ junk) (int (8 + length e)) seq =
    Some (Ret (cresp_view le ac as qs rs))"
proof -
  note passes =
    parse_cresp_elements [where le = le and ac = ac and as = as and rs = rs, OF assms(1,2) refl, folded assms(3)]
    parse_cresp_read [where le = le and ac = ac and as = as and rs = rs, OF assms(1,2) refl, folded assms(3)]
    parse_cresp_binding [where le = le and ac = ac and as = as and rs = rs, OF assms(1,2) refl, folded assms(3)]
  show ?thesis
    using passes(1,2) [where bs = "message_header seq 6 (length e)"] passes(3) assms(1,4)
    by (cases v) (simp add: CWParseConfigureResponseMessage_def ample_malloc parse_message_header_eq cresp_first_def
        cresp_view_def Let_def)
qed

text \<open>The response of a session whose radios all have their frequencies.\<close>

lemma configure_response_delivered:
  assumes "ample mem" "mac_room mac_ptr" "0 \<le> fid" "fid < 65536" "length qa = 4" "length qs = 4"
    and "\<forall>r \<in> set rs. phy_frequencyList (gWTPPhyInfo r) \<noteq> None" "length as < 1000" "length rs < 1000"
    and "k = control_fragments PMTU (75 + 7 * length as + 50 * length rs)"
    and "insert j (set js) = {..<k}" "j \<notin> set js" "merged = map2 merge_qos qa qs"
  shows "\<exists>pkts mac' m. CWAssembleConfigureResponse mem mac fid garbage le ac as (Some qa) (int (length rs)) rs qs PMTU seq =
        (Ret pkts, if rs = [] then qs else merged) \<and> length pkts = k \<and> list_all well_formed pkts \<and>
      receive_all mem (map (\<lambda>i. received (contents (pkts ! i)) (junk i)) (js @ [j])) [] mac_ptr =
        Some (replicate (length js) (Raise CW_ERROR_NEED_RESOURCE) @ [Ret m], [], mac') \<and>
      (\<forall>v. CWParseConfigureResponseMessage mem v (msg m) (int (offset m)) seq = Some (Ret (cresp_view le ac as merged rs)))"
proof -
  let ?es = "cresp_messages le ac as" and ?bs = "profile_messages merged rs"
  define e where "e = elems_bytes (cresp_pairs le ac as merged rs)"
  let ?body = "message_header seq 6 (length e) @ e"
  have l: "length merged = 4" using assms(5,6,13) by simp
  have le: "length e = 67 + 7 * length as + 50 * length rs" unfolding e_def by (rule length_cresp_pairs [OF l])
  have body: "?body = message_bytes seq 6 ?es ?bs"
    using cresp_pairs_bytes [of le ac as merged rs]
    by (simp add: message_bytes_def message_header_def e_def Let_def)
  have len: "length ?body = 75 + 7 * length as + 50 * length rs" using le by simp
  have wf: "list_all well_formed ?es" "list_all well_formed ?bs" using cresp_messages_well_formed [of le ac as merged rs] by auto
  have "length ?body \<le> 65536" unfolding len using assms(8,9) by simp
  then obtain pkts mac' where p: "CWAssembleMessage mem mac fid garbage PMTU seq 6 ?es ?bs 0 = Ret pkts"
    "length pkts = k" "receive_all mem (map (\<lambda>i. received (contents (pkts ! i)) (junk i)) (js @ [j])) [] mac_ptr =
       Some (replicate (length js) (Raise CW_ERROR_NEED_RESOURCE) @ [Ret (amsg None ?body 0)], [], mac')"
    using message_delivered_binding [OF assms(1) wf assms(2) body _ assms(3,4) _ assms(11,12), of PMTU mac garbage 0 junk]
    unfolding len assms(10) by blast
  note p
  moreover have "list_all well_formed pkts" by (rule CWAssembleMessage_well_formed [OF assms(1) wf p(1)])
  moreover have "CWParseConfigureResponseMessage mem v (msg (amsg None ?body 0)) (int (offset (amsg None ?body 0))) seq =
      Some (Ret (cresp_view le ac as merged rs))" for v
    using parse_configure_response [OF assms(1) l e_def, of v seq "[]"] le assms(8,9) by (simp add: amsg_def wmsg_def)
  ultimately show ?thesis
    unfolding assemble_configure_response [OF assms(1,5,6,7) refl assms(13)] by blast
qed

subsection \<open>The AC configures a WTP\<close>

text \<open>What the AC knows of a radio and of its WTP after a request.\<close>

definition configured_radio :: "PhyFrequencyInfoConfigureMessage \<Rightarrow> CWWTPRadioInfoValues \<Rightarrow> CWWTPRadioInfoValues" where
  "configured_radio f r = r\<lparr>gWTPPhyInfo := (gWTPPhyInfo r)
     \<lparr> phy_totChannels := totChannels f, phy_frequencyList := Some (firstChannel f, maxTxPower f),
       phy_lenSupportedRates := freq_lenSupportedRates f,
       phy_supportedRates := Some (take (nat (freq_lenSupportedRates f)) (the (freq_supportedRates f)) @ [0]) \<rparr>\<rparr>"

definition configured_pm :: "CWProtocolConfigureRequestValues \<Rightarrow> CWWTPProtocolManager \<Rightarrow> CWWTPProtocolManager" where
  "configured_pm v pm = pm\<lparr> pm_ACName := cfg_ACName v, pm_ACNameIndex := cfg_ACinWTP v, pm_radioAdminInfo := cfg_radioAdminInfo v,
     pm_StatisticsTimer := cfg_StatisticsTimer v, pm_WTPRebootStatistics := cfg_WTPRebootStatistics v \<rparr>"

lemma save_one_radio:
  assumes "ample mem" "freq_radioID f = phy_radioID (gWTPPhyInfo r)" "freq_supportedRates f = Some rates"
    "7 \<le> freq_lenSupportedRates f" "freq_lenSupportedRates f \<le> int (length rates)"
  shows "save_frequencies mem 1 0 f [r] = (Ret (), [configured_radio f r])"
  using assms by (simp add: save_frequencies_def Let_def ample_malloc configured_radio_def)

lemma save_configure_request:
  assumes "ample mem" "pm_ACName pm \<noteq> None" "pm_WTPRebootStatistics pm \<noteq> None" "radioCount pm = 1"
    and "cfg_phyFrequencyInfo v = f # fs"
  shows "cfg_numPhyFrequencyInfo v = 0 \<Longrightarrow> CWSaveConfigureRequestMessage mem v [r] pm = (Ret (), [r], configured_pm v pm)"
    and "\<lbrakk>cfg_numPhyFrequencyInfo v = 1; freq_radioID f = phy_radioID (gWTPPhyInfo r); freq_supportedRates f = Some rates;
      7 \<le> freq_lenSupportedRates f; freq_lenSupportedRates f \<le> int (length rates)\<rbrakk> \<Longrightarrow>
      CWSaveConfigureRequestMessage mem v [r] pm = (Ret (), [configured_radio f r], configured_pm v pm)"
  using assms save_one_radio [OF assms(1), of f r rates]
  by (simp_all add: CWSaveConfigureRequestMessage_def configured_pm_def Let_def)

text \<open>The handler for a session whose only radio is described by the request.\<close>

lemma ac_configured:
  assumes mem: "ample mem" and net: "\<forall>k. net k" and room: "mac_room mac_ptr" and fid: "0 \<le> fid" "fid < 65536"
    and parsed: "CWParseConfigureRequestMessage mem stack (msg m) (int (offset m)) = Some (Ret (seq, v))"
    and pm: "pm_ACName pm \<noteq> None" "pm_WTPRebootStatistics pm \<noteq> None" "radioCount pm = 1" "pm_qosValues pm = Some qa"
    and s: "radiosInfo (wtp s) = [r]" "length qa = 4" "length (gDefaultQosValues s) = 4"
      "0 \<le> cur_id (timers s)" "cur_id (timers s) < INT_MAX"
    and v: "cfg_phyFrequencyInfo v = f # fs" "length (cfg_radioAdminInfo v) < 1000" "cfg_numPhyFrequencyInfo v = 1"
      "freq_radioID f = phy_radioID (gWTPPhyInfo r)" "freq_supportedRates f = Some rates"
      "7 \<le> freq_lenSupportedRates f" "freq_lenSupportedRates f \<le> int (length rates)"
    and k: "k = control_fragments (pathMTU (wtp s)) (125 + 7 * length (cfg_radioAdminInfo v))"
    and order: "insert j (set js) = {..<k}" "j \<notin> set js" and merged: "merged = map2 merge_qos qa (gDefaultQosValues s)"
  shows "\<exists>s' pkts mac' m'. ACEnterConfigure old_error mem stack mac fid garbage le ac net m s pm = Some (Ret (), s', configured_pm v pm) \<and>
    currentState (wtp s') = CW_ENTER_DATA_CHECK \<and> radiosInfo (wtp s') = [configured_radio f r] \<and>
    gDefaultQosValues s' = merged \<and>
    (\<exists>t \<in> set (queue (timers s')). tid t = currentTimer (wtp s') \<and>
       CWHandleTimer_signal (handler_arg t) = Ret (thread (wtp s), CW_CRITICAL_TIMER_EXPIRED_SIGNAL)) \<and>
    sent s' = sent s @ map contents pkts \<and> length pkts = k \<and>
    receive_all mem (map (\<lambda>i. received (contents (pkts ! i)) (junk i)) (js @ [j])) [] mac_ptr =
      Some (replicate (length js) (Raise CW_ERROR_NEED_RESOURCE) @ [Ret m'], [], mac') \<and>
    (\<forall>u. CWParseConfigureResponseMessage mem u (msg m') (int (offset m')) seq =
      Some (Ret (cresp_view le ac (cfg_radioAdminInfo v) merged [configured_radio f r])))"
proof -
  let ?r = "configured_radio f r" and ?pm = "configured_pm v pm"
  have save: "CWSaveConfigureRequestMessage mem v [r] pm = (Ret (), [?r], ?pm)"
    by (rule save_configure_request(2) [OF mem pm(1-3) v(1,3-7)])
  have freq: "\<forall>r \<in> set [?r]. phy_frequencyList (gWTPPhyInfo r) \<noteq> None" by (simp add: configured_radio_def)
  have k': "k = control_fragments (pathMTU (wtp s)) (75 + 7 * length (cfg_radioAdminInfo v) + 50 * length [?r])"
    using k by simp
  have one: "length [?r] < 1000" by simp
  obtain pkts mac' m' where p: "CWAssembleConfigureResponse mem mac fid garbage le ac (cfg_radioAdminInfo v) (Some qa) 1 [?r]
      (gDefaultQosValues s) (pathMTU (wtp s)) seq = (Ret pkts, merged)" "length pkts = k" "list_all well_formed pkts"
    "receive_all mem (map (\<lambda>i. received (contents (pkts ! i)) (junk i)) (js @ [j])) [] mac_ptr =
      Some (replicate (length js) (Raise CW_ERROR_NEED_RESOURCE) @ [Ret m'], [], mac')"
    "\<forall>u. CWParseConfigureResponseMessage mem u (msg m') (int (offset m')) seq =
      Some (Ret (cresp_view le ac (cfg_radioAdminInfo v) merged [?r]))"
    using configure_response_delivered [OF mem room fid s(2,3) freq v(2) one k' order merged, of mac garbage le ac seq junk]
    by auto
  let ?w = "(wtp s)\<lparr> radiosInfo := [?r], messages := Some pkts, messagesCount := length pkts \<rparr>"
  let ?s = "s\<lparr> gDefaultQosValues := merged, wtp := ?w \<rparr>"
  let ?s' = "?s\<lparr> wtp := CW_FREE_WTP_MSG_ARRAY ?w, sent := sent s @ map contents pkts \<rparr>"
  have send: "CWACSendFragments net ?s = (Ret (), ?s')"
    using CWACSendFragments_ok [of ?s pkts net] p(3) net by simp
  obtain q t where q: "CWTimerRequest mem gCWChangeStatePendingTimer (thread (wtp s)) (currentTimer (wtp s))
      CW_CRITICAL_TIMER_EXPIRED_SIGNAL (timers s) = (Ret (), cur_id (timers s), q)"
    "t \<in> set (queue q)" "tid t = cur_id (timers s)"
    "handler_arg t = Some \<lparr> requestedThread = thread (wtp s), signalToRaise = CW_CRITICAL_TIMER_EXPIRED_SIGNAL \<rparr>"
    using CWTimerRequest_ok [OF mem _ s(4,5)] by (metis zero_less_numeral)
  let ?t = "?s'\<lparr> wtp := (wtp ?s')\<lparr> currentTimer := cur_id (timers s), currentState := CW_ENTER_DATA_CHECK \<rparr>, timers := q \<rparr>"
  have "ACEnterConfigure old_error mem stack mac fid garbage le ac net m s pm = Some (Ret (), ?t, ?pm)"
    using save p(1) send q(1) s(1) pm(3,4) parsed
    by (simp add: ACEnterConfigure_def Let_def configured_pm_def CW_FREE_WTP_MSG_ARRAY_def)
  moreover have "\<exists>t \<in> set (queue (timers ?t)). tid t = currentTimer (wtp ?t) \<and>
       CWHandleTimer_signal (handler_arg t) = Ret (thread (wtp s), CW_CRITICAL_TIMER_EXPIRED_SIGNAL)"
    using q(2-4) by (auto simp: CWHandleTimer_signal_def intro!: bexI [of _ t])
  moreover have "currentState (wtp ?t) = CW_ENTER_DATA_CHECK" "radiosInfo (wtp ?t) = [?r]" "gDefaultQosValues ?t = merged"
    "sent ?t = sent s @ map contents pkts" by (simp_all add: CW_FREE_WTP_MSG_ARRAY_def)
  ultimately show ?thesis using p(2,4,5) by blast
qed

text \<open>A radio of which no frequency is known cannot be answered.\<close>

lemma unknown_frequencies_fault:
  assumes "ample mem" "length qa = 4" "length qs = 4" "phy_frequencyList (gWTPPhyInfo r) = None"
  shows "CWAssembleConfigureResponse mem mac fid garbage le ac as (Some qa) 1 [r] qs PMTU seq = (Fault, map2 merge_qos qa qs)"
proof -
  have "radio_array 1 [r] = [Some r]" by simp
  moreover have "radio_elements mem (Some qa) 0 [Some r] (Some qs) = (Fault, Some (map2 merge_qos qa qs))"
    using assemble_qos_eq [OF assms(1,3) merge_all [OF assms(3,2)]] assms(2-4) by simp
  ultimately have "CWBindingAssembleConfigureResponse mem (Some qa) 1 [r] qs = (Fault, map2 merge_qos qa qs)"
    unfolding CWBindingAssembleConfigureResponse_def using assms(1) by (simp only: ample_malloc) simp
  then show ?thesis
    using fill_configure_response [OF assms(1)] assms(1) by (simp add: CWAssembleConfigureResponse_def ample_malloc)
qed

text \<open>
  C7: The AC's handler of a Configure Request that was parsed, in a session with one radio. When the request
  describes the radio's frequencies and rates, the session keeps them with all else the request says, its default
  profiles are completed from the session's, a timer of fifty seconds will close the session unless it is cancelled,
  the session enters the Data Check state, and the packets sent, delivered in any order, are read by the WTP as the AC's
  timers, the AC's addresses and the merged profiles for that radio. When the request describes no frequencies, and none
  are known, the AC follows a null pointer while it assembles the answer.
\<close>

theorem ac_configure:
  assumes "ample mem" "\<forall>k. net k" "mac_room mac_ptr" "0 \<le> fid" "fid < 65536"
    and "CWParseConfigureRequestMessage mem stack (msg m) (int (offset m)) = Some (Ret (seq, v))"
    and "pm_ACName pm \<noteq> None" "pm_WTPRebootStatistics pm \<noteq> None" "radioCount pm = 1" "pm_qosValues pm = Some qa"
    and "radiosInfo (wtp s) = [r]" "length qa = 4" "length (gDefaultQosValues s) = 4"
      "0 \<le> cur_id (timers s)" "cur_id (timers s) < INT_MAX"
    and "cfg_phyFrequencyInfo v = f # fs" "length (cfg_radioAdminInfo v) < 1000"
    and "if cfg_numPhyFrequencyInfo v = 0 then phy_frequencyList (gWTPPhyInfo r) = None
      else cfg_numPhyFrequencyInfo v = 1 \<and> freq_radioID f = phy_radioID (gWTPPhyInfo r) \<and>
        freq_supportedRates f = Some rates \<and> 7 \<le> freq_lenSupportedRates f \<and> freq_lenSupportedRates f \<le> int (length rates)"
    and "k = control_fragments (pathMTU (wtp s)) (125 + 7 * length (cfg_radioAdminInfo v))"
    and "insert j (set js) = {..<k}" "j \<notin> set js" "merged = map2 merge_qos qa (gDefaultQosValues s)"
  shows "if cfg_numPhyFrequencyInfo v = 0
    then \<exists>s' pm'. ACEnterConfigure old_error mem stack mac fid garbage le ac net m s pm = Some (Fault, s', pm')
    else \<exists>s' pkts mac' m'. ACEnterConfigure old_error mem stack mac fid garbage le ac net m s pm = Some (Ret (), s', configured_pm v pm) \<and>
      currentState (wtp s') = CW_ENTER_DATA_CHECK \<and> radiosInfo (wtp s') = [configured_radio f r] \<and>
      gDefaultQosValues s' = merged \<and>
      (\<exists>t \<in> set (queue (timers s')). tid t = currentTimer (wtp s') \<and>
         CWHandleTimer_signal (handler_arg t) = Ret (thread (wtp s), CW_CRITICAL_TIMER_EXPIRED_SIGNAL)) \<and>
      sent s' = sent s @ map contents pkts \<and> length pkts = k \<and>
      receive_all mem (map (\<lambda>i. received (contents (pkts ! i)) (junk i)) (js @ [j])) [] mac_ptr =
        Some (replicate (length js) (Raise CW_ERROR_NEED_RESOURCE) @ [Ret m'], [], mac') \<and>
      CWParseConfigureResponseMessage mem u (msg m') (int (offset m')) seq =
        Some (Ret (cresp_view le ac (cfg_radioAdminInfo v) merged [configured_radio f r]))"
proof (cases "cfg_numPhyFrequencyInfo v = 0")
  case True
  then have none: "phy_frequencyList (gWTPPhyInfo r) = None" using assms(18) by simp
  note fault = unknown_frequencies_fault [OF assms(1,12,13) none]
  with True assms(6,9-11) show ?thesis
    using save_configure_request(1) [OF assms(1,7,8,9,16) True]
    by (simp add: ACEnterConfigure_def configured_pm_def Let_def)
next
  case False
  with assms(18) have f: "cfg_numPhyFrequencyInfo v = 1" "freq_radioID f = phy_radioID (gWTPPhyInfo r)"
    "freq_supportedRates f = Some rates" "7 \<le> freq_lenSupportedRates f" "freq_lenSupportedRates f \<le> int (length rates)"
    by simp_all
  show ?thesis
    using ac_configured [OF assms(1-17) f assms(19-22), of old_error mac garbage le ac junk] False by simp blast
qed

subsection \<open>Both sides agree on the configuration\<close>

lemma config_view_one:
  assumes "gRadiosInfo w = [rw]"
  shows "cfg_phyFrequencyInfo (config_view w) = frequencies_view rw # replicate 4 no_frequencies"
    "cfg_numPhyFrequencyInfo (config_view w) = 1" "length (cfg_radioAdminInfo (config_view w)) = 1"
    "cfg_ACName (config_view w) = Some (Some (gACInfo_name w))"
  using assms by (simp_all add: config_view_def Let_def)

lemma frequencies_view_rates:
  assumes "radio_ready r"
  shows "freq_supportedRates (frequencies_view r) = Some (eight_rates r @ [0])" "freq_lenSupportedRates (frequencies_view r) = 8"
    "length (eight_rates r) = 8"
  using assms by (auto simp: frequencies_view_def Let_def radio_ready_def)

text \<open>What the WTP stores of the response: its only radio gets the profiles.\<close>

lemma save_configure_response:
  assumes "0 \<le> i" "i < 256" "length merged = 4"
  shows "\<exists>a'. CWSaveConfigureResponseMessage st True
      (v\<lparr>cresp_bindingValues := Some [(word_of_int i, merged)]\<rparr>) (Some a) echo [(i, qs)] =
      (Ret (), Some a', if cresp_echoRequestTimer v > 0 then cresp_echoRequestTimer v else echo,
       [(i, map2 (set_profile st) merged qs)]) \<and>
    (cresp_ACIPv4List v \<noteq> [] \<longrightarrow> joined_IPv4List a' = cresp_ACIPv4List v)"
proof -
  have "uint (word_of_int i :: byte) = i" using assms(1,2) by (simp add: field_values)
  then show ?thesis
    by (simp add: CWSaveConfigureResponseMessage_def CWBindingSaveConfigureResponse_def CWBindingSetQosValues_def Let_def)
qed

text \<open>
  C4: The whole configuration of a WTP with one radio, after the Join. Its request, delivered in any order, is
  accepted by the AC, which keeps the radio's first channel, its power and its first eight rates and goes to the Data Check
  state; the answer, delivered in any order, is accepted as the response to that request, and the WTP takes over the
  AC's two addresses and its echo interval cut to a byte. Of the profiles, which on the AC are the defaults completed
  from the session's, the WTP keeps its own value where it agrees, and that of its settings file where it does
  not.
\<close>

theorem configure_agreement:
  assumes mem: "ample mem" and net: "\<forall>k. net k" and room: "mac_room mac_ptr" "mac_room mac_ptr'" and fid: "0 \<le> fid" "fid < 65536"
    and w: "gRadiosInfo w = [rw]" "length (gACInfo_name w) < 65000" "phy_frequencyList (gWTPPhyInfo rw) = Some (first, maxPower)"
      "phy_supportedRates (gWTPPhyInfo rw) = Some rates" "8 \<le> length rates"
    and ident: "phy_radioID (gWTPPhyInfo rw) = i" "0 \<le> i" "i < 256" "phy_radioID (gWTPPhyInfo r) = i"
    and pm: "pm_ACName pm \<noteq> None" "pm_WTPRebootStatistics pm \<noteq> None" "radioCount pm = 1" "pm_qosValues pm = Some qa"
    and s: "radiosInfo (wtp s) = [r]" "length qa = 4" "length (gDefaultQosValues s) = 4"
      "0 \<le> cur_id (timers s)" "cur_id (timers s) < INT_MAX"
    and k: "k = control_fragments PMTU (127 + length (gACInfo_name w))" "k' = control_fragments (pathMTU (wtp s)) 132"
    and order: "insert j (set js) = {..<k}" "j \<notin> set js" "insert j' (set js') = {..<k'}" "j' \<notin> set js'"
    and merged: "merged = map2 merge_qos qa (gDefaultQosValues s)"
  shows "\<exists>pkts mac1 m s' pm' r' answer mac2 m' v g'.
    CWAssembleConfigureRequest mem mac fid garbage w PMTU seq = Ret pkts \<and> length pkts = k \<and>
    receive_all mem (map (\<lambda>i. received (contents (pkts ! i)) (junk i)) (js @ [j])) [] mac_ptr =
      Some (replicate (length js) (Raise CW_ERROR_NEED_RESOURCE) @ [Ret m], [], mac1) \<and>
    ACEnterConfigure old_error mem stack mac fid garbage le ac net m s pm = Some (Ret (), s', pm') \<and>
    currentState (wtp s') = CW_ENTER_DATA_CHECK \<and> pm_ACName pm' = Some (Some (gACInfo_name w)) \<and>
    radiosInfo (wtp s') = [r'] \<and> phy_frequencyList (gWTPPhyInfo r') = Some (first mod 65536, maxPower mod 65536) \<and>
    phy_supportedRates (gWTPPhyInfo r') = Some (take 8 rates @ [0]) \<and>
    sent s' = sent s @ map contents answer \<and> length answer = k' \<and>
    receive_all mem (map (\<lambda>i. received (contents (answer ! i)) (junk i)) (js' @ [j'])) [] mac_ptr' =
      Some (replicate (length js') (Raise CW_ERROR_NEED_RESOURCE) @ [Ret m'], [], mac2) \<and>
    CWParseConfigureResponseMessage mem u (msg m') (int (offset m')) seq = Some (Ret v) \<and>
    CWSaveConfigureResponseMessage st True v (Some g) echo [(i, qs)] =
      (Ret (), Some g', (if 0 < gEchoRequestTimer ac mod 256 then gEchoRequestTimer ac mod 256 else echo),
       [(i, map2 (set_profile st) merged qs)]) \<and>
    joined_IPv4List g' = [int_of_bytes le [192, 168, 1, 2], int_of_bytes le [192, 168, 1, 66]]"
proof -
  let ?v = "config_view w" and ?f = "frequencies_view rw"
  have ready: "radio_ready rw" using w(3-5) by (simp add: radio_ready_def)
  then have all: "\<forall>r \<in> set (gRadiosInfo w). radio_ready r" using w(1) by simp
  have one: "\<not> 1 < length (gRadiosInfo w)" using w(1) by simp
  have k1: "k = control_fragments PMTU (67 + length (gACInfo_name w) + 60 * length (gRadiosInfo w))" using k(1) w(1) by simp
  obtain pkts mac1 m where p: "CWAssembleConfigureRequest mem mac fid garbage w PMTU seq = Ret pkts" "length pkts = k"
    "receive_all mem (map (\<lambda>i. received (contents (pkts ! i)) (junk i)) (js @ [j])) [] mac_ptr =
      Some (replicate (length js) (Raise CW_ERROR_NEED_RESOURCE) @ [Ret m], [], mac1)"
    "CWParseConfigureRequestMessage mem stack (msg m) (int (offset m)) = Some (Ret (seq, ?v))"
    using configure_request_delivered [OF mem room(1) fid w(2) all k1 order(1,2), of mac garbage seq junk]
    unfolding if_not_P [OF one] by blast
  note view = config_view_one [OF w(1)] frequencies_view_rates [OF ready]
  have i: "freq_radioID ?f = phy_radioID (gWTPPhyInfo r)" using ident by (simp add: frequencies_view_def Let_def)
  have few: "length (cfg_radioAdminInfo ?v) < 1000" "7 \<le> freq_lenSupportedRates ?f"
    "freq_lenSupportedRates ?f \<le> int (length (eight_rates rw @ [0]))"
    using view by simp_all
  have k2: "k' = control_fragments (pathMTU (wtp s)) (125 + 7 * length (cfg_radioAdminInfo ?v))" using k(2) view(3) by simp
  let ?r = "configured_radio ?f r" and ?cv = "cresp_view le ac (cfg_radioAdminInfo ?v) merged [configured_radio ?f r]"
  obtain s' answer mac2 m' where a:
    "ACEnterConfigure old_error mem stack mac fid garbage le ac net m s pm = Some (Ret (), s', configured_pm ?v pm)"
    "currentState (wtp s') = CW_ENTER_DATA_CHECK" "radiosInfo (wtp s') = [?r]"
    "sent s' = sent s @ map contents answer" "length answer = k'"
    "receive_all mem (map (\<lambda>i. received (contents (answer ! i)) (junk i)) (js' @ [j'])) [] mac_ptr' =
      Some (replicate (length js') (Raise CW_ERROR_NEED_RESOURCE) @ [Ret m'], [], mac2)"
    "CWParseConfigureResponseMessage mem u (msg m') (int (offset m')) seq = Some (Ret ?cv)"
    using ac_configured [OF mem net room(2) fid p(4) pm s view(1) few(1) view(2) i view(5) few(2,3) k2 order(3,4) merged,
      of old_error mac garbage le ac junk] by blast
  have name: "pm_ACName (configured_pm ?v pm) = Some (Some (gACInfo_name w))" using view(4) by (simp add: configured_pm_def)
  have radio: "phy_frequencyList (gWTPPhyInfo ?r) = Some (first mod 65536, maxPower mod 65536)"
    "phy_supportedRates (gWTPPhyInfo ?r) = Some (take 8 rates @ [0])" "phy_radioID (gWTPPhyInfo ?r) = i"
    using view(5-7) w(3,4) ident(4) by (simp_all add: configured_radio_def) (simp add: frequencies_view_def Let_def)
  have "length merged = 4" using merged s(2,3) by simp
  from save_configure_response [OF ident(2,3) this, of st ?cv g echo qs]
  obtain g' where "CWSaveConfigureResponseMessage st True ?cv (Some g) echo [(i, qs)] =
      (Ret (), Some g', (if 0 < gEchoRequestTimer ac mod 256 then gEchoRequestTimer ac mod 256 else echo),
       [(i, map2 (set_profile st) merged qs)])"
    "joined_IPv4List g' = [int_of_bytes le [192, 168, 1, 2], int_of_bytes le [192, 168, 1, 66]]"
    by (auto simp: cresp_view_def radio(3))
  with p(1-3) a name radio(1,2) show ?thesis by blast
qed

text \<open>A joined session, before its radio's frequencies are known; and what the AC knows of the WTP.\<close>

definition ex_joined :: ac_session where
  "ex_joined = ex_session [ex_radio\<lparr>gWTPPhyInfo := (gWTPPhyInfo ex_radio)\<lparr> phy_frequencyList := None, phy_supportedRates := None \<rparr>\<rparr>]"

definition ex_known :: CWWTPProtocolManager where
  "ex_known = ex_manager\<lparr> radioCount := 1, pm_qosValues := Some (replicate 4 (ex_qos 2 4 3)) \<rparr>"

lemma ex_joined_simps:
  "pm_ACName ex_known \<noteq> None" "pm_WTPRebootStatistics ex_known \<noteq> None" "radioCount ex_known = 1"
  "pm_qosValues ex_known = Some (replicate 4 (ex_qos 2 4 3))"
  "radiosInfo (wtp ex_joined) = [ex_radio\<lparr>gWTPPhyInfo := (gWTPPhyInfo ex_radio)
     \<lparr> phy_frequencyList := None, phy_supportedRates := None \<rparr>\<rparr>]"
  "length (replicate 4 (ex_qos 2 4 3)) = 4" "length (gDefaultQosValues ex_joined) = 4"
  "0 \<le> cur_id (timers ex_joined)" "cur_id (timers ex_joined) < INT_MAX"
  by (simp_all add: ex_joined_def ex_known_def ex_manager_def ex_session_def)

text \<open>A request without frequencies.\<close>

theorem ac_configure_witness:
  "\<exists>s' pm'. ACEnterConfigure None (\<lambda>_. True) (config_view ex_wtp) no_mac 0 0 True ex_ac (\<lambda>_. True)
     \<lparr> msg = message_header 3 5 (length (config_elements (ex_wtp\<lparr>gRadiosInfo := []\<rparr>))) @
               config_elements (ex_wtp\<lparr>gRadiosInfo := []\<rparr>),
       offset = 68, data_msgType = None \<rparr> ex_joined ex_known = Some (Fault, s', pm')"
proof -
  let ?w = "ex_wtp\<lparr>gRadiosInfo := []\<rparr>"
  define e where "e = config_elements ?w"
  let ?m = "\<lparr> msg = message_header 3 5 (length e) @ e, offset = 68, data_msgType = None \<rparr>"
  let ?v = "config_view ?w"
  have all: "\<forall>r \<in> set (gRadiosInfo ?w). radio_ready r" by simp
  have l: "length e = 60" using length_config_elements [OF all] unfolding e_def by (simp add: ex_wtp_def)
  have p: "CWParseConfigureRequestMessage (\<lambda>_. True) (config_view ex_wtp) (msg ?m) (int (offset ?m)) = Some (Ret (3, ?v))"
    using parse_configure_request [OF ample_all _ _ all e_def, of "config_view ex_wtp" 3 "[]"] l by (simp add: ex_wtp_def)
  have v: "cfg_phyFrequencyInfo ?v = no_frequencies # replicate 4 no_frequencies" "cfg_numPhyFrequencyInfo ?v = 0"
    "length (cfg_radioAdminInfo ?v) = 0" by (simp_all add: config_view_def Let_def five)
  have k: "1 = control_fragments (pathMTU (wtp ex_joined)) (125 + 7 * length (cfg_radioAdminInfo ?v))"
    unfolding v(3) by (simp add: ex_joined_def ex_session_def control_fragments_def control_pmtu_def fragment_payload_def fragments_num_def)
  have "mac_room None" by (simp add: mac_room_def)
  then show ?thesis
    using ac_configure [where old_error = None, OF ample_all _ _ _ _ p ex_joined_simps(1-9) v(1) _ _ k, of "\<lambda>_. True" None 0 "[]" 0 "[]"] v(2,3)
    unfolding e_def by (simp add: lessThan_Suc)
qed

text \<open>The WTP asks for nothing else than what it has: minimum 2, maximum 4, AIFS 3.\<close>

theorem configure_agreement_witness:
  "\<exists>pkts mac1 m s' pm' r' v g'.
    CWAssembleConfigureRequest (\<lambda>_. True) no_mac 7 0 ex_wtp 100 4 = Ret pkts \<and> length pkts = 2 \<and>
    receive_all (\<lambda>_. True) (map (\<lambda>i. received (contents (pkts ! i)) []) [1, 1, 0]) [] None =
      Some (replicate 2 (Raise CW_ERROR_NEED_RESOURCE) @ [Ret m], [], mac1) \<and>
    ACEnterConfigure None (\<lambda>_. True) (config_view ex_wtp) no_mac 7 0 True ex_ac (\<lambda>_. True) m ex_joined ex_known =
      Some (Ret (), s', pm') \<and>
    currentState (wtp s') = CW_ENTER_DATA_CHECK \<and> pm_ACName pm' = Some (Some [65]) \<and> radiosInfo (wtp s') = [r'] \<and>
    phy_frequencyList (gWTPPhyInfo r') = Some (2412, 20) \<and>
    phy_supportedRates (gWTPPhyInfo r') = Some [2, 4, 11, 22, 12, 18, 24, 36, 0] \<and>
    CWSaveConfigureResponseMessage (9, 9, 9) True v (Some \<lparr> joined_info = None, joined_name = None, joined_IPv4List = [],
        joined_IPv6List = [] \<rparr>) 5 [(1, replicate 4 (ex_qos 2 8 3))] =
      (Ret (), Some g', 30, [(1, replicate 4 (ex_qos 2 9 3))])"
proof -
  have k: "2 = control_fragments 100 (127 + length (gACInfo_name ex_wtp))" "1 = control_fragments (pathMTU (wtp ex_joined)) 132"
    by (simp_all add: ex_wtp_def ex_joined_def ex_session_def control_fragments_def control_pmtu_def fragment_payload_def
        fragments_num_def)
  have all: "insert 0 (set [1, 1]) = {..<2 :: nat}" "insert 0 (set []) = {..<1 :: nat}" by auto
  have m: "mac_room None" by (simp add: mac_room_def)
  have w: "gRadiosInfo ex_wtp = [ex_radio]" "length (gACInfo_name ex_wtp) < 65000"
    "phy_frequencyList (gWTPPhyInfo ex_radio) = Some (2412, 20)"
    "phy_supportedRates (gWTPPhyInfo ex_radio) = Some [2, 4, 11, 22, 12, 18, 24, 36]"
    "8 \<le> length [2 :: byte, 4, 11, 22, 12, 18, 24, 36]" "phy_radioID (gWTPPhyInfo ex_radio) = 1"
    by (simp_all add: ex_wtp_def ex_radio_def)
  have r: "phy_radioID (gWTPPhyInfo (ex_radio\<lparr>gWTPPhyInfo := (gWTPPhyInfo ex_radio)
     \<lparr> phy_frequencyList := None, phy_supportedRates := None \<rparr>\<rparr>)) = 1" using w(6) by simp
  have others: "\<forall>k. (\<lambda>_. True) (k :: nat)" "(0 :: int) \<le> 7" "(7 :: int) < 65536" "(0 :: int) \<le> 1" "(1 :: int) < 256"
    "(0 :: nat) \<notin> set [1, 1]" "(0 :: nat) \<notin> set []" by simp_all
  define merged where "merged = map2 merge_qos (replicate 4 (ex_qos 2 4 3)) (gDefaultQosValues ex_joined)"
  have q: "map2 (set_profile (9, 9, 9)) merged (replicate 4 (ex_qos 2 8 3)) = replicate 4 (ex_qos 2 9 3)"
    by (simp add: merged_def ex_joined_def ex_session_def five merge_qos_def set_profile_def ex_qos_def)
  have e: "(if 0 < gEchoRequestTimer ex_ac mod 256 then gEchoRequestTimer ex_ac mod 256 else 5) = 30" by (simp add: ex_ac_def)
  have n: "gACInfo_name ex_wtp = [65]" "(2412 :: int) mod 65536 = 2412" "(20 :: int) mod 65536 = 20"
    "take 8 [2 :: byte, 4, 11, 22, 12, 18, 24, 36] @ [0] = [2, 4, 11, 22, 12, 18, 24, 36, 0]" "length [1 :: nat, 1] = 2"
    by (simp_all add: ex_wtp_def)
  obtain pkts mac1 m s' pm' r' answer mac2 m' v g' where a:
    "CWAssembleConfigureRequest (\<lambda>_. True) no_mac 7 0 ex_wtp 100 4 = Ret pkts" "length pkts = 2"
    "receive_all (\<lambda>_. True) (map (\<lambda>i. received (contents (pkts ! i)) []) ([1, 1] @ [0])) [] None =
      Some (replicate (length [1 :: nat, 1]) (Raise CW_ERROR_NEED_RESOURCE) @ [Ret m], [], mac1)"
    "ACEnterConfigure None (\<lambda>_. True) (config_view ex_wtp) no_mac 7 0 True ex_ac (\<lambda>_. True) m ex_joined ex_known =
      Some (Ret (), s', pm')" "currentState (wtp s') = CW_ENTER_DATA_CHECK" "pm_ACName pm' = Some (Some (gACInfo_name ex_wtp))"
    "radiosInfo (wtp s') = [r']" "phy_frequencyList (gWTPPhyInfo r') = Some (2412 mod 65536, 20 mod 65536)"
    "phy_supportedRates (gWTPPhyInfo r') = Some (take 8 [2, 4, 11, 22, 12, 18, 24, 36] @ [0])"
    "CWSaveConfigureResponseMessage (9, 9, 9) True v (Some \<lparr> joined_info = None, joined_name = None, joined_IPv4List = [],
        joined_IPv6List = [] \<rparr>) 5 [(1, replicate 4 (ex_qos 2 8 3))] =
      (Ret (), Some g', (if 0 < gEchoRequestTimer ex_ac mod 256 then gEchoRequestTimer ex_ac mod 256 else 5),
       [(1, map2 (set_profile (9, 9, 9)) merged (replicate 4 (ex_qos 2 8 3)))])"
    using configure_agreement [OF ample_all others(1) m m others(2,3) w(1-6) others(4,5) r ex_joined_simps(1-9) k all(1) others(6)
      all(2) others(7) merged_def, where old_error = None and mac = no_mac and garbage = 0 and seq = 4 and junk = "\<lambda>_. []" and stack = "config_view ex_wtp"
      and le = True and ac = ex_ac and u = "cresp_view True ex_ac [] [] []" and st = "(9, 9, 9)" and echo = 5
      and g = "\<lparr> joined_info = None, joined_name = None, joined_IPv4List = [], joined_IPv6List = [] \<rparr>"
      and qs = "replicate 4 (ex_qos 2 8 3)"]
    by (elim exE conjE) (rule that; assumption)
  show ?thesis
    by (intro exI conjI, rule a(1), rule a(2), rule a(3) [unfolded n append.simps], rule a(4), rule a(5), rule a(6) [unfolded n],
        rule a(7), rule a(8) [unfolded n], rule a(9) [unfolded n], rule a(10) [unfolded q e])
qed

end
