(* ===== verification/ACServer.thy ===== *)
theory ACServer
  imports ConfigureStates StationTable
begin

section \<open>The AC's sessions: ACMainLoop.c\<close>

text \<open>
  One thread reads every datagram (\<open>CWACManageIncomingPacket\<close>): it answers a Discovery Request itself,
  and hands anything else to the thread of the WTP, which it creates for an address it does not know. A
  session thread counts itself, serves its queue, and, when it is asked to close, subtracts itself, and later
  frees its entry of \<^verbatim>\<open>gWTPs\<close>. But a thread that handles an error for which there was no memory just ends, and one that
  handles an error before it has raised any ends the process. Between these steps the other threads run, so that they are steps of a relation on the
  state of the server. What a lock protects is one step.
\<close>

subsection \<open>State\<close>

text \<open>
  \<open>starting\<close>: threads that are created and have not yet counted themselves, with the interface of their
  argument; \<open>running\<close>: threads in their loop; \<open>closing\<close>: threads that have subtracted themselves and not yet
  freed their entry; \<open>clearing\<close>: those that have yet to delete their stations; \<open>gone\<close>: threads that have ended without
  doing any of that.
\<close>

record ac_server =
  globals :: ac_globals
  slots :: "CWWTPManager list"
  managers :: "CWWTPProtocolManager list"
  starting :: "(nat \<times> nat) list"
  running :: "nat list"
  closing :: "nat list"
  clearing :: "nat list"
  gone :: "nat list"
  server_timers :: "(timer_handler, CWThreadTimerArg) timerq"
  answers :: "byte list list"
  stations :: nodeAVL
  default_qos :: "WTPQosValues list"

abbreviation CW_MAX_WTP :: nat where "CW_MAX_WTP \<equiv> 100"
abbreviation gCWWaitJoin_AC :: int where "gCWWaitJoin_AC \<equiv> 60"
abbreviation NO_CMD :: int where "NO_CMD \<equiv> 0"
abbreviation sizeof_CWACThreadArg :: int where "sizeof_CWACThreadArg \<equiv> 12"

definition upd_slot :: "nat \<Rightarrow> (CWWTPManager \<Rightarrow> CWWTPManager) \<Rightarrow> ac_server \<Rightarrow> ac_server" where
  "upd_slot i f s = s\<lparr>slots := (slots s)[i := f (slots s ! i)]\<rparr>"

subsection \<open>Which session an address belongs to\<close>

text \<open>
  Both comparisons of \<^verbatim>\<open>CWStevens.c\<close> find no difference; an unspecified address differs from every
  other, and so does an IPv6 address, which they know only when they are compiled with \<^verbatim>\<open>IPV6\<close>.
\<close>

definition sock_equal :: "sockaddr \<Rightarrow> sockaddr option \<Rightarrow> bool" where
  "sock_equal a b =
     (case b of None \<Rightarrow> False
      | Some b \<Rightarrow> \<not> sa_IPv6 a \<and> \<not> sa_IPv6 b \<and> sa_addr a = sa_addr b \<and> sa_port a = sa_port b)"

text \<open>Of an IPv6 address only the family is copied.\<close>

definition copy_addr :: "sockaddr \<Rightarrow> sockaddr \<Rightarrow> sockaddr" where
  "copy_addr a old = (if sa_IPv6 a then old\<lparr>sa_IPv6 := True\<rparr> else a)"

text \<open>The condition of the loop; \<^verbatim>\<open>memcmp\<close> with the null pointer crashes.\<close>

definition wtp_matches :: "sockaddr \<Rightarrow> bool \<Rightarrow> byte list option \<Rightarrow> CWWTPManager \<Rightarrow> bool res" where
  "wtp_matches a data sid w =
     (if \<not> isNotFree w then Ret False
      else if \<not> data then Ret (sock_equal a (Some (address w)))
      else case sid of
        None \<Rightarrow> Ret (sock_equal a (dataaddress w))
      | Some x \<Rightarrow>
          (case sessionID w of
             None \<Rightarrow> Fault
           | Some y \<Rightarrow> Ret (take 16 y = take 16 x \<or> sock_equal a (dataaddress w))))"

fun search_slots :: "(CWWTPManager \<Rightarrow> bool res) \<Rightarrow> CWWTPManager list \<Rightarrow> nat list \<Rightarrow> nat option res" where
  "search_slots p ws [] = Ret None"
| "search_slots p ws (i # is) =
     (if i < length ws
      then res_bind (p (ws ! i)) (\<lambda>b. if b then Ret (Some i) else search_slots p ws is)
      else Fault)"

definition CWWTPByAddress ::
  "sockaddr \<Rightarrow> bool \<Rightarrow> byte list option \<Rightarrow> ac_server \<Rightarrow> nat option res" where
  "CWWTPByAddress a data sid s =
     search_slots (wtp_matches a data sid) (slots s) [0..<nat (gMaxWTPs (globals s))]"

text \<open>On the data channel the session identifier of a keep-alive names the session.\<close>

definition find_session ::
  "memory \<Rightarrow> byte list \<Rightarrow> sockaddr \<Rightarrow> bool \<Rightarrow> ac_server \<Rightarrow> nat option res" where
  "find_session mem buf a data s =
     (if \<not> data then CWWTPByAddress a data None s
      else res_bind (CWParseTransportHeader mem \<lparr> msg = buf, offset = 0, data_msgType = None \<rparr> data None)
        (\<lambda>(v, m, data, _).
        if data_msgType m = Some CW_DATA_MSG_KEEP_ALIVE_TYPE then
          (case CWParseFormatMsgElem m of
             Ret (_, m) \<Rightarrow> res_bind (CWParseSessionID mem m 16) (\<lambda>(sid, m). CWWTPByAddress a data sid s)
           | Raise e \<Rightarrow> Raise e
           | Fault \<Rightarrow> Fault)
        else CWWTPByAddress a data None s))"

subsection \<open>A packet arrives\<close>

text \<open>A clone of the packet is put at the end of the queue; \<open>new\<close> is the address of its element.\<close>

definition queue_packet ::
  "memory \<Rightarrow> addr option \<Rightarrow> byte list \<Rightarrow> int \<Rightarrow> bool \<Rightarrow> nat \<Rightarrow> ac_server \<Rightarrow> ac_server res" where
  "queue_packet mem new buf readBytes data i s =
     (if \<not> malloc_ok mem readBytes then Ret s
      else res_bind (CWAddElementToSafeListTailwitDataFlag new (packetReceiveList (slots s ! i))
                       (Some (take (nat readBytes) buf)) readBytes data) (\<lambda>(_, l).
           Ret (upd_slot i (\<lambda>w. w\<lparr>packetReceiveList := l\<rparr>) s)))"

text \<open>The first free entry, \<^verbatim>\<open>gMaxWTPs\<close> when there is none.\<close>

definition free_slot :: "ac_server \<Rightarrow> nat" where
  "free_slot s = length (takeWhile (\<lambda>i. isNotFree (slots s ! i)) [0..<nat (gMaxWTPs (globals s))])"

text \<open>
  A session is made for an unknown address. \<open>thread_id\<close> is the new thread, \<open>None\<close> when it cannot be
  created: then the address of the pointer to the queue, which is not from the heap, is freed.
  When there is no memory for the argument of the thread the entry stays taken.
\<close>

definition new_session ::
  "memory \<Rightarrow> bool \<Rightarrow> nat option \<Rightarrow> addr option \<Rightarrow> byte list \<Rightarrow> int \<Rightarrow> int \<Rightarrow> sockaddr \<Rightarrow> bool \<Rightarrow>
   ac_server \<Rightarrow> ac_server res" where
  "new_session mem list_ok thread_id new buf readBytes interface a data s =
     (let i = free_slot s in
      if length (slots s) \<le> i then Fault
      else
        let s = upd_slot i (\<lambda>w. w\<lparr> address := copy_addr a (address w), dataaddress := None, isNotFree := True,
                                    isRequestClose := False \<rparr>) s in
        case CWCreateSafeList list_ok of
          None \<Rightarrow> Ret (upd_slot i (\<lambda>w. w\<lparr>isNotFree := False\<rparr>) s)
        | Some l \<Rightarrow>
            let l = CWSetConditionSafeList (CWSetMutexSafeList (Some l) (Some i)) (Some i);
                s = upd_slot i (\<lambda>w. w\<lparr>packetReceiveList := l\<rparr>) s
            in if \<not> malloc_ok mem sizeof_CWACThreadArg then Ret s
               else case thread_id of
                 None \<Rightarrow> Fault
               | Some t \<Rightarrow>
                   queue_packet mem new buf readBytes data i
                     (upd_slot i (\<lambda>w. w\<lparr>thread := t\<rparr>)
                       (s\<lparr>starting := starting s @ [(i, nat (max 0 interface))]\<rparr>)))"

text \<open>What becomes of the thread that reads the datagrams: an error for which there was no memory ends it, while the
  sessions go on as before; a response that cannot be assembled or sent otherwise ends the process. A failure that is
  taken for a success leaves the code with values that were never set: a \<open>Fault\<close>.\<close>

datatype served = Served ac_server | ReaderEnds | ExitsProcess

definition reader_failed :: "last_error \<Rightarrow> served res \<Rightarrow> served res" where
  "reader_failed err r =
     (case CWErrorHandleLast err of
        HandledTrue \<Rightarrow> Fault
      | HandledFalse \<Rightarrow> r
      | ThreadExits \<Rightarrow> Ret ReaderEnds
      | ProcessExits \<Rightarrow> Ret ExitsProcess)"

definition answer_discovery ::
  "memory \<Rightarrow> eth \<Rightarrow> int \<Rightarrow> 32 word \<Rightarrow> bool \<Rightarrow> bool \<Rightarrow> last_error \<Rightarrow> byte \<Rightarrow> CWDiscoveryRequestValues \<Rightarrow> ac_server \<Rightarrow>
   served res" where
  "answer_discovery mem mac fid garbage le net old_error seq v s =
     (case CWAssembleDiscoveryResponse mem mac fid garbage le (globals s) v seq of
        Fault \<Rightarrow> Fault
      | Raise e \<Rightarrow> reader_failed (CWErrorRaise old_error e) (Ret ExitsProcess)
      | Ret [] \<Rightarrow> Fault
      | Ret (p # _) \<Rightarrow>
          if \<not> well_formed p then Fault
          else if net then Ret (Served (s\<lparr>answers := answers s @ [contents p]\<rparr>)) else Ret ExitsProcess)"

text \<open>
  \<open>old_error\<close> is the last error of the thread. When the queue of the new session cannot be made the error that is
  handled is still that of the parse function, which was handled before.
\<close>

definition CWACManageIncomingPacket ::
  "memory \<Rightarrow> eth \<Rightarrow> int \<Rightarrow> 32 word \<Rightarrow> bool \<Rightarrow> bool \<Rightarrow> last_error \<Rightarrow> bool \<Rightarrow> nat option \<Rightarrow> addr option \<Rightarrow> byte list \<Rightarrow> int \<Rightarrow> int \<Rightarrow>
   sockaddr \<Rightarrow> bool \<Rightarrow> ac_server \<Rightarrow> served res option" where
  "CWACManageIncomingPacket mem mac fid garbage le net old_error list_ok thread_id new buf readBytes interface a data s =
     (case find_session mem buf a data s of
        Fault \<Rightarrow> Some Fault
      | Raise e \<Rightarrow> Some (Ret (Served s))
      | Ret (Some i) \<Rightarrow>
          let s = (if data \<and> dataaddress (slots s ! i) = None
                   then upd_slot i (\<lambda>w. w\<lparr>dataaddress := Some a\<rparr>) s else s)
          in Some (res_bind (queue_packet mem new buf readBytes data i s) (\<lambda>s. Ret (Served s)))
      | Ret None \<Rightarrow>
          if gActiveWTPs (globals s) \<ge> gMaxWTPs (globals s) then Some (Ret (Served s))
          else (case CWParseDiscoveryRequestMessage mem le buf readBytes of
                  None \<Rightarrow> None
                | Some Fault \<Rightarrow> Some Fault
                | Some (Ret (seq, v)) \<Rightarrow> Some (answer_discovery mem mac fid garbage le net old_error seq v s)
                | Some (Raise e) \<Rightarrow>
                    Some (reader_failed (CWErrorRaise old_error e)
                            (res_bind (new_session mem list_ok thread_id new buf readBytes interface a data s)
                              (\<lambda>s. Ret (Served s))))))"

subsection \<open>The session thread\<close>

text \<open>A pointer that a Configure Request without the element left unset is freed.\<close>

definition CWResetWTPProtocolManager :: "CWWTPProtocolManager \<Rightarrow> CWWTPProtocolManager res" where
  "CWResetWTPProtocolManager pm =
     (if pm_ACName pm = None \<or> pm_WTPRebootStatistics pm = None then Fault
      else Ret (pm\<lparr> locationData := None, pm_name := None, pm_boardData := None,
         pm_descriptor := \<lparr> maxRadios = 0, radiosInUse = 0, encCapabilities = None, vendorInfos = [] \<rparr>,
         radioCount := 0, pm_ACName := Some None, pm_ACNameIndex := [], pm_radioAdminInfo := [], pm_StatisticsTimer := 0,
         pm_WTPRebootStatistics := Some None \<rparr>))"

definition count_session :: "int \<Rightarrow> nat \<Rightarrow> ac_globals \<Rightarrow> ac_globals" where
  "count_session k f g =
     g\<lparr> gActiveWTPs := gActiveWTPs g + k,
        gInterfaces := (gInterfaces g)[f := (gInterfaces g ! f)\<lparr>WTPCount := WTPCount (gInterfaces g ! f) + k\<rparr>] \<rparr>"

text \<open>
  The entry when the thread has counted itself. \<^verbatim>\<open>CWResetWTPProtocolManager\<close> clears the session identifier and
  the radios, which are in this record.
\<close>

definition session_start :: "nat \<Rightarrow> int \<Rightarrow> CWWTPManager \<Rightarrow> CWWTPManager" where
  "session_start f gCWForceMTU w =
     w\<lparr> interfaceIndex := f, fragmentsList := [], currentState := CW_ENTER_JOIN, subState := CW_WAITING_REQUEST,
        interfaceCommandProgress := False, interfaceCommand := NO_CMD, messages := None, messagesCount := 0,
        isRetransmitting := False, retransmissionCount := 0, sessionID := None, radiosInfo := [],
        pathMTU := (if gCWForceMTU > 0 then gCWForceMTU else pathMTU w) \<rparr>"

text \<open>The first half of \<^verbatim>\<open>_CWCloseThread\<close>: the thread is counted no more.\<close>

definition close_begin :: "nat \<Rightarrow> ac_server \<Rightarrow> ac_server" where
  "close_begin i s =
     s\<lparr> globals := count_session (- 1) (interfaceIndex (slots s ! i)) (globals s),
        running := remove1 i (running s), closing := i # closing s \<rparr>"

text \<open>
  What a session thread does next: it goes on, closes itself, or has ended where it was; or the process has. The error
  \<open>err\<close> is handled, and the thread goes on as \<open>t\<close> says when that returns.
\<close>

datatype turn = Goes ac_server | Closes ac_server | ThreadEnds ac_server | ProcessEnds

definition session_failed :: "last_error \<Rightarrow> turn \<Rightarrow> ac_server \<Rightarrow> turn" where
  "session_failed err t s =
     (case CWErrorHandleLast err of ThreadExits \<Rightarrow> ThreadEnds s | ProcessExits \<Rightarrow> ProcessEnds | _ \<Rightarrow> t)"

text \<open>The server after that; there is none after the end of the process.\<close>

fun next_server :: "nat \<Rightarrow> turn \<Rightarrow> ac_server option" where
  "next_server i (Goes s) = Some s"
| "next_server i (Closes s) = Some (close_begin i s)"
| "next_server i (ThreadEnds s) = Some (s\<lparr> running := remove1 i (running s), gone := i # gone s \<rparr>)"
| "next_server i ProcessEnds = None"

text \<open>
  \<^verbatim>\<open>CWManageWTP\<close> until its loop. The result of \<^verbatim>\<open>CWACInitBinding\<close> is ignored, but its error is the first of the thread. When
  the timer cannot be requested the thread closes itself, unless \<open>CWErr\<close> does something else with that error.
\<close>

definition CWManageWTP_start ::
  "memory \<Rightarrow> (nat \<Rightarrow> WTPQosValues) \<Rightarrow> int \<Rightarrow> nat \<times> nat \<Rightarrow> ac_server \<Rightarrow> turn res" where
  "CWManageWTP_start mem junk gCWForceMTU arg s =
     (case arg of (i, f) \<Rightarrow>
        case CWACInitBinding mem junk (default_qos s) (pm_qosValues (managers s ! i)) of (b, qs) \<Rightarrow>
        if length (gInterfaces (globals s)) \<le> f \<or> b = Fault then Fault
        else res_bind (CWResetWTPProtocolManager (managers s ! i)) (\<lambda>pm.
          let err = (case b of Raise e \<Rightarrow> CWErrorRaise None e | _ \<Rightarrow> None);
              s = s\<lparr> starting := remove1 arg (starting s), running := i # running s,
                     globals := count_session 1 f (globals s),
                     managers := (managers s)[i := pm\<lparr>pm_qosValues := qs\<rparr>] \<rparr>;
              s = upd_slot i (session_start f gCWForceMTU) s; w = slots s ! i
          in case CWTimerRequest mem gCWWaitJoin_AC (thread w) (currentTimer w) CW_CRITICAL_TIMER_EXPIRED_SIGNAL
                    (server_timers s) of
               (r, n, q) \<Rightarrow>
                 let s = upd_slot i (\<lambda>w. w\<lparr>currentTimer := n\<rparr>) (s\<lparr>server_timers := q\<rparr>) in
                 (case CWErr err r of
                    Ret HandledTrue \<Rightarrow> Ret (Goes s)
                  | Ret HandledFalse \<Rightarrow> Ret (Closes (upd_slot i (\<lambda>w. w\<lparr>subState := CW_DTLS_HANDSHAKE_IN_PROGRESS\<rparr>) s))
                  | Ret ThreadExits \<Rightarrow> Ret (ThreadEnds s)
                  | Ret ProcessExits \<Rightarrow> Ret ProcessEnds
                  | _ \<Rightarrow> Fault)))"

text \<open>
  One turn of the loop for the packet at the head of the queue. A packet that says it is encrypted is left to the
  security layer, which reads it from the queue itself; \<open>secure\<close> is what that layer makes of the queue: bytes or an error,
  and the queue it leaves. \<open>handle\<close> is the handler of the session's state, for the last error, the message and whether the
  packet is data; \<open>old_error\<close> is the error the thread raised last.
\<close>

type_synonym session_handler =
  "last_error \<Rightarrow> CWProtocolMessage \<Rightarrow> bool \<Rightarrow> ac_session \<Rightarrow> CWWTPProtocolManager \<Rightarrow>
   (unit res \<times> ac_session \<times> CWWTPProtocolManager) option"

definition encrypted :: "byte list \<Rightarrow> bool" where
  "encrypted bs \<longleftrightarrow> bs \<noteq> [] \<and> hd bs AND 0x0f = 1"

definition take_packet ::
  "(byte list CWSafeList \<Rightarrow> byte list res \<times> byte list CWSafeList) \<Rightarrow> byte list CWSafeList \<Rightarrow>
   (byte list \<times> int \<times> bool) res \<times> byte list CWSafeList" where
  "take_packet secure l =
     (case CWGetHeadElementFromSafeList l of
        Ret (Some (bs, n)) \<Rightarrow>
          if bs = [] then (Fault, l)
          else if encrypted bs then
            (case secure l of
               (Ret plain, l) \<Rightarrow> (Ret (plain, int (length plain), False), l)
             | (Raise e, l) \<Rightarrow> (Raise e, l)
             | (Fault, l) \<Rightarrow> (Fault, l))
          else (case CWRemoveHeadElementFromSafeListwithDataFlag l of
                  Ret (Some (bs, n, flag), l) \<Rightarrow> (Ret (bs, n, flag = Some True), l)
                | _ \<Rightarrow> (Fault, l))
      | _ \<Rightarrow> (Fault, l))"

text \<open>The message is for the handler of the state; a state without one only logs.\<close>

definition dispatch ::
  "(CWStateTransition \<Rightarrow> session_handler) \<Rightarrow> last_error \<Rightarrow> nat \<Rightarrow> CWProtocolMessage \<Rightarrow> bool \<Rightarrow> ac_server \<Rightarrow>
   turn res option" where
  "dispatch handle old_error i m data s =
     (if currentState (slots s ! i) \<notin> {CW_ENTER_JOIN, CW_ENTER_CONFIGURE, CW_ENTER_DATA_CHECK, CW_ENTER_RUN}
      then Some (Ret (Goes s))
      else case handle (currentState (slots s ! i)) old_error m data
                  \<lparr> wtp = slots s ! i, timers = server_timers s, sent = answers s, gDefaultQosValues = default_qos s \<rparr> (managers s ! i) of
        None \<Rightarrow> None
      | Some (r, t, pm) \<Rightarrow>
          let s = s\<lparr> slots := (slots s)[i := wtp t], server_timers := timers t, answers := sent t,
                     default_qos := gDefaultQosValues t,
                     managers := (managers s)[i := pm] \<rparr>
          in (case r of
                Fault \<Rightarrow> Some Fault
              | Ret _ \<Rightarrow> Some (Ret (Goes s))
              | Raise e \<Rightarrow>
                  let err = CWErrorRaise old_error e in
                  Some (Ret (session_failed err
                    (if CWErrorGetLastErrorCode err = CW_ERROR_INVALID_FORMAT then Goes s else Closes s) s))))"

text \<open>
  The head of the queue is read before it is known to be there; the queue is that of the entry also when the security
  layer fails. A failure of that layer that is taken for a success leaves the number of bytes unset.
\<close>

definition CWManageWTP_turn ::
  "memory \<Rightarrow> (byte list CWSafeList \<Rightarrow> byte list res \<times> byte list CWSafeList) \<Rightarrow>
   (CWStateTransition \<Rightarrow> session_handler) \<Rightarrow> last_error \<Rightarrow> byte list \<Rightarrow> byte list option \<Rightarrow> nat \<Rightarrow> ac_server \<Rightarrow>
   turn res option" where
  "CWManageWTP_turn mem secure handle old_error rest RadioMAC i s =
     (if isRequestClose (slots s ! i) then Some (Ret (Closes s))
      else case take_packet secure (packetReceiveList (slots s ! i)) of (p, l) \<Rightarrow>
        let s = upd_slot i (\<lambda>w. w\<lparr>packetReceiveList := l\<rparr>) s in
        (case p of
           Fault \<Rightarrow> Some Fault
         | Raise e \<Rightarrow>
             let err = CWErrorRaise old_error e in
             Some (if CWErrorHandleLast err = HandledTrue then Fault else Ret (session_failed err (Goes s) s))
         | Ret (bs, n, data) \<Rightarrow>
             (case CWProtocolParseFragment mem (bs @ drop (length bs) rest) n (fragmentsList (slots s ! i)) data RadioMAC of
                None \<Rightarrow> None
              | Some (r, fs, data, mac) \<Rightarrow>
                  let s = upd_slot i (\<lambda>w. w\<lparr>fragmentsList := fs\<rparr>) s in
                  (case r of
                     Fault \<Rightarrow> Some Fault
                   | Raise e \<Rightarrow>
                       let err = CWErrorRaise old_error e in
                       Some (Ret (if CWErrorGetLastErrorCode err = CW_ERROR_NEED_RESOURCE then Goes s
                                  else session_failed err (Goes s) s))
                   | Ret m \<Rightarrow> dispatch handle old_error i m data s))))"

text \<open>The second half of \<^verbatim>\<open>_CWCloseThread\<close>, until the entry is free.\<close>

definition close_end :: "nat \<Rightarrow> ac_server \<Rightarrow> ac_server res" where
  "close_end i s =
     (let w = slots s ! i; q = CWTimerCancel (currentTimer w) (server_timers s) in
      res_bind (CWACStopRetransmission \<lparr> wtp = w, timers = q, sent = answers s, gDefaultQosValues = default_qos s \<rparr>) (\<lambda>t.
      let w = wtp t;
          w = (if interfaceCommandProgress w then w\<lparr>interfaceResult := 1, interfaceCommandProgress := False\<rparr> else w);
          w = w\<lparr> subState := CW_DTLS_HANDSHAKE_IN_PROGRESS, fragmentsList := [],
                 packetReceiveList := CWDestroySafeList (packetReceiveList w), isNotFree := False \<rparr>
      in Ret (s\<lparr> slots := (slots s)[i := w], server_timers := timers t, closing := remove1 i (closing s),
                 clearing := i # clearing s \<rparr>)))"

text \<open>
  The end of \<^verbatim>\<open>_CWCloseThread\<close>: the loop that deletes the stations of the session, \<open>None\<close> when a tree function has no
  defined result. It runs when the entry is free already.
\<close>

partial_function (option) delete_stations :: "nat \<Rightarrow> nodeAVL \<Rightarrow> nodeAVL option" where
  "delete_stations i t =
     (case AVLfindWTPNode t (int i) of
        None \<Rightarrow> None
      | Some NULL \<Rightarrow> Some t
      | Some (NODE n l r h) \<Rightarrow>
          (case AVLdeleteNodeWithoutRadioID t n of
             None \<Rightarrow> None
           | Some NULL \<Rightarrow> Some NULL
           | Some t \<Rightarrow> delete_stations i t))"

definition close_stations :: "nat \<Rightarrow> ac_server \<Rightarrow> ac_server option" where
  "close_stations i s =
     map_option (\<lambda>t. s\<lparr>stations := t, clearing := remove1 i (clearing s)\<rparr>) (delete_stations i (stations s))"

subsection \<open>The steps of the server\<close>

text \<open>
  \<open>prompt\<close>: a datagram is only read when no thread is between its creation and its counting, nor between its
  subtraction and the release of its entry, and there is memory. \<open>handle\<close> are the handlers of the states.
\<close>

inductive server_step :: "bool \<Rightarrow> (CWStateTransition \<Rightarrow> session_handler) \<Rightarrow> ac_server \<Rightarrow> ac_server \<Rightarrow> bool"
  for prompt handle where
  packet: "\<lbrakk>prompt \<longrightarrow> starting s = [] \<and> closing s = [] \<and> ample mem;
      CWACManageIncomingPacket mem mac fid garbage le net old_error list_ok thread_id new buf readBytes interface a data s =
        Some (Ret (Served s'))\<rbrakk> \<Longrightarrow> server_step prompt handle s s'"
| start: "\<lbrakk>arg \<in> set (starting s); CWManageWTP_start mem junk mtu arg s = Ret t; next_server (fst arg) t = Some s'\<rbrakk> \<Longrightarrow>
    server_step prompt handle s s'"
| alarm: "i \<in> set (running s) \<Longrightarrow> server_step prompt handle s (upd_slot i (\<lambda>w. w\<lparr>isRequestClose := True\<rparr>) s)"
| turns: "\<lbrakk>i \<in> set (running s);
      isRequestClose (slots s ! i) \<or> CWGetCountElementFromSafeList (packetReceiveList (slots s ! i)) \<noteq> 0;
      CWManageWTP_turn mem secure handle old_error rest mac_ptr i s = Some (Ret t); next_server i t = Some s'\<rbrakk> \<Longrightarrow>
      server_step prompt handle s s'"
| freed: "\<lbrakk>i \<in> set (closing s); close_end i s = Ret s'\<rbrakk> \<Longrightarrow> server_step prompt handle s s'"
| cleared: "\<lbrakk>i \<in> set (clearing s); close_stations i s = Some s'\<rbrakk> \<Longrightarrow> server_step prompt handle s s'"

inductive server_steps :: "bool \<Rightarrow> (CWStateTransition \<Rightarrow> session_handler) \<Rightarrow> ac_server \<Rightarrow> ac_server \<Rightarrow> bool"
  for prompt handle where
  none: "server_steps prompt handle s s"
| more: "\<lbrakk>server_steps prompt handle s s'; server_step prompt handle s' s''\<rbrakk> \<Longrightarrow> server_steps prompt handle s s''"

text \<open>The server before its first packet.\<close>

definition ac_start :: "ac_server \<Rightarrow> bool" where
  "ac_start s \<longleftrightarrow> length (slots s) = CW_MAX_WTP \<and> (\<forall>w \<in> set (slots s). \<not> isNotFree w) \<and>
     starting s = [] \<and> running s = [] \<and> closing s = [] \<and> gone s = [] \<and>
     gActiveWTPs (globals s) = 0 \<and> (\<forall>f \<in> set (gInterfaces (globals s)). WTPCount f = 0) \<and>
     0 \<le> gMaxWTPs (globals s) \<and> gMaxWTPs (globals s) \<le> int CW_MAX_WTP"

subsection \<open>What the handlers of a state leave alone\<close>

definition keeps_slot :: "session_handler \<Rightarrow> bool" where
  "keeps_slot h \<longleftrightarrow> (\<forall>e m data t pm r t' pm'. h e m data t pm = Some (r, t', pm') \<longrightarrow>
     isNotFree (wtp t') = isNotFree (wtp t) \<and> interfaceIndex (wtp t') = interfaceIndex (wtp t))"

lemma send_keeps:
  "CWACSendFragments net t = (r, t') \<Longrightarrow>
   isNotFree (wtp t') = isNotFree (wtp t) \<and> interfaceIndex (wtp t') = interfaceIndex (wtp t)"
  by (auto simp: CWACSendFragments_def CW_FREE_WTP_MSG_ARRAY_def split: option.splits prod.splits res.splits if_splits)

lemma save_join_keeps:
  "CWSaveJoinRequestMessage mem junk v w pm = (r, w', pm') \<Longrightarrow>
   isNotFree w' = isNotFree w \<and> interfaceIndex w' = interfaceIndex w"
  by (auto simp: CWSaveJoinRequestMessage_def Let_def split: option.splits if_splits)

lemma join_keeps:
  "keeps_slot (\<lambda>e m data t pm. ACEnterJoin mem junk stack mac fid garbage le ac net m t pm)"
  unfolding keeps_slot_def ACEnterJoin_def Let_def
  by (auto split: option.splits res.splits prod.splits if_splits dest!: send_keeps save_join_keeps)

lemma data_check_keeps:
  "keeps_slot (\<lambda>e m data t pm. map_option (\<lambda>(r, t). (r, t, pm)) (ACEnterDataCheck mem mac fid garbage net m t))"
  unfolding keeps_slot_def ACEnterDataCheck_def Let_def
  by (auto split: option.splits res.splits prod.splits if_splits dest!: send_keeps)

lemma configure_keeps:
  "keeps_slot (\<lambda>e m data t pm. ACEnterConfigure e mem stack mac fid garbage le ac net m t pm)"
  unfolding keeps_slot_def ACEnterConfigure_def Let_def
  by (auto split: option.splits res.splits prod.splits if_splits dest!: send_keeps)

subsection \<open>The invariant of the sessions\<close>

text \<open>The sessions that are counted, those of all threads that hold an entry, and those counted on an interface.\<close>

definition counted :: "ac_server \<Rightarrow> nat list" where
  "counted s = running s @ gone s"

definition threads :: "ac_server \<Rightarrow> nat list" where
  "threads s = map fst (starting s) @ counted s @ closing s"


definition on_interface :: "nat \<Rightarrow> ac_server \<Rightarrow> nat" where
  "on_interface f s = length (filter (\<lambda>i. interfaceIndex (slots s ! i) = f) (counted s))"

definition sessions_ok :: "ac_server \<Rightarrow> bool" where
  "sessions_ok s \<longleftrightarrow> length (slots s) = CW_MAX_WTP \<and> 0 \<le> gMaxWTPs (globals s) \<and> gMaxWTPs (globals s) \<le> int CW_MAX_WTP \<and>
     gActiveWTPs (globals s) = int (length (counted s)) \<and> distinct (threads s) \<and>
     (\<forall>i < length (slots s). isNotFree (slots s ! i) \<longleftrightarrow> i \<in> set (threads s)) \<and>
     (\<forall>i \<in> set (threads s). i < nat (gMaxWTPs (globals s))) \<and>
     (\<forall>i \<in> set (counted s). interfaceIndex (slots s ! i) < length (gInterfaces (globals s))) \<and>
     (\<forall>f < length (gInterfaces (globals s)). WTPCount (gInterfaces (globals s) ! f) = int (on_interface f s))"

text \<open>Steps that change no session's place.\<close>

definition same_sessions :: "ac_server \<Rightarrow> ac_server \<Rightarrow> bool" where
  "same_sessions s s' \<longleftrightarrow> globals s' = globals s \<and> starting s' = starting s \<and> running s' = running s \<and>
     closing s' = closing s \<and> gone s' = gone s \<and> length (slots s') = length (slots s) \<and>
     (\<forall>i < length (slots s). isNotFree (slots s' ! i) = isNotFree (slots s ! i) \<and>
        interfaceIndex (slots s' ! i) = interfaceIndex (slots s ! i))"

lemma same_refl [simp]: "same_sessions s s"
  by (simp add: same_sessions_def)

lemma same_trans: "\<lbrakk>same_sessions s s'; same_sessions s' s''\<rbrakk> \<Longrightarrow> same_sessions s s''"
  by (simp add: same_sessions_def)

lemma same_ok:
  assumes "same_sessions s s'" "sessions_ok s"
  shows "sessions_ok s'"
proof -
  note d = assms(1) [unfolded same_sessions_def]
  have c: "counted s' = counted s" "threads s' = threads s" using d by (simp_all add: counted_def threads_def)
  have r: "i < length (slots s)" if "i \<in> set (counted s)" for i
  proof -
    from that have "i \<in> set (threads s)" by (simp add: threads_def)
    with assms(2) have "i < nat (gMaxWTPs (globals s))" by (simp add: sessions_ok_def)
    moreover have "gMaxWTPs (globals s) \<le> int CW_MAX_WTP" "length (slots s) = CW_MAX_WTP"
      using assms(2) by (simp_all add: sessions_ok_def)
    ultimately show ?thesis by linarith
  qed
  have f: "on_interface f s' = on_interface f s" for f
    using d r c by (auto simp: on_interface_def intro!: arg_cong [of _ _ length] filter_cong)
  have i: "\<forall>i \<in> set (counted s). interfaceIndex (slots s' ! i) = interfaceIndex (slots s ! i)"
    using d r by simp
  have g: "globals s' = globals s" "length (slots s') = length (slots s)"
    "\<forall>i < length (slots s). isNotFree (slots s' ! i) = isNotFree (slots s ! i)" using d by simp_all
  show ?thesis
    using assms(2) i g(3) unfolding sessions_ok_def c f g(1,2) by simp
qed

lemma upd_nth: "xs[i := f (xs ! i)] ! j = (if j = i \<and> i < length xs then f (xs ! i) else xs ! j)"
  by (cases "i < length xs") (auto simp: nth_list_update list_update_beyond)

lemma same_upd:
  "\<lbrakk>\<And>w. isNotFree (f w) = isNotFree w; \<And>w. interfaceIndex (f w) = interfaceIndex w\<rbrakk> \<Longrightarrow>
   same_sessions s (upd_slot i f s)"
  by (simp add: same_sessions_def upd_slot_def upd_nth)

lemma same_queue: "queue_packet mem new buf n data i s = Ret s' \<Longrightarrow> same_sessions s s'"
  by (auto simp: queue_packet_def res_simps split: if_splits intro!: same_upd)

text \<open>What a thread does next is done in a server with the same sessions.\<close>

definition turn_in :: "ac_server \<Rightarrow> turn \<Rightarrow> bool" where
  "turn_in s t \<longleftrightarrow> (case t of Goes s' \<Rightarrow> same_sessions s s' | Closes s' \<Rightarrow> same_sessions s s' |
     ThreadEnds s' \<Rightarrow> same_sessions s s' | ProcessEnds \<Rightarrow> True)"

lemma turn_in_simps [simp]:
  "turn_in s (Goes s') = same_sessions s s'" "turn_in s (Closes s') = same_sessions s s'"
  "turn_in s (ThreadEnds s') = same_sessions s s'" "turn_in s ProcessEnds"
  by (simp_all add: turn_in_def)

lemma turn_in_failed: "\<lbrakk>turn_in s t; same_sessions s s'\<rbrakk> \<Longrightarrow> turn_in s (session_failed err t s')"
  by (simp add: session_failed_def split: handled.split)

lemma same_dispatch:
  assumes "\<And>st. keeps_slot (handle st)" "dispatch handle e i m data s = Some (Ret t)"
  shows "turn_in s t"
proof (cases "currentState (slots s ! i) \<in> {CW_ENTER_JOIN, CW_ENTER_CONFIGURE, CW_ENTER_DATA_CHECK, CW_ENTER_RUN}")
  case False
  with assms(2) have "t = Goes s" by (simp add: dispatch_def)
  then show ?thesis using same_refl by simp
next
  case True
  with assms(2) obtain r t' pm' where h: "handle (currentState (slots s ! i)) e m data
      \<lparr> wtp = slots s ! i, timers = server_timers s, sent = answers s, gDefaultQosValues = default_qos s \<rparr> (managers s ! i) = Some (r, t', pm')"
    by (auto simp: dispatch_def split: option.splits)
  then have k: "isNotFree (wtp t') = isNotFree (slots s ! i)" "interfaceIndex (wtp t') = interfaceIndex (slots s ! i)"
    using assms(1) unfolding keeps_slot_def by (metis ac_session.select_convs(1))+
  let ?s = "s\<lparr> slots := (slots s)[i := wtp t'], server_timers := timers t', answers := sent t', default_qos := gDefaultQosValues t',
                managers := (managers s)[i := pm'] \<rparr>"
  have same: "same_sessions s ?s"
    using k upd_nth [of "slots s" i "\<lambda>_. wtp t'"] by (simp add: same_sessions_def)
  then have "turn_in s (session_failed err (if c then Goes ?s else Closes ?s) ?s)" for err c
    by (intro turn_in_failed) simp_all
  then show ?thesis
    using assms(2) True h same by (cases r) (auto simp: dispatch_def Let_def)
qed

lemma same_turn:
  assumes "\<And>st. keeps_slot (handle st)" "CWManageWTP_turn mem secure handle e rest mac i s = Some (Ret t)"
  shows "turn_in s t"
proof -
  have one: "same_sessions s (upd_slot i (\<lambda>w. w\<lparr>packetReceiveList := l\<rparr>) s)" for l
    by (rule same_upd) simp_all
  have two: "same_sessions s (upd_slot i (\<lambda>w. w\<lparr>fragmentsList := fs\<rparr>) (upd_slot i (\<lambda>w. w\<lparr>packetReceiveList := l\<rparr>) s))" for fs l
    by (rule same_trans [OF one same_upd]) simp_all
  have fails: "turn_in s (session_failed err (Goes s') s')" if "same_sessions s s'" for err s'
    using that by (intro turn_in_failed) simp_all
  have done': "turn_in s t" if "turn_in s' t" "same_sessions s s'" for s'
    using that by (cases t) (auto intro: same_trans)
  obtain p l where p: "take_packet secure (packetReceiveList (slots s ! i)) = (p, l)" by fastforce
  show ?thesis
  proof (cases p)
    case (Ret x)
    obtain bs n d where x: "x = (bs, n, d)" by (cases x)
    show ?thesis
      using assms(2) two p Ret x fails [OF two] done' [OF same_dispatch [OF assms(1)] two]
      by (auto simp: CWManageWTP_turn_def Let_def split: if_splits res.splits option.splits prod.splits)
  next
    case (Raise err)
    then show ?thesis
      using assms(2) p fails [OF one] by (auto simp: CWManageWTP_turn_def Let_def split: if_splits)
  next
    case Fault
    then show ?thesis using assms(2) p by (auto simp: CWManageWTP_turn_def Let_def split: if_splits)
  qed
qed

lemma count_session_fields [simp]:
  "gActiveWTPs (count_session k f g) = gActiveWTPs g + k" "gMaxWTPs (count_session k f g) = gMaxWTPs g"
  "length (gInterfaces (count_session k f g)) = length (gInterfaces g)"
  "f' < length (gInterfaces g) \<Longrightarrow> WTPCount (gInterfaces (count_session k f g) ! f') =
     WTPCount (gInterfaces g ! f') + (if f = f' then k else 0)"
  by (auto simp: count_session_def nth_list_update)

lemma upd_slot_fields [simp]:
  "globals (upd_slot i f s) = globals s" "starting (upd_slot i f s) = starting s" "running (upd_slot i f s) = running s"
  "closing (upd_slot i f s) = closing s" "clearing (upd_slot i f s) = clearing s" "gone (upd_slot i f s) = gone s"
  "counted (upd_slot i f s) = counted s" "threads (upd_slot i f s) = threads s" "length (slots (upd_slot i f s)) = length (slots s)"
  "i < length (slots s) \<Longrightarrow> slots (upd_slot i f s) ! i = f (slots s ! i)"
  "j \<noteq> i \<Longrightarrow> slots (upd_slot i f s) ! j = slots s ! j"
  by (simp_all add: upd_slot_def counted_def threads_def)

lemma counted_upd [simp]: "counted (s\<lparr>starting := x\<rparr>) = counted s"
  by (simp add: counted_def)

subsection \<open>The invariant holds\<close>

lemma free_slot_taken: "i < free_slot s \<Longrightarrow> isNotFree (slots s ! i)"
proof -
  assume i: "i < free_slot s"
  let ?is = "[0..<nat (gMaxWTPs (globals s))]"
  have "takeWhile (\<lambda>i. isNotFree (slots s ! i)) ?is ! i \<in> set (takeWhile (\<lambda>i. isNotFree (slots s ! i)) ?is)"
    using i by (simp add: free_slot_def)
  then have "isNotFree (slots s ! (takeWhile (\<lambda>i. isNotFree (slots s ! i)) ?is ! i))"
    by (meson set_takeWhileD)
  moreover have "i < length ?is"
    using i length_takeWhile_le [of "\<lambda>i. isNotFree (slots s ! i)" ?is] by (simp add: free_slot_def)
  ultimately show ?thesis using i by (simp add: takeWhile_nth free_slot_def)
qed

lemma free_slot_le: "free_slot s \<le> nat (gMaxWTPs (globals s))"
  using length_takeWhile_le [of "\<lambda>i. isNotFree (slots s ! i)" "[0..<nat (gMaxWTPs (globals s))]"]
  by (simp add: free_slot_def)

lemma free_slot_free:
  "free_slot s < nat (gMaxWTPs (globals s)) \<Longrightarrow> \<not> isNotFree (slots s ! free_slot s)"
  using nth_length_takeWhile [of "\<lambda>i. isNotFree (slots s ! i)" "[0..<nat (gMaxWTPs (globals s))]"]
  by (simp add: free_slot_def)

lemma sessions_bounds:
  assumes "sessions_ok s"
  shows "length (slots s) = CW_MAX_WTP" "nat (gMaxWTPs (globals s)) \<le> length (slots s)"
proof -
  have b: "gMaxWTPs (globals s) \<le> int CW_MAX_WTP" "length (slots s) = CW_MAX_WTP"
    using assms by (simp_all add: sessions_ok_def)
  then show "length (slots s) = CW_MAX_WTP" "nat (gMaxWTPs (globals s)) \<le> length (slots s)" by linarith+
qed

lemma free_slot_found:
  assumes "sessions_ok s" "starting s = []" "closing s = []" "gActiveWTPs (globals s) < gMaxWTPs (globals s)"
  shows "free_slot s < nat (gMaxWTPs (globals s))"
proof (rule ccontr)
  let ?n = "nat (gMaxWTPs (globals s))"
  assume "\<not> ?thesis"
  then have "\<forall>i < ?n. isNotFree (slots s ! i)" using free_slot_taken [of _ s] by simp
  moreover have t: "threads s = counted s" using assms(2,3) by (simp add: threads_def)
  moreover have "?n \<le> length (slots s)" by (rule sessions_bounds(2) [OF assms(1)])
  ultimately have "{..<?n} \<subseteq> set (counted s)" using assms(1) by (auto simp: sessions_ok_def)
  then have "?n \<le> length (counted s)"
    using card_mono [of "set (counted s)" "{..<?n}"] card_length [of "counted s"] by simp
  with assms(1,4) show False by (simp add: sessions_ok_def)
qed

lemma new_session_ok:
  assumes "sessions_ok s" "starting s = []" "closing s = []" "gActiveWTPs (globals s) < gMaxWTPs (globals s)"
    and "ample mem" "new_session mem list_ok thread_id new buf n interface a data s = Ret s'"
  shows "sessions_ok s'"
proof -
  let ?i = "free_slot s" and ?n = "nat (gMaxWTPs (globals s))"
  have i: "?i < ?n" "?i < length (slots s)" "\<not> isNotFree (slots s ! ?i)"
    using free_slot_found [OF assms(1-4)] free_slot_free [of s] sessions_bounds [OF assms(1)] by auto
  let ?f = "\<lambda>w. w\<lparr> address := copy_addr a (address w), dataaddress := None, isNotFree := True, isRequestClose := False \<rparr>"
  let ?s1 = "upd_slot ?i ?f s"
  show ?thesis
  proof (cases list_ok)
    case False
    then have "s' = upd_slot ?i (\<lambda>w. w\<lparr>isNotFree := False\<rparr>) ?s1"
      using assms(6) i by (simp add: new_session_def Let_def CWCreateSafeList_def)
    then have "same_sessions s s'"
      using i by (simp add: same_sessions_def upd_slot_def nth_list_update)
    then show ?thesis using assms(1) by (rule same_ok)
  next
    case True
    obtain l :: "byte list CWPrivateSafeList" where l: "CWCreateSafeList list_ok = Some l" using True by (simp add: CWCreateSafeList_def)
    let ?l = "CWSetConditionSafeList (CWSetMutexSafeList (Some l) (Some ?i)) (Some ?i)"
    let ?s2 = "(upd_slot ?i (\<lambda>w. w\<lparr>packetReceiveList := ?l\<rparr>) ?s1)"
    from assms(6) i l obtain t where
      q: "queue_packet mem new buf n data ?i (upd_slot ?i (\<lambda>w. w\<lparr>thread := t\<rparr>)
        (?s2\<lparr>starting := starting ?s2 @ [(?i, nat (max 0 interface))]\<rparr>)) = Ret s'"
      by (auto simp: new_session_def Let_def ample_malloc [OF assms(5)] split: option.splits)
    let ?s3 = "?s2\<lparr>starting := starting ?s2 @ [(?i, nat (max 0 interface))]\<rparr>"
    have same: "same_sessions ?s3 s'"
      by (rule same_trans [OF same_upd same_queue [OF q]]) simp_all
    have fresh_i: "?i \<notin> set (threads s)" using i assms(1) by (simp add: sessions_ok_def)
    have run: "?i \<notin> set (counted s)" using fresh_i by (simp add: threads_def)
    have c: "counted ?s3 = counted s" by simp
    have t: "threads ?s3 = ?i # threads s" unfolding threads_def c using assms(2,3) by simp
    have used: "isNotFree (slots ?s3 ! j) = (j = ?i \<or> isNotFree (slots s ! j))"
      "interfaceIndex (slots ?s3 ! j) = interfaceIndex (slots s ! j)" for j
      using i(2) by (simp_all add: upd_slot_def nth_list_update)
    have o: "on_interface f ?s3 = on_interface f s" for f
      using used(2) by (simp add: on_interface_def c)
    have "sessions_ok ?s3"
      using assms(1) i fresh_i unfolding sessions_ok_def t o used c by simp
    with same show ?thesis by (rule same_ok)
  qed
qed

lemma incoming_ok:
  assumes "sessions_ok s" "starting s = []" "closing s = []" "ample mem"
    and "CWACManageIncomingPacket mem mac fid garbage le net old_error list_ok thread_id new buf n interface a data s = Some (Ret (Served s'))"
  shows "sessions_ok s'"
proof -
  have answer: "same_sessions s s'" if "answer_discovery mem mac fid garbage le net old_error seq v s = Ret (Served s')" for seq v
    using that by (auto simp: answer_discovery_def reader_failed_def same_sessions_def split: handled.splits res.splits list.splits if_splits)
  have known: "same_sessions s s'" if "queue_packet mem new buf n data i
      (if data \<and> dataaddress (slots s ! i) = None then upd_slot i (\<lambda>w. w\<lparr>dataaddress := Some a\<rparr>) s else s) = Ret s'" for i
  proof -
    have "same_sessions s (if data \<and> dataaddress (slots s ! i) = None
        then upd_slot i (\<lambda>w. w\<lparr>dataaddress := Some a\<rparr>) s else s)"
      using same_upd [of "\<lambda>w. w\<lparr>dataaddress := Some a\<rparr>" s i] by simp
    then show ?thesis using same_queue [OF that] by (rule same_trans)
  qed
  show ?thesis
    using assms(5) same_ok [OF known assms(1)] same_ok [OF answer assms(1)] new_session_ok [OF assms(1-3) _ assms(4)] assms(1)
    by (auto simp: CWACManageIncomingPacket_def reader_failed_def Let_def res_simps
        split: res.splits option.splits if_splits handled.splits)
qed

text \<open>The threads are the same, in another list.\<close>

lemma moved_ok:
  assumes "sessions_ok s" "mset (threads s') = mset (threads s)" "length (slots s') = length (slots s)"
    and "gMaxWTPs (globals s') = gMaxWTPs (globals s)" "gActiveWTPs (globals s') = int (length (counted s'))"
    and "\<And>j. isNotFree (slots s' ! j) = isNotFree (slots s ! j)"
    and "length (gInterfaces (globals s')) = length (gInterfaces (globals s))"
    and "\<forall>j \<in> set (counted s'). interfaceIndex (slots s' ! j) < length (gInterfaces (globals s))"
    and "\<forall>f < length (gInterfaces (globals s)). WTPCount (gInterfaces (globals s') ! f) = int (on_interface f s')"
  shows "sessions_ok s'"
proof -
  have "distinct (threads s') = distinct (threads s)" by (rule mset_eq_imp_distinct_iff [OF assms(2)])
  moreover have "set (threads s') = set (threads s)" by (rule mset_eq_setD [OF assms(2)])
  ultimately show ?thesis using assms unfolding sessions_ok_def by simp
qed

lemma filter_remove1:
  "i \<in> set xs \<Longrightarrow> int (length (filter P (remove1 i xs))) = int (length (filter P xs)) - (if P i then 1 else 0)"
  by (induction xs) auto

lemma thread_bounds:
  assumes "sessions_ok s" "i \<in> set (threads s)"
  shows "i < length (slots s)"
proof -
  have "i < nat (gMaxWTPs (globals s))" using assms by (simp add: sessions_ok_def)
  with sessions_bounds(2) [OF assms(1)] show ?thesis by simp
qed

lemma in_counted: "i \<in> set (running s) \<Longrightarrow> i \<in> set (counted s)"
  by (simp add: counted_def)

lemma close_begin_ok:
  assumes "sessions_ok s" "i \<in> set (running s)"
  shows "sessions_ok (close_begin i s)"
proof (rule moved_ok [OF assms(1)])
  let ?s = "close_begin i s" and ?k = "interfaceIndex (slots s ! i)"
  have c: "counted ?s = remove1 i (counted s)"
    using assms(2) by (simp add: counted_def close_begin_def remove1_append)
  have i: "i \<in> set (counted s)" by (rule in_counted [OF assms(2)])
  show "mset (threads ?s) = mset (threads s)"
    using i by (simp add: threads_def c) (simp add: close_begin_def)
  show "\<forall>f < length (gInterfaces (globals s)). WTPCount (gInterfaces (globals ?s) ! f) = int (on_interface f ?s)"
    using assms(1) unfolding on_interface_def c by (simp add: sessions_ok_def close_begin_def on_interface_def filter_remove1 [OF i])
  show "gActiveWTPs (globals ?s) = int (length (counted ?s))"
    using assms(1) filter_remove1 [OF i, of "\<lambda>_. True"] unfolding c by (simp add: sessions_ok_def close_begin_def)
  have "set (remove1 i (counted s)) \<subseteq> set (counted s)" by (rule set_remove1_subset)
  then show "\<forall>j \<in> set (counted ?s). interfaceIndex (slots ?s ! j) < length (gInterfaces (globals s))"
    using assms(1) unfolding c by (auto simp: sessions_ok_def close_begin_def)
qed (simp_all add: close_begin_def)

text \<open>A thread that just ends stays counted.\<close>

lemma thread_gone_ok:
  assumes "sessions_ok s" "i \<in> set (running s)"
  shows "sessions_ok (s\<lparr> running := remove1 i (running s), gone := i # gone s \<rparr>)" (is "sessions_ok ?s")
proof -
  have c: "mset (counted ?s) = mset (counted s)" using assms(2) by (simp add: counted_def)
  then have "length (counted ?s) = length (counted s)" "set (counted ?s) = set (counted s)"
    by (metis size_mset, metis set_mset_mset)
  moreover have "mset (threads ?s) = mset (threads s)" using c by (simp add: threads_def)
  moreover have "on_interface f ?s = on_interface f s" for f
  proof -
    have "mset (filter P (counted ?s)) = mset (filter P (counted s))" for P by (simp only: mset_filter c)
    from arg_cong [OF this, of size "\<lambda>j. interfaceIndex (slots s ! j) = f"] show ?thesis
      by (simp add: on_interface_def flip: mset_filter)
  qed
  ultimately show ?thesis using assms(1) by (intro moved_ok [OF assms(1)]) (auto simp: sessions_ok_def)
qed

lemma next_ok:
  assumes "turn_in s t" "sessions_ok s" "i \<in> set (running s)" "next_server i t = Some s'"
  shows "sessions_ok s'"
proof -
  have ok: "sessions_ok x" "i \<in> set (running x)" if "same_sessions s x" for x
    using same_ok [OF that assms(2)] that assms(3) by (simp_all add: same_sessions_def)
  show ?thesis
    using assms(1,4) ok(1) close_begin_ok [OF ok] thread_gone_ok [OF ok] by (cases t) auto
qed

text \<open>The server in which a thread has counted itself.\<close>

abbreviation started :: "nat \<Rightarrow> nat \<Rightarrow> int \<Rightarrow> CWWTPProtocolManager \<Rightarrow> ac_server \<Rightarrow> ac_server" where
  "started i f mtu pm s \<equiv> upd_slot i (session_start f mtu)
     (s\<lparr> starting := remove1 (i, f) (starting s), running := i # running s, globals := count_session 1 f (globals s),
        managers := (managers s)[i := pm] \<rparr>)"

lemma start_turn:
  assumes "CWManageWTP_start mem junk mtu (i, f) s = Ret t"
  shows "f < length (gInterfaces (globals s)) \<and> (\<exists>pm. turn_in (started i f mtu pm s) t)"
proof -
  obtain b qs where b: "CWACInitBinding mem junk (default_qos s) (pm_qosValues (managers s ! i)) = (b, qs)"
    by (cases "CWACInitBinding mem junk (default_qos s) (pm_qosValues (managers s ! i))")
  obtain pm where pm: "CWResetWTPProtocolManager (managers s ! i) = Ret pm"
    using assms b by (auto simp: CWManageWTP_start_def res_simps split: if_splits)
  have f: "f < length (gInterfaces (globals s))" "b \<noteq> Fault"
    using assms b by (auto simp: CWManageWTP_start_def split: if_splits)
  let ?s = "started i f mtu (pm\<lparr>pm_qosValues := qs\<rparr>) s"
  obtain r n q where t: "CWTimerRequest mem gCWWaitJoin_AC (thread (slots ?s ! i)) (currentTimer (slots ?s ! i))
      CW_CRITICAL_TIMER_EXPIRED_SIGNAL (server_timers ?s) = (r, n, q)" by (cases rule: prod_cases3)
  let ?t = "upd_slot i (\<lambda>w. w\<lparr>currentTimer := n\<rparr>) (?s\<lparr>server_timers := q\<rparr>)"
  have q: "same_sessions ?s (?s\<lparr>server_timers := q\<rparr>)" by (simp add: same_sessions_def)
  have t1: "same_sessions ?s ?t" by (rule same_trans [OF q same_upd]) simp_all
  have t2: "same_sessions ?s (upd_slot i (\<lambda>w. w\<lparr>subState := CW_DTLS_HANDSHAKE_IN_PROGRESS\<rparr>) ?t)"
    by (rule same_trans [OF t1 same_upd]) simp_all
  define err where "err = (case b of Raise e \<Rightarrow> CWErrorRaise None e | _ \<Rightarrow> None)"
  have start: "CWManageWTP_start mem junk mtu (i, f) s =
      (case CWErr err r of
         Ret HandledTrue \<Rightarrow> Ret (Goes ?t)
       | Ret HandledFalse \<Rightarrow> Ret (Closes (upd_slot i (\<lambda>w. w\<lparr>subState := CW_DTLS_HANDSHAKE_IN_PROGRESS\<rparr>) ?t))
       | Ret ThreadExits \<Rightarrow> Ret (ThreadEnds ?t)
       | Ret ProcessExits \<Rightarrow> Ret ProcessEnds
       | _ \<Rightarrow> Fault)"
    using f b t pm unfolding CWManageWTP_start_def err_def by (simp add: Let_def)
  then have "turn_in ?s t"
    using assms t1 t2 by (auto split: res.splits handled.splits)
  with f(1) show ?thesis by blast
qed

lemma start_ok:
  assumes "sessions_ok s" "arg \<in> set (starting s)" "CWManageWTP_start mem junk mtu arg s = Ret t"
    and "next_server (fst arg) t = Some s'"
  shows "sessions_ok s'"
proof -
  obtain i f where arg: "arg = (i, f)" by (cases arg)
  have i: "i \<in> set (threads s)" using assms(2) arg by (force simp: threads_def)
  have d: "distinct (threads s)" using assms(1) by (simp add: sessions_ok_def)
  then have run: "i \<notin> set (counted s)" using assms(2) arg by (force simp: threads_def)
  obtain pm where turn: "turn_in (started i f mtu pm s) t" and f: "f < length (gInterfaces (globals s))"
    using start_turn assms(3) unfolding arg by blast
  let ?s = "started i f mtu pm s"
  have c: "counted ?s = i # counted s" by (simp add: counted_def)
  have l: "i < length (slots s)" by (rule thread_bounds [OF assms(1) i])
  have slot: "isNotFree (slots ?s ! j) = isNotFree (slots s ! j)"
    "interfaceIndex (slots ?s ! j) = (if j = i then f else interfaceIndex (slots s ! j))" for j
    using l by (simp_all add: upd_slot_def nth_list_update session_start_def)
  have on: "on_interface g ?s = on_interface g s + (if g = f then 1 else 0)" for g
  proof -
    define P where "P = (\<lambda>j. interfaceIndex (slots ?s ! j) = g)"
    have "length (filter P (counted s)) = on_interface g s"
      using run unfolding on_interface_def P_def by (intro arg_cong [of _ _ length] filter_cong) (auto simp: slot)
    moreover have "P i = (g = f)" by (auto simp: P_def slot)
    moreover have "on_interface g ?s = length (filter P (i # counted s))" by (simp add: on_interface_def P_def c del: upd_slot_fields)
    ultimately show ?thesis by simp
  qed
  have ok: "sessions_ok ?s"
  proof (rule moved_ok [OF assms(1)])
    have "image_mset fst (mset (starting s) - {#(i, f)#}) = image_mset fst (mset (starting s)) - {#i#}"
      using image_mset_Diff [of "{#(i, f)#}" "mset (starting s)" fst] assms(2) arg by simp
    moreover have "i \<in># image_mset fst (mset (starting s))" using assms(2) arg by force
    ultimately show "mset (threads ?s) = mset (threads s)" unfolding threads_def c by simp
    show "gActiveWTPs (globals ?s) = int (length (counted ?s))" using assms(1) unfolding c by (simp add: sessions_ok_def)
    show "\<forall>j \<in> set (counted ?s). interfaceIndex (slots ?s ! j) < length (gInterfaces (globals s))"
      unfolding c using assms(1) f by (auto simp: slot sessions_ok_def)
    show "\<forall>g < length (gInterfaces (globals s)). WTPCount (gInterfaces (globals ?s) ! g) = int (on_interface g ?s)"
      using assms(1) by (simp add: on sessions_ok_def)
  qed (simp_all add: slot)
  have "i \<in> set (running ?s)" by simp
  then show ?thesis using next_ok [OF turn ok, of i s'] assms(4) arg by simp
qed

lemma close_end_ok:
  assumes "sessions_ok s" "i \<in> set (closing s)" "close_end i s = Ret s'"
  shows "sessions_ok s'"
proof -
  have i: "i \<in> set (threads s)" using assms(2) by (simp add: threads_def)
  have d: "distinct (threads s)" using assms(1) by (simp add: sessions_ok_def)
  have out: "i \<notin> set (counted s)" "i \<notin> fst ` set (starting s)" "distinct (closing s)"
    using d assms(2) by (auto simp: threads_def)
  obtain w where s': "slots s' = (slots s)[i := w]" "\<not> isNotFree w" "closing s' = remove1 i (closing s)"
    "starting s' = starting s" "counted s' = counted s" "globals s' = globals s"
    using assms(3) by (auto simp: close_end_def counted_def Let_def res_simps split: res.splits)
  have l: "i < length (slots s)" by (rule thread_bounds [OF assms(1) i])
  have t: "set (threads s') = set (threads s) - {i}" "distinct (threads s')"
    using out d by (auto simp: threads_def s')
  have slot: "j \<noteq> i \<Longrightarrow> slots s' ! j = slots s ! j" for j by (simp add: s')
  have run: "\<forall>j \<in> set (counted s). slots s' ! j = slots s ! j" using out(1) by (metis slot)
  have on: "on_interface f s' = on_interface f s" for f
    using run by (auto simp: on_interface_def s' intro!: arg_cong [of _ _ length] filter_cong)
  have free: "\<forall>j < length (slots s). isNotFree (slots s' ! j) \<longleftrightarrow> j \<in> set (threads s')"
    using assms(1) l by (auto simp: s'(1,2) nth_list_update t(1) sessions_ok_def)
  have g: "length (slots s') = length (slots s)" by (simp add: s')
  show ?thesis
    using assms(1) run free t(2) unfolding sessions_ok_def on g s'(5,6) t(1) by simp
qed

lemma step_ok:
  assumes "server_step True handle s s'" "\<And>st. keeps_slot (handle st)" "sessions_ok s"
  shows "sessions_ok s'"
  using assms(1)
proof cases
  case (packet mem mac fid garbage le net list_ok thread_id new buf readBytes interface a data)
  then show ?thesis using incoming_ok [OF assms(3)] by blast
next
  case (start arg mem junk mtu t)
  then show ?thesis using start_ok [OF assms(3)] by blast
next
  case (alarm i)
  then show ?thesis using same_ok [OF same_upd assms(3)] by simp
next
  case (turns i mem secure e rest mac_ptr t)
  then show ?thesis using next_ok [OF same_turn [OF assms(2) turns(3)] assms(3)] by blast
next
  case (freed i)
  then show ?thesis using close_end_ok [OF assms(3)] by blast
next
  case (cleared i)
  then have "same_sessions s s'" by (auto simp: close_stations_def same_sessions_def counted_def)
  then show ?thesis using assms(3) by (rule same_ok)
qed

lemma steps_ok:
  "\<lbrakk>server_steps True handle s s'; \<And>st. keeps_slot (handle st); sessions_ok s\<rbrakk> \<Longrightarrow> sessions_ok s'"
  by (induction rule: server_steps.induct) (auto intro: step_ok)

lemma start_sessions_ok: "ac_start s \<Longrightarrow> sessions_ok s"
  by (auto simp: ac_start_def sessions_ok_def threads_def counted_def on_interface_def)

subsection \<open>What the server promises\<close>

text \<open>
  C1: However packets, timers, handlers and closing threads interleave, as long as a datagram is only read when no
  thread is being created or closed, and there is memory: the AC's count of WTPs is the number of its running sessions and of
  the threads that an error for which there was no memory has ended, and so is, for every interface, the count it
  announces; no two threads, ended ones included, share an entry of \<^verbatim>\<open>gWTPs\<close>, the entries in use are theirs, all below the
  configured maximum; and when the count says that there is room, there is a free entry.
\<close>

theorem ac_sessions:
  assumes "ac_start s0" "\<And>st. keeps_slot (handle st)" "server_steps True handle s0 s"
  shows "gActiveWTPs (globals s) = int (length (running s) + length (gone s)) \<and>
    (\<forall>f < length (gInterfaces (globals s)). WTPCount (gInterfaces (globals s) ! f) = int (on_interface f s)) \<and>
    distinct (threads s) \<and> (\<forall>i < length (slots s). isNotFree (slots s ! i) \<longleftrightarrow> i \<in> set (threads s)) \<and>
    (\<forall>i \<in> set (threads s). int i < gMaxWTPs (globals s)) \<and>
    (starting s = [] \<and> closing s = [] \<and> gActiveWTPs (globals s) < gMaxWTPs (globals s) \<longrightarrow>
       int (free_slot s) < gMaxWTPs (globals s) \<and> \<not> isNotFree (slots s ! free_slot s))"
proof -
  have ok: "sessions_ok s" by (rule steps_ok [OF assms(3,2) start_sessions_ok [OF assms(1)]])
  have "int i < gMaxWTPs (globals s)" if "i \<in> set (threads s)" for i
  proof -
    from ok that have "i < nat (gMaxWTPs (globals s))" by (simp add: sessions_ok_def)
    then show ?thesis by linarith
  qed
  moreover have "int (free_slot s) < gMaxWTPs (globals s) \<and> \<not> isNotFree (slots s ! free_slot s)"
    if "starting s = []" "closing s = []" "gActiveWTPs (globals s) < gMaxWTPs (globals s)"
    using free_slot_found [OF ok that] free_slot_free [of s] by linarith
  ultimately show ?thesis using ok by (simp add: sessions_ok_def counted_def)
qed

subsection \<open>Threads that end\<close>










text \<open>The handler of the Data Check state, which looks neither at the last error nor at the kind of the packet.\<close>

definition data_check_handler :: "memory \<Rightarrow> eth \<Rightarrow> int \<Rightarrow> 32 word \<Rightarrow> (nat \<Rightarrow> bool) \<Rightarrow> session_handler" where
  "data_check_handler mem mac fid garbage net e m data t pm =
     map_option (\<lambda>(r, t). (r, t, pm)) (ACEnterDataCheck mem mac fid garbage net m t)"

text \<open>
  A Change State Event in one packet that reports a radio other than the first the AC has stored for the WTP ends the
  AC, when the thread of the session has raised no error before: the handler fails without an error of its own, none is pending,
  and handling it ends the process with the sessions of all WTPs.
\<close>

theorem unknown_radio_ends_ac:
  assumes "ample mem" "length (gRadiosInfo w) < 9000" "mac_room mac_ptr" "0 \<le> fid" "fid < 65536"
    and "control_fragments PMTU (16 + 7 * length (gRadiosInfo w)) = 1"
    and "currentState (slots s ! i) = CW_ENTER_DATA_CHECK"
    and "handle CW_ENTER_DATA_CHECK = data_check_handler mem ac_mac fid' garbage' net"
    and "r \<in> set (gRadiosInfo w)" "radiosInfo (slots s ! i) = first # others" "radio_radioID r mod 256 \<noteq> radio_radioID first"
  shows "\<exists>p mac' m. CWAssembleChangeStateEventRequest mem mac fid garbage PMTU seq w = Ret [p] \<and>
    receive_all mem [received (contents p) junk] [] mac_ptr = Some ([Ret m], [], mac') \<and>
    dispatch handle None i m data s = Some (Ret ProcessEnds)"
proof -
  have one: "1 = control_fragments PMTU (16 + 7 * length (gRadiosInfo w))" "insert 0 (set []) = {..<1 :: nat}" "(0 :: nat) \<notin> set []"
    using assms(6) by auto
  obtain pkts mac' m where m: "CWAssembleChangeStateEventRequest mem mac fid garbage PMTU seq w = Ret pkts" "length pkts = 1"
    "receive_all mem (map (\<lambda>i. received (contents (pkts ! i)) junk) ([] @ [0])) [] mac_ptr =
        Some (replicate (length ([] :: nat list)) (Raise CW_ERROR_NEED_RESOURCE) @ [Ret m], [], mac')"
    "CWParseChangeStateEventRequestMessage mem (msg m) (int (offset m)) =
        Some (Ret (seq, \<lparr> radioOperationalInfo =
                 map (\<lambda>r. \<lparr> oper_ID = radio_radioID r mod 256, oper_state = radio_operationalState r mod 256,
                           oper_cause = radio_operationalCause r mod 256 \<rparr>) (gRadiosInfo w),
               cs_resultCode = Some 0 \<rparr>))"
    using change_state_delivered [OF assms(1-5) one, of mac garbage seq "\<lambda>_. junk"] by blast
  obtain p where p: "pkts = [p]" using m(2) by (auto simp: length_Suc_conv)
  let ?t = "\<lparr> wtp = slots s ! i, timers = server_timers s, sent = answers s, gDefaultQosValues = default_qos s \<rparr>"
  let ?os = "map (\<lambda>r. \<lparr> oper_ID = radio_radioID r mod 256, oper_state = radio_operationalState r mod 256,
      oper_cause = radio_operationalCause r mod 256 \<rparr>) (gRadiosInfo w)"
  have "\<exists>o' \<in> set (gRadiosInfo w). radio_radioID first \<noteq> radio_radioID o' mod 256" using assms(9,11) by metis
  then obtain rs where "save_radios ?os (first # others) = (rs, False)" by (auto simp: save_radios_eq)
  then obtain t where "ACEnterDataCheck mem ac_mac fid' garbage' net m ?t = Some (Raise CW_ERROR_NONE, t)"
    using assms(1,10) m(4) by (simp add: ACEnterDataCheck_def Let_def ample_malloc CWSaveChangeStateEventRequestMessage_def)
  then have "dispatch handle None i m data s = Some (Ret ProcessEnds)"
    using assms(7,8) by (simp add: dispatch_def data_check_handler_def Let_def session_failed_def CWErrorGetLastErrorCode_def)
  with m(1,3) p show ?thesis by auto
qed

lemma search_none:
  "\<lbrakk>\<forall>i \<in> set is. i < length ws \<and> p (ws ! i) = Ret False\<rbrakk> \<Longrightarrow> search_slots p ws is = Ret None"
  by (induction "is") auto

lemma search_first:
  "\<lbrakk>\<forall>j \<in> set js. j < length ws \<and> p (ws ! j) = Ret False; i < length ws\<rbrakk> \<Longrightarrow>
   search_slots p ws (js @ i # is) = res_bind (p (ws ! i)) (\<lambda>b. if b then Ret (Some i) else search_slots p ws is)"
  by (induction js) auto

lemma upt_split: "i < n \<Longrightarrow> [0..<n] = [0..<i] @ i # [Suc i..<n]"
  by (metis le_add_diff_inverse less_imp_le upt_add_eq_append upt_conv_Cons zero_le)

text \<open>The search comes to the entry \<open>i\<close>.\<close>

lemma lookup_at:
  assumes "i < nat (gMaxWTPs (globals s))" "i < length (slots s)"
    and "\<forall>j < i. wtp_matches a data sid (slots s ! j) = Ret False"
  shows "CWWTPByAddress a data sid s = res_bind (wtp_matches a data sid (slots s ! i)) (\<lambda>b.
    if b then Ret (Some i) else search_slots (wtp_matches a data sid) (slots s) [Suc i..<nat (gMaxWTPs (globals s))])"
  unfolding CWWTPByAddress_def upt_split [OF assms(1)]
  by (rule search_first) (use assms in auto)

text \<open>A keep-alive with its session identifier, as the WTP sends it.\<close>

abbreviation keepalive_packet :: "CWProtocolTransportHeaderValues \<Rightarrow> 32 word \<Rightarrow> 16 word \<Rightarrow> byte list \<Rightarrow> byte list \<Rightarrow> byte list" where
  "keepalive_packet v ka len sid rest \<equiv> keepalive_bytes v ka @ be16 len @ be16 35 @ be16 16 @ sid @ rest"

lemma find_keepalive:
  assumes "ample mem" "take_bit 1 ka = 1" "length sid = 16"
  shows "find_session mem (keepalive_packet v ka len sid rest) a True s = CWWTPByAddress a True (Some sid) s"
proof -
  let ?rest = "be16 35 @ be16 16 @ sid @ rest"
  have r: "\<lparr> msg = keepalive_packet v ka len sid rest, offset = 0, data_msgType = None \<rparr> =
      rmsg [] (keepalive_bytes v ka @ be16 len @ ?rest) None"
    by (simp add: rmsg_def)
  have e: "CWParseFormatMsgElem (rmsg bs ?rest t) = Ret ((35, 16), rmsg (bs @ be16 35 @ be16 16) (sid @ rest) t)" for bs t
    by (simp add: CWParseFormatMsgElem_def wire)
  have i: "CWParseSessionID mem (rmsg bs (sid @ rest) t) 16 = Ret (Some sid, rmsg (bs @ sid) rest t)" for bs t
    using assms(1,3) by (simp add: CWParseSessionID_def wire ample_malloc)
  show ?thesis
    unfolding find_session_def r parse_keepalive [OF assms(1,2)]
    by (simp add: e i)
qed

text \<open>
  C37: A session that has been counted and has not yet saved a Join Request has no session identifier. A keep-alive that
  names any identifier, from any host, then crashes the AC, unless an entry before that session's has this
  identifier or this address: the null pointer is compared with it.
\<close>

theorem keep_alive_crash:
  assumes "ample mem" "take_bit 1 ka = 1" "length sid = 16" "i < nat (gMaxWTPs (globals s))" "i < length (slots s)"
    and "slots s ! i = session_start f mtu w" "isNotFree w"
    and "\<forall>j < i. isNotFree (slots s ! j) \<longrightarrow>
      (\<exists>y. sessionID (slots s ! j) = Some y \<and> take 16 y \<noteq> sid) \<and> \<not> sock_equal a (dataaddress (slots s ! j))"
  shows "CWACManageIncomingPacket mem mac fid garbage le net old_error list_ok thread_id new (keepalive_packet v ka len sid rest)
     readBytes interface a True s = Some Fault"
proof -
  have "wtp_matches a True (Some sid) (slots s ! j) = Ret False" if "j < i" for j
    using assms(3,8) that by (auto simp: wtp_matches_def)
  moreover have "wtp_matches a True (Some sid) (slots s ! i) = Fault"
    using assms(6,7) by (simp add: wtp_matches_def session_start_def)
  ultimately have "find_session mem (keepalive_packet v ka len sid rest) a True s = Fault"
    unfolding find_keepalive [OF assms(1-3)] using lookup_at [OF assms(4,5), of a True "Some sid"] by simp
  then show ?thesis by (simp add: CWACManageIncomingPacket_def)
qed

text \<open>
  C38: A control packet goes to the queue of the first session with its sender's address, behind the packets that wait there, and to
  no other; nothing is answered. When the session's thread turns to that queue it takes the packets in
  the order of their arrival.
\<close>

theorem packet_queued:
  assumes "ample mem" "0 \<le> n" "nat n \<le> length buf" "i < nat (gMaxWTPs (globals s))" "i < length (slots s)"
    and "isNotFree (slots s ! i)" "sock_equal a (Some (address (slots s ! i)))"
    and "\<forall>j < i. isNotFree (slots s ! j) \<longrightarrow> \<not> sock_equal a (Some (address (slots s ! j)))"
    and "sl_rep (packetReceiveList (slots s ! i)) xs" "fresh (packetReceiveList (slots s ! i)) (Some p)"
  shows "\<exists>s'. CWACManageIncomingPacket mem mac fid garbage le net old_error list_ok thread_id (Some p) buf n interface a False s =
      Some (Ret (Served s')) \<and>
    sl_rep (packetReceiveList (slots s' ! i)) (xs @ [(take (nat n) buf, n, Some False)]) \<and>
    (\<forall>j. j \<noteq> i \<longrightarrow> slots s' ! j = slots s ! j) \<and> answers s' = answers s \<and>
    (\<forall>y ys. xs @ [(take (nat n) buf, n, Some False)] = y # ys \<and> fst y \<noteq> [] \<and> \<not> encrypted (fst y) \<longrightarrow>
       (\<exists>l. take_packet secure (packetReceiveList (slots s' ! i)) =
          (Ret (fst y, fst (snd y), snd (snd y) = Some True), l) \<and> sl_rep l ys))"
proof -
  let ?x = "(take (nat n) buf, n, Some False)"
  have "wtp_matches a False None (slots s ! j) = Ret False" if "j < i" for j
    using assms(8) that by (auto simp: wtp_matches_def)
  moreover have "wtp_matches a False None (slots s ! i) = Ret True"
    using assms(6,7) by (simp add: wtp_matches_def)
  ultimately have find: "find_session mem buf a False s = Ret (Some i)"
    using lookup_at [OF assms(4,5), of a False None] by (simp add: find_session_def)
  obtain l as where l: "packetReceiveList (slots s ! i) = Some l" "linked l as xs"
    using assms(9) by (cases "packetReceiveList (slots s ! i)") auto
  obtain l' where add: "CWAddElementToSafeListTailwitDataFlag (Some p) (packetReceiveList (slots s ! i))
      (Some (take (nat n) buf)) n False = Ret (True, l')" "sl_rep l' (xs @ [?x])"
    using add_tail_linked [OF l(2), of p "take (nat n) buf" n "Some False"] assms(10) l(1)
    unfolding CWAddElementToSafeListTailwitDataFlag_def by (auto simp: fresh_def)
  let ?s = "upd_slot i (\<lambda>w. w\<lparr>packetReceiveList := l'\<rparr>) s"
  have served: "CWACManageIncomingPacket mem mac fid garbage le net old_error list_ok thread_id (Some p) buf n interface a False s =
      Some (Ret (Served ?s))"
    using find add(1) assms(2) by (simp add: CWACManageIncomingPacket_def queue_packet_def ample_malloc [OF assms(1)])
  have q: "packetReceiveList (slots ?s ! i) = l'" using assms(5) by simp
  have takes: "\<exists>l. take_packet secure l' = (Ret (fst y, fst (snd y), snd (snd y) = Some True), l) \<and> sl_rep l ys"
    if head: "xs @ [?x] = y # ys" "fst y \<noteq> []" "\<not> encrypted (fst y)" for y ys
  proof -
    obtain d k b where y: "y = (d, k, b)" by (cases y)
    obtain l2 where "CWRemoveHeadElementFromSafeListwithDataFlag l' = Ret (Some y, l2)" "sl_rep l2 ys"
      using sl_deq [OF add(2)] unfolding head(1) by auto
    moreover have "CWGetHeadElementFromSafeList l' = Ret (Some (d, k))"
      using CWGetHeadElementFromSafeList_rep [OF add(2)] head(1) y by simp
    ultimately show ?thesis using head y by (simp add: take_packet_def)
  qed
  show ?thesis
    by (intro exI conjI, rule served) (use q add(2) takes in \<open>simp_all add: upd_slot_def\<close>)
qed

text \<open>
  When every entry is taken while the count of WTPs is below the maximum, because a thread has not counted itself yet or has
  not yet freed its entry, a packet of an unknown WTP gets the entry after the last: beyond the array
  when the maximum is its size; otherwise one that no search looks at, so that the packets of this
  WTP are still those of an unknown one.
\<close>

theorem session_overrun:
  assumes "ample mem" "gActiveWTPs (globals s) < gMaxWTPs (globals s)" "n = nat (gMaxWTPs (globals s))"
    and "\<forall>i < n. isNotFree (slots s ! i)" "n \<le> length (slots s)" "CWWTPByAddress a False None s = Ret None"
    and "CWParseDiscoveryRequestMessage mem le buf k = Some (Raise e)" "0 \<le> k"
    and "CWErrorHandleLast (CWErrorRaise old_error e) = HandledFalse"
  shows "if n = length (slots s)
    then CWACManageIncomingPacket mem mac fid garbage le net old_error True (Some t) (Some p) buf k interface a False s = Some Fault
    else \<exists>s'. CWACManageIncomingPacket mem mac fid garbage le net old_error True (Some t) (Some p) buf k interface a False s =
          Some (Ret (Served s')) \<and>
        (n, nat (max 0 interface)) \<in> set (starting s') \<and> isNotFree (slots s' ! n) \<and> CWWTPByAddress a False None s' = Ret None"
proof -
  have free: "free_slot s = n"
    using free_slot_le [of s] free_slot_free [of s] assms(3,4) by (metis le_neq_implies_less)
  have find: "find_session mem buf a False s = Ret None" using assms(6) by (simp add: find_session_def)
  have new: "CWACManageIncomingPacket mem mac fid garbage le net old_error True (Some t) (Some p) buf k interface a False s =
      Some (res_bind (new_session mem True (Some t) (Some p) buf k interface a False s) (\<lambda>s. Ret (Served s)))"
    using find assms(2,7,9) by (simp add: CWACManageIncomingPacket_def reader_failed_def)
  show ?thesis
  proof (cases "n = length (slots s)")
    case True
    then show ?thesis unfolding new by (simp add: new_session_def free)
  next
    case False
    then have n: "n < length (slots s)" using assms(5) by simp
    define l :: "byte list CWPrivateSafeList" where "l = \<lparr> pThreadMutex = None, pThreadCond = None, nCount = 0,
      pFirstElement = None, pLastElement = None, heap = Map.empty, signals = [] \<rparr>"
    have l: "CWCreateSafeList True = Some l" by (simp add: CWCreateSafeList_def l_def)
    let ?l = "l\<lparr>pThreadMutex := Some n, pThreadCond := Some n\<rparr>"
    have l': "CWSetConditionSafeList (CWSetMutexSafeList (Some l) (Some n)) (Some n) = Some ?l"
      by (simp add: CWSetConditionSafeList_def CWSetMutexSafeList_def)
    have "linked ?l [] []" "heap ?l p = None" by (simp_all add: linked_def l_def)
    from add_tail_linked [OF this, of "take (nat k) buf" k "Some False"] obtain l2 where
      add: "CWAddElementToSafeListTailwitDataFlag (Some p) (Some ?l) (Some (take (nat k) buf)) k False = Ret (True, l2)"
      unfolding CWAddElementToSafeListTailwitDataFlag_def by auto
    obtain s' where s': "new_session mem True (Some t) (Some p) buf k interface a False s = Ret s'"
      "(n, nat (max 0 interface)) \<in> set (starting s')" "isNotFree (slots s' ! n)" "globals s' = globals s"
      "length (slots s') = length (slots s)" "\<forall>j. j \<noteq> n \<longrightarrow> slots s' ! j = slots s ! j"
      using n add by (auto simp: new_session_def free Let_def l l' queue_packet_def ample_malloc [OF assms(1)] upd_slot_def assms(8)
          nth_list_update)
    have "CWWTPByAddress a False None s' = CWWTPByAddress a False None s"
    proof -
      have "search_slots q (slots s') is = search_slots q (slots s) is" if "\<forall>j \<in> set is. j < n" for q "is"
        using that
      proof (induction "is")
        case (Cons a "is")
        then have "search_slots q (slots s') is = search_slots q (slots s) is" "slots s' ! a = slots s ! a"
          using s'(6) by auto
        then show ?case unfolding search_slots.simps s'(5) by (simp only:)
      qed simp
      then show ?thesis by (simp add: CWWTPByAddress_def s'(4) assms(3))
    qed
    then show ?thesis using False s'(1-3) assms(6) unfolding new by auto
  qed
qed

subsection \<open>A server with one packet\<close>

definition ex_entry :: CWWTPManager where
  "ex_entry = (wtp (ex_session []))\<lparr>isNotFree := False, messages := None, messagesCount := 0\<rparr>"

definition ex_server :: "int \<Rightarrow> ac_server" where
  "ex_server m = \<lparr> globals = ex_ac\<lparr> gMaxWTPs := m, gActiveWTPs := 0,
        gInterfaces := [(gInterfaces ex_ac ! 0)\<lparr>WTPCount := 0\<rparr>] \<rparr>,
     slots = replicate CW_MAX_WTP ex_entry, managers = replicate CW_MAX_WTP ex_manager, starting = [], running = [],
     closing = [], clearing = [], gone = [], server_timers = timers (ex_session []), answers = [], stations = NULL,
     default_qos = replicate 4 (ex_qos 2 4 3) \<rparr>"

definition ex_peer :: "16 word \<Rightarrow> sockaddr" where
  "ex_peer port = \<lparr> sa_IPv6 = False, sa_addr = [10, 0, 0, 7], sa_port = port \<rparr>"

text \<open>The buffer with the first packet, of four bytes, and the entry it is given: it comes from \<open>ex_peer 5\<close>.\<close>

definition ex_buffer :: "byte list" where
  "ex_buffer = [0, 16, 0, 0, 0, 0, 0, 0, 0, 0, 0, 0, 0, 0, 0, 0, 0, 0, 0, 0]"

definition ex_element :: "byte list CWPrivateSafeElement" where
  "ex_element = \<lparr> pData = [0, 16, 0, 0], nSize = 4, dataFlag = Some False, pPrev = None, pNext = None \<rparr>"

definition ex_taken :: CWWTPManager where
  "ex_taken = ex_entry\<lparr> address := ex_peer 5, dataaddress := None, isNotFree := True, isRequestClose := False, thread := 9,
     packetReceiveList := Some \<lparr> pThreadMutex = Some 0, pThreadCond = Some 0, nCount = 1, pFirstElement = Some 3,
       pLastElement = Some 3, heap = [3 \<mapsto> ex_element], signals = [0] \<rparr> \<rparr>"

definition ex_one :: "int \<Rightarrow> ac_server" where
  "ex_one m = (ex_server m)\<lparr> slots := (replicate CW_MAX_WTP ex_entry)[0 := ex_taken], starting := [(0, 0)] \<rparr>"

lemma ex_not_discovery:
  "CWParseDiscoveryRequestMessage (\<lambda>_. True) True ex_buffer 4 = Some (Raise CW_ERROR_INVALID_FORMAT)"
  by (simp add: CWParseDiscoveryRequestMessage_def CWParseTransportHeader_def CWProtocolRetrieve32_def retrieve_def
      CWGetField32_def run_bind_def ample_malloc [OF ample_all] ex_buffer_def parse_control_def CWParseControlHeader_def
      CWProtocolRetrieve8_def CWProtocolRetrieve16_def)

lemma ex_entries [simp]:
  "\<not> isNotFree ex_entry" "isNotFree ex_taken" "address ex_taken = ex_peer 5"
  by (simp_all add: ex_entry_def ex_taken_def)

lemma ex_first:
  assumes "m \<in> {1, 2}"
  shows "CWACManageIncomingPacket (\<lambda>_. True) no_mac 0 0 True True None True (Some 9) (Some 3) ex_buffer 4 0 (ex_peer 5) False (ex_server m) =
    Some (Ret (Served (ex_one m)))"
proof -
  have u: "[0..<nat m] \<noteq> []" "hd [0..<nat m] = 0" "set [0..<nat m] \<subseteq> {0, 1}" using assms by auto
  have f: "free_slot (ex_server m) = 0"
    using assms by (auto simp: free_slot_def ex_server_def upt_rec)
  have "CWWTPByAddress (ex_peer 5) False None (ex_server m) = Ret None"
    unfolding CWWTPByAddress_def using assms by (intro search_none) (auto simp: ex_server_def wtp_matches_def nth_Cons')
  then have find: "find_session (\<lambda>_. True) ex_buffer (ex_peer 5) False (ex_server m) = Ret None"
    by (simp add: find_session_def)
  have "new_session (\<lambda>_. True) True (Some 9) (Some 3) ex_buffer 4 0 (ex_peer 5) False (ex_server m) = Ret (ex_one m)"
    unfolding new_session_def f Let_def
    by (simp add: upd_slot_def ex_server_def ex_one_def ex_taken_def ex_element_def queue_packet_def
        CWCreateSafeList_def CWSetMutexSafeList_def CWSetConditionSafeList_def ample_malloc [OF ample_all] copy_addr_def ex_peer_def
        CWAddElementToSafeListTailwitDataFlag_def add_tail_def CWSignalElementSafeList_def ex_buffer_def)
  then show ?thesis
    using find assms by (auto simp: CWACManageIncomingPacket_def reader_failed_def ex_not_discovery ex_server_def)
qed

text \<open>The handlers of Join, Configure and Data Check, and for the Run state one that refuses every message.\<close>

definition ex_handlers :: "CWStateTransition \<Rightarrow> session_handler" where
  "ex_handlers st =
     (if st = CW_ENTER_JOIN
      then (\<lambda>e m data t pm. ACEnterJoin (\<lambda>_. True) (\<lambda>_. ex_radio) ex_stack no_mac 0 0 True ex_ac (\<lambda>_. True) m t pm)
      else if st = CW_ENTER_CONFIGURE
      then (\<lambda>e m data t pm. ACEnterConfigure e (\<lambda>_. True) (config_view ex_wtp) no_mac 0 0 True ex_ac (\<lambda>_. True) m t pm)
      else if st = CW_ENTER_DATA_CHECK
      then (\<lambda>e m data t pm. map_option (\<lambda>(r, t). (r, t, pm)) (ACEnterDataCheck (\<lambda>_. True) no_mac 0 0 (\<lambda>_. True) m t))
      else (\<lambda>e m data t pm. Some (Raise CW_ERROR_INVALID_FORMAT, t, pm)))"

lemma ex_handlers_keep: "keeps_slot (ex_handlers st)"
proof -
  have "keeps_slot (\<lambda>e m data t pm. Some (Raise CW_ERROR_INVALID_FORMAT, t, pm))" by (simp add: keeps_slot_def)
  then show ?thesis using join_keeps configure_keeps data_check_keeps by (simp add: ex_handlers_def)
qed

lemma ex_server_starts: "m \<in> {1, 2} \<Longrightarrow> ac_start (ex_server m)"
  by (auto simp: ac_start_def ex_server_def)

lemma ex_one_step: "m \<in> {1, 2} \<Longrightarrow> server_step prompt handle (ex_server m) (ex_one m)"
  by (rule server_step.packet [OF _ ex_first]) (simp_all add: ex_server_def)

lemma ex_one_starts:
  "\<exists>s. CWManageWTP_start (\<lambda>_. True) (\<lambda>_. ex_qos 0 0 0) 0 (0, 0) (ex_one 2) = Ret (Goes s) \<and> running s = [0] \<and> gone s = [] \<and> starting s = [] \<and> closing s = [] \<and>
     gMaxWTPs (globals s) = 2 \<and> (\<exists>w. slots s ! 0 = session_start 0 0 w \<and> isNotFree w \<and> \<not> isRequestClose w \<and> packetReceiveList w = packetReceiveList ex_taken)"
proof -
  let ?w = "session_start 0 0 ex_taken"
  obtain q where t: "CWTimerRequest (\<lambda>_. True) gCWWaitJoin_AC (thread ?w) (currentTimer ?w) CW_CRITICAL_TIMER_EXPIRED_SIGNAL
      (timers (ex_session [])) = (Ret (), 1, q)"
    using CWTimerRequest_ok [OF ample_all, of gCWWaitJoin_AC "timers (ex_session [])" "thread ?w" "currentTimer ?w"
      CW_CRITICAL_TIMER_EXPIRED_SIGNAL] by (auto simp: ex_session_def)
  have w: "?w\<lparr>currentTimer := 1\<rparr> = session_start 0 0 (ex_taken\<lparr>currentTimer := 1\<rparr>)"
    by (simp add: session_start_def)
  have "\<exists>w. session_start 0 0 (ex_taken\<lparr>currentTimer := 1\<rparr>) = session_start 0 0 w \<and> isNotFree w \<and> \<not> isRequestClose w \<and>
      packetReceiveList w = packetReceiveList ex_taken"
    by (intro exI [of _ "ex_taken\<lparr>currentTimer := 1\<rparr>"]) (simp add: ex_taken_def)
  then show ?thesis
    using t w
    by (auto simp: CWManageWTP_start_def CWACInitBinding_def CWResetWTPProtocolManager_def ex_manager_def malloc_ok_def ex_one_def ex_server_def Let_def
        CWErr_def upd_slot_def)
qed

theorem ac_sessions_witness:
  "\<exists>s. server_steps True ex_handlers (ex_server 2) s \<and> running s = [0] \<and> gActiveWTPs (globals s) = 1 \<and>
     int (free_slot s) < 2 \<and> \<not> isNotFree (slots s ! free_slot s)"
proof -
  obtain s where s: "CWManageWTP_start (\<lambda>_. True) (\<lambda>_. ex_qos 0 0 0) 0 (0, 0) (ex_one 2) = Ret (Goes s)" "running s = [0]" "gone s = []" "starting s = []"
    "closing s = []" "gMaxWTPs (globals s) = 2" using ex_one_starts by blast
  have "(0, 0) \<in> set (starting (ex_one 2))" by (simp add: ex_one_def)
  then have steps: "server_steps True ex_handlers (ex_server 2) s"
    using server_steps.more [OF server_steps.more [OF server_steps.none ex_one_step] server_step.start [OF _ s(1), where s' = s]] by simp
  have "ac_start (ex_server 2)" by (rule ex_server_starts) simp
  from ac_sessions [OF this ex_handlers_keep steps] steps s show ?thesis by auto
qed

theorem keep_alive_crash_witness:
  "\<exists>s. server_steps True ex_handlers (ex_server 2) s \<and>
     CWACManageIncomingPacket (\<lambda>_. True) no_mac 0 0 True True None True None None
       (keepalive_packet (ex_header None) 1 20 (replicate 16 7) [1, 2]) 30 0 (ex_peer 77) True s = Some Fault"
proof -
  obtain s w where s: "CWManageWTP_start (\<lambda>_. True) (\<lambda>_. ex_qos 0 0 0) 0 (0, 0) (ex_one 2) = Ret (Goes s)" "gMaxWTPs (globals s) = 2"
    "slots s ! 0 = session_start 0 0 w" "isNotFree w" using ex_one_starts by blast
  have "(0, 0) \<in> set (starting (ex_one 2))" by (simp add: ex_one_def)
  then have steps: "server_steps True ex_handlers (ex_server 2) s"
    using server_steps.more [OF server_steps.more [OF server_steps.none ex_one_step] server_step.start [OF _ s(1), where s' = s]] by simp
  have "sessions_ok s" by (rule steps_ok [OF steps ex_handlers_keep start_sessions_ok [OF ex_server_starts]]) simp
  then have "0 < length (slots s)" using sessions_bounds(1) by simp
  moreover have "0 < nat (gMaxWTPs (globals s))" using s(2) by simp
  ultimately show ?thesis
    using steps keep_alive_crash [OF ample_all _ _ _ _ s(3,4), of 1 "replicate 16 7" "ex_peer 77" no_mac 0 0 True True None True None None
      "ex_header None" 20 "[1, 2]" 30 0] by auto
qed

text \<open>The queue of the entry holds the first packet.\<close>

lemma ex_taken_queue: "sl_rep (packetReceiveList ex_taken) [([0, 16, 0, 0], 4, Some False)]"
  by (auto simp: ex_taken_def linked_def ex_element_def intro!: exI [of _ "[3]"])

theorem packet_queued_witness:
  "\<exists>s'. CWACManageIncomingPacket (\<lambda>_. True) no_mac 0 0 True True None True None (Some 4) [0, 16, 5] 2 0 (ex_peer 5) False (ex_one 2) =
      Some (Ret (Served s')) \<and>
    sl_rep (packetReceiveList (slots s' ! 0)) [([0, 16, 0, 0], 4, Some False), ([0, 16], 2, Some False)] \<and>
    slots s' ! 1 = ex_entry"
proof -
  have s: "slots (ex_one 2) ! 0 = ex_taken" "slots (ex_one 2) ! 1 = ex_entry" "0 < length (slots (ex_one 2))"
      "0 < nat (gMaxWTPs (globals (ex_one 2)))"
    by (simp_all add: ex_one_def ex_server_def)
  have q: "sl_rep (packetReceiveList (slots (ex_one 2) ! 0)) [([0, 16, 0, 0], 4, Some False)]"
      "fresh (packetReceiveList (slots (ex_one 2) ! 0)) (Some 4)"
    unfolding s(1) using ex_taken_queue by (simp_all add: fresh_def ex_taken_def)
  have a: "isNotFree (slots (ex_one 2) ! 0)" "sock_equal (ex_peer 5) (Some (address (slots (ex_one 2) ! 0)))"
    by (simp_all add: s(1) sock_equal_def ex_peer_def)
  have p: "(0 :: int) \<le> 2" "nat 2 \<le> length [0 :: byte, 16, 5]"
      "\<forall>j < 0. isNotFree (slots (ex_one 2) ! j) \<longrightarrow> \<not> sock_equal (ex_peer 5) (Some (address (slots (ex_one 2) ! j)))"
    by simp_all
  obtain s' where s': "CWACManageIncomingPacket (\<lambda>_. True) no_mac 0 0 True True None True None (Some 4) [0, 16, 5] 2 0 (ex_peer 5) False
      (ex_one 2) = Some (Ret (Served s'))"
    "sl_rep (packetReceiveList (slots s' ! 0)) ([([0, 16, 0, 0], 4, Some False)] @ [(take (nat 2) [0, 16, 5], 2, Some False)])"
    "\<forall>j. j \<noteq> 0 \<longrightarrow> slots s' ! j = slots (ex_one 2) ! j"
    using packet_queued [OF ample_all p(1,2) s(4,3) a p(3) q, of no_mac 0 0 True True None True None 0 "\<lambda>l. (Fault, l)"]
    by (elim exE conjE) (rule that; assumption)
  have "take (nat 2) [0, 16, 5 :: byte] = [0, 16]" by simp
  with s' s(2) show ?thesis by (intro exI [of _ s']) simp
qed


theorem unknown_radio_ends_ac_witness:
  "\<exists>p mac' m. CWAssembleChangeStateEventRequest (\<lambda>_. True) no_mac 7 0 1400 9 ex_wtp = Ret [p] \<and>
     receive_all (\<lambda>_. True) [received (contents p) []] [] None = Some ([Ret m], [], mac') \<and>
     dispatch (\<lambda>_. data_check_handler (\<lambda>_. True) no_mac 7 0 (\<lambda>_. True)) None 0 m False
       (upd_slot 0 (\<lambda>w. w\<lparr> currentState := CW_ENTER_DATA_CHECK, radiosInfo := [ex_radio\<lparr>radio_radioID := 2\<rparr>] \<rparr>) (ex_server 2)) =
       Some (Ret ProcessEnds)"
proof -
  let ?s = "upd_slot 0 (\<lambda>w. w\<lparr> currentState := CW_ENTER_DATA_CHECK, radiosInfo := [ex_radio\<lparr>radio_radioID := 2\<rparr>] \<rparr>) (ex_server 2)"
  let ?h = "\<lambda>_ :: CWStateTransition. data_check_handler (\<lambda>_. True) no_mac 7 0 (\<lambda>_. True)"
  have s: "currentState (slots ?s ! 0) = CW_ENTER_DATA_CHECK" "radiosInfo (slots ?s ! 0) = [ex_radio\<lparr>radio_radioID := 2\<rparr>]"
    by (simp_all add: ex_server_def upd_slot_def)
  have k: "control_fragments 1400 (16 + 7 * length (gRadiosInfo ex_wtp)) = 1"
    by (simp add: ex_wtp_def control_fragments_def control_pmtu_def fragment_payload_def fragments_num_def)
  have o: "length (gRadiosInfo ex_wtp) < 9000" "mac_room None" "(0 :: int) \<le> 7" "(7 :: int) < 65536"
    "ex_radio \<in> set (gRadiosInfo ex_wtp)" "radio_radioID ex_radio mod 256 \<noteq> radio_radioID (ex_radio\<lparr>radio_radioID := 2\<rparr>)"
    by (simp_all add: ex_wtp_def mac_room_def ex_radio_def)
  show ?thesis
    by (rule unknown_radio_ends_ac [OF ample_all o(1-4) k s(1) refl o(5) s(2) o(6)])
qed

text \<open>Two WTPs reach an AC that allows one, before the thread of the first has counted itself.\<close>

theorem session_overrun_witness:
  "\<exists>s'. server_steps False ex_handlers (ex_server 1) (ex_one 1) \<and>
     CWACManageIncomingPacket (\<lambda>_. True) no_mac 0 0 True True None True (Some 9) (Some 3) ex_buffer 4 0 (ex_peer 6) False (ex_one 1) =
       Some (Ret (Served s')) \<and> (1, 0) \<in> set (starting s') \<and> CWWTPByAddress (ex_peer 6) False None s' = Ret None"
proof -
  have steps: "server_steps False ex_handlers (ex_server 1) (ex_one 1)"
    by (rule server_steps.more [OF server_steps.none ex_one_step]) simp
  have s: "gMaxWTPs (globals (ex_one 1)) = 1" "gActiveWTPs (globals (ex_one 1)) = 0" "length (slots (ex_one 1)) = CW_MAX_WTP"
      "slots (ex_one 1) ! 0 = ex_taken"
    by (simp_all add: ex_one_def ex_server_def)
  have find: "CWWTPByAddress (ex_peer 6) False None (ex_one 1) = Ret None"
    unfolding CWWTPByAddress_def s(1) by (intro search_none) (simp add: s(3,4) wtp_matches_def sock_equal_def ex_peer_def)
  show ?thesis
    using steps session_overrun [OF ample_all _ _ _ _ find ex_not_discovery, of 1 None no_mac 0 0 True 9 3 0] s by auto
qed

end
