(* ===== verification/EchoTimer.thy ===== *)
theory EchoTimer
  imports WTPPending JoinStates
begin

section \<open>The echo timer of the WTP: WTPRunState.c\<close>

text \<open>
  In the Run state the WTP sends an Echo Request whenever its echo timer runs out, on the thread of timerlib. Every
  message of the AC that is accepted starts that timer again, on the main thread; when none does, the handler asks, after a
  number of requests, for the end of the Run state, and the main thread leaves it when it looks at that flag.
\<close>

subsection \<open>State\<close>

record wtp_echo =
  echo_timers :: "(wtp_timer_handler, addr) timerq"
  gCWEchoRequestTimerID :: int
  gEchoTimerSet :: bool
  gWTPEchoRetransmissionCount :: nat
  gWTPExitRunEcho :: bool
  gWTPDataChannelDeadFlag :: bool
  gEchoInterval :: int
  echo_seqNum :: int
  echo_sent :: "byte list list"

abbreviation CWWTPEchoRequestTimerExpired :: wtp_timer_handler where "CWWTPEchoRequestTimerExpired \<equiv> OtherTimer 1"
abbreviation gWTPMaxRetransmitEcho :: nat where "gWTPMaxRetransmitEcho \<equiv> 10"

subsection \<open>Operations\<close>

text \<open>
  The Echo Request is a plain packet because the makefile also defines the mangled name
  \<^verbatim>\<open>CW_NO_DTLSCWParseConfigurationUpdateRequest\<close> the function asks for.
\<close>

definition CWStartEchoRequestTimer :: "memory \<Rightarrow> wtp_echo \<Rightarrow> (bool \<times> wtp_echo) res" where
  "CWStartEchoRequestTimer mem e =
     res_bind (timer_add (malloc_ok mem 64) (gEchoInterval e) 0 (Some CWWTPEchoRequestTimerExpired) None (echo_timers e)) (\<lambda>(n, q).
     let e = e\<lparr> echo_timers := q, gCWEchoRequestTimerID := n \<rparr> in
     Ret (if n = -1 then (False, e) else (True, e\<lparr>gEchoTimerSet := True\<rparr>)))"

definition CWStopEchoRequestsTimer :: "wtp_echo \<Rightarrow> wtp_echo" where
  "CWStopEchoRequestsTimer e =
     e\<lparr> echo_timers := snd (timer_rem (gCWEchoRequestTimerID e) False (echo_timers e)), gEchoTimerSet := False \<rparr>"

definition CWResetEchoRequestRetransmit :: "memory \<Rightarrow> wtp_echo \<Rightarrow> (bool \<times> wtp_echo) res" where
  "CWResetEchoRequestRetransmit mem e =
     CWStartEchoRequestTimer mem ((CWStopEchoRequestsTimer e)\<lparr>gWTPEchoRetransmissionCount := 0\<rparr>)"

definition CWAssembleEchoRequest ::
  "memory \<Rightarrow> eth \<Rightarrow> int \<Rightarrow> 32 word \<Rightarrow> int \<Rightarrow> byte \<Rightarrow> CWProtocolMessage list res" where
  "CWAssembleEchoRequest mem mac fid garbage PMTU seq = CWAssembleMessage mem mac fid garbage PMTU seq 13 [] [] 0"

text \<open>The request counts also when it could not be sent.\<close>

definition CWWTPEchoRequestTimerExpiredHandler ::
  "memory \<Rightarrow> eth \<Rightarrow> int \<Rightarrow> 32 word \<Rightarrow> int \<Rightarrow> (nat \<Rightarrow> bool) \<Rightarrow> wtp_echo \<Rightarrow> wtp_echo res" where
  "CWWTPEchoRequestTimerExpiredHandler mem mac fid garbage PMTU net e =
     (if \<not> gEchoTimerSet e then Ret e
      else if gWTPMaxRetransmitEcho \<le> gWTPEchoRetransmissionCount e then Ret (e\<lparr>gWTPExitRunEcho := True\<rparr>)
      else if gWTPDataChannelDeadFlag e then Ret e
      else let e = e\<lparr>echo_seqNum := CWGetSeqNum (echo_seqNum e)\<rparr> in
        case CWAssembleEchoRequest mem mac fid garbage PMTU (word_of_int (echo_seqNum e)) of
          Fault \<Rightarrow> Fault
        | Raise _ \<Rightarrow> Ret e
        | Ret ms \<Rightarrow>
            (case send_fragments net ms (echo_sent e) of
               (Fault, out) \<Rightarrow> Fault
             | (_, out) \<Rightarrow>
                 res_bind (CWStartEchoRequestTimer mem
                     (e\<lparr> echo_sent := out, gWTPEchoRetransmissionCount := gWTPEchoRetransmissionCount e + 1 \<rparr>))
                   (\<lambda>(_, e). Ret e)))"

text \<open>The timer runs out; this \<open>k\<close> times, one after the other.\<close>

definition echo_expires ::
  "memory \<Rightarrow> eth \<Rightarrow> int \<Rightarrow> 32 word \<Rightarrow> int \<Rightarrow> (nat \<Rightarrow> bool) \<Rightarrow> wtp_echo \<Rightarrow> wtp_echo res" where
  "echo_expires mem mac fid garbage PMTU net e =
     (case timer_fires (gCWEchoRequestTimerID e) (echo_timers e) of (f, q) \<Rightarrow>
        let e = e\<lparr>echo_timers := q\<rparr> in
        (case f of
           Some (h, _) \<Rightarrow>
             if h = CWWTPEchoRequestTimerExpired then CWWTPEchoRequestTimerExpiredHandler mem mac fid garbage PMTU net e else Ret e
         | None \<Rightarrow> Ret e))"

fun echo_rounds ::
  "nat \<Rightarrow> memory \<Rightarrow> eth \<Rightarrow> int \<Rightarrow> 32 word \<Rightarrow> int \<Rightarrow> (nat \<Rightarrow> bool) \<Rightarrow> wtp_echo \<Rightarrow> wtp_echo res" where
  "echo_rounds 0 mem mac fid garbage PMTU net e = Ret e"
| "echo_rounds (Suc k) mem mac fid garbage PMTU net e =
     res_bind (echo_rounds k mem mac fid garbage PMTU net e) (echo_expires mem mac fid garbage PMTU net)"

subsection \<open>The timer that is started again\<close>

definition echo_waits :: "wtp_echo \<Rightarrow> bool" where
  "echo_waits e \<longleftrightarrow> gEchoTimerSet e \<and> id_inv (echo_timers e) \<and> 0 < gEchoInterval e \<and>
     timer_waits (gCWEchoRequestTimerID e) CWWTPEchoRequestTimerExpired None (echo_timers e)"

definition echo_ready :: "wtp_echo \<Rightarrow> bool" where
  "echo_ready e \<longleftrightarrow> id_inv (echo_timers e) \<and> 0 < gEchoInterval e \<and> cur_id (echo_timers e) + 16 < INT_MAX"

text \<open>The state \<open>e'\<close> is \<open>e\<close> with its timer started again, and no request counted.\<close>

definition echo_restarted :: "wtp_echo \<Rightarrow> wtp_echo \<Rightarrow> bool" where
  "echo_restarted e e' \<longleftrightarrow> echo_waits e' \<and> gWTPEchoRetransmissionCount e' = 0 \<and> echo_sent e' = echo_sent e \<and>
     echo_seqNum e' = echo_seqNum e \<and> gWTPExitRunEcho e' = gWTPExitRunEcho e \<and>
     gWTPDataChannelDeadFlag e' = gWTPDataChannelDeadFlag e \<and> cur_id (echo_timers e') = cur_id (echo_timers e) + 1"

lemma start_waits:
  assumes "ample mem" "id_inv (echo_timers e)" "0 < gEchoInterval e" "cur_id (echo_timers e) < INT_MAX"
  shows "\<exists>n q. CWStartEchoRequestTimer mem e =
      Ret (True, e\<lparr> echo_timers := q, gCWEchoRequestTimerID := n, gEchoTimerSet := True \<rparr>) \<and>
    echo_waits (e\<lparr> echo_timers := q, gCWEchoRequestTimerID := n, gEchoTimerSet := True \<rparr>) \<and>
    cur_id q = cur_id (echo_timers e) + 1"
proof -
  obtain q where q: "timer_add True (gEchoInterval e) 0 (Some CWWTPEchoRequestTimerExpired) None (echo_timers e) =
      Ret (cur_id (echo_timers e), q)" "id_inv q"
    "timer_waits (cur_id (echo_timers e)) CWWTPEchoRequestTimerExpired None q" "cur_id q = cur_id (echo_timers e) + 1"
    using timer_add_waits [OF assms(2-4)] by blast
  have "0 \<le> cur_id (echo_timers e)" using assms(2) by (simp add: id_inv_def)
  with q assms(1,3) show ?thesis
    by (intro exI [of _ "cur_id (echo_timers e)"] exI [of _ q])
       (simp add: CWStartEchoRequestTimer_def echo_waits_def ample_malloc)
qed

lemma reset_restarts:
  assumes "ample mem" "echo_ready e"
  shows "\<exists>e'. CWResetEchoRequestRetransmit mem e = Ret (True, e') \<and> echo_restarted e e'"
proof -
  let ?e = "(CWStopEchoRequestsTimer e)\<lparr>gWTPEchoRetransmissionCount := 0\<rparr>"
  have "id_inv (echo_timers ?e)" "0 < gEchoInterval ?e" "cur_id (echo_timers ?e) < INT_MAX"
    using assms(2) id_inv_rem by (auto simp: echo_ready_def CWStopEchoRequestsTimer_def)
  from start_waits [OF assms(1) this] obtain n q where
    s: "CWStartEchoRequestTimer mem ?e = Ret (True, ?e\<lparr> echo_timers := q, gCWEchoRequestTimerID := n, gEchoTimerSet := True \<rparr>)"
    "echo_waits (?e\<lparr> echo_timers := q, gCWEchoRequestTimerID := n, gEchoTimerSet := True \<rparr>)" "cur_id q = cur_id (echo_timers ?e) + 1"
    by blast
  have "echo_restarted e (?e\<lparr> echo_timers := q, gCWEchoRequestTimerID := n, gEchoTimerSet := True \<rparr>)"
    using s(2,3) by (simp add: echo_restarted_def CWStopEchoRequestsTimer_def)
  with s(1) show ?thesis unfolding CWResetEchoRequestRetransmit_def by blast
qed

subsection \<open>Nobody answers\<close>

text \<open>The packets of a request.\<close>

definition packets_of :: "CWProtocolMessage list res \<Rightarrow> byte list list" where
  "packets_of r = (case r of Ret ms \<Rightarrow> map contents ms | _ \<Rightarrow> [])"

definition echo_packets :: "memory \<Rightarrow> eth \<Rightarrow> int \<Rightarrow> 32 word \<Rightarrow> int \<Rightarrow> int \<Rightarrow> byte list list" where
  "echo_packets mem mac fid garbage PMTU seq = packets_of (CWAssembleEchoRequest mem mac fid garbage PMTU (word_of_int seq))"

lemma echo_request_ok:
  assumes "ample mem"
  shows "\<exists>ms. CWAssembleEchoRequest mem mac fid garbage PMTU seq = Ret ms \<and> list_all well_formed ms"
proof -
  have "message_header seq 13 0 = message_bytes seq 13 [] []" by (simp add: message_bytes_eq message_elements_def)
  from CWAssembleMessage_eq [OF assms _ _ this refl refl refl, of mac fid garbage PMTU 0]
  have "\<exists>ms. CWAssembleMessage mem mac fid garbage PMTU seq 13 [] [] 0 = Ret ms" by (auto simp: Let_def)
  then show ?thesis
    using CWAssembleMessage_well_formed [OF assms, of "[]" "[]"] by (auto simp: CWAssembleEchoRequest_def)
qed

lemma echo_expires_sends:
  assumes "ample mem" "\<forall>k. net k" "echo_waits e" "cur_id (echo_timers e) < INT_MAX" "\<not> gWTPDataChannelDeadFlag e"
    and "gWTPEchoRetransmissionCount e < gWTPMaxRetransmitEcho"
  shows "\<exists>e'. echo_expires mem mac fid garbage PMTU net e = Ret e' \<and> echo_waits e' \<and>
    gWTPEchoRetransmissionCount e' = gWTPEchoRetransmissionCount e + 1 \<and>
    echo_sent e' = echo_sent e @ echo_packets mem mac fid garbage PMTU (CWGetSeqNum (echo_seqNum e)) \<and>
    echo_seqNum e' = CWGetSeqNum (echo_seqNum e) \<and> gWTPExitRunEcho e' = gWTPExitRunEcho e \<and>
    \<not> gWTPDataChannelDeadFlag e' \<and> cur_id (echo_timers e') = cur_id (echo_timers e) + 1"
proof -
  have w: "timer_waits (gCWEchoRequestTimerID e) CWWTPEchoRequestTimerExpired None (echo_timers e)" "id_inv (echo_timers e)"
    "gEchoTimerSet e" "0 < gEchoInterval e"
    using assms(3) by (simp_all add: echo_waits_def)
  obtain q where q: "timer_fires (gCWEchoRequestTimerID e) (echo_timers e) = (Some (CWWTPEchoRequestTimerExpired, None), q)"
    "id_inv q" "cur_id q = cur_id (echo_timers e)"
    using timer_fires_waiting [OF w(1,2)] by blast
  let ?seq = "CWGetSeqNum (echo_seqNum e)"
  obtain ms where ms: "CWAssembleEchoRequest mem mac fid garbage PMTU (word_of_int ?seq) = Ret ms" "list_all well_formed ms"
    using echo_request_ok [OF assms(1)] by blast
  let ?e = "e\<lparr> echo_timers := q, echo_seqNum := ?seq, echo_sent := echo_sent e @ map contents ms,
    gWTPEchoRetransmissionCount := gWTPEchoRetransmissionCount e + 1 \<rparr>"
  obtain n q' where s: "CWStartEchoRequestTimer mem ?e =
      Ret (True, ?e\<lparr> echo_timers := q', gCWEchoRequestTimerID := n, gEchoTimerSet := True \<rparr>)"
    "echo_waits (?e\<lparr> echo_timers := q', gCWEchoRequestTimerID := n, gEchoTimerSet := True \<rparr>)" "cur_id q' = cur_id q + 1"
    using start_waits [OF assms(1), of ?e] q(2,3) w(4) assms(4) by auto
  let ?e' = "?e\<lparr> echo_timers := q', gCWEchoRequestTimerID := n, gEchoTimerSet := True \<rparr>"
  have r: "echo_expires mem mac fid garbage PMTU net e = Ret ?e'"
    using q(1) w(3) assms(5,6) ms(1) send_fragments_ok [OF ms(2) assms(2)] s(1)
    by (simp add: echo_expires_def CWWTPEchoRequestTimerExpiredHandler_def Let_def)
  have "gWTPEchoRetransmissionCount ?e' = gWTPEchoRetransmissionCount e + 1 \<and>
    echo_sent ?e' = echo_sent e @ echo_packets mem mac fid garbage PMTU ?seq \<and> echo_seqNum ?e' = ?seq \<and>
    gWTPExitRunEcho ?e' = gWTPExitRunEcho e \<and> \<not> gWTPDataChannelDeadFlag ?e' \<and> cur_id (echo_timers ?e') = cur_id (echo_timers e) + 1"
    using s(3) q(3) assms(5) ms(1) by (simp add: echo_packets_def packets_of_def)
  with r s(2) show ?thesis by blast
qed

lemma echo_expires_last:
  assumes "echo_waits e" "gWTPMaxRetransmitEcho \<le> gWTPEchoRetransmissionCount e"
  shows "\<exists>e'. echo_expires mem mac fid garbage PMTU net e = Ret e' \<and> gWTPExitRunEcho e' \<and> echo_sent e' = echo_sent e \<and>
    timer_find (gCWEchoRequestTimerID e') (queue (echo_timers e')) = None"
proof -
  obtain q where "timer_fires (gCWEchoRequestTimerID e) (echo_timers e) = (Some (CWWTPEchoRequestTimerExpired, None), q)"
    "timer_find (gCWEchoRequestTimerID e) (queue q) = None"
    using timer_fires_waiting [of "gCWEchoRequestTimerID e" CWWTPEchoRequestTimerExpired None "echo_timers e"] assms(1)
    by (auto simp: echo_waits_def)
  with assms show ?thesis
    by (simp add: echo_expires_def CWWTPEchoRequestTimerExpiredHandler_def echo_waits_def)
qed

text \<open>\<open>k\<close> requests.\<close>

lemma echo_rounds_send:
  assumes "ample mem" "\<forall>k. net k" "echo_waits e" "cur_id (echo_timers e) + 12 < INT_MAX" "\<not> gWTPDataChannelDeadFlag e"
    and "gWTPEchoRetransmissionCount e = 0" "k \<le> gWTPMaxRetransmitEcho"
  shows "\<exists>e'. echo_rounds k mem mac fid garbage PMTU net e = Ret e' \<and> echo_waits e' \<and> gWTPEchoRetransmissionCount e' = k \<and>
    echo_sent e' = echo_sent e @ concat (map (\<lambda>i. echo_packets mem mac fid garbage PMTU ((CWGetSeqNum ^^ Suc i) (echo_seqNum e))) [0..<k]) \<and>
    echo_seqNum e' = (CWGetSeqNum ^^ k) (echo_seqNum e) \<and> gWTPExitRunEcho e' = gWTPExitRunEcho e \<and>
    \<not> gWTPDataChannelDeadFlag e' \<and> cur_id (echo_timers e') = cur_id (echo_timers e) + int k"
  using assms(7)
proof (induction k)
  case 0
  then show ?case using assms(3,5,6) by simp
next
  case (Suc k)
  then obtain e' where e': "echo_rounds k mem mac fid garbage PMTU net e = Ret e'" "echo_waits e'" "gWTPEchoRetransmissionCount e' = k"
    "echo_sent e' = echo_sent e @ concat (map (\<lambda>i. echo_packets mem mac fid garbage PMTU ((CWGetSeqNum ^^ Suc i) (echo_seqNum e))) [0..<k])"
    "echo_seqNum e' = (CWGetSeqNum ^^ k) (echo_seqNum e)" "gWTPExitRunEcho e' = gWTPExitRunEcho e"
    "\<not> gWTPDataChannelDeadFlag e'" "cur_id (echo_timers e') = cur_id (echo_timers e) + int k"
    by auto
  have "cur_id (echo_timers e') < INT_MAX" using e'(8) assms(4) Suc.prems by simp
  from echo_expires_sends [OF assms(1,2) e'(2) this e'(7), of mac fid garbage PMTU]
  obtain e'' where "echo_expires mem mac fid garbage PMTU net e' = Ret e''" "echo_waits e''"
    "gWTPEchoRetransmissionCount e'' = k + 1"
    "echo_sent e'' = echo_sent e' @ echo_packets mem mac fid garbage PMTU (CWGetSeqNum (echo_seqNum e'))"
    "echo_seqNum e'' = CWGetSeqNum (echo_seqNum e')" "gWTPExitRunEcho e'' = gWTPExitRunEcho e'"
    "\<not> gWTPDataChannelDeadFlag e''" "cur_id (echo_timers e'') = cur_id (echo_timers e') + 1"
    using e'(3) Suc.prems by auto
  with e' show ?case by simp
qed

text \<open>The echo state after a restart nobody follows: ten requests, then the flag.\<close>

lemma echo_unanswered:
  assumes "ample mem" "\<forall>k. net k" "echo_ready e" "echo_restarted e e'" "\<not> gWTPDataChannelDeadFlag e"
  shows "\<exists>e''. echo_rounds (Suc gWTPMaxRetransmitEcho) mem mac fid garbage PMTU net e' = Ret e'' \<and> gWTPExitRunEcho e'' \<and>
    timer_find (gCWEchoRequestTimerID e'') (queue (echo_timers e'')) = None \<and>
    echo_sent e'' = echo_sent e @
      concat (map (\<lambda>i. echo_packets mem mac fid garbage PMTU ((CWGetSeqNum ^^ Suc i) (echo_seqNum e))) [0..<gWTPMaxRetransmitEcho])"
proof -
  have r: "echo_waits e'" "cur_id (echo_timers e') + 12 < INT_MAX" "\<not> gWTPDataChannelDeadFlag e'"
    "gWTPEchoRetransmissionCount e' = 0" "echo_sent e' = echo_sent e" "echo_seqNum e' = echo_seqNum e"
    using assms(3-5) by (auto simp: echo_restarted_def echo_ready_def)
  obtain e1 where e1: "echo_rounds 10 mem mac fid garbage PMTU net e' = Ret e1" "echo_waits e1" "gWTPEchoRetransmissionCount e1 = 10"
    "echo_sent e1 = echo_sent e @
      concat (map (\<lambda>i. echo_packets mem mac fid garbage PMTU ((CWGetSeqNum ^^ Suc i) (echo_seqNum e))) [0..<10])"
    using echo_rounds_send [OF assms(1,2) r(1-4) order_refl, of mac fid garbage PMTU] r(5,6) by auto
  have "10 \<le> gWTPEchoRetransmissionCount e1" using e1(3) by simp
  from echo_expires_last [OF e1(2) this, of mem mac fid garbage PMTU net]
  obtain e2 where "echo_expires mem mac fid garbage PMTU net e1 = Ret e2" "gWTPExitRunEcho e2" "echo_sent e2 = echo_sent e1"
    "timer_find (gCWEchoRequestTimerID e2) (queue (echo_timers e2)) = None" by blast
  moreover have "echo_rounds (Suc gWTPMaxRetransmitEcho) mem mac fid garbage PMTU net e' = echo_expires mem mac fid garbage PMTU net e1"
    by (subst echo_rounds.simps(2)) (simp add: e1(1))
  ultimately show ?thesis using e1(4) by auto
qed

definition ex_echo :: wtp_echo where
  "ex_echo = \<lparr> echo_timers = \<lparr> queue = [], cur_id = 3, ticker = Top, now = ex_epoch, alarm = None, pending = False, ran = [] \<rparr>,
     gCWEchoRequestTimerID = 2, gEchoTimerSet = True, gWTPEchoRetransmissionCount = 0, gWTPExitRunEcho = False,
     gWTPDataChannelDeadFlag = False, gEchoInterval = 5, echo_seqNum = 7, echo_sent = [] \<rparr>"

lemma ex_echo_ready: "echo_ready ex_echo" "\<not> gWTPDataChannelDeadFlag ex_echo"
  by (simp_all add: ex_echo_def echo_ready_def id_inv_def)

end
