(* ===== verification/WLANConfiguration.thy ===== *)
theory WLANConfiguration
  imports ConfigureStates EchoTimer
begin

section \<open>WLANs: ACIEEEConfigurationState.c and WTPIEEEConfigurationState.c\<close>

text \<open>
  In the Run state an operator adds, deletes or updates a WLAN: the AC's session thread takes the command from the
  application, sends a request and waits; the WTP switches an interface of its radio to the access point mode
  (\<^verbatim>\<open>WTPRadio.c\<close>) and tells the address of the new BSS, which the AC notes.
\<close>

subsection \<open>The request: AC\<close>

abbreviation (input) CW_STA_MODE :: int where "CW_STA_MODE \<equiv> 0"
abbreviation (input) CW_AP_MODE :: int where "CW_AP_MODE \<equiv> 1"

definition iface :: "CWWTPRadioInfoValues list \<Rightarrow> nat \<Rightarrow> nat \<Rightarrow> WTPInterfaceInfo" where
  "iface rs i j = interfaces (gWTPPhyInfo (rs ! i)) ! j"

definition set_iface :: "nat \<Rightarrow> nat \<Rightarrow> WTPInterfaceInfo \<Rightarrow> CWWTPRadioInfoValues list \<Rightarrow> CWWTPRadioInfoValues list" where
  "set_iface i j w = set_phy i (\<lambda>p. p\<lparr>interfaces := (interfaces p)[j := w]\<rparr>)"

text \<open>Whether radio and interface lie in their blocks.\<close>

definition has_iface :: "CWWTPRadioInfoValues list \<Rightarrow> int \<Rightarrow> int \<Rightarrow> bool" where
  "has_iface rs i j \<longleftrightarrow> 0 \<le> i \<and> 0 \<le> j \<and> nat i < length rs \<and> nat j < length (interfaces (gWTPPhyInfo (rs ! nat i)))"

text \<open>ESS and short slot time are set. The interface name is not part of the model: the AC never reads it.\<close>

definition ac_capability :: "byte list" where
  "ac_capability = [1, 0, 0, 0, 0, 0, 0, 0, 0, 0, 1, 0, 0, 0, 0, 0]"

definition ACUpdateInfoWlanInterface ::
  "memory \<Rightarrow> WTPInterfaceInfo \<Rightarrow> int \<Rightarrow> byte list \<Rightarrow> int \<Rightarrow> unit res \<times> WTPInterfaceInfo" where
  "ACUpdateInfoWlanInterface mem w wlan ssid tunnelMode =
     (let w = w\<lparr> wlanID := wlan, capability := ac_capability,
                 capabilityBit := fold (\<lambda>k b. b OR push_bit k (scast (ac_capability ! k)))
                                    (rev [0..<WLAN_CAPABILITY_NUM_FIELDS]) 0,
                 keyIndex := 0, keyStatus := 0, keyLength := 0, key := replicate 4 0, groupTSC := replicate 6 0,
                 qos := 0, authType := 0, MACmode := 0, frameTunnelMode := tunnelMode, suppressSSID := 1 \<rparr>
      in if \<not> malloc_ok mem (int (length ssid) + 1) then (Raise CW_ERROR_OUT_OF_MEMORY, w\<lparr>SSID := []\<rparr>)
         else (Ret (), w\<lparr>SSID := ssid\<rparr>))"

definition CWAssembleIEEEConfigurationRequest ::
  "memory \<Rightarrow> eth \<Rightarrow> int \<Rightarrow> 32 word \<Rightarrow> int \<Rightarrow> byte \<Rightarrow> wlanOperationType \<Rightarrow> int \<Rightarrow> int \<Rightarrow> CWWTPRadioInfoValues list \<Rightarrow>
   CWProtocolMessage list res" where
  "CWAssembleIEEEConfigurationRequest mem mac fid garbage PMTU seq operation radio wlan rs =
     (let radioIndex = CWIEEEBindingGetIndexFromDevID radio; wlanIndex = CWIEEEBindingGetIndexFromDevID wlan;
          w = iface rs (nat radioIndex) (nat wlanIndex) in
      if \<not> malloc_ok mem message_size then Raise CW_ERROR_OUT_OF_MEMORY
      else res_bind (fill_elements 1
             (case operation of
                CW_OP_ADD_WLAN \<Rightarrow> [if \<not> has_iface rs radioIndex wlanIndex then Fault
                                    else CWAssembleMsgElemACAddWlan mem radio w]
              | CW_OP_DEL_WLAN \<Rightarrow> [CWAssembleMsgElemACDelWlan mem radio wlan]
              | CW_OP_UPDATE_WLAN \<Rightarrow> [if \<not> has_iface rs radioIndex wlanIndex then Fault
                                       else CWAssembleMsgElemACUpdateWlan mem radio w]
              | CW_OP_UNKNOWN _ \<Rightarrow> [])) (\<lambda>es.
           CWAssembleMessage mem mac fid garbage PMTU seq 3398913 es [] 0))"

text \<open>
  The command of the application, and the branch of the session's thread that takes it: the session notes that an
  answer is due, or that there is none. The type of the response it waits for is that of the request.
\<close>

record WUMWLANCmdParameters =
  typeCmd :: wlanOperationType
  cmd_radioID :: int
  cmd_wlanID :: int
  cmd_ssid :: "byte list"

definition command_done :: "bool \<Rightarrow> ac_session \<Rightarrow> ac_session" where
  "command_done ok s =
     s\<lparr>wtp := (if ok then (wtp s)\<lparr> interfaceCommand := 0, interfaceCommandProgress := True \<rparr>
              else (wtp s)\<lparr> interfaceCommand := 0, interfaceResult := 0 \<rparr>)\<rparr>"

definition wlan_command ::
  "memory \<Rightarrow> eth \<Rightarrow> int \<Rightarrow> 32 word \<Rightarrow> (nat \<Rightarrow> bool) \<Rightarrow> byte \<Rightarrow> WUMWLANCmdParameters \<Rightarrow> ac_session \<Rightarrow>
   unit res \<times> ac_session" where
  "wlan_command mem mac fid garbage net seq cmd s =
     (let radioIndex = CWIEEEBindingGetIndexFromDevID (cmd_radioID cmd);
          wlanIndex = CWIEEEBindingGetIndexFromDevID (cmd_wlanID cmd); rs = radiosInfo (wtp s) in
      if typeCmd cmd = CW_OP_ADD_WLAN \<and> \<not> has_iface rs radioIndex wlanIndex then (Fault, s)
      else
        let i = nat radioIndex; j = nat wlanIndex;
            (r, rs) = (if typeCmd cmd = CW_OP_ADD_WLAN
                       then case ACUpdateInfoWlanInterface mem (iface rs i j) (cmd_wlanID cmd) (cmd_ssid cmd)
                                   (frameTunnelMode (iface rs i j)) of (r, w) \<Rightarrow> (r, set_iface i j w rs)
                       else (Ret (), rs));
            s = s\<lparr>wtp := (wtp s)\<lparr>radiosInfo := rs\<rparr>\<rparr>
        in if r \<noteq> Ret () then (Ret (), command_done False s)
           else case CWAssembleIEEEConfigurationRequest mem mac fid garbage (pathMTU (wtp s)) seq (typeCmd cmd)
                       (cmd_radioID cmd) (cmd_wlanID cmd) rs of
                  Fault \<Rightarrow> (Fault, s)
                | Raise e \<Rightarrow> (Ret (), command_done False s)
                | Ret ms \<Rightarrow>
                    (case CWACSendAcknowledgedPacket mem net 3398913 seq
                            (s\<lparr>wtp := (wtp s)\<lparr> messages := Some ms, messagesCount := length ms \<rparr>\<rparr>) of
                       (Fault, s) \<Rightarrow> (Fault, s)
                     | (Ret _, s) \<Rightarrow> (Ret (), command_done True s)
                     | (Raise e, s) \<Rightarrow> (case CWACStopRetransmission s of
                                          Ret s \<Rightarrow> (Ret (), command_done False s)
                                        | _ \<Rightarrow> (Fault, s))))"

subsection \<open>The request: WTP\<close>

definition wlan_request_branch ::
  "memory \<Rightarrow> ACInterfaceRequestInfo \<Rightarrow> 16 word \<Rightarrow> CWProtocolMessage \<Rightarrow> int \<Rightarrow>
   (ACInterfaceRequestInfo \<times> CWProtocolMessage) res" where
  "wlan_request_branch mem v type m len =
     (if type = 1024 then CWParseACAddWlan mem v m len
      else if type = 1027 then CWParseACDelWlan v m len
      else if type = 1044 then CWParseACUpdateWlan mem v m len
      else Raise CW_ERROR_INVALID_FORMAT)"

definition CWParseIEEEConfigurationRequestMessage ::
  "memory \<Rightarrow> ACInterfaceRequestInfo \<Rightarrow> byte list \<Rightarrow> int \<Rightarrow> byte \<Rightarrow> ACInterfaceRequestInfo res option" where
  "CWParseIEEEConfigurationRequestMessage mem v bytes len seq =
     run_bind (Some (parse_message_header 3398913 bytes)) (\<lambda>(s, elemsLen, m).
     if s \<noteq> seq then Some (Raise CW_ERROR_INVALID_FORMAT)
     else run_bind (parse_elements (wlan_request_branch mem) (offset m) elemsLen v m) (\<lambda>(v, m).
       Some (if int (offset m) \<noteq> len then Raise CW_ERROR_INVALID_FORMAT else Ret v)))"

text \<open>
  The calls of the driver an interface needs to become an access point; \<open>drv\<close> says which succeed. A BSS is \<open>None\<close>
  when there is none, else its flag \<^verbatim>\<open>active\<close>; \<open>MACaddr\<close> is the interface's address, which the driver told. A
  result \<open>None\<close> is the end of the process, when the thread of the BSS cannot be created.
\<close>

datatype driver_call =
    nl80211CmdSetInterfaceAPType | nl80211CmdSetChannelInterface | nl80211_get_channel_width | ioctlActivateInterface
  | nl80211CmdStartAP | netlink_send_oper_ifla | nl80211_set_bss | CW80211SetAPTypeFrame | CWCreateThread

definition getBSSIndex :: "nat \<Rightarrow> nat \<Rightarrow> nat" where
  "getBSSIndex radio wlan = radio + wlan"

definition CWWTPSetAPInterface ::
  "memory \<Rightarrow> (driver_call \<Rightarrow> bool) \<Rightarrow> eth \<Rightarrow> nat \<Rightarrow> nat \<Rightarrow> CWWTPRadioInfoValues list \<Rightarrow> bool option list \<Rightarrow>
   WTPInterfaceInfo \<Rightarrow> (bool res \<times> bool option list \<times> WTPInterfaceInfo) option" where
  "CWWTPSetAPInterface mem drv MACaddr radioIndex wlanIndex rs bss w =
     (if typeInterface w = CW_AP_MODE then Some (Ret True, bss, w)
      else if \<not> drv nl80211CmdSetInterfaceAPType then Some (Ret False, bss, w)
      else if \<not> malloc_ok mem 7 then Some (Ret False, bss, w\<lparr>BSSID := None\<rparr>)
      else
        let w = w\<lparr>BSSID := Some (eth_bytes MACaddr)\<rparr> in
        if phy_frequencyList (gWTPPhyInfo (rs ! radioIndex)) = None then Some (Fault, bss, w)
        else if \<not> drv nl80211CmdSetChannelInterface \<or> \<not> drv nl80211_get_channel_width \<or>
                \<not> drv ioctlActivateInterface \<or> \<not> drv nl80211CmdStartAP \<or> \<not> drv netlink_send_oper_ifla \<or>
                \<not> drv nl80211_set_bss then Some (Ret False, bss, w)
        else
          let n = getBSSIndex radioIndex wlanIndex in
          if length bss \<le> n \<or> bss ! n = None then Some (Fault, bss, w)
          else
            let bss = bss[n := Some True] in
            if \<not> drv CW80211SetAPTypeFrame then Some (Ret False, bss, w)
            else if \<not> drv CWCreateThread then None
            else Some (Ret True, bss, w\<lparr>typeInterface := CW_AP_MODE\<rparr>))"

text \<open>
  The array \<^verbatim>\<open>capability\<close> of the request's structure is never filled: \<open>cap\<close> is what it held. A radio is compared
  with five, not with the number of radios. Deleting a WLAN opens a terminal and loops forever.
\<close>

definition CWSaveIEEEConfigurationRequestMessage ::
  "memory \<Rightarrow> (driver_call \<Rightarrow> bool) \<Rightarrow> eth \<Rightarrow> byte list \<Rightarrow> ACInterfaceRequestInfo \<Rightarrow> CWWTPRadioInfoValues list \<Rightarrow>
   bool option list \<Rightarrow> (bool res \<times> CWWTPRadioInfoValues list \<times> bool option list) option" where
  "CWSaveIEEEConfigurationRequestMessage mem drv MACaddr cap v rs bss =
     (let indexRadio = CWIEEEBindingGetIndexFromDevID (req_radioID v);
          indexWlan = CWIEEEBindingGetIndexFromDevID (req_wlanID v) in
      case req_operation v of
        CW_OP_ADD_WLAN \<Rightarrow>
          if \<not> (indexWlan < int WTP_MAX_INTERFACES \<and> indexRadio < int WTP_RADIO_MAX) then Some (Ret False, rs, bss)
          else if \<not> has_iface rs indexRadio indexWlan then Some (Fault, rs, bss)
          else
            let i = nat indexRadio; j = nat indexWlan; w = iface rs i j;
                ssid = takeWhile (\<lambda>b. b \<noteq> 0) (req_SSID v) in
            if typeInterface w \<noteq> CW_STA_MODE then Some (Ret False, rs, bss)
            else
              let w = w\<lparr> capability := take 16 cap, capabilityBit := req_capabilityBit v, keyIndex := req_keyIndex v,
                         keyStatus := req_keyStatus v, keyLength := req_keyLength v, key := req_key v,
                         groupTSC := req_groupTSC v, qos := req_qos v, authType := req_authType v,
                         MACmode := req_MACmode v, frameTunnelMode := sint (req_tunnelMode v),
                         suppressSSID := req_suppressSSID v \<rparr>
              in if \<not> malloc_ok mem (int (length ssid) + 1)
                 then Some (Ret False, set_iface i j (w\<lparr>SSID := []\<rparr>) rs, bss)
                 else map_option (\<lambda>(r, bss, w). (r, set_iface i j w rs, bss))
                        (CWWTPSetAPInterface mem drv MACaddr i j rs bss (w\<lparr>SSID := ssid\<rparr>))
      | CW_OP_DEL_WLAN \<Rightarrow> None
      | CW_OP_UPDATE_WLAN \<Rightarrow> Some (Ret True, rs, bss)
      | CW_OP_UNKNOWN _ \<Rightarrow> Some (Ret False, rs, bss))"

subsection \<open>The response\<close>

definition CWAssembleIEEEConfigurationResponse ::
  "memory \<Rightarrow> eth \<Rightarrow> int \<Rightarrow> 32 word \<Rightarrow> int \<Rightarrow> byte \<Rightarrow> 32 word \<Rightarrow> int \<Rightarrow> int \<Rightarrow> eth option \<Rightarrow> CWProtocolMessage list res" where
  "CWAssembleIEEEConfigurationResponse mem mac fid garbage PMTU seq resultCode radio wlan bssid =
     (if \<not> malloc_ok mem (message_size * 2) then Raise CW_ERROR_OUT_OF_MEMORY
      else res_bind (fill_elements 2 (CWAssembleMsgElemResultCode mem resultCode #
             (case bssid of None \<Rightarrow> [] | Some a \<Rightarrow> [CWAssembleMsgElemAssignedWTPSSID mem radio wlan a]))) (\<lambda>es.
           CWAssembleMessage mem mac fid garbage PMTU seq 3398914 es [] 0))"

text \<open>
  The branch of the message in the WTP's Run state. It first starts the echo timer again, and gives up, with no error
  raised, when it cannot; \<open>stack\<close> is the local structure.
\<close>

definition wlan_request_message ::
  "memory \<Rightarrow> (driver_call \<Rightarrow> bool) \<Rightarrow> eth \<Rightarrow> byte list \<Rightarrow> ACInterfaceRequestInfo \<Rightarrow> eth \<Rightarrow> int \<Rightarrow> 32 word \<Rightarrow> int \<Rightarrow>
   byte list \<Rightarrow> int \<Rightarrow> byte \<Rightarrow> CWWTPRadioInfoValues list \<Rightarrow> bool option list \<Rightarrow>
   (CWProtocolMessage list res \<times> CWWTPRadioInfoValues list \<times> bool option list) option" where
  "wlan_request_message mem drv MACaddr cap stack mac fid garbage PMTU bytes len seq rs bss =
     (case CWParseIEEEConfigurationRequestMessage mem stack bytes len seq of
        None \<Rightarrow> None
      | Some (Raise e) \<Rightarrow> Some (Raise e, rs, bss)
      | Some Fault \<Rightarrow> Some (Fault, rs, bss)
      | Some (Ret v) \<Rightarrow>
          let i = CWIEEEBindingGetIndexFromDevID (req_radioID v); j = CWIEEEBindingGetIndexFromDevID (req_wlanID v) in
          (case CWSaveIEEEConfigurationRequestMessage mem drv MACaddr cap v rs bss of
             None \<Rightarrow> None
           | Some (r, rs, bss) \<Rightarrow>
               let answer = (\<lambda>code bssid. CWAssembleIEEEConfigurationResponse mem mac fid garbage PMTU seq code
                               (req_radioID v) (req_wlanID v) bssid)
               in Some (case r of
                    Ret True \<Rightarrow>
                      if req_operation v = CW_OP_ADD_WLAN \<and> j < int WTP_MAX_INTERFACES \<and> i < int WTP_RADIO_MAX then
                        if \<not> malloc_ok mem 7 then Raise CW_ERROR_OUT_OF_MEMORY
                        else if \<not> has_iface rs i j then Fault
                        else (case Option.bind (BSSID (iface rs (nat i) (nat j))) eth_of_bytes of
                                None \<Rightarrow> Fault
                              | Some a \<Rightarrow> answer 0 (Some a))
                      else answer 0 None
                  | Ret False \<Rightarrow> answer 3 None
                  | Raise e \<Rightarrow> answer 3 None
                  | Fault \<Rightarrow> Fault, rs, bss)))"

definition wlan_request ::
  "memory \<Rightarrow> (driver_call \<Rightarrow> bool) \<Rightarrow> eth \<Rightarrow> byte list \<Rightarrow> ACInterfaceRequestInfo \<Rightarrow> eth \<Rightarrow> int \<Rightarrow> 32 word \<Rightarrow> int \<Rightarrow>
   byte list \<Rightarrow> int \<Rightarrow> byte \<Rightarrow> CWWTPRadioInfoValues list \<Rightarrow> bool option list \<Rightarrow> wtp_echo \<Rightarrow>
   (CWProtocolMessage list res \<times> CWWTPRadioInfoValues list \<times> bool option list) option \<times> wtp_echo" where
  "wlan_request mem drv MACaddr cap stack mac fid garbage PMTU bytes len seq rs bss e =
     (case CWResetEchoRequestRetransmit mem e of
        Ret (True, e) \<Rightarrow> (wlan_request_message mem drv MACaddr cap stack mac fid garbage PMTU bytes len seq rs bss, e)
      | Ret (False, e) \<Rightarrow> (Some (Raise CW_ERROR_NONE, rs, bss), e)
      | Raise x \<Rightarrow> (Some (Raise x, rs, bss), e)
      | Fault \<Rightarrow> (Some (Fault, rs, bss), e))"

text \<open>
  The AC's loop over the response changes the AC's radios as it goes, and what it has changed stays when a later
  element is refused.
\<close>

partial_function (option) parse_storing ::
  "('s \<Rightarrow> 16 word \<Rightarrow> CWProtocolMessage \<Rightarrow> int \<Rightarrow> CWProtocolMessage res \<times> 's) \<Rightarrow> nat \<Rightarrow> int \<Rightarrow> 's \<Rightarrow> CWProtocolMessage \<Rightarrow>
   (CWProtocolMessage res \<times> 's) option" where
  "parse_storing branch start len s m =
     (if int (offset m) - int start < len then
        case CWParseFormatMsgElem m of
          Ret x \<Rightarrow> (case branch s (fst (fst x)) (snd x) (uint (snd (fst x))) of
              (Ret m, s) \<Rightarrow> parse_storing branch start len s m
            | (r, s) \<Rightarrow> Some (r, s))
        | Raise e \<Rightarrow> Some (Raise e, s)
        | Fault \<Rightarrow> Some (Fault, s)
      else Some (Ret m, s))"

definition wlan_response_branch ::
  "memory \<Rightarrow> CWWTPRadioInfoValues list \<Rightarrow> 16 word \<Rightarrow> CWProtocolMessage \<Rightarrow> int \<Rightarrow>
   CWProtocolMessage res \<times> CWWTPRadioInfoValues list" where
  "wlan_response_branch mem rs type m len =
     (if type = 33 then (res_bind (CWParseResultCode m len) (\<lambda>(c, m). Ret m), rs)
      else if type = 1026 then
        if \<not> malloc_ok mem 7 then (Raise CW_ERROR_OUT_OF_MEMORY, rs)
        else (case CWParseACAssignedWTPBSSID mem m len of
            Raise e \<Rightarrow> (Raise e, rs)
          | Fault \<Rightarrow> (Fault, rs)
          | Ret ((r, w, a), m) \<Rightarrow>
              let radioIndex = CWIEEEBindingGetIndexFromDevID r; wlanIndex = CWIEEEBindingGetIndexFromDevID w in
              if 0 \<le> radioIndex \<and> radioIndex < int WTP_RADIO_MAX \<and> 0 \<le> wlanIndex \<and> wlanIndex < int WTP_MAX_INTERFACES then
                if \<not> has_iface rs radioIndex wlanIndex then (Fault, rs)
                else
                  let i = nat radioIndex; j = nat wlanIndex; f = iface rs i j in
                  if \<not> malloc_ok mem 7 then (Raise CW_ERROR_OUT_OF_MEMORY, set_iface i j (f\<lparr>BSSID := None\<rparr>) rs)
                  else (Ret m, set_iface i j (f\<lparr> BSSID := Some a, typeInterface := CW_AP_MODE \<rparr>) rs)
              else (Ret m, rs))
      else (Raise CW_ERROR_INVALID_FORMAT, rs))"

definition CWParseIEEEConfigurationResponseMessage ::
  "memory \<Rightarrow> byte list \<Rightarrow> int \<Rightarrow> CWWTPRadioInfoValues list \<Rightarrow> (unit res \<times> CWWTPRadioInfoValues list) option" where
  "CWParseIEEEConfigurationResponseMessage mem bytes len rs =
     (case parse_message_header 3398914 bytes of
        Raise e \<Rightarrow> Some (Raise e, rs)
      | Fault \<Rightarrow> Some (Fault, rs)
      | Ret (seq, elemsLen, m) \<Rightarrow>
          map_option (\<lambda>(r, rs). (res_bind r (\<lambda>m'. if int (offset m') - int (offset m) \<noteq> len
                                   then Raise CW_ERROR_INVALID_FORMAT else Ret ()), rs))
            (parse_storing (wlan_response_branch mem) (offset m) elemsLen rs m))"

subsection \<open>Sending a message and reading it\<close>

lemma elements_delivered:
  assumes "ample mem" "mac_room mac_ptr" "0 \<le> fid" "fid < 65536" "list_all well_formed es"
    and "e = concat (map contents es)" "length e < 65500" "n = control_fragments PMTU (8 + length e)"
    and "insert j (set js) = {..<n}" "j \<notin> set js"
  shows "\<exists>pkts mac' m. CWAssembleMessage mem mac fid garbage PMTU seq type es [] c = Ret pkts \<and> length pkts = n \<and>
    list_all well_formed pkts \<and>
    receive_all mem (map (\<lambda>i. received (contents (pkts ! i)) (junk i)) (js @ [j])) [] mac_ptr =
      Some (replicate (length js) (Raise CW_ERROR_NEED_RESOURCE) @ [Ret m], [], mac') \<and>
    msg m = message_header seq type (length e) @ e \<and> offset m = 8 + length e"
proof -
  let ?body = "message_header seq type (length e) @ e"
  have body: "?body = message_bytes seq type es []"
    using assms(6) by (simp add: message_bytes_eq message_elements_def)
  have len: "length ?body = 8 + length e" by simp
  then have "length ?body \<le> 65536" using assms(7) by simp
  then obtain pkts mac' where p: "CWAssembleMessage mem mac fid garbage PMTU seq type es [] c = Ret pkts"
    "length pkts = n" "receive_all mem (map (\<lambda>i. received (contents (pkts ! i)) (junk i)) (js @ [j])) [] mac_ptr =
       Some (replicate (length js) (Raise CW_ERROR_NEED_RESOURCE) @ [Ret (amsg None ?body 0)], [], mac')"
    using message_delivered [OF assms(1,5,2) body _ assms(3,4) _ assms(9,10), of PMTU mac garbage c junk]
    unfolding len assms(8) by blast
  have "list_all well_formed pkts" by (rule CWAssembleMessage_well_formed [OF assms(1,5) _ p(1)]) simp
  moreover have "msg (amsg None ?body 0) = ?body" "offset (amsg None ?body 0) = 8 + length e"
    by (simp_all add: amsg_def wmsg_def)
  ultimately show ?thesis using p by blast
qed

lemma acknowledged_sent:
  assumes "ample mem" "\<forall>k. net k" "messages (wtp s) = Some ms" "messagesCount (wtp s) = length ms"
    and "list_all well_formed ms" "0 \<le> cur_id (timers s)" "cur_id (timers s) < INT_MAX"
  shows "\<exists>s'. CWACSendAcknowledgedPacket mem net type seq s = (Ret (), s') \<and> sent s' = sent s @ map contents ms \<and>
    isRetransmitting (wtp s') \<and> responseSeqNum (wtp s') = seq \<and> radiosInfo (wtp s') = radiosInfo (wtp s)"
proof -
  let ?w = "(wtp s)\<lparr> retransmissionCount := 0, isRetransmitting := True, responseType := type, responseSeqNum := seq \<rparr>"
  have "CWACSendFragments net (s\<lparr>wtp := ?w\<rparr>) = (Ret (), s\<lparr> wtp := CW_FREE_WTP_MSG_ARRAY ?w, sent := sent s @ map contents ms \<rparr>)"
    using CWACSendFragments_ok [of "s\<lparr>wtp := ?w\<rparr>" ms net] assms(2-5) by simp
  moreover obtain q' where "CWTimerRequest mem gCWRetransmitTimer (thread (wtp s)) (currentPacketTimer (wtp s))
      CW_SOFT_TIMER_EXPIRED_SIGNAL (timers s) = (Ret (), cur_id (timers s), q')"
    using CWTimerRequest_ok [OF assms(1) _ assms(6,7)] by (metis zero_less_numeral)
  ultimately show ?thesis
    by (simp add: CWACSendAcknowledgedPacket_def CWACResendAcknowledgedPacket_def CW_FREE_WTP_MSG_ARRAY_def)
qed

subsection \<open>Interfaces\<close>

lemma iface_set_iface [simp]:
  "i < length rs \<Longrightarrow> j < length (interfaces (gWTPPhyInfo (rs ! i))) \<Longrightarrow> iface (set_iface i j w rs) i j = w"
  by (simp add: iface_def set_iface_def)

lemma length_set_iface [simp]: "length (set_iface i j w rs) = length rs"
  by (simp add: set_iface_def)

lemma has_set_iface [simp]: "has_iface (set_iface i j w rs) k l = has_iface rs k l"
  by (cases "i < length rs") (auto simp: has_iface_def set_iface_def nth_list_update list_update_beyond)

lemma freq_set_iface [simp]:
  "phy_frequencyList (gWTPPhyInfo (set_iface i j w rs ! k)) = phy_frequencyList (gWTPPhyInfo (rs ! k))"
  by (cases "i < length rs") (auto simp: set_iface_def nth_list_update list_update_beyond)

text \<open>The AC's description of a new WLAN.\<close>

definition wlan_info :: "WTPInterfaceInfo \<Rightarrow> int \<Rightarrow> byte list \<Rightarrow> int \<Rightarrow> WTPInterfaceInfo" where
  "wlan_info w n ssid t = w
     \<lparr> wlanID := n, capability := ac_capability, capabilityBit := 1025, keyIndex := 0, keyStatus := 0, keyLength := 0,
       key := replicate 4 0, groupTSC := replicate 6 0, qos := 0, authType := 0, MACmode := 0, frameTunnelMode := t,
       suppressSSID := 1, SSID := ssid \<rparr>"

lemma capability_bits:
  "fold (\<lambda>k b. b OR push_bit k (scast (ac_capability ! k))) (rev [0..<WLAN_CAPABILITY_NUM_FIELDS]) 0 = (1025 :: 16 word)"
  by code_simp

lemma update_info_eq:
  "ample mem \<Longrightarrow> ACUpdateInfoWlanInterface mem w n ssid t = (Ret (), wlan_info w n ssid t)"
  unfolding ACUpdateInfoWlanInterface_def capability_bits by (simp add: wlan_info_def Let_def ample_malloc)

lemma wlan_info_ok: "length ssid < 65000 \<Longrightarrow> wlan_ok (wlan_info w n ssid t)"
  by (simp add: wlan_ok_def wlan_info_def)

subsection \<open>The request is read\<close>

lemma add_wlan_length: "wlan_ok w \<Longrightarrow> length (elem_bytes 1024 (add_wlan_body (r, w))) = 27 + length (SSID w)"
  by (simp add: wlan_ok_def)

lemma parse_add_wlan:
  assumes "ample mem" "wlan_ok w" "e = elem_bytes 1024 (add_wlan_body (r, w))"
  shows "CWParseIEEEConfigurationRequestMessage mem v (message_header seq 3398913 (length e) @ e) (int (8 + length e)) seq =
    Some (Ret (add_wlan_view (r, w)))"
proof -
  let ?h = "message_header seq 3398913 (length e)"
  have l: "length e < 65536" "0 < length e"
    unfolding assms(3) add_wlan_length [OF assms(2)] using assms(2) by (simp_all add: wlan_ok_def)
  have "parse_elements (wlan_request_branch mem) 8 (int (length e)) v (rmsg ?h (elem_bytes 1024 (add_wlan_body (r, w)) @ []) None) =
      parse_elements (wlan_request_branch mem) 8 (int (length e)) (add_wlan_view (r, w))
        (rmsg (?h @ elem_bytes 1024 (add_wlan_body (r, w))) [] None)"
    by (rule add_wlan.parse_elements_exchange [where v = "(r, w)" and upd = "\<lambda>x. x", OF assms(1)])
       (use assms(2) l in \<open>simp_all add: wlan_request_branch_def del: add_wlan_body.simps\<close>)
  then have "parse_elements (wlan_request_branch mem) 8 (int (length e)) v (rmsg ?h e None) =
      Some (Ret (add_wlan_view (r, w), rmsg (?h @ e) [] None))"
    unfolding assms(3) [symmetric] append_Nil2 by (simp add: parse_elements_end)
  then show ?thesis
    using l by (simp add: CWParseIEEEConfigurationRequestMessage_def parse_message_header_eq)
qed


subsection \<open>The WTP adds the WLAN\<close>

text \<open>The interface of the WTP after a request that describes \<open>w\<close>.\<close>

definition ap_interface :: "eth \<Rightarrow> byte list \<Rightarrow> WTPInterfaceInfo \<Rightarrow> WTPInterfaceInfo \<Rightarrow> WTPInterfaceInfo" where
  "ap_interface a cap w f = f
     \<lparr> capability := take 16 cap, capabilityBit := capabilityBit w, keyIndex := keyIndex w, keyStatus := keyStatus w,
       keyLength := 4, key := key w, groupTSC := groupTSC w, qos := qos w, authType := authType w, MACmode := MACmode w,
       frameTunnelMode := sint (word_of_int (frameTunnelMode w) :: byte), suppressSSID := suppressSSID w,
       SSID := takeWhile (\<lambda>b. b \<noteq> 0) (SSID w), BSSID := Some (eth_bytes a), typeInterface := CW_AP_MODE \<rparr>"

lemma takeWhile_terminated: "takeWhile (\<lambda>b. b \<noteq> 0) (xs @ [0]) = takeWhile (\<lambda>b. b \<noteq> 0) (xs :: byte list)"
  by (induction xs) auto

lemma set_ap_interface:
  assumes "ample mem" "\<forall>c. drv c" "typeInterface w = CW_STA_MODE" "phy_frequencyList (gWTPPhyInfo (rs ! i)) \<noteq> None"
    and "i + j < length bss" "bss ! (i + j) \<noteq> None"
  shows "CWWTPSetAPInterface mem drv a i j rs bss w =
    Some (Ret True, bss[i + j := Some True], w\<lparr> BSSID := Some (eth_bytes a), typeInterface := CW_AP_MODE \<rparr>)"
  using assms by (auto simp: CWWTPSetAPInterface_def getBSSIndex_def ample_malloc Let_def)

lemma save_add_wlan:
  assumes "ample mem" "\<forall>c. drv c" "has_iface rs i 0" "i < 5" "typeInterface (iface rs (nat i) 0) = CW_STA_MODE"
    and "phy_frequencyList (gWTPPhyInfo (rs ! nat i)) \<noteq> None" "nat i < length bss" "bss ! nat i \<noteq> None" "wlanID w mod 256 = 0"
  shows "CWSaveIEEEConfigurationRequestMessage mem drv a cap (add_wlan_view (i, w)) rs bss =
    Some (Ret True, set_iface (nat i) 0 (ap_interface a cap w (iface rs (nat i) 0)) rs, bss[nat i := Some True])"
proof -
  have i: "0 \<le> i" "i mod 256 = i" using assms(3,4) by (auto simp: has_iface_def)
  have "CWWTPSetAPInterface mem drv a (nat i) 0 rs bss f =
      Some (Ret True, bss[nat i := Some True], f\<lparr> BSSID := Some (eth_bytes a), typeInterface := CW_AP_MODE \<rparr>)"
    if "typeInterface f = CW_STA_MODE" for f
    using set_ap_interface [where i = "nat i" and j = 0 and bss = bss and rs = rs, OF assms(1,2) that assms(6)] assms(7,8) by simp
  then show ?thesis
    using assms i by (simp add: CWSaveIEEEConfigurationRequestMessage_def CWIEEEBindingGetIndexFromDevID_def Let_def
        ample_malloc takeWhile_terminated ap_interface_def)
qed

subsection \<open>The response is read\<close>

lemma parse_storing_end: "len \<le> int (offset m) - int start \<Longrightarrow> parse_storing branch start len s m = Some (Ret m, s)"
  by (subst parse_storing.simps) simp

lemma parse_storing_step:
  assumes "int (length bs) - int start < len" "length body < 65536"
    and "branch s (ucast t) (rmsg (bs @ be16 (ucast t) @ be16 (word_of_nat (length body))) (body @ rest) x)
           (int (length body)) = (Ret (rmsg (bs @ elem_bytes t body) rest x), s')"
  shows "parse_storing branch start len s (rmsg bs (elem_bytes t body @ rest) x) =
    parse_storing branch start len s' (rmsg (bs @ elem_bytes t body) rest x)"
proof -
  have "uint (word_of_nat (length body) :: 16 word) = int (length body)"
    using assms(2) by (simp add: unsigned_of_nat take_bit_nat_eq_self_iff)
  then show ?thesis
    using assms(1,3) by (subst parse_storing.simps) (simp add: CWParseFormatMsgElem_def wire elem_bytes_def)
qed

abbreviation bssid_body :: "int \<Rightarrow> int \<Rightarrow> eth \<Rightarrow> byte list" where
  "bssid_body r n a \<equiv> word_of_int r # word_of_int n # eth_bytes a"

lemma parse_wlan_response:
  assumes "ample mem" "has_iface rs i 0" "i < 5" "e = elem_bytes 33 (be32 c) @ elem_bytes 1026 (bssid_body i 0 a)"
  shows "CWParseIEEEConfigurationResponseMessage mem (message_header seq 3398914 (length e) @ e) (int (length e)) rs =
    Some (Ret (), set_iface (nat i) 0 ((iface rs (nat i) 0)\<lparr> BSSID := Some (eth_bytes a), typeInterface := CW_AP_MODE \<rparr>) rs)"
proof -
  let ?h = "message_header seq 3398914 (length e)" and ?c = "elem_bytes 33 (be32 c)" and ?b = "elem_bytes 1026 (bssid_body i 0 a)"
  let ?rs = "set_iface (nat i) 0 ((iface rs (nat i) 0)\<lparr> BSSID := Some (eth_bytes a), typeInterface := CW_AP_MODE \<rparr>) rs"
  have i: "0 \<le> i" "i mod 256 = i" using assms(2,3) by (auto simp: has_iface_def)
  have l: "length e = 20" using assms(4) by simp
  have "parse_storing (wlan_response_branch mem) 8 20 rs (rmsg ?h (?c @ ?b) None) =
      parse_storing (wlan_response_branch mem) 8 20 rs (rmsg (?h @ ?c) ?b None)"
    by (rule parse_storing_step) (simp_all add: wlan_response_branch_def CWParseResultCode_def parse_frame wire elem_bytes_def)
  also have "\<dots> = parse_storing (wlan_response_branch mem) 8 20 ?rs (rmsg ((?h @ ?c) @ ?b) [] None)"
    using parse_storing_step [where bs = "?h @ ?c" and body = "bssid_body i 0 a" and t = 1026 and rest = "[]" and x = None
        and branch = "wlan_response_branch mem" and s = rs and s' = ?rs and start = 8 and len = 20]
      assigned_bssid.parse_law [where v = "(i, 0, a)" and rest = "[]" and x = None, OF assms(1) TrueI] assms(1-3) i
    by (simp add: wlan_response_branch_def ample_malloc CWIEEEBindingGetIndexFromDevID_def Let_def elem_bytes_def)
  also have "\<dots> = Some (Ret (rmsg ((?h @ ?c) @ ?b) [] None), ?rs)" by (rule parse_storing_end) simp
  finally show ?thesis
    using l assms(4) by (simp add: CWParseIEEEConfigurationResponseMessage_def parse_message_header_eq)
qed

subsection \<open>The command is sent\<close>

lemma wlan_command_sent:
  assumes mem: "ample mem" and net: "\<forall>k. net k" and room: "mac_room mac_ptr" and fid: "0 \<le> fid" "fid < 65536"
    and cmd: "typeCmd cmd = CW_OP_ADD_WLAN \<longrightarrow> has_iface rs (cmd_radioID cmd) (cmd_wlanID cmd)"
      "rs' = (if typeCmd cmd = CW_OP_ADD_WLAN
              then let i = nat (cmd_radioID cmd); j = nat (cmd_wlanID cmd); w = iface rs i j in
                   set_iface i j (wlan_info w (cmd_wlanID cmd) (cmd_ssid cmd) (frameTunnelMode w)) rs else rs)"
    and asm: "CWAssembleIEEEConfigurationRequest mem mac fid garbage (pathMTU (wtp s)) seq (typeCmd cmd) (cmd_radioID cmd)
        (cmd_wlanID cmd) rs' = CWAssembleMessage mem mac fid garbage (pathMTU (wtp s)) seq 3398913 [elem_msg t body] [] 0"
    and s: "radiosInfo (wtp s) = rs" "0 \<le> cur_id (timers s)" "cur_id (timers s) < INT_MAX"
    and e: "e = elem_bytes t body" "length e < 65500" "n = control_fragments (pathMTU (wtp s)) (8 + length e)"
    and order: "insert j (set js) = {..<n}" "j \<notin> set js"
  shows "\<exists>s' pkts mac' m. wlan_command mem mac fid garbage net seq cmd s = (Ret (), s') \<and>
    sent s' = sent s @ map contents pkts \<and> length pkts = n \<and> interfaceCommandProgress (wtp s') \<and>
    responseSeqNum (wtp s') = seq \<and> radiosInfo (wtp s') = rs' \<and>
    receive_all mem (map (\<lambda>i. received (contents (pkts ! i)) (junk i)) (js @ [j])) [] mac_ptr =
      Some (replicate (length js) (Raise CW_ERROR_NEED_RESOURCE) @ [Ret m], [], mac') \<and>
    msg m = message_header seq 3398913 (length e) @ e \<and> offset m = 8 + length e"
proof -
  have es: "list_all well_formed [elem_msg t body]" "e = concat (map contents [elem_msg t body])" using e(1) by simp_all
  obtain pkts mac' m where p:
    "CWAssembleMessage mem mac fid garbage (pathMTU (wtp s)) seq 3398913 [elem_msg t body] [] 0 = Ret pkts"
    "length pkts = n" "list_all well_formed pkts"
    "receive_all mem (map (\<lambda>i. received (contents (pkts ! i)) (junk i)) (js @ [j])) [] mac_ptr =
      Some (replicate (length js) (Raise CW_ERROR_NEED_RESOURCE) @ [Ret m], [], mac')"
    "msg m = message_header seq 3398913 (length e) @ e" "offset m = 8 + length e"
    using elements_delivered [OF mem room fid es e(2,3) order, of mac garbage seq 3398913 0 junk] by blast
  let ?s = "s\<lparr>wtp := (wtp s)\<lparr> radiosInfo := rs', messages := Some pkts, messagesCount := length pkts \<rparr>\<rparr>"
  obtain s' where a: "CWACSendAcknowledgedPacket mem net 3398913 seq ?s = (Ret (), s')" "sent s' = sent s @ map contents pkts"
    "responseSeqNum (wtp s') = seq" "radiosInfo (wtp s') = rs'"
    using acknowledged_sent [OF mem net, of ?s pkts 3398913 seq] p(3) s(2,3) by auto
  have "wlan_command mem mac fid garbage net seq cmd s = (Ret (), command_done True s')"
    using cmd a(1) p(1) s(1) asm
    by (auto simp: wlan_command_def Let_def CWIEEEBindingGetIndexFromDevID_def update_info_eq [OF mem] split: prod.splits)
  moreover have "sent (command_done True s') = sent s @ map contents pkts" "interfaceCommandProgress (wtp (command_done True s'))"
    "responseSeqNum (wtp (command_done True s')) = seq" "radiosInfo (wtp (command_done True s')) = rs'"
    using a by (simp_all add: command_done_def)
  ultimately show ?thesis using p(2,4-6) by blast
qed

lemma assemble_add_wlan:
  assumes "ample mem" "has_iface rs i j" "wlan_ok (iface rs (nat i) (nat j))"
  shows "CWAssembleIEEEConfigurationRequest mem mac fid garbage PMTU seq CW_OP_ADD_WLAN i j rs =
    CWAssembleMessage mem mac fid garbage PMTU seq 3398913 [elem_msg 1024 (add_wlan_body (i, iface rs (nat i) (nat j)))] [] 0"
  using assms add_wlan.assemble_law [OF assms(1), where v = "(i, iface rs (nat i) (nat j))"]
  by (simp add: CWAssembleIEEEConfigurationRequest_def CWIEEEBindingGetIndexFromDevID_def Let_def ample_malloc
      del: add_wlan_body.simps)


lemma assemble_wlan_response:
  assumes "ample mem"
  shows "CWAssembleIEEEConfigurationResponse mem mac fid garbage PMTU seq c i j (Some a) =
    CWAssembleMessage mem mac fid garbage PMTU seq 3398914 [elem_msg 33 (be32 c), elem_msg 1026 (bssid_body i j a)] [] 0"
  using assms assigned_bssid.assemble_law [OF assms TrueI, where v = "(i, j, a)"]
  by (simp add: CWAssembleIEEEConfigurationResponse_def CWAssembleMsgElemResultCode_eq ample_malloc numeral_2_eq_2)

subsection \<open>A WLAN is added\<close>

text \<open>
  C5: Adding a WLAN, with memory and a driver that carries out what it is asked. The AC sends what it notes of the interface; the request, delivered in any order, switches
  the WTP's interface, which was a station, to an access point with the SSID and the capabilities ESS and short slot
  time, the tunnel mode as a signed byte; the answer, delivered in any order, makes the AC note the BSSID, which is the
  address of the WTP's interface, and that the interface is an access point. The request has started the WTP's
  echo timer again.
\<close>

theorem wlan_agreement:
  assumes mem: "ample mem" and net: "\<forall>k. net k" and room: "mac_room mac_ptr" "mac_room mac_ptr'" and fid: "0 \<le> fid" "fid < 65536"
    and cmd: "cmd = \<lparr> typeCmd = CW_OP_ADD_WLAN, cmd_radioID = i, cmd_wlanID = 0, cmd_ssid = ssid \<rparr>"
      "length ssid < 65000" "0 \<notin> set ssid" "i < 5"
    and s: "has_iface (radiosInfo (wtp s)) i 0" "0 \<le> cur_id (timers s)" "cur_id (timers s) < INT_MAX"
    and w: "\<forall>c. drv c" "has_iface rs i 0" "typeInterface (iface rs (nat i) 0) = CW_STA_MODE"
      "phy_frequencyList (gWTPPhyInfo (rs ! nat i)) \<noteq> None" "nat i < length bss" "bss ! nat i \<noteq> None"
    and echo: "echo_ready x"
    and n: "n = control_fragments (pathMTU (wtp s)) (35 + length ssid)" "n' = control_fragments PMTU 28"
    and order: "insert j (set js) = {..<n}" "j \<notin> set js" "insert j' (set js') = {..<n'}" "j' \<notin> set js'"
  shows "\<exists>s' pkts mac1 m rs' answer x' mac2 m' rs''.
    wlan_command mem mac fid garbage net seq cmd s = (Ret (), s') \<and>
    sent s' = sent s @ map contents pkts \<and> length pkts = n \<and> interfaceCommandProgress (wtp s') \<and>
    receive_all mem (map (\<lambda>i. received (contents (pkts ! i)) (junk i)) (js @ [j])) [] mac_ptr =
      Some (replicate (length js) (Raise CW_ERROR_NEED_RESOURCE) @ [Ret m], [], mac1) \<and>
    wlan_request mem drv a cap stack mac fid garbage PMTU (msg m) (int (offset m)) seq rs bss x =
      (Some (Ret answer, rs', bss[nat i := Some True]), x') \<and> echo_restarted x x' \<and> length answer = n' \<and>
    SSID (iface rs' (nat i) 0) = ssid \<and> capabilityBit (iface rs' (nat i) 0) = 1025 \<and>
    typeInterface (iface rs' (nat i) 0) = CW_AP_MODE \<and> BSSID (iface rs' (nat i) 0) = Some (eth_bytes a) \<and>
    frameTunnelMode (iface rs' (nat i) 0) =
      sint (word_of_int (frameTunnelMode (iface (radiosInfo (wtp s)) (nat i) 0)) :: byte) \<and>
    receive_all mem (map (\<lambda>i. received (contents (answer ! i)) (junk i)) (js' @ [j'])) [] mac_ptr' =
      Some (replicate (length js') (Raise CW_ERROR_NEED_RESOURCE) @ [Ret m'], [], mac2) \<and>
    CWParseIEEEConfigurationResponseMessage mem (msg m') (int (offset m') - 8) (radiosInfo (wtp s')) = Some (Ret (), rs'') \<and>
    SSID (iface rs'' (nat i) 0) = ssid \<and> typeInterface (iface rs'' (nat i) 0) = CW_AP_MODE \<and>
    BSSID (iface rs'' (nat i) 0) = Some (eth_bytes a)"
proof -
  let ?rs = "radiosInfo (wtp s)" let ?f = "iface ?rs (nat i) 0"
  let ?w = "wlan_info ?f 0 ssid (frameTunnelMode ?f)" let ?rs1 = "set_iface (nat i) 0 ?w ?rs"
  let ?b = "add_wlan_body (i, ?w)" let ?ap = "ap_interface a cap ?w (iface rs (nat i) 0)"
  let ?rs2 = "set_iface (nat i) 0 ?ap rs"
  define e where "e = elem_bytes 1024 ?b"
  have ok: "wlan_ok ?w" by (rule wlan_info_ok [OF cmd(2)])
  have at: "nat i < length ?rs" "0 < length (interfaces (gWTPPhyInfo (?rs ! nat i)))"
    "nat i < length rs" "0 < length (interfaces (gWTPPhyInfo (rs ! nat i)))" "0 \<le> i" "i mod 256 = i"
    using s(1) w(2) cmd(4) by (simp_all add: has_iface_def)
  then have w1: "iface ?rs1 (nat i) 0 = ?w" "has_iface ?rs1 i 0" using s(1) by simp_all
  have le: "length e = 27 + length ssid" unfolding e_def add_wlan_length [OF ok] by (simp add: wlan_info_def)
  have cmds: "typeCmd cmd = CW_OP_ADD_WLAN \<longrightarrow> has_iface ?rs (cmd_radioID cmd) (cmd_wlanID cmd)"
    "?rs1 = (if typeCmd cmd = CW_OP_ADD_WLAN
             then let i = nat (cmd_radioID cmd); j = nat (cmd_wlanID cmd); w = iface ?rs i j in
                  set_iface i j (wlan_info w (cmd_wlanID cmd) (cmd_ssid cmd) (frameTunnelMode w)) ?rs else ?rs)"
    using s(1) by (simp_all add: cmd(1) Let_def)
  have "wlan_ok (iface ?rs1 (nat i) (nat 0))" using ok w1(1) by simp
  from assemble_add_wlan [OF mem w1(2) this, of mac fid garbage "pathMTU (wtp s)" seq]
  have asm: "CWAssembleIEEEConfigurationRequest mem mac fid garbage (pathMTU (wtp s)) seq (typeCmd cmd) (cmd_radioID cmd)
      (cmd_wlanID cmd) ?rs1 = CWAssembleMessage mem mac fid garbage (pathMTU (wtp s)) seq 3398913 [elem_msg 1024 ?b] [] 0"
    by (simp add: cmd(1) w1(1) del: add_wlan_body.simps)
  have n1: "length e < 65500" "n = control_fragments (pathMTU (wtp s)) (8 + length e)" using le cmd(2) n(1) by simp_all
  obtain s' pkts mac1 m where c: "wlan_command mem mac fid garbage net seq cmd s = (Ret (), s')"
    "sent s' = sent s @ map contents pkts" "length pkts = n" "interfaceCommandProgress (wtp s')" "radiosInfo (wtp s') = ?rs1"
    "receive_all mem (map (\<lambda>i. received (contents (pkts ! i)) (junk i)) (js @ [j])) [] mac_ptr =
      Some (replicate (length js) (Raise CW_ERROR_NEED_RESOURCE) @ [Ret m], [], mac1)"
    "msg m = message_header seq 3398913 (length e) @ e" "offset m = 8 + length e"
    using wlan_command_sent [OF mem net room(1) fid cmds asm refl s(2,3) e_def n1 order(1,2), of junk] by blast
  have parsed: "CWParseIEEEConfigurationRequestMessage mem stack (msg m) (int (offset m)) seq = Some (Ret (add_wlan_view (i, ?w)))"
    unfolding c(7,8) by (rule parse_add_wlan [OF mem ok e_def])
  have saved: "CWSaveIEEEConfigurationRequestMessage mem drv a cap (add_wlan_view (i, ?w)) rs bss =
      Some (Ret True, ?rs2, bss[nat i := Some True])"
    by (rule save_add_wlan [OF mem w(1,2) cmd(4) w(3-6)]) (simp add: wlan_info_def)
  let ?es = "[elem_msg 33 (be32 0), elem_msg 1026 (bssid_body i 0 a)]"
  define e' where "e' = concat (map contents ?es)"
  have le': "length e' = 20" "list_all well_formed ?es" by (simp_all add: e'_def)
  obtain answer mac2 m' where r: "CWAssembleMessage mem mac fid garbage PMTU seq 3398914 ?es [] 0 = Ret answer" "length answer = n'"
    "receive_all mem (map (\<lambda>i. received (contents (answer ! i)) (junk i)) (js' @ [j'])) [] mac_ptr' =
      Some (replicate (length js') (Raise CW_ERROR_NEED_RESOURCE) @ [Ret m'], [], mac2)"
    "msg m' = message_header seq 3398914 (length e') @ e'" "offset m' = 8 + length e'"
    using elements_delivered [OF mem room(2) fid le'(2) e'_def _ _ order(3,4), of PMTU mac garbage seq 3398914 0 junk] le'(1) n(2)
    by auto
  have ap: "iface ?rs2 (nat i) 0 = ?ap" "has_iface ?rs2 i 0" using at w(2) by simp_all
  let ?rs3 = "set_iface (nat i) 0 (?w\<lparr> BSSID := Some (eth_bytes a), typeInterface := CW_AP_MODE \<rparr>) ?rs1"
  obtain x' where x: "CWResetEchoRequestRetransmit mem x = Ret (True, x')" "echo_restarted x x'"
    using reset_restarts [OF mem echo] by blast
  have "wlan_request_message mem drv a cap stack mac fid garbage PMTU (msg m) (int (offset m)) seq rs bss =
      Some (Ret answer, ?rs2, bss[nat i := Some True])"
    using parsed saved r(1) ap at(5,6) cmd(4) assemble_wlan_response [OF mem, of mac fid garbage PMTU seq 0 i 0 a]
    by (simp add: wlan_request_message_def Let_def CWIEEEBindingGetIndexFromDevID_def ample_malloc [OF mem] wlan_info_def)
       (simp add: ap_interface_def)
  then have answered: "wlan_request mem drv a cap stack mac fid garbage PMTU (msg m) (int (offset m)) seq rs bss x =
      (Some (Ret answer, ?rs2, bss[nat i := Some True]), x')" by (simp add: wlan_request_def x(1))
  have noted: "CWParseIEEEConfigurationResponseMessage mem (msg m') (int (offset m') - 8) (radiosInfo (wtp s')) = Some (Ret (), ?rs3)"
    using parse_wlan_response [OF mem w1(2) cmd(4), of e' 0 a seq] r(4,5) c(5) w1(1) by (simp add: e'_def)
  have "takeWhile (\<lambda>b. b \<noteq> 0) ssid = ssid" using cmd(3) by (auto simp: takeWhile_eq_all_conv)
  then have wtp_side: "SSID (iface ?rs2 (nat i) 0) = ssid" "capabilityBit (iface ?rs2 (nat i) 0) = 1025"
    "typeInterface (iface ?rs2 (nat i) 0) = CW_AP_MODE" "BSSID (iface ?rs2 (nat i) 0) = Some (eth_bytes a)"
    "frameTunnelMode (iface ?rs2 (nat i) 0) = sint (word_of_int (frameTunnelMode ?f) :: byte)"
    unfolding ap(1) by (simp_all add: ap_interface_def wlan_info_def)
  have "iface ?rs3 (nat i) 0 = ?w\<lparr> BSSID := Some (eth_bytes a), typeInterface := CW_AP_MODE \<rparr>"
    using at(1,2) w1(2) by (intro iface_set_iface) (simp_all add: has_iface_def)
  then have ac_side: "SSID (iface ?rs3 (nat i) 0) = ssid" "typeInterface (iface ?rs3 (nat i) 0) = CW_AP_MODE"
    "BSSID (iface ?rs3 (nat i) 0) = Some (eth_bytes a)" by (simp_all add: wlan_info_def)
  show ?thesis
    by (intro exI conjI, rule c(1), rule c(2), rule c(3), rule c(4), rule c(6), rule answered, rule x(2), rule r(2), (rule wtp_side)+,
        rule r(3), rule noted, (rule ac_side)+)
qed

definition ex_ap_radio :: CWWTPRadioInfoValues where
  "ex_ap_radio = ex_radio\<lparr>gWTPPhyInfo := (gWTPPhyInfo ex_radio)\<lparr>interfaces := [ex_wlan]\<rparr>\<rparr>"

lemma ex_ap_session:
  "has_iface (radiosInfo (wtp (ex_session [ex_ap_radio]))) 0 0" "0 \<le> cur_id (timers (ex_session [ex_ap_radio]))"
  "cur_id (timers (ex_session [ex_ap_radio])) < INT_MAX" "has_iface [ex_ap_radio] 0 0"
  "typeInterface (iface [ex_ap_radio] (nat 0) 0) = CW_STA_MODE"
  "phy_frequencyList (gWTPPhyInfo ([ex_ap_radio] ! nat 0)) \<noteq> None" "pathMTU (wtp (ex_session [ex_ap_radio])) = 1400"
  by (simp_all add: ex_session_def has_iface_def ex_ap_radio_def iface_def ex_wlan_def ex_radio_def)

theorem wlan_agreement_witness:
  "\<exists>s' pkts mac1 m rs' answer x mac2 m' rs''.
    wlan_command (\<lambda>_. True) no_mac 7 0 (\<lambda>_. True) 9
      \<lparr> typeCmd = CW_OP_ADD_WLAN, cmd_radioID = 0, cmd_wlanID = 0, cmd_ssid = [65, 66] \<rparr> (ex_session [ex_ap_radio]) = (Ret (), s') \<and>
    receive_all (\<lambda>_. True) (map (\<lambda>i. received (contents (pkts ! i)) []) [0]) [] None = Some ([Ret m], [], mac1) \<and>
    wlan_request (\<lambda>_. True) (\<lambda>_. True) (Eth 1 2 3 4 5 6) [] ElementExchange.ex_request no_mac 7 0 1400 (msg m) (int (offset m)) 9 [ex_ap_radio] [Some False] ex_echo =
      (Some (Ret answer, rs', [Some True]), x) \<and>
    receive_all (\<lambda>_. True) (map (\<lambda>i. received (contents (answer ! i)) []) [0]) [] None = Some ([Ret m'], [], mac2) \<and>
    CWParseIEEEConfigurationResponseMessage (\<lambda>_. True) (msg m') (int (offset m') - 8) (radiosInfo (wtp s')) = Some (Ret (), rs'') \<and>
    BSSID (iface rs'' 0 0) = Some [1, 2, 3, 4, 5, 6]"
proof -
  have k: "1 = control_fragments (pathMTU (wtp (ex_session [ex_ap_radio]))) (35 + length [65 :: byte, 66])" "1 = control_fragments 1400 28"
    by (simp_all add: ex_ap_session(7) control_fragments_def control_pmtu_def fragment_payload_def fragments_num_def)
  have all: "insert 0 (set []) = {..<1 :: nat}" by auto
  have m: "mac_room None" by (simp add: mac_room_def)
  have others: "\<forall>k. (\<lambda>_. True) (k :: nat)" "(0 :: int) \<le> 7" "(7 :: int) < 65536" "length [65 :: byte, 66] < 65000"
    "0 \<notin> set [65 :: byte, 66]" "(0 :: int) < 5" "\<forall>c. (\<lambda>_. True) (c :: driver_call)" "nat 0 < length [Some False]"
    "[Some False] ! nat 0 \<noteq> None" "(0 :: nat) \<notin> set []" by simp_all
  have e: "nat 0 = 0" "[Some False][0 := Some True] = [Some True]" "eth_bytes (Eth 1 2 3 4 5 6) = [1, 2, 3, 4, 5, 6]" by simp_all
  show ?thesis
    using wlan_agreement [where mac = no_mac and garbage = 0 and seq = 9 and junk = "\<lambda>_. []" and stack = ElementExchange.ex_request and cap = "[]" and
        a = "Eth 1 2 3 4 5 6" and PMTU = 1400, OF ample_all others(1) m m others(2,3) refl others(4-6) ex_ap_session(1-3) others(7) ex_ap_session(4-6)
        others(8,9) ex_echo_ready(1) k all others(10) all others(10)]
    unfolding append_Nil list.size replicate_0 e by blast
qed

subsection \<open>A WLAN is deleted\<close>



end
