(* ===== verification/ACRun.thy ===== *)
theory ACRun
  imports WLANConfiguration StationTable
begin

section \<open>The Run state of the AC: ACRunState.c\<close>

text \<open>
  The control messages of the Run state: what the AC reads of a request of the WTP or of a response to a request of its own,
  what it stores, and the answers. The other half of the handler, which takes data packets (frames of stations and
  statistics), is not modelled.
\<close>

subsection \<open>Is the message expected\<close>

text \<open>The message type, the sequence number, the length of the elements, and the message at its first element. A
  response must have the sequence number of the last request; its type is not compared.\<close>

definition CWACParseGenericRunMessage ::
  "CWWTPManager \<Rightarrow> CWProtocolMessage \<Rightarrow> (32 word \<times> byte \<times> int \<times> CWProtocolMessage) res" where
  "CWACParseGenericRunMessage w m =
     res_bind (CWParseControlHeader m) (\<lambda>(c, m).
     let len = uint (msgElemsLen c - 3) in
     if messageTypeValue c mod 2 = 1 then Ret (messageTypeValue c, seqNum c, len, m)
     else if responseSeqNum w \<noteq> seqNum c then Raise CW_ERROR_INVALID_FORMAT
     else Ret (messageTypeValue c, seqNum c, len, m))"

text \<open>The loop over the elements, and the test that they end where they should.\<close>

definition parse_all ::
  "('s \<Rightarrow> 16 word \<Rightarrow> CWProtocolMessage \<Rightarrow> int \<Rightarrow> ('s \<times> CWProtocolMessage) res) \<Rightarrow> int \<Rightarrow> 's \<Rightarrow> CWProtocolMessage \<Rightarrow> 's res option" where
  "parse_all branch len s m =
     run_bind (parse_elements branch (offset m) len s m) (\<lambda>(s, m').
       Some (if int (offset m') - int (offset m) \<noteq> len then Raise CW_ERROR_INVALID_FORMAT else Ret s))"

subsection \<open>Responses\<close>

record CWProtocolVendorSpecificValues =
  vendorPayloadType :: "16 word"
  payload :: "byte list option"

text \<open>The result code starts as what the local variable held.\<close>

definition update_response_branch ::
  "memory \<Rightarrow> 32 word \<times> CWProtocolVendorSpecificValues option \<Rightarrow> 16 word \<Rightarrow> CWProtocolMessage \<Rightarrow> int \<Rightarrow>
   ((32 word \<times> CWProtocolVendorSpecificValues option) \<times> CWProtocolMessage) res" where
  "update_response_branch mem s elemType m elemLen =
     (if elemType = 33 then res_bind (CWProtocolRetrieve32 m) (\<lambda>(c, m). Ret ((c, snd s), m))
      else if elemType = 58 then
        if \<not> malloc_ok mem 16 then Raise CW_ERROR_OUT_OF_MEMORY
        else res_bind (CWProtocolRetrieve32 m) (\<lambda>(c, m).
          res_bind (CWProtocolRetrieve16 m) (\<lambda>(t, m).
          if t \<noteq> 57 then Raise CW_ERROR_INVALID_FORMAT
          else res_bind (CWProtocolRetrieve16 m) (\<lambda>(t, m).
            if t = 1 then
              res_bind (CWProtocolRetrieve32 m) (\<lambda>(n, m).
              if sint n = 0 then Ret ((c, Some \<lparr> vendorPayloadType = t, payload = None \<rparr>), m)
              else res_bind (CWProtocolRetrieveStr mem m (sint n)) (\<lambda>(p, m).
                   Ret ((c, Some \<lparr> vendorPayloadType = t, payload = p \<rparr>), m)))
            else if t = 2 then
              res_bind (CWProtocolRetrieve32 m) (\<lambda>(n, m).
              if sint n \<le> 0 then Raise CW_ERROR_INVALID_FORMAT
              else res_bind (CWProtocolRetrieveRawBytes mem m (sint n)) (\<lambda>(p, m).
                   Ret ((c, Some \<lparr> vendorPayloadType = t, payload = p \<rparr>), m)))
            else Raise CW_ERROR_INVALID_FORMAT)))
      else Raise CW_ERROR_INVALID_FORMAT)"

definition CWParseConfigurationUpdateResponseMessage ::
  "memory \<Rightarrow> 32 word \<Rightarrow> CWProtocolMessage \<Rightarrow> int \<Rightarrow> (32 word \<times> CWProtocolVendorSpecificValues option) res option" where
  "CWParseConfigurationUpdateResponseMessage mem code m len =
     parse_all (update_response_branch mem) len (code, None) m"

definition result_code_branch ::
  "32 word \<Rightarrow> 16 word \<Rightarrow> CWProtocolMessage \<Rightarrow> int \<Rightarrow> (32 word \<times> CWProtocolMessage) res" where
  "result_code_branch s elemType m elemLen =
     (if elemType = 33 then CWProtocolRetrieve32 m else Raise CW_ERROR_INVALID_FORMAT)"

definition CWParseClearConfigurationResponseMessage ::
  "32 word \<Rightarrow> CWProtocolMessage \<Rightarrow> int \<Rightarrow> 32 word res option" where
  "CWParseClearConfigurationResponseMessage code m len = parse_all result_code_branch len code m"

definition CWParseStationConfigurationResponseMessage ::
  "32 word \<Rightarrow> CWProtocolMessage \<Rightarrow> int \<Rightarrow> 32 word res option" where
  "CWParseStationConfigurationResponseMessage code m len = parse_all result_code_branch len code m"

text \<open>
  What the thread shares with the rest of the AC: the bytes written to the sockets of the applications, and the table of
  stations.
\<close>

record run_globals =
  appSocket :: "(int \<times> byte list) list"
  avlTree :: nodeAVL

text \<open>
  The answer for the application: the WTP's index, the result code and the payload. A payload of the type UCI is a
  string; of the type WUM it is one byte, or four for a version, whatever its length is. \<open>Raise CW_ERROR_NONE\<close> is
  \<^verbatim>\<open>CW_FALSE\<close> from a socket that could not be written.
\<close>

definition CWSaveConfigurationUpdateResponseMessage ::
  "memory \<Rightarrow> bool \<Rightarrow> int \<Rightarrow> 32 word \<Rightarrow> CWProtocolVendorSpecificValues option \<Rightarrow> WTPQosValues list option \<Rightarrow> ac_session \<Rightarrow>
   CWWTPProtocolManager \<Rightarrow> run_globals \<Rightarrow> unit res \<times> ac_session \<times> CWWTPProtocolManager \<times> run_globals" where
  "CWSaveConfigurationUpdateResponseMessage mem written WTPIndex resultCode vendValues qosValues s pm g =
     (case vendValues of
        None \<Rightarrow>
          (case CWBindingSaveConfigurationUpdateResponse resultCode qosValues (pm_qosValues pm) of
             Ret aux \<Rightarrow> (Ret (), s, pm\<lparr>pm_qosValues := aux\<rparr>, g)
           | Raise e \<Rightarrow> (Raise e, s, pm, g)
           | Fault \<Rightarrow> (Fault, s, pm, g))
      | Some v \<Rightarrow>
          let bytes = (case payload v of None \<Rightarrow> [] | Some p \<Rightarrow> p); uci = vendorPayloadType v = 1;
              payloadSize = (if uci then length (takeWhile (\<lambda>b. b \<noteq> 0) bytes)
                             else if hd bytes = 2 then 4 else 1);
              close = (\<not> uci \<and> hd bytes = 8 \<and> resultCode = 0);
              response = be32 (word_of_int WTPIndex) @ be32 resultCode @ be32 (word_of_nat payloadSize) @
                         take payloadSize bytes;
              s' = (if close then s\<lparr>wtp := (wtp s)\<lparr>isRequestClose := True\<rparr>\<rparr> else s)
          in if \<not> uci \<and> bytes = [] then (Fault, s, pm, g)
             else if \<not> malloc_ok mem (12 + int payloadSize) then (Ret (), s', pm, g)
             else if length bytes < payloadSize then (Fault, s, pm, g)
             else if \<not> written then (Raise CW_ERROR_NONE, s, pm, g)
             else (Ret (), s', pm, g\<lparr>appSocket := appSocket g @ [(applicationIndex (wtp s), response)]\<rparr>))"

subsection \<open>Requests\<close>

definition transfer_branch ::
  "memory \<Rightarrow> (int \<times> int \<times> byte list option) option \<Rightarrow> 16 word \<Rightarrow> CWProtocolMessage \<Rightarrow> int \<Rightarrow>
   ((int \<times> int \<times> byte list option) option \<times> CWProtocolMessage) res" where
  "transfer_branch mem s elemType m elemLen =
     (if elemType = 13 then res_bind (CWParseMsgElemDataTransferData mem m elemLen) (\<lambda>(v, m). Ret (Some v, m))
      else Raise CW_ERROR_INVALID_FORMAT)"

definition CWParseWTPDataTransferRequestMessage ::
  "memory \<Rightarrow> CWProtocolMessage \<Rightarrow> int \<Rightarrow> (int \<times> int \<times> byte list option) option res option" where
  "CWParseWTPDataTransferRequestMessage mem m len = parse_all (transfer_branch mem) len None m"

definition CWParseEchoRequestMessage :: "CWProtocolMessage \<Rightarrow> int \<Rightarrow> unit res option" where
  "CWParseEchoRequestMessage m len = parse_all (\<lambda>s t m l. Raise CW_ERROR_INVALID_FORMAT) len () m"

text \<open>The first pass over the elements of a WTP Event Request counts the statistics, the second reads them.\<close>

record CWProtocolWTPEventRequestValues =
  ev_errorReport :: "CWDecryptErrorReportValues option"
  duplicateIPv4 :: "WTPDuplicateIPv4 option"
  duplicateIPv6 :: "WTPDuplicateIPv6 option"
  WTPOperationalStatistics :: "WTPOperationalStatisticsValues list"
  WTPRadioStatistics :: "(int \<times> WTPRadioStatisticsInfo) list"
  ev_WTPRebootStatistics :: "WTPRebootStatisticsInfo option"
  WTPStaDeleteInfo :: "CWMsgElemDataDeleteStation option"

definition no_event :: CWProtocolWTPEventRequestValues where
  "no_event = \<lparr> ev_errorReport = None, duplicateIPv4 = None, duplicateIPv6 = None, WTPOperationalStatistics = [],
     WTPRadioStatistics = [], ev_WTPRebootStatistics = None, WTPStaDeleteInfo = None \<rparr>"

definition event_branch ::
  "memory \<Rightarrow> CWProtocolWTPEventRequestValues \<times> nat \<times> nat \<Rightarrow> 16 word \<Rightarrow> CWProtocolMessage \<Rightarrow> int \<Rightarrow>
   ((CWProtocolWTPEventRequestValues \<times> nat \<times> nat) \<times> CWProtocolMessage) res" where
  "event_branch mem = (\<lambda>(v, k, i) elemType m elemLen.
     if elemType = 15 then
       if \<not> malloc_ok mem 16 then Raise CW_ERROR_OUT_OF_MEMORY
       else res_bind (CWParseMsgElemDecryptErrorReport mem m elemLen) (\<lambda>(x, m). Ret ((v\<lparr>ev_errorReport := Some x\<rparr>, k, i), m))
     else if elemType = 21 then
       if \<not> malloc_ok mem 24 \<or> \<not> malloc_ok mem 6 then Raise CW_ERROR_OUT_OF_MEMORY
       else res_bind (CWParseMsgElemDuplicateIPv4Address mem m elemLen) (\<lambda>(x, m). Ret ((v\<lparr>duplicateIPv4 := Some x\<rparr>, k, i), m))
     else if elemType = 22 then
       if \<not> malloc_ok mem 40 \<or> \<not> malloc_ok mem 6 then Raise CW_ERROR_OUT_OF_MEMORY
       else res_bind (CWParseMsgElemDuplicateIPv6Address mem m elemLen) (\<lambda>(x, m). Ret ((v\<lparr>duplicateIPv6 := Some x\<rparr>, k, i), m))
     else if elemType = 46 then Ret ((v, Suc k, i), m\<lparr>offset := offset m + nat elemLen\<rparr>)
     else if elemType = 47 then Ret ((v, k, Suc i), m\<lparr>offset := offset m + nat elemLen\<rparr>)
     else if elemType = 48 then
       if \<not> malloc_ok mem 32 then Raise CW_ERROR_OUT_OF_MEMORY
       else res_bind (CWParseWTPRebootStatistics m elemLen) (\<lambda>(x, m). Ret ((v\<lparr>ev_WTPRebootStatistics := Some x\<rparr>, k, i), m))
     else if elemType = 18 then
       if \<not> malloc_ok mem 12 then Raise CW_ERROR_OUT_OF_MEMORY
       else res_bind (CWParseWTPDeleteStation mem m elemLen) (\<lambda>(x, m). Ret ((v\<lparr>WTPStaDeleteInfo := Some x\<rparr>, k, i), m))
     else Raise CW_ERROR_INVALID_FORMAT)"

definition event_read_branch ::
  "nat \<Rightarrow> nat \<Rightarrow> CWProtocolWTPEventRequestValues \<Rightarrow> 16 word \<Rightarrow> CWProtocolMessage \<Rightarrow> int \<Rightarrow>
   (CWProtocolWTPEventRequestValues \<times> CWProtocolMessage) res" where
  "event_read_branch nk ni v elemType m elemLen =
     (if elemType = 46 then
        if length (WTPOperationalStatistics v) < nk
        then res_bind (CWParseWTPOperationalStatistics m elemLen) (\<lambda>(x, m).
               Ret (v\<lparr>WTPOperationalStatistics := WTPOperationalStatistics v @ [x]\<rparr>, m))
        else Fault
      else if elemType = 47 then
        if length (WTPRadioStatistics v) < ni
        then res_bind (CWParseWTPRadioStatistics m elemLen) (\<lambda>(x, m).
               Ret (v\<lparr>WTPRadioStatistics := WTPRadioStatistics v @ [x]\<rparr>, m))
        else Fault
      else Ret (v, m\<lparr>offset := offset m + nat elemLen\<rparr>))"

definition CWParseWTPEventRequestMessage ::
  "memory \<Rightarrow> CWProtocolMessage \<Rightarrow> int \<Rightarrow> CWProtocolWTPEventRequestValues res option" where
  "CWParseWTPEventRequestMessage mem m len =
     run_bind (parse_all (event_branch mem) len (no_event, 0, 0) m) (\<lambda>(v, nk, ni).
     if \<not> malloc_ok mem (12 * int nk) \<or> \<not> malloc_ok mem (28 * int ni) then Some (Raise CW_ERROR_OUT_OF_MEMORY)
     else run_bind (parse_elements (event_read_branch nk ni) (offset m) len v m) (\<lambda>(v, m'). Some (Ret v)))"

text \<open>
  The loops over the AC's radios. The radio of the \<open>i\<close>-th radio statistics is taken from the \<open>i\<close>-th operational
  statistics, and where there is none, from past the end of their array.
\<close>

definition each_radio ::
  "int \<Rightarrow> (CWWTPRadioInfoValues \<Rightarrow> CWWTPRadioInfoValues) \<Rightarrow> CWWTPRadioInfoValues list \<Rightarrow> CWWTPRadioInfoValues list res" where
  "each_radio n f rs =
     (if int (length rs) < n then Fault else Ret (map f (take (nat n) rs) @ drop (nat n) rs))"

fun save_operational ::
  "int \<Rightarrow> WTPOperationalStatisticsValues list \<Rightarrow> CWWTPRadioInfoValues list \<Rightarrow> CWWTPRadioInfoValues list res" where
  "save_operational n [] rs = Ret rs"
| "save_operational n (x # xs) rs =
     res_bind (each_radio n (\<lambda>r. if radio_radioID r = opstat_radioID x
         then r\<lparr> radio_TxQueueLevel := opstat_TxQueueLevel x,
                 radio_wirelessLinkFramesPerSec := opstat_wirelessLinkFramesPerSec x \<rparr> else r) rs)
       (save_operational n xs)"

fun save_statistics ::
  "int \<Rightarrow> WTPOperationalStatisticsValues list \<Rightarrow> (int \<times> WTPRadioStatisticsInfo) list \<Rightarrow> CWWTPRadioInfoValues list \<Rightarrow>
   CWWTPRadioInfoValues list res" where
  "save_statistics n os [] rs = Ret rs"
| "save_statistics n os (x # xs) rs =
     res_bind (if n \<le> 0 then Ret rs
               else case os of
                 [] \<Rightarrow> Fault
               | o' # _ \<Rightarrow> each_radio n (\<lambda>r. if radio_radioID r = opstat_radioID o'
                             then r\<lparr>radio_statistics := snd x\<rparr> else r) rs)
       (save_statistics n (tl os) xs)"

definition CWSaveWTPEventRequestMessage ::
  "CWProtocolWTPEventRequestValues \<Rightarrow> CWWTPRadioInfoValues list \<Rightarrow> CWWTPProtocolManager \<Rightarrow> nodeAVL \<Rightarrow>
   (CWWTPRadioInfoValues list \<times> CWWTPProtocolManager \<times> nodeAVL) res" where
  "CWSaveWTPEventRequestMessage v rs pm t =
     (if ev_WTPRebootStatistics v \<noteq> None \<and> pm_WTPRebootStatistics pm = None then Fault
      else
        let pm = (case ev_WTPRebootStatistics v of None \<Rightarrow> pm | Some x \<Rightarrow> pm\<lparr>pm_WTPRebootStatistics := Some (Some x)\<rparr>) in
        res_bind (save_operational (radioCount pm) (WTPOperationalStatistics v) rs) (\<lambda>rs.
        res_bind (save_statistics (radioCount pm) (WTPOperationalStatistics v) (WTPRadioStatistics v) rs) (\<lambda>rs.
        case WTPStaDeleteInfo v of
          None \<Rightarrow> Ret (rs, pm, t)
        | Some d \<Rightarrow> (case AVLdeleteNode t (eth_of_bytes (del_staAddr d)) (del_radioID d) of
                       None \<Rightarrow> Fault
                     | Some t \<Rightarrow> Ret (rs, pm, t)))))"

definition CWParseChangeStateEventRequestMessage2 ::
  "memory \<Rightarrow> CWProtocolMessage \<Rightarrow> int \<Rightarrow> CWProtocolChangeStateEventRequestValues res option" where
  "CWParseChangeStateEventRequestMessage2 mem m len =
     (if \<not> malloc_ok mem 24 then Some (Raise CW_ERROR_OUT_OF_MEMORY)
      else run_bind (parse_all count_branch len (0, None) m) (\<lambda>(n, code).
        if \<not> malloc_ok mem (12 * int n) then Some (Raise CW_ERROR_OUT_OF_MEMORY)
        else run_bind (parse_elements (read_branch n) (offset m) len [] m) (\<lambda>(rs, m').
          Some (Ret \<lparr> radioOperationalInfo = rs, cs_resultCode = code \<rparr>))))"

text \<open>The radios beyond the number of radios are not looked at.\<close>

definition CWSaveChangeStateEventRequestMessage2 ::
  "CWProtocolChangeStateEventRequestValues \<Rightarrow> int \<Rightarrow> CWWTPRadioInfoValues list \<Rightarrow> (bool \<times> CWWTPRadioInfoValues list) res" where
  "CWSaveChangeStateEventRequestMessage2 v n rs =
     (if radioOperationalInfo v = [] then Ret (True, rs)
      else if int (length rs) < n then Fault
      else case CWSaveChangeStateEventRequestMessage v (take (nat n) rs) of (rs', ok) \<Rightarrow> Ret (ok, rs' @ drop (nat n) rs))"

subsection \<open>Answers\<close>

definition CWAssembleEchoResponse ::
  "memory \<Rightarrow> eth \<Rightarrow> int \<Rightarrow> 32 word \<Rightarrow> int \<Rightarrow> byte \<Rightarrow> CWProtocolMessage list res" where
  "CWAssembleEchoResponse mem mac fid garbage PMTU seq = CWAssembleMessage mem mac fid garbage PMTU seq 14 [] [] 0"

definition CWAssembleWTPDataTransferResponse ::
  "memory \<Rightarrow> eth \<Rightarrow> int \<Rightarrow> 32 word \<Rightarrow> int \<Rightarrow> byte \<Rightarrow> CWProtocolMessage list res" where
  "CWAssembleWTPDataTransferResponse mem mac fid garbage PMTU seq = CWAssembleMessage mem mac fid garbage PMTU seq 22 [] [] 0"

definition CWAssembleWTPEventResponse ::
  "memory \<Rightarrow> eth \<Rightarrow> int \<Rightarrow> 32 word \<Rightarrow> int \<Rightarrow> byte \<Rightarrow> CWProtocolMessage list res" where
  "CWAssembleWTPEventResponse mem mac fid garbage PMTU seq = CWAssembleMessage mem mac fid garbage PMTU seq 10 [] [] 0"

definition CWAssembleUnrecognizedMessageResponse ::
  "memory \<Rightarrow> eth \<Rightarrow> int \<Rightarrow> 32 word \<Rightarrow> int \<Rightarrow> byte \<Rightarrow> 32 word \<Rightarrow> CWProtocolMessage list res" where
  "CWAssembleUnrecognizedMessageResponse mem mac fid garbage PMTU seq type =
     (if \<not> malloc_ok mem message_size then Raise CW_ERROR_OUT_OF_MEMORY
      else res_bind (CWAssembleMsgElemResultCode mem 19) (\<lambda>e.
           CWAssembleMessage mem mac fid garbage PMTU seq type [e] [] 0))"

subsection \<open>The timer of a silent WTP\<close>

abbreviation gCWNeighborDeadInterval :: int where "gCWNeighborDeadInterval \<equiv> 8"

definition CWStartNeighborDeadTimer :: "memory \<Rightarrow> ac_session \<Rightarrow> unit res \<times> ac_session" where
  "CWStartNeighborDeadTimer mem s =
     (case CWTimerRequest mem gCWNeighborDeadInterval (thread (wtp s)) (currentTimer (wtp s))
             CW_CRITICAL_TIMER_EXPIRED_SIGNAL (timers s) of
        (r, n, q) \<Rightarrow> (r, s\<lparr> wtp := (wtp s)\<lparr>currentTimer := n\<rparr>, timers := q \<rparr>))"

definition CWStopNeighborDeadTimer :: "ac_session \<Rightarrow> ac_session" where
  "CWStopNeighborDeadTimer s = s\<lparr>timers := CWTimerCancel (currentTimer (wtp s)) (timers s)\<rparr>"

definition CWRestartNeighborDeadTimer :: "memory \<Rightarrow> ac_session \<Rightarrow> unit res \<times> ac_session" where
  "CWRestartNeighborDeadTimer mem s = CWStartNeighborDeadTimer mem (CWStopNeighborDeadTimer s)"

subsection \<open>The handler\<close>

text \<open>
  The steps the branches share. A response ends the retransmission, and every accepted message starts the timer of a
  silent WTP again; without memory for it the thread closes itself, or ends (\<open>or_close_thread\<close>).
\<close>

definition still_alive :: "last_error \<Rightarrow> memory \<Rightarrow> ac_session \<Rightarrow> unit res \<times> ac_session" where
  "still_alive old_error mem s =
     (case CWRestartNeighborDeadTimer mem s of (r, s) \<Rightarrow> (or_close_thread old_error r, s))"

definition response_received :: "last_error \<Rightarrow> memory \<Rightarrow> ac_session \<Rightarrow> unit res \<times> ac_session" where
  "response_received old_error mem s =
     (case CWACStopRetransmission s of
        Ret s \<Rightarrow> still_alive old_error mem s
      | _ \<Rightarrow> (Fault, s))"

definition interface_complete :: "ac_session \<Rightarrow> ac_session" where
  "interface_complete s =
     (if interfaceCommandProgress (wtp s)
      then s\<lparr>wtp := (wtp s)\<lparr> interfaceResult := 1, interfaceCommandProgress := False \<rparr>\<rparr> else s)"

definition running_again :: "ac_session \<Rightarrow> ac_session" where
  "running_again s = s\<lparr>wtp := (wtp s)\<lparr> currentState := CW_ENTER_RUN, subState := CW_WAITING_REQUEST \<rparr>\<rparr>"

text \<open>The messages are local: those of the session, and their number, are left alone.\<close>

definition send_answer ::
  "(nat \<Rightarrow> bool) \<Rightarrow> CWProtocolMessage list res \<Rightarrow> ac_session \<Rightarrow> unit res \<times> ac_session" where
  "send_answer net answer s =
     (case answer of
        Raise e \<Rightarrow> (Raise e, s)
      | Fault \<Rightarrow> (Fault, s)
      | Ret ms \<Rightarrow> (case send_fragments net ms (sent s) of
                     (Ret _, out) \<Rightarrow> (Ret (), running_again (s\<lparr>sent := out\<rparr>))
                   | (r, out) \<Rightarrow> (r, s\<lparr>sent := out\<rparr>)))"

type_synonym run_result = "(unit res \<times> ac_session \<times> CWWTPProtocolManager \<times> run_globals) option"

text \<open>A step that may fail, and a parse function with what follows it.\<close>

definition after ::
  "unit res \<times> ac_session \<Rightarrow> CWWTPProtocolManager \<Rightarrow> run_globals \<Rightarrow> (ac_session \<Rightarrow> run_result) \<Rightarrow> run_result" where
  "after rs pm g f = (case rs of (Ret _, s) \<Rightarrow> f s | (r, s) \<Rightarrow> Some (r, s, pm, g))"

definition parsed ::
  "'a res option \<Rightarrow> ac_session \<Rightarrow> CWWTPProtocolManager \<Rightarrow> run_globals \<Rightarrow> ('a \<Rightarrow> run_result) \<Rightarrow> run_result" where
  "parsed r s pm g f =
     (case r of
        None \<Rightarrow> None
      | Some (Ret x) \<Rightarrow> f x
      | Some (Raise e) \<Rightarrow> Some (Raise e, s, pm, g)
      | Some Fault \<Rightarrow> Some (Fault, s, pm, g))"

definition finished :: "CWWTPProtocolManager \<Rightarrow> run_globals \<Rightarrow> unit res \<times> ac_session \<Rightarrow> run_result" where
  "finished pm g rs = Some (fst rs, snd rs, pm, g)"

definition update_response ::
  "last_error \<Rightarrow> memory \<Rightarrow> bool \<Rightarrow> int \<Rightarrow> 32 word \<Rightarrow> WTPQosValues list option \<Rightarrow> CWProtocolMessage \<Rightarrow> int \<Rightarrow> ac_session \<Rightarrow>
   CWWTPProtocolManager \<Rightarrow> run_globals \<Rightarrow> run_result" where
  "update_response old_error mem written WTPIndex code qosValues m len s pm g =
     parsed (CWParseConfigurationUpdateResponseMessage mem code m len) s pm g (\<lambda>(code, v).
     after (response_received old_error mem s) pm g (\<lambda>s.
     case CWSaveConfigurationUpdateResponseMessage mem written WTPIndex code v qosValues s pm g of
       (Fault, s, pm, g) \<Rightarrow> Some (Fault, s, pm, g)
     | (_, s, pm, g) \<Rightarrow> Some (Ret (), running_again (interface_complete s), pm, g)))"

definition change_state_request ::
  "last_error \<Rightarrow> memory \<Rightarrow> eth \<Rightarrow> int \<Rightarrow> 32 word \<Rightarrow> (nat \<Rightarrow> bool) \<Rightarrow> byte \<Rightarrow> CWProtocolMessage \<Rightarrow> int \<Rightarrow> ac_session \<Rightarrow>
   CWWTPProtocolManager \<Rightarrow> run_globals \<Rightarrow> run_result" where
  "change_state_request old_error mem mac fid garbage net seq m len s pm g =
     parsed (CWParseChangeStateEventRequestMessage2 mem m len) s pm g (\<lambda>v.
     after (still_alive old_error mem s) pm g (\<lambda>s.
     case CWSaveChangeStateEventRequestMessage2 v (radioCount pm) (radiosInfo (wtp s)) of
       Ret (ok, rs) \<Rightarrow>
         let s = s\<lparr>wtp := (wtp s)\<lparr>radiosInfo := rs\<rparr>\<rparr> in
         if \<not> ok then Some (Raise CW_ERROR_NONE, s, pm, g)
         else finished pm g (send_answer net (CWAssembleChangeStateEventResponse mem mac fid garbage (pathMTU (wtp s)) seq) s)
     | _ \<Rightarrow> Some (Fault, s, pm, g)))"

definition event_request ::
  "last_error \<Rightarrow> memory \<Rightarrow> eth \<Rightarrow> int \<Rightarrow> 32 word \<Rightarrow> (nat \<Rightarrow> bool) \<Rightarrow> byte \<Rightarrow> CWProtocolMessage \<Rightarrow> int \<Rightarrow> ac_session \<Rightarrow>
   CWWTPProtocolManager \<Rightarrow> run_globals \<Rightarrow> run_result" where
  "event_request old_error mem mac fid garbage net seq m len s pm g =
     parsed (CWParseWTPEventRequestMessage mem m len) s pm g (\<lambda>v.
     after (still_alive old_error mem s) pm g (\<lambda>s.
     case CWSaveWTPEventRequestMessage v (radiosInfo (wtp s)) pm (avlTree g) of
       Ret (rs, pm, t) \<Rightarrow>
         let s = s\<lparr>wtp := (wtp s)\<lparr>radiosInfo := rs\<rparr>\<rparr> in
         finished pm (g\<lparr>avlTree := t\<rparr>)
           (send_answer net (CWAssembleWTPEventResponse mem mac fid garbage (pathMTU (wtp s)) seq) s)
     | _ \<Rightarrow> Some (Fault, s, pm, g)))"

definition wlan_response ::
  "last_error \<Rightarrow> memory \<Rightarrow> CWProtocolMessage \<Rightarrow> int \<Rightarrow> ac_session \<Rightarrow> CWWTPProtocolManager \<Rightarrow> run_globals \<Rightarrow> run_result" where
  "wlan_response old_error mem m len s pm g =
     (case CWParseIEEEConfigurationResponseMessage mem (msg m) len (radiosInfo (wtp s)) of
        None \<Rightarrow> None
      | Some (r, rs) \<Rightarrow>
          let s = s\<lparr>wtp := (wtp s)\<lparr>radiosInfo := rs\<rparr>\<rparr> in
          if r \<noteq> Ret () then Some (r, s, pm, g)
          else after (response_received old_error mem s) pm g (\<lambda>s. Some (Ret (), running_again (interface_complete s), pm, g)))"

text \<open>\<open>code\<close> is what the local variable for the result code held.\<close>

definition run_message ::
  "last_error \<Rightarrow> memory \<Rightarrow> eth \<Rightarrow> int \<Rightarrow> 32 word \<Rightarrow> (nat \<Rightarrow> bool) \<Rightarrow> bool \<Rightarrow> int \<Rightarrow> 32 word \<Rightarrow> WTPQosValues list option \<Rightarrow>
   32 word \<Rightarrow> byte \<Rightarrow> CWProtocolMessage \<Rightarrow> int \<Rightarrow> ac_session \<Rightarrow> CWWTPProtocolManager \<Rightarrow> run_globals \<Rightarrow> run_result" where
  "run_message old_error mem mac fid garbage net written WTPIndex code qosValues type seq m len s pm g =
     (if type = 8 then update_response old_error mem written WTPIndex code qosValues m len s pm g
      else if type = 11 then change_state_request old_error mem mac fid garbage net seq m len s pm g
      else if type = 13 then
        parsed (CWParseEchoRequestMessage m len) s pm g (\<lambda>_. after (still_alive old_error mem s) pm g (\<lambda>s.
        finished pm g (send_answer net (CWAssembleEchoResponse mem mac fid garbage (pathMTU (wtp s)) seq) s)))
      else if type = 26 then
        parsed (CWParseStationConfigurationResponseMessage code m len) s pm g (\<lambda>_.
        after (response_received old_error mem s) pm g (\<lambda>s. Some (Ret (), running_again s, pm, g)))
      else if type = 24 then
        parsed (CWParseClearConfigurationResponseMessage code m len) s pm g (\<lambda>_.
        after (response_received old_error mem s) pm g (\<lambda>s. Some (Ret (), running_again (interface_complete s), pm, g)))
      else if type = 3398914 then wlan_response old_error mem m len s pm g
      else if type = 21 then
        parsed (CWParseWTPDataTransferRequestMessage mem m len) s pm g (\<lambda>_. after (still_alive old_error mem s) pm g (\<lambda>s.
        finished pm g (send_answer net (CWAssembleWTPDataTransferResponse mem mac fid garbage (pathMTU (wtp s)) seq) s)))
      else if type = 9 then event_request old_error mem mac fid garbage net seq m len s pm g
      else finished pm g
             (send_answer net (CWAssembleUnrecognizedMessageResponse mem mac fid garbage (pathMTU (wtp s)) seq (type + 1)) s))"

definition ACEnterRun_control ::
  "last_error \<Rightarrow> memory \<Rightarrow> eth \<Rightarrow> int \<Rightarrow> 32 word \<Rightarrow> (nat \<Rightarrow> bool) \<Rightarrow> bool \<Rightarrow> int \<Rightarrow> 32 word \<Rightarrow> WTPQosValues list option \<Rightarrow>
   CWProtocolMessage \<Rightarrow> ac_session \<Rightarrow> CWWTPProtocolManager \<Rightarrow> run_globals \<Rightarrow> run_result" where
  "ACEnterRun_control old_error mem mac fid garbage net written WTPIndex code qosValues m s pm g =
     parsed (Some (CWACParseGenericRunMessage (wtp s) (m\<lparr>offset := 0\<rparr>))) s pm g (\<lambda>(type, seq, len, m).
       run_message old_error mem mac fid garbage net written WTPIndex code qosValues type seq m len s pm g)"

subsection \<open>The loops of the handler end\<close>

lemma retrieve_forward:
  "CWProtocolRetrieveStr mem m n = Ret (x, m') \<Longrightarrow> offset m \<le> offset m'"
  "CWProtocolRetrieveRawBytes mem m n = Ret (x, m') \<Longrightarrow> offset m \<le> offset m'"
  "CWProtocolRetrieve32 m = Ret (y, m') \<Longrightarrow> offset m \<le> offset m'"
  "CWProtocolRetrieve16 m = Ret (z, m') \<Longrightarrow> offset m \<le> offset m'"
  by (auto simp: CWProtocolRetrieveStr_def CWProtocolRetrieveRawBytes_def CWProtocolRetrieve32_def CWProtocolRetrieve16_def
      retrieve_def res_simps split: if_splits)

interpretation update_response: forward_branch "update_response_branch mem" for mem
proof (unfold_locales, goal_cases)
  case (1 s t m l s' m')
  then show ?case
    by (auto simp: update_response_branch_def res_simps split: if_splits
        dest!: retrieve_forward intro: order_trans)
qed

interpretation result_code_only: forward_branch result_code_branch
  by unfold_locales (auto simp: result_code_branch_def split: if_splits dest!: retrieve_forward)

interpretation transfer: forward_branch "transfer_branch mem" for mem
  by unfold_locales
     (auto simp: transfer_branch_def CWParseMsgElemDataTransferData_def res_simps split: if_splits dest!: framed_offset)

interpretation no_elements: forward_branch "\<lambda>s t m l. Raise CW_ERROR_INVALID_FORMAT"
  by unfold_locales simp

interpretation event_count: forward_branch "event_branch mem" for mem
  by unfold_locales
     (auto simp: event_branch_def CWParseMsgElemDecryptErrorReport_def CWParseMsgElemDuplicateIPv4Address_def
       CWParseMsgElemDuplicateIPv6Address_def CWParseWTPRebootStatistics_def CWParseWTPDeleteStation_def res_simps
       split: if_splits dest!: framed_offset)

interpretation event_read: forward_branch "event_read_branch nk ni" for nk ni
  by unfold_locales
     (auto simp: event_read_branch_def CWParseWTPOperationalStatistics_def CWParseWTPRadioStatistics_def res_simps
       split: if_splits dest!: framed_offset)

lemma parse_all_end: "(\<And>start s. parse_elements branch start len s m \<noteq> None) \<Longrightarrow> parse_all branch len s m \<noteq> None"
  by (auto simp: parse_all_def run_bind_None_iff simp del: not_None_eq)

lemma wlan_response_forward:
  "wlan_response_branch mem s t m l = (Ret m', s') \<Longrightarrow> 0 \<le> l \<Longrightarrow> offset m \<le> offset m'"
  by (auto simp: wlan_response_branch_def CWParseResultCode_def CWParseACAssignedWTPBSSID_def res_simps Let_def
      split: if_splits res.splits prod.splits dest!: framed_offset)

lemma parse_storing_returns:
  assumes "\<And>s t m l m' s'. branch s t m l = (Ret m', s') \<Longrightarrow> 0 \<le> l \<Longrightarrow> offset m \<le> offset m'"
  shows "parse_storing branch start len s m \<noteq> None"
proof (induction "nat (len - (int (offset m) - int start))" arbitrary: s m rule: less_induct)
  case less
  show ?case
  proof (cases "int (offset m) - int start < len \<and> (\<exists>x. CWParseFormatMsgElem m = Ret x)")
    case True
    then obtain t l m1 where e: "CWParseFormatMsgElem m = Ret ((t, l), m1)" by (metis surj_pair)
    then have o1: "offset m + 4 \<le> offset m1" by (auto simp: CWParseFormatMsgElem_def res_simps dest!: retrieve_offset)
    obtain r s1 where b: "branch s t m1 (uint l) = (r, s1)" by (meson surj_pair)
    have "parse_storing branch start len s1 m2 \<noteq> None" if "r = Ret m2" for m2
    proof (rule less)
      have "offset m1 \<le> offset m2" using assms b that by simp
      then show "nat (len - (int (offset m2) - int start)) < nat (len - (int (offset m) - int start))" using o1 True by simp
    qed
    then show ?thesis using True e b by (subst parse_storing.simps) (cases r; simp)
  next
    case False
    then show ?thesis by (subst parse_storing.simps) (auto split: res.splits)
  qed
qed

lemma run_parsers_end:
  "CWParseConfigurationUpdateResponseMessage mem code m len \<noteq> None"
  "CWParseClearConfigurationResponseMessage code m len \<noteq> None"
  "CWParseStationConfigurationResponseMessage code m len \<noteq> None"
  "CWParseWTPDataTransferRequestMessage mem m len \<noteq> None"
  "CWParseEchoRequestMessage m len \<noteq> None"
  by (simp_all only: CWParseConfigurationUpdateResponseMessage_def CWParseClearConfigurationResponseMessage_def
      CWParseStationConfigurationResponseMessage_def CWParseWTPDataTransferRequestMessage_def CWParseEchoRequestMessage_def)
     (rule parse_all_end, rule update_response.elements_end result_code_only.elements_end transfer.elements_end
       no_elements.elements_end)+

lemma run_two_pass_end:
  "CWParseWTPEventRequestMessage mem m len \<noteq> None" "CWParseChangeStateEventRequestMessage2 mem m len \<noteq> None"
  using parse_all_end [OF event_count.elements_end, where m = m and len = len] parse_all_end [OF cs_count.elements_end, where m = m and len = len]
  by (auto simp: CWParseWTPEventRequestMessage_def CWParseChangeStateEventRequestMessage2_def run_bind_None_iff
      event_read.elements_end cs_read.elements_end simp del: not_None_eq split: prod.splits if_splits)

lemma wlan_response_end: "CWParseIEEEConfigurationResponseMessage mem bytes len rs \<noteq> None"
  using parse_storing_returns [of "wlan_response_branch mem", OF wlan_response_forward]
  by (auto simp: CWParseIEEEConfigurationResponseMessage_def simp del: not_None_eq split: res.splits prod.splits)

lemma parsed_None: "parsed r s pm g f \<noteq> None" if "r \<noteq> None" "\<And>x. f x \<noteq> None"
  using that by (auto simp: parsed_def simp del: not_None_eq split: option.splits res.splits)

lemma after_None: "after rs pm g f \<noteq> None" if "\<And>s. f s \<noteq> None"
  using that by (auto simp: after_def simp del: not_None_eq split: prod.splits res.splits)

lemma finished_None: "finished pm g rs \<noteq> None"
  by (simp add: finished_def)

lemmas handler_returns = parsed_None after_None finished_None run_parsers_end run_two_pass_end

lemma branches_return:
  "update_response old_error mem written i code qv m len s pm g \<noteq> None"
  "change_state_request old_error mem mac fid garbage net seq m len s pm g \<noteq> None"
  "event_request old_error mem mac fid garbage net seq m len s pm g \<noteq> None"
  "wlan_response old_error mem m len s pm g \<noteq> None"
proof -
  show "update_response old_error mem written i code qv m len s pm g \<noteq> None"
    unfolding update_response_def by (intro handler_returns) (auto simp del: not_None_eq split: prod.splits res.splits intro!: handler_returns)
  show "change_state_request old_error mem mac fid garbage net seq m len s pm g \<noteq> None"
    unfolding change_state_request_def
    by (intro handler_returns) (auto simp: Let_def simp del: not_None_eq split: prod.splits res.splits intro!: handler_returns)
  show "event_request old_error mem mac fid garbage net seq m len s pm g \<noteq> None"
    unfolding event_request_def by (intro handler_returns) (auto simp: Let_def simp del: not_None_eq split: prod.splits res.splits intro!: handler_returns)
  show "wlan_response old_error mem m len s pm g \<noteq> None"
    using wlan_response_end [of mem "msg m" len "radiosInfo (wtp s)"]
    by (auto simp: wlan_response_def Let_def simp del: not_None_eq split: option.splits intro!: after_None)
qed

text \<open>
  The loops of the handler end, whatever the bytes of the message are, for every state of the session, every memory and
  every network: it delivers a result or crashes.
\<close>

theorem run_handler_returns:
  "ACEnterRun_control old_error mem mac fid garbage net written WTPIndex code qosValues m s pm g \<noteq> None"
proof -
  have "run_message old_error mem mac fid garbage net written WTPIndex code qosValues type seq x len s pm g \<noteq> None" for type seq x len
    unfolding run_message_def
    by (simp only: split: if_split) (intro conjI impI handler_returns branches_return option.distinct)
  then have "case x of (type, seq, len, m) \<Rightarrow>
      run_message old_error mem mac fid garbage net written WTPIndex code qosValues type seq m len s pm g \<noteq> None" for x
    by (cases x) simp
  then show ?thesis
    unfolding ACEnterRun_control_def by (intro parsed_None) (simp_all add: case_prod_unfold)
qed

subsection \<open>An expected message\<close>

lemma run_header:
  assumes "msg m = message_header seq type (length e) @ e" "length e < 65536" "type mod 2 = 0 \<longrightarrow> responseSeqNum w = seq"
  shows "CWACParseGenericRunMessage w (m\<lparr>offset := 0\<rparr>) =
    Ret (type, seq, int (length e), rmsg (message_header seq type (length e)) e (data_msgType m))"
proof -
  let ?c = "\<lparr> messageTypeValue = type, seqNum = seq, msgElemsLen = word_of_nat (length e) \<rparr>"
  have "uint (word_of_nat (length e) :: 16 word) = int (length e)"
    using assms(2) by (simp add: unsigned_of_nat take_bit_nat_eq_self_iff)
  moreover have "m\<lparr>offset := 0\<rparr> = rmsg [] (control_header_bytes ?c @ e) (data_msgType m)"
    using assms(1) by (simp add: rmsg_def message_header_def)
  ultimately show ?thesis
    using assms(3) by (simp add: CWACParseGenericRunMessage_def CWParseControlHeader_eq message_header_def Let_def)
qed

lemma cancel_keeps_id [simp]: "cur_id (CWTimerCancel n q) = cur_id q"
  by (auto simp: CWTimerCancel_def timer_rem_def timer_dequeue_def timer_start_def Let_def split: option.splits list.splits nat.splits)

lemma still_alive_ok:
  assumes "ample mem" "0 \<le> cur_id (timers s)" "cur_id (timers s) < INT_MAX"
  shows "\<exists>q. still_alive old_error mem s = (Ret (), s\<lparr> wtp := (wtp s)\<lparr>currentTimer := cur_id (timers s)\<rparr>, timers := q \<rparr>) \<and>
    (\<exists>t \<in> set (queue q). tid t = cur_id (timers s) \<and>
       handler_arg t = Some \<lparr> requestedThread = thread (wtp s), signalToRaise = CW_CRITICAL_TIMER_EXPIRED_SIGNAL \<rparr>)"
proof -
  let ?q = "CWTimerCancel (currentTimer (wtp s)) (timers s)"
  obtain q where "CWTimerRequest mem gCWNeighborDeadInterval (thread (wtp s)) (currentTimer (wtp s))
      CW_CRITICAL_TIMER_EXPIRED_SIGNAL ?q = (Ret (), cur_id ?q, q)" "\<exists>t \<in> set (queue q). tid t = cur_id ?q \<and>
       handler_arg t = Some \<lparr> requestedThread = thread (wtp s), signalToRaise = CW_CRITICAL_TIMER_EXPIRED_SIGNAL \<rparr>"
    using CWTimerRequest_ok [OF assms(1), of gCWNeighborDeadInterval ?q "thread (wtp s)" "currentTimer (wtp s)"
        CW_CRITICAL_TIMER_EXPIRED_SIGNAL] assms(2,3) by auto
  then show ?thesis
    by (intro exI [of _ q])
       (simp add: still_alive_def CWRestartNeighborDeadTimer_def CWStartNeighborDeadTimer_def CWStopNeighborDeadTimer_def)
qed

lemma response_received_ok:
  assumes "ample mem" "0 \<le> cur_id (timers s)" "cur_id (timers s) < INT_MAX" "messagesCount (wtp s) = 0"
  shows "\<exists>s'. response_received old_error mem s = (Ret (), s') \<and> \<not> isRetransmitting (wtp s') \<and> radiosInfo (wtp s') = radiosInfo (wtp s) \<and>
    interfaceCommandProgress (wtp s') = interfaceCommandProgress (wtp s) \<and> sent s' = sent s"
proof (cases "isRetransmitting (wtp s)")
  case True
  let ?s = "s\<lparr> wtp := (wtp s)\<lparr> isRetransmitting := False, responseType := UNUSED_MSG_TYPE, responseSeqNum := 0, messages := None \<rparr>,
               timers := CWTimerCancel (currentPacketTimer (wtp s)) (timers s) \<rparr>"
  have "CWACStopRetransmission s = Ret ?s" using True assms(4) by (simp add: CWACStopRetransmission_def Let_def)
  then show ?thesis using still_alive_ok [OF assms(1), of ?s old_error] assms(2,3) by (auto simp: response_received_def)
next
  case False
  then have "CWACStopRetransmission s = Ret s" by (simp add: CWACStopRetransmission_def)
  then show ?thesis using still_alive_ok [OF assms(1-3), of old_error] False by (auto simp: response_received_def)
qed

subsection \<open>A refusal counts as done\<close>

text \<open>What the WTP refuses: a WLAN beyond its only interface, a radio beyond the fifth, an interface that is an access
  point already.\<close>

definition wlan_refused :: "ACInterfaceRequestInfo \<Rightarrow> CWWTPRadioInfoValues list \<Rightarrow> bool" where
  "wlan_refused v rs \<longleftrightarrow> req_operation v = CW_OP_ADD_WLAN \<and>
     (1 \<le> req_wlanID v \<or> 5 \<le> req_radioID v \<or>
      has_iface rs (req_radioID v) (req_wlanID v) \<and>
      typeInterface (iface rs (nat (req_radioID v)) (nat (req_wlanID v))) \<noteq> CW_STA_MODE)"

lemma refused_answer:
  assumes "ample mem" "CWParseIEEEConfigurationRequestMessage mem stack bytes len seq = Some (Ret v)" "wlan_refused v rs" "echo_ready x"
  shows "\<exists>x'. wlan_request mem drv a cap stack mac fid garbage PMTU bytes len seq rs bss x =
    (Some (CWAssembleMessage mem mac fid garbage PMTU seq 3398914 [elem_msg 33 (be32 3), no_message] [] 0, rs, bss), x') \<and>
    echo_restarted x x'"
proof -
  have "CWSaveIEEEConfigurationRequestMessage mem drv a cap v rs bss = Some (Ret False, rs, bss)"
    using assms(3) by (auto simp: wlan_refused_def CWSaveIEEEConfigurationRequestMessage_def CWIEEEBindingGetIndexFromDevID_def Let_def)
  then have "wlan_request_message mem drv a cap stack mac fid garbage PMTU bytes len seq rs bss =
    Some (CWAssembleMessage mem mac fid garbage PMTU seq 3398914 [elem_msg 33 (be32 3), no_message] [] 0, rs, bss)"
    using assms(1,2) by (simp add: wlan_request_message_def CWAssembleIEEEConfigurationResponse_def CWAssembleMsgElemResultCode_eq
        ample_malloc numeral_2_eq_2)
  then show ?thesis using reset_restarts [OF assms(1,4)] by (auto simp: wlan_request_def)
qed

lemma parse_wlan_code:
  assumes "e = elem_bytes 33 (be32 c)"
  shows "CWParseIEEEConfigurationResponseMessage mem (message_header seq 3398914 (length e) @ e) (int (length e)) rs =
    Some (Ret (), rs)"
proof -
  let ?h = "message_header seq 3398914 (length e)"
  have l: "length e = 8" using assms by simp
  have "parse_storing (wlan_response_branch mem) 8 8 rs (rmsg ?h (elem_bytes 33 (be32 c) @ []) None) =
      parse_storing (wlan_response_branch mem) 8 8 rs (rmsg (?h @ elem_bytes 33 (be32 c)) [] None)"
    using result_code.parse_law [OF ample_all TrueI, where rest = "[]" and x = None and v = c and bs = "?h @ be16 33 @ be16 4"]
    by (intro parse_storing_step) (simp_all add: wlan_response_branch_def elem_bytes_def)
  also have "\<dots> = Some (Ret (rmsg (?h @ elem_bytes 33 (be32 c)) [] None), rs)" by (rule parse_storing_end) simp
  finally show ?thesis
    using l assms by (simp add: CWParseIEEEConfigurationResponseMessage_def parse_message_header_eq)
qed

text \<open>
  C9: A request to add a WLAN that the WTP refuses changes nothing on the WTP but its echo timer, which
  starts again; the WTP answers with the result code 3, failure. The answer, delivered in any order, is taken by the AC's session that waits for it as if the WLAN had been added: the
  retransmission ends, the application is told that its command has been executed, and the AC's radios stay as they are.
\<close>

theorem refused_wlan_done:
  assumes mem: "ample mem" and room: "mac_room mac_ptr" and fid: "0 \<le> fid" "fid < 65536"
    and w: "CWParseIEEEConfigurationRequestMessage mem stack bytes len seq = Some (Ret v)" "wlan_refused v rs"
    and s: "responseSeqNum (wtp s) = seq" "interfaceCommandProgress (wtp s)" "messagesCount (wtp s) = 0"
      "0 \<le> cur_id (timers s)" "cur_id (timers s) < INT_MAX"
    and echo: "echo_ready x"
    and n: "n = control_fragments PMTU 16" and order: "insert j (set js) = {..<n}" "j \<notin> set js"
  shows "\<exists>answer x' mac' m s'.
    wlan_request mem drv a cap stack mac fid garbage PMTU bytes len seq rs bss x = (Some (Ret answer, rs, bss), x') \<and>
    echo_restarted x x' \<and> length answer = n \<and>
    receive_all mem (map (\<lambda>i. received (contents (answer ! i)) (junk i)) (js @ [j])) [] mac_ptr =
      Some (replicate (length js) (Raise CW_ERROR_NEED_RESOURCE) @ [Ret m], [], mac') \<and>
    ACEnterRun_control old_error mem ac_mac fid' garbage' net written WTPIndex code qosValues m s pm g = Some (Ret (), s', pm, g) \<and>
    interfaceResult (wtp s') = 1 \<and> \<not> interfaceCommandProgress (wtp s') \<and> \<not> isRetransmitting (wtp s') \<and>
    radiosInfo (wtp s') = radiosInfo (wtp s)"
proof -
  let ?es = "[elem_msg 33 (be32 3), no_message]"
  define e where "e = concat (map contents ?es)"
  have e: "e = elem_bytes 33 (be32 3)" "length e = 8" "list_all well_formed ?es" by (simp_all add: e_def)
  obtain answer mac' m where r: "CWAssembleMessage mem mac fid garbage PMTU seq 3398914 ?es [] 0 = Ret answer" "length answer = n"
    "receive_all mem (map (\<lambda>i. received (contents (answer ! i)) (junk i)) (js @ [j])) [] mac_ptr =
      Some (replicate (length js) (Raise CW_ERROR_NEED_RESOURCE) @ [Ret m], [], mac')"
    "msg m = message_header seq 3398914 (length e) @ e"
    using elements_delivered [OF mem room fid e(3) e_def _ _ order, of PMTU mac garbage seq 3398914 0 junk] e(2) n by auto
  have p: "CWACParseGenericRunMessage (wtp s) (m\<lparr>offset := 0\<rparr>) =
      Ret (3398914, seq, 8, rmsg (message_header seq 3398914 (length e)) e (data_msgType m))"
    using run_header [OF r(4)] s(1) e(2) by simp
  have q: "CWParseIEEEConfigurationResponseMessage mem (msg (rmsg (message_header seq 3398914 (length e)) e (data_msgType m))) 8 rs' =
      Some (Ret (), rs')" for rs'
    using parse_wlan_code [OF e(1), of mem seq rs'] e(2) by (simp add: rmsg_def)
  obtain s1 where t: "response_received old_error mem s = (Ret (), s1)" "\<not> isRetransmitting (wtp s1)" "radiosInfo (wtp s1) = radiosInfo (wtp s)"
    "interfaceCommandProgress (wtp s1)"
    using response_received_ok [OF mem s(4,5,3)] s(2) by auto
  have same: "s\<lparr>wtp := (wtp s)\<lparr>radiosInfo := radiosInfo (wtp s)\<rparr>\<rparr> = s" by simp
  have "ACEnterRun_control old_error mem ac_mac fid' garbage' net written WTPIndex code qosValues m s pm g =
      Some (Ret (), running_again (interface_complete s1), pm, g)"
    unfolding ACEnterRun_control_def p parsed_def run_message_def wlan_response_def option.case res.case prod.case q Let_def same
    using t(1) by (simp add: after_def)
  moreover have "interfaceResult (wtp (running_again (interface_complete s1))) = 1"
    "\<not> interfaceCommandProgress (wtp (running_again (interface_complete s1)))"
    "\<not> isRetransmitting (wtp (running_again (interface_complete s1)))"
    "radiosInfo (wtp (running_again (interface_complete s1))) = radiosInfo (wtp s)"
    using t by (simp_all add: running_again_def interface_complete_def)
  moreover obtain x' where "wlan_request mem drv a cap stack mac fid garbage PMTU bytes len seq rs bss x = (Some (Ret answer, rs, bss), x')"
    "echo_restarted x x'"
    using refused_answer [OF mem w echo, of drv a cap mac fid garbage PMTU bss] r(1) by auto
  ultimately show ?thesis using r(2,3) by blast
qed

text \<open>The second WLAN of a WTP with one interface.\<close>

theorem refused_wlan_done_witness:
  "\<exists>answer x mac' m s'.
    wlan_request (\<lambda>_. True) (\<lambda>_. True) no_mac [] ElementExchange.ex_request no_mac 7 0 1400
      (message_header 9 3398913 29 @ elem_bytes 1024 (add_wlan_body (0, ex_wlan))) 37 9 [ex_ap_radio] [Some False] ex_echo =
      (Some (Ret answer, [ex_ap_radio], [Some False]), x) \<and>
    receive_all (\<lambda>_. True) (map (\<lambda>i. received (contents (answer ! i)) []) [0]) [] None = Some ([Ret m], [], mac') \<and>
    ACEnterRun_control None (\<lambda>_. True) no_mac 7 0 (\<lambda>_. True) True 0 0 None m
      (ex_session []\<lparr>wtp := (wtp (ex_session []))\<lparr> responseSeqNum := 9, interfaceCommandProgress := True, messagesCount := 0 \<rparr>\<rparr>)
      ex_known \<lparr> appSocket = [], avlTree = NULL \<rparr> = Some (Ret (), s', ex_known, \<lparr> appSocket = [], avlTree = NULL \<rparr>) \<and>
    interfaceResult (wtp s') = 1"
proof -
  let ?e = "elem_bytes 1024 (add_wlan_body (0, ex_wlan))"
  let ?s = "ex_session []\<lparr>wtp := (wtp (ex_session []))\<lparr> responseSeqNum := 9, interfaceCommandProgress := True, messagesCount := 0 \<rparr>\<rparr>"
  have ok: "wlan_ok ex_wlan" by (simp add: wlan_ok_def ex_wlan_def)
  have l: "length ?e = 29" unfolding add_wlan_length [OF ok] by (simp add: ex_wlan_def)
  have p: "CWParseIEEEConfigurationRequestMessage (\<lambda>_. True) ElementExchange.ex_request (message_header 9 3398913 29 @ ?e) 37 9 =
      Some (Ret (add_wlan_view (0, ex_wlan)))"
    using parse_add_wlan [OF ample_all ok refl, of ElementExchange.ex_request 9 0] unfolding l by simp
  have r: "wlan_refused (add_wlan_view (0, ex_wlan)) [ex_ap_radio]" by (simp add: wlan_refused_def ex_wlan_def)
  have k: "1 = control_fragments 1400 16"
    by (simp add: control_fragments_def control_pmtu_def fragment_payload_def fragments_num_def)
  have all: "insert 0 (set []) = {..<1 :: nat}" by auto
  have m: "mac_room None" by (simp add: mac_room_def)
  have others: "(0 :: int) \<le> 7" "(7 :: int) < 65536" "(0 :: nat) \<notin> set []" "responseSeqNum (wtp ?s) = 9"
    "interfaceCommandProgress (wtp ?s)" "messagesCount (wtp ?s) = 0" "0 \<le> cur_id (timers ?s)" "cur_id (timers ?s) < INT_MAX"
    by (simp_all add: ex_session_def)
  show ?thesis
    using refused_wlan_done [where mac = no_mac and garbage = 0 and junk = "\<lambda>_. []" and drv = "\<lambda>_. True" and a = no_mac and cap = "[]"
        and bss = "[Some False]" and ac_mac = no_mac and fid' = 7 and garbage' = 0 and net = "\<lambda>_. True" and written = True and
        WTPIndex = 0 and code = 0 and qosValues = None and pm = ex_known and g = "\<lparr> appSocket = [], avlTree = NULL \<rparr>"
        and old_error = None, OF ample_all m others(1,2) p r others(4-8) ex_echo_ready(1) k all others(3)]
    unfolding append_Nil list.size replicate_0 by blast
qed

subsection \<open>An echo\<close>

text \<open>A message without elements, sent as an answer.\<close>

lemma empty_answer_sent:
  assumes "ample mem" "\<forall>k. net k" "mac_room mac_ptr" "0 \<le> fid" "fid < 65536" "n = control_fragments PMTU 8"
    and "insert j (set js) = {..<n}" "j \<notin> set js"
  shows "\<exists>pkts mac' m. send_answer net (CWAssembleMessage mem mac fid garbage PMTU seq type [] [] 0) s =
      (Ret (), running_again (s\<lparr>sent := sent s @ map contents pkts\<rparr>)) \<and> length pkts = n \<and>
    receive_all mem (map (\<lambda>i. received (contents (pkts ! i)) (junk i)) (js @ [j])) [] mac_ptr =
      Some (replicate (length js) (Raise CW_ERROR_NEED_RESOURCE) @ [Ret m], [], mac') \<and>
    msg m = message_header seq type 0 \<and> offset m = 8"
proof -
  have e: "list_all well_formed []" "[] = concat (map contents [])" "length ([] :: byte list) < 65500"
    "n = control_fragments PMTU (8 + length ([] :: byte list))" using assms(6) by simp_all
  obtain pkts mac' m where p: "CWAssembleMessage mem mac fid garbage PMTU seq type [] [] 0 = Ret pkts" "length pkts = n"
    "list_all well_formed pkts" "receive_all mem (map (\<lambda>i. received (contents (pkts ! i)) (junk i)) (js @ [j])) [] mac_ptr =
      Some (replicate (length js) (Raise CW_ERROR_NEED_RESOURCE) @ [Ret m], [], mac')"
    "msg m = message_header seq type 0" "offset m = 8"
    using elements_delivered [OF assms(1,3-5) e assms(7,8), of mac garbage seq type 0 junk] by auto
  have "send_answer net (CWAssembleMessage mem mac fid garbage PMTU seq type [] [] 0) s =
      (Ret (), running_again (s\<lparr>sent := sent s @ map contents pkts\<rparr>))"
    using p(1) send_fragments_ok [OF p(3) assms(2)] by (simp add: send_answer_def)
  with p show ?thesis by blast
qed

text \<open>The AC's answer to an Echo Request; and its timer of a silent WTP.\<close>

lemma echo_answered:
  assumes "ample mem" "\<forall>k. net k" "mac_room mac_ptr" "0 \<le> fid" "fid < 65536" "msg m = message_header seq 13 0"
    and "0 \<le> cur_id (timers s)" "cur_id (timers s) < INT_MAX" "n = control_fragments (pathMTU (wtp s)) 8"
    and "insert j (set js) = {..<n}" "j \<notin> set js"
  shows "\<exists>s' pkts mac' m'.
    ACEnterRun_control old_error mem mac fid garbage net written WTPIndex code qosValues m s pm g = Some (Ret (), s', pm, g) \<and>
    currentState (wtp s') = CW_ENTER_RUN \<and> sent s' = sent s @ map contents pkts \<and> length pkts = n \<and>
    (\<exists>t \<in> set (queue (timers s')). tid t = currentTimer (wtp s') \<and>
       CWHandleTimer_signal (handler_arg t) = Ret (thread (wtp s), CW_CRITICAL_TIMER_EXPIRED_SIGNAL)) \<and>
    receive_all mem (map (\<lambda>i. received (contents (pkts ! i)) (junk i)) (js @ [j])) [] mac_ptr =
      Some (replicate (length js) (Raise CW_ERROR_NEED_RESOURCE) @ [Ret m'], [], mac') \<and>
    msg m' = message_header seq 14 0 \<and> offset m' = 8"
proof -
  have h: "CWACParseGenericRunMessage (wtp s) (m\<lparr>offset := 0\<rparr>) =
      Ret (13, seq, 0, rmsg (message_header seq 13 0) [] (data_msgType m))"
    using run_header [of m seq 13 "[]" "wtp s"] assms(6) by simp
  have p: "CWParseEchoRequestMessage (rmsg (message_header seq 13 0) [] t) 0 = Some (Ret ())" for t
    by (simp add: CWParseEchoRequestMessage_def parse_all_def parse_elements_end)
  obtain q where q: "still_alive old_error mem s = (Ret (), s\<lparr> wtp := (wtp s)\<lparr>currentTimer := cur_id (timers s)\<rparr>, timers := q \<rparr>)"
    "\<exists>t \<in> set (queue q). tid t = cur_id (timers s) \<and>
       handler_arg t = Some \<lparr> requestedThread = thread (wtp s), signalToRaise = CW_CRITICAL_TIMER_EXPIRED_SIGNAL \<rparr>"
    using still_alive_ok [OF assms(1,7,8)] by blast
  let ?s = "s\<lparr> wtp := (wtp s)\<lparr>currentTimer := cur_id (timers s)\<rparr>, timers := q \<rparr>"
  obtain pkts mac' m' where a: "send_answer net (CWAssembleMessage mem mac fid garbage (pathMTU (wtp s)) seq 14 [] [] 0) ?s =
      (Ret (), running_again (?s\<lparr>sent := sent s @ map contents pkts\<rparr>))" "length pkts = n"
    "receive_all mem (map (\<lambda>i. received (contents (pkts ! i)) (junk i)) (js @ [j])) [] mac_ptr =
      Some (replicate (length js) (Raise CW_ERROR_NEED_RESOURCE) @ [Ret m'], [], mac')"
    "msg m' = message_header seq 14 0" "offset m' = 8"
    using empty_answer_sent [OF assms(1-5,9-11), of mac garbage seq 14 ?s junk] by auto
  let ?t = "running_again (?s\<lparr>sent := sent s @ map contents pkts\<rparr>)"
  have "ACEnterRun_control old_error mem mac fid garbage net written WTPIndex code qosValues m s pm g = Some (Ret (), ?t, pm, g)"
    using a(1) q(1) by (simp add: ACEnterRun_control_def parsed_def h run_message_def p after_def finished_def CWAssembleEchoResponse_def)
  moreover have "currentState (wtp ?t) = CW_ENTER_RUN" "sent ?t = sent s @ map contents pkts"
    "\<exists>t \<in> set (queue (timers ?t)). tid t = currentTimer (wtp ?t) \<and>
       CWHandleTimer_signal (handler_arg t) = Ret (thread (wtp s), CW_CRITICAL_TIMER_EXPIRED_SIGNAL)"
    using q(2) by (auto simp: running_again_def CWHandleTimer_signal_def)
  ultimately show ?thesis using a(2-5) by blast
qed

end
