(* ===== verification/WTPUpdate.thy ===== *)
theory WTPUpdate
  imports ACRun
begin

section \<open>Vendor payloads and the update of a WTP: CWVendorPayloadsAC.c, CWVendorPayloadsWTP.c\<close>

text \<open>
  A Configuration Update Request can carry a command for the UCI daemon of the WTP, or a message of the update
  of its software (WUM): the version is asked for, an update is announced with its size, the update package (CUP) comes in fragments
  of 4000 bytes that are stored in a file, and a commit starts the agent that installs it.
\<close>

subsection \<open>The payloads\<close>

text \<open>The fields of the WUM message are members of a union; a member is only read after it was written for the type at
  hand, so they are fields of a record here.\<close>

record CWVendorUciValues =
  uci_command :: byte
  commandArgs :: "byte list option"
  uci_response :: "byte list option"

record CWVendorWumValues =
  wum_type :: byte
  major_v :: byte
  minor_v :: byte
  revision_v :: byte
  pack_size :: "32 word"
  cup_seq_num :: "32 word"
  cup_fragment_size :: "32 word"
  cup :: "byte list option"

datatype vendor_values = UciValues CWVendorUciValues | WumValues CWVendorWumValues

abbreviation WTP_VERSION_REQUEST :: byte where "WTP_VERSION_REQUEST \<equiv> 1"
abbreviation WTP_UPDATE_REQUEST :: byte where "WTP_UPDATE_REQUEST \<equiv> 3"
abbreviation WTP_UPDATE_RESPONSE :: byte where "WTP_UPDATE_RESPONSE \<equiv> 4"
abbreviation WTP_CUP_FRAGMENT :: byte where "WTP_CUP_FRAGMENT \<equiv> 5"
abbreviation WTP_CUP_ACK :: byte where "WTP_CUP_ACK \<equiv> 6"
abbreviation WTP_COMMIT_UPDATE :: byte where "WTP_COMMIT_UPDATE \<equiv> 7"
abbreviation WTP_COMMIT_ACK :: byte where "WTP_COMMIT_ACK \<equiv> 8"
abbreviation WTP_CANCEL_UPDATE_REQUEST :: byte where "WTP_CANCEL_UPDATE_REQUEST \<equiv> 9"
abbreviation WTP_CANCEL_UPDATE_RESPONSE :: byte where "WTP_CANCEL_UPDATE_RESPONSE \<equiv> 10"

text \<open>A C string ends at its first zero.\<close>

definition c_string :: "byte list \<Rightarrow> byte list" where
  "c_string bs = takeWhile (\<lambda>b. b \<noteq> 0) bs"

subsection \<open>The request: AC\<close>

definition CWAssembleWTPVendorPayloadUCI :: "memory \<Rightarrow> vendor_values \<Rightarrow> CWProtocolMessage res" where
  "CWAssembleWTPVendorPayloadUCI mem v =
     (case v of
        UciValues u \<Rightarrow>
          (case commandArgs u of
             Some a \<Rightarrow>
               let s = c_string a in
               assemble_elem mem (7 + int (length s))
                 [Store16 1, Store8 (uci_command u), Store32 (word_of_nat (length s)), StoreStr s] 57
           | None \<Rightarrow> assemble_elem mem 7 [Store16 1, Store8 (uci_command u), Store32 0] 57)
      | WumValues w \<Rightarrow> Raise CW_ERROR_NONE)"

text \<open>The block of the package is freed once it is stored.\<close>

definition wum_block :: "CWVendorWumValues \<Rightarrow> int option" where
  "wum_block w =
     (if wum_type w = WTP_VERSION_REQUEST \<or> wum_type w = WTP_COMMIT_UPDATE \<or> wum_type w = WTP_CANCEL_UPDATE_REQUEST then Some 3
      else if wum_type w = WTP_UPDATE_REQUEST then Some 10
      else if wum_type w = WTP_CUP_FRAGMENT then Some (11 + uint (cup_fragment_size w))
      else None)"

definition wum_calls :: "CWVendorWumValues \<Rightarrow> store_call list" where
  "wum_calls w =
     [Store16 2, Store8 (wum_type w)] @
     (if wum_type w = WTP_UPDATE_REQUEST
      then [Store8 (major_v w), Store8 (minor_v w), Store8 (revision_v w), Store32 (pack_size w)]
      else if wum_type w = WTP_CUP_FRAGMENT
      then [Store32 (cup_seq_num w), Store32 (cup_fragment_size w),
            StoreRaw (case cup w of None \<Rightarrow> [] | Some bs \<Rightarrow> bs) (sint (cup_fragment_size w))]
      else [])"

definition CWAssembleWTPVendorPayloadWUM ::
  "memory \<Rightarrow> vendor_values \<Rightarrow> CWProtocolMessage res \<times> vendor_values" where
  "CWAssembleWTPVendorPayloadWUM mem v =
     (case v of
        UciValues u \<Rightarrow> (Raise CW_ERROR_NONE, v)
      | WumValues w \<Rightarrow>
          (case wum_block w of
             None \<Rightarrow> (Raise CW_ERROR_NONE, v)
           | Some n \<Rightarrow>
               if \<not> malloc_ok mem n then (Raise CW_ERROR_OUT_OF_MEMORY, v)
               else (assemble_elem mem n (wum_calls w) 57,
                     WumValues (if wum_type w = WTP_CUP_FRAGMENT then w\<lparr>cup := None\<rparr> else w))))"

text \<open>The kinds of update a command of the application can ask for.\<close>

datatype update_kind =
    CONFIG_UPDATE_REQ_QOS_ELEMENT_TYPE | CONFIG_UPDATE_REQ_OFDM_ELEMENT_TYPE
  | CONFIG_UPDATE_REQ_VENDOR_UCI_ELEMENT_TYPE | CONFIG_UPDATE_REQ_VENDOR_WUM_ELEMENT_TYPE

text \<open>What the application has left in the session: \<^verbatim>\<open>qosValues\<close>, \<^verbatim>\<open>ofdmValues\<close> and \<^verbatim>\<open>vendorValues\<close>.\<close>

record update_values =
  upd_qos :: "WTPQosValues list option"
  upd_ofdm :: "OFDMControlValues option"
  upd_vendor :: "vendor_values option"

definition CWProtocolAssembleConfigurationUpdateRequest ::
  "memory \<Rightarrow> bool \<Rightarrow> vendor_values option \<Rightarrow> CWProtocolMessage list res \<times> vendor_values option" where
  "CWProtocolAssembleConfigurationUpdateRequest mem uci v =
     (if \<not> malloc_ok mem message_size then (Raise CW_ERROR_OUT_OF_MEMORY, v)
      else case v of
        None \<Rightarrow> (Fault, v)
      | Some x \<Rightarrow>
          if uci then (res_bind (CWAssembleWTPVendorPayloadUCI mem x) (\<lambda>e. Ret [e]), v)
          else (case CWAssembleWTPVendorPayloadWUM mem x of (r, x) \<Rightarrow> (res_bind r (\<lambda>e. Ret [e]), Some x)))"

definition CWAssembleConfigurationUpdateRequest ::
  "memory \<Rightarrow> eth \<Rightarrow> int \<Rightarrow> 32 word \<Rightarrow> int \<Rightarrow> byte \<Rightarrow> update_kind \<Rightarrow> CWWTPProtocolManager \<Rightarrow> OFDMControlValues \<Rightarrow>
   CWWTPRadioInfoValues list \<Rightarrow> update_values \<Rightarrow> CWProtocolMessage list res \<times> update_values" where
  "CWAssembleConfigurationUpdateRequest mem mac fid garbage PMTU seq kind pm aux_ofdm radios u =
     (let binding = (\<lambda>t. case CWBindingAssembleConfigurationUpdateRequest mem (pm_qosValues pm) aux_ofdm t (radioCount pm) radios
                               (upd_qos u) (upd_ofdm u) of
                       (r, q, d) \<Rightarrow> (res_bind r (\<lambda>es. CWAssembleMessage mem mac fid garbage PMTU seq 7 [] es 0),
                                     u\<lparr> upd_qos := q, upd_ofdm := d \<rparr>));
          vendor = (\<lambda>uci. case CWProtocolAssembleConfigurationUpdateRequest mem uci (upd_vendor u) of
                       (r, v) \<Rightarrow> (res_bind r (\<lambda>es. CWAssembleMessage mem mac fid garbage PMTU seq 7 es [] 0),
                                  u\<lparr> upd_vendor := v \<rparr>))
      in case kind of
           CONFIG_UPDATE_REQ_QOS_ELEMENT_TYPE \<Rightarrow> binding 1045
         | CONFIG_UPDATE_REQ_OFDM_ELEMENT_TYPE \<Rightarrow> binding 1033
         | CONFIG_UPDATE_REQ_VENDOR_UCI_ELEMENT_TYPE \<Rightarrow> vendor True
         | CONFIG_UPDATE_REQ_VENDOR_WUM_ELEMENT_TYPE \<Rightarrow> vendor False)"

definition CWAssembleClearConfigurationRequest ::
  "memory \<Rightarrow> eth \<Rightarrow> int \<Rightarrow> 32 word \<Rightarrow> int \<Rightarrow> byte \<Rightarrow> CWProtocolMessage list res" where
  "CWAssembleClearConfigurationRequest mem mac fid garbage PMTU seq =
     CWAssembleMessage mem mac fid garbage PMTU seq 23 [] [] 0"

text \<open>The branches of the session's thread that take a command: the request is sent and waited for, or the command has failed.\<close>

definition send_command ::
  "memory \<Rightarrow> (nat \<Rightarrow> bool) \<Rightarrow> 32 word \<Rightarrow> byte \<Rightarrow> CWProtocolMessage list res \<Rightarrow> ac_session \<Rightarrow> unit res \<times> ac_session" where
  "send_command mem net type seq request s =
     (case request of
        Fault \<Rightarrow> (Fault, s)
      | Raise e \<Rightarrow> (Ret (), command_done False s)
      | Ret ms \<Rightarrow>
          (case CWACSendAcknowledgedPacket mem net type seq
                  (s\<lparr>wtp := (wtp s)\<lparr> messages := Some ms, messagesCount := length ms \<rparr>\<rparr>) of
             (Fault, s) \<Rightarrow> (Fault, s)
           | (Ret _, s) \<Rightarrow> (Ret (), command_done True s)
           | (Raise e, s) \<Rightarrow> (case CWACStopRetransmission s of
                                Ret s \<Rightarrow> (Ret (), command_done False s)
                              | _ \<Rightarrow> (Fault, s))))"

definition update_command ::
  "memory \<Rightarrow> eth \<Rightarrow> int \<Rightarrow> 32 word \<Rightarrow> (nat \<Rightarrow> bool) \<Rightarrow> byte \<Rightarrow> update_kind \<Rightarrow> OFDMControlValues \<Rightarrow> ac_session \<Rightarrow>
   CWWTPProtocolManager \<Rightarrow> update_values \<Rightarrow> (unit res \<times> ac_session) \<times> update_values" where
  "update_command mem mac fid garbage net seq kind aux_ofdm s pm u =
     (case CWAssembleConfigurationUpdateRequest mem mac fid garbage (pathMTU (wtp s)) seq kind pm aux_ofdm
             (radiosInfo (wtp s)) u of
        (r, u) \<Rightarrow> (send_command mem net 8 seq r s, u))"

definition clear_command ::
  "memory \<Rightarrow> eth \<Rightarrow> int \<Rightarrow> 32 word \<Rightarrow> (nat \<Rightarrow> bool) \<Rightarrow> byte \<Rightarrow> ac_session \<Rightarrow> unit res \<times> ac_session" where
  "clear_command mem mac fid garbage net seq s =
     send_command mem net 24 seq (CWAssembleClearConfigurationRequest mem mac fid garbage (pathMTU (wtp s)) seq) s"

subsection \<open>The request: WTP\<close>

definition CWParseUCIPayload :: "memory \<Rightarrow> CWProtocolMessage \<Rightarrow> (CWVendorUciValues \<times> CWProtocolMessage) res" where
  "CWParseUCIPayload mem m =
     (if \<not> malloc_ok mem 24 then Raise CW_ERROR_OUT_OF_MEMORY
      else res_bind (CWProtocolRetrieve8 m) (\<lambda>(c, m).
           res_bind (CWProtocolRetrieve32 m) (\<lambda>(n, m).
           if sint n = 0 then Ret (\<lparr> uci_command = c, commandArgs = None, uci_response = None \<rparr>, m)
           else if \<not> malloc_ok mem (sint n + 1) then Raise CW_ERROR_OUT_OF_MEMORY
           else res_bind (CWProtocolRetrieveStr mem m (sint n)) (\<lambda>(a, m).
                Ret (\<lparr> uci_command = c, commandArgs = a, uci_response = None \<rparr>, m)))))"

text \<open>\<open>old\<close> is what the new block held.\<close>

definition CWParseWUMPayload ::
  "memory \<Rightarrow> CWVendorWumValues \<Rightarrow> CWProtocolMessage \<Rightarrow> (CWVendorWumValues \<times> CWProtocolMessage) res" where
  "CWParseWUMPayload mem old m =
     (if \<not> malloc_ok mem 24 then Raise CW_ERROR_OUT_OF_MEMORY
      else res_bind (CWProtocolRetrieve8 m) (\<lambda>(t, m).
        let w = old\<lparr>wum_type := t\<rparr> in
        if t = WTP_UPDATE_REQUEST then
          res_bind (CWProtocolRetrieve8 m) (\<lambda>(a, m).
          res_bind (CWProtocolRetrieve8 m) (\<lambda>(b, m).
          res_bind (CWProtocolRetrieve8 m) (\<lambda>(c, m).
          res_bind (CWProtocolRetrieve32 m) (\<lambda>(n, m).
          Ret (w\<lparr> major_v := a, minor_v := b, revision_v := c, pack_size := n \<rparr>, m)))))
        else if t = WTP_CUP_FRAGMENT then
          res_bind (CWProtocolRetrieve32 m) (\<lambda>(k, m).
          res_bind (CWProtocolRetrieve32 m) (\<lambda>(n, m).
          res_bind (CWProtocolRetrieveRawBytes mem m (sint n)) (\<lambda>(bs, m).
          Ret (w\<lparr> cup_seq_num := k, cup_fragment_size := n, cup := bs \<rparr>, m))))
        else Ret (w, m)))"

text \<open>When one of these fails its caller frees, through a pointer that was not set.\<close>

definition CWParseVendorPayload ::
  "memory \<Rightarrow> CWVendorWumValues \<Rightarrow> CWProtocolMessage \<Rightarrow> (vendor_values \<times> CWProtocolMessage) res" where
  "CWParseVendorPayload mem old m =
     res_bind (CWProtocolRetrieve16 m) (\<lambda>(t, m).
     if t = 1 then res_bind (on_error_free (CWParseUCIPayload mem m)) (\<lambda>(u, m). Ret (UciValues u, m))
     else if t = 2 then res_bind (on_error_free (CWParseWUMPayload mem old m)) (\<lambda>(w, m). Ret (WumValues w, m))
     else Raise CW_ERROR_NONE)"

text \<open>
  The structure of the values is allocated when the last element is a vendor payload. The state of the second pass: whether
  it is allocated, and the values once they are set.
\<close>

definition last_type_branch :: "16 word \<Rightarrow> 16 word \<Rightarrow> CWProtocolMessage \<Rightarrow> int \<Rightarrow> (16 word \<times> CWProtocolMessage) res" where
  "last_type_branch s t m l = Ret (t, m\<lparr>offset := offset m + nat l\<rparr>)"

definition vendor_branch ::
  "memory \<Rightarrow> CWVendorWumValues \<Rightarrow> bool \<Rightarrow> vendor_values option \<Rightarrow> 16 word \<Rightarrow> CWProtocolMessage \<Rightarrow> int \<Rightarrow>
   (vendor_values option \<times> CWProtocolMessage) res" where
  "vendor_branch mem old allocated s t m l =
     (if t = 57 then
        if \<not> allocated then Fault
        else res_bind (CWParseVendorPayload mem old m) (\<lambda>(v, m). Ret (Some v, m))
      else Ret (s, m\<lparr>offset := offset m + nat l\<rparr>))"

definition CWParseVendorMessage ::
  "memory \<Rightarrow> CWVendorWumValues \<Rightarrow> byte list \<Rightarrow> int \<Rightarrow> vendor_values option res option" where
  "CWParseVendorMessage mem old bytes len =
     run_bind (parse_elements last_type_branch 0 len 0 (start_of bytes)) (\<lambda>(t, m).
     if int (offset m) \<noteq> len then Some (Raise CW_ERROR_INVALID_FORMAT)
     else if t = 57 \<and> \<not> malloc_ok mem 16 then Some (Raise CW_ERROR_OUT_OF_MEMORY)
     else run_bind (parse_elements (vendor_branch mem old (t = 57)) 0 len None (start_of bytes)) (\<lambda>(v, m). Some (Ret v)))"

record CWProtocolConfigurationUpdateRequestValues =
  bindingValues :: binding_update
  protocolValues :: "vendor_values option"

definition update_kind_branch ::
  "bool \<times> bool \<Rightarrow> 16 word \<Rightarrow> CWProtocolMessage \<Rightarrow> int \<Rightarrow> ((bool \<times> bool) \<times> CWProtocolMessage) res" where
  "update_kind_branch = (\<lambda>(b, v) t m l.
     let m' = m\<lparr>offset := offset m + nat l\<rparr> in
     if CWBindingCheckType (uint t) then Ret ((True, v), m')
     else if t = 57 then Ret ((b, True), m')
     else Raise CW_ERROR_INVALID_FORMAT)"

definition CWParseConfigurationUpdateRequest ::
  "memory \<Rightarrow> CWVendorWumValues \<Rightarrow> byte list \<Rightarrow> int \<Rightarrow> CWProtocolConfigurationUpdateRequestValues res option" where
  "CWParseConfigurationUpdateRequest mem old bytes len =
     run_bind (parse_elements update_kind_branch 0 len (False, False) (start_of bytes)) (\<lambda>((binding, vendor), m).
     if int (offset m) \<noteq> len then Some (Raise CW_ERROR_INVALID_FORMAT)
     else run_bind (if vendor then CWParseVendorMessage mem old bytes len else Some (Ret None)) (\<lambda>v.
          run_bind (if binding then CWBindingParseConfigurationUpdateRequest mem bytes len else Some (Ret NoUpdate)) (\<lambda>u.
          Some (Ret \<lparr> bindingValues = u, protocolValues = v \<rparr>))))"

subsection \<open>The update package: WTP\<close>

text \<open>
  The state of the update and the file \<^verbatim>\<open>/tmp/wtp.cup\<close>, which may be open; what is written counts as stored. \<open>agents\<close> is the number of update
  agents that were started, \<open>WTPExitOnUpdateCommit\<close> makes the WTP end once it has answered.
\<close>

datatype wum_phase = WUM_STATE_WAIT | WUM_STATE_BUSY | WUM_STATE_READY

record WUMState =
  wum_state :: wum_phase
  cupTmp :: bool
  cup_file :: "byte list option"
  cupSize :: int
  total_fragments :: int
  received_fragments :: int
  agents :: nat
  WTPExitOnUpdateCommit :: bool

text \<open>
  What the file system does: whether the calls succeed, how many bytes a write accepts (\<open>None\<close>: all), and the free
  space.
\<close>

record file_io =
  fopen_ok :: bool
  fseek_ok :: bool
  fwrite_count :: "nat option"
  fork_ok :: bool
  remove_ok :: bool
  free_space :: "nat option"

abbreviation CUP_FRAGMENT_SIZE :: int where "CUP_FRAGMENT_SIZE \<equiv> 4000"

definition WUMPrepareForUpdate :: "file_io \<Rightarrow> int \<Rightarrow> WUMState \<Rightarrow> bool \<times> WUMState" where
  "WUMPrepareForUpdate io n st =
     (if wum_state st \<noteq> WUM_STATE_WAIT then (False, st)
      else if \<not> fopen_ok io then (False, st\<lparr>cupTmp := False\<rparr>)
      else
        let quot = (if n < 0 then - (- n div CUP_FRAGMENT_SIZE) else n div CUP_FRAGMENT_SIZE);
            total = (if n > 0 \<and> n mod CUP_FRAGMENT_SIZE > 0 then quot + 1 else quot)
        in (True, st\<lparr> cupTmp := True, cup_file := Some [], cupSize := n, total_fragments := total,
                     received_fragments := 0, wum_state := WUM_STATE_BUSY \<rparr>))"

text \<open>Writing behind the end of a file fills it with zeros.\<close>

definition write_at :: "nat \<Rightarrow> byte list \<Rightarrow> byte list \<Rightarrow> byte list" where
  "write_at off bs f =
     (if bs = [] then f
      else take off f @ replicate (off - length f) 0 @ bs @ drop (off + length bs) f)"

text \<open>The sequence number is compared with the number of fragments as an unsigned number, and the offset is an \<^verbatim>\<open>int\<close>.\<close>

definition WUMStoreFragment ::
  "file_io \<Rightarrow> CWVendorWumValues \<Rightarrow> WUMState \<Rightarrow> (bool \<times> CWVendorWumValues \<times> WUMState) res" where
  "WUMStoreFragment io w st =
     (if wum_state st \<noteq> WUM_STATE_BUSY then Ret (False, w, st)
      else if cup_seq_num w > word_of_int (total_fragments st) then Ret (False, w, st)
      else
        let off = sint (cup_seq_num w * 4000); n = sint (cup_fragment_size w);
            bs = (case cup w of None \<Rightarrow> [] | Some bs \<Rightarrow> bs) in
        if \<not> cupTmp st then Fault
        else if off < 0 \<or> \<not> fseek_ok io then Ret (False, w, st)
        else if n < 0 \<or> length bs < nat n then Fault
        else
          let k = (case fwrite_count io of None \<Rightarrow> nat n | Some k \<Rightarrow> min k (nat n));
              st = st\<lparr>cup_file := map_option (write_at (nat off) (take k bs)) (cup_file st)\<rparr>
          in if int k \<noteq> n then Ret (False, w, st)
             else Ret (True, w\<lparr>cup := None\<rparr>, st\<lparr>received_fragments := received_fragments st + 1\<rparr>))"

definition WUMIsComplete :: "WUMState \<Rightarrow> bool" where
  "WUMIsComplete st \<longleftrightarrow> wum_state st = WUM_STATE_BUSY \<and> total_fragments st \<le> received_fragments st"

definition WUMCloseFile :: "WUMState \<Rightarrow> WUMState res" where
  "WUMCloseFile st = (if cupTmp st then Ret (st\<lparr> cupTmp := False, wum_state := WUM_STATE_READY \<rparr>) else Fault)"

definition WUMCancel :: "file_io \<Rightarrow> WUMState \<Rightarrow> WUMState" where
  "WUMCancel io st =
     st\<lparr> wum_state := WUM_STATE_WAIT, cupTmp := False, cup_file := (if remove_ok io then None else cup_file st) \<rparr>"

text \<open>The version of the WTP is 0.93.2.\<close>

abbreviation WTP_VERSION_MAJOR :: byte where "WTP_VERSION_MAJOR \<equiv> 0"
abbreviation WTP_VERSION_MINOR :: byte where "WTP_VERSION_MINOR \<equiv> 93"
abbreviation WTP_VERSION_REVISION :: byte where "WTP_VERSION_REVISION \<equiv> 2"

definition CWWTPCheckVersion :: "CWVendorWumValues \<Rightarrow> bool" where
  "CWWTPCheckVersion w =
     (if major_v w > WTP_VERSION_MAJOR then True
      else if major_v w = WTP_VERSION_MAJOR then
        if minor_v w > WTP_VERSION_MINOR then True
        else if minor_v w = WTP_VERSION_MINOR then revision_v w > WTP_VERSION_REVISION
        else False
      else False)"

definition StartWUA :: "file_io \<Rightarrow> WUMState \<Rightarrow> bool \<times> WUMState" where
  "StartWUA io st = (fork_ok io, if fork_ok io then st\<lparr>agents := agents st + 1\<rparr> else st)"

text \<open>The size is converted to an unsigned \<^verbatim>\<open>long\<close>.\<close>

definition check_free_space :: "file_io \<Rightarrow> int \<Rightarrow> bool" where
  "check_free_space io bytes =
     (case free_space io of None \<Rightarrow> False | Some f \<Rightarrow> bytes mod 2 ^ 64 < int f)"

definition CWWTPSaveWUMValues ::
  "file_io \<Rightarrow> CWVendorWumValues \<Rightarrow> WUMState \<Rightarrow> (32 word \<times> CWVendorWumValues \<times> WUMState) res" where
  "CWWTPSaveWUMValues io w st =
     (if wum_type w = WTP_VERSION_REQUEST then
        Ret (0, w\<lparr> wum_type := WTP_VERSION_RESPONSE, major_v := WTP_VERSION_MAJOR, minor_v := WTP_VERSION_MINOR,
                   revision_v := WTP_VERSION_REVISION \<rparr>, st)
      else if wum_type w = WTP_UPDATE_REQUEST then
        let w = w\<lparr>wum_type := WTP_UPDATE_RESPONSE\<rparr>; n = sint (pack_size w) in
        if \<not> CWWTPCheckVersion w then Ret (3, w, st)
        else if \<not> check_free_space io n then Ret (3, w, st)
        else (case WUMPrepareForUpdate io n st of (ok, st) \<Rightarrow> Ret (if ok then 0 else 3, w, st))
      else if wum_type w = WTP_CUP_FRAGMENT then
        res_bind (WUMStoreFragment io (w\<lparr>wum_type := WTP_CUP_ACK\<rparr>) st) (\<lambda>(ok, w, st).
        res_bind (if WUMIsComplete st then WUMCloseFile st else Ret st) (\<lambda>st.
        Ret (if ok then 0 else 3, w, st)))
      else if wum_type w = WTP_COMMIT_UPDATE then
        Ret (if wum_state st \<noteq> WUM_STATE_READY then 3 else 0, w\<lparr>wum_type := WTP_COMMIT_ACK\<rparr>,
             (snd (StartWUA io st))\<lparr>WTPExitOnUpdateCommit := True\<rparr>)
      else if wum_type w = WTP_CANCEL_UPDATE_REQUEST then
        let w = w\<lparr>wum_type := WTP_CANCEL_UPDATE_RESPONSE\<rparr> in
        (case wum_state st of
           WUM_STATE_BUSY \<Rightarrow>
             res_bind (WUMCloseFile st) (\<lambda>st. Ret (0, w, st\<lparr> cup_file := (if remove_ok io then None else cup_file st), wum_state := WUM_STATE_WAIT \<rparr>))
         | WUM_STATE_READY \<Rightarrow> Ret (0, w, st\<lparr> cup_file := (if remove_ok io then None else cup_file st), wum_state := WUM_STATE_WAIT \<rparr>)
         | WUM_STATE_WAIT \<Rightarrow> Ret (0, w, st))
      else Ret (0, w, st))"

subsection \<open>A command for the UCI daemon\<close>

text \<open>
  The WTP talks to the daemon in datagrams, one per field, each of which it waits for to be acknowledged: the datagrams sent, and those that are
  received (\<open>None\<close>: an error). When there are no more the WTP waits for ever, which is the result \<open>None\<close>. An integer is received into
  the four bytes of a variable.
\<close>

record uci_socket =
  uci_out :: "byte list list"
  uci_in :: "byte list option list"

type_synonym 'a uci = "uci_socket \<Rightarrow> ('a \<times> uci_socket) res option"

definition uci_send :: "(nat \<Rightarrow> bool) \<Rightarrow> byte list \<Rightarrow> unit uci" where
  "uci_send ok bs s =
     Some (if ok (length (uci_out s)) then Ret ((), s\<lparr>uci_out := uci_out s @ [bs]\<rparr>) else Raise CW_ERROR_GENERAL)"

definition uci_recv :: "byte list \<Rightarrow> byte list uci" where
  "uci_recv old s =
     (case uci_in s of
        [] \<Rightarrow> None
      | None # ds \<Rightarrow> Some (Raise CW_ERROR_GENERAL)
      | Some d # ds \<Rightarrow> Some (Ret (take (length old) d @ drop (length d) old, s\<lparr>uci_in := ds\<rparr>)))"

definition uci_ack :: "(nat \<Rightarrow> bool) \<Rightarrow> byte list \<Rightarrow> byte list \<Rightarrow> byte list uci" where
  "uci_ack ok bs old s =
     run_bind (uci_send ok bs s) (\<lambda>(_, s).
     run_bind (uci_recv old s) (\<lambda>(a, s).
     Some (if of_be32 a = 0 then Raise CW_ERROR_GENERAL else Ret (a, s))))"

text \<open>\<open>junk n\<close>: what an uninitialised variable or block of \<open>n\<close> bytes holds.\<close>

definition CWWTPSaveUCIValues ::
  "memory \<Rightarrow> bool \<Rightarrow> (nat \<Rightarrow> bool) \<Rightarrow> (nat \<Rightarrow> byte list) \<Rightarrow> CWVendorUciValues \<Rightarrow> (32 word \<times> CWVendorUciValues) uci" where
  "CWWTPSaveUCIValues mem sock_ok send_ok junk u s =
     (if \<not> sock_ok then Some (Raise CW_ERROR_GENERAL)
      else
        let args = (case commandArgs u of None \<Rightarrow> [] | Some a \<Rightarrow> c_string a) in
        if \<not> malloc_ok mem (int (length args) + 5) then Some (Raise CW_ERROR_GENERAL)
        else
          run_bind (uci_ack send_ok [uci_command u] (replicate 4 0) s) (\<lambda>(a, s).
          run_bind (uci_ack send_ok (be32 (word_of_nat (length args))) a s) (\<lambda>(a, s).
          run_bind (if args = [] then Some (Ret (a, s)) else uci_ack send_ok args a s) (\<lambda>(_, s).
          run_bind (uci_recv (junk 4) s) (\<lambda>(code, s).
          run_bind (uci_send send_ok (be32 1) s) (\<lambda>(_, s).
          if of_be32 code \<noteq> 0 then Some (Ret ((3, u), s))
          else
            run_bind (uci_recv (junk 4) s) (\<lambda>(n, s).
            run_bind (uci_send send_ok (be32 1) s) (\<lambda>(_, s).
            let n = sint (of_be32 n) in
            if n \<le> 0 then Some (Ret ((0, u\<lparr>uci_response := None\<rparr>), s))
            else if \<not> malloc_ok mem n then Some (Raise CW_ERROR_GENERAL)
            else
              run_bind (uci_recv (junk (nat n)) s) (\<lambda>(r, s).
              run_bind (uci_send send_ok (be32 1) s) (\<lambda>(_, s).
              if \<not> malloc_ok mem (n + 1) then Some (Raise CW_ERROR_OUT_OF_MEMORY)
              else Some (Ret ((0, u\<lparr>uci_response := Some (c_string r)\<rparr>), s))))))))))))"

subsection \<open>Storing a request, and the response\<close>

text \<open>What the handler finds around it: the file system, the UCI daemon's socket, the settings and the ioctl socket of
  the profiles, and whether the frequency analyser can be sent a datagram.\<close>

record update_env =
  env_io :: file_io
  env_uci_ok :: bool
  env_uci_send :: "nat \<Rightarrow> bool"
  env_junk :: "nat \<Rightarrow> byte list"
  env_static :: "16 word \<times> 16 word \<times> byte"
  env_sock_ok :: bool
  env_ofdm_ok :: bool

record update_state =
  us_wum :: WUMState
  us_uci :: uci_socket
  us_radios :: "(int \<times> WTPQosValues list) list"

definition CWSaveVendorMessage ::
  "memory \<Rightarrow> update_env \<Rightarrow> vendor_values \<Rightarrow> update_state \<Rightarrow> (32 word \<times> vendor_values \<times> update_state) res option" where
  "CWSaveVendorMessage mem env v us =
     (case v of
        UciValues u \<Rightarrow>
          run_bind (CWWTPSaveUCIValues mem (env_uci_ok env) (env_uci_send env) (env_junk env) u (us_uci us)) (\<lambda>((c, u), k).
          Some (Ret (c, UciValues u, us\<lparr>us_uci := k\<rparr>)))
      | WumValues w \<Rightarrow>
          run_bind (Some (CWWTPSaveWUMValues (env_io env) w (us_wum us))) (\<lambda>(c, w, st).
          Some (Ret (c, WumValues w, us\<lparr>us_wum := st\<rparr>))))"

text \<open>The result code starts as \<^verbatim>\<open>CW_TRUE\<close>, one.\<close>

definition CWSaveConfigurationUpdateRequest ::
  "memory \<Rightarrow> update_env \<Rightarrow> CWProtocolConfigurationUpdateRequestValues \<Rightarrow> update_state \<Rightarrow>
   ((32 word \<times> CWProtocolConfigurationUpdateRequestValues) res \<times> update_state) option" where
  "CWSaveConfigurationUpdateRequest mem env v us =
     (let (r, us) =
        (if bindingValues v = NoUpdate then (Ret 1, us)
         else case CWBindingSaveConfigurationUpdateRequest (env_static env) (env_sock_ok env) (env_ofdm_ok env)
                     (bindingValues v) (us_radios us) of
                (r, rs) \<Rightarrow> (res_bind r (\<lambda>_. Ret 0), us\<lparr>us_radios := rs\<rparr>))
      in case r of
           Raise e \<Rightarrow> Some (Raise e, us)
         | Fault \<Rightarrow> Some (Fault, us)
         | Ret c \<Rightarrow>
             (case protocolValues v of
                None \<Rightarrow> Some (Ret (c, v), us)
              | Some p \<Rightarrow>
                  (case CWSaveVendorMessage mem env p us of
                     None \<Rightarrow> None
                   | Some (Ret (c, p, us)) \<Rightarrow> Some (Ret (c, v\<lparr>protocolValues := Some p\<rparr>), us)
                   | Some (Raise e) \<Rightarrow> Some (Raise e, us)
                   | Some Fault \<Rightarrow> Some (Fault, us))))"

definition CWAssembleConfigurationUpdateResponse ::
  "memory \<Rightarrow> eth \<Rightarrow> int \<Rightarrow> 32 word \<Rightarrow> int \<Rightarrow> byte \<Rightarrow> 32 word \<Rightarrow> CWProtocolConfigurationUpdateRequestValues \<Rightarrow>
   CWProtocolMessage list res" where
  "CWAssembleConfigurationUpdateResponse mem mac fid garbage PMTU seq code v =
     (if \<not> malloc_ok mem message_size then Raise CW_ERROR_OUT_OF_MEMORY
      else res_bind
        (case protocolValues v of
           None \<Rightarrow> CWAssembleMsgElemResultCode mem code
         | Some (UciValues u) \<Rightarrow> CWAssembleVendorMsgElemResultCodeWithPayload mem code (UCI (uci_response u))
         | Some (WumValues w) \<Rightarrow>
             CWAssembleVendorMsgElemResultCodeWithPayload mem code
               (WUM (wum_type w) (major_v w) (minor_v w) (revision_v w))) (\<lambda>e.
        CWAssembleMessage mem mac fid garbage PMTU seq 8 [e] [] 0))"

text \<open>
  The branch of the request in the WTP's Run state. It first starts the echo timer again, and gives up, with no error
  raised, when it cannot.
\<close>

definition update_request_message ::
  "memory \<Rightarrow> update_env \<Rightarrow> eth \<Rightarrow> int \<Rightarrow> 32 word \<Rightarrow> int \<Rightarrow> CWVendorWumValues \<Rightarrow> byte list \<Rightarrow> int \<Rightarrow> byte \<Rightarrow> update_state \<Rightarrow>
   (CWProtocolMessage list res \<times> update_state) option" where
  "update_request_message mem env mac fid garbage PMTU old bytes len seq us =
     (case CWParseConfigurationUpdateRequest mem old bytes len of
        None \<Rightarrow> None
      | Some (Raise e) \<Rightarrow> Some (Raise e, us)
      | Some Fault \<Rightarrow> Some (Fault, us)
      | Some (Ret v) \<Rightarrow>
          (case CWSaveConfigurationUpdateRequest mem env v us of
             None \<Rightarrow> None
           | Some (r, us) \<Rightarrow>
               Some (res_bind r (\<lambda>(c, v). CWAssembleConfigurationUpdateResponse mem mac fid garbage PMTU seq c v), us)))"

definition update_request ::
  "memory \<Rightarrow> update_env \<Rightarrow> eth \<Rightarrow> int \<Rightarrow> 32 word \<Rightarrow> int \<Rightarrow> CWVendorWumValues \<Rightarrow> byte list \<Rightarrow> int \<Rightarrow> byte \<Rightarrow> update_state \<Rightarrow>
   wtp_echo \<Rightarrow> (CWProtocolMessage list res \<times> update_state) option \<times> wtp_echo" where
  "update_request mem env mac fid garbage PMTU old bytes len seq us e =
     (case CWResetEchoRequestRetransmit mem e of
        Ret (True, e) \<Rightarrow> (update_request_message mem env mac fid garbage PMTU old bytes len seq us, e)
      | Ret (False, e) \<Rightarrow> (Some (Raise CW_ERROR_NONE, us), e)
      | Raise x \<Rightarrow> (Some (Raise x, us), e)
      | Fault \<Rightarrow> (Some (Fault, us), e))"

subsection \<open>The package as the update client sends it\<close>

text \<open>The loop of \<^verbatim>\<open>WUMUpdate\<close>: fragments of 4000 bytes, numbered from zero.\<close>

definition cup_message :: "nat \<Rightarrow> byte list \<Rightarrow> CWVendorWumValues" where
  "cup_message i bs = \<lparr> wum_type = WTP_CUP_FRAGMENT, major_v = 0, minor_v = 0, revision_v = 0, pack_size = 0,
     cup_seq_num = word_of_nat i, cup_fragment_size = word_of_nat (length bs), cup = Some bs \<rparr>"

function WUMUpdate_fragments :: "nat \<Rightarrow> byte list \<Rightarrow> CWVendorWumValues list" where
  "WUMUpdate_fragments i buf =
     (if buf = [] then [] else cup_message i (take 4000 buf) # WUMUpdate_fragments (Suc i) (drop 4000 buf))"
  by pat_completeness auto
termination by (relation "measure (\<lambda>(i, buf). length buf)") auto

declare WUMUpdate_fragments.simps [simp del]

fun save_fragments ::
  "file_io \<Rightarrow> CWVendorWumValues list \<Rightarrow> WUMState \<Rightarrow> (32 word list \<times> WUMState) res" where
  "save_fragments io [] st = Ret ([], st)"
| "save_fragments io (w # ws) st =
     res_bind (CWWTPSaveWUMValues io w st) (\<lambda>(c, w, st).
     res_bind (save_fragments io ws st) (\<lambda>(cs, st). Ret (c # cs, st)))"

definition fragments_of :: "nat \<Rightarrow> nat" where
  "fragments_of n = (n + 3999) div 4000"

definition cup_chunk :: "byte list \<Rightarrow> nat \<Rightarrow> byte list" where
  "cup_chunk p i = take 4000 (drop (4000 * i) p)"

lemma client_fragments:
  "WUMUpdate_fragments k p = map (\<lambda>i. cup_message (k + i) (cup_chunk p i)) [0..<fragments_of (length p)]"
proof (induction k p rule: WUMUpdate_fragments.induct)
  case (1 i buf)
  show ?case
  proof (cases "buf = []")
    case True
    then show ?thesis by (subst WUMUpdate_fragments.simps) (simp add: fragments_of_def)
  next
    case False
    let ?n = "fragments_of (length (drop 4000 buf))"
    have n: "fragments_of (length buf) = Suc ?n"
    proof (cases "length buf \<le> 4000")
      case True
      have "0 < length buf" using False by simp
      with True have "(length buf + 3999) div 4000 = 1" by linarith
      with True show ?thesis by (simp add: fragments_of_def)
    next
      case False
      then have "length buf + 3999 = (length buf - 4000 + 3999) + 4000" by linarith
      then show ?thesis by (simp add: fragments_of_def)
    qed
    have c: "cup_chunk (drop 4000 buf) j = cup_chunk buf (Suc j)" for j by (simp add: cup_chunk_def add.commute)
    have "WUMUpdate_fragments i buf = cup_message i (take 4000 buf) # WUMUpdate_fragments (Suc i) (drop 4000 buf)"
      using False by (subst WUMUpdate_fragments.simps) simp
    also have "\<dots> = map (\<lambda>j. cup_message (i + j) (cup_chunk buf j)) (0 # map Suc [0..<?n])"
      using 1 [OF False] by (simp add: c o_def) (simp add: cup_chunk_def)
    also have "0 # map Suc [0..<?n] = [0..<fragments_of (length buf)]"
      unfolding n map_Suc_upt by (simp add: upt_conv_Cons del: upt_Suc)
    finally show ?thesis .
  qed
qed

subsection \<open>Writing the file\<close>

lemma length_write_at:
  "length (write_at off bs f) = (if bs = [] then length f else max (length f) (off + length bs))"
  by (auto simp: write_at_def)

lemma nth_write_at:
  "q < length (write_at off bs f) \<Longrightarrow> write_at off bs f ! q =
   (if off \<le> q \<and> q < off + length bs then bs ! (q - off) else if q < length f then f ! q else 0)"
  by (auto simp: write_at_def nth_append min_def length_write_at split: if_splits)

subsection \<open>A package arrives\<close>

lemma unsigned_small: "m < 2 ^ 32 \<Longrightarrow> uint (word_of_nat m :: 32 word) = int m"
  by (simp add: unsigned_of_nat take_bit_nat_eq_self_iff)

lemma signed_small: "m < 2147483648 \<Longrightarrow> sint (word_of_nat m :: 32 word) = int m"
  using sint_of_int32 [of "int m"] by simp

lemma word_of_nat_le32: "\<lbrakk>a < 2 ^ 32; b < 2 ^ 32\<rbrakk> \<Longrightarrow> (word_of_nat a :: 32 word) \<le> word_of_nat b \<longleftrightarrow> a \<le> b"
  by (simp add: word_le_def unsigned_small)

text \<open>The fragments in \<open>S\<close> are in the file.\<close>

definition stored :: "byte list \<Rightarrow> nat set \<Rightarrow> WUMState \<Rightarrow> bool" where
  "stored p S st \<longleftrightarrow> total_fragments st = int (fragments_of (length p)) \<and>
     received_fragments st = int (card S) \<and> (\<exists>f. cup_file st = Some f \<and> length f \<le> length p \<and>
       (\<forall>q < length p. q div 4000 \<in> S \<longrightarrow> q < length f \<and> f ! q = p ! q))"

lemma chunk_bounds:
  assumes "i < fragments_of (length p)"
  shows "4000 * i < length p" "length (cup_chunk p i) = min 4000 (length p - 4000 * i)"
  using assms by (auto simp: fragments_of_def cup_chunk_def)

lemma write_chunk:
  assumes "i < fragments_of (length p)" "length f \<le> length p"
    and "\<forall>q < length p. q div 4000 \<in> S \<longrightarrow> q < length f \<and> f ! q = p ! q"
  shows "length (write_at (4000 * i) (cup_chunk p i) f) \<le> length p"
    "\<forall>q < length p. q div 4000 \<in> insert i S \<longrightarrow>
       q < length (write_at (4000 * i) (cup_chunk p i) f) \<and> write_at (4000 * i) (cup_chunk p i) f ! q = p ! q"
proof -
  note c = chunk_bounds [OF assms(1)]
  let ?g = "write_at (4000 * i) (cup_chunk p i) f"
  have ne: "cup_chunk p i \<noteq> []" using c by auto
  have l: "length ?g = max (length f) (4000 * i + length (cup_chunk p i))" using ne by (simp add: length_write_at)
  show "length ?g \<le> length p" using l c assms(2) by linarith
  show "\<forall>q < length p. q div 4000 \<in> insert i S \<longrightarrow> q < length ?g \<and> ?g ! q = p ! q"
  proof (intro allI impI)
    fix q assume q: "q < length p" "q div 4000 \<in> insert i S"
    show "q < length ?g \<and> ?g ! q = p ! q"
    proof (cases "q div 4000 = i")
      case True
      then have "4000 * i \<le> q" "q < 4000 * i + 4000" by auto
      then have "q < 4000 * i + length (cup_chunk p i)" "4000 * i \<le> q" using c(2) q(1) by auto
      then show ?thesis using l by (simp add: nth_write_at cup_chunk_def)
    next
      case False
      then have f: "q < length f" "f ! q = p ! q" using q assms(3) by auto
      have o: "\<not> (4000 * i \<le> q \<and> q < 4000 * i + length (cup_chunk p i))" using False c(2) by auto
      have "q < length ?g" using f(1) l by simp
      then show ?thesis using f o by (simp only: nth_write_at if_False if_True)
    qed
  qed
qed

text \<open>The file system serves every call.\<close>

definition file_works :: "file_io \<Rightarrow> bool" where
  "file_works io \<longleftrightarrow> fopen_ok io \<and> fseek_ok io \<and> fwrite_count io = None"

lemma store_fragment:
  assumes io: "file_works io" and st: "total_fragments st = int (fragments_of (length p))" "cup_file st = Some f"
      "wum_state st = WUM_STATE_BUSY" "cupTmp st"
    and i: "i < fragments_of (length p)" and p: "length p < 2147483648"
  shows "WUMStoreFragment io ((cup_message i (cup_chunk p i))\<lparr>wum_type := WTP_CUP_ACK\<rparr>) st =
    Ret (True, (cup_message i (cup_chunk p i))\<lparr> wum_type := WTP_CUP_ACK, cup := None \<rparr>,
      st\<lparr> cup_file := Some (write_at (4000 * i) (cup_chunk p i) f), received_fragments := received_fragments st + 1 \<rparr>)"
proof -
  let ?n = "fragments_of (length p)"
  note c = chunk_bounds [OF i]
  have n: "4000 * i < 2147483648" "?n < 2 ^ 32" "i < 2 ^ 32" "length (cup_chunk p i) < 2147483648"
    using c p by (auto simp: fragments_of_def)
  have seq: "\<not> (word_of_nat i :: 32 word) > word_of_int (int ?n)"
    using word_of_nat_le32 [OF n(3,2)] i by (simp add: not_less)
  have off: "sint (word_of_nat i * 4000 :: 32 word) = 4000 * int i"
    using signed_small [OF n(1)] by (simp add: mult.commute)
  have nat: "nat (4000 * int i) = 4000 * i" by simp
  have len: "sint (word_of_nat (length (cup_chunk p i)) :: 32 word) = int (length (cup_chunk p i))"
    by (rule signed_small [OF n(4)])
  show ?thesis
    using st io seq unfolding WUMStoreFragment_def
    by (simp add: cup_message_def file_works_def Let_def off len nat)
qed

lemma store_chunk:
  assumes io: "file_works io" and st: "stored p S st" "wum_state st = WUM_STATE_BUSY" "cupTmp st" "finite S"
    and i: "i < fragments_of (length p)" "i \<notin> S" and p: "length p < 2147483648"
  shows "\<exists>w st'. CWWTPSaveWUMValues io (cup_message i (cup_chunk p i)) st = Ret (0, w, st') \<and> stored p (insert i S) st' \<and>
    (if fragments_of (length p) \<le> card (insert i S) then wum_state st' = WUM_STATE_READY
     else wum_state st' = WUM_STATE_BUSY \<and> cupTmp st')"
proof -
  let ?w = "cup_message i (cup_chunk p i)" and ?n = "fragments_of (length p)"
  obtain f where f: "cup_file st = Some f" "length f \<le> length p"
    "\<forall>q < length p. q div 4000 \<in> S \<longrightarrow> q < length f \<and> f ! q = p ! q" using st(1) by (auto simp: stored_def)
  have t: "total_fragments st = int ?n" using st(1) by (simp add: stored_def)
  let ?st = "st\<lparr> cup_file := Some (write_at (4000 * i) (cup_chunk p i) f), received_fragments := received_fragments st + 1 \<rparr>"
  note s = store_fragment [OF io t f(1) st(2,3) i(1) p]
  have card: "card (insert i S) = card S + 1" using st(4) i(2) by simp
  have stored: "stored p (insert i S) ?st" "stored p (insert i S) (?st\<lparr> cupTmp := False, wum_state := WUM_STATE_READY \<rparr>)"
    using st(1) card write_chunk [OF i(1) f(2,3)] by (simp_all add: stored_def)
  have complete: "WUMIsComplete ?st \<longleftrightarrow> ?n \<le> card (insert i S)"
    using st(1,2) card by (auto simp: WUMIsComplete_def stored_def)
  have closed: "WUMCloseFile ?st = Ret (?st\<lparr> cupTmp := False, wum_state := WUM_STATE_READY \<rparr>)"
    using st(3) by (simp add: WUMCloseFile_def)
  have type: "wum_type ?w = WTP_CUP_FRAGMENT" by (simp add: cup_message_def)
  show ?thesis
    unfolding CWWTPSaveWUMValues_def type s res_bind.simps prod.case complete closed
    using stored st(2,3) by (simp add: closed)
qed

lemma save_chunks:
  assumes io: "file_works io" and p: "length p < 2147483648"
  shows "\<lbrakk>stored p S st; wum_state st = WUM_STATE_BUSY; cupTmp st; finite S; card S < fragments_of (length p);
     distinct js; set js \<inter> S = {}; S \<union> set js \<subseteq> {..<fragments_of (length p)}\<rbrakk> \<Longrightarrow>
   \<exists>st'. save_fragments io (map (\<lambda>i. cup_message i (cup_chunk p i)) js) st = Ret (replicate (length js) 0, st') \<and>
     stored p (S \<union> set js) st' \<and>
     (if fragments_of (length p) \<le> card (S \<union> set js) then wum_state st' = WUM_STATE_READY
      else wum_state st' = WUM_STATE_BUSY \<and> cupTmp st')"
proof (induction js arbitrary: S st)
  case Nil
  then show ?case by simp
next
  case (Cons i js)
  let ?n = "fragments_of (length p)"
  have i: "i < ?n" "i \<notin> S" using Cons.prems(7,8) by auto
  obtain w st1 where st1: "CWWTPSaveWUMValues io (cup_message i (cup_chunk p i)) st = Ret (0, w, st1)"
    "stored p (insert i S) st1"
    "if ?n \<le> card (insert i S) then wum_state st1 = WUM_STATE_READY else wum_state st1 = WUM_STATE_BUSY \<and> cupTmp st1"
    using store_chunk [OF io Cons.prems(1,2,3,4) i p] by metis
  have first: "save_fragments io (map (\<lambda>i. cup_message i (cup_chunk p i)) (i # js)) st =
     res_bind (save_fragments io (map (\<lambda>i. cup_message i (cup_chunk p i)) js) st1) (\<lambda>(cs, st). Ret (0 # cs, st))"
    by (simp add: st1(1))
  show ?case
  proof (cases "js = []")
    case True
    then show ?thesis unfolding first using st1(2,3) by simp
  next
    case False
    have "card (insert i S \<union> set js) = card (insert i S) + length js"
      using Cons.prems(4,6,7) by (subst card_Un_disjoint) (auto simp: distinct_card)
    moreover have "card (insert i S \<union> set js) \<le> ?n" using card_mono [of "{..<?n}" "insert i S \<union> set js"] Cons.prems(8) by simp
    ultimately have less: "card (insert i S) < ?n" using False by (cases js) simp_all
    have "\<exists>st'. save_fragments io (map (\<lambda>i. cup_message i (cup_chunk p i)) js) st1 = Ret (replicate (length js) 0, st') \<and>
      stored p (insert i S \<union> set js) st' \<and>
      (if ?n \<le> card (insert i S \<union> set js) then wum_state st' = WUM_STATE_READY else wum_state st' = WUM_STATE_BUSY \<and> cupTmp st')"
      using st1(3) less Cons.prems(4,6,7,8) by (intro Cons.IH [OF st1(2)]) auto
    then show ?thesis unfolding first by (auto simp del: if_split)
  qed
qed

lemma stored_all:
  assumes "stored p {..<fragments_of (length p)} st"
  shows "cup_file st = Some p"
proof -
  obtain f where f: "cup_file st = Some f" "length f \<le> length p"
    "\<forall>q < length p. q div 4000 < fragments_of (length p) \<longrightarrow> q < length f \<and> f ! q = p ! q" using assms by (auto simp: stored_def)
  have "q div 4000 < fragments_of (length p)" if "q < length p" for q
  proof -
    have "q div 4000 \<le> (length p - 1) div 4000" using that by (intro div_le_mono) simp
    also have "\<dots> < fragments_of (length p)" using that by (simp add: fragments_of_def)
    finally show ?thesis .
  qed
  then have q: "q < length f \<and> f ! q = p ! q" if "q < length p" for q using f(3) that by blast
  have "f = p"
  proof (rule nth_equalityI)
    show "length f = length p" using f(2) q [of "length f"] by (cases "length f < length p") auto
  qed (use f(2) q in auto)
  then show ?thesis using f(1) by simp
qed

text \<open>A version, read as one number.\<close>

definition version_number :: "CWVendorWumValues \<Rightarrow> nat" where
  "version_number w = 65536 * unat (major_v w) + 256 * unat (minor_v w) + unat (revision_v w)"

lemma check_version: "CWWTPCheckVersion w \<longleftrightarrow> 256 * 93 + 2 < version_number w"
proof -
  have b: "unat (major_v w) < 256" "unat (minor_v w) < 256" "unat (revision_v w) < 256"
    using unsigned_less [where w = "major_v w"] unsigned_less [where w = "minor_v w"] unsigned_less [where w = "revision_v w"]
    by auto
  have e: "major_v w = 0 \<longleftrightarrow> unat (major_v w) = 0" "minor_v w = 93 \<longleftrightarrow> unat (minor_v w) = 93"
    by (rule unat_eq_zero [symmetric], subst word_unat_eq_iff, simp)
  have "(if 0 < a then True else if a = 0 then if 93 < b then True else if b = 93 then 2 < c else False else False) \<longleftrightarrow>
    256 * 93 + 2 < 65536 * a + 256 * b + c" if "b < 256" "c < 256" for a b c :: nat
  proof (cases "a = 0")
    case False
    then have "65536 \<le> 65536 * a" by simp
    then have "256 * 93 + 2 < 65536 * a + 256 * b + c" by linarith
    then show ?thesis using False by simp
  next
    case True
    consider "b < 93" | "b = 93" | "93 < b" by linarith
    then show ?thesis using True that by cases simp_all
  qed
  note nums = this [OF b(2,3), of "unat (major_v w)"]
  have u: "unat (0 :: byte) = 0" "unat (93 :: byte) = 93" "unat (2 :: byte) = 2" by simp_all
  show ?thesis
    unfolding CWWTPCheckVersion_def version_number_def word_less_nat_alt e u by (rule nums)
qed

lemma prepare_update:
  assumes "file_works io" "wum_state st = WUM_STATE_WAIT" "0 < length p"
  shows "\<exists>st1. WUMPrepareForUpdate io (int (length p)) st = (True, st1) \<and> stored p {} st1 \<and> wum_state st1 = WUM_STATE_BUSY \<and>
    cupTmp st1 \<and> cup_file st1 = Some []"
proof -
  have "(n + 3999) div 4000 = (if 0 < n mod 4000 then n div 4000 + 1 else n div 4000)" for n :: nat
  proof -
    have n: "n = 4000 * (n div 4000) + n mod 4000" by simp
    have "(n + 3999) div 4000 = n div 4000 + (n mod 4000 + 3999) div 4000" by (subst n) (simp only: add.assoc div_mult_self4)
    moreover have "(n mod 4000 + 3999) div 4000 = (if 0 < n mod 4000 then 1 else 0)"
      using div_nat_eqI [of 4000 1 "n mod 4000 + 3999"] mod_less_divisor [of 4000 n] by (simp split: if_split)
    ultimately show ?thesis by simp
  qed
  from arg_cong [OF this, of int "length p"] have "int ((length p + 3999) div 4000) =
    (if int (length p) mod 4000 > 0 then int (length p) div 4000 + 1 else int (length p) div 4000)"
    using zmod_int [of "length p" 4000] by (simp add: zdiv_int split: if_splits)
  then show ?thesis
    using assms by (simp add: WUMPrepareForUpdate_def file_works_def stored_def fragments_of_def Let_def)
qed

text \<open>
  C8: An update of the software of a WTP. A WTP that waits for one takes the announcement of a package that is newer than version
  0.93.2 (the three numbers compared as one, the major number first) and fits into its free space. The fragments into which the client cuts the package,
  in whatever order they come, are all acknowledged with success, the WTP is busy until the last of them, and then
  it is ready and its file is the package, byte for byte.
\<close>

theorem update_file:
  assumes io: "file_works io" "free_space io = Some room" "length p < room"
    and w: "wum_type w = WTP_UPDATE_REQUEST" "pack_size w = word_of_nat (length p)" "256 * 93 + 2 < version_number w"
    and p: "0 < length p" "length p < 2147483648"
    and st: "wum_state st = WUM_STATE_WAIT"
    and js: "distinct js" "set js = {..<length (WUMUpdate_fragments 0 p)}"
  shows "\<exists>w1 st1. CWWTPSaveWUMValues io w st = Ret (0, w1, st1) \<and> wum_type w1 = WTP_UPDATE_RESPONSE \<and>
     wum_state st1 = WUM_STATE_BUSY \<and>
     (\<forall>k \<le> length js. \<exists>st2.
        save_fragments io (map ((!) (WUMUpdate_fragments 0 p)) (take k js)) st1 = Ret (replicate k 0, st2) \<and>
        (if k < length js then wum_state st2 = WUM_STATE_BUSY
         else wum_state st2 = WUM_STATE_READY \<and> cup_file st2 = Some p))"
proof -
  let ?n = "fragments_of (length p)"
  have fs: "WUMUpdate_fragments 0 p = map (\<lambda>i. cup_message i (cup_chunk p i)) [0..<?n]"
    using client_fragments [of 0 p] by simp
  have l: "length (WUMUpdate_fragments 0 p) = ?n" by (simp add: fs)
  have "0 < ?n" using p(1) unfolding fragments_of_def by (subst div_greater_zero_iff) linarith
  moreover have "length js = ?n" using distinct_card [OF js(1)] js(2) l by simp
  ultimately have n: "0 < ?n" "length js = ?n" "set js = {..<?n}" using js(2) l by simp_all
  obtain st1 where st1: "WUMPrepareForUpdate io (int (length p)) st = (True, st1)" "stored p {} st1"
    "wum_state st1 = WUM_STATE_BUSY" "cupTmp st1" using prepare_update [OF io(1) st p(1)] by blast
  have size: "sint (pack_size w) = int (length p)" using signed_small [OF p(2)] w(2) by simp
  have version: "CWWTPCheckVersion (w\<lparr>wum_type := WTP_UPDATE_RESPONSE\<rparr>)"
    using w(3) by (simp add: check_version version_number_def)
  have space: "check_free_space io (int (length p))" using io(2,3) p(2) by (simp add: check_free_space_def)
  have "CWWTPSaveWUMValues io w st = Ret (0, w\<lparr>wum_type := WTP_UPDATE_RESPONSE\<rparr>, st1)"
    using version space by (simp add: CWWTPSaveWUMValues_def w(1) size st1(1) Let_def)
  moreover have "\<exists>st2. save_fragments io (map ((!) (WUMUpdate_fragments 0 p)) (take k js)) st1 = Ret (replicate k 0, st2) \<and>
        (if k < length js then wum_state st2 = WUM_STATE_BUSY
         else wum_state st2 = WUM_STATE_READY \<and> cup_file st2 = Some p)" if k: "k \<le> length js" for k
  proof -
    have in_range: "i < ?n" if "i \<in> set (take k js)" for i using that n(3) set_take_subset [of k js] by auto
    have m: "map ((!) (WUMUpdate_fragments 0 p)) (take k js) = map (\<lambda>i. cup_message i (cup_chunk p i)) (take k js)"
      using in_range by (intro map_cong) (auto simp: fs)
    have card: "card (set (take k js)) = k" using k distinct_card [OF distinct_take [OF js(1)]] by simp
    obtain st2 where st2: "save_fragments io (map (\<lambda>i. cup_message i (cup_chunk p i)) (take k js)) st1 = Ret (replicate (length (take k js)) 0, st2)"
      "stored p ({} \<union> set (take k js)) st2"
      "if ?n \<le> card ({} \<union> set (take k js)) then wum_state st2 = WUM_STATE_READY else wum_state st2 = WUM_STATE_BUSY \<and> cupTmp st2"
      using save_chunks [OF io(1) p(2) st1(2,3,4), of "take k js"] n(1) js(1) in_range by (auto simp del: if_split)
    have "cup_file st2 = Some p" if "k = length js" using st2(2) that n(3) by (intro stored_all) simp
    then show ?thesis using st2(1,3) k card n(2) unfolding m by (auto simp: min_absorb2)
  qed
  ultimately show ?thesis using st1(3) by (intro exI [of _ "w\<lparr>wum_type := WTP_UPDATE_RESPONSE\<rparr>"] exI [of _ st1]) simp
qed

theorem update_file_witness:
  "\<exists>w1 st1 st2. CWWTPSaveWUMValues
     \<lparr> fopen_ok = True, fseek_ok = True, fwrite_count = None, fork_ok = True, remove_ok = True, free_space = Some 9000 \<rparr>
     \<lparr> wum_type = WTP_UPDATE_REQUEST, major_v = 1, minor_v = 0, revision_v = 0, pack_size = 8001, cup_seq_num = 0,
       cup_fragment_size = 0, cup = None \<rparr>
     \<lparr> wum_state = WUM_STATE_WAIT, cupTmp = False, cup_file = None, cupSize = 0, total_fragments = 0,
       received_fragments = 0, agents = 0, WTPExitOnUpdateCommit = False \<rparr> = Ret (0, w1, st1) \<and>
     save_fragments
       \<lparr> fopen_ok = True, fseek_ok = True, fwrite_count = None, fork_ok = True, remove_ok = True, free_space = Some 9000 \<rparr>
       (map ((!) (WUMUpdate_fragments 0 (replicate 8001 7))) [2, 0, 1]) st1 = Ret ([0, 0, 0], st2) \<and>
     wum_state st2 = WUM_STATE_READY \<and> cup_file st2 = Some (replicate 8001 7)"
proof -
  let ?io = "\<lparr> fopen_ok = True, fseek_ok = True, fwrite_count = None, fork_ok = True, remove_ok = True, free_space = Some 9000 \<rparr>"
  let ?w = "\<lparr> wum_type = WTP_UPDATE_REQUEST, major_v = 1, minor_v = 0, revision_v = 0, pack_size = 8001, cup_seq_num = 0,
       cup_fragment_size = 0, cup = None \<rparr>"
  let ?st = "\<lparr> wum_state = WUM_STATE_WAIT, cupTmp = False, cup_file = None, cupSize = 0, total_fragments = 0,
       received_fragments = 0, agents = 0, WTPExitOnUpdateCommit = False \<rparr>"
  let ?p = "replicate 8001 7 :: byte list"
  have n: "length (WUMUpdate_fragments 0 ?p) = 3" by (simp add: client_fragments fragments_of_def)
  have s: "set [2, 0, 1 :: nat] = {..<3}" by (simp add: set_eq_iff) arith
  have "\<exists>w1 st1. CWWTPSaveWUMValues ?io ?w ?st = Ret (0, w1, st1) \<and> wum_type w1 = WTP_UPDATE_RESPONSE \<and>
     wum_state st1 = WUM_STATE_BUSY \<and> (\<forall>k \<le> length [2, 0, 1 :: nat]. \<exists>st2.
        save_fragments ?io (map ((!) (WUMUpdate_fragments 0 ?p)) (take k [2, 0, 1])) st1 = Ret (replicate k 0, st2) \<and>
        (if k < length [2, 0, 1 :: nat] then wum_state st2 = WUM_STATE_BUSY
         else wum_state st2 = WUM_STATE_READY \<and> cup_file st2 = Some ?p))"
    by (rule update_file [of _ 9000]) (simp_all add: file_works_def version_number_def n s [simplified] del: replicate_Suc)
  then obtain w1 st1 where a: "CWWTPSaveWUMValues ?io ?w ?st = Ret (0, w1, st1)"
    and b: "\<forall>k \<le> length [2, 0, 1 :: nat]. \<exists>st2.
        save_fragments ?io (map ((!) (WUMUpdate_fragments 0 ?p)) (take k [2, 0, 1])) st1 = Ret (replicate k 0, st2) \<and>
        (if k < length [2, 0, 1 :: nat] then wum_state st2 = WUM_STATE_BUSY
         else wum_state st2 = WUM_STATE_READY \<and> cup_file st2 = Some ?p)" by blast
  from b [rule_format, of 3] obtain st2 where c:
    "save_fragments ?io (map ((!) (WUMUpdate_fragments 0 ?p)) (take 3 [2, 0, 1])) st1 = Ret (replicate 3 0, st2)"
    "wum_state st2 = WUM_STATE_READY" "cup_file st2 = Some ?p" by auto
  have t: "take 3 [2, 0, 1 :: nat] = [2, 0, 1]" "replicate 3 (0 :: 32 word) = [0, 0, 0]"
    by (simp_all add: numeral_3_eq_3)
  show ?thesis using a c unfolding t by blast
qed

text \<open>Repeating the first fragment.\<close>

lemma write_again: "write_at 0 bs bs = bs"
  by (simp add: write_at_def)

lemma store_first_again:
  assumes io: "file_works io" and p: "0 < length p" "length p < 2147483648"
  shows "\<lbrakk>total_fragments st = int (fragments_of (length p)); received_fragments st = int k;
     cup_file st = Some (if k = 0 then [] else take 4000 p); wum_state st = WUM_STATE_BUSY; cupTmp st;
     k + m = fragments_of (length p); 0 < m\<rbrakk> \<Longrightarrow>
   \<exists>st'. save_fragments io (replicate m (cup_message 0 (take 4000 p))) st = Ret (replicate m 0, st') \<and>
     wum_state st' = WUM_STATE_READY \<and> cup_file st' = Some (take 4000 p) \<and> agents st' = agents st"
proof (induction m arbitrary: k st)
  case 0
  then show ?case by simp
next
  case (Suc m)
  let ?n = "fragments_of (length p)"
  have n: "0 < ?n" using p(1) unfolding fragments_of_def by (subst div_greater_zero_iff) linarith
  have c: "cup_chunk p 0 = take 4000 p" by (simp add: cup_chunk_def)
  have f: "write_at 0 (take 4000 p) (if k = 0 then [] else take 4000 p) = take 4000 p"
    by (simp add: write_again) (simp add: write_at_def)
  let ?st = "st\<lparr> cup_file := Some (take 4000 p), received_fragments := received_fragments st + 1 \<rparr>"
  have s: "WUMStoreFragment io ((cup_message 0 (take 4000 p))\<lparr>wum_type := WTP_CUP_ACK\<rparr>) st =
    Ret (True, (cup_message 0 (take 4000 p))\<lparr> wum_type := WTP_CUP_ACK, cup := None \<rparr>, ?st)"
    using store_fragment [OF io Suc.prems(1,3,4,5) n p(2)] by (simp add: c f)
  have type: "wum_type (cup_message 0 (take 4000 p)) = WTP_CUP_FRAGMENT" by (simp add: cup_message_def)
  show ?case
  proof (cases "m = 0")
    case True
    have "WUMIsComplete ?st" using Suc.prems True by (simp add: WUMIsComplete_def)
    then show ?thesis using True Suc.prems(5)
      by (simp add: CWWTPSaveWUMValues_def type s WUMCloseFile_def)
  next
    case False
    have "\<not> WUMIsComplete ?st" using Suc.prems False by (simp add: WUMIsComplete_def)
    then have one: "CWWTPSaveWUMValues io (cup_message 0 (take 4000 p)) st =
      Ret (0, (cup_message 0 (take 4000 p))\<lparr> wum_type := WTP_CUP_ACK, cup := None \<rparr>, ?st)"
      by (simp add: CWWTPSaveWUMValues_def type s)
    have "\<exists>st'. save_fragments io (replicate m (cup_message 0 (take 4000 p))) ?st = Ret (replicate m 0, st') \<and>
     wum_state st' = WUM_STATE_READY \<and> cup_file st' = Some (take 4000 p) \<and> agents st' = agents ?st"
      using Suc.prems False by (intro Suc.IH [of ?st "Suc k"]) simp_all
    then show ?thesis by (auto simp: one)
  qed
qed

text \<open>
  C10: What counts is the number of fragments, not which they are: when the first fragment is sent as often as the package has
  fragments, each is acknowledged with success, the WTP is ready, and the commit, which succeeds too, starts the update agent on a file that
  holds the first fragment alone. A commit that is refused, which it is in every state but that one, starts the agent as well
  on whatever file there is, and ends the WTP.
\<close>

theorem partial_package_committed:
  assumes io: "file_works io" "fork_ok io"
    and p: "0 < length p" "length p < 2147483648"
    and st: "total_fragments st = int (fragments_of (length p))" "received_fragments st = 0" "cup_file st = Some []"
      "wum_state st = WUM_STATE_BUSY" "cupTmp st"
    and w: "wum_type w = WTP_COMMIT_UPDATE" and st0: "wum_state st0 \<noteq> WUM_STATE_READY"
  shows "(\<exists>st' w' st''.
     save_fragments io (replicate (length (WUMUpdate_fragments 0 p)) (WUMUpdate_fragments 0 p ! 0)) st =
       Ret (replicate (length (WUMUpdate_fragments 0 p)) 0, st') \<and>
     CWWTPSaveWUMValues io w st' = Ret (0, w', st'') \<and> cup_file st'' = Some (take 4000 p) \<and>
     agents st'' = agents st + 1 \<and> WTPExitOnUpdateCommit st'') \<and>
   (\<exists>w' st''. CWWTPSaveWUMValues io w st0 = Ret (3, w', st'') \<and> cup_file st'' = cup_file st0 \<and>
     agents st'' = agents st0 + 1 \<and> WTPExitOnUpdateCommit st'')"
proof -
  have fs: "WUMUpdate_fragments 0 p = map (\<lambda>i. cup_message i (cup_chunk p i)) [0..<fragments_of (length p)]"
    using client_fragments [of 0 p] by simp
  have n: "0 < fragments_of (length p)" using p(1) unfolding fragments_of_def by (subst div_greater_zero_iff) linarith
  have f: "length (WUMUpdate_fragments 0 p) = fragments_of (length p)" "WUMUpdate_fragments 0 p ! 0 = cup_message 0 (take 4000 p)"
    using n by (simp_all add: fs cup_chunk_def)
  obtain st' where s: "save_fragments io (replicate (fragments_of (length p)) (cup_message 0 (take 4000 p))) st =
      Ret (replicate (fragments_of (length p)) 0, st')"
    "wum_state st' = WUM_STATE_READY" "cup_file st' = Some (take 4000 p)" "agents st' = agents st"
    using store_first_again [OF io(1) p st(1), of 0 "fragments_of (length p)"] st(2-5) n by auto
  have "\<exists>w' st''. CWWTPSaveWUMValues io w st' = Ret (0, w', st'') \<and> cup_file st'' = Some (take 4000 p) \<and>
     agents st'' = agents st + 1 \<and> WTPExitOnUpdateCommit st''"
    using s(2-4) io(2) by (simp add: CWWTPSaveWUMValues_def w StartWUA_def)
  moreover have "\<exists>w' st''. CWWTPSaveWUMValues io w st0 = Ret (3, w', st'') \<and> cup_file st'' = cup_file st0 \<and>
     agents st'' = agents st0 + 1 \<and> WTPExitOnUpdateCommit st''"
    using st0 io(2) by (simp add: CWWTPSaveWUMValues_def w StartWUA_def)
  ultimately show ?thesis unfolding f using s(1) by blast
qed

theorem partial_package_committed_witness:
  "\<exists>st' w' st''.
     save_fragments
       \<lparr> fopen_ok = True, fseek_ok = True, fwrite_count = None, fork_ok = True, remove_ok = True, free_space = Some 9000 \<rparr>
       (replicate (length (WUMUpdate_fragments 0 (replicate 8001 7))) (WUMUpdate_fragments 0 (replicate 8001 7) ! 0))
       \<lparr> wum_state = WUM_STATE_BUSY, cupTmp = True, cup_file = Some [], cupSize = 8001, total_fragments = 3,
         received_fragments = 0, agents = 0, WTPExitOnUpdateCommit = False \<rparr> =
       Ret (replicate (length (WUMUpdate_fragments 0 (replicate 8001 7))) 0, st') \<and>
     CWWTPSaveWUMValues
       \<lparr> fopen_ok = True, fseek_ok = True, fwrite_count = None, fork_ok = True, remove_ok = True, free_space = Some 9000 \<rparr>
       ((cup_message 0 [])\<lparr>wum_type := WTP_COMMIT_UPDATE\<rparr>) st' = Ret (0, w', st'') \<and>
     cup_file st'' = Some (replicate 4000 7) \<and> agents st'' = 1 \<and>
   (\<exists>w' st''. CWWTPSaveWUMValues
       \<lparr> fopen_ok = True, fseek_ok = True, fwrite_count = None, fork_ok = True, remove_ok = True, free_space = Some 9000 \<rparr>
       ((cup_message 0 [])\<lparr>wum_type := WTP_COMMIT_UPDATE\<rparr>)
       \<lparr> wum_state = WUM_STATE_WAIT, cupTmp = False, cup_file = None, cupSize = 0, total_fragments = 0,
         received_fragments = 0, agents = 0, WTPExitOnUpdateCommit = False \<rparr> = Ret (3, w', st'') \<and>
     WTPExitOnUpdateCommit st'')"
proof -
  let ?io = "\<lparr> fopen_ok = True, fseek_ok = True, fwrite_count = None, fork_ok = True, remove_ok = True, free_space = Some 9000 \<rparr>"
  let ?st = "\<lparr> wum_state = WUM_STATE_BUSY, cupTmp = True, cup_file = Some [], cupSize = 8001, total_fragments = 3,
         received_fragments = 0, agents = 0, WTPExitOnUpdateCommit = False \<rparr>"
  let ?waits = "\<lparr> wum_state = WUM_STATE_WAIT, cupTmp = False, cup_file = None, cupSize = 0, total_fragments = 0,
         received_fragments = 0, agents = 0, WTPExitOnUpdateCommit = False \<rparr>"
  let ?p = "replicate 8001 7 :: byte list"
  have h: "file_works ?io" "fork_ok ?io" "0 < length ?p" "length ?p < 2147483648"
    "total_fragments ?st = int (fragments_of (length ?p))" "received_fragments ?st = 0" "cup_file ?st = Some []"
    "wum_state ?st = WUM_STATE_BUSY" "cupTmp ?st" "wum_type ((cup_message 0 [])\<lparr>wum_type := WTP_COMMIT_UPDATE\<rparr>) = WTP_COMMIT_UPDATE"
    "wum_state ?waits \<noteq> WUM_STATE_READY"
    by (simp_all add: file_works_def fragments_of_def del: replicate_Suc)
  have "take 4000 ?p = replicate 4000 7" "agents ?st + 1 = 1" by (simp_all add: take_replicate del: replicate_Suc)
  then show ?thesis using partial_package_committed [OF h] by (metis (lifting))
qed

subsection \<open>A message of the update in an element\<close>

fun wum_body :: "CWVendorWumValues \<Rightarrow> byte list" where
  "wum_body w = be16 2 @ [wum_type w] @
     (if wum_type w = WTP_UPDATE_REQUEST then [major_v w, minor_v w, revision_v w] @ be32 (pack_size w)
      else if wum_type w = WTP_CUP_FRAGMENT then be32 (cup_seq_num w) @ be32 (cup_fragment_size w) @ the (cup w)
      else [])"

declare wum_body.simps [simp del]

text \<open>A message the AC can send, and what the WTP reads of it into the block \<open>old\<close>.\<close>

definition wum_ok :: "CWVendorWumValues \<Rightarrow> bool" where
  "wum_ok w \<longleftrightarrow> wum_type w \<in> {WTP_VERSION_REQUEST, WTP_UPDATE_REQUEST, WTP_CUP_FRAGMENT, WTP_COMMIT_UPDATE, WTP_CANCEL_UPDATE_REQUEST} \<and>
     (wum_type w = WTP_CUP_FRAGMENT \<longrightarrow> (\<exists>bs. cup w = Some bs \<and> length bs = unat (cup_fragment_size w) \<and> length bs < 65000))"

definition wum_view :: "CWVendorWumValues \<Rightarrow> CWVendorWumValues \<Rightarrow> CWVendorWumValues" where
  "wum_view old w =
     (if wum_type w = WTP_UPDATE_REQUEST
      then old\<lparr> wum_type := wum_type w, major_v := major_v w, minor_v := minor_v w, revision_v := revision_v w, pack_size := pack_size w \<rparr>
      else if wum_type w = WTP_CUP_FRAGMENT
      then old\<lparr> wum_type := wum_type w, cup_seq_num := cup_seq_num w, cup_fragment_size := cup_fragment_size w, cup := cup w \<rparr>
      else old\<lparr>wum_type := wum_type w\<rparr>)"

lemma wum_size:
  assumes "wum_ok w" "wum_type w = WTP_CUP_FRAGMENT"
  obtains bs where "cup w = Some bs" "sint (cup_fragment_size w) = int (length bs)" "uint (cup_fragment_size w) = int (length bs)"
    "length bs < 65000"
proof -
  obtain bs where bs: "cup w = Some bs" "length bs = unat (cup_fragment_size w)" "length bs < 65000"
    using assms by (auto simp: wum_ok_def)
  then have "cup_fragment_size w = word_of_nat (length bs)" by simp
  with bs(3) have "sint (cup_fragment_size w) = int (length bs)" "uint (cup_fragment_size w) = int (length bs)"
    using signed_small [of "length bs"] unsigned_small [of "length bs"] by simp_all
  with bs show ?thesis using that by blast
qed

lemma wum_body_length: "wum_ok w \<Longrightarrow> length (wum_body w) < 65100"
  by (auto simp: wum_body.simps elim: wum_size)

lemma assemble_wum:
  assumes "ample mem" "wum_ok w"
  shows "\<exists>v. CWAssembleWTPVendorPayloadWUM mem (WumValues w) = (Ret (elem_msg 57 (wum_body w)), v)"
proof (cases "wum_type w = WTP_CUP_FRAGMENT")
  case True
  obtain bs where bs: "cup w = Some bs" "sint (cup_fragment_size w) = int (length bs)" "uint (cup_fragment_size w) = int (length bs)"
    using wum_size [OF assms(2) True] by blast
  have "calls_ok (wum_calls w)" "calls_bytes (wum_calls w) = wum_body w" "wum_block w = Some (11 + int (length bs))"
    "length (wum_body w) = 11 + length bs"
    using True bs by (simp_all add: wum_calls_def wum_body.simps wum_block_def)
  then show ?thesis using assms(1)
    by (simp add: CWAssembleWTPVendorPayloadWUM_def assemble_elem_eq ample_malloc)
next
  case False
  then have "calls_ok (wum_calls w)" "calls_bytes (wum_calls w) = wum_body w" by (simp_all add: wum_calls_def wum_body.simps)
  moreover obtain n where "wum_block w = Some n" "0 \<le> n" "int (length (wum_body w)) \<le> n"
    using assms(2) False by (auto simp: wum_ok_def wum_block_def wum_body.simps)
  ultimately show ?thesis using assms(1)
    by (simp add: CWAssembleWTPVendorPayloadWUM_def assemble_elem_eq ample_malloc)
qed

lemma parse_wum:
  assumes "ample mem" "wum_ok w"
  shows "CWParseVendorPayload mem old (rmsg bs (wum_body w @ rest) x) =
    Ret (WumValues (wum_view old w), rmsg (bs @ wum_body w) rest x)"
proof (cases "wum_type w = WTP_CUP_FRAGMENT")
  case True
  obtain c where c: "cup w = Some c" "sint (cup_fragment_size w) = int (length c)"
    using wum_size [OF assms(2) True] by blast
  show ?thesis
    using True c assms(1)
    by (simp add: CWParseVendorPayload_def CWParseWUMPayload_def on_error_free_def wum_body.simps wum_view_def ample_malloc wire Let_def)
next
  case False
  then show ?thesis
    using assms(1)
    by (simp add: CWParseVendorPayload_def CWParseWUMPayload_def on_error_free_def wum_body.simps wum_view_def ample_malloc wire Let_def)
qed

lemma parse_update_request:
  assumes "ample mem" "wum_ok w" "e = elem_bytes 57 (wum_body w)"
  shows "CWParseConfigurationUpdateRequest mem old e (int (length e)) =
    Some (Ret \<lparr> bindingValues = NoUpdate, protocolValues = Some (WumValues (wum_view old w)) \<rparr>)"
proof -
  let ?l = "int (length e)"
  have l: "length (wum_body w) < 65536" using wum_body_length [OF assms(2)] by simp
  have e: "start_of e = rmsg [] (elem_bytes 57 (wum_body w) @ []) None" by (simp add: start_of_rmsg assms(3))
  have pos: "int (length []) - int 0 < ?l" "?l \<le> int (length ([] @ elem_bytes 57 (wum_body w))) - int 0" by (simp_all add: assms(3))
  have b: "update_kind_branch (False, False) (ucast (57 :: 32 word)) m l = Ret ((False, True), m\<lparr>offset := offset m + nat l\<rparr>)" for m l
    by (simp add: update_kind_branch_def CWBindingCheckType_def Let_def)
  have kind: "parse_elements update_kind_branch 0 ?l (False, False) (start_of e) =
      Some (Ret ((False, True), rmsg ([] @ elem_bytes 57 (wum_body w)) [] None))"
    unfolding e
    using b by (subst parse_elements_skip [OF pos(1) l, where s' = "(False, True)"]) (simp_all add: parse_elements_end pos(2) [simplified])
  have last_type: "parse_elements last_type_branch 0 ?l 0 (start_of e) =
      Some (Ret (57, rmsg ([] @ elem_bytes 57 (wum_body w)) [] None))"
    unfolding e
    by (subst parse_elements_skip [OF pos(1) l, where s' = 57]) (simp_all add: last_type_branch_def parse_elements_end pos(2) [simplified])
  have vendor: "parse_elements (vendor_branch mem old True) 0 ?l None (start_of e) =
      Some (Ret (Some (WumValues (wum_view old w)), rmsg ([] @ elem_bytes 57 (wum_body w)) [] None))"
    unfolding e
    by (subst parse_elements_step [OF pos(1) l, where s' = "Some (WumValues (wum_view old w))"])
       (simp_all add: vendor_branch_def parse_wum [OF assms(1,2), where rest = "[]", simplified] elem_bytes_def parse_elements_end pos(2) [simplified])
  show ?thesis
    using assms(1) kind last_type vendor
    by (simp add: CWParseConfigurationUpdateRequest_def CWParseVendorMessage_def ample_malloc assms(3) [symmetric])
qed

end
