(* ===== verification/Frames80211.thy ===== *)
theory Frames80211
  imports WTPUpdate
begin

section \<open>IEEE 802.11 frames: CW80211InformationElements.c and CWTunnel.c\<close>

text \<open>
  Frames are assembled in a block of zeros, at an offset that moves on with each information element; the block
  can be too small. They are parsed in the block they lie in, with an offset too. Numbers of two bytes
  are copied in the byte order of the host, which is little-endian here.
\<close>

subsection \<open>A frame that is assembled\<close>

type_synonym frame80211 = "byte list \<times> nat"

definition le16 :: "16 word \<Rightarrow> byte list" where
  "le16 v = rev (be16 v)"

definition new_frame :: "memory \<Rightarrow> int \<Rightarrow> frame80211 res" where
  "new_frame mem n = (if malloc_ok mem n then Ret (replicate (nat n) 0, 0) else Raise CW_ERROR_OUT_OF_MEMORY)"

definition put :: "byte list \<Rightarrow> frame80211 \<Rightarrow> frame80211 res" where
  "put bs = (\<lambda>(b, off).
     if off + length bs \<le> length b then Ret (take off b @ bs @ drop (off + length bs) b, off + length bs) else Fault)"

definition skip :: "nat \<Rightarrow> frame80211 \<Rightarrow> frame80211 res" where
  "skip n = (\<lambda>(b, off). Ret (b, off + n))"

text \<open>The elements of a frame one after the other; the first that fails ends it.\<close>

primrec put_all :: "(frame80211 \<Rightarrow> frame80211 res) list \<Rightarrow> frame80211 \<Rightarrow> frame80211 res" where
  "put_all [] f = Ret f"
| "put_all (g # gs) f = res_bind (g f) (put_all gs)"

subsection \<open>Information elements: assembly\<close>

definition IEEE80211_FC :: "16 word \<Rightarrow> 16 word \<Rightarrow> 16 word" where
  "IEEE80211_FC type stype = push_bit 2 type OR push_bit 4 stype"

definition CW80211AssembleIEFrameControl :: "16 word \<Rightarrow> 16 word \<Rightarrow> frame80211 \<Rightarrow> frame80211 res" where
  "CW80211AssembleIEFrameControl type stype = put (le16 (IEEE80211_FC type stype))"

definition CW80211AssembleIEFrameControlData :: "16 word \<Rightarrow> 16 word \<Rightarrow> int \<Rightarrow> int \<Rightarrow> frame80211 \<Rightarrow> frame80211 res" where
  "CW80211AssembleIEFrameControlData type stype toDS fromDS =
     (let v = IEEE80211_FC type stype;
          v = (if toDS = 1 then set_bit 8 v else unset_bit 8 v);
          v = (if fromDS = 1 then set_bit 9 v else unset_bit 9 v)
      in put (le16 v))"

text \<open>\<^verbatim>\<open>htons(host_to_le16(value))\<close> swaps the bytes on this host.\<close>

definition CW80211AssembleIEDuration :: "16 word \<Rightarrow> frame80211 \<Rightarrow> frame80211 res" where
  "CW80211AssembleIEDuration v = put (be16 v)"

definition CW80211AssembleIESequenceNumber :: "16 word \<Rightarrow> frame80211 \<Rightarrow> frame80211 res" where
  "CW80211AssembleIESequenceNumber v = put (be16 v)"

definition CW80211AssembleIEAddr :: "byte list option \<Rightarrow> frame80211 \<Rightarrow> frame80211 res" where
  "CW80211AssembleIEAddr a f =
     (case a of None \<Rightarrow> put (replicate 6 255) f
      | Some bs \<Rightarrow> if length bs < 6 then Fault else put (take 6 bs) f)"

definition CW80211AssembleIEBeaconInterval :: "16 word \<Rightarrow> frame80211 \<Rightarrow> frame80211 res" where
  "CW80211AssembleIEBeaconInterval v = put (be16 v)"

definition CW80211AssembleIECapability :: "16 word \<Rightarrow> frame80211 \<Rightarrow> frame80211 res" where
  "CW80211AssembleIECapability v = put (le16 v)"

definition CW80211AssembleIEAuthAlgoNum :: "16 word \<Rightarrow> frame80211 \<Rightarrow> frame80211 res" where
  "CW80211AssembleIEAuthAlgoNum v = put (le16 v)"

definition CW80211AssembleIEAuthTransNum :: "16 word \<Rightarrow> frame80211 \<Rightarrow> frame80211 res" where
  "CW80211AssembleIEAuthTransNum v = put (le16 v)"

definition CW80211AssembleIEStatusCode :: "16 word \<Rightarrow> frame80211 \<Rightarrow> frame80211 res" where
  "CW80211AssembleIEStatusCode v = put (le16 v)"

text \<open>\<open>r\<close> is what \<^verbatim>\<open>rand\<close> returned.\<close>

definition CW80211SetAssociationID :: "int \<Rightarrow> 16 word" where
  "CW80211SetAssociationID r = word_of_int (r mod 256)"

definition CW80211AssembleIEAssID :: "16 word \<Rightarrow> frame80211 \<Rightarrow> frame80211 res" where
  "CW80211AssembleIEAssID v = put (le16 (set_bit 15 (set_bit 14 v)))"

definition CW80211AssembleIEERP :: "16 word \<Rightarrow> frame80211 \<Rightarrow> frame80211 res" where
  "CW80211AssembleIEERP v = put_all [put [42], put [1], put [0]]"

definition CW80211AssembleIESSID :: "byte list \<Rightarrow> frame80211 \<Rightarrow> frame80211 res" where
  "CW80211AssembleIESSID s =
     (let s = c_string s in put_all [put [0], put [word_of_nat (length s)], put s])"

definition assemble_rates :: "byte \<Rightarrow> byte list \<Rightarrow> int \<Rightarrow> frame80211 \<Rightarrow> frame80211 res" where
  "assemble_rates type rates n =
     put_all
       [put [type],
        \<lambda>f. if n \<le> 0 then Raise CW_ERROR_NONE else put [word_of_int n] f,
        \<lambda>f. if length rates < nat n then Fault else put (take (nat n) rates) f]"

definition CW80211AssembleIESupportedRates :: "byte list \<Rightarrow> int \<Rightarrow> frame80211 \<Rightarrow> frame80211 res" where
  "CW80211AssembleIESupportedRates = assemble_rates 1"

definition CW80211AssembleIEExtendedSupportedRates :: "byte list \<Rightarrow> int \<Rightarrow> frame80211 \<Rightarrow> frame80211 res" where
  "CW80211AssembleIEExtendedSupportedRates = assemble_rates 50"

definition CW80211AssembleIEDSSS :: "byte \<Rightarrow> frame80211 \<Rightarrow> frame80211 res" where
  "CW80211AssembleIEDSSS v = put_all [put [3], put [1], put [v]]"

text \<open>The length, 300, does not fit into its byte.\<close>

definition CW80211AssembleIEMaxIdlePeriod :: "16 word \<Rightarrow> frame80211 \<Rightarrow> frame80211 res" where
  "CW80211AssembleIEMaxIdlePeriod v = put_all [put [90], put [word_of_int 300], put (take 1 (le16 v))]"

definition CW8023AssembleHdrLength :: "16 word \<Rightarrow> frame80211 \<Rightarrow> frame80211 res" where
  "CW8023AssembleHdrLength v = put (le16 v)"

subsection \<open>Information elements: parsing\<close>

text \<open>A parse function gets the block and the offset, and returns what it read with the new offset.\<close>

definition get :: "nat \<Rightarrow> byte list \<Rightarrow> nat \<Rightarrow> (byte list \<times> nat) res" where
  "get n b off = (if off + n \<le> length b then Ret (take n (drop off b), off + n) else Fault)"

definition get16 :: "byte list \<Rightarrow> nat \<Rightarrow> (16 word \<times> nat) res" where
  "get16 b off = res_bind (get 2 b off) (\<lambda>(bs, off). Ret (of_be16 (rev bs), off))"

definition CW80211ParseFrameIEControl :: "byte list \<Rightarrow> nat \<Rightarrow> (16 word \<times> nat) res" where
  "CW80211ParseFrameIEControl = get16"

definition CW80211ParseFrameIEDuration :: "byte list \<Rightarrow> nat \<Rightarrow> (16 word \<times> nat) res" where
  "CW80211ParseFrameIEDuration = get16"

definition CW80211ParseFrameIEAddr :: "byte list \<Rightarrow> nat \<Rightarrow> (eth \<times> nat) res" where
  "CW80211ParseFrameIEAddr b off =
     res_bind (get 6 b off) (\<lambda>(bs, off). case eth_of_bytes bs of Some a \<Rightarrow> Ret (a, off) | None \<Rightarrow> Fault)"

definition CW80211ParseFrameIESeqCtrl :: "byte list \<Rightarrow> nat \<Rightarrow> (16 word \<times> nat) res" where
  "CW80211ParseFrameIESeqCtrl = get16"

definition CW80211ParseFrameIEStatusCode :: "byte list \<Rightarrow> nat \<Rightarrow> (16 word \<times> nat) res" where
  "CW80211ParseFrameIEStatusCode = get16"

definition CW80211ParseFrameIEReasonCode :: "byte list \<Rightarrow> nat \<Rightarrow> (16 word \<times> nat) res" where
  "CW80211ParseFrameIEReasonCode = get16"

definition CW80211ParseFrameIEAuthAlgo :: "byte list \<Rightarrow> nat \<Rightarrow> (16 word \<times> nat) res" where
  "CW80211ParseFrameIEAuthAlgo = get16"

definition CW80211ParseFrameIEAuthTransaction :: "byte list \<Rightarrow> nat \<Rightarrow> (16 word \<times> nat) res" where
  "CW80211ParseFrameIEAuthTransaction = get16"

definition CW80211ParseFrameIECapability :: "byte list \<Rightarrow> nat \<Rightarrow> (16 word \<times> nat) res" where
  "CW80211ParseFrameIECapability = get16"

definition CW80211ParseFrameIEAssID :: "byte list \<Rightarrow> nat \<Rightarrow> (16 word \<times> nat) res" where
  "CW80211ParseFrameIEAssID = get16"

definition CW80211ParseFrameIEListenInterval :: "byte list \<Rightarrow> nat \<Rightarrow> (16 word \<times> nat) res" where
  "CW80211ParseFrameIEListenInterval = get16"

text \<open>The length is a signed byte. What is copied into the new array, which has a zero more, is the result.\<close>

definition get_array :: "memory \<Rightarrow> int \<Rightarrow> byte list \<Rightarrow> nat \<Rightarrow> (byte list \<times> nat) res" where
  "get_array mem n b off =
     (if \<not> malloc_ok mem (n + 1) then Raise CW_ERROR_OUT_OF_MEMORY
      else if n < 0 then Fault
      else get (nat n) b off)"

text \<open>An empty SSID becomes the string UE.\<close>

definition CW80211ParseFrameIESSID :: "memory \<Rightarrow> byte list \<Rightarrow> nat \<Rightarrow> (byte list \<times> nat) res" where
  "CW80211ParseFrameIESSID mem b off =
     res_bind (get 1 b off) (\<lambda>(t, off).
     if t \<noteq> [0] then Raise CW_ERROR_NONE
     else res_bind (get 1 b off) (\<lambda>(l, off).
       let n = sint (hd l) in
       if n = 0 then if malloc_ok mem 3 then Ret ([85, 69], off) else Raise CW_ERROR_OUT_OF_MEMORY
       else get_array mem n b off))"

definition parse_rates :: "byte \<Rightarrow> memory \<Rightarrow> byte list \<Rightarrow> nat \<Rightarrow> (byte list \<times> nat) res" where
  "parse_rates type mem b off =
     res_bind (get 1 b off) (\<lambda>(t, off).
     if t \<noteq> [type] then Raise CW_ERROR_NONE
     else res_bind (get 1 b off) (\<lambda>(l, off).
       let n = sint (hd l) in
       if n = 0 then Raise CW_ERROR_NONE else get_array mem n b off))"

definition CW80211ParseFrameIESupportedRates :: "memory \<Rightarrow> byte list \<Rightarrow> nat \<Rightarrow> (byte list \<times> nat) res" where
  "CW80211ParseFrameIESupportedRates = parse_rates 1"

definition CW80211ParseFrameIEExtendedSupportedRates :: "memory \<Rightarrow> byte list \<Rightarrow> nat \<Rightarrow> (byte list \<times> nat) res" where
  "CW80211ParseFrameIEExtendedSupportedRates = parse_rates 50"

subsection \<open>Frames\<close>

text \<open>Type and subtype of a frame are taken from its frame control.\<close>

definition WLAN_FC_GET_TYPE :: "16 word \<Rightarrow> 16 word" where "WLAN_FC_GET_TYPE fc = drop_bit 2 (fc AND 0xC)"
definition WLAN_FC_GET_STYPE :: "16 word \<Rightarrow> 16 word" where "WLAN_FC_GET_STYPE fc = drop_bit 4 (fc AND 0xF0)"

abbreviation WLAN_FC_TYPE_MGMT :: "16 word" where "WLAN_FC_TYPE_MGMT \<equiv> 0"
abbreviation WLAN_FC_TYPE_DATA :: "16 word" where "WLAN_FC_TYPE_DATA \<equiv> 2"

record mgmt_header =
  fr_control :: "16 word"
  fr_duration :: "16 word"
  fr_DA :: eth
  fr_SA :: eth
  fr_BSSID :: eth
  fr_seqCtrl :: "16 word"

text \<open>The lengths of the arrays of rates are those of the lists.\<close>

record CWFrameProbeRequest =
  probe_hdr :: mgmt_header
  probe_SSID :: "byte list"
  probe_rates :: "byte list"
  probe_ext_rates :: "byte list"

record CWFrameAuthRequest =
  auth_hdr :: mgmt_header
  authAlg :: "16 word"
  authTransaction :: "16 word"
  auth_statusCode :: "16 word"

record CWFrameAssociationRequest =
  areq_hdr :: mgmt_header
  areq_capabilityBit :: "16 word"
  areq_listenInterval :: "16 word"
  areq_SSID :: "byte list"
  areq_rates :: "byte list"
  areq_ext_rates :: "byte list"

text \<open>A station on the WTP.\<close>

datatype CW80211StateSTA = CW_80211_STA_OFF | CW_80211_STA_PROBE | CW_80211_STA_AUTH | CW_80211_STA_ASSOCIATION | CW_80211_STA_DATA

record WTPSTAInfo =
  st_state :: CW80211StateSTA
  st_address :: "eth option"
  st_AID :: "16 word"
  st_capabilityBit :: "16 word"
  st_listenInterval :: "16 word"
  st_flags :: "16 word"
  st_radioAdd :: bool
  st_rates :: "byte list"
  st_ext_rates :: "byte list"
  st_timer :: int

subsection \<open>Frames: assembly\<close>

text \<open>The sequence control is left as it is in the new block.\<close>

definition fixed_part :: "16 word \<Rightarrow> byte list option \<Rightarrow> byte list option \<Rightarrow> byte list option \<Rightarrow> (frame80211 \<Rightarrow> frame80211 res) list" where
  "fixed_part stype da sa bssid =
     [CW80211AssembleIEFrameControl WLAN_FC_TYPE_MGMT stype, CW80211AssembleIEDuration 0,
      CW80211AssembleIEAddr da, CW80211AssembleIEAddr sa, CW80211AssembleIEAddr bssid, skip 2]"

text \<open>The basic rates are marked; at most \<open>n\<close> rates are taken.\<close>

definition basic_rate :: "byte \<Rightarrow> byte" where
  "basic_rate r = (if r = 2 \<or> r = 4 \<or> r = 11 \<or> r = 22 then r + 128 else r)"

definition supported_rates :: "nat \<Rightarrow> byte list \<Rightarrow> frame80211 \<Rightarrow> frame80211 res" where
  "supported_rates n rates = CW80211AssembleIESupportedRates (map basic_rate (take n rates)) (int (min n (length rates)))"

definition extended_rates :: "byte list \<Rightarrow> frame80211 \<Rightarrow> frame80211 res" where
  "extended_rates rates f =
     (if rates = [] then Ret f
      else CW80211AssembleIEExtendedSupportedRates (take 8 rates) (int (min 8 (length rates))) f)"

abbreviation WTP_NL80211_BITRATE_NUM :: nat where "WTP_NL80211_BITRATE_NUM \<equiv> 32"
abbreviation CW_80211_MAX_SUPP_RATES :: nat where "CW_80211_MAX_SUPP_RATES \<equiv> 8"

definition CW80211AssembleBeacon :: "memory \<Rightarrow> eth \<Rightarrow> WTPInterfaceInfo \<Rightarrow> frame80211 res" where
  "CW80211AssembleBeacon mem MACaddr w =
     res_bind (new_frame mem (36 + 2 + int (length (c_string (SSID w))) + 1))
       (put_all (fixed_part 8 None (Some (eth_bytes MACaddr)) (WTPInterfaceInfo.BSSID w) @
         [skip 8, CW80211AssembleIEBeaconInterval 100, CW80211AssembleIECapability (capabilityBit w),
          CW80211AssembleIESSID (SSID w)]))"

definition CW80211AssembleProbeResponse ::
  "memory \<Rightarrow> eth \<Rightarrow> WTPInterfaceInfo \<Rightarrow> CWFrameProbeRequest \<Rightarrow> frame80211 res" where
  "CW80211AssembleProbeResponse mem MACaddr w request =
     res_bind (new_frame mem (36 + 2 * 3 + int (length (c_string (SSID w))) + 8 * 2 + 1 + 1 + 3))
       (put_all (fixed_part 5 (Some (eth_bytes (fr_SA (probe_hdr request)))) (Some (eth_bytes MACaddr)) (WTPInterfaceInfo.BSSID w) @
         [skip 8, CW80211AssembleIEBeaconInterval 100, CW80211AssembleIECapability (capabilityBit w),
          CW80211AssembleIESSID (SSID w), supported_rates WTP_NL80211_BITRATE_NUM (probe_rates request),
          extended_rates (probe_ext_rates request), CW80211AssembleIEDSSS 1, CW80211AssembleIEERP 4]))"

definition CW80211AssembleAuthResponse :: "memory \<Rightarrow> eth \<Rightarrow> CWFrameAuthRequest \<Rightarrow> frame80211 res" where
  "CW80211AssembleAuthResponse mem addrAP request =
     res_bind (new_frame mem 30)
       (put_all (fixed_part 11 (Some (eth_bytes (fr_SA (auth_hdr request)))) (Some (eth_bytes addrAP)) (Some (eth_bytes addrAP)) @
         [CW80211AssembleIEAuthAlgoNum 0, CW80211AssembleIEAuthTransNum 2, CW80211AssembleIEStatusCode 0]))"

text \<open>The answers of a WTP that decides itself; those of the AC.\<close>

definition association_by_wtp ::
  "16 word \<Rightarrow> int \<Rightarrow> memory \<Rightarrow> eth \<Rightarrow> WTPInterfaceInfo \<Rightarrow> WTPSTAInfo \<Rightarrow> CWFrameAssociationRequest \<Rightarrow> frame80211 res" where
  "association_by_wtp stype n mem MACaddr w thisSTA request =
     res_bind (new_frame mem n)
       (put_all (fixed_part stype (Some (eth_bytes (fr_SA (areq_hdr request)))) (Some (eth_bytes MACaddr)) (WTPInterfaceInfo.BSSID w) @
         [CW80211AssembleIECapability (st_capabilityBit thisSTA), CW80211AssembleIEStatusCode 0,
          CW80211AssembleIEAssID (st_AID thisSTA), supported_rates CW_80211_MAX_SUPP_RATES (st_rates thisSTA),
          extended_rates (st_ext_rates thisSTA)]))"

definition CW80211AssembleAssociationResponse ::
  "memory \<Rightarrow> eth \<Rightarrow> WTPInterfaceInfo \<Rightarrow> WTPSTAInfo \<Rightarrow> CWFrameAssociationRequest \<Rightarrow> frame80211 res" where
  "CW80211AssembleAssociationResponse = association_by_wtp 1 (30 + 2 * 3 + 2 * 8 + 1)"

definition CW80211AssembleReassociationResponse ::
  "memory \<Rightarrow> eth \<Rightarrow> WTPInterfaceInfo \<Rightarrow> WTPSTAInfo \<Rightarrow> CWFrameAssociationRequest \<Rightarrow> frame80211 res" where
  "CW80211AssembleReassociationResponse = association_by_wtp 3 (30 + 2 * 3 + 8 + 1)"

definition CW80211AssembleAssociationResponseAC ::
  "memory \<Rightarrow> byte list option \<Rightarrow> byte list option \<Rightarrow> 16 word \<Rightarrow> 16 word \<Rightarrow> byte list option \<Rightarrow> int \<Rightarrow> CWFrameAssociationRequest \<Rightarrow>
   frame80211 res" where
  "CW80211AssembleAssociationResponseAC mem MACAddr bssid cap staAID suppRate suppRatesLen request =
     (if bssid = None \<or> MACAddr = None \<or> suppRate = None then Raise CW_ERROR_NONE
      else res_bind (new_frame mem (30 + 2 + 8 + 1))
        (put_all (fixed_part 1 (Some (eth_bytes (fr_SA (areq_hdr request)))) MACAddr bssid @
          [CW80211AssembleIECapability cap, CW80211AssembleIEStatusCode 0, CW80211AssembleIEAssID staAID] @
          (if suppRatesLen > 0 then [CW80211AssembleIESupportedRates (the suppRate) suppRatesLen] else []))))"

definition CW80211AssembleReassociationResponseAC ::
  "memory \<Rightarrow> byte list option \<Rightarrow> byte list option \<Rightarrow> 16 word \<Rightarrow> 16 word \<Rightarrow> byte list option \<Rightarrow> int \<Rightarrow> CWFrameAssociationRequest \<Rightarrow>
   frame80211 res" where
  "CW80211AssembleReassociationResponseAC mem MACAddr bssid cap staAID suppRate suppRatesLen request =
     (if bssid = None \<or> MACAddr = None \<or> suppRate = None then Raise CW_ERROR_NONE
      else res_bind (new_frame mem (30 + 2 + 8 + 1))
        (put_all (fixed_part 3 (Some (eth_bytes (fr_SA (areq_hdr request)))) MACAddr bssid @
          [CW80211AssembleIECapability cap, CW80211AssembleIEStatusCode 0, CW80211AssembleIEAssID staAID,
           CW80211AssembleIESupportedRates (the suppRate) suppRatesLen])))"

definition CW80211AssembleACK :: "memory \<Rightarrow> byte list option \<Rightarrow> frame80211 res" where
  "CW80211AssembleACK mem da =
     (if da = None then Raise CW_ERROR_NONE
      else res_bind (new_frame mem (10 + 1))
        (put_all [CW80211AssembleIEFrameControl WLAN_FC_TYPE_DATA 13, CW80211AssembleIEDuration 0, CW80211AssembleIEAddr da]))"

definition CW80211AssembleDataFrameHdr ::
  "memory \<Rightarrow> eth \<Rightarrow> eth \<Rightarrow> eth option \<Rightarrow> 16 word \<Rightarrow> int \<Rightarrow> int \<Rightarrow> frame80211 res" where
  "CW80211AssembleDataFrameHdr mem sa da bssid seqctl toDS fromDS =
     res_bind (new_frame mem 24)
       (put_all ([CW80211AssembleIEFrameControlData WLAN_FC_TYPE_DATA 0 toDS fromDS, CW80211AssembleIEDuration 0] @
         (if toDS = 1 \<and> fromDS = 0
          then [CW80211AssembleIEAddr (map_option eth_bytes bssid), CW80211AssembleIEAddr (Some (eth_bytes sa)),
                CW80211AssembleIEAddr (Some (eth_bytes da)), CW80211AssembleIESequenceNumber seqctl]
          else if fromDS = 1 \<and> toDS = 0
          then [CW80211AssembleIEAddr (Some (eth_bytes da)), CW80211AssembleIEAddr (map_option eth_bytes bssid),
                CW80211AssembleIEAddr (Some (eth_bytes sa)), CW80211AssembleIESequenceNumber seqctl]
          else [\<lambda>_. Raise CW_ERROR_NONE])))"

subsection \<open>Frames: parsing\<close>

definition parse_header :: "byte list \<Rightarrow> (mgmt_header \<times> nat) res" where
  "parse_header b =
     res_bind (CW80211ParseFrameIEControl b 0) (\<lambda>(fc, n).
     res_bind (CW80211ParseFrameIEControl b n) (\<lambda>(dur, n).
     res_bind (CW80211ParseFrameIEAddr b n) (\<lambda>(a1, n).
     res_bind (CW80211ParseFrameIEAddr b n) (\<lambda>(a2, n).
     res_bind (CW80211ParseFrameIEAddr b n) (\<lambda>(a3, n).
     res_bind (CW80211ParseFrameIESeqCtrl b n) (\<lambda>(s, n).
     Ret (\<lparr> fr_control = fc, fr_duration = dur, fr_DA = a1, fr_SA = a2, fr_BSSID = a3, fr_seqCtrl = s \<rparr>, n)))))))"

text \<open>Without extended rates their number is zero: an error of their function is no error of the frame's.\<close>

definition optional_rates :: "memory \<Rightarrow> byte list \<Rightarrow> nat \<Rightarrow> byte list res" where
  "optional_rates mem b n =
     (case CW80211ParseFrameIEExtendedSupportedRates mem b n of
        Ret (rs, n) \<Rightarrow> Ret rs | Raise e \<Rightarrow> Ret [] | Fault \<Rightarrow> Fault)"

definition CW80211ParseProbeRequest :: "memory \<Rightarrow> byte list \<Rightarrow> CWFrameProbeRequest res" where
  "CW80211ParseProbeRequest mem b =
     res_bind (parse_header b) (\<lambda>(h, n).
     res_bind (CW80211ParseFrameIESSID mem b n) (\<lambda>(s, n).
     res_bind (CW80211ParseFrameIESupportedRates mem b n) (\<lambda>(r, n).
     res_bind (optional_rates mem b n) (\<lambda>e.
     Ret \<lparr> probe_hdr = h, probe_SSID = s, probe_rates = r, probe_ext_rates = e \<rparr>))))"

definition parse_auth :: "byte list \<Rightarrow> CWFrameAuthRequest res" where
  "parse_auth b =
     res_bind (parse_header b) (\<lambda>(h, n).
     res_bind (CW80211ParseFrameIEAuthAlgo b n) (\<lambda>(a, n).
     res_bind (CW80211ParseFrameIEAuthTransaction b n) (\<lambda>(t, n).
     res_bind (CW80211ParseFrameIEStatusCode b n) (\<lambda>(s, n).
     Ret \<lparr> auth_hdr = h, authAlg = a, authTransaction = t, auth_statusCode = s \<rparr>))))"

definition CW80211ParseAuthRequest :: "byte list \<Rightarrow> CWFrameAuthRequest res" where
  "CW80211ParseAuthRequest = parse_auth"

definition CW80211ParseAuthResponse :: "byte list \<Rightarrow> CWFrameAuthRequest res" where
  "CW80211ParseAuthResponse = parse_auth"

definition CW80211ParseAssociationRequest :: "memory \<Rightarrow> byte list \<Rightarrow> CWFrameAssociationRequest res" where
  "CW80211ParseAssociationRequest mem b =
     res_bind (parse_header b) (\<lambda>(h, n).
     res_bind (CW80211ParseFrameIECapability b n) (\<lambda>(c, n).
     res_bind (CW80211ParseFrameIEListenInterval b n) (\<lambda>(l, n).
     res_bind (CW80211ParseFrameIESSID mem b n) (\<lambda>(s, n).
     res_bind (CW80211ParseFrameIESupportedRates mem b n) (\<lambda>(r, n).
     res_bind (optional_rates mem b n) (\<lambda>e.
     Ret \<lparr> areq_hdr = h, areq_capabilityBit = c, areq_listenInterval = l, areq_SSID = s, areq_rates = r,
           areq_ext_rates = e \<rparr>))))))"

text \<open>The header, the status code, and what the station configuration is made of.\<close>

definition CW80211ParseAssociationResponse ::
  "memory \<Rightarrow> byte list \<Rightarrow> (mgmt_header \<times> 16 word \<times> CWFrameAssociationResponse) res" where
  "CW80211ParseAssociationResponse mem b =
     res_bind (parse_header b) (\<lambda>(h, n).
     res_bind (CW80211ParseFrameIECapability b n) (\<lambda>(c, n).
     res_bind (CW80211ParseFrameIEStatusCode b n) (\<lambda>(s, n).
     res_bind (CW80211ParseFrameIEAssID b n) (\<lambda>(a, n).
     res_bind (CW80211ParseFrameIESupportedRates mem b n) (\<lambda>(r, n).
     Ret (h, s, \<lparr> DA = fr_DA h, resp_capabilityBit = c, assID = a, supportedRatesLen = int (length r),
                  supportedRates = r \<rparr>))))))"

definition CW80211ParseDeauthDisassociationRequest :: "byte list \<Rightarrow> (mgmt_header \<times> 16 word) res" where
  "CW80211ParseDeauthDisassociationRequest b =
     res_bind (parse_header b) (\<lambda>(h, n).
     res_bind (CW80211ParseFrameIEReasonCode b n) (\<lambda>(r, n). Ret (h, r)))"

text \<open>In a data frame the three addresses have other meanings.\<close>

definition CW80211ParseDataFrameToDS :: "byte list \<Rightarrow> mgmt_header res" where
  "CW80211ParseDataFrameToDS b =
     res_bind (parse_header b) (\<lambda>(h, n). Ret (h\<lparr> fr_BSSID := fr_DA h, fr_SA := fr_SA h, fr_DA := fr_BSSID h \<rparr>))"

definition CW80211ParseDataFrameFromDS :: "byte list \<Rightarrow> mgmt_header res" where
  "CW80211ParseDataFrameFromDS b =
     res_bind (parse_header b) (\<lambda>(h, n). Ret (h\<lparr> fr_DA := fr_DA h, fr_BSSID := fr_SA h, fr_SA := fr_BSSID h \<rparr>))"

subsection \<open>Between 802.11 and Ethernet: CWTunnel.c\<close>

text \<open>Each function copies into a buffer of its caller, of \<open>room\<close> bytes.\<close>

definition bridge_tunnel_header :: "byte list" where "bridge_tunnel_header = [0xaa, 0xaa, 3, 0, 0, 0xf8]"
definition rfc1042_header :: "byte list" where "rfc1042_header = [0xaa, 0xaa, 3, 0, 0, 0]"

abbreviation ETH_P_AARP :: int where "ETH_P_AARP \<equiv> 0x80F3"
abbreviation ETH_P_IPX :: int where "ETH_P_IPX \<equiv> 0x8137"
abbreviation ETH_P_802_3_MIN :: int where "ETH_P_802_3_MIN \<equiv> 0x600"

definition checkAddressBroadcast :: "eth \<Rightarrow> bool" where
  "checkAddressBroadcast a \<longleftrightarrow> (\<forall>b \<in> set (eth_bytes a). b AND 0xff = 0xff)"

text \<open>A copy of \<open>n\<close> bytes; a negative number is a huge one.\<close>

definition copy_bytes :: "int \<Rightarrow> nat \<Rightarrow> byte list \<Rightarrow> byte list res" where
  "copy_bytes n off b = (if n < 0 \<or> length b < off + nat n then Fault else Ret (take (nat n) (drop off b)))"

text \<open>\<open>None\<close>: the destination is unknown, which is the result -1.\<close>

definition CWConvertDataFrame_8023_to_80211 ::
  "memory \<Rightarrow> nodeAVL \<Rightarrow> nat \<Rightarrow> byte list \<Rightarrow> int \<Rightarrow> (byte list \<times> int) option res" where
  "CWConvertDataFrame_8023_to_80211 mem tree room frame frameLen =
     res_bind (CW80211ParseFrameIEAddr frame 0) (\<lambda>(da, _).
     res_bind (CW80211ParseFrameIEAddr frame 6) (\<lambda>(sa, _).
     let destination =
       (if checkAddressBroadcast da then Ret (Some (Eth 255 255 255 255 255 255, -1))
        else case AVLfind (Some da) tree of
               NULL \<Rightarrow> Ret None
             | NODE i _ _ _ \<Rightarrow> (case nodeInfo.BSSID i of None \<Rightarrow> Fault | Some b \<Rightarrow> Ret (Some (b, index i))))
     in res_bind destination (\<lambda>d.
       case d of
         None \<Rightarrow> Ret None
       | Some (bssid, WTPIndex) \<Rightarrow>
           (case CW80211AssembleDataFrameHdr mem sa da (Some bssid) 0 0 1 of
              Ret (hdr, _) \<Rightarrow>
                res_bind (get 2 frame 12) (\<lambda>(t, _).
                let ethertype = uint (of_be16 t);
                    (encaps, skipBytes) =
                      (if ethertype = ETH_P_AARP \<or> ethertype = ETH_P_IPX then (bridge_tunnel_header, 2)
                       else if ethertype \<ge> ETH_P_802_3_MIN then (rfc1042_header, 2) else ([], 0))
                in res_bind (copy_bytes (frameLen - 14 + int skipBytes) (14 - skipBytes) frame) (\<lambda>p.
                   if room < length (hdr @ encaps @ p) then Fault
                   else Ret (Some (hdr @ encaps @ p, WTPIndex))))
            | _ \<Rightarrow> Fault))))"

definition CWConvertDataFrame_80211_to_8023 :: "nat \<Rightarrow> byte list \<Rightarrow> int \<Rightarrow> byte list res" where
  "CWConvertDataFrame_80211_to_8023 room frame frameLen =
     res_bind (get 2 frame 30) (\<lambda>(t, _).
     let etherType = of_be16 t; et = sint etherType in
     res_bind (CW80211ParseDataFrameToDS frame) (\<lambda>d.
     let llc = take 6 (drop 24 frame);
         flagEncaps = (llc = rfc1042_header \<and> et \<noteq> ETH_P_AARP \<and> et \<noteq> ETH_P_IPX \<or> llc = bridge_tunnel_header);
         off = (if flagEncaps then 32 else 24)
     in res_bind (copy_bytes (frameLen - int off) off frame) (\<lambda>p.
        let out = eth_bytes (fr_DA d) @ eth_bytes (fr_SA d) @
                  be16 (if flagEncaps then etherType else word_of_int (frameLen - int off)) @ p
        in if room < length out then Fault else Ret out)))"

text \<open>
  What the AC makes of a data frame of a station before it puts in the BSSID of the receiver and sends it on
  (\<^verbatim>\<open>ACRunState.c\<close>): a new header, for the other direction, and the rest as it is.
\<close>

definition relay_frame :: "memory \<Rightarrow> byte list \<Rightarrow> int \<Rightarrow> byte list res" where
  "relay_frame mem frame msglen =
     res_bind (CW80211ParseDataFrameToDS frame) (\<lambda>d.
     res_bind (CW80211AssembleDataFrameHdr mem (fr_SA d) (fr_DA d) (Some (fr_BSSID d)) (fr_seqCtrl d) 0 1) (\<lambda>(hdr, _).
     if \<not> malloc_ok mem msglen then Raise CW_ERROR_OUT_OF_MEMORY
     else if msglen < 24 then Fault
     else res_bind (copy_bytes (msglen - 24) 24 frame) (\<lambda>p. Ret (hdr @ p))))"

subsection \<open>Blocks of zeros\<close>

definition fmsg :: "byte list \<Rightarrow> nat \<Rightarrow> frame80211" where
  "fmsg bs k = (bs @ replicate k 0, length bs)"

lemma put_fmsg: "put bs (fmsg pre k) = (if length bs \<le> k then Ret (fmsg (pre @ bs) (k - length bs)) else Fault)"
  by (auto simp: put_def fmsg_def)

lemma skip_fmsg: "n \<le> k \<Longrightarrow> skip n (fmsg pre k) = Ret (fmsg (pre @ replicate n 0) (k - n))"
  by (simp add: skip_def fmsg_def flip: replicate_add)

lemma new_frame_eq: "ample mem \<Longrightarrow> 0 \<le> n \<Longrightarrow> new_frame mem n = Ret (fmsg [] (nat n))"
  by (simp add: new_frame_def fmsg_def ample_malloc)

lemma put_all_append: "put_all (gs @ hs) f = res_bind (put_all gs f) (put_all hs)"
proof (induction gs arbitrary: f)
  case (Cons g gs)
  then show ?case by (cases "g f") simp_all
qed simp

lemma two_zeros: "replicate 2 0 = [0, 0 :: byte]"
  by (simp add: numeral_2_eq_2)

lemma length_le16 [simp]: "length (le16 v) = 2"
  by (simp add: le16_def)

named_theorems frame80211_simps

lemmas [frame80211_simps] = put_fmsg skip_fmsg CW80211AssembleIEFrameControl_def CW80211AssembleIEDuration_def CW80211AssembleIESequenceNumber_def
  CW80211AssembleIECapability_def CW80211AssembleIEAuthAlgoNum_def CW80211AssembleIEAuthTransNum_def CW80211AssembleIEStatusCode_def
  CW80211AssembleIEAssID_def CW80211AssembleIEBeaconInterval_def CW80211AssembleIEERP_def CW80211AssembleIEDSSS_def

lemma put_addr [frame80211_simps]:
  "CW80211AssembleIEAddr (Some (eth_bytes a)) f = put (eth_bytes a) f"
  "CW80211AssembleIEAddr None f = put (replicate 6 255) f"
  by (simp_all add: CW80211AssembleIEAddr_def)

lemma assemble_rates_fmsg [frame80211_simps]:
  assumes "0 < n" "n = int (length rates)"
  shows "assemble_rates type rates n (fmsg pre k) =
    (if length rates + 2 \<le> k then Ret (fmsg (pre @ type # word_of_int n # rates) (k - (length rates + 2))) else Fault)"
  using assms by (auto simp: assemble_rates_def put_fmsg)

lemma fixed_part_fmsg:
  "24 \<le> k \<Longrightarrow> put_all (fixed_part stype (Some (eth_bytes da)) (Some (eth_bytes sa)) (Some (eth_bytes b))) (fmsg [] k) =
    Ret (fmsg (le16 (IEEE80211_FC WLAN_FC_TYPE_MGMT stype) @ be16 0 @ eth_bytes da @ eth_bytes sa @ eth_bytes b @ [0, 0]) (k - 24))"
proof -
  assume "24 \<le> k"
  then obtain j where "k = 24 + j" using le_iff_add by blast
  then show ?thesis by (simp add: fixed_part_def frame80211_simps two_zeros)
qed

subsection \<open>Reading what was written\<close>

lemma get_at: "get n (pre @ bs @ rest) (length pre) = Ret (bs, length (pre @ bs))" if "length bs = n"
  using that by (simp add: get_def)

lemma get16_le16: "get16 (pre @ le16 v @ rest) (length pre) = Ret (v, length (pre @ le16 v))"
  by (simp add: get16_def get_at le16_def)

lemma get_last: "get n (pre @ bs) (length pre) = Ret (bs, length (pre @ bs))" if "length bs = n"
  using get_at [OF that, of pre "[]"] by simp

lemma addr_at: "CW80211ParseFrameIEAddr (pre @ eth_bytes a @ rest) (length pre) = Ret (a, length (pre @ eth_bytes a))"
  by (simp add: CW80211ParseFrameIEAddr_def get_at)

text \<open>The 24 bytes every frame starts with.\<close>

definition header_bytes80211 :: "mgmt_header \<Rightarrow> byte list" where
  "header_bytes80211 h = le16 (fr_control h) @ le16 (fr_duration h) @ eth_bytes (fr_DA h) @ eth_bytes (fr_SA h) @
     eth_bytes (fr_BSSID h) @ le16 (fr_seqCtrl h)"

lemma length_header80211 [simp]: "length (header_bytes80211 h) = 24"
  by (simp add: header_bytes80211_def)

lemma parse_header_eq: "parse_header (header_bytes80211 h @ rest) = Ret (h, 24)"
proof -
  have "get16 (le16 c @ r) 0 = Ret (c, 2)" for c r using get16_le16 [of "[]"] by simp
  moreover have "get16 (le16 c @ le16 v @ r) 2 = Ret (v, 4)" for c v r using get16_le16 [of "le16 c"] by simp
  moreover have "CW80211ParseFrameIEAddr (le16 c @ le16 v @ eth_bytes a @ r) 4 = Ret (a, 10)" for c v a r
    using addr_at [of "le16 c @ le16 v"] by simp
  moreover have "CW80211ParseFrameIEAddr (le16 c @ le16 v @ eth_bytes a @ eth_bytes b @ r) 10 = Ret (b, 16)" for c v a b r
    using addr_at [of "le16 c @ le16 v @ eth_bytes a"] by simp
  moreover have "CW80211ParseFrameIEAddr (le16 c @ le16 v @ eth_bytes a @ eth_bytes b @ eth_bytes d @ r) 16 = Ret (d, 22)" for c v a b d r
    using addr_at [of "le16 c @ le16 v @ eth_bytes a @ eth_bytes b"] by simp
  moreover have "get16 (le16 c @ le16 v @ eth_bytes a @ eth_bytes b @ eth_bytes d @ le16 s @ r) 22 = Ret (s, 24)" for c v a b d s r
    using get16_le16 [of "le16 c @ le16 v @ eth_bytes a @ eth_bytes b @ eth_bytes d"] by simp
  ultimately show ?thesis
    by (simp add: parse_header_def header_bytes80211_def CW80211ParseFrameIEControl_def CW80211ParseFrameIESeqCtrl_def)
qed

text \<open>The body: what comes after the header, read from an offset behind it.\<close>

lemma get16_body: "length pre = n \<Longrightarrow> get16 (pre @ le16 v @ rest) n = Ret (v, n + 2)"
  using get16_le16 [of pre v rest] by auto

lemma parse_rates_body:
  assumes "ample mem" "length pre = n" "rates \<noteq> []" "length rates < 128"
  shows "parse_rates type mem (pre @ type # word_of_nat (length rates) # rates @ rest) n = Ret (rates, n + 2 + length rates)"
proof -
  have s: "sint (word_of_nat (length rates) :: byte) = int (length rates)"
    using assms(4) signed_take_bit_int_eq_self [of 7 "int (length rates)"] by (simp add: signed_of_nat)
  have "get 1 (pre @ type # r) n = Ret ([type], n + 1)" for r
    using get_at [of "[type]" 1 pre r] assms(2) by simp
  moreover have "get 1 (pre @ type # l # r) (n + 1) = Ret ([l], n + 2)" for l r
    using get_at [of "[l]" 1 "pre @ [type]" r] assms(2) by simp
  moreover have "get (length rates) (pre @ type # l # rates @ rest) (n + 2) = Ret (rates, n + 2 + length rates)" for l
    using get_at [of rates "length rates" "pre @ [type, l]" rest] assms(2) by simp
  ultimately show ?thesis
    using assms(1,3) s by (simp add: parse_rates_def get_array_def ample_malloc Let_def)
qed

lemma be16_zero: "be16 0 = [0, 0]"
  by (simp add: be16_def)

lemma le16_zero: "le16 0 = [0, 0]"
  by (simp add: le16_def be16_zero)

lemma fixed_part_eq:
  "24 \<le> k \<Longrightarrow> put_all (fixed_part stype (Some (eth_bytes da)) (Some (eth_bytes sa)) (Some (eth_bytes b)) @ gs) (fmsg [] k) =
    put_all gs (fmsg (header_bytes80211 \<lparr> fr_control = IEEE80211_FC WLAN_FC_TYPE_MGMT stype, fr_duration = 0, fr_DA = da,
       fr_SA = sa, fr_BSSID = b, fr_seqCtrl = 0 \<rparr>) (k - 24))"
  by (simp add: put_all_append fixed_part_fmsg header_bytes80211_def be16_zero le16_zero)

subsection \<open>An association\<close>

definition association_bytes :: "eth \<Rightarrow> eth \<Rightarrow> eth \<Rightarrow> 16 word \<Rightarrow> 16 word \<Rightarrow> byte list \<Rightarrow> byte list" where
  "association_bytes da sa b cap aid rates =
     header_bytes80211 \<lparr> fr_control = IEEE80211_FC WLAN_FC_TYPE_MGMT 1, fr_duration = 0, fr_DA = da, fr_SA = sa, fr_BSSID = b,
       fr_seqCtrl = 0 \<rparr> @ le16 cap @ le16 0 @ le16 (set_bit 15 (set_bit 14 aid)) @ 1 # word_of_nat (length rates) # rates"

lemma assemble_association_AC:
  assumes "ample mem" "rates \<noteq> []"
  shows "CW80211AssembleAssociationResponseAC mem (Some (eth_bytes m)) (Some (eth_bytes b)) cap aid (Some rates) (int (length rates)) req =
    (if length rates \<le> 9 then Ret (fmsg (association_bytes (fr_SA (areq_hdr req)) m b cap aid rates) (9 - length rates)) else Fault)"
proof -
  have "new_frame mem 41 = Ret (fmsg [] 41)" using new_frame_eq [OF assms(1), of 41] by simp
  moreover have "0 < int (length rates)" using assms(2) by simp
  ultimately show ?thesis
    using assms(2) assemble_rates_fmsg [of "int (length rates)" rates 1]
    by (simp add: CW80211AssembleAssociationResponseAC_def fixed_part_eq CW80211AssembleIESupportedRates_def association_bytes_def
        frame80211_simps del: append_assoc) (simp add: association_bytes_def)
qed

lemma parse_association:
  assumes "ample mem" "rates \<noteq> []" "length rates < 128"
  shows "CW80211ParseAssociationResponse mem (association_bytes da sa b cap aid rates @ rest) =
    Ret (\<lparr> fr_control = IEEE80211_FC WLAN_FC_TYPE_MGMT 1, fr_duration = 0, fr_DA = da, fr_SA = sa, fr_BSSID = b, fr_seqCtrl = 0 \<rparr>, 0,
      \<lparr> DA = da, resp_capabilityBit = cap, assID = set_bit 15 (set_bit 14 aid), supportedRatesLen = int (length rates), supportedRates = rates \<rparr>)"
proof -
  let ?h = "\<lparr> fr_control = IEEE80211_FC WLAN_FC_TYPE_MGMT 1, fr_duration = 0, fr_DA = da, fr_SA = sa, fr_BSSID = b, fr_seqCtrl = 0 \<rparr>"
  let ?a = "set_bit 15 (set_bit 14 aid)"
  have "get16 (header_bytes80211 ?h @ le16 cap @ r) 24 = Ret (cap, 26)" for r using get16_body [of "header_bytes80211 ?h" 24] by simp
  moreover have "get16 (header_bytes80211 ?h @ le16 cap @ le16 0 @ r) 26 = Ret (0, 28)" for r
    using get16_body [of "header_bytes80211 ?h @ le16 cap" 26] by simp
  moreover have "get16 (header_bytes80211 ?h @ le16 cap @ le16 0 @ le16 ?a @ r) 28 = Ret (?a, 30)" for r
    using get16_body [of "header_bytes80211 ?h @ le16 cap @ le16 0" 28] by simp
  moreover have "parse_rates 1 mem (header_bytes80211 ?h @ le16 cap @ le16 0 @ le16 ?a @ 1 # word_of_nat (length rates) # rates @ rest) 30 =
      Ret (rates, 32 + length rates)"
    using parse_rates_body [OF assms(1) _ assms(2,3), of "header_bytes80211 ?h @ le16 cap @ le16 0 @ le16 ?a" 30 1 rest] by simp
  ultimately show ?thesis
    by (simp add: CW80211ParseAssociationResponse_def association_bytes_def parse_header_eq CW80211ParseFrameIECapability_def
        CW80211ParseFrameIEStatusCode_def CW80211ParseFrameIEAssID_def CW80211ParseFrameIESupportedRates_def)
qed

subsection \<open>A probe\<close>

definition rates_element :: "byte \<Rightarrow> byte list \<Rightarrow> byte list" where
  "rates_element type rates = type # word_of_nat (length rates) # rates"

lemma length_rates_element [simp]: "length (rates_element t rs) = 2 + length rs"
  by (simp add: rates_element_def)

lemma rates_element_fmsg:
  assumes "rs \<noteq> []"
  shows "assemble_rates type rs (int (length rs)) (fmsg pre k) =
    (if length rs + 2 \<le> k then Ret (fmsg (pre @ rates_element type rs) (k - (length rs + 2))) else Fault)"
  using assms assemble_rates_fmsg [of "int (length rs)" rs type pre k] by (simp add: rates_element_def)

lemma supported_rates_fmsg:
  assumes "rates \<noteq> []" "0 < n"
  shows "supported_rates n rates (fmsg pre k) =
    (if min n (length rates) + 2 \<le> k
     then Ret (fmsg (pre @ rates_element 1 (map basic_rate (take n rates))) (k - (min n (length rates) + 2))) else Fault)"
proof -
  have l: "length (map basic_rate (take n rates)) = min n (length rates)" by (simp only: length_map length_take min.commute)
  have "map basic_rate (take n rates) \<noteq> []" using assms by simp
  from rates_element_fmsg [OF this, of 1 pre k] show ?thesis
    unfolding l supported_rates_def CW80211AssembleIESupportedRates_def .
qed

lemma extended_rates_fmsg:
  assumes "rates \<noteq> []"
  shows "extended_rates rates (fmsg pre k) =
    (if min 8 (length rates) + 2 \<le> k
     then Ret (fmsg (pre @ rates_element 50 (take 8 rates)) (k - (min 8 (length rates) + 2))) else Fault)"
proof -
  have l: "length (take 8 rates) = min 8 (length rates)" by (simp only: length_take min.commute)
  have "take 8 rates \<noteq> []" using assms by simp
  from rates_element_fmsg [OF this, of 50 pre k] show ?thesis
    unfolding l extended_rates_def CW80211AssembleIEExtendedSupportedRates_def using assms by simp
qed

text \<open>The bytes of the rates in a probe response.\<close>

definition probe_rates_length :: "byte list \<Rightarrow> byte list \<Rightarrow> nat" where
  "probe_rates_length rates ext = min 32 (length rates) + (if ext = [] then 0 else 2 + min 8 (length ext))"

definition probe_response_bytes :: "eth \<Rightarrow> eth \<Rightarrow> eth \<Rightarrow> WTPInterfaceInfo \<Rightarrow> byte list \<Rightarrow> byte list \<Rightarrow> byte list" where
  "probe_response_bytes da m b w rates ext =
     header_bytes80211 \<lparr> fr_control = IEEE80211_FC WLAN_FC_TYPE_MGMT 5, fr_duration = 0, fr_DA = da, fr_SA = m, fr_BSSID = b,
       fr_seqCtrl = 0 \<rparr> @ replicate 8 0 @ be16 100 @ le16 (capabilityBit w) @
     0 # word_of_nat (length (c_string (SSID w))) # c_string (SSID w) @
     rates_element 1 (map basic_rate (take 32 rates)) @ (if ext = [] then [] else rates_element 50 (take 8 ext)) @
     [3, 1, 1, 42, 1, 0]"

lemma ssid_fmsg:
  "CW80211AssembleIESSID s (fmsg pre k) =
    (if length (c_string s) + 2 \<le> k
     then Ret (fmsg (pre @ 0 # word_of_nat (length (c_string s)) # c_string s) (k - (length (c_string s) + 2))) else Fault)"
proof -
  consider "k = 0" | "k = 1" | j where "k = Suc (Suc j)" by (metis One_nat_def not0_implies_Suc)
  then show ?thesis
    by cases (simp_all add: CW80211AssembleIESSID_def put_fmsg Let_def)
qed

text \<open>What is left of a block after some bytes.\<close>

lemma put_room: "put bs (fmsg pre k) = (if length bs \<le> k then Ret (fmsg (pre @ bs) (k - length bs)) else Fault)"
  by (simp add: put_fmsg)

definition probe_tail :: "frame80211 \<Rightarrow> frame80211 res" where
  "probe_tail = put_all [CW80211AssembleIEDSSS 1, CW80211AssembleIEERP 4]"

lemma probe_tail_fmsg: "probe_tail (fmsg pre k) = (if 6 \<le> k then Ret (fmsg (pre @ [3, 1, 1, 42, 1, 0]) (k - 6)) else Fault)"
proof -
  consider "k = 0" | "k = 1" | "k = 2" | "k = 3" | "k = 4" | "k = 5" | j where "k = 6 + j"
  proof (cases "6 \<le> k")
    case True
    then show ?thesis using that(7) le_iff_add by metis
  next
    case False
    then have "k = 0 \<or> k = 1 \<or> k = 2 \<or> k = 3 \<or> k = 4 \<or> k = 5" by arith
    then show ?thesis using that by blast
  qed
  then show ?thesis
    by cases (simp_all add: probe_tail_def CW80211AssembleIEDSSS_def CW80211AssembleIEERP_def put_room)
qed

lemma probe_rates_fmsg:
  assumes "rates \<noteq> []"
  shows "put_all [supported_rates 32 rates, extended_rates x, CW80211AssembleIEDSSS 1, CW80211AssembleIEERP 4] (fmsg pre 25) =
    (if probe_rates_length rates x \<le> 17
     then Ret (fmsg (pre @ rates_element 1 (map basic_rate (take 32 rates)) @ (if x = [] then [] else rates_element 50 (take 8 x)) @
                       [3, 1, 1, 42, 1, 0]) (17 - probe_rates_length rates x))
     else Fault)"
proof -
  let ?r = "min 32 (length rates)" and ?x = "min 8 (length x)"
  have "put_all [supported_rates 32 rates, extended_rates x, CW80211AssembleIEDSSS 1, CW80211AssembleIEERP 4] (fmsg pre 25) =
      res_bind (supported_rates 32 rates (fmsg pre 25)) (\<lambda>f. res_bind (extended_rates x f) probe_tail)"
    by (cases "supported_rates 32 rates (fmsg pre 25)") (simp_all add: probe_tail_def)
  moreover have "supported_rates 32 rates (fmsg pre 25) =
      (if ?r + 2 \<le> 25 then Ret (fmsg (pre @ rates_element 1 (map basic_rate (take 32 rates))) (25 - (?r + 2))) else Fault)"
    by (rule supported_rates_fmsg) (use assms in auto)
  moreover have "res_bind (extended_rates x (fmsg p k)) probe_tail =
      (if (if x = [] then 0 else 2 + ?x) + 6 \<le> k
       then Ret (fmsg (p @ (if x = [] then [] else rates_element 50 (take 8 x)) @ [3, 1, 1, 42, 1, 0])
                      (k - ((if x = [] then 0 else 2 + ?x) + 6))) else Fault)" for p k
  proof (cases "x = []")
    case True
    then show ?thesis by (simp add: extended_rates_def probe_tail_fmsg)
  next
    case x: False
    show ?thesis
    proof (cases "?x + 2 \<le> k")
      case True
      then obtain j where "k = ?x + 2 + j" using le_iff_add by blast
      then show ?thesis using x by (simp add: extended_rates_fmsg probe_tail_fmsg)
    qed (use x in \<open>simp add: extended_rates_fmsg\<close>)
  qed
  ultimately have "put_all [supported_rates 32 rates, extended_rates x, CW80211AssembleIEDSSS 1, CW80211AssembleIEERP 4] (fmsg pre 25) =
      (if ?r + 2 \<le> 25 then
        (if (if x = [] then 0 else 2 + ?x) + 6 \<le> 25 - (?r + 2)
         then Ret (fmsg ((pre @ rates_element 1 (map basic_rate (take 32 rates))) @ (if x = [] then [] else rates_element 50 (take 8 x)) @
                   [3, 1, 1, 42, 1, 0]) (25 - (?r + 2) - ((if x = [] then 0 else 2 + ?x) + 6))) else Fault) else Fault)"
    by simp
  moreover have "25 - (?r + 2) - (y + 6) = 17 - (?r + y)" "y + 6 \<le> 25 - (?r + 2) \<longleftrightarrow> ?r + y \<le> 17" if "?r + 2 \<le> 25" for y
    using that by arith+
  moreover have "?r + y \<le> 17 \<Longrightarrow> ?r + 2 \<le> 25" for y by simp
  ultimately show ?thesis unfolding probe_rates_length_def append_assoc by presburger
qed

lemma assemble_probe_response:
  assumes "ample mem" "WTPInterfaceInfo.BSSID w = Some (eth_bytes b)" "probe_rates req \<noteq> []"
  shows "CW80211AssembleProbeResponse mem m w req =
    (if probe_rates_length (probe_rates req) (probe_ext_rates req) \<le> 17
     then Ret (fmsg (probe_response_bytes (fr_SA (probe_hdr req)) m b w (probe_rates req) (probe_ext_rates req))
                    (17 - probe_rates_length (probe_rates req) (probe_ext_rates req)))
     else Fault)"
proof -
  let ?s = "c_string (SSID w)"
  let ?h = "header_bytes80211 \<lparr> fr_control = IEEE80211_FC WLAN_FC_TYPE_MGMT 5, fr_duration = 0, fr_DA = fr_SA (probe_hdr req),
       fr_SA = m, fr_BSSID = b, fr_seqCtrl = 0 \<rparr>"
  have n: "new_frame mem (36 + 2 * 3 + int (length ?s) + 8 * 2 + 1 + 1 + 3) = Ret (fmsg [] (24 + (39 + length ?s)))"
    using new_frame_eq [OF assms(1), of "36 + 2 * 3 + int (length ?s) + 8 * 2 + 1 + 1 + 3"] by (simp add: nat_add_distrib)
  have "CW80211AssembleProbeResponse mem m w req =
    put_all [supported_rates 32 (probe_rates req), extended_rates (probe_ext_rates req), CW80211AssembleIEDSSS 1, CW80211AssembleIEERP 4]
      (fmsg (?h @ replicate 8 0 @ be16 100 @ le16 (capabilityBit w) @ 0 # word_of_nat (length ?s) # ?s) 25)"
    unfolding CW80211AssembleProbeResponse_def n assms(2)
    by (simp add: fixed_part_eq CW80211AssembleIEBeaconInterval_def CW80211AssembleIECapability_def put_room skip_fmsg ssid_fmsg
        del: append_assoc) (simp add: add.commute)
  then show ?thesis
    unfolding probe_rates_fmsg [OF assms(3)] probe_response_bytes_def by simp
qed


lemma parse_ssid_body:
  assumes "ample mem" "length pre = n" "length s < 128"
  shows "CW80211ParseFrameIESSID mem (pre @ 0 # word_of_nat (length s) # s @ rest) n =
    Ret (if s = [] then [85, 69] else s, n + 2 + length s)"
proof -
  have t: "sint (word_of_nat (length s) :: byte) = int (length s)"
    using assms(3) signed_take_bit_int_eq_self [of 7 "int (length s)"] by (simp add: signed_of_nat)
  have "get 1 (pre @ 0 # r) n = Ret ([0], n + 1)" for r
    using get_at [of "[0]" 1 pre r] assms(2) by simp
  moreover have "get 1 (pre @ 0 # l # r) (n + 1) = Ret ([l], n + 2)" for l r
    using get_at [of "[l]" 1 "pre @ [0]" r] assms(2) by simp
  moreover have "get (length s) (pre @ 0 # l # s @ rest) (n + 2) = Ret (s, n + 2 + length s)" for l
    using get_at [of s "length s" "pre @ [0, l]" rest] assms(2) by simp
  ultimately show ?thesis
    using assms(1) t by (simp add: CW80211ParseFrameIESSID_def get_array_def ample_malloc Let_def)
qed

text \<open>A probe request; a station without extended rates ends it with another element.\<close>

definition probe_bytes :: "mgmt_header \<Rightarrow> byte list \<Rightarrow> byte list \<Rightarrow> byte list \<Rightarrow> byte list" where
  "probe_bytes h s rates ext =
     header_bytes80211 h @ 0 # word_of_nat (length s) # s @ rates_element 1 rates @ (if ext = [] then [3] else rates_element 50 ext)"

lemma parse_probe:
  assumes "ample mem" "length s < 128" "rates \<noteq> []" "length rates < 128" "length ext < 128"
  shows "CW80211ParseProbeRequest mem (probe_bytes h s rates ext) =
    Ret \<lparr> probe_hdr = h, probe_SSID = (if s = [] then [85, 69] else s), probe_rates = rates, probe_ext_rates = ext \<rparr>"
proof -
  let ?e = "if ext = [] then [3] else rates_element 50 ext"
  let ?b = "header_bytes80211 h @ 0 # word_of_nat (length s) # s"
  have "CW80211ParseFrameIESSID mem (header_bytes80211 h @ 0 # word_of_nat (length s) # s @ r) 24 =
      Ret (if s = [] then [85, 69] else s, 26 + length s)" for r
    using parse_ssid_body [OF assms(1) _ assms(2), of "header_bytes80211 h" 24 r] by simp
  moreover have "parse_rates 1 mem (?b @ rates_element 1 rates @ ?e) (26 + length s) = Ret (rates, 28 + length s + length rates)"
    using parse_rates_body [OF assms(1) _ assms(3,4), of ?b "26 + length s" 1 ?e] by (simp add: rates_element_def)
  moreover have "optional_rates mem (?b @ rates_element 1 rates @ ?e) (28 + length s + length rates) = Ret ext"
  proof (cases "ext = []")
    case True
    have "get 1 (?b @ rates_element 1 rates @ [3]) (28 + length s + length rates) = Ret ([3], 29 + length s + length rates)"
      using get_last [of "[3]" 1 "?b @ rates_element 1 rates"] by (simp add: add.assoc)
    then show ?thesis using True
      by (simp add: optional_rates_def CW80211ParseFrameIEExtendedSupportedRates_def parse_rates_def)
  next
    case False
    have "parse_rates 50 mem (?b @ rates_element 1 rates @ ?e) (28 + length s + length rates) =
        Ret (ext, 30 + length s + length rates + length ext)"
      using parse_rates_body [OF assms(1) _ False assms(5), of "?b @ rates_element 1 rates" "28 + length s + length rates" 50 "[]"] False
      by (simp add: rates_element_def)
    then show ?thesis by (simp add: optional_rates_def CW80211ParseFrameIEExtendedSupportedRates_def)
  qed
  ultimately show ?thesis
    by (simp add: CW80211ParseProbeRequest_def probe_bytes_def parse_header_eq CW80211ParseFrameIESupportedRates_def)
qed

text \<open>
  Any device can make a WTP write behind a block: the answer to a probe request is assembled in a block whose
  size depends on the SSID of the WTP only, and takes the rates out of the request, up to 32, and the extended
  rates, up to 8. With more than 17 bytes of them - 8 rates and 8 extended rates are 18 - the answer does not
  fit; with fewer it is the documented frame, addressed to the station that asked.
\<close>

theorem probe_response_overflow:
  assumes "ample mem" "WTPInterfaceInfo.BSSID w = Some (eth_bytes b)"
    and "length s < 128" "rates \<noteq> []" "length rates < 128" "length ext < 128"
  shows "\<exists>req. CW80211ParseProbeRequest mem (probe_bytes h s rates ext) = Ret req \<and>
    CW80211AssembleProbeResponse mem m w req =
      (if probe_rates_length rates ext \<le> 17
       then Ret (fmsg (probe_response_bytes (fr_SA h) m b w rates ext) (17 - probe_rates_length rates ext))
       else Fault)"
  using parse_probe [OF assms(1,3-6)] assemble_probe_response [OF assms(1,2)] assms(4) by simp


text \<open>
  An association response the AC assembled is parsed back to what was put in: the station's address, the
  address and the BSSID of the WTP, the capability, status 0, the association id with its two top bits set, and the
  rates. With more than nine rates it does not fit into its block.
\<close>

theorem association_response_roundtrip:
  assumes "ample mem" "rates \<noteq> []" "length rates < 128"
  shows "case CW80211AssembleAssociationResponseAC mem (Some (eth_bytes m)) (Some (eth_bytes b)) cap aid (Some rates)
           (int (length rates)) req of
      Ret (block, off) \<Rightarrow> length rates \<le> 9 \<and>
        (\<exists>h. CW80211ParseAssociationResponse mem (take off block @ rest) =
           Ret (h, 0, \<lparr> DA = fr_SA (areq_hdr req), resp_capabilityBit = cap, assID = aid OR 0xC000,
                       supportedRatesLen = int (length rates), supportedRates = rates \<rparr>) \<and>
         fr_DA h = fr_SA (areq_hdr req) \<and> fr_SA h = m \<and> fr_BSSID h = b \<and>
         WLAN_FC_GET_TYPE (fr_control h) = WLAN_FC_TYPE_MGMT \<and> WLAN_FC_GET_STYPE (fr_control h) = 1)
    | Raise e \<Rightarrow> False
    | Fault \<Rightarrow> 9 < length rates"
proof (cases "length rates \<le> 9")
  case True
  have "set_bit 15 (set_bit 14 aid) = (aid OR 0x4000) OR 0x8000" by (simp add: set_bit_eq_or or.commute)
  also have "\<dots> = aid OR (0x4000 OR 0x8000)" by (rule or.assoc)
  finally have "set_bit 15 (set_bit 14 aid) = aid OR 0xC000" by simp
  then show ?thesis
    using True assemble_association_AC [OF assms(1,2), of m b cap aid req] parse_association [OF assms, of "fr_SA (areq_hdr req)" m b cap aid rest]
    by (simp add: fmsg_def IEEE80211_FC_def WLAN_FC_GET_TYPE_def WLAN_FC_GET_STYPE_def)
qed (use assemble_association_AC [OF assms(1,2), of m b cap aid req] in simp)

subsection \<open>Data frames\<close>

text \<open>The two bytes of a number the other way round.\<close>

definition swap16 :: "16 word \<Rightarrow> 16 word" where
  "swap16 v = of_be16 (rev (be16 v))"

lemma le16_swap16: "le16 (swap16 v) = be16 v"
proof -
  have "be16 (of_be16 [a, b]) = [a, b]" for a b :: byte
    unfolding be16_def of_be16.simps by (auto intro!: bit_word_eqI simp: bit_simps byte_high)
  then show ?thesis by (simp add: le16_def swap16_def be16_def)
qed

definition from_DS :: "eth \<Rightarrow> eth \<Rightarrow> eth \<Rightarrow> 16 word \<Rightarrow> byte list" where
  "from_DS da sa b s = header_bytes80211 \<lparr> fr_control = 0x208, fr_duration = 0, fr_DA = da, fr_SA = b, fr_BSSID = sa, fr_seqCtrl = swap16 s \<rparr>"

lemma length_from_DS [simp]: "length (from_DS da sa b s) = 24"
  by (simp add: from_DS_def)

lemma assemble_from_DS:
  assumes "ample mem"
  shows "CW80211AssembleDataFrameHdr mem sa da (Some b) s 0 1 = Ret (from_DS da sa b s, 24)"
proof -
  have "set_bit 9 (unset_bit 8 (IEEE80211_FC WLAN_FC_TYPE_DATA 0)) = (0x208 :: 16 word)"
    by (simp add: IEEE80211_FC_def set_bit_eq_or unset_bit_eq_and_not)
  then show ?thesis
    using new_frame_eq [OF assms, of 24]
    by (simp add: CW80211AssembleDataFrameHdr_def CW80211AssembleIEFrameControlData_def frame80211_simps from_DS_def header_bytes80211_def
        le16_swap16 be16_zero le16_zero Let_def) (simp add: fmsg_def be16_zero le16_zero)
qed

lemma parse_from_DS:
  "CW80211ParseDataFrameFromDS (from_DS da sa b s @ rest) =
    Ret \<lparr> fr_control = 0x208, fr_duration = 0, fr_DA = da, fr_SA = sa, fr_BSSID = b, fr_seqCtrl = swap16 s \<rparr>"
  by (simp add: CW80211ParseDataFrameFromDS_def from_DS_def parse_header_eq)

lemma parse_to_DS:
  "CW80211ParseDataFrameToDS (header_bytes80211 h @ rest) = Ret (h\<lparr> fr_BSSID := fr_DA h, fr_SA := fr_SA h, fr_DA := fr_BSSID h \<rparr>)"
  by (simp add: CW80211ParseDataFrameToDS_def parse_header_eq)

text \<open>
  The frame the AC makes of a station's data frame has a new header: destination, source, BSSID and
  payload are those of the frame, the direction is turned round, but the bytes of the sequence control are exchanged, and
  what else was in the frame control (a retry, a protected frame) is lost.
\<close>

theorem relayed_data_frame:
  assumes "ample mem"
  shows "\<exists>out d. relay_frame mem (header_bytes80211 h @ body) (int (24 + length body)) = Ret out \<and>
    CW80211ParseDataFrameFromDS out = Ret d \<and> drop 24 out = body \<and>
    fr_DA d = fr_BSSID h \<and> fr_SA d = fr_SA h \<and> fr_BSSID d = fr_DA h \<and> fr_seqCtrl d = swap16 (fr_seqCtrl h) \<and> fr_control d = 0x208"
  using parse_from_DS [of "fr_BSSID h" "fr_SA h" "fr_DA h" "fr_seqCtrl h" body]
  by (simp add: relay_frame_def parse_to_DS assemble_from_DS assms ample_malloc copy_bytes_def)

end
