(* ===== verification/Spec2Isabelle.thy ===== *)
theory Spec2Isabelle
  imports StationTable CWLists SafeList TimerLib Protocol TransportHeader ReceivedFragments ReportExchange WTPPending
    WTPStates ACServer ACRun WTPUpdate Frames80211
begin

text \<open>
  This is a model of openCAPWAP as it stands in \<^verbatim>\<open>src/capwap\<close>: an access controller (AC), which
  manages wireless termination points (WTPs) over the CAPWAP protocol of RFC 5415 with the binding for IEEE 802.11
  of RFC 5416. The daemons are taken as the makefile builds them by default: without DTLS, with split MAC, with IPv4
  sockets. The theories are about the daemons' own logic: the data structures of both, the encoding of packets and
  messages, and the state machines that exchange them.

  \<^bold>\<open>How the program works, and where it is modelled.\<close> A thread of the AC reads datagrams. It answers a Discovery Request
  itself; every other packet belongs to the session of the WTP with its address, one entry of the array \<^verbatim>\<open>gWTPs\<close> with a
  thread of its own, and is put into the queue of the session. The thread of the session takes packets from the queue,
  collects fragments until a message is complete, and hands the message to the handler of its state: Join, Configure,
  Data Check, Run. A WTP runs through Discovery, Sulking, Join, Configure, Data Check and Run in the loop of its
  \<^verbatim>\<open>main\<close>, where each state sends a request and waits for the response. Both daemons use one queue of timers and the
  same functions for packets.

  \<^item> \<open>Prelude\<close>: bytes and big-endian fields; the result type of C functions, \<open>Ret\<close> for success, \<open>Raise\<close> for an error
    of \<^verbatim>\<open>CWErrorHandling.h\<close>, \<open>Fault\<close> for an access outside an allocated block or through a null or dangling pointer.
  \<^item> \<open>ErrorHandling\<close> (\<^verbatim>\<open>CWErrorHandling.c\<close>): the last error of a thread, and what \<^verbatim>\<open>CWErrorHandleLast\<close> and the macro
    \<^verbatim>\<open>CWErr\<close> make of it. An error for which there was no memory ends the thread; a failure that no error belongs to is taken
    for a success when the last error was one, and ends the process when there was none. The states of both daemons follow
    these ways out.
  \<^item> \<open>StationTree\<close>, \<open>StationTable\<close> (\<^verbatim>\<open>CWAVL.c\<close>, and its users in \<^verbatim>\<open>ACRunState.c\<close> and \<^verbatim>\<open>CWTunnel.c\<close>): the tree from a
    station's address to its WTP. Pointers are values of a tree datatype. Insertion and lookup are those of a balanced
    search tree; deletion is shown to remove exactly its station where it returns, and to crash on four
    stations because it rotates to the wrong side.
  \<^item> \<open>CWLists\<close> (\<^verbatim>\<open>CWList.c\<close>), \<open>SafeList\<close> (\<^verbatim>\<open>CWSafeList.c\<close>): the queue of packets is a doubly linked list on an explicit
    heap; every operation refines the one of a HOL list.
  \<^item> \<open>TimerLib\<close> (\<^verbatim>\<open>timerlib.c\<close>): the queue of timers, the ticker thread and the interval timer of the process as one
    state, each critical section an operation; the invariant of all interleavings, the order of expirations, and the lost
    microsecond that can stop the ticker for good.
  \<^item> \<open>Protocol\<close>, \<open>Elements\<close>, \<open>ACElements\<close>, \<open>WTPElements\<close> (\<^verbatim>\<open>CWProtocol.c\<close>, \<^verbatim>\<open>ACProtocol.c\<close>, \<^verbatim>\<open>WTPProtocol.c\<close> and the
    \<^verbatim>\<open>_User\<close> files): store and retrieve primitives on a message buffer, and every message element either side assembles or
    parses. A buffer is its allocated block with an offset, so that each element that is larger than its block is a
    \<open>Fault\<close> of the model. \<open>ElementExchange\<close>, \<open>ReportExchange\<close>: what one side assembles the other reads; each pair of an assemble and a
    parse function is an interpretation of the locale \<open>msg_elem_exchange\<close>.
  \<^item> \<open>TransportHeader\<close>, \<open>Fragments\<close>, \<open>ReceivedFragments\<close> (\<^verbatim>\<open>CWProtocol.c\<close>, \<^verbatim>\<open>CWBinding.c\<close>): the bit fields of the CAPWAP
    header, fragmentation, and reassembly from packets in any order with repetitions.
  \<^item> \<open>ControlMessages\<close>: the loop of every parse function over the elements of a message, the array of elements
    of every assemble function, and the way of a message from one side to the other. That a parse function
    returns, whatever it is given, is an interpretation of \<open>forward_branch\<close> for its \<^verbatim>\<open>switch\<close>.
  \<^item> \<open>Discovery\<close>, \<open>DiscoveryState\<close> (\<^verbatim>\<open>WTPDiscoveryState.c\<close>, \<^verbatim>\<open>ACDiscoveryState.c\<close>, \<^verbatim>\<open>WTPSulkingState.c\<close>), \<open>JoinMessages\<close>,
    \<open>JoinStates\<close> (\<^verbatim>\<open>ACJoinState.c\<close>, \<^verbatim>\<open>WTPJoinState.c\<close>), \<open>Binding\<close> (\<^verbatim>\<open>ACBinding.c\<close>, \<^verbatim>\<open>WTPBinding.c\<close>), \<open>ConfigureMessages\<close>,
    \<open>ConfigureStates\<close> (\<^verbatim>\<open>ACConfigureState.c\<close>, \<^verbatim>\<open>WTPConfigureState.c\<close>), \<open>DataCheck\<close> (\<^verbatim>\<open>WTPDataCheckState.c\<close> and the parts of
    \<^verbatim>\<open>ACRunState.c\<close> it shares): the messages of each state on both sides, what each side stores, and the handlers of the AC.
    The properties with \<^emph>\<open>exchange\<close> in their name say what arrives, those with \<^emph>\<open>agreement\<close> compose request,
    handler, response and what the WTP makes of it.
  \<^item> \<open>WLANConfiguration\<close> (\<^verbatim>\<open>ACIEEEConfigurationState.c\<close>, \<^verbatim>\<open>WTPIEEEConfigurationState.c\<close>, \<^verbatim>\<open>WTPRadio.c\<close>): how an
    operator's command makes a radio of a WTP an access point. \<open>ACRun\<close> (\<^verbatim>\<open>ACRunState.c\<close>): what the AC does with a control
    message of the Run state; the loops over the elements of every message end. \<open>EchoTimer\<close> (\<^verbatim>\<open>WTPRunState.c\<close>): the timer of the
    WTP's Echo Requests, which every accepted message starts again.
  \<^item> \<open>WTPUpdate\<close> (\<^verbatim>\<open>CWVendorPayloadsAC.c\<close>, \<^verbatim>\<open>CWVendorPayloadsWTP.c\<close>, \<^verbatim>\<open>WTPRunState.c\<close>): commands for the UCI daemon of a
    WTP and the update of its software, from the operator's command to the file with the package: what arrives in
    whatever order is the package, unless a fragment is repeated.
  \<^item> \<open>ACSession\<close> (\<^verbatim>\<open>ACRetransmission.c\<close>, \<^verbatim>\<open>CWThread.c\<close>), \<open>ACServer\<close> (\<^verbatim>\<open>ACMainLoop.c\<close>): one session, with its timers; and
    all sessions, as a step relation between the receiving thread and the threads of the sessions, with the
    invariant that their counters agree with the number of the running threads and of those an error has ended.
  \<^item> \<open>WTPRetransmission\<close>, \<open>WTPPending\<close> (\<^verbatim>\<open>WTPRetransmission.c\<close>, \<^verbatim>\<open>WTPRunStateCheck.c\<close>, \<^verbatim>\<open>WTP.c\<close>): how a WTP repeats its requests, waiting or
    with a timer. \<open>WTPStates\<close> (\<^verbatim>\<open>WTP.c\<close> and the state files): the state machine of the WTP.
  \<^item> \<open>Frames80211\<close> (\<^verbatim>\<open>CW80211InformationElements.c\<close>, \<^verbatim>\<open>CWTunnel.c\<close>): the IEEE 802.11 frames both daemons assemble and parse, with the
    sizes of their blocks, and the conversion to and from 802.3.

  \<^bold>\<open>Conventions.\<close> A global variable or a structure is a field of a record that the operations pass on. What the
  program does not determine is an argument: whether \<^verbatim>\<open>malloc\<close> serves a request (\<open>mem\<close>), whether a datagram can be
  sent (\<open>net\<close>), the clock, what uninitialised memory holds (\<open>junk\<close>, \<open>garbage\<close>, \<open>stack\<close>), the byte order of the
  host (\<open>le\<close>). A C \<^verbatim>\<open>int\<close> is an \<open>int\<close>, a \<^verbatim>\<open>char\<close>, \<^verbatim>\<open>unsigned short\<close> or \<^verbatim>\<open>unsigned int\<close> field of the protocol a word.
  Sizes of structures are those of a 64-bit host. Most properties assume that memory is served (\<open>ample\<close>); the
  definitions hold without it.

  \<^bold>\<open>Loops.\<close> A loop whose end is not obvious is a \<open>partial_function\<close> into \<open>option\<close>, where \<open>None\<close> is a loop without
  end, and its end is proved or refuted (\<open>reassembly_trusts_sizes\<close>). The ten rounds of
  the Discovery are the constant of the code. A list of outcomes of the network that runs out means that the
  program waits.

  \<^bold>\<open>Not modelled.\<close> Of the Run state: data packets on the AC (\<^verbatim>\<open>ACRunState.c\<close>) and the WTP's handler (\<^verbatim>\<open>WTPRunState.c\<close>) but
  for WLANs, updates and the echo timer; the handlers are arguments of the models of the session thread and of the WTP's state machine.
  The management of stations by the WTP (\<^verbatim>\<open>CW80211ManagementFrame.c\<close>), the tap device (\<^verbatim>\<open>tap.c\<close>) and the update agent (\<^verbatim>\<open>WUA.c\<close>),
  which are mainly calls of the kernel's interfaces and of other processes. Configuration files, logging, the
  wrappers of threads, sockets and OpenSSL, and the code for nl80211 drivers: I/O and calls of libraries. The
  vendored hostapd and netopeer sources are not part of the program's own logic.
\<close>

end
